(* ===== verification/Js_Value.thy ===== *)
theory Js_Value
  imports Prelude
begin

text \<open>
  The JavaScript values the collector handles: what \<open>JSON.parse\<close> yields, plus \<open>undefined\<close> and
  the non-finite numbers. With them the conversions and tests the source applies to such values:
  member access with optional chaining, object spread, truthiness, \<open>??\<close>, \<open>String(v)\<close>,
  \<open>Number(v)\<close>, \<open>Number.isInteger\<close> and \<open>JSON.stringify\<close>. Finite numbers are exact rationals:
  the rounding of a decimal literal to a double is not modelled, and printing is positional, which
  is what JavaScript prints between 1e-6 and 1e21.
\<close>

section \<open>Numbers\<close>

datatype jsnum = Fin rat | PInf | NInf | NaN

fun num_lt :: "jsnum \<Rightarrow> jsnum \<Rightarrow> bool" where
  "num_lt NaN _ = False"
| "num_lt _ NaN = False"
| "num_lt (Fin a) (Fin b) = (a < b)"
| "num_lt NInf y = (y \<noteq> NInf)"
| "num_lt x PInf = (x \<noteq> PInf)"
| "num_lt _ _ = False"

text \<open>\<open>===\<close> on numbers: \<open>NaN\<close> differs from itself.\<close>

definition num_eq :: "jsnum \<Rightarrow> jsnum \<Rightarrow> bool" where
  "num_eq a b \<longleftrightarrow> a = b \<and> a \<noteq> NaN"

definition num_le :: "jsnum \<Rightarrow> jsnum \<Rightarrow> bool" where
  "num_le a b \<longleftrightarrow> num_lt a b \<or> num_eq a b"

definition is_finite :: "jsnum \<Rightarrow> bool" where
  "is_finite n = (case n of Fin _ \<Rightarrow> True | _ \<Rightarrow> False)"

text \<open>\<open>String(n)\<close>: the decimal expansion, at most \<open>fuel\<close> fraction digits.\<close>

fun frac_digits :: "nat \<Rightarrow> rat \<Rightarrow> string" where
  "frac_digits 0 r = []"
| "frac_digits (Suc n) r =
     (if r = 0 then []
      else digit_char (nat \<lfloor>10 * r\<rfloor>) # frac_digits n (10 * r - of_int \<lfloor>10 * r\<rfloor>))"

definition rat_str :: "rat \<Rightarrow> string" where
  "rat_str r =
     (let a = \<bar>r\<bar>; n = \<lfloor>a\<rfloor>; f = a - of_int n
      in (if r < 0 then ''-'' else []) @ nat_str (nat n) @
         (if f = 0 then [] else ''.'' @ frac_digits 17 f))"

fun num_str :: "jsnum \<Rightarrow> string" where
  "num_str (Fin r) = rat_str r"
| "num_str PInf = ''Infinity''"
| "num_str NInf = ''-Infinity''"
| "num_str NaN = ''NaN''"

text \<open>\<open>Number(s)\<close> on a string.\<close>

definition mantissa :: "string \<Rightarrow> string \<Rightarrow> rat" where
  "mantissa ip fp = of_nat (digits_val (ip @ fp)) / 10 ^ length fp"

definition exponent :: "string \<Rightarrow> int option" where
  "exponent r =
     (let (neg, ds) = (case r of [] \<Rightarrow> (False, [])
                       | c # cs \<Rightarrow> if c = CHR ''-'' then (True, cs) else if c = CHR ''+'' then (False, cs) else (False, r))
      in if ds = [] \<or> \<not> list_all is_digit ds then None
         else Some (if neg then - int (digits_val ds) else int (digits_val ds)))"

definition scale10 :: "rat \<Rightarrow> int \<Rightarrow> rat" where
  "scale10 m e = (if e < 0 then m / 10 ^ nat (- e) else m * 10 ^ nat e)"

definition decimal :: "string \<Rightarrow> jsnum" where
  "decimal t =
     (let ip = takeWhile is_digit t; r1 = dropWhile is_digit t;
          r1' = (case r1 of [] \<Rightarrow> [] | c # cs \<Rightarrow> if c = CHR ''.'' then cs else []);
          fp = takeWhile is_digit r1';
          r2 = (case r1 of [] \<Rightarrow> [] | c # cs \<Rightarrow> if c = CHR ''.'' then dropWhile is_digit cs else r1)
      in if ip = [] \<and> fp = [] then NaN
         else case r2 of [] \<Rightarrow> Fin (mantissa ip fp)
            | c # cs \<Rightarrow>
                if c = CHR ''e'' \<or> c = CHR ''E''
                then (case exponent cs of None \<Rightarrow> NaN | Some e \<Rightarrow> Fin (scale10 (mantissa ip fp) e))
                else NaN)"

definition neg_num :: "jsnum \<Rightarrow> jsnum" where
  "neg_num n = (case n of Fin r \<Rightarrow> Fin (- r) | PInf \<Rightarrow> NInf | NInf \<Rightarrow> PInf | NaN \<Rightarrow> NaN)"

definition unsigned_number :: "string \<Rightarrow> jsnum" where
  "unsigned_number t = (if t = ''Infinity'' then PInf else decimal t)"

definition radix_digit :: "char \<Rightarrow> nat" where
  "radix_digit c = (let d = lower_char c in if is_digit d then digit_val d else if is_lower d then code d - 87 else 99)"

definition radix_number :: "nat \<Rightarrow> string \<Rightarrow> jsnum" where
  "radix_number b ds =
     (if ds = [] \<or> \<not> list_all (\<lambda>c. radix_digit c < b) ds then NaN
      else Fin (of_nat (foldl (\<lambda>n c. b * n + radix_digit c) 0 ds)))"

definition str_number :: "string \<Rightarrow> jsnum" where
  "str_number s =
     (let t = trim s in
      if t = [] then Fin 0
      else if starts_with ''0x'' (lower t) then radix_number 16 (drop 2 t)
      else if starts_with ''0o'' (lower t) then radix_number 8 (drop 2 t)
      else if starts_with ''0b'' (lower t) then radix_number 2 (drop 2 t)
      else case t of
        [] \<Rightarrow> Fin 0
      | c # cs \<Rightarrow> if c = CHR ''-'' then neg_num (unsigned_number cs)
                  else if c = CHR ''+'' then unsigned_number cs
                  else unsigned_number t)"

section \<open>Values\<close>

datatype js =
    JUndef
  | JNull
  | JBool bool
  | JNum jsnum
  | JStr string
  | JArr "js list"
  | JObj "(string \<times> js) list"

type_synonym obj = "(string \<times> js) list"

abbreviation JInt :: "int \<Rightarrow> js" where
  "JInt i \<equiv> JNum (Fin (of_int i))"

text \<open>\<open>v.k\<close> and \<open>v?.k\<close>: \<open>undefined\<close> where there is no such own field.\<close>

fun jget :: "string \<Rightarrow> js \<Rightarrow> js" where
  "jget k (JObj fs) = (case map_of fs k of Some v \<Rightarrow> v | None \<Rightarrow> JUndef)"
| "jget k _ = JUndef"

definition nullish :: "js \<Rightarrow> bool" where
  "nullish v \<longleftrightarrow> v = JUndef \<or> v = JNull"

text \<open>\<open>a ?? b\<close>\<close>

definition jor :: "js \<Rightarrow> js \<Rightarrow> js" where
  "jor a b = (if nullish a then b else a)"

text \<open>A field written with object spread, \<open>{ ...o, k: v }\<close>, keeps its place or goes last.\<close>

fun put :: "string \<Rightarrow> js \<Rightarrow> obj \<Rightarrow> obj" where
  "put k v [] = [(k, v)]"
| "put k v ((k', v') # fs) = (if k' = k then (k, v) # fs else (k', v') # put k v fs)"

definition jset :: "string \<Rightarrow> js \<Rightarrow> js \<Rightarrow> js" where
  "jset k v j = (case j of JObj fs \<Rightarrow> JObj (put k v fs) | _ \<Rightarrow> JObj [(k, v)])"

definition jdel :: "string \<Rightarrow> js \<Rightarrow> js" where
  "jdel k j = (case j of JObj fs \<Rightarrow> JObj (filter (\<lambda>(k', _). k' \<noteq> k) fs) | _ \<Rightarrow> j)"

text \<open>Truthiness, and the \<open>typeof\<close> tests.\<close>

fun truthy :: "js \<Rightarrow> bool" where
  "truthy JUndef = False"
| "truthy JNull = False"
| "truthy (JBool b) = b"
| "truthy (JNum n) = (n \<noteq> NaN \<and> n \<noteq> Fin 0)"
| "truthy (JStr s) = (s \<noteq> [])"
| "truthy (JArr _) = True"
| "truthy (JObj _) = True"

definition is_str :: "js \<Rightarrow> bool" where
  "is_str v = (case v of JStr _ \<Rightarrow> True | _ \<Rightarrow> False)"

definition is_num :: "js \<Rightarrow> bool" where
  "is_num v = (case v of JNum _ \<Rightarrow> True | _ \<Rightarrow> False)"

definition is_bool :: "js \<Rightarrow> bool" where
  "is_bool v = (case v of JBool _ \<Rightarrow> True | _ \<Rightarrow> False)"

definition is_arr :: "js \<Rightarrow> bool" where
  "is_arr v = (case v of JArr _ \<Rightarrow> True | _ \<Rightarrow> False)"

text \<open>\<open>typeof v === "object"\<close> holds of objects, arrays and null.\<close>

definition is_object :: "js \<Rightarrow> bool" where
  "is_object v = (case v of JObj _ \<Rightarrow> True | JArr _ \<Rightarrow> True | JNull \<Rightarrow> True | _ \<Rightarrow> False)"

text \<open>An object that is neither null nor an array.\<close>

definition is_plain_object :: "js \<Rightarrow> bool" where
  "is_plain_object v = (case v of JObj _ \<Rightarrow> True | _ \<Rightarrow> False)"

definition str_of :: "js \<Rightarrow> string option" where
  "str_of v = (case v of JStr s \<Rightarrow> Some s | _ \<Rightarrow> None)"

text \<open>\<open>Number.isInteger(v)\<close> with the integer it is.\<close>

definition int_of :: "js \<Rightarrow> int option" where
  "int_of v = (case v of JNum (Fin r) \<Rightarrow> (if r = of_int \<lfloor>r\<rfloor> then Some \<lfloor>r\<rfloor> else None) | _ \<Rightarrow> None)"

text \<open>\<open>===\<close> on primitive values. Objects and arrays are equal only to themselves, and no
  comparison of the source has the same object on both sides.\<close>

fun strict_eq :: "js \<Rightarrow> js \<Rightarrow> bool" where
  "strict_eq (JNum a) (JNum b) = num_eq a b"
| "strict_eq (JArr _) _ = False"
| "strict_eq (JObj _) _ = False"
| "strict_eq a b = (a = b)"

text \<open>\<open>String(v)\<close>\<close>

fun js_string :: "js \<Rightarrow> string" where
  "js_string JUndef = ''undefined''"
| "js_string JNull = ''null''"
| "js_string (JBool b) = (if b then ''true'' else ''false'')"
| "js_string (JNum n) = num_str n"
| "js_string (JStr s) = s"
| "js_string (JArr xs) = join '','' (map (\<lambda>x. if nullish x then [] else js_string x) xs)"
| "js_string (JObj _) = ''[object Object]''"

text \<open>\<open>Number(v)\<close>: an array converts through its string.\<close>

fun js_number :: "js \<Rightarrow> jsnum" where
  "js_number JUndef = NaN"
| "js_number JNull = Fin 0"
| "js_number (JBool b) = Fin (if b then 1 else 0)"
| "js_number (JNum n) = n"
| "js_number (JStr s) = str_number s"
| "js_number (JArr xs) = str_number (js_string (JArr xs))"
| "js_number (JObj _) = NaN"

section \<open>\<open>JSON.stringify\<close>\<close>

definition hex_digit :: "nat \<Rightarrow> char" where
  "hex_digit n = char_of (if n < 10 then 48 + n else 87 + n)"

definition escape_char :: "char \<Rightarrow> string" where
  "escape_char c =
     (let n = code c in
      if n = 34 then [char_of (92::nat), char_of (34::nat)]
      else if n = 92 then [char_of (92::nat), char_of (92::nat)]
      else if n = 8 then char_of (92::nat) # ''b''
      else if n = 9 then char_of (92::nat) # ''t''
      else if n = 10 then char_of (92::nat) # ''n''
      else if n = 12 then char_of (92::nat) # ''f''
      else if n = 13 then char_of (92::nat) # ''r''
      else if n < 32 then char_of (92::nat) # ''u00'' @ [hex_digit (n div 16), hex_digit (n mod 16)]
      else [c])"

definition quote :: "string \<Rightarrow> string" where
  "quote s = CHR 0x22 # concat (map escape_char s) @ [CHR 0x22]"

text \<open>Fields whose value is \<open>undefined\<close> are left out of an object and become null in an array.\<close>

fun stringify :: "js \<Rightarrow> string" where
  "stringify JUndef = ''null''"
| "stringify JNull = ''null''"
| "stringify (JBool b) = (if b then ''true'' else ''false'')"
| "stringify (JNum n) = (if is_finite n then num_str n else ''null'')"
| "stringify (JStr s) = quote s"
| "stringify (JArr xs) = ''['' @ join '','' (map stringify xs) @ '']''"
| "stringify (JObj fs) =
     ''{'' @ join '','' (concat (map (\<lambda>(k, v). if v = JUndef then [] else [quote k @ '':'' @ stringify v]) fs)) @ ''}''"

section \<open>Laws\<close>

lemma map_of_put [simp]: "map_of (put k v fs) = (map_of fs)(k \<mapsto> v)"
  by (induction k v fs rule: put.induct) auto

lemma jget_jset [simp]: "jget k (jset k v j) = v"
  by (cases j) (auto simp: jset_def)

lemma jget_jset_other [simp]: "k' \<noteq> k \<Longrightarrow> jget k' (jset k v j) = jget k' j"
  by (cases j) (auto simp: jset_def)

lemma map_of_filter_key: "map_of (filter (\<lambda>(k', _). k' \<noteq> k) fs) x = (if x = k then None else map_of fs x)"
  by (induction fs) auto

lemma jget_jdel [simp]: "jget k' (jdel k j) = (if k' = k then JUndef else jget k' j)"
  by (cases j) (auto simp: jdel_def map_of_filter_key)

lemma truthy_not_nullish: "truthy v \<Longrightarrow> \<not> nullish v"
  by (cases v) (auto simp: nullish_def)

lemma int_of_JInt [simp]: "int_of (JInt i) = Some i"
  by (simp add: int_of_def)

lemma join_member: "x \<in> set xs \<Longrightarrow> contains x (join sep xs)"
  by (induction sep xs rule: join.induct) (auto intro: contains_appendI1 contains_appendI2)

text \<open>Every key that occurs in a value, at any depth, below fields that \<open>stringify\<close> prints.\<close>

fun deep_keys :: "js \<Rightarrow> string list" where
  "deep_keys (JArr xs) = concat (map deep_keys xs)"
| "deep_keys (JObj fs) = concat (map (\<lambda>(k, v). if v = JUndef then [] else k # deep_keys v) fs)"
| "deep_keys _ = []"

lemma stringify_deep_keys: "k \<in> set (deep_keys j) \<Longrightarrow> contains (quote k) (stringify j)"
proof (induction j rule: deep_keys.induct)
  case (1 xs)
  then obtain x where x: "x \<in> set xs" "k \<in> set (deep_keys x)" by auto
  with 1 have "contains (quote k) (stringify x)" by blast
  moreover have "contains (stringify x) (join '','' (map stringify xs))"
    using x by (intro join_member) auto
  ultimately have "contains (quote k) (join '','' (map stringify xs))"
    by (auto simp: contains_iff_sublist intro: sublist_order.order_trans)
  then show ?case by (auto intro: contains_appendI1 contains_appendI2)
next
  case (2 fs)
  let ?item = "\<lambda>(k, v). if v = JUndef then [] else [quote k @ '':'' @ stringify v]"
  from 2 obtain k' v where kv: "(k', v) \<in> set fs" "v \<noteq> JUndef" "k = k' \<or> k \<in> set (deep_keys v)"
    by (auto split: if_splits)
  have "contains (quote k) (quote k' @ '':'' @ stringify v)"
    using kv 2 by (auto intro: contains_appendI1 contains_appendI2)
  moreover have "contains (quote k' @ '':'' @ stringify v) (join '','' (concat (map ?item fs)))"
    using kv by (intro join_member) force
  ultimately have "contains (quote k) (join '','' (concat (map ?item fs)))"
    by (auto simp: contains_iff_sublist intro: sublist_order.order_trans)
  then show ?case by (auto intro: contains_appendI1 contains_appendI2)
qed auto

end
