(* ===== verification/Store.thy ===== *)
theory Store
  imports Js_Value
begin

text \<open>
  The collector's database (\<open>collector/src/db.ts\<close>): a record per table row, the store as a record
  of tables, and the SQL statements the handlers issue as functions on tables. A table is a list of
  rows in insertion order. Columns that hold JSON text hold the value here, since only
  \<open>JSON.stringify\<close> writes them; a timestamp is its number of seconds, as \<open>datetime('now')\<close> has that
  resolution; \<open>None\<close> is SQL's NULL.
\<close>

section \<open>Rows\<close>

record device =
  d_id :: id
  d_descriptor :: js
  d_pools :: "string list"
  d_pools_override :: "string list option"
  d_capabilities :: "string list option"
  d_last_seen :: int
  d_last_beacon :: "js option"
  d_last_net :: "string option"
  d_ttl_s :: "int option"
  d_name :: "string option"
  d_notes :: "string option"

datatype job_status = Waiting | Queued | Claimed | Done | Failed | Cancelled | Skipped

datatype executor_kind = Device | Host

record job =
  j_id :: id
  j_executor :: executor_kind
  j_workload :: string
  j_spec :: js
  j_status :: job_status
  j_created_at :: int
  j_claimed_by :: "string option"
  j_claimed_at :: "int option"
  j_finished_at :: "int option"
  j_lease_ttl_s :: int
  j_max_attempts :: int
  j_attempts :: int
  j_lease_deadline :: "int option"
  j_last_error :: "string option"
  j_priority :: int
  j_parent_job_id :: "id option"
  j_template_id :: "string option"
  j_depends_on :: "id list option"
  j_requested_by :: "string option"
  j_source :: "string option"

record result_row =
  r_job_id :: id
  r_device_id :: id
  r_iter :: int
  r_payload :: js
  r_created_at :: int

record beacon_row =
  b_device_id :: id
  b_job_id :: "id option"
  b_sample :: js
  b_ts :: int

record artifact =
  a_sha256 :: string
  a_name :: "string option"
  a_size :: nat
  a_created_at :: int
  a_app :: "string option"
  a_build :: "string option"
  a_platform :: "string option"
  a_media_type :: "string option"
  a_published_at :: "int option"
  a_publish_seq :: "int option"
  a_channel :: "string option"
  a_pinned :: bool
  a_pin_reason :: "string option"

record baseline =
  bl_suite :: string
  bl_page :: string
  bl_profile :: string
  bl_sha256 :: string

record schedule =
  s_id :: id
  s_cron :: string
  s_template :: js
  s_enabled :: bool
  s_last_run :: "string option"

record lock =
  l_device_id :: id
  l_job_id :: id

record reservation =
  v_device_id :: id
  v_label :: string
  v_note :: "string option"
  v_reserved_by :: "string option"

record executor_row =
  e_name :: string
  e_last_seen :: int
  e_last_job :: "id option"
  e_polls :: nat

record event_row =
  ev_id :: nat
  ev_topic :: string
  ev_payload :: js
  ev_created_at :: int

record template_row =
  t_id :: id
  t_name :: "string option"
  t_spec :: js
  t_created_at :: int
  t_updated_at :: "int option"

text \<open>\<open>event_seq\<close> is the counter behind \<open>AUTOINCREMENT\<close>: an id is never given twice.\<close>

record store =
  devices :: "device list"
  jobs :: "job list"
  results :: "result_row list"
  beacon_samples :: "beacon_row list"
  artifacts :: "artifact list"
  baselines :: "baseline list"
  schedules :: "schedule list"
  device_locks :: "lock list"
  device_reservations :: "reservation list"
  executors :: "executor_row list"
  events :: "event_row list"
  event_seq :: nat
  job_templates :: "template_row list"

definition empty_store :: store where
  "empty_store = \<lparr>devices = [], jobs = [], results = [], beacon_samples = [], artifacts = [],
     baselines = [], schedules = [], device_locks = [], device_reservations = [], executors = [],
     events = [], event_seq = 0, job_templates = []\<rparr>"

definition fresh_job :: "id \<Rightarrow> executor_kind \<Rightarrow> js \<Rightarrow> job" where
  "fresh_job i ex sp = \<lparr>j_id = i, j_executor = ex, j_workload = [], j_spec = sp, j_status = Queued,
     j_created_at = 0, j_claimed_by = None, j_claimed_at = None, j_finished_at = None,
     j_lease_ttl_s = 600, j_max_attempts = 3, j_attempts = 0, j_lease_deadline = None,
     j_last_error = None, j_priority = 0, j_parent_job_id = None, j_template_id = None,
     j_depends_on = None, j_requested_by = None, j_source = None\<rparr>"

section \<open>Statements\<close>

text \<open>
  \<open>SELECT ... WHERE key = k\<close>, \<open>UPDATE ... WHERE key = k\<close>, \<open>DELETE ... WHERE key = k\<close>, and
  \<open>INSERT OR REPLACE\<close>, which removes the row that is there and adds the new one at the end.
\<close>

definition find_row :: "('r \<Rightarrow> 'k) \<Rightarrow> 'k \<Rightarrow> 'r list \<Rightarrow> 'r option" where
  "find_row key k rows = List.find (\<lambda>r. key r = k) rows"

definition has_row :: "('r \<Rightarrow> 'k) \<Rightarrow> 'k \<Rightarrow> 'r list \<Rightarrow> bool" where
  "has_row key k rows \<longleftrightarrow> find_row key k rows \<noteq> None"

definition update_row :: "('r \<Rightarrow> 'k) \<Rightarrow> 'k \<Rightarrow> ('r \<Rightarrow> 'r) \<Rightarrow> 'r list \<Rightarrow> 'r list" where
  "update_row key k f rows = map (\<lambda>r. if key r = k then f r else r) rows"

definition delete_row :: "('r \<Rightarrow> 'k) \<Rightarrow> 'k \<Rightarrow> 'r list \<Rightarrow> 'r list" where
  "delete_row key k rows = filter (\<lambda>r. key r \<noteq> k) rows"

definition replace_row :: "('r \<Rightarrow> 'k) \<Rightarrow> 'r \<Rightarrow> 'r list \<Rightarrow> 'r list" where
  "replace_row key r rows = delete_row key (key r) rows @ [r]"

text \<open>\<open>INSERT ... ON CONFLICT(key) DO UPDATE\<close>\<close>

definition upsert_row :: "('r \<Rightarrow> 'k) \<Rightarrow> 'k \<Rightarrow> ('r \<Rightarrow> 'r) \<Rightarrow> 'r \<Rightarrow> 'r list \<Rightarrow> 'r list" where
  "upsert_row key k f r rows = (if has_row key k rows then update_row key k f rows else rows @ [r])"

section \<open>Laws of the statements\<close>

lemma find_row_SomeD: "find_row key k rows = Some r \<Longrightarrow> r \<in> set rows \<and> key r = k"
  by (auto simp: find_row_def dest: find_SomeD)

lemma find_row_None: "find_row key k rows = None \<longleftrightarrow> k \<notin> key ` set rows"
  by (auto simp: find_row_def find_None)

lemma has_row_iff: "has_row key k rows \<longleftrightarrow> k \<in> key ` set rows"
  by (simp add: has_row_def find_row_None)

lemma find_row_in:
  "distinct (map key rows) \<Longrightarrow> r \<in> set rows \<Longrightarrow> find_row key (key r) rows = Some r"
  by (induction rows) (auto simp: find_row_def image_iff)

lemma find_row_iff:
  "distinct (map key rows) \<Longrightarrow> find_row key k rows = Some r \<longleftrightarrow> r \<in> set rows \<and> key r = k"
  using find_row_in find_row_SomeD by metis

lemma find_row_append [row_simps]:
  "find_row key k (rows @ rows') = coalesce (find_row key k rows) (find_row key k rows')"
  by (induction rows) (auto simp: find_row_def)

lemma find_row_single [row_simps]: "find_row key k [r] = (if key r = k then Some r else None)"
  by (simp add: find_row_def)

lemma find_row_delete [row_simps]:
  "find_row key k' (delete_row key k rows) = (if k' = k then None else find_row key k' rows)"
  by (induction rows) (auto simp: find_row_def delete_row_def)

lemma find_row_replace [row_simps]:
  "find_row key k (replace_row key r rows) = (if k = key r then Some r else find_row key k rows)"
  by (auto simp: replace_row_def row_simps coalesce_def split: option.splits)

lemma set_delete_row [simp]: "set (delete_row key k rows) = {r \<in> set rows. key r \<noteq> k}"
  by (auto simp: delete_row_def)

lemma set_replace_row [simp]: "set (replace_row key r rows) = insert r {r' \<in> set rows. key r' \<noteq> key r}"
  by (auto simp: replace_row_def)

lemma distinct_map_filter': "distinct (map f xs) \<Longrightarrow> distinct (map f (filter P xs))"
  by (rule distinct_map_filter)

lemma distinct_delete_row [simp]: "distinct (map key rows) \<Longrightarrow> distinct (map key (delete_row key k rows))"
  by (simp add: delete_row_def distinct_map_filter)

lemma distinct_replace_row [simp]: "distinct (map key rows) \<Longrightarrow> distinct (map key (replace_row key r rows))"
  by (auto simp: replace_row_def)

lemma length_update_row [simp]: "length (update_row key k f rows) = length rows"
  by (simp add: update_row_def)

lemma set_update_row:
  "set (update_row key k f rows) = {r \<in> set rows. key r \<noteq> k} \<union> f ` {r \<in> set rows. key r = k}"
  by (auto simp: update_row_def)

text \<open>
  An update of a row that does not write its key. The laws need that and nothing else of the update,
  so every \<open>UPDATE\<close> of a handler is an instance.
\<close>

locale row_update =
  fixes key :: "'r \<Rightarrow> 'k" and f :: "'r \<Rightarrow> 'r"
  assumes keeps_key: "key (f r) = key r"
begin

lemma keys_update: "map key (update_row key k f rows) = map key rows"
  by (induction rows) (auto simp: update_row_def keeps_key)

lemma find_update:
  "find_row key k' (update_row key k f rows) =
     (if k' = k then map_option f (find_row key k rows) else find_row key k' rows)"
  by (induction rows) (auto simp: update_row_def find_row_def keeps_key)

lemma find_update_same: "find_row key k (update_row key k f rows) = map_option f (find_row key k rows)"
  by (simp add: find_update)

lemma mem_update:
  "r \<in> set (update_row key k f rows) \<Longrightarrow>
     (r \<in> set rows \<and> key r \<noteq> k) \<or> (\<exists>r0 \<in> set rows. key r0 = k \<and> r = f r0)"
  by (auto simp: set_update_row)

lemma update_preserves:
  assumes "\<forall>r \<in> set rows. P r" and "\<And>r. r \<in> set rows \<Longrightarrow> key r = k \<Longrightarrow> P r \<Longrightarrow> P (f r)"
  shows "\<forall>r \<in> set (update_row key k f rows). P r"
  using assms by (auto simp: set_update_row)

end

section \<open>The environment\<close>

text \<open>
  What a handler reads beside the store: the clock (seconds since the epoch), the host's offset from
  UTC in minutes, this collector's id, and the regular-expression engine of the JavaScript runtime.
\<close>

record env =
  e_now :: int
  e_tz_min :: int
  e_collector :: string
  e_regex :: "string \<Rightarrow> string \<Rightarrow> bool option"

text \<open>\<open>AGE(col)\<close>: seconds since a timestamp.\<close>

definition age :: "env \<Rightarrow> int \<Rightarrow> int" where
  "age e t = e_now e - t"

definition job_ids :: "store \<Rightarrow> id list" where
  "job_ids s = map j_id (jobs s)"

definition find_job :: "id \<Rightarrow> store \<Rightarrow> job option" where
  "find_job i s = find_row j_id i (jobs s)"

definition find_device :: "id \<Rightarrow> store \<Rightarrow> device option" where
  "find_device i s = find_row d_id i (devices s)"

definition lock_of :: "id \<Rightarrow> store \<Rightarrow> id option" where
  "lock_of dev s = map_option l_job_id (find_row l_device_id dev (device_locks s))"

definition reservation_of :: "id \<Rightarrow> store \<Rightarrow> string option" where
  "reservation_of dev s = map_option v_label (find_row v_device_id dev (device_reservations s))"

definition update_job :: "id \<Rightarrow> (job \<Rightarrow> job) \<Rightarrow> store \<Rightarrow> store" where
  "update_job i f s = s\<lparr>jobs := update_row j_id i f (jobs s)\<rparr>"

text \<open>\<open>DELETE FROM device_locks WHERE job_id = ?\<close>\<close>

definition drop_locks :: "id \<Rightarrow> store \<Rightarrow> store" where
  "drop_locks i s = s\<lparr>device_locks := filter (\<lambda>l. l_job_id l \<noteq> i) (device_locks s)\<rparr>"

text \<open>\<open>INSERT OR REPLACE INTO device_locks\<close>\<close>

definition put_lock :: "id \<Rightarrow> id \<Rightarrow> store \<Rightarrow> store" where
  "put_lock dev i s =
     s\<lparr>device_locks := replace_row l_device_id \<lparr>l_device_id = dev, l_job_id = i\<rparr> (device_locks s)\<rparr>"

lemma jobs_update_job [row_simps]: "jobs (update_job i f s) = update_row j_id i f (jobs s)"
  by (simp add: update_job_def)

lemma update_job_frame [frame_simps]:
  "devices (update_job i f s) = devices s" "results (update_job i f s) = results s"
  "device_locks (update_job i f s) = device_locks s"
  "device_reservations (update_job i f s) = device_reservations s"
  "executors (update_job i f s) = executors s" "schedules (update_job i f s) = schedules s"
  "artifacts (update_job i f s) = artifacts s"
  by (simp_all add: update_job_def)

lemma drop_locks_frame [frame_simps]:
  "jobs (drop_locks i s) = jobs s" "devices (drop_locks i s) = devices s"
  "results (drop_locks i s) = results s"
  "device_reservations (drop_locks i s) = device_reservations s"
  "executors (drop_locks i s) = executors s" "schedules (drop_locks i s) = schedules s"
  "artifacts (drop_locks i s) = artifacts s"
  by (simp_all add: drop_locks_def)

lemma put_lock_frame [frame_simps]:
  "jobs (put_lock dev i s) = jobs s" "devices (put_lock dev i s) = devices s"
  "results (put_lock dev i s) = results s"
  "device_reservations (put_lock dev i s) = device_reservations s"
  "executors (put_lock dev i s) = executors s" "schedules (put_lock dev i s) = schedules s"
  "artifacts (put_lock dev i s) = artifacts s"
  by (simp_all add: put_lock_def)

lemma find_job_drop_locks [frame_simps]: "find_job k (drop_locks i s) = find_job k s"
  and find_job_put_lock [frame_simps]: "find_job k (put_lock dev i s) = find_job k s"
  and find_device_update_job [frame_simps]: "find_device k (update_job i f s) = find_device k s"
  and find_device_drop_locks [frame_simps]: "find_device k (drop_locks i s) = find_device k s"
  by (simp_all add: find_job_def find_device_def frame_simps)

lemma lock_of_put_lock [row_simps]:
  "lock_of dev' (put_lock dev i s) = (if dev' = dev then Some i else lock_of dev' s)"
  by (simp add: lock_of_def put_lock_def row_simps)

lemma lock_of_update_job [frame_simps]: "lock_of dev (update_job i f s) = lock_of dev s"
  by (simp add: lock_of_def frame_simps)

lemma lock_of_drop_locks [row_simps]:
  assumes "distinct (map l_device_id (device_locks s))"
  shows "lock_of dev (drop_locks i s) = (if lock_of dev s = Some i then None else lock_of dev s)"
proof (cases "find_row l_device_id dev (device_locks s)")
  case None
  moreover from None have "find_row l_device_id dev (filter (\<lambda>l. l_job_id l \<noteq> i) (device_locks s)) = None"
    by (auto simp: find_row_None)
  ultimately show ?thesis by (simp add: lock_of_def drop_locks_def)
next
  case (Some l)
  then have l: "l \<in> set (device_locks s)" "l_device_id l = dev" by (auto dest: find_row_SomeD)
  have "find_row l_device_id dev (filter (\<lambda>l. l_job_id l \<noteq> i) (device_locks s))
          = (if l_job_id l = i then None else Some l)"
    using l assms eq_key_imp_eq_value
    by (auto simp: find_row_None find_row_iff distinct_map_filter inj_on_def distinct_map)
  with Some show ?thesis by (simp add: lock_of_def drop_locks_def)
qed

end
