(* ===== verification/Tailnet.thy ===== *)
theory Tailnet
  imports Js_Value
begin

text \<open>
  \<open>collector/src/tailnet.ts\<close>: which registrations the tailnet allowlist fences. The
  \<open>tailscale whois\<close> command is outside; its answer is the argument \<open>peer\<close>, or the JSON it printed.
\<close>

record tailnet_peer =
  tp_node :: string
  tp_user :: "string option"

type_synonym admit_decision = "bool \<times> string"

text \<open>\<open>/^(\d{1,3})\.(\d{1,3})\.(\d{1,3})\.(\d{1,3})$/\<close> with its four groups.\<close>

definition quad_group :: "string \<Rightarrow> bool" where
  "quad_group g \<longleftrightarrow> 1 \<le> length g \<and> length g \<le> 3 \<and> list_all is_digit g"

definition dotted_quad :: "string \<Rightarrow> string list option" where
  "dotted_quad ip =
     (let gs = split_on CHR ''.'' ip in if length gs = 4 \<and> list_all quad_group gs then Some gs else None)"

text \<open>\<open>split("::")\<close>\<close>

fun split_elision :: "string \<Rightarrow> string list" where
  "split_elision [] = [[]]"
| "split_elision [c] = [[c]]"
| "split_elision (a # b # s) =
     (if a = CHR '':'' \<and> b = CHR '':'' then [] # split_elision s
      else case split_elision (b # s) of [] \<Rightarrow> [[a]] | p # ps \<Rightarrow> (a # p) # ps)"

definition strip_zeros :: "string \<Rightarrow> string" where
  "strip_zeros s = dropWhile (\<lambda>c. c = CHR ''0'') s"

definition tailscale_prefix :: "string list" where
  "tailscale_prefix = [''fd7a'', ''115c'', ''a1e0'']"

definition is_tailscale_v6 :: "string \<Rightarrow> bool" where
  "is_tailscale_v6 ip =
     (let bare = lower (hd (split_on CHR ''%'' ip)) in
      if CHR '':'' \<notin> set bare then False
      else
        let halves = split_elision bare in
        if length halves > 2 then False
        else
          let h = hd halves; head = (if h = [] then [] else split_on CHR '':'' h) in
          if length head < 3 then False
          else list_all2 (\<lambda>w g. strip_zeros g = strip_zeros w) tailscale_prefix (take 3 head))"

definition is_tailnet_address :: "string \<Rightarrow> bool" where
  "is_tailnet_address ip =
     (case dotted_quad ip of
        Some gs \<Rightarrow>
          (let a = digits_val (gs ! 0); b = digits_val (gs ! 1) in a = 100 \<and> 64 \<le> b \<and> b \<le> 127)
      | None \<Rightarrow> is_tailscale_v6 ip)"

definition is_loopback :: "string \<Rightarrow> bool" where
  "is_loopback ip \<longleftrightarrow> ip = ''127.0.0.1'' \<or> ip = ''::1'' \<or> starts_with ''127.'' ip"

definition normalise_ip :: "string option \<Rightarrow> string" where
  "normalise_ip raw =
     (let s = (case raw of None \<Rightarrow> [] | Some x \<Rightarrow> x)
      in if starts_with ''::ffff:'' s then drop 7 s else s)"

text \<open>
  \<open>parseWhois\<close> on the parsed output, \<open>None\<close> where \<open>JSON.parse\<close> threw. \<open>Inl\<close> is the \<open>TypeError\<close> of
  reading a member of null.
\<close>

definition parse_whois :: "js option \<Rightarrow> unit + tailnet_peer option" where
  "parse_whois parsed =
     (case parsed of
        None \<Rightarrow> Inr None
      | Some v \<Rightarrow>
          if nullish v then Inl ()
          else
            let node = jor (jget ''ComputedName'' (jget ''Node'' v)) (jget ''Name'' (jget ''Node'' v));
                user = jor (jget ''LoginName'' (jget ''UserProfile'' v)) (jget ''DisplayName'' (jget ''UserProfile'' v))
            in case str_of node of
                 None \<Rightarrow> Inr None
               | Some n \<Rightarrow> if n = [] then Inr None
                   else Inr (Some \<lparr>tp_node = n, tp_user = (if nullish user then None else Some (js_string user))\<rparr>))"

definition clean_node :: "string \<Rightarrow> string" where
  "clean_node s =
     (let t = lower (trim s) in if t \<noteq> [] \<and> last t = CHR ''.'' then butlast t else t)"

definition short_node :: "string \<Rightarrow> string" where
  "short_node s = hd (split_on CHR ''.'' s)"

definition peer_allowed :: "tailnet_peer \<Rightarrow> string list \<Rightarrow> bool" where
  "peer_allowed peer allowlist =
     (let entries = filter (\<lambda>e. e \<noteq> []) (map clean_node allowlist) in
      if entries = [] then False
      else
        let node = clean_node (tp_node peer) in
        if node \<in> set entries then True
        else list_ex (\<lambda>e. short_node e = short_node node) entries)"

definition admit :: "string \<Rightarrow> string list \<Rightarrow> tailnet_peer option \<Rightarrow> admit_decision" where
  "admit ip allowlist peer =
     (if allowlist = [] then (True, ''no allowlist configured'')
      else if is_loopback ip then (True, ''loopback'')
      else if \<not> is_tailnet_address ip then (True, ''not a tailnet address; LAN posture applies'')
      else case peer of
        None \<Rightarrow> (False, ''tailnet address '' @ ip @
          '' could not be identified (is the tailscale CLI available to the collector?)'')
      | Some p \<Rightarrow>
          if peer_allowed p allowlist then (True, ''tailnet node '' @ tp_node p)
          else (False, ''tailnet node '' @ tp_node p @ '' is not in FLEET_TAILNET_ALLOWLIST''))"

section \<open>Laws\<close>

lemma admit_refuses_iff:
  "\<not> fst (admit ip allowlist peer) \<longleftrightarrow>
     allowlist \<noteq> [] \<and> \<not> is_loopback ip \<and> is_tailnet_address ip \<and>
     (case peer of None \<Rightarrow> True | Some p \<Rightarrow> \<not> peer_allowed p allowlist)"
  by (auto simp: admit_def split: option.splits)

lemma peer_allowed_listed:
  assumes "e \<in> set allowlist" "clean_node e = clean_node (tp_node p)" "clean_node e \<noteq> []"
  shows "peer_allowed p allowlist"
  using assms unfolding peer_allowed_def Let_def by (auto simp: filter_empty_conv image_iff)

lemma digit_not_dot: "is_digit c \<Longrightarrow> c \<noteq> CHR ''.''"
  by (auto simp: is_digit_def code_def)

lemma split_on_append:
  "d \<notin> set p \<Longrightarrow> split_on d (p @ d # s) = p # split_on d s"
  by (induction p) auto

lemma nat_str_no_dot: "CHR ''.'' \<notin> set (nat_str n)"
  using nat_str_digits [of n] digit_not_dot by blast

lemma length_nat_str: "n < 1000 \<Longrightarrow> length (nat_str n) \<le> 3"
  by (subst nat_str.simps, subst nat_str.simps, subst nat_str.simps) auto

lemma quad_group_nat_str: "n < 1000 \<Longrightarrow> quad_group (nat_str n)"
  using nat_str_digits [of n] length_nat_str [of n] nat_str_nonempty [of n]
  by (simp add: quad_group_def list_all_iff Suc_le_eq)

definition quad_str :: "nat \<Rightarrow> nat \<Rightarrow> nat \<Rightarrow> nat \<Rightarrow> string" where
  "quad_str a b c d = nat_str a @ ''.'' @ nat_str b @ ''.'' @ nat_str c @ ''.'' @ nat_str d"

lemma dotted_quad_str:
  "a < 256 \<Longrightarrow> b < 256 \<Longrightarrow> c < 256 \<Longrightarrow> d < 256 \<Longrightarrow>
     dotted_quad (quad_str a b c d) = Some [nat_str a, nat_str b, nat_str c, nat_str d]"
  by (simp add: dotted_quad_def quad_str_def split_on_append split_on_no_sep nat_str_no_dot
      quad_group_nat_str)

lemma tailnet_v4_range:
  "a < 256 \<Longrightarrow> b < 256 \<Longrightarrow> c < 256 \<Longrightarrow> d < 256 \<Longrightarrow>
     is_tailnet_address (quad_str a b c d) \<longleftrightarrow> a = 100 \<and> 64 \<le> b \<and> b \<le> 127"
  by (simp add: is_tailnet_address_def dotted_quad_str digits_val_nat_str)

end
