(* ===== verification/Match_Expr.thy ===== *)
theory Match_Expr
  imports Js_Value
begin

text \<open>
  \<open>collector/src/match.ts\<close>: the expression language of \<open>targets.match\<close>. A lexer, a
  recursive-descent parser that evaluates while it parses, and the validity test an enqueue makes.
  A thrown \<open>Error\<close> is a value of \<open>match_error\<close>. The JavaScript regular-expression engine behind
  \<open>~\<close> is a parameter \<open>re\<close>: pattern and subject to \<open>Some\<close> verdict, or \<open>None\<close> where
  \<open>new RegExp\<close> throws. The parser is fuelled by the number of tokens, and \<open>eval_match_fuel\<close> shows
  that this is always enough.
\<close>

datatype tok = TNum jsnum | TStr string | TId string | TOp string

datatype match_error =
    UnterminatedString
  | UnexpectedChar char
  | UnexpectedEnd
  | ExpectedParen
  | UnexpectedTok string
  | TrailingTokens
  | NotAList string
  | OutOfFuel

type_synonym regex = "string \<Rightarrow> string \<Rightarrow> bool option"

section \<open>The lexer\<close>

definition num_char :: "char \<Rightarrow> bool" where
  "num_char c \<longleftrightarrow> is_digit c \<or> c = CHR ''.''"

definition id_start :: "char \<Rightarrow> bool" where
  "id_start c \<longleftrightarrow> is_alpha c \<or> c = CHR ''_''"

definition id_char :: "char \<Rightarrow> bool" where
  "id_char c \<longleftrightarrow> is_alpha c \<or> is_digit c \<or> c = CHR ''_''"

definition is_quote :: "char \<Rightarrow> bool" where
  "is_quote c \<longleftrightarrow> code c = 39 \<or> code c = 34"

definition two_ops :: "string list" where
  "two_ops = [''=='', ''!='', ''<='', ''>='', ''&&'', ''||'']"

definition single_ops :: string where
  "single_ops = ''<>~!()''"

definition cons_tok :: "tok \<Rightarrow> match_error + tok list \<Rightarrow> match_error + tok list" where
  "cons_tok t r = (case r of Inl e \<Rightarrow> Inl e | Inr ts \<Rightarrow> Inr (t # ts))"

function lex_match :: "string \<Rightarrow> match_error + tok list" where
  "lex_match [] = Inr []"
| "lex_match (c # cs) =
     (if is_space c then lex_match cs
      else if num_char c then
        cons_tok (TNum (str_number (c # takeWhile num_char cs))) (lex_match (dropWhile num_char cs))
      else if is_quote c then
        (if c \<in> set cs
         then cons_tok (TStr (takeWhile (\<lambda>x. x \<noteq> c) cs)) (lex_match (tl (dropWhile (\<lambda>x. x \<noteq> c) cs)))
         else Inl UnterminatedString)
      else if id_start c then
        cons_tok (TId (c # takeWhile id_char cs)) (lex_match (dropWhile id_char cs))
      else if c # take 1 cs \<in> set two_ops then
        cons_tok (TOp (c # take 1 cs)) (lex_match (drop 1 cs))
      else if c \<in> set single_ops then cons_tok (TOp [c]) (lex_match cs)
      else Inl (UnexpectedChar c))"
  by pat_completeness auto
termination
proof (relation "measure length")
  fix c :: char and cs :: string
  show "(tl (dropWhile (\<lambda>x. x \<noteq> c) cs), c # cs) \<in> measure length"
    using length_dropWhile_le [of "\<lambda>x. x \<noteq> c" cs] by (simp add: le_imp_less_Suc diff_le_self less_imp_diff_less)
qed (auto simp: le_imp_less_Suc length_dropWhile_le)

declare lex_match.simps(2) [simp del]

section \<open>Evaluation while parsing\<close>

text \<open>A field of the descriptor; the two list fields are joined with commas.\<close>

definition list_field :: "string \<Rightarrow> js \<Rightarrow> match_error + js" where
  "list_field k d =
     (let v = jget k d in
      if nullish v then Inr (JStr [])
      else if is_arr v then Inr (JStr (js_string v))
      else Inl (NotAList k))"

definition field_value :: "js \<Rightarrow> string \<Rightarrow> match_error + js" where
  "field_value d x =
     (if x = ''pools'' \<or> x = ''capabilities'' then list_field x d else Inr (jget x d))"

text \<open>The language's own truthiness: unlike JavaScript's, \<open>NaN\<close> counts as true.\<close>

definition match_truthy :: "js \<Rightarrow> bool" where
  "match_truthy v \<longleftrightarrow>
     v \<noteq> JUndef \<and> v \<noteq> JNull \<and> v \<noteq> JBool False \<and> v \<noteq> JNum (Fin 0) \<and> v \<noteq> JStr []"

definition cmp_ops :: "string list" where
  "cmp_ops = [''=='', ''!='', ''<'', ''<='', ''>'', ''>='', ''~'']"

definition like :: "regex \<Rightarrow> js \<Rightarrow> js \<Rightarrow> bool" where
  "like re l r =
     (let subject = js_string (jor l (JStr []))
      in case re (js_string r) subject of
           Some b \<Rightarrow> b
         | None \<Rightarrow> contains (lower (js_string r)) (lower subject))"

definition compare_op :: "regex \<Rightarrow> string \<Rightarrow> js \<Rightarrow> js \<Rightarrow> bool" where
  "compare_op re op l r =
     (if op = ''=='' then js_string l = js_string r
      else if op = ''!='' then js_string l \<noteq> js_string r
      else if op = ''<'' then num_lt (js_number l) (js_number r)
      else if op = ''<='' then num_le (js_number l) (js_number r)
      else if op = ''>'' then num_lt (js_number r) (js_number l)
      else if op = ''>='' then num_le (js_number r) (js_number l)
      else like re l r)"

text \<open>\<open>c.v !== ")"\<close>: the parser looks at the token's text, not at its kind.\<close>

definition closes :: "tok \<Rightarrow> bool" where
  "closes t = (case t of TNum _ \<Rightarrow> False | TStr s \<Rightarrow> s = '')'' | TId s \<Rightarrow> s = '')'' | TOp s \<Rightarrow> s = '')'')"

text \<open>
  The parser. \<open>sub\<close> parses the inside of a parenthesis; \<open>or_expr\<close> passes itself, one nesting
  level down. The two loops take one unit of fuel per round.
\<close>

type_synonym 'v parse = "match_error + ('v \<times> tok list)"

fun primary :: "js \<Rightarrow> (tok list \<Rightarrow> bool parse) \<Rightarrow> tok list \<Rightarrow> js parse" where
  "primary d sub [] = Inl UnexpectedEnd"
| "primary d sub (TNum v # ts) = Inr (JNum v, ts)"
| "primary d sub (TStr s # ts) = Inr (JStr s, ts)"
| "primary d sub (TId x # ts) = (case field_value d x of Inl e \<Rightarrow> Inl e | Inr v \<Rightarrow> Inr (v, ts))"
| "primary d sub (TOp op # ts) =
     (if op = ''('' then
        (case sub ts of
           Inl e \<Rightarrow> Inl e
         | Inr (b, ts') \<Rightarrow>
             (case ts' of [] \<Rightarrow> Inl ExpectedParen
              | t # ts'' \<Rightarrow> if closes t then Inr (JBool b, ts'') else Inl ExpectedParen))
      else if op = ''!'' then
        (case primary d sub ts of Inl e \<Rightarrow> Inl e | Inr (v, ts') \<Rightarrow> Inr (JBool (\<not> match_truthy v), ts'))
      else Inl (UnexpectedTok op))"

definition cmp_expr :: "regex \<Rightarrow> js \<Rightarrow> (tok list \<Rightarrow> bool parse) \<Rightarrow> tok list \<Rightarrow> bool parse" where
  "cmp_expr re d sub ts =
     (case primary d sub ts of
        Inl e \<Rightarrow> Inl e
      | Inr (l, ts') \<Rightarrow>
          (case ts' of
             TOp op # ts'' \<Rightarrow>
               (if op \<in> set cmp_ops then
                  (case primary d sub ts'' of
                     Inl e \<Rightarrow> Inl e
                   | Inr (r, ts3) \<Rightarrow> Inr (compare_op re op l r, ts3))
                else Inr (match_truthy l, ts'))
           | _ \<Rightarrow> Inr (match_truthy l, ts')))"

fun and_rest :: "regex \<Rightarrow> js \<Rightarrow> (tok list \<Rightarrow> bool parse) \<Rightarrow> nat \<Rightarrow> bool \<Rightarrow> tok list \<Rightarrow> bool parse" where
  "and_rest re d sub 0 v ts = Inl OutOfFuel"
| "and_rest re d sub (Suc n) v ts =
     (if ts \<noteq> [] \<and> hd ts = TOp ''&&'' then
        (case cmp_expr re d sub (tl ts) of
           Inl e \<Rightarrow> Inl e
         | Inr (w, ts') \<Rightarrow> and_rest re d sub n (w \<and> v) ts')
      else Inr (v, ts))"

definition and_expr :: "regex \<Rightarrow> js \<Rightarrow> (tok list \<Rightarrow> bool parse) \<Rightarrow> tok list \<Rightarrow> bool parse" where
  "and_expr re d sub ts =
     (case cmp_expr re d sub ts of
        Inl e \<Rightarrow> Inl e
      | Inr (v, ts') \<Rightarrow> and_rest re d sub (Suc (length ts')) v ts')"

fun or_rest :: "regex \<Rightarrow> js \<Rightarrow> (tok list \<Rightarrow> bool parse) \<Rightarrow> nat \<Rightarrow> bool \<Rightarrow> tok list \<Rightarrow> bool parse" where
  "or_rest re d sub 0 v ts = Inl OutOfFuel"
| "or_rest re d sub (Suc n) v ts =
     (if ts \<noteq> [] \<and> hd ts = TOp ''||'' then
        (case and_expr re d sub (tl ts) of
           Inl e \<Rightarrow> Inl e
         | Inr (w, ts') \<Rightarrow> or_rest re d sub n (w \<or> v) ts')
      else Inr (v, ts))"

fun or_expr :: "regex \<Rightarrow> js \<Rightarrow> nat \<Rightarrow> tok list \<Rightarrow> bool parse" where
  "or_expr re d 0 ts = Inl OutOfFuel"
| "or_expr re d (Suc n) ts =
     (case and_expr re d (or_expr re d n) ts of
        Inl e \<Rightarrow> Inl e
      | Inr (v, ts') \<Rightarrow> or_rest re d (or_expr re d n) (Suc (length ts')) v ts')"

definition eval_match :: "regex \<Rightarrow> string \<Rightarrow> js \<Rightarrow> match_error + bool" where
  "eval_match re expr d =
     (case lex_match expr of
        Inl e \<Rightarrow> Inl e
      | Inr toks \<Rightarrow>
          (case or_expr re d (Suc (length toks)) toks of
             Inl e \<Rightarrow> Inl e
           | Inr (b, rest) \<Rightarrow> if rest = [] then Inr b else Inl TrailingTokens))"

definition is_valid_match :: "regex \<Rightarrow> string \<Rightarrow> bool" where
  "is_valid_match re expr = (case eval_match re expr (JObj []) of Inl _ \<Rightarrow> False | Inr _ \<Rightarrow> True)"

section \<open>The fuel is enough\<close>

definition shrinks :: "(tok list \<Rightarrow> 'v parse) \<Rightarrow> bool" where
  "shrinks f \<longleftrightarrow> (\<forall>ts v ts'. f ts = Inr (v, ts') \<longrightarrow> length ts' < length ts)"

definition fuelled :: "nat \<Rightarrow> (tok list \<Rightarrow> 'v parse) \<Rightarrow> bool" where
  "fuelled n f \<longleftrightarrow> (\<forall>ts. length ts < n \<longrightarrow> f ts \<noteq> Inl OutOfFuel)"

lemma shrinksD: "shrinks f \<Longrightarrow> f ts = Inr (v, ts') \<Longrightarrow> length ts' < length ts"
  by (auto simp: shrinks_def)

lemma primary_shrinks:
  assumes "shrinks sub" shows "shrinks (primary d sub)"
proof -
  have "primary d sub ts = Inr (v, ts') \<Longrightarrow> length ts' < length ts" for ts v ts'
  proof (induction ts arbitrary: v ts')
    case (Cons t ts)
    from Cons.prems show ?case
      by (cases t)
         (auto split: if_splits sum.splits list.splits dest!: Cons.IH shrinksD [OF assms])
  qed simp
  then show ?thesis by (auto simp: shrinks_def)
qed

lemma cmp_expr_shrinks:
  assumes "shrinks sub" shows "shrinks (cmp_expr re d sub)"
  unfolding shrinks_def cmp_expr_def
  by (auto split: sum.splits list.splits tok.splits if_splits
      dest!: shrinksD [OF primary_shrinks [OF assms, of d]])

lemma and_rest_length:
  assumes "shrinks sub"
  shows "and_rest re d sub n v ts = Inr (w, ts') \<Longrightarrow> length ts' \<le> length ts"
proof (induction n arbitrary: v ts)
  case (Suc n)
  then show ?case
    using cmp_expr_shrinks [OF assms, of re d]
    by (cases ts) (fastforce split: sum.splits if_splits dest: shrinksD)+
qed simp

lemma and_expr_shrinks:
  assumes "shrinks sub" shows "shrinks (and_expr re d sub)"
  using cmp_expr_shrinks [OF assms, of re d] and_rest_length [OF assms]
  by (fastforce simp: shrinks_def and_expr_def split: sum.splits simp del: and_rest.simps)

lemma or_rest_length:
  assumes "shrinks sub"
  shows "or_rest re d sub n v ts = Inr (w, ts') \<Longrightarrow> length ts' \<le> length ts"
proof (induction n arbitrary: v ts)
  case (Suc n)
  then show ?case
    using and_expr_shrinks [OF assms, of re d]
    by (cases ts) (fastforce split: sum.splits if_splits dest: shrinksD)+
qed simp

lemma or_expr_shrinks: "shrinks (or_expr re d n)"
proof (induction n)
  case (Suc n)
  show ?case
    using and_expr_shrinks [OF Suc, of re d] or_rest_length [OF Suc]
    by (fastforce simp: shrinks_def split: sum.splits simp del: or_rest.simps)
qed (simp add: shrinks_def)

lemma field_value_no_fuel: "field_value d x \<noteq> Inl OutOfFuel"
  by (simp add: field_value_def list_field_def Let_def)

lemma primary_fuelled:
  assumes "fuelled n sub" shows "fuelled (Suc n) (primary d sub)"
proof -
  have "length ts < Suc n \<Longrightarrow> primary d sub ts \<noteq> Inl OutOfFuel" for ts
  proof (induction ts)
    case (Cons t ts)
    then show ?case
      by (cases t) (use assms field_value_no_fuel [of d] in
        \<open>auto simp: fuelled_def split: sum.splits list.splits\<close>)
  qed simp
  then show ?thesis by (simp add: fuelled_def)
qed

lemma cmp_expr_fuelled:
  assumes "fuelled n sub" "shrinks sub" shows "fuelled (Suc n) (cmp_expr re d sub)"
  using primary_fuelled [OF assms(1), of d]
  unfolding fuelled_def cmp_expr_def
  by (auto split: sum.splits list.splits tok.splits if_splits
      dest!: shrinksD [OF primary_shrinks [OF assms(2), of d]])

lemma and_rest_fuelled:
  assumes "fuelled n sub" "shrinks sub"
  shows "length ts < k \<Longrightarrow> length ts \<le> n \<Longrightarrow> and_rest re d sub k v ts \<noteq> Inl OutOfFuel"
proof (induction k arbitrary: v ts)
  case (Suc k)
  show ?case
    using Suc cmp_expr_fuelled [OF assms, of re d] cmp_expr_shrinks [OF assms(2), of re d]
    by (cases ts) (fastforce simp: fuelled_def split: sum.splits if_splits dest: shrinksD)+
qed simp

lemma and_expr_fuelled:
  assumes "fuelled n sub" "shrinks sub" shows "fuelled (Suc n) (and_expr re d sub)"
proof -
  have "and_expr re d sub ts \<noteq> Inl OutOfFuel" if ts: "length ts < Suc n" for ts
  proof (cases "cmp_expr re d sub ts")
    case (Inl e)
    then show ?thesis using cmp_expr_fuelled [OF assms, of re d] ts by (auto simp: fuelled_def and_expr_def)
  next
    case (Inr r)
    then obtain v ts' where r: "cmp_expr re d sub ts = Inr (v, ts')" by (cases r) auto
    then have "length ts' < length ts" using cmp_expr_shrinks [OF assms(2)] by (auto dest: shrinksD)
    then have "and_rest re d sub (Suc (length ts')) v ts' \<noteq> Inl OutOfFuel"
      using ts by (intro and_rest_fuelled [OF assms]) auto
    with r show ?thesis by (simp add: and_expr_def del: and_rest.simps)
  qed
  then show ?thesis by (simp add: fuelled_def)
qed

lemma or_rest_fuelled:
  assumes "fuelled n sub" "shrinks sub"
  shows "length ts < k \<Longrightarrow> length ts \<le> n \<Longrightarrow> or_rest re d sub k v ts \<noteq> Inl OutOfFuel"
proof (induction k arbitrary: v ts)
  case (Suc k)
  show ?case
    using Suc and_expr_fuelled [OF assms, of re d] and_expr_shrinks [OF assms(2), of re d]
    by (cases ts) (fastforce simp: fuelled_def split: sum.splits if_splits dest: shrinksD)+
qed simp

lemma or_expr_fuelled: "fuelled n (or_expr re d n)"
proof (induction n)
  case (Suc n)
  note sub = Suc or_expr_shrinks [of re d n]
  have "or_expr re d (Suc n) ts \<noteq> Inl OutOfFuel" if ts: "length ts < Suc n" for ts
  proof (cases "and_expr re d (or_expr re d n) ts")
    case (Inl e)
    then show ?thesis using and_expr_fuelled [OF sub, of re d] ts by (auto simp: fuelled_def)
  next
    case (Inr r)
    then obtain v ts' where r: "and_expr re d (or_expr re d n) ts = Inr (v, ts')" by (cases r) auto
    then have "length ts' < length ts" using and_expr_shrinks [OF sub(2)] by (auto dest: shrinksD)
    then have "or_rest re d (or_expr re d n) (Suc (length ts')) v ts' \<noteq> Inl OutOfFuel"
      using ts by (intro or_rest_fuelled [OF sub]) auto
    with r show ?thesis by (simp del: or_rest.simps)
  qed
  then show ?case by (simp add: fuelled_def)
qed (simp add: fuelled_def)

lemma cons_tok_no_fuel: "cons_tok t r = Inl OutOfFuel \<longleftrightarrow> r = Inl OutOfFuel"
  by (simp add: cons_tok_def split: sum.splits)

lemma lex_no_fuel: "lex_match s \<noteq> Inl OutOfFuel"
proof (induction s rule: lex_match.induct)
  case (2 c cs)
  then show ?case
    by (simp only: lex_match.simps(2) cons_tok_no_fuel split: if_split) auto
qed simp

text \<open>The parser never runs out of fuel: every expression is decided or refused.\<close>

lemma eval_match_fuel: "eval_match re expr d \<noteq> Inl OutOfFuel"
proof (cases "lex_match expr")
  case (Inr toks)
  have "or_expr re d (Suc (length toks)) toks \<noteq> Inl OutOfFuel"
    using or_expr_fuelled [of "Suc (length toks)" re d] by (simp add: fuelled_def del: or_expr.simps)
  with Inr show ?thesis
    by (auto simp: eval_match_def simp del: or_expr.simps split: sum.splits)
qed (use lex_no_fuel in \<open>auto simp: eval_match_def\<close>)

end
