(* ===== verification/Match_Laws.thy ===== *)
theory Match_Laws
  imports Match_Expr
begin

text \<open>
  What \<open>targets.match\<close> promises. An expression is refused or accepted whatever device it is
  asked about, because \<open>&&\<close> and \<open>||\<close> always parse both sides: so the test an enqueue makes on
  the empty descriptor speaks for every later claim. And the evaluator computes the meaning of the
  expression grammar: a small abstract syntax, its meaning, its rendering as tokens and as text, and
  the agreement of \<open>eval_match\<close> with it.
\<close>

section \<open>Refusal does not depend on the device\<close>

definition proper_lists :: "js \<Rightarrow> bool" where
  "proper_lists d \<longleftrightarrow> (\<forall>k \<in> {''pools'', ''capabilities''}. nullish (jget k d) \<or> is_arr (jget k d))"

text \<open>What is left of a parse when the value is forgotten.\<close>

definition skeleton :: "'v parse \<Rightarrow> match_error + tok list" where
  "skeleton r = map_sum id snd r"

lemma skeleton_simps [simp]:
  "skeleton (Inl e) = Inl e" "skeleton (Inr (v, ts)) = Inr ts"
  by (simp_all add: skeleton_def)

definition agree :: "(tok list \<Rightarrow> 'v parse) \<Rightarrow> (tok list \<Rightarrow> 'w parse) \<Rightarrow> bool" where
  "agree f g \<longleftrightarrow> (\<forall>ts. skeleton (f ts) = skeleton (g ts))"

lemma agree_cases:
  assumes "agree f g"
  obtains (Inl) e where "f ts = Inl e" "g ts = Inl e"
  | (Inr) v w r where "f ts = Inr (v, r)" "g ts = Inr (w, r)"
proof -
  have *: "skeleton (f ts) = skeleton (g ts)" using assms by (simp add: agree_def)
  show thesis
    by (cases "f ts"; cases "g ts") (use * in \<open>auto intro: that simp: skeleton_def\<close>)
qed

lemma field_value_proper: "proper_lists d \<Longrightarrow> \<exists>v. field_value d x = Inr v"
  by (auto simp: field_value_def list_field_def proper_lists_def Let_def)

lemma primary_agree:
  assumes "agree sub sub'" "proper_lists d" "proper_lists d'"
  shows "agree (primary d sub) (primary d' sub')"
proof -
  have "skeleton (primary d sub ts) = skeleton (primary d' sub' ts)" for ts
  proof (induction ts)
    case (Cons t ts)
    show ?case
    proof (cases t)
      case (TId x)
      then show ?thesis
        using field_value_proper [OF assms(2), of x] field_value_proper [OF assms(3), of x] by auto
    next
      case (TOp op)
      show ?thesis
        using TOp Cons
        by (cases rule: agree_cases [OF assms(1), of ts];
            cases "primary d sub ts"; cases "primary d' sub' ts")
           (auto simp: skeleton_def split: list.splits)
    qed auto
  qed simp
  then show ?thesis by (simp add: agree_def)
qed

lemma cmp_expr_agree:
  assumes "agree sub sub'" "proper_lists d" "proper_lists d'"
  shows "agree (cmp_expr re d sub) (cmp_expr re d' sub')"
  unfolding agree_def
proof
  fix ts
  note P = primary_agree [OF assms]
  show "skeleton (cmp_expr re d sub ts) = skeleton (cmp_expr re d' sub' ts)"
  proof (cases rule: agree_cases [OF P, of ts, case_names Inl Inr])
    case (Inr v w r)
    show ?thesis
      by (cases rule: agree_cases [OF P, of "tl r"])
         (use Inr in \<open>auto simp: cmp_expr_def split: list.splits tok.splits\<close>)
  qed (simp add: cmp_expr_def)
qed

lemma and_rest_agree:
  assumes "agree sub sub'" "proper_lists d" "proper_lists d'"
  shows "skeleton (and_rest re d sub n v ts) = skeleton (and_rest re d' sub' n v' ts)"
proof (induction n arbitrary: v v' ts)
  case (Suc n)
  show ?case
    by (cases rule: agree_cases [OF cmp_expr_agree [OF assms, of re], of "tl ts"]) (auto intro: Suc)
qed simp

lemma and_expr_agree:
  assumes "agree sub sub'" "proper_lists d" "proper_lists d'"
  shows "agree (and_expr re d sub) (and_expr re d' sub')"
  unfolding agree_def
proof
  fix ts
  show "skeleton (and_expr re d sub ts) = skeleton (and_expr re d' sub' ts)"
    by (cases rule: agree_cases [OF cmp_expr_agree [OF assms, of re], of ts])
       (auto simp: and_expr_def and_rest_agree [OF assms] simp del: and_rest.simps)
qed

lemma or_rest_agree:
  assumes "agree sub sub'" "proper_lists d" "proper_lists d'"
  shows "skeleton (or_rest re d sub n v ts) = skeleton (or_rest re d' sub' n v' ts)"
proof (induction n arbitrary: v v' ts)
  case (Suc n)
  show ?case
    by (cases rule: agree_cases [OF and_expr_agree [OF assms, of re], of "tl ts"]) (auto intro: Suc)
qed simp

lemma or_expr_agree:
  assumes "proper_lists d" "proper_lists d'"
  shows "agree (or_expr re d n) (or_expr re d' n)"
proof (induction n)
  case (Suc n)
  note sub = Suc assms
  have "skeleton (or_expr re d (Suc n) ts) = skeleton (or_expr re d' (Suc n) ts)" for ts
    by (cases rule: agree_cases [OF and_expr_agree [OF sub, of re], of ts])
       (auto simp: or_rest_agree [OF sub] simp del: or_rest.simps)
  then show ?case by (simp add: agree_def)
qed (simp add: agree_def)

definition refusal :: "match_error + bool \<Rightarrow> match_error option" where
  "refusal r = (case r of Inl e \<Rightarrow> Some e | Inr _ \<Rightarrow> None)"

lemma eval_match_refusal:
  assumes "proper_lists d" "proper_lists d'"
  shows "refusal (eval_match re expr d) = refusal (eval_match re expr d')"
proof (cases "lex_match expr")
  case (Inr toks)
  show ?thesis
    by (cases rule: agree_cases [OF or_expr_agree [OF assms, of re "Suc (length toks)"], of toks])
       (use Inr in \<open>auto simp: eval_match_def refusal_def simp del: or_expr.simps\<close>)
qed (simp add: eval_match_def refusal_def)

lemma proper_lists_empty [simp]: "proper_lists (JObj [])"
  by (simp add: proper_lists_def nullish_def)

lemma is_valid_match_iff:
  assumes "proper_lists d"
  shows "is_valid_match re expr \<longleftrightarrow> (\<exists>b. eval_match re expr d = Inr b)"
  using eval_match_refusal [OF assms proper_lists_empty, of re expr]
  by (auto simp: is_valid_match_def refusal_def split: sum.splits)

section \<open>The meaning of an expression\<close>

datatype cop = CEq | CNe | CLt | CLe | CGt | CGe | CLike

fun cop_str :: "cop \<Rightarrow> string" where
  "cop_str CEq = ''==''" | "cop_str CNe = ''!=''" | "cop_str CLt = ''<''" | "cop_str CLe = ''<=''"
| "cop_str CGt = ''>''" | "cop_str CGe = ''>=''" | "cop_str CLike = ''~''"

datatype atom = ANum jsnum | AStr string | AField string | ASub bexp | ANot atom
  and test = Truth atom | Cmp cop atom atom
  and conj = Test test | And test conj
  and bexp = Conj conj | Or conj bexp

primrec sem_atom :: "regex \<Rightarrow> js \<Rightarrow> atom \<Rightarrow> js"
  and sem_test :: "regex \<Rightarrow> js \<Rightarrow> test \<Rightarrow> bool"
  and sem_conj :: "regex \<Rightarrow> js \<Rightarrow> conj \<Rightarrow> bool"
  and sem_bexp :: "regex \<Rightarrow> js \<Rightarrow> bexp \<Rightarrow> bool"
where
  "sem_atom re d (ANum v) = JNum v"
| "sem_atom re d (AStr s) = JStr s"
| "sem_atom re d (AField x) = (case field_value d x of Inl _ \<Rightarrow> JUndef | Inr v \<Rightarrow> v)"
| "sem_atom re d (ASub b) = JBool (sem_bexp re d b)"
| "sem_atom re d (ANot a) = JBool (\<not> match_truthy (sem_atom re d a))"
| "sem_test re d (Truth a) = match_truthy (sem_atom re d a)"
| "sem_test re d (Cmp op a b) = compare_op re (cop_str op) (sem_atom re d a) (sem_atom re d b)"
| "sem_conj re d (Test t) = sem_test re d t"
| "sem_conj re d (And t c) = (sem_test re d t \<and> sem_conj re d c)"
| "sem_bexp re d (Conj c) = sem_conj re d c"
| "sem_bexp re d (Or c b) = (sem_conj re d c \<or> sem_bexp re d b)"

primrec toks_atom :: "atom \<Rightarrow> tok list"
  and toks_test :: "test \<Rightarrow> tok list"
  and toks_conj :: "conj \<Rightarrow> tok list"
  and toks_bexp :: "bexp \<Rightarrow> tok list"
where
  "toks_atom (ANum v) = [TNum v]"
| "toks_atom (AStr s) = [TStr s]"
| "toks_atom (AField x) = [TId x]"
| "toks_atom (ASub b) = TOp ''('' # toks_bexp b @ [TOp '')'']"
| "toks_atom (ANot a) = TOp ''!'' # toks_atom a"
| "toks_test (Truth a) = toks_atom a"
| "toks_test (Cmp op a b) = toks_atom a @ TOp (cop_str op) # toks_atom b"
| "toks_conj (Test t) = toks_test t"
| "toks_conj (And t c) = toks_test t @ TOp ''&&'' # toks_conj c"
| "toks_bexp (Conj c) = toks_conj c"
| "toks_bexp (Or c b) = toks_conj c @ TOp ''||'' # toks_bexp b"

text \<open>What may follow a construct without being taken into it.\<close>

definition stops :: "string list \<Rightarrow> tok list \<Rightarrow> bool" where
  "stops ops ts \<longleftrightarrow> (\<forall>op ts'. ts = TOp op # ts' \<longrightarrow> op \<notin> set ops)"

lemma stops_Nil [simp]: "stops ops []"
  and stops_Cons [simp]: "stops ops (TOp op # ts) \<longleftrightarrow> op \<notin> set ops"
  by (auto simp: stops_def)

lemma stops_tail: "stops (op # ops) ts \<Longrightarrow> stops ops ts"
  and stops_head: "stops (op # ops) ts \<Longrightarrow> stops [op] ts"
  by (auto simp: stops_def)

lemma cop_str_cmp_op [simp]: "cop_str op \<in> set cmp_ops"
  by (cases op) (auto simp: cmp_ops_def)

lemma conj_op_stops [simp]: "''&&'' \<notin> set cmp_ops" "''||'' \<notin> set cmp_ops" "'')'' \<notin> set cmp_ops"
  by (auto simp: cmp_ops_def)

lemma closes_paren [simp]: "closes (TOp '')'')"
  by (simp add: closes_def)

lemma cmp_expr_truth:
  assumes "primary d sub (ts @ rest) = Inr (v, rest)" "stops cmp_ops rest"
  shows "cmp_expr re d sub (ts @ rest) = Inr (match_truthy v, rest)"
  using assms by (auto simp: cmp_expr_def stops_def split: list.splits tok.splits)

text \<open>
  One lemma per syntactic level, each for any input that follows: the parser returns the meaning and
  leaves exactly the rest. \<open>n\<close> is the nesting depth still allowed; the length of the rendering bounds
  what is needed.
\<close>

definition conj_parses :: "regex \<Rightarrow> js \<Rightarrow> nat \<Rightarrow> tok list \<Rightarrow> bool \<Rightarrow> tok list \<Rightarrow> bool" where
  "conj_parses re d n ts x rest \<longleftrightarrow>
     (\<exists>w ts'. cmp_expr re d (or_expr re d n) ts = Inr (w, ts') \<and>
       (\<forall>v k. length ts' < k \<longrightarrow> and_rest re d (or_expr re d n) k (w \<and> v) ts' = Inr (x \<and> v, rest)))"

definition bexp_parses :: "regex \<Rightarrow> js \<Rightarrow> nat \<Rightarrow> tok list \<Rightarrow> bool \<Rightarrow> tok list \<Rightarrow> bool" where
  "bexp_parses re d n ts x rest \<longleftrightarrow>
     (\<exists>w ts'. and_expr re d (or_expr re d n) ts = Inr (w, ts') \<and>
       (\<forall>v k. length ts' < k \<longrightarrow> or_rest re d (or_expr re d n) k (w \<or> v) ts' = Inr (x \<or> v, rest)))"

lemma conj_parsesI:
  assumes "cmp_expr re d (or_expr re d n) ts = Inr (x, rest)" "stops [''&&''] rest"
  shows "conj_parses re d n ts x rest"
proof -
  have "and_rest re d (or_expr re d n) k v rest = Inr (v, rest)" if "length rest < k" for k v
    using that assms(2) by (cases k; cases rest) (auto simp: stops_def)
  with assms(1) show ?thesis by (auto simp: conj_parses_def)
qed

lemma conj_parses_more:
  assumes "cmp_expr re d (or_expr re d n) ts = Inr (x, TOp ''&&'' # ts1)" "conj_parses re d n ts1 y rest"
  shows "conj_parses re d n ts (x \<and> y) rest"
proof -
  from assms(2) obtain w ts' where w: "cmp_expr re d (or_expr re d n) ts1 = Inr (w, ts')"
    and IH: "\<And>v k. length ts' < k \<Longrightarrow> and_rest re d (or_expr re d n) k (w \<and> v) ts' = Inr (y \<and> v, rest)"
    by (auto simp: conj_parses_def)
  have len: "length ts' < length ts1"
    using cmp_expr_shrinks [OF or_expr_shrinks] w by (rule shrinksD)
  have "and_rest re d (or_expr re d n) k (x \<and> v) (TOp ''&&'' # ts1) = Inr ((x \<and> y) \<and> v, rest)"
    if "length (TOp ''&&'' # ts1) < k" for k v
    using that len w IH [of "k - 1" "x \<and> v"] by (cases k) (auto simp: conj_ac)
  with assms(1) show ?thesis by (auto simp: conj_parses_def)
qed

lemma and_expr_conj:
  assumes "conj_parses re d n ts x rest"
  shows "and_expr re d (or_expr re d n) ts = Inr (x, rest)"
proof -
  from assms obtain w ts' where "cmp_expr re d (or_expr re d n) ts = Inr (w, ts')"
    and "and_rest re d (or_expr re d n) (Suc (length ts')) (w \<and> True) ts' = Inr (x \<and> True, rest)"
    unfolding conj_parses_def by blast
  then show ?thesis by (simp add: and_expr_def del: and_rest.simps)
qed

lemma bexp_parsesI:
  assumes "and_expr re d (or_expr re d n) ts = Inr (x, rest)" "stops [''||''] rest"
  shows "bexp_parses re d n ts x rest"
proof -
  have "or_rest re d (or_expr re d n) k v rest = Inr (v, rest)" if "length rest < k" for k v
    using that assms(2) by (cases k; cases rest) (auto simp: stops_def)
  with assms(1) show ?thesis by (auto simp: bexp_parses_def)
qed

lemma bexp_parses_more:
  assumes "and_expr re d (or_expr re d n) ts = Inr (x, TOp ''||'' # ts1)" "bexp_parses re d n ts1 y rest"
  shows "bexp_parses re d n ts (x \<or> y) rest"
proof -
  from assms(2) obtain w ts' where w: "and_expr re d (or_expr re d n) ts1 = Inr (w, ts')"
    and IH: "\<And>v k. length ts' < k \<Longrightarrow> or_rest re d (or_expr re d n) k (w \<or> v) ts' = Inr (y \<or> v, rest)"
    by (auto simp: bexp_parses_def)
  have len: "length ts' < length ts1"
    using and_expr_shrinks [OF or_expr_shrinks] w by (rule shrinksD)
  have "or_rest re d (or_expr re d n) k (x \<or> v) (TOp ''||'' # ts1) = Inr ((x \<or> y) \<or> v, rest)"
    if "length (TOp ''||'' # ts1) < k" for k v
    using that len w IH [of "k - 1" "x \<or> v"] by (cases k) (auto simp: disj_ac)
  with assms(1) show ?thesis by (auto simp: bexp_parses_def)
qed

lemma or_expr_bexp:
  assumes "bexp_parses re d n ts x rest"
  shows "or_expr re d (Suc n) ts = Inr (x, rest)"
proof -
  from assms obtain w ts' where "and_expr re d (or_expr re d n) ts = Inr (w, ts')"
    and "or_rest re d (or_expr re d n) (Suc (length ts')) (w \<or> False) ts' = Inr (x \<or> False, rest)"
    unfolding bexp_parses_def by blast
  then show ?thesis by (simp del: or_rest.simps)
qed

lemma parse_sem:
  assumes "proper_lists d"
  shows "length (toks_atom a) \<le> n \<Longrightarrow>
           primary d (or_expr re d n) (toks_atom a @ rest) = Inr (sem_atom re d a, rest)"
    and "length (toks_test t) \<le> n \<Longrightarrow> stops cmp_ops rest \<Longrightarrow>
           cmp_expr re d (or_expr re d n) (toks_test t @ rest) = Inr (sem_test re d t, rest)"
    and "length (toks_conj c) \<le> n \<Longrightarrow> stops (''&&'' # cmp_ops) rest \<Longrightarrow>
           conj_parses re d n (toks_conj c @ rest) (sem_conj re d c) rest"
    and "length (toks_bexp b) \<le> n \<Longrightarrow> stops (''||'' # ''&&'' # cmp_ops) rest \<Longrightarrow>
           bexp_parses re d n (toks_bexp b @ rest) (sem_bexp re d b) rest"
proof (induction a and t and c and b arbitrary: n rest and n rest and n rest and n rest)
  case (AField x)
  then show ?case using field_value_proper [OF assms, of x] by auto
next
  case (ASub b)
  from ASub.prems obtain m where m: "n = Suc m" "length (toks_bexp b) \<le> m" by (cases n) auto
  have "bexp_parses re d m (toks_bexp b @ TOp '')'' # rest) (sem_bexp re d b) (TOp '')'' # rest)"
    using m by (intro ASub.IH) auto
  from or_expr_bexp [OF this] show ?case by (simp add: m del: or_expr.simps)
next
  case (Truth a)
  then show ?case by (auto simp: intro!: cmp_expr_truth)
next
  case (Cmp op a b)
  have "primary d (or_expr re d n) (toks_atom a @ (TOp (cop_str op) # toks_atom b @ rest))
          = Inr (sem_atom re d a, TOp (cop_str op) # toks_atom b @ rest)"
    using Cmp.prems by (intro Cmp.IH) auto
  moreover have "primary d (or_expr re d n) (toks_atom b @ rest) = Inr (sem_atom re d b, rest)"
    using Cmp.prems by (intro Cmp.IH) auto
  ultimately show ?case by (simp add: cmp_expr_def)
next
  case (Test t)
  then show ?case by (auto intro!: conj_parsesI dest: stops_tail elim: stops_head)
next
  case (And t c)
  have "cmp_expr re d (or_expr re d n) (toks_test t @ (TOp ''&&'' # toks_conj c @ rest))
          = Inr (sem_test re d t, TOp ''&&'' # toks_conj c @ rest)"
    using And.prems by (intro And.IH) auto
  from conj_parses_more [OF this And.IH(2)] And.prems show ?case by simp
next
  case (Conj c)
  then show ?case by (auto intro!: bexp_parsesI and_expr_conj dest: stops_tail elim: stops_head)
next
  case (Or c b)
  have "conj_parses re d n (toks_conj c @ (TOp ''||'' # toks_bexp b @ rest)) (sem_conj re d c)
          (TOp ''||'' # toks_bexp b @ rest)"
    using Or.prems by (intro Or.IH) auto
  from bexp_parses_more [OF and_expr_conj [OF this] Or.IH(2)] Or.prems show ?case by simp
qed auto

lemma eval_match_sem:
  assumes "proper_lists d" "lex_match s = Inr (toks_bexp b)"
  shows "eval_match re s d = Inr (sem_bexp re d b)"
proof -
  have "bexp_parses re d (length (toks_bexp b)) (toks_bexp b @ []) (sem_bexp re d b) []"
    by (rule parse_sem [OF assms(1)]) auto
  from or_expr_bexp [OF this] assms(2) show ?thesis by (simp add: eval_match_def del: or_expr.simps)
qed

section \<open>Printing an expression and reading it back\<close>

definition tok_ok :: "tok \<Rightarrow> bool" where
  "tok_ok t =
     (case t of
        TNum n \<Rightarrow> (case n of Fin r \<Rightarrow> 0 \<le> r \<and> r = of_int \<lfloor>r\<rfloor> | _ \<Rightarrow> False)
      | TStr s \<Rightarrow> list_all (\<lambda>c. code c \<noteq> 39) s
      | TId x \<Rightarrow> x \<noteq> [] \<and> id_start (hd x) \<and> list_all id_char (tl x)
      | TOp op \<Rightarrow> op \<in> set two_ops \<or> (length op = 1 \<and> hd op \<in> set single_ops))"

definition tok_text :: "tok \<Rightarrow> string" where
  "tok_text t =
     (case t of
        TNum n \<Rightarrow> (case n of Fin r \<Rightarrow> nat_str (nat \<lfloor>r\<rfloor>) | _ \<Rightarrow> [])
      | TStr s \<Rightarrow> CHR 39 # s @ [CHR 39]
      | TId x \<Rightarrow> x
      | TOp op \<Rightarrow> op)"

definition print_toks :: "tok list \<Rightarrow> string" where
  "print_toks ts = concat (map (\<lambda>t. tok_text t @ '' '') ts)"

definition print_bexp :: "bexp \<Rightarrow> string" where
  "print_bexp b = print_toks (toks_bexp b)"

lemma takeWhile_stop: "list_all P xs \<Longrightarrow> \<not> P y \<Longrightarrow> takeWhile P (xs @ y # ys) = xs"
  and dropWhile_stop: "list_all P xs \<Longrightarrow> \<not> P y \<Longrightarrow> dropWhile P (xs @ y # ys) = y # ys"
  by (induction xs) auto

lemma takeWhile_all: "list_all P xs \<Longrightarrow> takeWhile P xs = xs"
  and dropWhile_all: "list_all P xs \<Longrightarrow> dropWhile P xs = []"
  by (induction xs) auto

lemma space_class [simp]:
  "is_space (CHR '' '')" "\<not> num_char (CHR '' '')" "\<not> id_char (CHR '' '')"
  by (simp_all add: is_space_def num_char_def id_char_def is_digit_def is_alpha_def is_lower_def
      is_upper_def code_def)

lemma lex_space [simp]: "lex_match (CHR '' '' # s) = lex_match s"
  by (simp add: lex_match.simps(2))

lemma digit_not_space: "is_digit c \<Longrightarrow> \<not> is_space c"
  by (auto simp: is_digit_def is_space_def)

lemma lower_digit: "is_digit c \<Longrightarrow> lower_char c = c"
  by (auto simp: lower_char_def is_digit_def is_upper_def)

lemma decimal_digits: "list_all is_digit ds \<Longrightarrow> ds \<noteq> [] \<Longrightarrow> decimal ds = Fin (of_nat (digits_val ds))"
  by (simp add: decimal_def takeWhile_all dropWhile_all mantissa_def Let_def)

lemma trim_digits: "list_all is_digit ds \<Longrightarrow> trim ds = ds"
proof -
  have *: "dropWhile is_space xs = xs" if "list_all is_digit xs" for xs
    using that by (cases xs) (auto simp: digit_not_space)
  assume "list_all is_digit ds"
  then show ?thesis by (simp add: trim_def *)
qed

lemma str_number_digits:
  assumes "list_all is_digit ds" "ds \<noteq> []"
  shows "str_number ds = Fin (of_nat (digits_val ds))"
proof -
  have low: "lower ds = ds"
    using assms(1) by (auto simp: lower_def list_all_iff lower_digit intro: map_idI)
  have no_prefix: "\<not> starts_with (CHR ''0'' # p # q) ds" if "\<not> is_digit p" for p q
    using assms(1) that by (auto simp: starts_with_def prefix_def)
  have letters: "\<not> is_digit CHR ''x''" "\<not> is_digit CHR ''o''" "\<not> is_digit CHR ''b''"
    by (simp_all add: is_digit_def code_def)
  obtain c cs where ds: "ds = c # cs" using assms(2) by (cases ds) auto
  have c: "is_digit c" using assms(1) ds by simp
  have sign: "c \<noteq> CHR ''-''" "c \<noteq> CHR ''+''" "c \<noteq> CHR ''I''"
    using c by (auto simp: is_digit_def code_def)
  show ?thesis
    using assms no_prefix letters sign ds low
    by (simp add: str_number_def trim_digits unsigned_number_def decimal_digits Let_def)
qed

lemma nat_str_list_all: "list_all is_digit (nat_str n)"
  using nat_str_digits [of n] by (simp add: list_all_iff)

lemma lex_num:
  "lex_match (nat_str n @ CHR '' '' # s) = cons_tok (TNum (Fin (of_nat n))) (lex_match s)"
proof -
  obtain c cs where ds: "nat_str n = c # cs" using nat_str_nonempty by (cases "nat_str n") auto
  have d: "is_digit c" "num_char c" "list_all num_char cs"
    using nat_str_list_all [of n] by (auto simp: ds list_all_iff num_char_def)
  then have "str_number (c # cs) = Fin (of_nat n)"
    using str_number_digits [OF nat_str_list_all nat_str_nonempty, of n] by (simp add: ds digits_val_nat_str [of n, unfolded ds])
  with d show ?thesis
    by (simp add: ds lex_match.simps(2) takeWhile_stop dropWhile_stop digit_not_space)
qed

lemma char_39: "code c = 39 \<longleftrightarrow> c = CHR 39"
proof -
  have "code (CHR 39) = 39" by (simp add: code_def)
  then show ?thesis by (metis code_def of_char_eq_iff)
qed

lemma quote_class [simp]: "\<not> is_space CHR 39" "\<not> num_char CHR 39" "is_quote CHR 39"
  by (simp_all add: is_space_def num_char_def is_digit_def is_quote_def code_def)

lemma lex_str:
  assumes "list_all (\<lambda>c. code c \<noteq> 39) x"
  shows "lex_match (CHR 39 # x @ CHR 39 # s) = cons_tok (TStr x) (lex_match s)"
proof -
  have "list_all (\<lambda>c. c \<noteq> CHR 39) x" using assms by (simp add: char_39)
  then show ?thesis
    by (simp add: lex_match.simps(2) takeWhile_stop dropWhile_stop)
qed

lemma id_start_class: "id_start c \<Longrightarrow> \<not> is_space c \<and> \<not> num_char c \<and> \<not> is_quote c"
  by (auto simp: id_start_def is_alpha_def is_lower_def is_upper_def is_space_def num_char_def
      is_digit_def is_quote_def code_def)

lemma lex_id:
  assumes "x \<noteq> []" "id_start (hd x)" "list_all id_char (tl x)"
  shows "lex_match (x @ CHR '' '' # s) = cons_tok (TId x) (lex_match s)"
proof -
  obtain c cs where x: "x = c # cs" using assms(1) by (cases x) auto
  with assms id_start_class [of c] show ?thesis
    by (simp add: lex_match.simps(2) takeWhile_stop dropWhile_stop)
qed

definition op_start :: "char \<Rightarrow> bool" where
  "op_start c \<longleftrightarrow> \<not> is_space c \<and> \<not> num_char c \<and> \<not> is_quote c \<and> \<not> id_start c"

lemma op_start_ops: "list_all op_start ''=!<>&|~()''"
  by (simp add: op_start_def is_space_def num_char_def is_digit_def is_quote_def id_start_def
      is_alpha_def is_lower_def is_upper_def code_def)

lemma lex_two_op:
  assumes "op \<in> set two_ops"
  shows "lex_match (op @ s) = cons_tok (TOp op) (lex_match s)"
proof -
  obtain a b where op: "op = [a, b]" using assms by (auto simp: two_ops_def)
  have "op_start a" using assms op_start_ops by (auto simp: op two_ops_def)
  with assms show ?thesis by (simp add: op lex_match.simps(2) op_start_def)
qed

lemma lex_single_op:
  assumes "c \<in> set single_ops"
  shows "lex_match (c # CHR '' '' # s) = cons_tok (TOp [c]) (lex_match s)"
proof -
  have "op_start c" "[c, CHR '' ''] \<notin> set two_ops"
    using assms op_start_ops by (auto simp: single_ops_def two_ops_def)
  with assms show ?thesis by (simp add: lex_match.simps(2) op_start_def)
qed

lemma lex_tok:
  assumes "tok_ok t"
  shows "lex_match (tok_text t @ CHR '' '' # s) = cons_tok t (lex_match s)"
proof (cases t)
  case (TNum n)
  with assms obtain r where r: "n = Fin r" "0 \<le> r" "r = of_int \<lfloor>r\<rfloor>"
    by (auto simp: tok_ok_def split: jsnum.splits)
  then have "of_nat (nat \<lfloor>r\<rfloor>) = r" by (metis of_nat_nat zero_le_floor of_int_of_nat_eq)
  with r TNum show ?thesis by (simp add: tok_text_def lex_num)
next
  case (TOp op)
  show ?thesis
  proof (cases "op \<in> set two_ops")
    case True
    with TOp show ?thesis by (simp add: tok_text_def lex_two_op)
  next
    case False
    with assms TOp obtain c where "op = [c]" "c \<in> set single_ops"
      by (cases op) (auto simp: tok_ok_def)
    with TOp show ?thesis by (simp add: tok_text_def lex_single_op)
  qed
qed (use assms in \<open>simp_all add: tok_ok_def tok_text_def lex_str lex_id\<close>)

lemma lex_print_toks: "list_all tok_ok ts \<Longrightarrow> lex_match (print_toks ts) = Inr ts"
  by (induction ts) (simp_all add: print_toks_def lex_tok cons_tok_def)

definition printable :: "bexp \<Rightarrow> bool" where
  "printable b \<longleftrightarrow> list_all tok_ok (toks_bexp b)"

lemma eval_print:
  "proper_lists d \<Longrightarrow> printable b \<Longrightarrow> eval_match re (print_bexp b) d = Inr (sem_bexp re d b)"
  by (simp add: eval_match_sem print_bexp_def printable_def lex_print_toks)

end
