(* ===== verification/Reservation.thy ===== *)
theory Reservation
  imports Match_Laws
begin

text \<open>
  \<open>collector/src/reserved.ts\<close>: reserved devices. A reserved device is given only to a job that
  carries its label and names it, by \<open>targets.device_id\<close> or by a match expression that stops
  matching once the device has another id.
\<close>

definition label_char :: "char \<Rightarrow> bool" where
  "label_char c \<longleftrightarrow> is_alpha c \<or> is_digit c \<or> c \<in> set ''._:-''"

text \<open>\<open>RESERVATION_LABEL\<close>\<close>

definition reservation_label :: "string \<Rightarrow> bool" where
  "reservation_label s \<longleftrightarrow>
     s \<noteq> [] \<and> (is_alpha (hd s) \<or> is_digit (hd s)) \<and> list_all label_char (tl s) \<and> length s \<le> 64"

definition another_device :: string where
  "another_device = CHR 0x00 # ''another-device''"

text \<open>Every field that carries the device's id, with another id in its place.\<close>

definition with_other_id :: "string \<Rightarrow> js \<Rightarrow> js" where
  "with_other_id dev d =
     (case d of
        JObj fs \<Rightarrow> JObj (map (\<lambda>(k, v). (k, if v = JStr dev then JStr another_device else v)) fs)
      | _ \<Rightarrow> d)"

definition matches :: "regex \<Rightarrow> js \<Rightarrow> js \<Rightarrow> bool" where
  "matches re expr d =
     (case expr of
        JStr s \<Rightarrow> (case eval_match re s d of Inr b \<Rightarrow> b | Inl _ \<Rightarrow> False)
      | _ \<Rightarrow> False)"

definition throws :: "regex \<Rightarrow> js \<Rightarrow> js \<Rightarrow> bool" where
  "throws re expr d =
     (case expr of JStr s \<Rightarrow> (case eval_match re s d of Inr _ \<Rightarrow> False | Inl _ \<Rightarrow> True) | _ \<Rightarrow> True)"

definition pins_device :: "regex \<Rightarrow> js \<Rightarrow> id \<Rightarrow> js \<Rightarrow> bool" where
  "pins_device re targets dev descriptor =
     (if \<not> truthy targets then False
      else if truthy (jget ''device_id'' targets) then jget ''device_id'' targets = JStr dev
      else if \<not> truthy (jget ''match'' targets) then False
      else
        let self = jset ''device_id'' (JStr dev) descriptor; other = with_other_id dev self; m = jget ''match'' targets
        in matches re m self \<and> \<not> throws re m other \<and> \<not> matches re m other)"

definition reservation_allows :: "regex \<Rightarrow> js \<Rightarrow> id \<Rightarrow> string option \<Rightarrow> js \<Rightarrow> bool" where
  "reservation_allows re job dev label descriptor =
     (case label of
        None \<Rightarrow> True
      | Some l \<Rightarrow>
          if l = [] then True
          else jget ''reservation'' job = JStr l \<and> pins_device re (jget ''targets'' job) dev descriptor)"

definition q :: string where
  "q = [CHR 39]"

definition reserved_reason :: "id \<Rightarrow> string \<Rightarrow> string" where
  "reserved_reason dev label =
     dev @ '' is reserved for '' @ q @ label @ q @ '': only a job with reservation '' @ q @ label @ q @
     '' that pins it (targets.device_id, or targets.match '' @ [CHR 34] @ ''device_id == '' @ q @ dev @ q @ [CHR 34] @
     '') may use it''"

section \<open>Laws\<close>

lemma reservation_allows_None [simp]: "reservation_allows re job dev None d"
  by (simp add: reservation_allows_def)

lemma reservation_allows_Some:
  "l \<noteq> [] \<Longrightarrow> reservation_allows re job dev (Some l) d \<longleftrightarrow>
     jget ''reservation'' job = JStr l \<and> pins_device re (jget ''targets'' job) dev d"
  by (simp add: reservation_allows_def)

lemma jget_with_other_id:
  "jget k (with_other_id dev d) = (if jget k d = JStr dev then JStr another_device else jget k d)"
proof -
  let ?f = "\<lambda>v. if v = JStr dev then JStr another_device else v"
  have "map_of (map (\<lambda>(k, v). (k, ?f v)) fs) k = map_option ?f (map_of fs k)" for fs
    using map_of_map [of ?f fs] by (simp only: o_apply)
  note * = this
  show ?thesis
  proof (cases d)
    case (JObj fs)
    then show ?thesis by (cases "map_of fs k") (simp_all add: with_other_id_def *)
  qed (simp_all add: with_other_id_def)
qed

lemma proper_lists_jset [simp]: "proper_lists d \<Longrightarrow> proper_lists (jset ''device_id'' v d)"
  by (simp add: proper_lists_def)

lemma proper_lists_other: "proper_lists d \<Longrightarrow> proper_lists (with_other_id dev d)"
  by (auto simp: proper_lists_def jget_with_other_id nullish_def is_arr_def)

text \<open>The expression the refusal recommends: \<open>device_id == '<id>'\<close>.\<close>

definition id_match :: "id \<Rightarrow> string" where
  "id_match dev = ''device_id == '' @ q @ dev @ q"

abbreviation id_match_bexp :: "id \<Rightarrow> bexp" where
  "id_match_bexp dev \<equiv> Conj (Test (Cmp CEq (AField ''device_id'') (AStr dev)))"

lemma lex_id_match:
  assumes "list_all (\<lambda>c. code c \<noteq> 39) dev"
  shows "lex_match (id_match dev) = Inr (toks_bexp (id_match_bexp dev))"
proof -
  have str: "lex_match (q @ dev @ q) = Inr [TStr dev]"
    using lex_str [OF assms, of "[]"] by (simp add: q_def cons_tok_def)
  have op: "lex_match (''== '' @ x) = cons_tok (TOp ''=='') (lex_match x)" for x
    using lex_tok [of "TOp ''==''" x] by (simp add: tok_ok_def tok_text_def two_ops_def)
  have "lex_match (''device_id'' @ CHR '' '' # x) = cons_tok (TId ''device_id'') (lex_match x)" for x
    by (rule lex_id)
       (simp_all add: id_start_def id_char_def is_alpha_def is_lower_def is_upper_def is_digit_def code_def)
  from this [of "''== '' @ q @ dev @ q"] op [of "q @ dev @ q"] str show ?thesis
    by (simp add: id_match_def cons_tok_def)
qed

lemma sem_id_match:
  "sem_bexp re d (id_match_bexp dev) \<longleftrightarrow> js_string (jget ''device_id'' d) = dev"
  by (simp add: compare_op_def field_value_def)

lemma eval_id_match:
  assumes "list_all (\<lambda>c. code c \<noteq> 39) dev" "proper_lists d"
  shows "eval_match re (id_match dev) d = Inr (js_string (jget ''device_id'' d) = dev)"
  using eval_match_sem [OF assms(2) lex_id_match [OF assms(1)], of re] by (simp only: sem_id_match)

text \<open>A job with that expression, and no \<open>targets.device_id\<close>, pins the device.\<close>

lemma id_match_pins:
  assumes "list_all (\<lambda>c. code c \<noteq> 39) dev" "dev \<noteq> another_device" "proper_lists d"
    "jget ''match'' targets = JStr (id_match dev)" "\<not> truthy (jget ''device_id'' targets)"
  shows "pins_device re targets dev d"
proof -
  have t: "truthy targets" "truthy (JStr (id_match dev))"
    using assms(4) by (cases targets; simp add: id_match_def)+
  note P = proper_lists_jset [OF assms(3), of "JStr dev"]
  show ?thesis
    using assms t
    by (simp add: pins_device_def Let_def matches_def throws_def eval_id_match [OF assms(1) P]
        eval_id_match [OF assms(1) proper_lists_other [OF P]] jget_with_other_id)
qed

end
