(* ===== verification/Registry.thy ===== *)
theory Registry
  imports Store Tailnet Reservation
begin

text \<open>
  The device registry: the row helpers of \<open>collector/src/api/shared.ts\<close>, the registration route of
  \<open>server.ts\<close>, the device edits of \<open>api/mutations.ts\<close> and \<open>registry-hygiene.ts\<close>. A refused request
  is \<open>Inl (status, message)\<close>, as the route answers it. Members of a request body that a route does
  not check are taken at their declared TypeScript type.
\<close>

type_synonym refusal = "nat \<times> string"

section \<open>Row helpers (\<open>shared.ts\<close>)\<close>

definition effective_pools :: "device \<Rightarrow> string list" where
  "effective_pools d = (case d_pools_override d of Some ps \<Rightarrow> ps | None \<Rightarrow> d_pools d)"

definition capability_matches :: "string list option \<Rightarrow> js \<Rightarrow> js \<Rightarrow> bool" where
  "capability_matches declared workload backend =
     (case declared of
        None \<Rightarrow> True
      | Some caps \<Rightarrow>
          if workload \<in> JStr ` set caps then True
          else truthy backend \<and> js_string workload @ '':'' @ js_string backend \<in> set caps)"

definition is_expired :: "device \<Rightarrow> int option \<Rightarrow> bool" where
  "is_expired d age_s =
     (case d_ttl_s d of
        None \<Rightarrow> False
      | Some ttl \<Rightarrow> if ttl \<le> 0 then False else case age_s of None \<Rightarrow> True | Some a \<Rightarrow> a > ttl)"

definition ONLINE_S :: int where "ONLINE_S = 180"
definition STALE_S :: int where "STALE_S = 900"

datatype device_status = Online | Stale | Offline

definition status_of_age :: "int option \<Rightarrow> device_status" where
  "status_of_age age_s =
     (case age_s of
        None \<Rightarrow> Offline
      | Some a \<Rightarrow> if a \<le> ONLINE_S then Online else if a \<le> STALE_S then Stale else Offline)"

definition THERMAL_ORDER :: "string list" where
  "THERMAL_ORDER = [''nominal'', ''fair'', ''serious'', ''critical'']"

text \<open>\<open>indexOf\<close>: -1 where the value is not there.\<close>

fun index_of :: "'a \<Rightarrow> 'a list \<Rightarrow> int" where
  "index_of x [] = - 1"
| "index_of x (y # ys) = (if x = y then 0 else let i = index_of x ys in if i < 0 then - 1 else i + 1)"

definition thermal_index :: "string option \<Rightarrow> int" where
  "thermal_index st = (case st of None \<Rightarrow> - 1 | Some x \<Rightarrow> index_of x THERMAL_ORDER)"

definition worst_thermal :: "string option list \<Rightarrow> string option" where
  "worst_thermal states =
     fst (foldl (\<lambda>(worst, idx) s. if thermal_index s > idx then (s, thermal_index s) else (worst, idx))
            (None, - 1) states)"

definition has_battery :: "js \<Rightarrow> bool" where
  "has_battery pct = (case pct of JNum n \<Rightarrow> num_le (Fin 0) n | _ \<Rightarrow> False)"

record busy_claim =
  busy_job :: "string option"
  busy_collector :: "string option"

definition busy_fields :: "js \<Rightarrow> busy_claim option" where
  "busy_fields b =
     (let busy = jget ''busy'' b in
      if \<not> truthy busy \<or> \<not> is_object busy then None
      else Some \<lparr>busy_job = str_of (jget ''job_id'' busy), busy_collector = str_of (jget ''collector'' busy)\<rparr>)"

definition device_platform :: "js \<Rightarrow> string" where
  "device_platform descriptor =
     (let declared = str_of (jget ''platform'' descriptor);
          os = lower (js_string (jor (jget ''os'' descriptor) (JStr [])))
      in case declared of
           Some p \<Rightarrow> if trim p \<noteq> [] then lower (trim p)
                     else if contains ''ios'' os \<or> contains ''iphone'' os \<or> contains ''ipad'' os then ''ios'' else ''android''
         | None \<Rightarrow> if contains ''ios'' os \<or> contains ''iphone'' os \<or> contains ''ipad'' os then ''ios'' else ''android'')"

definition device_kind :: "js \<Rightarrow> string option" where
  "device_kind descriptor =
     (case str_of (jget ''kind'' descriptor) of
        Some k \<Rightarrow> if trim k \<noteq> [] then Some (lower (trim k)) else None
      | None \<Rightarrow> None)"

definition ends_with :: "string \<Rightarrow> string \<Rightarrow> bool" where
  "ends_with suf s = suffix suf s"

definition sim_marks :: "string list" where
  "sim_marks = [''simulator'', ''emulator'', ''sdk_gphone'', ''goldfish'', ''ranchu'', ''x86_64'',
     ''-sim-'', ''-sim_'', ''_sim-'', ''_sim_'']"

definition is_simulator :: "js \<Rightarrow> id \<Rightarrow> bool" where
  "is_simulator descriptor dev =
     (let field = (\<lambda>k. js_string (jor (jget k descriptor) (JStr [])));
          hay = lower (dev @ '' '' @ field ''model'' @ '' '' @ field ''os'' @ '' '' @ field ''soc'')
      in list_ex (\<lambda>m. contains m hay) sim_marks \<or> ends_with ''-sim'' hay \<or> ends_with ''_sim'' hay)"

text \<open>\<open>/\b[a-f0-9]{64}\b/g\<close>: the maximal runs of word characters that are 64 hex digits.\<close>

definition word_char :: "char \<Rightarrow> bool" where
  "word_char c \<longleftrightarrow> is_alpha c \<or> is_digit c \<or> c = CHR ''_''"

definition hex_char :: "char \<Rightarrow> bool" where
  "hex_char c \<longleftrightarrow> is_digit c \<or> (97 \<le> code c \<and> code c \<le> 102)"

definition is_sha256 :: "string \<Rightarrow> bool" where
  "is_sha256 s \<longleftrightarrow> length s = 64 \<and> list_all hex_char s"

fun word_runs :: "string \<Rightarrow> string list" where
  "word_runs [] = [[]]"
| "word_runs (c # s) =
     (if word_char c then case word_runs s of [] \<Rightarrow> [[c]] | w # ws \<Rightarrow> (c # w) # ws
      else [] # word_runs s)"

definition sha256_refs :: "string \<Rightarrow> string list" where
  "sha256_refs text = nub (filter is_sha256 (word_runs text))"

section \<open>Registration (\<open>POST /devices/register\<close>)\<close>

definition MAX_DEVICE_TTL_S :: int where "MAX_DEVICE_TTL_S = 86400"

definition touch_device :: "env \<Rightarrow> id \<Rightarrow> store \<Rightarrow> store" where
  "touch_device e dev s = s\<lparr>devices := update_row d_id dev (\<lambda>d. d\<lparr>d_last_seen := e_now e\<rparr>) (devices s)\<rparr>"

text \<open>An array of strings, read at its type.\<close>

definition strings_of :: "js \<Rightarrow> string list" where
  "strings_of v = (case v of JArr xs \<Rightarrow> List.map_filter str_of xs | _ \<Rightarrow> [])"

definition all_strings :: "js \<Rightarrow> bool" where
  "all_strings v = (case v of JArr xs \<Rightarrow> list_all is_str xs | _ \<Rightarrow> False)"

definition network_of :: "string \<Rightarrow> string option" where
  "network_of raw =
     (let ip = normalise_ip (Some raw) in
      if (let gs = split_on CHR ''.'' ip in length gs = 4 \<and> list_all (\<lambda>g. g \<noteq> [] \<and> list_all is_digit g) gs)
      then Some (join ''.'' (take 3 (split_on CHR ''.'' ip)) @ ''.0/24'')
      else if CHR '':'' \<in> set ip then Some (join '':'' (take 4 (split_on CHR '':'' ip)) @ ''::/64'')
      else None)"

definition device_held :: "id \<Rightarrow> store \<Rightarrow> bool" where
  "device_held dev s \<longleftrightarrow>
     lock_of dev s \<noteq> None \<or> (\<exists>j \<in> set (jobs s). j_status j = Claimed \<and> j_claimed_by j = Some dev)"

definition roku_ip_id :: "string \<Rightarrow> id" where
  "roku_ip_id ip = ''roku-ip-'' @ map (\<lambda>c. if c = CHR ''.'' then CHR ''-'' else c) ip"

definition retire_roku_ip_duplicate :: "id \<Rightarrow> js \<Rightarrow> store \<Rightarrow> store \<times> id option" where
  "retire_roku_ip_duplicate dev descriptor s =
     (if \<not> starts_with ''roku-'' dev \<or> starts_with ''roku-ip-'' dev then (s, None)
      else case str_of (jget ''ip'' descriptor) of
        None \<Rightarrow> (s, None)
      | Some ip \<Rightarrow>
          if dotted_quad ip = None then (s, None)
          else
            let dup = roku_ip_id ip in
            if device_held dup s then (s, None)
            else if find_device dup s = None then (s, None)
            else (s\<lparr>devices := delete_row d_id dup (devices s)\<rparr>, Some dup))"

definition register_refusal :: "js \<Rightarrow> refusal option" where
  "register_refusal b =
     (let ttl = jget ''ttl_s'' b; caps = jget ''capabilities'' b in
      if \<not> truthy (jget ''device_id'' b) then Some (400, ''device_id required'')
      else if ttl \<noteq> JUndef \<and> (case int_of ttl of None \<Rightarrow> True | Some n \<Rightarrow> n < 1 \<or> n > MAX_DEVICE_TTL_S)
        then Some (400, ''ttl_s must be an integer between 1 and '' @ int_str MAX_DEVICE_TTL_S)
      else if caps \<noteq> JUndef \<and> \<not> all_strings caps then Some (400, ''capabilities must be an array of strings'')
      else None)"

text \<open>The row an agent's registration leaves: what it does not send keeps its last value.\<close>

definition merge_device ::
  "env \<Rightarrow> js \<Rightarrow> string list \<Rightarrow> string list option \<Rightarrow> string option \<Rightarrow> int option \<Rightarrow> device \<Rightarrow> device" where
  "merge_device e descriptor pools caps net ttl d =
     d\<lparr>d_descriptor := descriptor, d_pools := pools, d_last_seen := e_now e,
       d_capabilities := coalesce caps (d_capabilities d),
       d_last_net := coalesce net (d_last_net d),
       d_ttl_s := coalesce ttl (d_ttl_s d)\<rparr>"

definition new_device ::
  "env \<Rightarrow> id \<Rightarrow> js \<Rightarrow> string list \<Rightarrow> string list option \<Rightarrow> string option \<Rightarrow> int option \<Rightarrow> device" where
  "new_device e dev descriptor pools caps net ttl =
     \<lparr>d_id = dev, d_descriptor = descriptor, d_pools = pools, d_pools_override = None,
      d_capabilities = caps, d_last_seen = e_now e, d_last_beacon = None, d_last_net = net,
      d_ttl_s = ttl, d_name = None, d_notes = None\<rparr>"

definition register ::
  "env \<Rightarrow> string list \<Rightarrow> tailnet_peer option \<Rightarrow> string \<Rightarrow> js \<Rightarrow> store \<Rightarrow> refusal + (store \<times> id option)" where
  "register e allowlist peer ip b s =
     (case register_refusal b of
        Some r \<Rightarrow> Inl r
      | None \<Rightarrow>
          let (ok, why) = admit (normalise_ip (Some ip)) allowlist peer in
          if \<not> ok then Inl (403, ''registration refused: '' @ why)
          else
            let dev = js_string (jget ''device_id'' b);
                descriptor = jor (jget ''descriptor'' b) (JObj []);
                pools = strings_of (jor (jget ''pools'' b) (JArr []));
                caps = (if jget ''capabilities'' b = JUndef then None else Some (strings_of (jget ''capabilities'' b)));
                ttl = int_of (jget ''ttl_s'' b);
                net = network_of ip;
                s1 = s\<lparr>devices := upsert_row d_id dev (merge_device e descriptor pools caps net ttl)
                        (new_device e dev descriptor pools caps net ttl) (devices s)\<rparr>
            in Inr (retire_roku_ip_duplicate dev descriptor s1))"

section \<open>Edits (\<open>PATCH\<close> and \<open>DELETE /api/devices/:id\<close>, \<open>release-lock\<close>)\<close>

definition or_null :: "js \<Rightarrow> string option" where
  "or_null v = (if truthy v then Some (js_string v) else None)"

definition edit_row :: "js \<Rightarrow> device \<Rightarrow> device" where
  "edit_row body d =
     (let name = jget ''name'' body; notes = jget ''notes'' body; pools = jget ''pools'' body in
      d\<lparr>d_name := (if name = JUndef then d_name d else or_null name),
        d_notes := (if notes = JUndef then d_notes d else or_null notes),
        d_pools_override := (if pools = JUndef then d_pools_override d
                             else if pools = JNull then None else Some (strings_of pools))\<rparr>)"

definition edit_device :: "id \<Rightarrow> js \<Rightarrow> store \<Rightarrow> refusal + store" where
  "edit_device dev body s =
     (let pools = jget ''pools'' body in
      if find_device dev s = None then Inl (404, ''unknown device'')
      else if pools \<noteq> JUndef \<and> pools \<noteq> JNull \<and> \<not> all_strings pools
        then Inl (400, ''pools must be an array of strings, or null to clear the override'')
      else Inr (s\<lparr>devices := update_row d_id dev (edit_row body) (devices s)\<rparr>))"

definition claim_of :: "id \<Rightarrow> store \<Rightarrow> job option" where
  "claim_of dev s = List.find (\<lambda>j. j_status j = Claimed \<and> j_claimed_by j = Some dev) (jobs s)"

definition forget_device :: "id \<Rightarrow> store \<Rightarrow> refusal + store" where
  "forget_device dev s =
     (case claim_of dev s of
        Some j \<Rightarrow> Inl (409, ''device is running '' @ j_id j @ ''; cancel it first'')
      | None \<Rightarrow>
          (case lock_of dev s of
             Some i \<Rightarrow> Inl (409, ''device is locked by '' @ i @ ''; cancel that job or release the lock first'')
           | None \<Rightarrow>
               if find_device dev s = None then Inl (404, ''unknown device'')
               else Inr (s\<lparr>devices := delete_row d_id dev (devices s),
                           device_locks := delete_row l_device_id dev (device_locks s)\<rparr>)))"

definition release_device_lock :: "id \<Rightarrow> store \<Rightarrow> store \<times> nat" where
  "release_device_lock dev s =
     (s\<lparr>device_locks := delete_row l_device_id dev (device_locks s)\<rparr>,
      length (filter (\<lambda>l. l_device_id l = dev) (device_locks s)))"

section \<open>Reservations (\<open>POST /api/v1/devices/:id/reserve\<close>, \<open>/unreserve\<close>)\<close>

text \<open>\<open>actor\<close> is who asked, as \<open>authOf\<close> says.\<close>

definition label_message :: string where
  "label_message =
     ''label must be letters, digits, '' @ q @ ''.'' @ q @ '', '' @ q @ ''_'' @ q @ '', '' @ q @ '':'' @ q @
     '' or '' @ q @ ''-'' @ q @ '' (at most 64)''"

definition reserve_device :: "string option \<Rightarrow> id \<Rightarrow> js \<Rightarrow> store \<Rightarrow> refusal + store" where
  "reserve_device actor dev body s =
     (let note = jget ''note'' body;
          noted = (if is_str note \<and> truthy note then Some (take 500 (js_string note)) else None)
      in case str_of (jget ''label'' body) of
        None \<Rightarrow> Inl (400, label_message)
      | Some label \<Rightarrow>
          if \<not> reservation_label label then Inl (400, label_message)
          else if note \<noteq> JUndef \<and> note \<noteq> JNull \<and> \<not> is_str note then Inl (400, ''note must be a string'')
          else case reservation_of dev s of
            Some held \<Rightarrow>
              if held \<noteq> label then Inl (409, dev @ '' is already reserved for '' @ q @ held @ q)
              else Inr (s\<lparr>device_reservations :=
                     update_row v_device_id dev (\<lambda>v. v\<lparr>v_note := noted\<rparr>) (device_reservations s)\<rparr>)
          | None \<Rightarrow>
              Inr (s\<lparr>device_reservations := device_reservations s @
                     [\<lparr>v_device_id = dev, v_label = label, v_note = noted, v_reserved_by = actor\<rparr>]\<rparr>))"

definition unreserve_device :: "id \<Rightarrow> store \<Rightarrow> store \<times> string option" where
  "unreserve_device dev s =
     (s\<lparr>device_reservations := delete_row v_device_id dev (device_reservations s)\<rparr>, reservation_of dev s)"

section \<open>Hygiene (\<open>registry-hygiene.ts\<close>)\<close>

definition simulator_ttl_days :: "string option \<Rightarrow> rat" where
  "simulator_ttl_days setting =
     (case setting of
        None \<Rightarrow> 7
      | Some v \<Rightarrow> (case str_number v of Fin r \<Rightarrow> if r > 0 then r else 7 | _ \<Rightarrow> 7))"

definition declared_simulator :: "js \<Rightarrow> bool" where
  "declared_simulator d \<longleftrightarrow> jget ''kind'' d = JStr ''simulator'' \<or> jget ''soc'' d = JStr ''simulator''"

text \<open>\<open>Math.round\<close> on a number that is not negative.\<close>

definition round_half_up :: "rat \<Rightarrow> int" where
  "round_half_up r = \<lfloor>r + 1 / 2\<rfloor>"

definition stale_simulator :: "env \<Rightarrow> rat \<Rightarrow> store \<Rightarrow> device \<Rightarrow> bool" where
  "stale_simulator e days s d \<longleftrightarrow>
     d_last_seen d \<le> e_now e - round_half_up (days * 86400) \<and> \<not> device_held (d_id d) s \<and>
     declared_simulator (d_descriptor d)"

definition forget_stale_simulators :: "env \<Rightarrow> rat \<Rightarrow> store \<Rightarrow> store \<times> id list" where
  "forget_stale_simulators e days s =
     (s\<lparr>devices := filter (\<lambda>d. \<not> stale_simulator e days s d) (devices s)\<rparr>,
      map d_id (filter (stale_simulator e days s) (devices s)))"

section \<open>Laws\<close>

text \<open>
  What the queue relies on of every registry operation: it leaves jobs and locks alone, except that
  forgetting a device may drop that device's own lock, and it never removes the row of a device that
  holds a lock or a claim.
\<close>

locale registry_operation =
  fixes run :: "store \<Rightarrow> store"
  assumes jobs_kept: "jobs (run s) = jobs s"
    and locks_kept: "lock_of dev s = Some i \<Longrightarrow> lock_of dev (run s) = Some i"
    and locks_new: "\<exists>P. device_locks (run s) = filter P (device_locks s)"
    and held_kept: "device_held dev s \<Longrightarrow> find_device dev s \<noteq> None \<Longrightarrow> find_device dev (run s) \<noteq> None"
begin

lemma held_stays_held: "device_held dev s \<Longrightarrow> device_held dev (run s)"
  by (auto simp: device_held_def jobs_kept dest: locks_kept)

lemma held_row_kept_twice:
  "device_held dev s \<Longrightarrow> find_device dev s \<noteq> None \<Longrightarrow> find_device dev (run (run s)) \<noteq> None"
  by (intro held_kept held_stays_held)

end

definition accepted :: "store \<Rightarrow> refusal + store \<Rightarrow> store" where
  "accepted s r = (case r of Inl _ \<Rightarrow> s | Inr s' \<Rightarrow> s')"

lemma accepted_simps [simp]: "accepted s (Inl r) = s" "accepted s (Inr s') = s'"
  by (simp_all add: accepted_def)

lemma device_held_frame [frame_simps]:
  "device_held dev (s\<lparr>devices := x\<rparr>) = device_held dev s"
  by (simp add: device_held_def lock_of_def)

lemma retire_frame:
  "jobs (fst (retire_roku_ip_duplicate dev d s)) = jobs s"
  "device_locks (fst (retire_roku_ip_duplicate dev d s)) = device_locks s"
  by (simp_all add: retire_roku_ip_duplicate_def Let_def split: option.splits)

lemma retire_held:
  "device_held x s \<Longrightarrow> find_device x s \<noteq> None \<Longrightarrow>
     find_device x (fst (retire_roku_ip_duplicate dev d s)) \<noteq> None"
  by (auto simp: retire_roku_ip_duplicate_def find_device_def row_simps Let_def split: option.splits)

interpretation merge_device: row_update d_id "merge_device e descriptor pools caps net ttl"
  for e descriptor pools caps net ttl
  by unfold_locales (simp add: merge_device_def)

lemma find_upsert_device:
  "find_row d_id dev rows \<noteq> None \<Longrightarrow>
     find_row d_id dev (upsert_row d_id k (merge_device e ds ps caps net ttl) r rows) \<noteq> None"
  by (auto simp: upsert_row_def merge_device.find_update find_row_append)

definition registered :: "env \<Rightarrow> string list \<Rightarrow> tailnet_peer option \<Rightarrow> string \<Rightarrow> js \<Rightarrow> store \<Rightarrow> store" where
  "registered e allowlist peer ip b s = accepted s (map_sum id fst (register e allowlist peer ip b s))"

lemma registered_cases:
  obtains "registered e allowlist peer ip b s = s"
  | dev d ds ps caps net ttl r where
      "registered e allowlist peer ip b s =
         fst (retire_roku_ip_duplicate dev d
           (s\<lparr>devices := upsert_row d_id dev (merge_device e ds ps caps net ttl) r (devices s)\<rparr>))"
proof -
  have "registered e allowlist peer ip b s = s \<or> (\<exists>dev d ds ps caps net ttl r.
      registered e allowlist peer ip b s =
         fst (retire_roku_ip_duplicate dev d
           (s\<lparr>devices := upsert_row d_id dev (merge_device e ds ps caps net ttl) r (devices s)\<rparr>)))"
    unfolding registered_def register_def Let_def
    by (cases "register_refusal b"; cases "admit (normalise_ip (Some ip)) allowlist peer";
        cases "fst (admit (normalise_ip (Some ip)) allowlist peer)") (simp_all, blast)
  then show thesis using that by blast
qed

interpretation register_op: registry_operation "registered e allowlist peer ip b"
  for e allowlist peer ip b
proof
  fix s dev i
  show "jobs (registered e allowlist peer ip b s) = jobs s"
    by (cases rule: registered_cases [of e allowlist peer ip b s]) (auto simp: retire_frame)
  have locks: "device_locks (registered e allowlist peer ip b s) = device_locks s"
    by (cases rule: registered_cases [of e allowlist peer ip b s]) (auto simp: retire_frame)
  then show "\<exists>P. device_locks (registered e allowlist peer ip b s) = filter P (device_locks s)"
    by (intro exI [of _ "\<lambda>_. True"]) simp
  show "lock_of dev s = Some i \<Longrightarrow> lock_of dev (registered e allowlist peer ip b s) = Some i"
    by (simp add: lock_of_def locks)
  assume held: "device_held dev s" "find_device dev s \<noteq> None"
  show "find_device dev (registered e allowlist peer ip b s) \<noteq> None"
  proof (cases rule: registered_cases [of e allowlist peer ip b s])
    case (2 dev' d ds ps caps net ttl r)
    let ?s1 = "s\<lparr>devices := upsert_row d_id dev' (merge_device e ds ps caps net ttl) r (devices s)\<rparr>"
    have "device_held dev ?s1" using held by (simp add: frame_simps)
    moreover have "find_device dev ?s1 \<noteq> None"
      using held find_upsert_device by (simp add: find_device_def del: not_None_eq)
    ultimately show ?thesis unfolding 2 by (rule retire_held)
  qed (use held in simp)
qed

interpretation forget_op: registry_operation "\<lambda>s. accepted s (forget_device dev s)" for dev
proof
  fix s x i
  show "jobs (accepted s (forget_device dev s)) = jobs s"
    by (simp add: forget_device_def split: option.splits)
  show "lock_of x s = Some i \<Longrightarrow> lock_of x (accepted s (forget_device dev s)) = Some i"
    by (auto simp: forget_device_def lock_of_def row_simps split: option.splits)
  show "\<exists>P. device_locks (accepted s (forget_device dev s)) = filter P (device_locks s)"
  proof (cases "forget_device dev s")
    case (Inr s')
    then have "device_locks s' = filter (\<lambda>l. l_device_id l \<noteq> dev) (device_locks s)"
      by (auto simp: forget_device_def delete_row_def split: option.splits if_splits)
    with Inr show ?thesis by (intro exI [of _ "\<lambda>l. l_device_id l \<noteq> dev"]) simp
  next
    case (Inl r)
    then show ?thesis by (intro exI [of _ "\<lambda>_. True"]) simp
  qed
  assume "device_held x s" "find_device x s \<noteq> None"
  then show "find_device x (accepted s (forget_device dev s)) \<noteq> None"
    by (auto simp: forget_device_def find_device_def row_simps device_held_def claim_of_def find_None
        split: option.splits)
qed

lemma find_filter_keep:
  "find_row key k rows = Some r \<Longrightarrow> P r \<Longrightarrow> find_row key k (filter P rows) \<noteq> None"
  using find_row_SomeD [of key k rows r] by (auto simp: find_row_None simp del: not_None_eq)

interpretation hygiene_op: registry_operation "\<lambda>s. fst (forget_stale_simulators e days s)" for e days
proof
  fix s dev i
  show "jobs (fst (forget_stale_simulators e days s)) = jobs s"
    by (simp add: forget_stale_simulators_def)
  show "\<exists>P. device_locks (fst (forget_stale_simulators e days s)) = filter P (device_locks s)"
    by (intro exI [of _ "\<lambda>_. True"]) (simp add: forget_stale_simulators_def)
  show "lock_of dev s = Some i \<Longrightarrow> lock_of dev (fst (forget_stale_simulators e days s)) = Some i"
    by (simp add: forget_stale_simulators_def lock_of_def)
  assume held: "device_held dev s" "find_device dev s \<noteq> None"
  then obtain d where d: "find_row d_id dev (devices s) = Some d" "d_id d = dev"
    by (auto simp: find_device_def dest: find_row_SomeD)
  with held have "\<not> stale_simulator e days s d" by (simp add: stale_simulator_def)
  from find_filter_keep [of d_id dev "devices s" d "\<lambda>d. \<not> stale_simulator e days s d", OF d(1) this]
  show "find_device dev (fst (forget_stale_simulators e days s)) \<noteq> None"
    by (simp add: find_device_def forget_stale_simulators_def del: not_None_eq)
qed

text \<open>Re-registering keeps what an older build of the agent does not send.\<close>

lemma merge_device_keeps:
  "d_capabilities (merge_device e ds ps None net ttl d) = d_capabilities d"
  "d_ttl_s (merge_device e ds ps caps net None d) = d_ttl_s d"
  "d_pools_override (merge_device e ds ps caps net ttl d) = d_pools_override d"
  "d_name (merge_device e ds ps caps net ttl d) = d_name d"
  by (simp_all add: merge_device_def)

end
