(* ===== verification/Dependencies.thy ===== *)
theory Dependencies
  imports Store Reservation
begin

text \<open>
  Job dependencies, \<open>collector/src/api/mutations.ts\<close> lines 40 to 330: the references a spec makes to
  the results of earlier jobs and their substitution, the checks at enqueue, and the settlement of the
  jobs that wait on one that closed.
\<close>

section \<open>References\<close>

text \<open>
  \<open>DEP_REF_SOURCE\<close>: the literal prefix, an id matched lazily (at least one character, no line
  terminator), a dot, and a field that ends at the closing brace. \<open>ok\<close> is what has to hold of the
  input after the match: nothing for the global search, being empty for the anchored one.
\<close>

record dep_ref =
  ref_raw :: string
  ref_job :: id
  ref_field :: string

definition field_at :: "string \<Rightarrow> (string \<times> string) option" where
  "field_at s =
     (if prefix ''artifact}'' s then Some (''artifact'', drop 9 s)
      else if prefix ''metrics.'' s then
        (let r = drop 8 s; inner = (\<lambda>c. c \<noteq> CHR ''}'' \<and> c \<noteq> CHR ''.'');
             k = takeWhile inner r; r' = dropWhile inner r
         in case r' of
              [] \<Rightarrow> None
            | c # cs \<Rightarrow> if c = CHR ''}'' \<and> k \<noteq> [] then Some (''metrics.'' @ k, cs) else None)
      else None)"

definition line_end :: "char \<Rightarrow> bool" where
  "line_end c \<longleftrightarrow> code c = 10 \<or> code c = 13"

text \<open>The field after the dot that ends the id, where there is one and \<open>ok\<close> holds of what follows.\<close>

definition dot_field :: "(string \<Rightarrow> bool) \<Rightarrow> string \<Rightarrow> (string \<times> string) option" where
  "dot_field ok s =
     (case s of
        [] \<Rightarrow> None
      | c # r \<Rightarrow>
          if c = CHR ''.'' then
            (case field_at r of
               None \<Rightarrow> None
             | Some (f, rest) \<Rightarrow> if ok rest then Some (f, rest) else None)
          else None)"

fun lazy_id :: "(string \<Rightarrow> bool) \<Rightarrow> string \<Rightarrow> string \<Rightarrow> (id \<times> string \<times> string) option" where
  "lazy_id ok acc [] = None"
| "lazy_id ok acc (c # s) =
     (if line_end c then None
      else case dot_field ok s of
             Some (f, rest) \<Rightarrow> Some (acc @ [c], f, rest)
           | None \<Rightarrow> lazy_id ok (acc @ [c]) s)"

definition ref_prefix :: string where
  "ref_prefix = ''${jobs.''"

definition ref_text :: "id \<Rightarrow> string \<Rightarrow> string" where
  "ref_text i f = ref_prefix @ i @ ''.'' @ f @ ''}''"

definition ref_at :: "(string \<Rightarrow> bool) \<Rightarrow> string \<Rightarrow> (dep_ref \<times> string) option" where
  "ref_at ok s =
     (if prefix ref_prefix s then
        (case lazy_id ok [] (drop 7 s) of
           None \<Rightarrow> None
         | Some (i, f, rest) \<Rightarrow> Some (\<lparr>ref_raw = ref_text i f, ref_job = i, ref_field = f\<rparr>, rest))
      else None)"

lemma field_at_shorter:
  assumes "field_at s = Some (f, rest)"
  shows "length rest < length s"
proof (cases "prefix ''artifact}'' s")
  case True
  then have "length s \<ge> 9" by (auto dest: prefix_length_le)
  with True assms show ?thesis by (auto simp: field_at_def)
next
  case False
  let ?inner = "\<lambda>c. c \<noteq> CHR ''}'' \<and> c \<noteq> CHR ''.''"
  from False assms obtain c where "dropWhile ?inner (drop 8 s) = c # rest"
    by (auto simp: field_at_def Let_def split: if_splits list.splits)
  moreover have "length (dropWhile ?inner (drop 8 s)) \<le> length s"
    by (rule order_trans [OF length_dropWhile_le]) simp
  ultimately show ?thesis by simp
qed

lemma dot_field_shorter: "dot_field ok s = Some (f, rest) \<Longrightarrow> length rest < length s"
  by (auto simp: dot_field_def split: list.splits if_splits option.splits prod.splits dest!: field_at_shorter)

lemma lazy_id_shorter: "lazy_id ok acc s = Some (i, f, rest) \<Longrightarrow> length rest < length s"
  by (induction ok acc s rule: lazy_id.induct)
     (auto split: if_splits option.splits prod.splits dest!: dot_field_shorter)

lemma ref_at_shorter: "ref_at ok s = Some (r, rest) \<Longrightarrow> length rest < length s"
  by (auto simp: ref_at_def split: if_splits option.splits prod.splits dest!: lazy_id_shorter)

text \<open>A string as the global search sees it: matches from left to right, and the characters between.\<close>

function scan_refs :: "string \<Rightarrow> (char + dep_ref) list" where
  "scan_refs [] = []"
| "scan_refs (c # s) =
     (case ref_at (\<lambda>_. True) (c # s) of
        Some (r, rest) \<Rightarrow> Inr r # scan_refs rest
      | None \<Rightarrow> Inl c # scan_refs s)"
  by pat_completeness auto
termination
  by (relation "measure length") (auto dest!: ref_at_shorter)

definition dep_refs :: "string \<Rightarrow> dep_ref list" where
  "dep_refs json = concat (map (\<lambda>p. case p of Inl _ \<Rightarrow> [] | Inr r \<Rightarrow> [r]) (scan_refs json))"

text \<open>The reference a string is as a whole, by the anchored expression.\<close>

definition whole_ref :: "string \<Rightarrow> dep_ref option" where
  "whole_ref s = map_option fst (ref_at (\<lambda>rest. rest = []) s)"

section \<open>What a reference resolves to\<close>

definition job_results :: "id \<Rightarrow> store \<Rightarrow> js list" where
  "job_results i s = map r_payload (filter (\<lambda>r. r_job_id r = i) (results s))"

text \<open>The newest row that is final.\<close>

definition final_result :: "id \<Rightarrow> store \<Rightarrow> js option" where
  "final_result i s = List.find (\<lambda>p. truthy (jget ''final'' p)) (rev (job_results i s))"

definition hex_char :: "char \<Rightarrow> bool" where
  "hex_char c \<longleftrightarrow> is_digit c \<or> (97 \<le> code c \<and> code c \<le> 102)"

definition is_sha :: "string \<Rightarrow> bool" where
  "is_sha s \<longleftrightarrow> length s = 64 \<and> list_all hex_char s"

definition first_artifact_sha :: "js \<Rightarrow> string option" where
  "first_artifact_sha payload =
     (case jor (jget ''artifacts'' (jget ''test'' payload)) (jget ''artifacts'' payload) of
        JArr xs \<Rightarrow>
          (case List.find (\<lambda>a. case a of JStr x \<Rightarrow> is_sha x | _ \<Rightarrow> False) xs of
             Some (JStr x) \<Rightarrow> Some x
           | _ \<Rightarrow> None)
      | _ \<Rightarrow> None)"

definition resolve_dep_ref :: "store \<Rightarrow> id \<Rightarrow> string \<Rightarrow> string + js" where
  "resolve_dep_ref s i field =
     (case final_result i s of
        None \<Rightarrow> Inl (i @ '' posted no final result row'')
      | Some final \<Rightarrow>
          if field = ''artifact'' then
            (case first_artifact_sha final of
               Some sha \<Rightarrow> Inr (JStr sha)
             | None \<Rightarrow> Inl (i @ '' uploaded no artifact''))
          else
            (let key = drop 8 field; v = jget key (jget ''metrics'' final) in
             if v = JUndef then Inl (i @ '' reported no metric '' @ q @ key @ q) else Inr v))"

section \<open>Substitution\<close>

definition unresolved_text :: "dep_ref \<Rightarrow> string \<Rightarrow> string" where
  "unresolved_text r why = ref_raw r @ '' ('' @ why @ '')''"

definition fill_piece :: "(id \<Rightarrow> string \<Rightarrow> string + js) \<Rightarrow> char + dep_ref \<Rightarrow> string \<times> string list" where
  "fill_piece resolve p =
     (case p of
        Inl c \<Rightarrow> ([c], [])
      | Inr r \<Rightarrow>
          (case resolve (ref_job r) (ref_field r) of
             Inr v \<Rightarrow> (js_string v, [])
           | Inl why \<Rightarrow> (ref_raw r, [unresolved_text r why])))"

definition fill_string :: "(id \<Rightarrow> string \<Rightarrow> string + js) \<Rightarrow> string \<Rightarrow> js \<times> string list" where
  "fill_string resolve s =
     (case whole_ref s of
        Some r \<Rightarrow>
          (case resolve (ref_job r) (ref_field r) of
             Inr v \<Rightarrow> (v, [])
           | Inl why \<Rightarrow> (JStr s, [unresolved_text r why]))
      | None \<Rightarrow>
          (let ps = map (fill_piece resolve) (scan_refs s)
           in (JStr (concat (map fst ps)), concat (map snd ps))))"

fun fill_node :: "(id \<Rightarrow> string \<Rightarrow> string + js) \<Rightarrow> js \<Rightarrow> js \<times> string list" where
  "fill_node resolve (JStr s) = fill_string resolve s"
| "fill_node resolve (JArr xs) =
     (let rs = map (fill_node resolve) xs in (JArr (map fst rs), concat (map snd rs)))"
| "fill_node resolve (JObj fs) =
     (let rs = map (\<lambda>(k, v). (k, fill_node resolve v)) fs
      in (JObj (map (\<lambda>(k, r). (k, fst r)) rs), concat (map (\<lambda>(k, r). snd r) rs)))"
| "fill_node resolve v = (v, [])"

definition substitute_dep_refs :: "store \<Rightarrow> js \<Rightarrow> js \<times> string list" where
  "substitute_dep_refs s spec = fill_node (resolve_dep_ref s) spec"

section \<open>Checks at enqueue\<close>

definition deps_of :: "id \<Rightarrow> store \<Rightarrow> id list" where
  "deps_of i s = (case find_job i s of None \<Rightarrow> [] | Some j \<Rightarrow> (case j_depends_on j of None \<Rightarrow> [] | Some ds \<Rightarrow> ds))"

text \<open>The walk of \<open>validateDependencies\<close>; the head of the list is the top of the source's stack.\<close>

function dep_walk :: "store \<Rightarrow> id \<Rightarrow> id list \<Rightarrow> id list \<Rightarrow> bool" where
  "dep_walk s job seen [] = False"
| "dep_walk s job seen (cur # stack) =
     (if cur = job then True
      else if cur \<in> set seen then dep_walk s job seen stack
      else dep_walk s job (cur # seen) (rev (deps_of cur s) @ stack))"
  by pat_completeness auto

lemma deps_of_unknown: "cur \<notin> set (job_ids s) \<Longrightarrow> deps_of cur s = []"
  by (auto simp: deps_of_def find_job_def job_ids_def find_row_None split: option.splits dest: find_row_SomeD)

lemma unseen_less:
  assumes "cur \<in> set ids" "cur \<notin> set seen"
  shows "length (filter (\<lambda>i. i \<notin> set (cur # seen)) ids) < length (filter (\<lambda>i. i \<notin> set seen) ids)"
proof -
  have "filter (\<lambda>i. i \<notin> set (cur # seen)) ids = filter (\<lambda>i. i \<noteq> cur) (filter (\<lambda>i. i \<notin> set seen) ids)"
    by (auto intro: filter_cong)
  moreover have "length (filter (\<lambda>i. i \<noteq> cur) (filter (\<lambda>i. i \<notin> set seen) ids)) < length (filter (\<lambda>i. i \<notin> set seen) ids)"
    by (rule length_filter_less [of cur]) (use assms in auto)
  ultimately show ?thesis by (simp only:)
qed

lemma unseen_le:
  "length (filter (\<lambda>i. i \<notin> set (cur # seen)) ids) \<le> length (filter (\<lambda>i. i \<notin> set seen) ids)"
  by (induction ids) auto

termination dep_walk
proof (relation "measures [\<lambda>(s, job, seen, stack). length (filter (\<lambda>i. i \<notin> set seen) (job_ids s)),
                           \<lambda>(s, job, seen, stack). length stack]"; (simp; fail)?)
  fix s job seen and cur :: id and stack
  assume "cur \<noteq> job" "cur \<notin> set seen"
  then show "((s, job, cur # seen, rev (deps_of cur s) @ stack), (s, job, seen, cur # stack))
      \<in> measures [\<lambda>(s, job, seen, stack). length (filter (\<lambda>i. i \<notin> set seen) (job_ids s)),
                  \<lambda>(s, job, seen, stack). length stack]"
    using unseen_less [of cur "job_ids s" seen] unseen_le [of cur seen "job_ids s"]
    by (cases "cur \<in> set (job_ids s)") (auto simp: deps_of_unknown le_less)
qed

definition validate_dependencies :: "store \<Rightarrow> id \<Rightarrow> id list \<Rightarrow> string option" where
  "validate_dependencies s job deps =
     (if dep_walk s job [] (rev deps) then Some (''depends_on forms a cycle back to '' @ job)
      else case List.find (\<lambda>d. find_job d s = None) deps of
             Some d \<Rightarrow> Some (''depends_on names a job that does not exist: '' @ d)
           | None \<Rightarrow> None)"

definition validate_dep_refs :: "string \<Rightarrow> id list \<Rightarrow> string option" where
  "validate_dep_refs json deps =
     (case List.find (\<lambda>r. ref_job r \<notin> set deps) (dep_refs json) of
        Some r \<Rightarrow> Some (ref_raw r @ '' references '' @ ref_job r @ '', which is not in depends_on'')
      | None \<Rightarrow> None)"

definition status_str :: "job_status \<Rightarrow> string" where
  "status_str st = (case st of Waiting \<Rightarrow> ''waiting'' | Queued \<Rightarrow> ''queued'' | Claimed \<Rightarrow> ''claimed''
     | Done \<Rightarrow> ''done'' | Failed \<Rightarrow> ''failed'' | Cancelled \<Rightarrow> ''cancelled'' | Skipped \<Rightarrow> ''skipped'')"

definition status_of :: "id \<Rightarrow> store \<Rightarrow> job_status option" where
  "status_of i s = map_option j_status (find_job i s)"

datatype dep_state = DQueued | DWaiting | DFailed string | DSkipped string

text \<open>\<open>dependencyState\<close>: the loop, with what it has seen so far.\<close>

fun dep_state_loop :: "store \<Rightarrow> bool \<Rightarrow> id option \<Rightarrow> id list \<Rightarrow> dep_state" where
  "dep_state_loop s all_done skipped [] =
     (case skipped of
        Some d \<Rightarrow> DSkipped (''dependency '' @ d @ '' skipped'')
      | None \<Rightarrow> if all_done then DQueued else DWaiting)"
| "dep_state_loop s all_done skipped (d # ds) =
     (let st = status_of d s in
      case st of
        Some Failed \<Rightarrow> DFailed (''dependency '' @ d @ '' '' @ status_str Failed)
      | Some Cancelled \<Rightarrow> DFailed (''dependency '' @ d @ '' '' @ status_str Cancelled)
      | _ \<Rightarrow> dep_state_loop s (all_done \<and> st = Some Done)
               (if st = Some Skipped then coalesce skipped (Some d) else skipped) ds)"

definition dependency_state :: "store \<Rightarrow> id list \<Rightarrow> dep_state" where
  "dependency_state s deps = dep_state_loop s True None deps"

section \<open>Settling the jobs that wait\<close>

definition waiters_on :: "id \<Rightarrow> store \<Rightarrow> job list" where
  "waiters_on i s =
     filter (\<lambda>j. j_status j = Waiting \<and> (case j_depends_on j of None \<Rightarrow> False | Some ds \<Rightarrow> i \<in> set ds)) (jobs s)"

record settlement =
  promoted :: "id list"
  failed_deps :: "(id \<times> string) list"
  skipped_deps :: "(id \<times> string) list"

definition no_settlement :: settlement where
  "no_settlement = \<lparr>promoted = [], failed_deps = [], skipped_deps = []\<rparr>"

text \<open>The update both \<open>failWaiter\<close> and \<open>skipWaiter\<close> issue, and \<open>cancelTx\<close> too.\<close>

definition close_job_row :: "env \<Rightarrow> job_status \<Rightarrow> string option \<Rightarrow> job \<Rightarrow> job" where
  "close_job_row e st why j =
     j\<lparr>j_status := st, j_finished_at := Some (e_now e), j_lease_deadline := None, j_last_error := why\<rparr>"

definition promote_row :: "js \<Rightarrow> job \<Rightarrow> job" where
  "promote_row spec j = j\<lparr>j_status := Queued, j_spec := spec\<rparr>"

datatype verdict = VFail string | VSkip string | VOpen | VReady

definition broken_dep :: "store \<Rightarrow> id \<Rightarrow> bool" where
  "broken_dep s d \<longleftrightarrow> status_of d s \<in> {Some Failed, Some Cancelled, None}"

definition dep_verdict :: "store \<Rightarrow> id list \<Rightarrow> verdict" where
  "dep_verdict s deps =
     (case List.find (broken_dep s) deps of
        Some d \<Rightarrow>
          VFail (case status_of d s of
                   None \<Rightarrow> ''dependency '' @ d @ '' no longer exists''
                 | Some st \<Rightarrow> ''dependency '' @ d @ '' '' @ status_str st)
      | None \<Rightarrow>
          (case List.find (\<lambda>d. status_of d s = Some Skipped) deps of
             Some d \<Rightarrow> VSkip (''dependency '' @ d @ '' skipped'')
           | None \<Rightarrow> if list_all (\<lambda>d. status_of d s = Some Done) deps then VReady else VOpen))"

type_synonym settling = "store \<times> settlement"

text \<open>\<open>rec i\<close> is the settlement of what waits on \<open>i\<close>.\<close>

definition fail_waiter :: "env \<Rightarrow> (id \<Rightarrow> settling \<Rightarrow> settling option) \<Rightarrow> id \<Rightarrow> string \<Rightarrow> settling \<Rightarrow> settling option" where
  "fail_waiter e rec i why st =
     rec i (update_job i (close_job_row e Failed (Some why)) (fst st),
            (snd st)\<lparr>failed_deps := failed_deps (snd st) @ [(i, why)]\<rparr>)"

definition skip_waiter :: "env \<Rightarrow> (id \<Rightarrow> settling \<Rightarrow> settling option) \<Rightarrow> id \<Rightarrow> string \<Rightarrow> settling \<Rightarrow> settling option" where
  "skip_waiter e rec i why st =
     rec i (update_job i (close_job_row e Skipped (Some why)) (fst st),
            (snd st)\<lparr>skipped_deps := skipped_deps (snd st) @ [(i, why)]\<rparr>)"

definition job_deps :: "job \<Rightarrow> id list" where
  "job_deps j = (case j_depends_on j of None \<Rightarrow> [] | Some ds \<Rightarrow> ds)"

definition settle_one :: "env \<Rightarrow> (id \<Rightarrow> settling \<Rightarrow> settling option) \<Rightarrow> job \<Rightarrow> settling \<Rightarrow> settling option" where
  "settle_one e rec w st =
     (case dep_verdict (fst st) (job_deps w) of
        VFail why \<Rightarrow> fail_waiter e rec (j_id w) why st
      | VSkip why \<Rightarrow> skip_waiter e rec (j_id w) why st
      | VOpen \<Rightarrow> Some st
      | VReady \<Rightarrow>
          (let (spec, unresolved) = substitute_dep_refs (fst st) (j_spec w) in
           if unresolved \<noteq> []
           then fail_waiter e rec (j_id w) (''cannot resolve '' @ join ''; '' unresolved) st
           else Some (update_job (j_id w) (promote_row spec) (fst st),
                      (snd st)\<lparr>promoted := promoted (snd st) @ [j_id w]\<rparr>)))"

fun fold_opt :: "('a \<Rightarrow> 's \<Rightarrow> 's option) \<Rightarrow> 'a list \<Rightarrow> 's \<Rightarrow> 's option" where
  "fold_opt f [] st = Some st"
| "fold_opt f (x # xs) st = (case f x st of None \<Rightarrow> None | Some st' \<Rightarrow> fold_opt f xs st')"

text \<open>
  The recursion of \<open>settleWaiters\<close> with fuel: \<open>None\<close> when it runs out. Each level of the recursion has
  taken one more job out of \<open>waiting\<close>, so the number of waiting jobs plus one is enough (proved below).
\<close>

primrec settle :: "nat \<Rightarrow> env \<Rightarrow> id \<Rightarrow> settling \<Rightarrow> settling option" where
  "settle 0 e i st = None"
| "settle (Suc n) e i st = fold_opt (settle_one e (settle n e)) (waiters_on i (fst st)) st"

definition settle_fuel :: "store \<Rightarrow> nat" where
  "settle_fuel s = Suc (length (filter (\<lambda>j. j_status j = Waiting) (jobs s)))"

definition settle_waiters :: "env \<Rightarrow> id \<Rightarrow> store \<Rightarrow> settling" where
  "settle_waiters e i s =
     (case settle (settle_fuel s) e i (s, no_settlement) of
        Some r \<Rightarrow> r
      | None \<Rightarrow> (s, no_settlement))"

section \<open>Cancelling\<close>

record cancel_outcome =
  co_was :: job_status
  co_released :: nat
  co_settled :: settlement

definition locks_on_job :: "id \<Rightarrow> store \<Rightarrow> nat" where
  "locks_on_job i s = length (filter (\<lambda>l. l_job_id l = i) (device_locks s))"

definition cancel_tx :: "env \<Rightarrow> id \<Rightarrow> string \<Rightarrow> store \<Rightarrow> (nat \<times> string) + (cancel_outcome \<times> store)" where
  "cancel_tx e i reason s =
     (case find_job i s of
        None \<Rightarrow> Inl (404, ''not found'')
      | Some j \<Rightarrow>
          if j_status j \<notin> {Queued, Claimed, Waiting}
          then Inl (409, ''job is already '' @ status_str (j_status j))
          else
            (let s1 = update_job i (close_job_row e Cancelled (Some reason)) s;
                 s2 = drop_locks i s1;
                 (s3, out) = settle_waiters e i s2
             in Inr (\<lparr>co_was = j_status j, co_released = locks_on_job i s1, co_settled = out\<rparr>, s3)))"

end
