(* ===== verification/Queue.thy ===== *)
theory Queue
  imports Registry Dependencies
begin

text \<open>
  Putting work on the queue, \<open>collector/src/queue.ts\<close>: the devices a \<open>targets\<close> clause selects, the
  build \<open>latest\<close> names, and \<open>enqueueJob\<close>, split where the source's function has its stages. A job spec is
  the JavaScript value the request carried. A refusal keeps the source's status, code and message.
\<close>

section \<open>Constants\<close>

definition DEFAULT_LEASE_TTL_S :: int where "DEFAULT_LEASE_TTL_S = 600"
definition LONG_LEASE_TTL_S :: int where "LONG_LEASE_TTL_S = 4 * 60 * 60"
definition MAX_LEASE_TTL_S :: int where "MAX_LEASE_TTL_S = 24 * 60 * 60"
definition DEFAULT_MAX_ATTEMPTS :: int where "DEFAULT_MAX_ATTEMPTS = 3"

definition LONG_LEASE_WORKLOADS :: "string list" where
  "LONG_LEASE_WORKLOADS =
     [''drain'', ''soak'', ''thermal'', ''build'', ''app-soak'', ''speech-eval'', ''embed-eval'',
      ''model-convert'', ''dataset-prep'', ''serve'', ''push-latency'']"

definition WORKLOADS :: "string list" where
  "WORKLOADS =
     [''benchmark'', ''batch'', ''pipeline'', ''install'', ''ui-test'', ''drain'', ''soak'',
      ''web-test'', ''web-shots'', ''web-audit'', ''web-unfurl'', ''archive'', ''digest'',
      ''thermal'', ''cold-start'', ''self-check'',
      ''build'', ''speech-eval'', ''embed-eval'', ''vantage'', ''locale-shots'', ''app-soak'', ''a11y-audit'',
      ''model-convert'', ''dataset-prep'', ''serve'', ''shell'', ''push-latency'', ''camera-eval'', ''desktop-ui-test'',
      ''llm-eval'', ''size-report'', ''upgrade-test'', ''enrol'', ''tvloop'', ''explore'']"

definition EXECUTOR_LIVE_S :: int where "EXECUTOR_LIVE_S = 120"

section \<open>Which devices\<close>

text \<open>\<open>{ ...JSON.parse(d.descriptor), device_id, pools, capabilities: capabilities ?? [] }\<close>\<close>

definition descriptor_view :: "id \<Rightarrow> js \<Rightarrow> string list \<Rightarrow> string list option \<Rightarrow> js" where
  "descriptor_view dev descriptor pools caps =
     jset ''capabilities'' (JArr (map JStr (case caps of Some cs \<Rightarrow> cs | None \<Rightarrow> [])))
       (jset ''pools'' (JArr (map JStr pools)) (jset ''device_id'' (JStr dev) descriptor))"

definition device_view :: "device \<Rightarrow> js" where
  "device_view d = descriptor_view (d_id d) (d_descriptor d) (effective_pools d) (d_capabilities d)"

definition device_reservations_of :: "store \<Rightarrow> (id \<times> string) list" where
  "device_reservations_of s = map (\<lambda>v. (v_device_id v, v_label v)) (device_reservations s)"

record device_query =
  dq_pool :: js
  dq_match :: js
  dq_workload :: js
  dq_backend :: js
  dq_job :: js
  dq_ignore_reservations :: bool

definition device_matches :: "env \<Rightarrow> store \<Rightarrow> device_query \<Rightarrow> device \<Rightarrow> bool" where
  "device_matches e s dq d =
     (let pools = effective_pools d; caps = d_capabilities d; view = device_view d;
          label = (if dq_ignore_reservations dq then None else reservation_of (d_id d) s)
      in if is_expired d (Some (age e (d_last_seen d))) then False
         else if truthy (dq_pool dq) \<and> dq_pool dq \<notin> JStr ` set pools then False
         else if truthy (dq_workload dq) \<and> \<not> capability_matches caps (dq_workload dq) (dq_backend dq) then False
         else if \<not> reservation_allows (e_regex e) (dq_job dq) (d_id d) label view then False
         else if truthy (dq_match dq) then matches (e_regex e) (dq_match dq) view
         else True)"

definition matching_devices :: "env \<Rightarrow> store \<Rightarrow> device_query \<Rightarrow> device list" where
  "matching_devices e s dq = filter (device_matches e s dq) (devices s)"

section \<open>Checks\<close>

definition reserved_conflict :: "env \<Rightarrow> store \<Rightarrow> js \<Rightarrow> (id \<times> string) option" where
  "reserved_conflict e s spec =
     (let targets = jget ''targets'' spec in
      if \<not> truthy (jget ''device_id'' targets) \<and> \<not> truthy (jget ''match'' targets) then None
      else
        List.find
          (\<lambda>(dev, label).
             jget ''reservation'' spec \<noteq> JStr label \<and>
             pins_device (e_regex e) targets dev
               (case find_device dev s of Some d \<Rightarrow> d_descriptor d | None \<Rightarrow> JObj []))
          (device_reservations_of s))"

definition workload_serviceable_by :: "env \<Rightarrow> store \<Rightarrow> js \<Rightarrow> js \<Rightarrow> bool" where
  "workload_serviceable_by e s workload backend =
     (if workload \<in> JStr ` set WORKLOADS then True
      else list_ex (\<lambda>d. \<not> is_expired d (Some (age e (d_last_seen d))) \<and> d_capabilities d \<noteq> None \<and>
                        capability_matches (d_capabilities d) workload backend) (devices s))"

section \<open>\<open>latest\<close>\<close>

text \<open>
  \<open>ORDER BY COALESCE(publish_seq, rowid) DESC LIMIT 1\<close>. Every row that names an app has a sequence
  number (\<open>POST /artifacts\<close> and the start-up backfill give it one), so the row number is only a
  fallback; it is the position in the table here.
\<close>

definition publish_rank :: "nat \<Rightarrow> artifact \<Rightarrow> int" where
  "publish_rank n a = (case a_publish_seq a of Some k \<Rightarrow> k | None \<Rightarrow> int n + 1)"

definition newest :: "(nat \<times> artifact) list \<Rightarrow> artifact option" where
  "newest rows =
     map_option snd
       (foldl (\<lambda>best r. case best of
                 None \<Rightarrow> Some r
               | Some b \<Rightarrow> if publish_rank (fst r) (snd r) > publish_rank (fst b) (snd b) then Some r else best)
          None rows)"

definition app_builds :: "store \<Rightarrow> string \<Rightarrow> (nat \<times> artifact) list" where
  "app_builds s app = filter (\<lambda>(_, a). a_app a = Some app) (List.enumerate 0 (artifacts s))"

definition latest_build :: "store \<Rightarrow> string \<Rightarrow> artifact option" where
  "latest_build s app = newest (filter (\<lambda>(_, a). a_channel a \<noteq> Some ''pr'') (app_builds s app))"

definition resolve_latest_build :: "store \<Rightarrow> js \<Rightarrow> string + js" where
  "resolve_latest_build s spec =
     (let app = jget ''app'' spec in
      if jget ''sha256'' app \<noteq> JStr ''latest'' then Inr spec
      else if \<not> truthy (jget ''name'' app) then Inl (''app.sha256 is '' @ q @ ''latest'' @ q @ '' but app.name is missing'')
      else
        let name = js_string (jget ''name'' app) in
        case latest_build s name of
          None \<Rightarrow>
            Inl (''no build has been uploaded for '' @ name @
              (if list_ex (\<lambda>(_, a). a_channel a = Some ''pr'') (app_builds s name)
               then '' except from pull requests, which latest never resolves to'' else []))
        | Some row \<Rightarrow>
            let template_build = (if jget ''build'' app = JStr ''latest'' then JUndef else jget ''build'' app);
                build = (case a_build row of
                           Some b \<Rightarrow> JStr b
                         | None \<Rightarrow> jor template_build (JStr (take 12 (a_sha256 row))))
            in Inr (jset ''app'' (jset ''build'' build (jset ''sha256'' (JStr (a_sha256 row)) app)) spec))"

section \<open>Refusals and outcomes\<close>

record enqueue_refusal =
  er_http :: nat
  er_code :: string
  er_message :: string
  er_hint :: "string option"

definition refuse :: "nat \<Rightarrow> string \<Rightarrow> string \<Rightarrow> string option \<Rightarrow> enqueue_refusal" where
  "refuse http c message hint = \<lparr>er_http = http, er_code = c, er_message = message, er_hint = hint\<rparr>"

abbreviation invalid_spec :: "string \<Rightarrow> enqueue_refusal" where
  "invalid_spec message \<equiv> refuse 400 ''invalid_spec'' message None"

record candidate =
  cd_device_id :: id
  cd_model :: "string option"
  cd_os :: "string option"

definition candidate_of :: "device \<Rightarrow> candidate" where
  "candidate_of d =
     \<lparr>cd_device_id = d_id d, cd_model = str_of (jget ''model'' (d_descriptor d)),
      cd_os = str_of (jget ''os'' (d_descriptor d))\<rparr>"

record preview =
  pv_spec :: js
  pv_candidates :: "candidate list"
  pv_warnings :: "string list"

record enqueue_accepted =
  ea_http :: nat
  ea_status :: job_status
  ea_job_id :: id
  ea_fanout :: "id list option"
  ea_preview :: "preview option"

record provenance =
  pr_requested_by :: "string option"
  pr_source :: "string option"

text \<open>The next stage of a computation that may have refused.\<close>

definition and_then :: "'e + 'a \<Rightarrow> ('a \<Rightarrow> 'e + 'b) \<Rightarrow> 'e + 'b" where
  "and_then r f = (case r of Inl x \<Rightarrow> Inl x | Inr a \<Rightarrow> f a)"

lemma and_then_simps [simp]: "and_then (Inl x) f = Inl x" "and_then (Inr a) f = f a"
  by (simp_all add: and_then_def)

lemma and_then_Inr: "and_then r f = Inr b \<longleftrightarrow> (\<exists>a. r = Inr a \<and> f a = Inr b)"
  by (cases r) auto

section \<open>The stages of \<open>enqueueJob\<close>\<close>

definition banned_members :: "string list" where
  "banned_members = map quote [''password'', ''passwd'', ''secret'', ''token'', ''api_key'', ''apikey'']"

definition unquoted :: "string \<Rightarrow> string" where
  "unquoted = filter (\<lambda>c. c \<noteq> CHR 0x22)"

definition secret_in :: "js \<Rightarrow> string option" where
  "secret_in spec = List.find (\<lambda>b. contains b (lower (stringify spec))) banned_members"

definition no_agent_message :: "js \<Rightarrow> string" where
  "no_agent_message spec =
     ''no agent can run workload '' @ q @ js_string (jget ''workload'' spec) @ q @
     (if truthy (jget ''backend'' spec) then '' with backend '' @ q @ js_string (jget ''backend'' spec) @ q else []) @
     ''; a device must declare it in the capabilities it registers with''"

definition check_basics :: "env \<Rightarrow> store \<Rightarrow> js \<Rightarrow> enqueue_refusal + js" where
  "check_basics e s spec =
     (if jget ''schema'' spec \<noteq> JInt 1 then Inl (invalid_spec ''schema must be 1'')
      else if \<not> truthy (jget ''job_id'' spec) then Inl (invalid_spec ''job_id required'')
      else if \<not> is_str (jget ''workload'' spec) \<or> jget ''workload'' spec = JStr []
        then Inl (invalid_spec ''workload required'')
      else if \<not> workload_serviceable_by e s (jget ''workload'' spec) (jget ''backend'' spec)
        then Inl (refuse 422 ''no_capable_agent'' (no_agent_message spec)
                    (Some ''list what the fleet can run with GET /api/v1/workloads''))
      else case secret_in spec of
        Some b \<Rightarrow>
          Inl (refuse 400 ''secret_in_spec''
                 (''job specs must not carry secrets ('' @ unquoted b @ ''); '' @
                  ''name the account instead and keep the password in the executor host'' @ q @ ''s Keychain'') None)
      | None \<Rightarrow>
          (case resolve_latest_build s spec of
             Inl why \<Rightarrow> Inl (refuse 400 ''no_build'' why (Some ''publish a build for this app first''))
           | Inr spec' \<Rightarrow> Inr spec'))"

record lease =
  le_ttl :: int
  le_max :: int

definition check_lease :: "js \<Rightarrow> enqueue_refusal + (js \<times> lease)" where
  "check_lease spec =
     (let l = jget ''lease'' spec;
          ttl = jor (jget ''ttl_s'' l)
                  (JInt (if jget ''workload'' spec \<in> JStr ` set LONG_LEASE_WORKLOADS then LONG_LEASE_TTL_S
                         else DEFAULT_LEASE_TTL_S));
          max = jor (jget ''max_attempts'' l) (JInt DEFAULT_MAX_ATTEMPTS)
      in if jget ''executor'' spec \<noteq> JStr ''device'' \<and> jget ''executor'' spec \<noteq> JStr ''host''
           then Inl (invalid_spec (''executor must be '' @ q @ ''device'' @ q @ '' or '' @ q @ ''host'' @ q))
         else if l \<noteq> JUndef \<and> \<not> is_plain_object l then Inl (invalid_spec ''lease must be an object'')
         else case int_of ttl of
           None \<Rightarrow> Inl (invalid_spec (''lease.ttl_s must be an integer between 1 and '' @ int_str MAX_LEASE_TTL_S))
         | Some t \<Rightarrow>
             if t < 1 \<or> t > MAX_LEASE_TTL_S
             then Inl (invalid_spec (''lease.ttl_s must be an integer between 1 and '' @ int_str MAX_LEASE_TTL_S))
             else case int_of max of
               None \<Rightarrow> Inl (invalid_spec ''lease.max_attempts must be an integer >= 1'')
             | Some m \<Rightarrow>
                 if m < 1 then Inl (invalid_spec ''lease.max_attempts must be an integer >= 1'')
                 else Inr (jset ''lease'' (JObj [(''ttl_s'', JInt t), (''max_attempts'', JInt m)]) spec,
                           \<lparr>le_ttl = t, le_max = m\<rparr>))"

text \<open>\<open>priority\<close>, \<open>template_id\<close>, \<open>preemptible\<close> and \<open>reservation\<close>.\<close>

definition check_options :: "js \<Rightarrow> enqueue_refusal + (int \<times> string option)" where
  "check_options spec =
     (case int_of (jor (jget ''priority'' spec) (JInt 0)) of
        None \<Rightarrow> Inl (invalid_spec ''priority must be an integer'')
      | Some p \<Rightarrow>
          if jget ''preemptible'' spec \<noteq> JUndef \<and> \<not> is_bool (jget ''preemptible'' spec)
          then Inl (invalid_spec ''preemptible must be a boolean'')
          else if jget ''reservation'' spec \<noteq> JUndef \<and>
                  (case jget ''reservation'' spec of JStr r \<Rightarrow> \<not> reservation_label r | _ \<Rightarrow> True)
          then Inl (invalid_spec (''reservation must be a label of letters, digits, '' @ q @ ''.'' @ q @ '', '' @
                 q @ ''_'' @ q @ '', '' @ q @ '':'' @ q @ '' or '' @ q @ ''-'' @ q @ '' (at most 64)''))
          else Inr (p, str_of (jget ''template_id'' spec)))"

definition spec_deps :: "js \<Rightarrow> enqueue_refusal + id list" where
  "spec_deps spec =
     (case jget ''depends_on'' spec of
        JUndef \<Rightarrow> Inr []
      | JArr xs \<Rightarrow>
          if list_all (\<lambda>d. is_str d \<and> d \<noteq> JStr []) xs then Inr (nub (strings_of (JArr xs)))
          else Inl (refuse 400 ''invalid_dependency'' ''depends_on must be an array of job ids'' None)
      | _ \<Rightarrow> Inl (refuse 400 ''invalid_dependency'' ''depends_on must be an array of job ids'' None))"

definition spec_id :: "js \<Rightarrow> id" where
  "spec_id spec = js_string (jget ''job_id'' spec)"

definition check_deps :: "store \<Rightarrow> js \<Rightarrow> enqueue_refusal + (js \<times> id list \<times> dep_state)" where
  "check_deps s spec =
     and_then (spec_deps spec) (\<lambda>deps.
       case (if jget ''depends_on'' spec = JUndef then None else validate_dependencies s (spec_id spec) deps) of
         Some bad \<Rightarrow> Inl (refuse 400 ''invalid_dependency'' bad None)
       | None \<Rightarrow>
           (case validate_dep_refs (stringify spec) deps of
              Some bad \<Rightarrow> Inl (refuse 400 ''invalid_dependency'' bad None)
            | None \<Rightarrow>
                let state = dependency_state s deps in
                if state = DQueued \<and> deps \<noteq> [] then
                  (let (spec', unresolved) = substitute_dep_refs s spec in
                   if unresolved \<noteq> []
                   then Inl (refuse 422 ''unresolved_reference'' (''cannot resolve '' @ join ''; '' unresolved) None)
                   else Inr (spec', deps, state))
                else Inr (spec, deps, state)))"

definition check_targets :: "env \<Rightarrow> store \<Rightarrow> js \<Rightarrow> enqueue_refusal + unit" where
  "check_targets e s spec =
     (let m = jget ''match'' (jget ''targets'' spec) in
      if truthy m \<and> (case m of JStr x \<Rightarrow> \<not> is_valid_match (e_regex e) x | _ \<Rightarrow> True)
      then Inl (refuse 400 ''invalid_match'' (''invalid targets.match expression: '' @ js_string m) None)
      else case reserved_conflict e s spec of
        Some (dev, label) \<Rightarrow>
          Inl (refuse 409 ''device_reserved'' (reserved_reason dev label)
                 (Some (''add '' @ quote ''reservation'' @ '': '' @ [CHR 0x22] @ label @ [CHR 0x22] @
                        '' if this job is that work; otherwise target another device'')))
      | None \<Rightarrow> Inr ())"

text \<open>What the checks leave: the normalised spec and the columns of the row to insert.\<close>

record admitted =
  ad_spec :: js
  ad_lease :: lease
  ad_priority :: int
  ad_template :: "string option"
  ad_deps :: "id list"
  ad_state :: dep_state

definition check_job :: "env \<Rightarrow> store \<Rightarrow> js \<Rightarrow> enqueue_refusal + admitted" where
  "check_job e s spec0 =
     and_then (check_basics e s spec0) (\<lambda>spec1.
     and_then (check_lease spec1) (\<lambda>(spec2, le).
     and_then (check_options spec2) (\<lambda>(priority, template).
     and_then (check_deps s spec2) (\<lambda>(spec3, deps, state).
     and_then (check_targets e s spec3) (\<lambda>_.
       Inr \<lparr>ad_spec = spec3, ad_lease = le, ad_priority = priority, ad_template = template,
            ad_deps = deps, ad_state = state\<rparr>)))))"

section \<open>Warnings\<close>

text \<open>The query \<open>enqueueJob\<close> and \<open>reservedLeftOut\<close> make: a host job's capability is its executor's.\<close>

definition spec_query :: "bool \<Rightarrow> js \<Rightarrow> device_query" where
  "spec_query ignoring spec =
     (let targets = jget ''targets'' spec; dev = (jget ''executor'' spec = JStr ''device'') in
      \<lparr>dq_pool = jget ''pool'' targets, dq_match = jget ''match'' targets,
       dq_workload = (if dev then jget ''workload'' spec else JUndef),
       dq_backend = (if dev then jget ''backend'' spec else JUndef),
       dq_job = spec, dq_ignore_reservations = ignoring\<rparr>)"

definition selected_devices :: "env \<Rightarrow> store \<Rightarrow> js \<Rightarrow> device list" where
  "selected_devices e s spec = matching_devices e s (spec_query False spec)"

definition reserved_left_out :: "env \<Rightarrow> store \<Rightarrow> js \<Rightarrow> id list \<Rightarrow> string list" where
  "reserved_left_out e s spec kept =
     (let target = jget ''device_id'' (jget ''targets'' spec) in
      List.map_filter
        (\<lambda>d. case reservation_of (d_id d) s of
               None \<Rightarrow> None
             | Some label \<Rightarrow>
                 if d_id d \<notin> set kept \<and> (\<not> truthy target \<or> target = JStr (d_id d))
                 then Some (d_id d @ '' ('' @ label @ '')'') else None)
        (matching_devices e s (spec_query True spec)))"

definition live_executors :: "env \<Rightarrow> store \<Rightarrow> string list" where
  "live_executors e s = map e_name (filter (\<lambda>x. age e (e_last_seen x) \<le> EXECUTOR_LIVE_S) (executors s))"

definition dep_warning :: "dep_state \<Rightarrow> string list" where
  "dep_warning state =
     (case state of
        DFailed why \<Rightarrow> [''a dependency already failed ('' @ why @ ''); the job would be failed at once'']
      | DSkipped why \<Rightarrow> [''a dependency already skipped ('' @ why @
          ''); the job would be skipped at once, since there is nothing for it to run on'']
      | DWaiting \<Rightarrow> [''waiting on depends_on; it starts when those jobs are done'']
      | DQueued \<Rightarrow> [])"

definition host_warning :: "env \<Rightarrow> store \<Rightarrow> js \<Rightarrow> string list" where
  "host_warning e s spec =
     (let live = live_executors e s; wanted = jget ''executor'' (jget ''targets'' spec) in
      if jget ''executor'' spec \<noteq> JStr ''host'' then []
      else if live = [] then [''no host executor has polled in the last two minutes; nothing would claim this'']
      else if truthy wanted \<and> wanted \<notin> JStr ` set live
        then [''targets.executor is '' @ q @ js_string wanted @ q @
              '', which has not polled in the last two minutes (live: '' @ join '', '' live @ '')'']
      else [])"

definition warnings_for :: "env \<Rightarrow> store \<Rightarrow> js \<Rightarrow> device list \<Rightarrow> dep_state \<Rightarrow> string list" where
  "warnings_for e s spec chosen state =
     (let held = reserved_left_out e s spec (map d_id chosen); label = jget ''reservation'' spec in
      dep_warning state @
      (if jget ''executor'' spec = JStr ''device'' \<and> chosen = []
       then [''no registered device matches these targets and can run this workload; the job would queue until one does'']
       else []) @
      host_warning e s spec @
      (if held \<noteq> [] then [''left out as reserved for other work: '' @ join '', '' held] else []) @
      (if truthy label \<and> label \<notin> JStr ` snd ` set (device_reservations_of s)
       then [''no device is reserved for '' @ q @ js_string label @ q @ ''; the field only matters on a device that is'']
       else []))"

section \<open>Insertion\<close>

definition executor_of :: "js \<Rightarrow> executor_kind" where
  "executor_of spec = (if jget ''executor'' spec = JStr ''device'' then Device else Host)"

definition state_status :: "dep_state \<Rightarrow> job_status" where
  "state_status st = (case st of DQueued \<Rightarrow> Queued | DWaiting \<Rightarrow> Waiting | DFailed _ \<Rightarrow> Failed | DSkipped _ \<Rightarrow> Skipped)"

definition state_reason :: "dep_state \<Rightarrow> string option" where
  "state_reason st = (case st of DFailed why \<Rightarrow> Some why | DSkipped why \<Rightarrow> Some why | _ \<Rightarrow> None)"

definition job_row :: "env \<Rightarrow> provenance \<Rightarrow> admitted \<Rightarrow> id option \<Rightarrow> js \<Rightarrow> job" where
  "job_row e pr ad parent spec =
     \<lparr>j_id = spec_id spec, j_executor = executor_of spec, j_workload = js_string (jget ''workload'' spec),
      j_spec = spec, j_status = state_status (ad_state ad), j_created_at = e_now e,
      j_claimed_by = None, j_claimed_at = None,
      j_finished_at = (case state_reason (ad_state ad) of Some _ \<Rightarrow> Some (e_now e) | None \<Rightarrow> None),
      j_lease_ttl_s = le_ttl (ad_lease ad), j_max_attempts = le_max (ad_lease ad), j_attempts = 0,
      j_lease_deadline = None, j_last_error = state_reason (ad_state ad),
      j_priority = ad_priority ad, j_parent_job_id = parent, j_template_id = ad_template ad,
      j_depends_on = (if ad_deps ad = [] then None else Some (ad_deps ad)),
      j_requested_by = pr_requested_by pr, j_source = pr_source pr\<rparr>"

text \<open>\<open>INSERT OR IGNORE\<close>: the ids inserted, and the store.\<close>

fun insert_children :: "job list \<Rightarrow> store \<Rightarrow> id list \<times> store" where
  "insert_children [] s = ([], s)"
| "insert_children (j # js) s =
     (if find_job (j_id j) s \<noteq> None then insert_children js s
      else let (created, s') = insert_children js (s\<lparr>jobs := jobs s @ [j]\<rparr>) in (j_id j # created, s'))"

section \<open>Fan-out\<close>

definition child_spec :: "js \<Rightarrow> device \<Rightarrow> js" where
  "child_spec spec d =
     jdel ''fanout''
       (jset ''targets'' (jset ''device_id'' (JStr (d_id d)) (jget ''targets'' spec))
         (jset ''job_id'' (JStr (spec_id spec @ ''--'' @ d_id d)) spec))"

definition distinct_key :: "string \<Rightarrow> device \<Rightarrow> string" where
  "distinct_key field d = js_string (jor (jget field (d_descriptor d)) (JStr []))"

text \<open>The first device of every group.\<close>

fun one_per :: "('a \<Rightarrow> 'k) \<Rightarrow> 'k list \<Rightarrow> 'a list \<Rightarrow> 'a list" where
  "one_per key seen [] = []"
| "one_per key seen (d # ds) =
     (if key d \<in> set seen then one_per key seen ds else d # one_per key (key d # seen) ds)"

definition no_devices_message :: "env \<Rightarrow> store \<Rightarrow> js \<Rightarrow> string" where
  "no_devices_message e s spec =
     (let targets = jget ''targets'' spec; pool = jget ''pool'' targets; m = jget ''match'' targets;
          held = reserved_left_out e s spec []
      in ''no registered devices'' @ (if truthy pool then '' in pool '' @ js_string pool else []) @
         (if truthy m then '' matching '' @ js_string m else []) @
         '' can run '' @ js_string (jget ''workload'' spec) @
         (if held \<noteq> [] then '' (left out as reserved: '' @ join '', '' held @ '')'' else []))"

definition fanout_devices :: "env \<Rightarrow> store \<Rightarrow> js \<Rightarrow> enqueue_refusal + device list" where
  "fanout_devices e s spec =
     (let field = jget ''distinct'' (jget ''fanout'' spec); ds = selected_devices e s spec in
      if field \<noteq> JUndef \<and> \<not> is_str field then Inl (invalid_spec ''fanout.distinct must be a descriptor field name'')
      else if ds = []
        then Inl (refuse 400 ''no_matching_devices'' (no_devices_message e s spec)
                    (Some ''list devices with GET /api/v1/devices''))
      else case field of
        JStr f \<Rightarrow> Inr (if f = [] then ds else one_per (distinct_key f) [] ds)
      | _ \<Rightarrow> Inr ds)"

definition enqueue_fanout ::
  "env \<Rightarrow> bool \<Rightarrow> provenance \<Rightarrow> admitted \<Rightarrow> store \<Rightarrow> enqueue_refusal + (enqueue_accepted \<times> store)" where
  "enqueue_fanout e dry pr ad s =
     (let spec = ad_spec ad; parent = spec_id spec in
      and_then (fanout_devices e s spec) (\<lambda>ds.
        let children = map (child_spec spec) ds in
        if dry then
          Inr (\<lparr>ea_http = 200, ea_status = state_status (ad_state ad), ea_job_id = parent,
                ea_fanout = Some (map spec_id children),
                ea_preview = Some \<lparr>pv_spec = spec, pv_candidates = map candidate_of ds,
                                   pv_warnings = warnings_for e s spec ds (ad_state ad)\<rparr>\<rparr>, s)
        else
          let (created, s') = insert_children (map (job_row e pr ad (Some parent)) children) s in
          Inr (\<lparr>ea_http = 201, ea_status = state_status (ad_state ad), ea_job_id = parent,
                ea_fanout = Some created, ea_preview = None\<rparr>, s')))"

definition duplicate_job :: enqueue_refusal where
  "duplicate_job = refuse 409 ''duplicate_job'' ''job_id already exists'' (Some ''omit job_id to have one generated'')"

definition enqueue_single ::
  "env \<Rightarrow> bool \<Rightarrow> provenance \<Rightarrow> admitted \<Rightarrow> store \<Rightarrow> enqueue_refusal + (enqueue_accepted \<times> store)" where
  "enqueue_single e dry pr ad s =
     (let spec = ad_spec ad; i = spec_id spec; target = jget ''device_id'' (jget ''targets'' spec);
          ds = filter (\<lambda>d. \<not> truthy target \<or> target = JStr (d_id d)) (selected_devices e s spec)
      in if find_job i s \<noteq> None then Inl duplicate_job
         else if dry then
           Inr (\<lparr>ea_http = 200, ea_status = state_status (ad_state ad), ea_job_id = i, ea_fanout = None,
                 ea_preview = Some \<lparr>pv_spec = spec, pv_candidates = map candidate_of ds,
                                    pv_warnings = warnings_for e s spec ds (ad_state ad)\<rparr>\<rparr>, s)
         else
           Inr (\<lparr>ea_http = 201, ea_status = state_status (ad_state ad), ea_job_id = i, ea_fanout = None,
                 ea_preview = None\<rparr>, s\<lparr>jobs := jobs s @ [job_row e pr ad None spec]\<rparr>))"

definition enqueue_job ::
  "env \<Rightarrow> bool \<Rightarrow> provenance \<Rightarrow> js \<Rightarrow> store \<Rightarrow> enqueue_refusal + (enqueue_accepted \<times> store)" where
  "enqueue_job e dry pr spec s =
     and_then (check_job e s spec) (\<lambda>ad.
       if truthy (jget ''fanout'' (ad_spec ad)) then enqueue_fanout e dry pr ad s
       else enqueue_single e dry pr ad s)"

end
