(* ===== verification/Claim.thy ===== *)
theory Claim
  imports Queue
begin

text \<open>
  Claiming, \<open>collector/src/server.ts\<close> lines 103 to 436 and 587 to 625: when a claimant is eligible for a
  spec, the claim transaction, the preemption check and the two polling routes. A transaction runs
  alone, so each is one function on the store.
\<close>

section \<open>Constraints the collector checks\<close>

definition BEACON_TRUST_S :: int where "BEACON_TRUST_S = 180"

text \<open>The local hour, or the hour at a given offset from UTC.\<close>

definition hour_at :: "env \<Rightarrow> js \<Rightarrow> jsnum" where
  "hour_at e tz =
     (case tz of
        JNum (Fin off) \<Rightarrow> Fin (of_int (\<lfloor>(of_int (e_now e) + off * 60) / 3600\<rfloor> mod 24))
      | JNum _ \<Rightarrow> NaN
      | _ \<Rightarrow> Fin (of_int ((e_now e + e_tz_min e * 60) div 3600 mod 24)))"

definition inside_window :: "jsnum \<Rightarrow> jsnum \<Rightarrow> jsnum \<Rightarrow> bool" where
  "inside_window from_h to_h hour =
     (if num_le from_h to_h then num_le from_h hour \<and> num_lt hour to_h
      else num_le from_h hour \<or> num_lt hour to_h)"

definition window_open :: "env \<Rightarrow> js \<Rightarrow> bool" where
  "window_open e w =
     (case (jget ''from'' w, jget ''to'' w) of
        (JNum a, JNum b) \<Rightarrow> inside_window a b (hour_at e (jget ''tz_offset_min'' w))
      | _ \<Rightarrow> True)"

text \<open>The sample in a stored beacon: \<open>lastBeacon?.beacon ?? lastBeacon\<close>.\<close>

definition beacon_sample :: "js option \<Rightarrow> js" where
  "beacon_sample b = (case b of None \<Rightarrow> JNull | Some v \<Rightarrow> jor (jget ''beacon'' v) v)"

definition idle_enough :: "js \<Rightarrow> js \<Rightarrow> bool" where
  "idle_enough c sample =
     (case jget ''require_idle_s'' c of
        JNum want \<Rightarrow> (let idle = js_number (jget ''idle_s'' sample) in is_finite idle \<and> \<not> num_lt idle want)
      | _ \<Rightarrow> True)"

definition load_low :: "js \<Rightarrow> js \<Rightarrow> bool" where
  "load_low c sample =
     (case jget ''max_load'' c of
        JNum limit \<Rightarrow> (let load = js_number (jget ''load_1m'' sample) in is_finite load \<and> \<not> num_lt limit load)
      | _ \<Rightarrow> True)"

definition constraints_satisfied :: "env \<Rightarrow> js \<Rightarrow> js option \<Rightarrow> int option \<Rightarrow> bool" where
  "constraints_satisfied e c last_beacon beacon_age =
     (let wants_ac = (jget ''require_ac'' c = JBool True); wants_idle = is_num (jget ''require_idle_s'' c);
          wants_load = is_num (jget ''max_load'' c); sample = beacon_sample last_beacon
      in if \<not> truthy c then True
         else if \<not> window_open e (jget ''window'' c) then False
         else if \<not> wants_ac \<and> \<not> wants_idle \<and> \<not> wants_load then True
         else if \<not> truthy sample then False
         else if (case beacon_age of Some a \<Rightarrow> a > BEACON_TRUST_S | None \<Rightarrow> False) then False
         else if wants_ac \<and> jget ''on_ac'' sample \<noteq> JBool True \<and> jget ''charging'' sample \<noteq> JBool True then False
         else idle_enough c sample \<and> load_low c sample)"

text \<open>A device at work for another collector, by its own last beacon.\<close>

definition busy_elsewhere :: "js option \<Rightarrow> int option \<Rightarrow> string \<Rightarrow> (string option \<times> string option) option" where
  "busy_elsewhere last_beacon beacon_age me =
     (let busy = jget ''busy'' (beacon_sample last_beacon); collector = str_of (jget ''collector'' busy) in
      if (case beacon_age of Some a \<Rightarrow> a > BEACON_TRUST_S | None \<Rightarrow> False) then None
      else if \<not> truthy busy \<or> \<not> is_object busy then None
      else if collector = Some me then None
      else Some (str_of (jget ''job_id'' busy), collector))"

section \<open>Eligibility\<close>

record claimant_ctx =
  cx_executor :: executor_kind
  cx_claimant :: string
  cx_pools :: "string list"
  cx_capabilities :: "string list option"
  cx_descriptor :: js
  cx_beacon :: "js option"
  cx_beacon_age :: "int option"
  cx_reserved_for :: "string option"

definition claimant_context :: "env \<Rightarrow> store \<Rightarrow> executor_kind \<Rightarrow> string \<Rightarrow> claimant_ctx" where
  "claimant_context e s executor claimant =
     (let empty = \<lparr>cx_executor = executor, cx_claimant = claimant, cx_pools = [], cx_capabilities = None,
                   cx_descriptor = JObj [], cx_beacon = None, cx_beacon_age = None, cx_reserved_for = None\<rparr>
      in if executor \<noteq> Device then empty
         else case find_device claimant s of
           None \<Rightarrow> empty
         | Some d \<Rightarrow>
             \<lparr>cx_executor = executor, cx_claimant = claimant, cx_pools = effective_pools d,
              cx_capabilities = d_capabilities d,
              cx_descriptor = descriptor_view claimant (d_descriptor d) (effective_pools d) (d_capabilities d),
              cx_beacon = d_last_beacon d, cx_beacon_age = Some (age e (d_last_seen d)),
              cx_reserved_for = reservation_of claimant s\<rparr>)"

definition device_fits_host_job :: "env \<Rightarrow> store \<Rightarrow> js \<Rightarrow> device \<Rightarrow> bool" where
  "device_fits_host_job e s spec d =
     (let targets = jget ''targets'' spec; target = jget ''device_id'' targets; m = jget ''match'' targets in
      \<not> nullish (jget ''attached_to'' (d_descriptor d)) \<and>
      age e (d_last_seen d) \<le> ONLINE_S \<and>
      (truthy target \<longrightarrow> target = JStr (d_id d)) \<and>
      reservation_allows (e_regex e) spec (d_id d) (reservation_of (d_id d) s) (d_descriptor d) \<and>
      (truthy m \<longrightarrow> matches (e_regex e) m (jset ''device_id'' (JStr (d_id d)) (d_descriptor d))))"

definition executors_holding :: "env \<Rightarrow> store \<Rightarrow> js \<Rightarrow> string list" where
  "executors_holding e s spec =
     nub (List.map_filter (\<lambda>d. str_of (jget ''attached_to'' (d_descriptor d)))
            (filter (device_fits_host_job e s spec) (devices s)))"

definition spec_eligible_for :: "env \<Rightarrow> store \<Rightarrow> claimant_ctx \<Rightarrow> js \<Rightarrow> bool" where
  "spec_eligible_for e s cx spec =
     (let targets = jget ''targets'' spec in
      if cx_executor cx = Host then
        (if truthy (jget ''executor'' targets) then jget ''executor'' targets = JStr (cx_claimant cx)
         else let holders = executors_holding e s spec in holders = [] \<or> cx_claimant cx \<in> set holders)
      else
        let target = jget ''device_id'' targets; pool = jget ''pool'' targets; m = jget ''match'' targets in
        if truthy target \<and> target \<noteq> JStr (cx_claimant cx) then False
        else if \<not> reservation_allows (e_regex e) spec (cx_claimant cx) (cx_reserved_for cx) (cx_descriptor cx) then False
        else if truthy pool \<and> pool \<notin> JStr ` set (cx_pools cx) then False
        else if \<not> capability_matches (cx_capabilities cx) (jget ''workload'' spec) (jget ''backend'' spec) then False
        else if \<not> constraints_satisfied e (jget ''constraints'' spec) (cx_beacon cx) (cx_beacon_age cx) then False
        else if truthy m then matches (e_regex e) m (cx_descriptor cx)
        else True)"

section \<open>The claim transaction\<close>

text \<open>\<open>ORDER BY priority DESC, created_at\<close>; ties keep insertion order.\<close>

definition queue_order :: "job list \<Rightarrow> job list" where
  "queue_order = sort_key (\<lambda>j. (- j_priority j, j_created_at j))"

definition queued_for :: "executor_kind \<Rightarrow> store \<Rightarrow> job list" where
  "queued_for executor s = queue_order (filter (\<lambda>j. j_status j = Queued \<and> j_executor j = executor) (jobs s))"

definition claim_row :: "env \<Rightarrow> string \<Rightarrow> job \<Rightarrow> job" where
  "claim_row e claimant j =
     j\<lparr>j_status := Claimed, j_claimed_by := Some claimant, j_claimed_at := Some (e_now e),
       j_attempts := j_attempts j + 1, j_lease_deadline := Some (e_now e + j_lease_ttl_s j)\<rparr>"

definition claimant_blocked :: "env \<Rightarrow> store \<Rightarrow> executor_kind \<Rightarrow> string \<Rightarrow> bool" where
  "claimant_blocked e s executor claimant =
     (let cx = claimant_context e s executor claimant in
      executor = Device \<and>
      (lock_of claimant s \<noteq> None \<or> busy_elsewhere (cx_beacon cx) (cx_beacon_age cx) (e_collector e) \<noteq> None))"

definition grant :: "env \<Rightarrow> executor_kind \<Rightarrow> string \<Rightarrow> job \<Rightarrow> store \<Rightarrow> store" where
  "grant e executor claimant j s =
     (let s1 = update_job (j_id j) (claim_row e claimant) s in
      if executor = Device then put_lock claimant (j_id j) s1 else s1)"

definition claim_tx :: "env \<Rightarrow> executor_kind \<Rightarrow> string \<Rightarrow> store \<Rightarrow> job option \<times> store" where
  "claim_tx e executor claimant s =
     (if claimant_blocked e s executor claimant then (None, s)
      else case List.find (\<lambda>j. spec_eligible_for e s (claimant_context e s executor claimant) (j_spec j))
                  (queued_for executor s) of
        None \<Rightarrow> (None, s)
      | Some j \<Rightarrow> (Some j, grant e executor claimant j s))"

section \<open>Preemption\<close>

definition preemption_pending :: "env \<Rightarrow> store \<Rightarrow> job \<Rightarrow> bool" where
  "preemption_pending e s j =
     (case j_claimed_by j of
        None \<Rightarrow> False
      | Some c \<Rightarrow>
          c \<noteq> [] \<and> jget ''preemptible'' (j_spec j) = JBool True \<and>
          list_ex (\<lambda>x. spec_eligible_for e s (claimant_context e s (j_executor j) c) (j_spec x))
            (filter (\<lambda>x. j_priority x > j_priority j) (queued_for (j_executor j) s)))"

section \<open>Polling\<close>

definition LONG_POLL_S :: nat where "LONG_POLL_S = 25"

text \<open>
  \<open>longPollClaim\<close>: one attempt a second. Attempt \<open>k\<close> runs in the environment \<open>env k\<close>, after \<open>other k\<close>,
  which is what the other requests of that second did to the store.
\<close>

primrec poll_from :: "nat \<Rightarrow> nat \<Rightarrow> (nat \<Rightarrow> env) \<Rightarrow> (nat \<Rightarrow> store \<Rightarrow> store) \<Rightarrow> executor_kind \<Rightarrow> string \<Rightarrow> store \<Rightarrow>
    job option \<times> store" where
  "poll_from 0 k env other executor claimant s = (None, s)"
| "poll_from (Suc n) k env other executor claimant s =
     (case claim_tx (env k) executor claimant (other k s) of
        (Some j, s') \<Rightarrow> (Some j, s')
      | (None, s') \<Rightarrow> poll_from n (Suc k) env other executor claimant s')"

definition long_poll_claim :: "(nat \<Rightarrow> env) \<Rightarrow> (nat \<Rightarrow> store \<Rightarrow> store) \<Rightarrow> executor_kind \<Rightarrow> string \<Rightarrow> store \<Rightarrow>
    job option \<times> store" where
  "long_poll_claim env other = poll_from LONG_POLL_S 0 env other"

definition device_next_job :: "(nat \<Rightarrow> env) \<Rightarrow> (nat \<Rightarrow> store \<Rightarrow> store) \<Rightarrow> id \<Rightarrow> store \<Rightarrow>
    refusal + (js option \<times> store)" where
  "device_next_job env other dev s =
     (if find_device dev s = None then Inl (404, ''unknown device; register first'')
      else
        let (r, s') = long_poll_claim env other Device dev (touch_device (env 0) dev s)
        in Inr (map_option j_spec r, s'))"

definition touch_executor :: "env \<Rightarrow> string \<Rightarrow> store \<Rightarrow> store" where
  "touch_executor e name s =
     s\<lparr>executors := upsert_row e_name name (\<lambda>x. x\<lparr>e_last_seen := e_now e, e_polls := e_polls x + 1\<rparr>)
          \<lparr>e_name = name, e_last_seen = e_now e, e_last_job = None, e_polls = 1\<rparr> (executors s)\<rparr>"

text \<open>The answer to a host executor: the lease it was granted, and every reservation.\<close>

definition host_answer :: "store \<Rightarrow> js \<Rightarrow> js" where
  "host_answer s spec =
     (let lease0 = jor (jget ''lease'' spec) (JObj []);
          ttl = (case find_job (spec_id spec) s of
                   Some j \<Rightarrow> JInt (j_lease_ttl_s j)
                 | None \<Rightarrow> jget ''ttl_s'' (jget ''lease'' spec))
      in jset ''reserved_devices'' (JObj (map (\<lambda>(d, l). (d, JStr l)) (device_reservations_of s)))
           (jset ''lease'' (jset ''ttl_s'' ttl lease0) spec))"

definition host_next_job :: "(nat \<Rightarrow> env) \<Rightarrow> (nat \<Rightarrow> store \<Rightarrow> store) \<Rightarrow> string \<Rightarrow> store \<Rightarrow> js option \<times> store" where
  "host_next_job env other name s =
     (case long_poll_claim env other Host name (touch_executor (env 0) name s) of
        (None, s') \<Rightarrow> (None, s')
      | (Some j, s') \<Rightarrow>
          let s2 = s'\<lparr>executors := update_row e_name name (\<lambda>x. x\<lparr>e_last_job := Some (spec_id (j_spec j))\<rparr>) (executors s')\<rparr>
          in (Some (host_answer s2 (j_spec j)), s2))"

end
