(* ===== verification/Skip_Status.thy ===== *)
theory Skip_Status
  imports Store
begin

text \<open>
  \<open>collector/src/skip.ts\<close>: how a job closes, judged from the result rows it posted and the final
  row; and the start-up backfill of \<open>db.ts\<close> that re-labels old jobs by the same rule.
\<close>

section \<open>Closing a job\<close>

definition SKIP_PREFIX :: string where
  "SKIP_PREFIX = ''skipped:''"

definition is_skip_error :: "js \<Rightarrow> bool" where
  "is_skip_error v = (case v of JStr s \<Rightarrow> starts_with SKIP_PREFIX s | _ \<Rightarrow> False)"

datatype closing = CFailed "string option" | CDone | CSkipped string

definition clip :: "string \<Rightarrow> string" where
  "clip s = (if length s > 500 then take 497 s @ ''...'' else s)"

text \<open>\<open>typeof v === "string" && v.trim()\<close>\<close>

definition said :: "js \<Rightarrow> string option" where
  "said v = (case v of JStr s \<Rightarrow> if trim s \<noteq> [] then Some s else None | _ \<Rightarrow> None)"

text \<open>The row that speaks for each device: the newest, unless an older one was final.\<close>

fun by_device :: "(id \<times> js) list \<Rightarrow> obj \<Rightarrow> obj" where
  "by_device [] m = m"
| "by_device ((dev, payload) # rows) m =
     by_device rows
       (case map_of m dev of
          None \<Rightarrow> put dev payload m
        | Some prev \<Rightarrow>
            if \<not> truthy (jget ''final'' prev) \<or> truthy (jget ''final'' payload) then put dev payload m else m)"

definition is_host_row :: "id \<Rightarrow> bool" where
  "is_host_row dev = starts_with ''host:'' dev"

definition verdict_entries :: "(id \<times> js) list \<Rightarrow> obj" where
  "verdict_entries rows =
     (let entries = by_device rows [] in
      if \<exists>(dev, _) \<in> set entries. \<not> is_host_row dev
      then filter (\<lambda>(dev, _). \<not> is_host_row dev) entries else entries)"

definition entry_skipped :: "js \<Rightarrow> bool" where
  "entry_skipped p \<longleftrightarrow> jget ''ok'' p \<noteq> JBool False \<and> is_skip_error (jget ''error'' p)"

definition entry_failing :: "js \<Rightarrow> bool" where
  "entry_failing p \<longleftrightarrow> jget ''ok'' p = JBool False \<and> said (jget ''error'' p) \<noteq> None"

definition failure_reason :: "obj \<Rightarrow> js \<Rightarrow> string option" where
  "failure_reason entries final =
     coalesce (said (jget ''error'' final))
       (map_option (\<lambda>(dev, p). dev @ '': '' @ js_string (jget ''error'' p))
          (List.find (\<lambda>(_, p). entry_failing p) entries))"

definition skip_reason :: "string list \<Rightarrow> string" where
  "skip_reason reasons =
     (case reasons of
        [] \<Rightarrow> []
      | [r] \<Rightarrow> r
      | r # rs \<Rightarrow> r @ '' (and '' @ nat_str (length rs) @ '' other reason'' @ (if length rs = 1 then [] else ''s'') @ '')'')"

definition closing_status :: "(id \<times> js) list \<Rightarrow> js \<Rightarrow> closing" where
  "closing_status rows final =
     (let entries = verdict_entries rows in
      if jget ''ok'' final = JBool False then CFailed (map_option clip (failure_reason entries final))
      else if is_skip_error (jget ''error'' final) then CSkipped (clip (js_string (jget ''error'' final)))
      else if entries \<noteq> [] \<and> (\<forall>(_, p) \<in> set entries. entry_skipped p)
        then CSkipped (clip (skip_reason (nub (map (\<lambda>(_, p). js_string (jget ''error'' p)) entries))))
      else CDone)"

definition skip_reason_text :: "string option \<Rightarrow> string" where
  "skip_reason_text reason =
     (case reason of
        None \<Rightarrow> ''no reason given''
      | Some r \<Rightarrow>
          if r = [] then ''no reason given''
          else if starts_with SKIP_PREFIX r
            then (let t = trim (drop (length SKIP_PREFIX) r) in if t = [] then ''no reason given'' else t)
            else r)"

fun closing_to_status :: "closing \<Rightarrow> job_status" where
  "closing_to_status (CFailed _) = Failed"
| "closing_to_status CDone = Done"
| "closing_to_status (CSkipped _) = Skipped"

fun closing_reason :: "closing \<Rightarrow> string option" where
  "closing_reason (CFailed r) = r"
| "closing_reason CDone = None"
| "closing_reason (CSkipped r) = Some r"

section \<open>The result rows of a job, and the backfill\<close>

text \<open>\<open>SELECT ... WHERE job_id = ? ORDER BY iter, rowid\<close>\<close>

definition result_rows :: "id \<Rightarrow> store \<Rightarrow> (id \<times> js) list" where
  "result_rows i s =
     map (\<lambda>r. (r_device_id r, r_payload r)) (sort_key r_iter (filter (\<lambda>r. r_job_id r = i) (results s)))"

definition mentions_skip :: "id \<Rightarrow> store \<Rightarrow> bool" where
  "mentions_skip i s \<longleftrightarrow>
     (\<exists>r \<in> set (results s). r_job_id r = i \<and> contains (CHR 34 # SKIP_PREFIX) (stringify (r_payload r)))"

definition last_final :: "(id \<times> js) list \<Rightarrow> js option" where
  "last_final rows = map_option snd (List.find (\<lambda>(_, p). truthy (jget ''final'' p)) (rev rows))"

definition backfill_reason :: "store \<Rightarrow> job \<Rightarrow> string option" where
  "backfill_reason s j =
     (if j_status j = Done \<and> mentions_skip (j_id j) s
      then (case last_final (result_rows (j_id j) s) of
              None \<Rightarrow> None
            | Some f \<Rightarrow>
                (case closing_status (result_rows (j_id j) s) f of CSkipped r \<Rightarrow> Some r | _ \<Rightarrow> None))
      else None)"

definition relabel :: "store \<Rightarrow> job \<Rightarrow> job" where
  "relabel s j =
     (case backfill_reason s j of
        None \<Rightarrow> j
      | Some r \<Rightarrow> j\<lparr>j_status := Skipped, j_last_error := Some r\<rparr>)"

definition backfill_skipped :: "store \<Rightarrow> store \<times> nat" where
  "backfill_skipped s =
     (s\<lparr>jobs := map (relabel s) (jobs s)\<rparr>, length (filter (\<lambda>j. backfill_reason s j \<noteq> None) (jobs s)))"

section \<open>Laws\<close>

lemma clip_length: "length (clip s) \<le> 500"
  by (simp add: clip_def)

lemma closing_failed_iff:
  "(\<exists>r. closing_status rows final = CFailed r) \<longleftrightarrow> jget ''ok'' final = JBool False"
  by (simp add: closing_status_def Let_def)

lemma closing_reason_length: "closing_reason (closing_status rows final) = Some r \<Longrightarrow> length r \<le> 500"
  by (auto simp: closing_status_def Let_def clip_length split: if_splits)

lemma closing_skipped_iff:
  "(\<exists>r. closing_status rows final = CSkipped r) \<longleftrightarrow>
     jget ''ok'' final \<noteq> JBool False \<and>
     (is_skip_error (jget ''error'' final) \<or>
      (verdict_entries rows \<noteq> [] \<and> (\<forall>(_, p) \<in> set (verdict_entries rows). entry_skipped p)))"
  by (simp add: closing_status_def Let_def)

lemma verdict_entries_devices:
  assumes "(dev, p) \<in> set (by_device rows [])" "\<not> is_host_row dev"
  shows "(dev, p) \<in> set (verdict_entries rows)"
  using assms by (auto simp: verdict_entries_def Let_def)

text \<open>One device that really ran keeps the job from counting as skipped, whatever its hosts say.\<close>

lemma ran_somewhere_not_skipped:
  assumes "(dev, p) \<in> set (by_device rows [])" "\<not> is_host_row dev" "\<not> entry_skipped p"
    "\<not> is_skip_error (jget ''error'' final)"
  shows "closing_to_status (closing_status rows final) \<in> {Failed, Done}"
proof -
  have "\<nexists>r. closing_status rows final = CSkipped r"
    unfolding closing_skipped_iff using assms verdict_entries_devices [OF assms(1,2)] by fastforce
  then show ?thesis by (cases "closing_status rows final") auto
qed

lemma relabel_results [simp]: "result_rows i (s\<lparr>jobs := js\<rparr>) = result_rows i s"
  and mentions_results [simp]: "mentions_skip i (s\<lparr>jobs := js\<rparr>) = mentions_skip i s"
  by (simp_all add: result_rows_def mentions_skip_def)

lemma backfill_reason_jobs [simp]: "backfill_reason (s\<lparr>jobs := js\<rparr>) j = backfill_reason s j"
  unfolding backfill_reason_def relabel_results mentions_results ..

lemma relabel_jobs [simp]: "relabel (s\<lparr>jobs := js\<rparr>) = relabel s"
  by (rule ext) (simp add: relabel_def)

lemma backfill_reason_relabel: "backfill_reason s (relabel s j) = None"
proof (cases "backfill_reason s j")
  case None
  then show ?thesis by (simp add: relabel_def)
next
  case (Some r)
  then have "j_status (relabel s j) = Skipped" by (simp add: relabel_def)
  then show ?thesis by (simp add: backfill_reason_def)
qed

lemma relabel_twice: "relabel s (relabel s j) = relabel s j"
  using backfill_reason_relabel [of s j] by (simp add: relabel_def [of s "relabel s j"])

lemma backfill_idempotent:
  "backfill_skipped (fst (backfill_skipped s)) = (fst (backfill_skipped s), 0)"
  by (simp add: backfill_skipped_def relabel_twice o_def backfill_reason_relabel)

lemma relabel_status:
  "j_status (relabel s j) =
     (if j_status j = Done \<and> backfill_reason s j \<noteq> None then Skipped else j_status j)"
  by (auto simp: relabel_def backfill_reason_def split: option.splits)

end
