(* ===== verification/Lease.thy ===== *)
theory Lease
  imports Claim Skip_Status
begin

text \<open>
  What ends a claim, \<open>collector/src/server.ts\<close> lines 438 to 497, 665 to 720 and 733 to 945: the lease
  sweep, the release, the preempted requeue, the closing of a job and \<open>POST /results\<close>; with the lock
  routes of lines 955 to 990 and the events of 991 to 1017. Announcements to the dashboard and the
  commit status sent to GitHub leave the store as it is and are not modelled.
\<close>

section \<open>The sweep\<close>

definition who :: "string option \<Rightarrow> string" where
  "who c = (case c of None \<Rightarrow> ''unknown claimant'' | Some x \<Rightarrow> x)"

definition lease_expired :: "env \<Rightarrow> job \<Rightarrow> bool" where
  "lease_expired e j \<longleftrightarrow>
     j_status j = Claimed \<and> (case j_lease_deadline j of None \<Rightarrow> False | Some t \<Rightarrow> t \<le> e_now e)"

definition attempts_text :: "job \<Rightarrow> string" where
  "attempts_text j = int_str (j_attempts j) @ ''/'' @ int_str (j_max_attempts j)"

definition requeue_row :: "string \<Rightarrow> job \<Rightarrow> job" where
  "requeue_row why j =
     j\<lparr>j_status := Queued, j_claimed_by := None, j_claimed_at := None, j_lease_deadline := None,
       j_last_error := Some why\<rparr>"

text \<open>What the sweep writes for a job it read as \<open>j\<close>.\<close>

definition sweep_row :: "env \<Rightarrow> job \<Rightarrow> job \<Rightarrow> job" where
  "sweep_row e j =
     (if j_attempts j \<ge> j_max_attempts j
      then close_job_row e Failed (Some (''lease expired on '' @ who (j_claimed_by j) @ ''; gave up after '' @
             attempts_text j @ '' attempts''))
      else requeue_row (''lease expired on '' @ who (j_claimed_by j) @ ''; requeued after attempt '' @
             attempts_text j))"

definition sweep_job :: "env \<Rightarrow> job \<Rightarrow> store \<Rightarrow> store" where
  "sweep_job e j s = drop_locks (j_id j) (update_job (j_id j) (sweep_row e j) s)"

definition expired_jobs :: "env \<Rightarrow> store \<Rightarrow> job list" where
  "expired_jobs e s = filter (lease_expired e) (jobs s)"

definition sweep_leases_tx :: "env \<Rightarrow> store \<Rightarrow> store" where
  "sweep_leases_tx e s = fold (sweep_job e) (expired_jobs e s) s"

definition swept_requeued :: "env \<Rightarrow> store \<Rightarrow> id list" where
  "swept_requeued e s = map j_id (filter (\<lambda>j. j_attempts j < j_max_attempts j) (expired_jobs e s))"

definition swept_failed :: "env \<Rightarrow> store \<Rightarrow> id list" where
  "swept_failed e s = map j_id (filter (\<lambda>j. j_attempts j \<ge> j_max_attempts j) (expired_jobs e s))"

definition sweep_leases :: "env \<Rightarrow> rat \<Rightarrow> store \<Rightarrow> store" where
  "sweep_leases e days s = fst (forget_stale_simulators e days (sweep_leases_tx e s))"

section \<open>Handing a claim back\<close>

definition release_row :: "string option \<Rightarrow> job \<Rightarrow> job" where
  "release_row by j =
     j\<lparr>j_status := Queued, j_claimed_by := None, j_claimed_at := None, j_lease_deadline := None,
       j_attempts := max (j_attempts j - 1) 0,
       j_last_error := Some (''released by '' @ (case by of None \<Rightarrow> ''the claimant'' | Some x \<Rightarrow> x) @ '' before starting'')\<rparr>"

definition has_results :: "id \<Rightarrow> store \<Rightarrow> bool" where
  "has_results i s \<longleftrightarrow> list_ex (\<lambda>r. r_job_id r = i) (results s)"

definition release_refusal :: "store \<Rightarrow> id \<Rightarrow> string option \<Rightarrow> job \<Rightarrow> refusal option" where
  "release_refusal s i claimant j =
     (if j_status j \<noteq> Claimed then Some (409, ''job is '' @ status_str (j_status j) @ '', not claimed'')
      else if claimant \<noteq> None \<and> j_claimed_by j \<noteq> None \<and> j_claimed_by j \<noteq> claimant
        then Some (409, ''job is claimed by '' @ who (j_claimed_by j))
      else if has_results i s then Some (409, ''results have already been posted for this job'')
      else None)"

definition release_tx :: "id \<Rightarrow> string option \<Rightarrow> store \<Rightarrow> refusal + store" where
  "release_tx i claimant s =
     (case find_job i s of
        None \<Rightarrow> Inl (404, ''no such job'')
      | Some j \<Rightarrow>
          (case release_refusal s i claimant j of
             Some r \<Rightarrow> Inl r
           | None \<Rightarrow> Inr (drop_locks i (update_job i (release_row (j_claimed_by j)) s))))"

section \<open>Closing, and standing aside\<close>

definition finish_row :: "env \<Rightarrow> job_status \<Rightarrow> string option \<Rightarrow> job \<Rightarrow> job" where
  "finish_row e st reason j = close_job_row e st (coalesce reason (j_last_error j)) j"

definition close_job_tx :: "env \<Rightarrow> id \<Rightarrow> job_status \<Rightarrow> string option \<Rightarrow> store \<Rightarrow> store \<times> settlement" where
  "close_job_tx e i st reason s = settle_waiters e i (drop_locks i (update_job i (finish_row e st reason) s))"

definition resume_spec :: "string option \<Rightarrow> js \<Rightarrow> js" where
  "resume_spec checkpoint spec =
     (case checkpoint of
        None \<Rightarrow> spec
      | Some sha \<Rightarrow> jset ''params'' (jset ''resume_from'' (JStr sha) (jor (jget ''params'' spec) (JObj []))) spec)"

definition preempt_row :: "string option \<Rightarrow> job \<Rightarrow> job" where
  "preempt_row checkpoint j =
     j\<lparr>j_status := Queued, j_claimed_by := None, j_claimed_at := None, j_finished_at := None,
       j_lease_deadline := None, j_attempts := max (j_attempts j - 1) 0,
       j_spec := resume_spec checkpoint (j_spec j),
       j_last_error := Some (''preempted on '' @ who (j_claimed_by j) @ ''; requeued'' @
         (case checkpoint of None \<Rightarrow> '' with no checkpoint'' | Some sha \<Rightarrow> '' to resume from '' @ take 12 sha))\<rparr>"

definition requeue_preempted_tx :: "id \<Rightarrow> js \<Rightarrow> store \<Rightarrow> (string option \<times> store) option" where
  "requeue_preempted_tx i final s =
     (case find_job i s of
        None \<Rightarrow> None
      | Some j \<Rightarrow>
          if j_status j \<noteq> Claimed then None
          else let checkpoint = first_artifact_sha final
               in Some (checkpoint, drop_locks i (update_job i (preempt_row checkpoint) s)))"

section \<open>\<open>POST /results\<close>\<close>

datatype result_reply =
    Beacon_Reply bool bool
  | Row_Stored
  | Stood_Aside "string option"
  | Job_Closed job_status settlement

definition body_job :: "js \<Rightarrow> id" where
  "body_job b = js_string (jget ''job_id'' b)"

definition body_device :: "js \<Rightarrow> id" where
  "body_device b = js_string (jget ''device_id'' b)"

definition renew_row :: "env \<Rightarrow> job \<Rightarrow> job" where
  "renew_row e j =
     (if j_status j = Claimed then j\<lparr>j_lease_deadline := Some (e_now e + j_lease_ttl_s j)\<rparr> else j)"

definition store_beacon :: "env \<Rightarrow> js \<Rightarrow> store \<Rightarrow> store" where
  "store_beacon e b s =
     s\<lparr>beacon_samples := beacon_samples s @
         [\<lparr>b_device_id = body_device b,
           b_job_id = (if nullish (jget ''job_id'' b) then None else Some (body_job b)), b_sample = b, b_ts = e_now e\<rparr>],
       devices := update_row d_id (body_device b)
         (\<lambda>d. d\<lparr>d_last_beacon := Some b, d_last_seen := e_now e\<rparr>) (devices s)\<rparr>"

definition post_beacon :: "env \<Rightarrow> js \<Rightarrow> store \<Rightarrow> result_reply \<times> store" where
  "post_beacon e b s =
     (let s1 = store_beacon e b s; i = body_job b in
      if \<not> truthy (jget ''job_id'' b) then (Beacon_Reply False False, s1)
      else
        let s2 = update_job i (renew_row e) s1 in
        case find_job i s2 of
          None \<Rightarrow> (Beacon_Reply False False, s2)
        | Some j \<Rightarrow>
            if j_status j = Claimed then (Beacon_Reply True (preemption_pending e s2 j), s2)
            else (Beacon_Reply False False, s2))"

definition result_key :: "result_row \<Rightarrow> id \<times> id \<times> int" where
  "result_key r = (r_job_id r, r_device_id r, r_iter r)"

definition body_iter :: "js \<Rightarrow> int" where
  "body_iter b = (case int_of (jget ''iter'' b) of Some n \<Rightarrow> n | None \<Rightarrow> 0)"

definition store_result :: "env \<Rightarrow> js \<Rightarrow> store \<Rightarrow> store" where
  "store_result e b s =
     touch_device e (body_device b)
       (s\<lparr>results := replace_row result_key
            \<lparr>r_job_id = body_job b, r_device_id = body_device b, r_iter = body_iter b, r_payload = b,
              r_created_at = e_now e\<rparr> (results s)\<rparr>)"

definition close_by_rows :: "env \<Rightarrow> js \<Rightarrow> store \<Rightarrow> result_reply \<times> store" where
  "close_by_rows e b s =
     (let c = closing_status (result_rows (body_job b) s) b; st = closing_to_status c;
          (s', out) = close_job_tx e (body_job b) st (closing_reason c) s
      in (Job_Closed st out, s'))"

definition post_result :: "env \<Rightarrow> js \<Rightarrow> store \<Rightarrow> result_reply \<times> store" where
  "post_result e b s =
     (let s1 = store_result e b s in
      if \<not> truthy (jget ''final'' b) then (Row_Stored, s1)
      else if jget ''preempted'' b = JBool True then
        (case requeue_preempted_tx (body_job b) b s1 of
           Some (checkpoint, s2) \<Rightarrow> (Stood_Aside checkpoint, s2)
         | None \<Rightarrow> close_by_rows e b s1)
      else close_by_rows e b s1)"

definition post_results :: "env \<Rightarrow> js \<Rightarrow> store \<Rightarrow> refusal + (result_reply \<times> store)" where
  "post_results e b s =
     (if jget ''schema'' b \<noteq> JInt 1 then Inl (400, ''schema must be 1'')
      else if \<not> truthy (jget ''device_id'' b) then Inl (400, ''device_id required'')
      else if jget ''kind'' b = JStr ''beacon'' then Inr (post_beacon e b s)
      else if jget ''kind'' b \<noteq> JStr ''result''
        then Inl (400, ''kind must be '' @ q @ ''result'' @ q @ '' or '' @ q @ ''beacon'' @ q)
      else if \<not> truthy (jget ''job_id'' b) then Inl (400, ''job_id required for kind=result'')
      else Inr (post_result e b s))"

section \<open>Locks\<close>

fun acquire_locks :: "id \<Rightarrow> id list \<Rightarrow> store \<Rightarrow> id list \<times> id list \<times> store" where
  "acquire_locks i [] s = ([], [], s)"
| "acquire_locks i (dev # devs) s =
     (if lock_of dev s = None \<or> lock_of dev s = Some i
      then let (granted, denied, s') = acquire_locks i devs (put_lock dev i s) in (dev # granted, denied, s')
      else let (granted, denied, s') = acquire_locks i devs s in (granted, dev # denied, s'))"

definition release_locks :: "id \<Rightarrow> store \<Rightarrow> nat \<times> store" where
  "release_locks i s = (locks_on_job i s, drop_locks i s)"

section \<open>Events\<close>

definition post_event :: "env \<Rightarrow> string \<Rightarrow> js \<Rightarrow> store \<Rightarrow> nat \<times> store" where
  "post_event e topic payload s =
     (let n = Suc (event_seq s) in
      (n, s\<lparr>events := events s @ [\<lparr>ev_id = n, ev_topic = topic, ev_payload = payload, ev_created_at = e_now e\<rparr>],
            event_seq := n\<rparr>))"

text \<open>The first event of a topic after a cursor.\<close>

definition next_event :: "string \<Rightarrow> nat \<Rightarrow> store \<Rightarrow> event_row option" where
  "next_event topic after s =
     (case sort_key ev_id (filter (\<lambda>v. ev_topic v = topic \<and> ev_id v > after) (events s)) of
        [] \<Rightarrow> None
      | v # _ \<Rightarrow> Some v)"

end
