(* ===== verification/Settlement.thy ===== *)
theory Settlement
  imports Dependencies
begin

text \<open>
  What the dependency machinery guarantees: the cycle check decides reachability, the settlement of
  waiters ends, takes only steps that are allowed, and leaves no waiter behind that could move.
\<close>

section \<open>The cycle check\<close>

definition dep_rel :: "store \<Rightarrow> (id \<times> id) set" where
  "dep_rel s = {(a, b). b \<in> set (deps_of a s)}"

lemma dep_walk_sound: "dep_walk s job seen stack \<Longrightarrow> \<exists>d \<in> set stack. (d, job) \<in> (dep_rel s)\<^sup>*"
proof (induction s job seen stack rule: dep_walk.induct)
  case (2 s job seen cur stack)
  show ?case
  proof (cases "cur = job")
    case False
    note nj = this
    show ?thesis
    proof (cases "cur \<in> set seen")
      case True
      with 2 nj show ?thesis by auto
    next
      case new: False
      with 2 nj obtain d where "d \<in> set (deps_of cur s) \<union> set stack" "(d, job) \<in> (dep_rel s)\<^sup>*"
        by auto
      then show ?thesis
        by (auto simp: dep_rel_def intro: converse_rtrancl_into_rtrancl)
    qed
  qed auto
qed simp

lemma dep_walk_step:
  "\<not> dep_walk s job seen (cur # stack) \<Longrightarrow> cur \<noteq> job \<and>
     (if cur \<in> set seen then \<not> dep_walk s job seen stack
      else \<not> dep_walk s job (cur # seen) (rev (deps_of cur s) @ stack))"
  by (subst (asm) dep_walk.simps) (simp split: if_splits)

lemma dep_walk_complete:
  "\<not> dep_walk s job seen stack \<Longrightarrow> job \<notin> set seen \<Longrightarrow>
     \<forall>x \<in> set seen. set (deps_of x s) \<subseteq> set seen \<union> set stack \<Longrightarrow>
     \<exists>S. set stack \<union> set seen \<subseteq> S \<and> job \<notin> S \<and> (\<forall>x \<in> S. set (deps_of x s) \<subseteq> S)"
proof (induction s job seen stack rule: dep_walk.induct)
  case (1 s job seen)
  then show ?case by (intro exI [of _ "set seen"]) auto
next
  case (2 s job seen cur stack)
  note step = dep_walk_step [OF 2(3)]
  then have nj: "cur \<noteq> job" by blast
  show ?case
  proof (cases "cur \<in> set seen")
    case True
    have w: "\<not> dep_walk s job seen stack" using step True by presburger
    have eq: "set seen \<union> set (cur # stack) = set seen \<union> set stack" using True by auto
    have c: "\<forall>x \<in> set seen. set (deps_of x s) \<subseteq> set seen \<union> set stack"
      using 2(5) by (simp only: eq)
    obtain S where "set stack \<union> set seen \<subseteq> S" "job \<notin> S" "\<forall>x \<in> S. set (deps_of x s) \<subseteq> S"
      using 2(1) [OF nj True w 2(4) c] by blast
    with eq show ?thesis by (intro exI [of _ S]) (simp add: Un_commute)
  next
    case False
    have w: "\<not> dep_walk s job (cur # seen) (rev (deps_of cur s) @ stack)" using step False by presburger
    have j: "job \<notin> set (cur # seen)" using 2(4) nj by simp
    have c: "\<forall>x \<in> set (cur # seen). set (deps_of x s) \<subseteq> set (cur # seen) \<union> set (rev (deps_of cur s) @ stack)"
      using 2(5) by fastforce
    obtain S where S: "set (rev (deps_of cur s) @ stack) \<union> set (cur # seen) \<subseteq> S" "job \<notin> S"
      "\<forall>x \<in> S. set (deps_of x s) \<subseteq> S"
      using 2(2) [OF nj False w j c] by blast
    moreover from S(1) have "set (cur # stack) \<union> set seen \<subseteq> S" by simp
    ultimately show ?thesis by blast
  qed
qed

lemma dep_walk_iff: "dep_walk s job [] stack \<longleftrightarrow> (\<exists>d \<in> set stack. (d, job) \<in> (dep_rel s)\<^sup>*)"
proof
  assume "\<exists>d \<in> set stack. (d, job) \<in> (dep_rel s)\<^sup>*"
  then obtain d where d: "d \<in> set stack" "(d, job) \<in> (dep_rel s)\<^sup>*" by blast
  show "dep_walk s job [] stack"
  proof (rule ccontr)
    assume "\<not> dep_walk s job [] stack"
    then obtain S where S: "set stack \<subseteq> S" "job \<notin> S" "\<forall>x \<in> S. set (deps_of x s) \<subseteq> S"
      using dep_walk_complete [of s job "[]" stack] by auto
    from d(2) have "d \<in> S \<longrightarrow> job \<in> S"
      by (induction rule: rtrancl_induct) (use S(3) in \<open>auto simp: dep_rel_def\<close>)
    with d(1) S show False by auto
  qed
qed (rule dep_walk_sound)

lemma validate_dependencies_None:
  "validate_dependencies s job deps = None \<longleftrightarrow>
     (\<forall>d \<in> set deps. find_job d s \<noteq> None \<and> (d, job) \<notin> (dep_rel s)\<^sup>*)"
proof (cases "List.find (\<lambda>d. find_job d s = None) deps")
  case None
  then have "\<forall>d \<in> set deps. find_job d s \<noteq> None" by (simp add: find_None)
  with None show ?thesis by (auto simp: validate_dependencies_def dep_walk_iff)
next
  case (Some d)
  then have "d \<in> set deps \<and> find_job d s = None" by (auto dest: find_SomeD)
  with Some show ?thesis by (auto simp: validate_dependencies_def)
qed

section \<open>One row changes\<close>

interpretation close_row: row_update j_id "close_job_row e st why" for e st why
  by unfold_locales (simp add: close_job_row_def)

interpretation promote_row: row_update j_id "promote_row spec" for spec
  by unfold_locales (simp add: promote_row_def)

lemma status_of_close [row_simps]:
  "status_of k (update_job i (close_job_row e st why) s) =
     (if k = i then map_option (\<lambda>_. st) (status_of i s) else status_of k s)"
  by (auto simp: status_of_def find_job_def row_simps close_row.find_update close_job_row_def option.map_comp o_def)

lemma status_of_promote [row_simps]:
  "status_of k (update_job i (promote_row spec) s) =
     (if k = i then map_option (\<lambda>_. Queued) (status_of i s) else status_of k s)"
  by (auto simp: status_of_def find_job_def row_simps promote_row.find_update promote_row_def option.map_comp o_def)

lemma job_deps_close [simp]: "job_deps (close_job_row e st why j) = job_deps j"
  and job_deps_promote [simp]: "job_deps (promote_row spec j) = job_deps j"
  and id_close [simp]: "j_id (close_job_row e st why j) = j_id j"
  and id_promote [simp]: "j_id (promote_row spec j) = j_id j"
  and status_close [simp]: "j_status (close_job_row e st why j) = st"
  and status_promote [simp]: "j_status (promote_row spec j) = Queued"
  by (simp_all add: job_deps_def close_job_row_def promote_row_def)

lemma status_of_job: "distinct (job_ids s) \<Longrightarrow> j \<in> set (jobs s) \<Longrightarrow> status_of (j_id j) s = Some (j_status j)"
  by (simp add: status_of_def find_job_def job_ids_def find_row_in)

lemma mem_waiters_on:
  "w \<in> set (waiters_on i s) \<longleftrightarrow> w \<in> set (jobs s) \<and> j_status w = Waiting \<and> i \<in> set (job_deps w)"
  by (auto simp: waiters_on_def job_deps_def split: option.splits)

section \<open>The fuel is enough\<close>

definition waiting_ids :: "store \<Rightarrow> id set" where
  "waiting_ids s = j_id ` {j \<in> set (jobs s). j_status j = Waiting}"

lemma finite_waiting [simp]: "finite (waiting_ids s)"
  by (simp add: waiting_ids_def)

lemma in_waiting: "x \<in> waiting_ids s \<longleftrightarrow> (\<exists>j \<in> set (jobs s). j_id j = x \<and> j_status j = Waiting)"
  by (auto simp: waiting_ids_def)

lemma waiting_update:
  assumes "\<And>j. j_id (f j) = j_id j" "\<And>j. j_status (f j) \<noteq> Waiting"
  shows "waiting_ids (update_job i f s) = waiting_ids s - {i}"
proof (rule set_eqI)
  fix x
  show "x \<in> waiting_ids (update_job i f s) \<longleftrightarrow> x \<in> waiting_ids s - {i}"
    unfolding Diff_iff in_waiting jobs_update_job update_row_def by (auto simp: assms)
qed

lemma waiting_row_update:
  assumes "\<And>j. j_status (f j) \<noteq> Waiting" "j \<in> set (jobs (update_job i f s))" "j_status j = Waiting"
  shows "j \<in> set (jobs s) \<and> j_id j \<noteq> i"
proof -
  from assms(2) obtain k where "k \<in> set (jobs s)" "j = (if j_id k = i then f k else k)"
    by (auto simp: jobs_update_job update_row_def)
  with assms(1,3) show ?thesis by (cases "j_id k = i") auto
qed

lemma status_close_not: "c \<noteq> Waiting \<Longrightarrow> j_status (close_job_row e c why k) \<noteq> Waiting"
  and status_promote_not: "j_status (promote_row spec k) \<noteq> Waiting"
  by simp_all

lemma waiting_close: "st \<noteq> Waiting \<Longrightarrow> waiting_ids (update_job i (close_job_row e st why) s) = waiting_ids s - {i}"
  by (rule waiting_update) auto

lemma waiting_promote: "waiting_ids (update_job i (promote_row spec) s) = waiting_ids s - {i}"
  by (rule waiting_update) auto

definition returns_within :: "nat \<Rightarrow> (settling \<Rightarrow> settling option) \<Rightarrow> settling \<Rightarrow> bool" where
  "returns_within n f st \<longleftrightarrow> (\<exists>st'. f st = Some st' \<and> waiting_ids (fst st') \<subseteq> waiting_ids (fst st))"

lemma closing_returns:
  assumes rec: "\<And>i st. card (waiting_ids (fst st)) < n \<Longrightarrow> returns_within n (rec i) st"
    and "i \<in> W" "finite W" "card W \<le> n" "waiting_ids (fst st) \<subseteq> W"
  shows "returns_within n (fail_waiter e rec i why) st" "returns_within n (skip_waiter e rec i why) st"
proof -
  have "waiting_ids (fst st) - {i} \<subset> W" using assms by auto
  then have "card (waiting_ids (fst st) - {i}) < card W" using assms by (intro psubset_card_mono) auto
  then have small: "card (waiting_ids (fst st) - {i}) < n" using assms by linarith
  show "returns_within n (fail_waiter e rec i why) st" "returns_within n (skip_waiter e rec i why) st"
    using rec [of "(update_job i (close_job_row e Failed (Some why)) (fst st), _)" i]
      rec [of "(update_job i (close_job_row e Skipped (Some why)) (fst st), _)" i] small
    by (fastforce simp: fail_waiter_def skip_waiter_def returns_within_def waiting_close)+
qed

lemma settle_one_returns:
  assumes rec: "\<And>i st. card (waiting_ids (fst st)) < n \<Longrightarrow> returns_within n (rec i) st"
    and "j_id w \<in> W" "finite W" "card W \<le> n" "waiting_ids (fst st) \<subseteq> W"
  shows "returns_within n (settle_one e rec w) st"
  using closing_returns [of n rec "j_id w" W st e, OF assms]
  by (cases st; cases "substitute_dep_refs (fst st) (j_spec w)")
     (auto simp: settle_one_def returns_within_def waiting_promote split: verdict.splits)

lemma fold_settle_returns:
  assumes rec: "\<And>i st. card (waiting_ids (fst st)) < n \<Longrightarrow> returns_within n (rec i) st"
    and "finite W" "card W \<le> n" "\<forall>w \<in> set ws. j_id w \<in> W" "waiting_ids (fst st) \<subseteq> W"
  shows "returns_within n (fold_opt (settle_one e rec) ws) st"
  using assms(4,5)
proof (induction ws arbitrary: st)
  case (Cons w ws)
  then obtain st' where st': "settle_one e rec w st = Some st'" "waiting_ids (fst st') \<subseteq> waiting_ids (fst st)"
    using settle_one_returns [of n rec w W st e, OF rec] assms(2,3) by (auto simp: returns_within_def)
  with Cons.prems Cons.IH [of st'] show ?case by (fastforce simp: returns_within_def)
qed (simp add: returns_within_def)

lemma settle_returns: "card (waiting_ids (fst st)) < n \<Longrightarrow> returns_within n (settle n e i) st"
proof (induction n arbitrary: i st)
  case (Suc n)
  have "returns_within n (fold_opt (settle_one e (settle n e)) (waiters_on i (fst st))) st"
  proof (rule fold_settle_returns [where W = "waiting_ids (fst st)"])
    show "returns_within n (settle n e i') st'" if "card (waiting_ids (fst st')) < n" for i' st'
      using Suc.IH that .
    show "\<forall>w \<in> set (waiters_on i (fst st)). j_id w \<in> waiting_ids (fst st)"
      by (auto simp: mem_waiters_on waiting_ids_def)
  qed (use Suc.prems in auto)
  then show ?case by (simp add: returns_within_def)
qed simp

lemma settle_fuel_enough: "card (waiting_ids s) < settle_fuel s"
proof -
  have "waiting_ids s = set (map j_id (filter (\<lambda>j. j_status j = Waiting) (jobs s)))"
    by (auto simp: waiting_ids_def)
  then show ?thesis
    by (metis card_length length_map le_imp_less_Suc settle_fuel_def)
qed

lemma settle_waiters_run: "settle (settle_fuel s) e i (s, no_settlement) = Some (settle_waiters e i s)"
  using settle_returns [of "(s, no_settlement)" "settle_fuel s" e i] settle_fuel_enough [of s]
  by (auto simp: settle_waiters_def returns_within_def)

section \<open>What every settlement keeps\<close>

lemma settle_one_cases:
  assumes "settle_one e rec w st = Some st'"
  obtains (close) c why o' where "c = Failed \<or> c = Skipped" "dep_verdict (fst st) (job_deps w) \<noteq> VOpen"
      "rec (j_id w) (update_job (j_id w) (close_job_row e c (Some why)) (fst st), o') = Some st'"
  | (stay) "dep_verdict (fst st) (job_deps w) = VOpen" "st' = st"
  | (promote) spec where "dep_verdict (fst st) (job_deps w) = VReady"
      "substitute_dep_refs (fst st) (j_spec w) = (spec, [])"
      "fst st' = update_job (j_id w) (promote_row spec) (fst st)"
proof -
  obtain spec us where sub: "substitute_dep_refs (fst st) (j_spec w) = (spec, us)" by fastforce
  show thesis
  proof (cases "dep_verdict (fst st) (job_deps w)")
    case (VFail why)
    with assms have "fail_waiter e rec (j_id w) why st = Some st'" by (simp add: settle_one_def)
    then show thesis unfolding fail_waiter_def by (rule close [rotated 2]) (simp_all add: VFail)
  next
    case (VSkip why)
    with assms have "skip_waiter e rec (j_id w) why st = Some st'" by (simp add: settle_one_def)
    then show thesis unfolding skip_waiter_def by (rule close [rotated 2]) (simp_all add: VSkip)
  next
    case VOpen
    with assms have "st' = st" by (simp add: settle_one_def)
    with VOpen show thesis by (rule stay)
  next
    case VReady
    show thesis
    proof (cases "us = []")
      case True
      with assms sub VReady
      have "fst st' = update_job (j_id w) (promote_row spec) (fst st)" by (auto simp: settle_one_def)
      with VReady sub True show thesis by (intro promote) auto
    next
      case False
      with assms sub VReady
      have "fail_waiter e rec (j_id w) (''cannot resolve '' @ join ''; '' us) st = Some st'"
        by (simp add: settle_one_def)
      then show thesis unfolding fail_waiter_def by (rule close [rotated 2]) (simp_all add: VReady)
    qed
  qed
qed

lemma fold_opt_preserves:
  "fold_opt f xs st = Some st' \<Longrightarrow> P st \<Longrightarrow>
     (\<And>x st st'. x \<in> set xs \<Longrightarrow> f x st = Some st' \<Longrightarrow> P st \<Longrightarrow> P st') \<Longrightarrow> P st'"
proof (induction xs arbitrary: st)
  case (Cons x xs)
  then obtain st1 where st1: "f x st = Some st1" "fold_opt f xs st1 = Some st'"
    by (auto split: option.splits)
  have "P st1" by (rule Cons.prems(3) [OF _ st1(1) Cons.prems(2)]) simp
  then show ?case by (rule Cons.IH [OF st1(2)]) (rule Cons.prems(3), simp_all)
qed simp

lemma settle_preserves:
  assumes "settle n e i st = Some st'" "P (fst st)"
    and close: "\<And>k c why s. c = Failed \<or> c = Skipped \<Longrightarrow> P s \<Longrightarrow> P (update_job k (close_job_row e c why) s)"
    and promote: "\<And>k spec s. P s \<Longrightarrow> P (update_job k (promote_row spec) s)"
  shows "P (fst st')"
  using assms(1,2)
proof (induction n arbitrary: i st st')
  case (Suc n)
  have one: "P (fst st2)" if "settle_one e (settle n e) w st1 = Some st2" "P (fst st1)" for w st1 st2
    using that(1)
  proof (cases rule: settle_one_cases)
    case (close c why o')
    from close(3) show ?thesis by (rule Suc.IH) (simp add: assms(3) close(1) that(2))
  qed (use that(2) promote in auto)
  show ?case
    by (rule fold_opt_preserves [where P = "\<lambda>st. P (fst st)", OF Suc.prems(1) [unfolded settle.simps] Suc.prems(2)])
       (rule one)
qed simp

definition job_keys :: "store \<Rightarrow> (id \<times> id list) list" where
  "job_keys s = map (\<lambda>j. (j_id j, job_deps j)) (jobs s)"

lemma job_keys_update:
  "(\<And>j. j_id (f j) = j_id j \<and> job_deps (f j) = job_deps j) \<Longrightarrow> job_keys (update_job i f s) = job_keys s"
  by (simp add: job_keys_def row_simps update_row_def)

lemma settle_keys: "settle n e i st = Some st' \<Longrightarrow> job_keys (fst st') = job_keys (fst st)"
  by (rule settle_preserves [where P = "\<lambda>s. job_keys s = job_keys (fst st)"]) (auto simp: job_keys_update)

lemma job_ids_keys: "job_ids s = map fst (job_keys s)"
  by (simp add: job_ids_def job_keys_def)

section \<open>No waiter is left behind\<close>

definition open_status :: "job_status option \<Rightarrow> bool" where
  "open_status st \<longleftrightarrow> st = Some Waiting \<or> st = Some Queued \<or> st = Some Claimed"

lemma dep_verdict_VOpen:
  "dep_verdict s ds = VOpen \<longleftrightarrow>
     (\<forall>d \<in> set ds. open_status (status_of d s) \<or> status_of d s = Some Done) \<and>
     (\<exists>d \<in> set ds. open_status (status_of d s))"
proof (cases "List.find (broken_dep s) ds")
  case (Some d)
  then have "broken_dep s d" "d \<in> set ds" by (auto dest: find_SomeD)
  then have "d \<in> set ds" "\<not> open_status (status_of d s)" "status_of d s \<noteq> Some Done"
    by (auto simp: broken_dep_def open_status_def)
  with Some show ?thesis by (auto simp: dep_verdict_def)
next
  case None
  then have nb: "\<forall>d \<in> set ds. \<not> broken_dep s d" by (simp add: find_None)
  show ?thesis
  proof (cases "List.find (\<lambda>d. status_of d s = Some Skipped) ds")
    case (Some d)
    then have "d \<in> set ds" "status_of d s = Some Skipped" by (auto dest: find_SomeD)
    then have "\<not> (open_status (status_of d s) \<or> status_of d s = Some Done)" "d \<in> set ds"
      by (auto simp: open_status_def)
    moreover have "dep_verdict s ds \<noteq> VOpen" using None Some by (simp add: dep_verdict_def)
    ultimately show ?thesis by blast
  next
    case none': None
    have "open_status (status_of d s) \<or> status_of d s = Some Done" if "d \<in> set ds" for d
      using nb none' that
      by (cases "status_of d s"; cases "the (status_of d s)") (auto simp: broken_dep_def find_None open_status_def)
    moreover have "\<not> open_status (Some Done)" by (simp add: open_status_def)
    moreover have "dep_verdict s ds = VOpen \<longleftrightarrow> \<not> (\<forall>d \<in> set ds. status_of d s = Some Done)"
      using None none' by (simp add: dep_verdict_def list_all_iff)
    ultimately show ?thesis by metis
  qed
qed

text \<open>The waiting jobs a settlement would move, and those that name a job.\<close>

definition movable :: "store \<Rightarrow> id set" where
  "movable s = {x. \<exists>j \<in> set (jobs s). j_id j = x \<and> j_status j = Waiting \<and> dep_verdict s (job_deps j) \<noteq> VOpen}"

definition waits_for :: "id \<Rightarrow> store \<Rightarrow> id set" where
  "waits_for i s = j_id ` set (waiters_on i s)"

definition settled :: "store \<Rightarrow> bool" where
  "settled s \<longleftrightarrow> movable s = {}"

lemma status_of_update:
  assumes "\<And>j. j_id (f j) = j_id j"
  shows "k \<noteq> i \<Longrightarrow> status_of k (update_job i f s) = status_of k s"
proof -
  have "row_update j_id f" using assms by unfold_locales
  then show "k \<noteq> i \<Longrightarrow> ?thesis" by (simp add: status_of_def find_job_def row_simps row_update.find_update)
qed

lemma verdict_other:
  assumes "\<And>j. j_id (f j) = j_id j" "i \<notin> set ds"
  shows "dep_verdict (update_job i f s) ds = VOpen \<longleftrightarrow> dep_verdict s ds = VOpen"
proof -
  have "status_of d (update_job i f s) = status_of d s" if "d \<in> set ds" for d
    using status_of_update [of f d i s] assms that by auto
  then show ?thesis unfolding dep_verdict_VOpen by simp
qed

lemma movable_update:
  assumes "\<And>j. j_id (f j) = j_id j" "\<And>j. j_status (f j) \<noteq> Waiting"
  shows "movable (update_job i f s) \<subseteq> (movable s - {i}) \<union> waits_for i (update_job i f s)"
proof
  let ?s = "update_job i f s"
  fix x assume "x \<in> movable ?s"
  then obtain j where j: "j \<in> set (jobs ?s)" "j_id j = x" "j_status j = Waiting" "dep_verdict ?s (job_deps j) \<noteq> VOpen"
    by (auto simp: movable_def)
  show "x \<in> (movable s - {i}) \<union> waits_for i ?s"
  proof (cases "i \<in> set (job_deps j)")
    case True
    with j have "j \<in> set (waiters_on i ?s)" by (simp add: mem_waiters_on)
    with j(2) show ?thesis by (auto simp: waits_for_def)
  next
    case False
    have "j \<in> set (jobs s)" "j_id j \<noteq> i"
      using waiting_row_update [OF assms(2) j(1,3)] by blast+
    with j False show ?thesis by (auto simp: movable_def verdict_other [OF assms(1)])
  qed
qed

lemma movable_close:
  "c \<noteq> Waiting \<Longrightarrow> movable (update_job i (close_job_row e c why) s) \<subseteq>
    (movable s - {i}) \<union> waits_for i (update_job i (close_job_row e c why) s)"
  by (rule movable_update) auto

lemma movable_promote: "movable (update_job i (promote_row spec) s) \<subseteq> movable s - {i}"
proof
  let ?s = "update_job i (promote_row spec) s"
  fix x assume "x \<in> movable ?s"
  then obtain j where j: "j \<in> set (jobs ?s)" "j_id j = x" "j_status j = Waiting" "dep_verdict ?s (job_deps j) \<noteq> VOpen"
    by (auto simp: movable_def)
  have "j \<in> set (jobs s)" "j_id j \<noteq> i"
    using waiting_row_update [OF status_promote_not j(1,3)] by blast+
  moreover have "dep_verdict s (job_deps j) \<noteq> VOpen"
  proof
    assume "dep_verdict s (job_deps j) = VOpen"
    then have ok: "\<forall>d \<in> set (job_deps j). open_status (status_of d s) \<or> status_of d s = Some Done"
      "\<exists>d \<in> set (job_deps j). open_status (status_of d s)" by (auto simp: dep_verdict_VOpen)
    have "open_status (status_of d ?s) = (if d = i then status_of i s \<noteq> None else open_status (status_of d s))"
      "status_of d ?s = Some Done \<longleftrightarrow> d \<noteq> i \<and> status_of d s = Some Done" for d
      by (auto simp: status_of_promote open_status_def)
    with ok have "dep_verdict ?s (job_deps j) = VOpen"
      unfolding dep_verdict_VOpen by (metis not_None_eq open_status_def)
    with j(4) show False by simp
  qed
  ultimately show "x \<in> movable s - {i}" using j(2,3) by (auto simp: movable_def)
qed

lemma movable_waiting: "movable s \<subseteq> waiting_ids s"
  by (auto simp: movable_def in_waiting)

definition leaves_only :: "id set \<Rightarrow> (settling \<Rightarrow> settling option) \<Rightarrow> settling \<Rightarrow> bool" where
  "leaves_only R f st \<longleftrightarrow> (\<forall>st'. f st = Some st' \<longrightarrow> movable (fst st') \<subseteq> R)"

lemma settle_one_leaves:
  assumes rec: "\<And>k st R. movable (fst st) \<subseteq> waits_for k (fst st) \<union> R \<Longrightarrow> distinct (job_ids (fst st)) \<Longrightarrow> leaves_only R (rec k) st"
    and mov: "movable (fst st) \<subseteq> insert (j_id w) R"
    and row: "(j_id w, job_deps w) \<in> set (job_keys (fst st))" and dist: "distinct (job_ids (fst st))"
  shows "leaves_only R (settle_one e rec w) st"
  unfolding leaves_only_def
proof (intro allI impI)
  fix st' assume "settle_one e rec w st = Some st'"
  then show "movable (fst st') \<subseteq> R"
  proof (cases rule: settle_one_cases)
    case (close c why o')
    let ?st = "(update_job (j_id w) (close_job_row e c (Some why)) (fst st), o')"
    have "c \<noteq> Waiting" using close(1) by auto
    then have "movable (fst ?st) \<subseteq> waits_for (j_id w) (fst ?st) \<union> R"
      using movable_close [of c "j_id w" e "Some why" "fst st"] mov by auto
    moreover have "distinct (job_ids (fst ?st))"
      using dist by (simp add: job_ids_keys job_keys_update)
    ultimately have "leaves_only R (rec (j_id w)) ?st" by (rule rec)
    with close(3) show ?thesis by (simp add: leaves_only_def)
  next
    case stay
    have "j_id w \<notin> movable (fst st)"
    proof
      assume "j_id w \<in> movable (fst st)"
      then obtain j where j: "j \<in> set (jobs (fst st))" "j_id j = j_id w" "dep_verdict (fst st) (job_deps j) \<noteq> VOpen"
        by (auto simp: movable_def)
      from row obtain j' where j': "j' \<in> set (jobs (fst st))" "j_id j' = j_id w" "job_deps j' = job_deps w"
        by (auto simp: job_keys_def)
      from dist j j' have "j = j'" by (auto simp: job_ids_def distinct_map inj_on_def)
      with j(3) j'(3) stay show False by simp
    qed
    with mov stay show ?thesis by blast
  next
    case (promote spec)
    with movable_promote [of "j_id w" spec "fst st"] mov show ?thesis by auto
  qed
qed

lemma fold_settle_leaves:
  assumes rec: "\<And>k st R. movable (fst st) \<subseteq> waits_for k (fst st) \<union> R \<Longrightarrow> distinct (job_ids (fst st)) \<Longrightarrow> leaves_only R (rec k) st"
    and keys: "\<And>k st st'. rec k st = Some st' \<Longrightarrow> job_keys (fst st') = job_keys (fst st)"
  shows "movable (fst st) \<subseteq> j_id ` set ws \<union> R \<Longrightarrow> distinct (job_ids (fst st)) \<Longrightarrow>
    \<forall>w \<in> set ws. (j_id w, job_deps w) \<in> set (job_keys (fst st)) \<Longrightarrow>
    leaves_only R (fold_opt (settle_one e rec) ws) st"
proof (induction ws arbitrary: st)
  case (Cons w ws)
  show ?case
    unfolding leaves_only_def
  proof (intro allI impI)
    fix st' assume "fold_opt (settle_one e rec) (w # ws) st = Some st'"
    then obtain st1 where st1: "settle_one e rec w st = Some st1" "fold_opt (settle_one e rec) ws st1 = Some st'"
      by (auto split: option.splits)
    have "leaves_only (j_id ` set ws \<union> R) (settle_one e rec w) st"
      by (rule settle_one_leaves [OF rec]) (use Cons.prems in auto)
    with st1 have m: "movable (fst st1) \<subseteq> j_id ` set ws \<union> R" by (simp add: leaves_only_def)
    from st1(1) have k: "job_keys (fst st1) = job_keys (fst st)"
      by (cases rule: settle_one_cases) (auto simp: job_keys_update dest: keys)
    have "leaves_only R (fold_opt (settle_one e rec) ws) st1"
      by (rule Cons.IH) (use m k Cons.prems in \<open>auto simp: job_ids_keys\<close>)
    with st1(2) show "movable (fst st') \<subseteq> R" by (simp add: leaves_only_def)
  qed
qed (simp add: leaves_only_def)

lemma settle_leaves:
  "movable (fst st) \<subseteq> waits_for i (fst st) \<union> R \<Longrightarrow> distinct (job_ids (fst st)) \<Longrightarrow>
     leaves_only R (settle n e i) st"
proof (induction n arbitrary: i st R)
  case (Suc n)
  have "leaves_only R (fold_opt (settle_one e (settle n e)) (waiters_on i (fst st))) st"
  proof (rule fold_settle_leaves)
    show "\<forall>w \<in> set (waiters_on i (fst st)). (j_id w, job_deps w) \<in> set (job_keys (fst st))"
      by (auto simp: mem_waiters_on job_keys_def)
  qed (use Suc.IH Suc.prems in \<open>auto simp: waits_for_def dest: settle_keys\<close>)
  then show ?case by (simp add: leaves_only_def)
qed (simp add: leaves_only_def)

lemma settle_waiters_settled:
  assumes "movable s \<subseteq> waits_for i s" "distinct (job_ids s)"
  shows "settled (fst (settle_waiters e i s))"
  using settle_leaves [of "(s, no_settlement)" i "{}" "settle_fuel s" e] assms settle_waiters_run [of s e i]
  by (simp add: leaves_only_def settled_def)

section \<open>The steps of a settlement\<close>

text \<open>
  A settlement closes jobs that wait, or that it closed before (a job that waits on two jobs of one
  cascade is closed once for each), and promotes jobs that wait with every dependency done.
\<close>

definition dead :: "store \<Rightarrow> id \<Rightarrow> bool" where
  "dead s d \<longleftrightarrow> status_of d s = None \<or> status_of d s \<in> {Some Failed, Some Cancelled, Some Skipped}"

definition closable :: "job_status option \<Rightarrow> bool" where
  "closable st \<longleftrightarrow> st \<in> {Some Waiting, Some Failed, Some Skipped}"

inductive close_step :: "env \<Rightarrow> store \<Rightarrow> store \<Rightarrow> bool" for e where
  "closable (status_of k s) \<Longrightarrow> c = Failed \<or> c = Skipped \<Longrightarrow> \<exists>d \<in> set (deps_of k s). dead s d \<Longrightarrow>
     close_step e s (update_job k (close_job_row e c (Some why)) s)"

inductive settle_step :: "env \<Rightarrow> store \<Rightarrow> store \<Rightarrow> bool" for e where
  closes: "closable (status_of k s) \<Longrightarrow> c = Failed \<or> c = Skipped \<Longrightarrow>
     settle_step e s (update_job k (close_job_row e c (Some why)) s)"
| promotes: "find_job k s = Some w \<Longrightarrow> j_status w = Waiting \<Longrightarrow> dep_verdict s (job_deps w) = VReady \<Longrightarrow>
     substitute_dep_refs s (j_spec w) = (spec, []) \<Longrightarrow>
     settle_step e s (update_job k (promote_row spec) s)"

lemma deps_of_job: "find_job k s = Some w \<Longrightarrow> deps_of k s = job_deps w"
  by (simp add: deps_of_def job_deps_def)

lemma find_job_update:
  "(\<And>j. j_id (f j) = j_id j) \<Longrightarrow>
     find_job k (update_job i f s) = (if k = i then map_option f (find_job i s) else find_job k s)"
proof -
  assume "\<And>j. j_id (f j) = j_id j"
  then have upd: "row_update j_id f" by unfold_locales
  show ?thesis by (simp add: find_job_def row_simps row_update.find_update [OF upd])
qed

lemma deps_of_close [simp]: "deps_of k (update_job i (close_job_row e c why) s) = deps_of k s"
  by (auto simp: deps_of_def find_job_update close_job_row_def split: option.splits)

lemma dead_close: "dead s d \<Longrightarrow> c = Failed \<or> c = Skipped \<Longrightarrow> dead (update_job k (close_job_row e c why) s) d"
  by (auto simp: dead_def status_of_close)

lemma dead_promote: "dead s d \<Longrightarrow> \<not> dead s k \<Longrightarrow> dead (update_job k (promote_row spec) s) d"
  by (auto simp: dead_def status_of_promote)

lemma close_steps_keep:
  assumes "(close_step e)\<^sup>*\<^sup>* s s'"
  shows "deps_of k s' = deps_of k s \<and> (dead s d \<longrightarrow> dead s' d) \<and>
    (closable (status_of k s) \<longrightarrow> closable (status_of k s')) \<and>
    (find_job k s' = find_job k s \<or> closable (status_of k s') \<and> (\<exists>x \<in> set (deps_of k s'). dead s' x))"
  using assms
proof (induction rule: rtranclp_induct)
  case (step s1 s2)
  from step(2) obtain i c why where i: "closable (status_of i s1)" "c = Failed \<or> c = Skipped"
    "\<exists>d \<in> set (deps_of i s1). dead s1 d" "s2 = update_job i (close_job_row e c (Some why)) s1"
    by (cases rule: close_step.cases)
  have mono: "dead s1 x \<Longrightarrow> dead s2 x" for x using i dead_close by blast
  have clos: "closable (status_of k s2)" if "closable (status_of k s1)"
    using that i by (auto simp: status_of_close closable_def)
  show ?case
  proof (cases "k = i")
    case True
    have "closable (status_of k s2)" using clos i(1) True by blast
    moreover have "\<exists>x \<in> set (deps_of k s2). dead s2 x" using i mono True by auto
    moreover have "deps_of k s2 = deps_of k s" using step(3) i(4) by simp
    ultimately show ?thesis using step(3) mono by blast
  next
    case False
    have "find_job k s2 = find_job k s1" using i(4) False by (simp add: find_job_update)
    moreover have "deps_of k s2 = deps_of k s1" using i(4) by simp
    ultimately show ?thesis using step(3) mono clos by metis
  qed
qed simp

lemma nested_steps:
  "settle n e i st = Some st' \<Longrightarrow> distinct (job_ids (fst st)) \<Longrightarrow> dead (fst st) i \<Longrightarrow>
     (close_step e)\<^sup>*\<^sup>* (fst st) (fst st')"
proof (induction n arbitrary: i st st')
  case (Suc n)
  let ?s0 = "fst st"
  have fold: "fold_opt (settle_one e (settle n e)) ws st1 = Some st2 \<Longrightarrow>
      (close_step e)\<^sup>*\<^sup>* ?s0 (fst st1) \<Longrightarrow> set ws \<subseteq> set (waiters_on i ?s0) \<Longrightarrow> (close_step e)\<^sup>*\<^sup>* ?s0 (fst st2)" for ws st1 st2
  proof (induction ws arbitrary: st1)
    case (Cons w ws)
    then obtain st3 where st3: "settle_one e (settle n e) w st1 = Some st3" "fold_opt (settle_one e (settle n e)) ws st3 = Some st2"
      by (auto split: option.splits)
    have w: "w \<in> set (jobs ?s0)" "j_status w = Waiting" "i \<in> set (job_deps w)"
      using Cons.prems(3) by (auto simp: mem_waiters_on)
    then have row: "find_job (j_id w) ?s0 = Some w"
      using Suc.prems(2) by (simp add: find_job_def job_ids_def find_row_in)
    note keep = close_steps_keep [OF Cons.prems(2)]
    have deps: "deps_of (j_id w) (fst st1) = job_deps w" using keep row by (metis deps_of_job)
    have dead: "dead (fst st1) i" using keep Suc.prems(3) by blast
    have "closable (status_of (j_id w) ?s0)" using row w by (simp add: status_of_def closable_def)
    then have clos: "closable (status_of (j_id w) (fst st1))" using keep by blast
    have dist: "distinct (job_ids (fst st1))"
      using Cons.prems(2)
      by (induction rule: rtranclp_induct)
         (auto simp: job_ids_keys job_keys_update elim!: close_step.cases intro: Suc.prems(2) [unfolded job_ids_keys])
    have not_open: "dep_verdict (fst st1) (job_deps w) \<noteq> VOpen" "dep_verdict (fst st1) (job_deps w) \<noteq> VReady"
      using w(3) dead
      by (auto simp: dep_verdict_VOpen open_status_def dead_def)
         (auto simp: dep_verdict_def list_all_iff dead_def broken_dep_def find_None split: option.splits if_splits)
    from st3(1) have "(close_step e)\<^sup>*\<^sup>* ?s0 (fst st3)"
    proof (cases rule: settle_one_cases)
      case (close c why o')
      let ?s2 = "update_job (j_id w) (close_job_row e c (Some why)) (fst st1)"
      have "close_step e (fst st1) ?s2"
        using clos close(1) deps dead w(3) by (intro close_step.intros) auto
      moreover have "(close_step e)\<^sup>*\<^sup>* ?s2 (fst st3)"
        using Suc.IH [OF close(3)] dist close(1) row keep
        by (fastforce simp: job_ids_keys job_keys_update dead_def status_of_close)
      ultimately show ?thesis using Cons.prems(2) by auto
    qed (use not_open in auto)
    then show ?case using Cons.IH [OF st3(2)] Cons.prems(3) by auto
  qed simp
  from fold [of "waiters_on i ?s0" st st'] Suc.prems show ?case by auto
qed simp

lemma close_step_settle: "close_step e s s' \<Longrightarrow> settle_step e s s'"
  by (auto elim!: close_step.cases intro: settle_step.closes)

lemma close_steps_settle: "(close_step e)\<^sup>*\<^sup>* s s' \<Longrightarrow> (settle_step e)\<^sup>*\<^sup>* s s'"
  by (metis close_step_settle mono_rtranclp)

lemma close_steps_ids: "(close_step e)\<^sup>*\<^sup>* s s' \<Longrightarrow> job_keys s' = job_keys s"
  by (induction rule: rtranclp_induct) (auto simp: job_keys_update elim!: close_step.cases)

text \<open>A waiter of the list: unchanged since it was read, or closed for a dependency that failed.\<close>

definition pending :: "store \<Rightarrow> job \<Rightarrow> bool" where
  "pending s w \<longleftrightarrow> find_job (j_id w) s = Some w \<or>
     closable (status_of (j_id w) s) \<and> (\<exists>d \<in> set (job_deps w). dead s d)"

lemma pending_close_steps:
  assumes "(close_step e)\<^sup>*\<^sup>* s s'" "pending s w" "deps_of (j_id w) s = job_deps w"
  shows "pending s' w"
  using close_steps_keep [OF assms(1), of "j_id w"] assms(2,3) by (metis pending_def)

lemma verdict_dead:
  "d \<in> set ds \<Longrightarrow> dead s d \<Longrightarrow> dep_verdict s ds \<noteq> VOpen \<and> dep_verdict s ds \<noteq> VReady"
  by (auto simp: dep_verdict_VOpen open_status_def dead_def)
     (auto simp: dep_verdict_def list_all_iff dead_def broken_dep_def find_None split: option.splits if_splits)

lemma top_steps:
  "fold_opt (settle_one e (settle n e)) ws st = Some st' \<Longrightarrow> distinct (job_ids (fst st)) \<Longrightarrow>
     distinct (map j_id ws) \<Longrightarrow>
     \<forall>w \<in> set ws. j_status w = Waiting \<and> deps_of (j_id w) (fst st) = job_deps w \<and> pending (fst st) w \<Longrightarrow>
     (settle_step e)\<^sup>*\<^sup>* (fst st) (fst st')"
proof (induction ws arbitrary: st)
  case (Cons w ws)
  then obtain st1 where st1: "settle_one e (settle n e) w st = Some st1" "fold_opt (settle_one e (settle n e)) ws st1 = Some st'"
    by (auto split: option.splits)
  have w: "j_status w = Waiting" "deps_of (j_id w) (fst st) = job_deps w" "pending (fst st) w"
    using Cons.prems(4) by auto
  have rest: "\<forall>v \<in> set ws. j_status v = Waiting \<and> deps_of (j_id v) (fst st) = job_deps v \<and> pending (fst st) v"
    using Cons.prems(4) by auto
  have "(settle_step e)\<^sup>*\<^sup>* (fst st) (fst st1) \<and> distinct (job_ids (fst st1)) \<and>
      (\<forall>v \<in> set ws. deps_of (j_id v) (fst st1) = job_deps v \<and> pending (fst st1) v)"
    using st1(1)
  proof (cases rule: settle_one_cases)
    case (close c why o')
    let ?s2 = "update_job (j_id w) (close_job_row e c (Some why)) (fst st)"
    have clos: "closable (status_of (j_id w) (fst st))"
      using w(1,3) by (auto simp: pending_def closable_def status_of_def)
    have step: "settle_step e (fst st) ?s2" using clos close(1) by (intro settle_step.closes)
    have dist: "distinct (job_ids ?s2)" using Cons.prems(2) by (simp add: job_ids_keys job_keys_update)
    have "dead ?s2 (j_id w)"
      using close(1) by (auto simp: dead_def status_of_close)
    with nested_steps [OF close(3)] dist have steps: "(close_step e)\<^sup>*\<^sup>* ?s2 (fst st1)" by simp
    have dead_v: "dead (fst st) d \<Longrightarrow> dead ?s2 d" for d using close(1) dead_close by blast
    have "deps_of (j_id v) ?s2 = job_deps v \<and> pending ?s2 v" if "v \<in> set ws" for v
    proof -
      have "j_id v \<noteq> j_id w" using Cons.prems(3) that by (metis distinct.simps(2) image_eqI list.simps(9) set_map)
      then have "find_job (j_id v) ?s2 = find_job (j_id v) (fst st)" by (simp add: find_job_update)
      then show ?thesis using rest that dead_v by (auto simp: pending_def status_of_def)
    qed
    then have "\<forall>v \<in> set ws. deps_of (j_id v) (fst st1) = job_deps v \<and> pending (fst st1) v"
      using pending_close_steps [OF steps] close_steps_keep [OF steps] by auto
    moreover have "distinct (job_ids (fst st1))"
      using dist close_steps_ids [OF steps] by (simp add: job_ids_keys)
    moreover have "(settle_step e)\<^sup>*\<^sup>* (fst st) (fst st1)"
      using step close_steps_settle [OF steps] by auto
    ultimately show ?thesis by blast
  next
    case stay
    with rest Cons.prems(2) show ?thesis by auto
  next
    case (promote spec)
    let ?s2 = "update_job (j_id w) (promote_row spec) (fst st)"
    have "\<not> (\<exists>d \<in> set (job_deps w). dead (fst st) d)" using promote(1) verdict_dead by blast
    with w(3) have row: "find_job (j_id w) (fst st) = Some w" by (auto simp: pending_def)
    then have "settle_step e (fst st) ?s2" using w(1) promote by (intro settle_step.promotes) auto
    moreover have "\<not> dead (fst st) (j_id w)" using row w(1) by (simp add: dead_def status_of_def)
    then have dead_v: "dead (fst st) d \<Longrightarrow> dead ?s2 d" for d using dead_promote by blast
    have "deps_of (j_id v) ?s2 = job_deps v \<and> pending ?s2 v" if "v \<in> set ws" for v
    proof -
      have "j_id v \<noteq> j_id w" using Cons.prems(3) that by (metis distinct.simps(2) image_eqI list.simps(9) set_map)
      then have "find_job (j_id v) ?s2 = find_job (j_id v) (fst st)" by (simp add: find_job_update)
      then show ?thesis using rest that dead_v by (auto simp: pending_def status_of_def deps_of_def)
    qed
    ultimately show ?thesis
      using promote(3) Cons.prems(2) by (auto simp: job_ids_keys job_keys_update)
  qed
  then show ?case using Cons.IH [OF st1(2)] Cons.prems(3) rest by auto
qed simp

lemma settle_waiters_steps:
  assumes "distinct (job_ids s)"
  shows "(settle_step e)\<^sup>*\<^sup>* s (fst (settle_waiters e i s))"
proof -
  have "fold_opt (settle_one e (settle (settle_fuel s - 1) e)) (waiters_on i s) (s, no_settlement) = Some (settle_waiters e i s)"
    using settle_waiters_run [of s e i] by (simp add: settle_fuel_def)
  moreover have "distinct (map j_id (waiters_on i s))"
    using assms by (simp add: waiters_on_def job_ids_def distinct_map_filter)
  moreover have "find_job (j_id w) s = Some w" if "w \<in> set (jobs s)" for w
    using assms that by (simp add: find_job_def job_ids_def find_row_in)
  then have "\<forall>w \<in> set (waiters_on i s). j_status w = Waiting \<and> deps_of (j_id w) s = job_deps w \<and> pending s w"
    by (auto simp: mem_waiters_on pending_def deps_of_job)
  ultimately show ?thesis using top_steps [of e _ "waiters_on i s" "(s, no_settlement)"] assms by auto
qed

text \<open>So a settlement keeps whatever its two kinds of step keep.\<close>

lemma settle_waiters_keep:
  assumes "distinct (job_ids s)" "P s" "\<And>s s'. settle_step e s s' \<Longrightarrow> P s \<Longrightarrow> P s'"
  shows "P (fst (settle_waiters e i s))"
  using settle_waiters_steps [OF assms(1)] assms(2)
  by (induction rule: rtranclp_induct) (auto intro: assms(3))

lemma settle_step_frame:
  "settle_step e s s' \<Longrightarrow> job_keys s' = job_keys s \<and> device_locks s' = device_locks s \<and> devices s' = devices s \<and>
     device_reservations s' = device_reservations s \<and> results s' = results s \<and>
     (status_of k s \<notin> {Some Waiting, Some Failed, Some Skipped} \<longrightarrow> find_job k s' = find_job k s)"
  by (auto elim!: settle_step.cases simp: job_keys_update frame_simps find_job_update status_of_def closable_def)

lemma settle_waiters_frame:
  assumes "distinct (job_ids s)"
  shows "job_keys (fst (settle_waiters e i s)) = job_keys s"
    "device_locks (fst (settle_waiters e i s)) = device_locks s"
    "devices (fst (settle_waiters e i s)) = devices s"
    "device_reservations (fst (settle_waiters e i s)) = device_reservations s"
    "results (fst (settle_waiters e i s)) = results s"
    "status_of k s \<notin> {Some Waiting, Some Failed, Some Skipped} \<Longrightarrow>
       find_job k (fst (settle_waiters e i s)) = find_job k s"
proof -
  let ?P = "\<lambda>s'. job_keys s' = job_keys s \<and> device_locks s' = device_locks s \<and> devices s' = devices s \<and>
     device_reservations s' = device_reservations s \<and> results s' = results s \<and>
     (status_of k s \<notin> {Some Waiting, Some Failed, Some Skipped} \<longrightarrow> find_job k s' = find_job k s)"
  have "?P (fst (settle_waiters e i s))"
  proof (rule settle_waiters_keep [OF assms])
    fix s1 s2 assume "settle_step e s1 s2" "?P s1"
    note k = settle_step_frame [OF this(1), of k]
    have "status_of k s1 = status_of k s" if "find_job k s1 = find_job k s"
      using that by (simp add: status_of_def)
    with k \<open>?P s1\<close> show "?P s2" by presburger
  qed simp
  then show "job_keys (fst (settle_waiters e i s)) = job_keys s"
    "device_locks (fst (settle_waiters e i s)) = device_locks s"
    "devices (fst (settle_waiters e i s)) = devices s"
    "device_reservations (fst (settle_waiters e i s)) = device_reservations s"
    "results (fst (settle_waiters e i s)) = results s"
    "status_of k s \<notin> {Some Waiting, Some Failed, Some Skipped} \<Longrightarrow>
       find_job k (fst (settle_waiters e i s)) = find_job k s"
    by blast+
qed

text \<open>So closing a job, with its locks dropped, and settling leaves the store settled.\<close>

lemma jobs_only:
  assumes "jobs s' = jobs s"
  shows "movable s' = movable s" "waits_for i s' = waits_for i s" "job_ids s' = job_ids s"
proof -
  have st: "status_of k s' = status_of k s" for k using assms by (simp add: status_of_def find_job_def)
  have bd: "broken_dep s' = broken_dep s" by (rule ext) (simp add: broken_dep_def st)
  have "dep_verdict s' ds = dep_verdict s ds" for ds by (simp only: dep_verdict_def bd st)
  then show "movable s' = movable s" "waits_for i s' = waits_for i s" "job_ids s' = job_ids s"
    using assms by (simp_all add: movable_def waits_for_def waiters_on_def job_ids_def)
qed

lemma close_and_settle:
  assumes "settled s" "distinct (job_ids s)" "\<And>j. j_id (f j) = j_id j" "\<And>j. j_status (f j) \<noteq> Waiting"
  shows "settled (fst (settle_waiters e i (drop_locks i (update_job i f s))))"
proof (rule settle_waiters_settled)
  let ?s = "update_job i f s"
  note same = jobs_only [of "drop_locks i ?s" ?s, OF drop_locks_frame(1)]
  have "movable ?s \<subseteq> waits_for i ?s"
    using movable_update [of f i s, OF assms(3,4)] assms(1) by (auto simp: settled_def)
  then show "movable (drop_locks i ?s) \<subseteq> waits_for i (drop_locks i ?s)" by (simp add: same)
  have "job_ids ?s = job_ids s" using assms(3) by (simp add: job_ids_def row_simps update_row_def)
  with assms(2) show "distinct (job_ids (drop_locks i ?s))" by (simp add: same)
qed

end
