(* ===== verification/Invariant.thy ===== *)
theory Invariant
  imports Lease Settlement
begin

text \<open>
  The invariant of the job table and of the lock table, and what a good step of the store is: it keeps
  the invariant, removes no job, and leaves a closed job closed. Every operation of the queue is shown
  to be one in \<open>Lifecycle\<close>.
\<close>

section \<open>The invariant\<close>

definition terminal :: "job_status \<Rightarrow> bool" where
  "terminal st \<longleftrightarrow> st \<in> {Done, Failed, Cancelled, Skipped}"

definition open_for_claim :: "job_status \<Rightarrow> bool" where
  "open_for_claim st \<longleftrightarrow> st = Queued \<or> st = Waiting"

definition job_ok :: "job \<Rightarrow> bool" where
  "job_ok j \<longleftrightarrow>
     (j_status j = Claimed \<longleftrightarrow> j_lease_deadline j \<noteq> None) \<and>
     (terminal (j_status j) \<longleftrightarrow> j_finished_at j \<noteq> None) \<and>
     0 \<le> j_attempts j \<and> j_attempts j \<le> j_max_attempts j \<and>
     (open_for_claim (j_status j) \<longrightarrow> j_attempts j < j_max_attempts j \<and> j_claimed_by j = None) \<and>
     (j_status j = Claimed \<longrightarrow> 1 \<le> j_attempts j \<and> j_claimed_by j \<noteq> None) \<and>
     1 \<le> j_lease_ttl_s j \<and>
     (j_status j = Waiting \<longrightarrow> job_deps j \<noteq> [])"

text \<open>Every dependency is an older row of the table.\<close>

fun deps_ordered :: "id set \<Rightarrow> (id \<times> id list) list \<Rightarrow> bool" where
  "deps_ordered seen [] = True"
| "deps_ordered seen ((i, ds) # ks) = (set ds \<subseteq> seen \<and> deps_ordered (insert i seen) ks)"

definition store_inv :: "store \<Rightarrow> bool" where
  "store_inv s \<longleftrightarrow>
     distinct (job_ids s) \<and> (\<forall>j \<in> set (jobs s). job_ok j) \<and> deps_ordered {} (job_keys s) \<and>
     distinct (map l_device_id (device_locks s))"

lemma deps_ordered_append:
  "deps_ordered seen (ks @ ks') \<longleftrightarrow> deps_ordered seen ks \<and> deps_ordered (seen \<union> fst ` set ks) ks'"
  by (induction seen ks rule: deps_ordered.induct) (auto simp: insert_commute)

lemma deps_ordered_known: "(\<forall>k \<in> set ks. set (snd k) \<subseteq> seen) \<Longrightarrow> deps_ordered seen ks"
  by (induction ks arbitrary: seen) (auto, blast)

lemma store_inv_empty: "store_inv empty_store"
  by (simp add: store_inv_def empty_store_def job_ids_def job_keys_def)

lemma inv_find: "store_inv s \<Longrightarrow> j \<in> set (jobs s) \<Longrightarrow> find_job (j_id j) s = Some j"
  by (simp add: store_inv_def find_job_def job_ids_def find_row_in)

lemma terminal_cases [simp]:
  "terminal Done" "terminal Failed" "terminal Cancelled" "terminal Skipped"
  "\<not> terminal Queued" "\<not> terminal Waiting" "\<not> terminal Claimed"
  "open_for_claim Queued" "open_for_claim Waiting" "\<not> open_for_claim Claimed" "\<not> open_for_claim Done"
  "\<not> open_for_claim Failed" "\<not> open_for_claim Cancelled" "\<not> open_for_claim Skipped"
  by (simp_all add: terminal_def open_for_claim_def)

text \<open>Dependencies never form a cycle.\<close>

lemma deps_ordered_split: "deps_ordered seen (xs @ (i, ds) # ys) \<Longrightarrow> set ds \<subseteq> seen \<union> fst ` set xs"
  by (simp add: deps_ordered_append)

definition position :: "id list \<Rightarrow> id \<Rightarrow> nat" where
  "position ids x = length (takeWhile (\<lambda>y. y \<noteq> x) ids)"

lemma position_append: "x \<in> set xs \<Longrightarrow> position (xs @ ys) x < length xs"
  by (induction xs) (auto simp: position_def)

lemma position_at: "x \<notin> set xs \<Longrightarrow> position (xs @ x # ys) x = length xs"
  by (induction xs) (auto simp: position_def)

lemma dep_rel_key:
  assumes "(a, b) \<in> dep_rel s"
  obtains ds where "(a, ds) \<in> set (job_keys s)" "b \<in> set ds"
proof -
  from assms obtain j where j: "find_job a s = Some j"
    by (cases "find_job a s") (auto simp: dep_rel_def deps_of_def)
  with assms have "b \<in> set (job_deps j)" by (simp add: dep_rel_def deps_of_job)
  note j this
  then show thesis using that [of "job_deps j"]
    by (auto simp: find_job_def job_keys_def dest!: find_row_SomeD)
qed

lemma dep_rel_older:
  assumes "store_inv s" "(a, b) \<in> dep_rel s"
  shows "position (job_ids s) b < position (job_ids s) a"
proof -
  from assms(2) obtain ds where ds: "(a, ds) \<in> set (job_keys s)" "b \<in> set ds" by (rule dep_rel_key)
  then obtain xs ys where split: "job_keys s = xs @ (a, ds) # ys" by (auto simp: in_set_conv_decomp)
  have ids: "job_ids s = map fst xs @ a # map fst ys" by (simp add: job_ids_keys split)
  moreover have "a \<notin> set (map fst xs)" using assms(1) ids by (simp add: store_inv_def)
  moreover have "b \<in> set (map fst xs)"
    using assms(1) ds(2) deps_ordered_split [of "{}" xs a ds ys] by (auto simp: store_inv_def split)
  ultimately show ?thesis by (simp add: position_at position_append [of b "map fst xs", simplified length_map])
qed

lemma store_inv_acyclic: "store_inv s \<Longrightarrow> acyclic (dep_rel s)"
proof (rule acyclic_subset [of "(measure (position (job_ids s)))\<inverse>"])
  show "acyclic ((measure (position (job_ids s)))\<inverse>)"
    by (simp add: acyclic_converse wf_acyclic)
qed (auto dest: dep_rel_older)

section \<open>Good steps\<close>

definition closed_in :: "id \<Rightarrow> store \<Rightarrow> bool" where
  "closed_in i s \<longleftrightarrow> (case status_of i s of None \<Rightarrow> False | Some st \<Rightarrow> terminal st)"

definition good :: "store \<Rightarrow> store \<Rightarrow> bool" where
  "good s s' \<longleftrightarrow>
     (store_inv s \<longrightarrow> store_inv s' \<and> (\<exists>rows. job_keys s' = job_keys s @ rows) \<and>
        (\<forall>i. closed_in i s \<longrightarrow> closed_in i s'))"

named_theorems good_intros \<open>operations that take good steps\<close>

lemma good_refl [good_intros]: "good s s"
  by (simp add: good_def)

lemma good_trans [trans]: "good s s1 \<Longrightarrow> good s1 s2 \<Longrightarrow> good s s2"
  by (auto simp: good_def)

lemma good_inv: "good s s' \<Longrightarrow> store_inv s \<Longrightarrow> store_inv s'"
  by (simp add: good_def)

lemma good_frame:
  assumes "jobs s' = jobs s" "device_locks s' = filter P (device_locks s)"
  shows "good s s'"
proof -
  have "job_ids s' = job_ids s" "job_keys s' = job_keys s" "status_of i s' = status_of i s" for i
    using assms(1) by (simp_all add: job_ids_def job_keys_def status_of_def find_job_def)
  then show ?thesis using assms by (auto simp: good_def store_inv_def closed_in_def distinct_map_filter)
qed

lemma good_same: "jobs s' = jobs s \<Longrightarrow> device_locks s' = device_locks s \<Longrightarrow> good s s'"
  using good_frame [of s' s "\<lambda>_. True"] by simp

lemma good_drop_locks [good_intros]: "good s (drop_locks i s)"
  by (rule good_frame) (simp_all add: drop_locks_def)

lemma good_put_lock [good_intros]: "good s (put_lock dev i s)"
proof -
  have "job_ids (put_lock dev i s) = job_ids s" "job_keys (put_lock dev i s) = job_keys s"
    "status_of k (put_lock dev i s) = status_of k s" for k
    by (simp_all add: job_ids_def job_keys_def status_of_def frame_simps)
  then show ?thesis
    by (auto simp: good_def store_inv_def closed_in_def frame_simps) (simp add: put_lock_def)
qed

lemma good_update:
  assumes keys: "\<And>j. j_id (f j) = j_id j \<and> job_deps (f j) = job_deps j"
    and ok: "\<And>j. find_job i s = Some j \<Longrightarrow> job_ok j \<Longrightarrow> job_ok (f j) \<and> (terminal (j_status j) \<longrightarrow> terminal (j_status (f j)))"
  shows "good s (update_job i f s)"
  unfolding good_def
proof (intro impI conjI allI)
  assume inv: "store_inv s"
  have k: "job_keys (update_job i f s) = job_keys s" using keys by (intro job_keys_update) auto
  then show "\<exists>rows. job_keys (update_job i f s) = job_keys s @ rows" by simp
  have find: "find_job x (update_job i f s) = (if x = i then map_option f (find_job i s) else find_job x s)" for x
    using keys by (intro find_job_update) auto
  have row: "find_job (j_id j) s = Some j" if "j \<in> set (jobs s)" for j
    using inv that by (rule inv_find)
  have "job_ok j" if j: "j \<in> set (jobs (update_job i f s))" for j
  proof -
    from j obtain j0 where j0: "j0 \<in> set (jobs s)" "j = (if j_id j0 = i then f j0 else j0)"
      by (auto simp: jobs_update_job update_row_def)
    then show ?thesis using ok row [OF j0(1)] inv by (auto simp: store_inv_def split: if_splits)
  qed
  then show "store_inv (update_job i f s)"
    using inv k by (auto simp: store_inv_def job_ids_keys frame_simps)
  fix x assume "closed_in x s"
  then obtain j where j: "find_job x s = Some j" "terminal (j_status j)"
    by (auto simp: closed_in_def status_of_def split: option.splits)
  then have "job_ok j" using inv by (auto simp: store_inv_def find_job_def dest: find_row_SomeD)
  with j ok find show "closed_in x (update_job i f s)"
    by (auto simp: closed_in_def status_of_def)
qed

text \<open>A new row: a fresh id, older dependencies.\<close>

lemma good_append:
  assumes "job_ok j" "find_job (j_id j) s = None" "set (job_deps j) \<subseteq> set (job_ids s)"
  shows "good s (s\<lparr>jobs := jobs s @ [j]\<rparr>)"
  unfolding good_def
proof (intro impI conjI allI)
  let ?s = "s\<lparr>jobs := jobs s @ [j]\<rparr>"
  assume inv: "store_inv s"
  have k: "job_keys ?s = job_keys s @ [(j_id j, job_deps j)]" by (simp add: job_keys_def)
  then show "\<exists>rows. job_keys ?s = job_keys s @ rows" by simp
  have "j_id j \<notin> set (job_ids s)" using assms(2) by (simp add: find_job_def job_ids_def find_row_None)
  then show "store_inv ?s"
    using inv assms by (auto simp: store_inv_def job_ids_keys k deps_ordered_append)
  fix x assume "closed_in x s"
  then show "closed_in x ?s"
    by (auto simp: closed_in_def status_of_def find_job_def find_row_append split: option.splits)
qed

lemma good_fold: "(\<And>x s. x \<in> set xs \<Longrightarrow> good s (f x s)) \<Longrightarrow> good s (fold f xs s)"
proof (induction xs arbitrary: s)
  case (Cons x xs)
  have "good s (f x s)" by (rule Cons.prems) simp
  moreover have "good (f x s) (fold f xs (f x s))" by (rule Cons.IH) (simp add: Cons.prems)
  ultimately show ?case by (simp add: good_trans)
qed (simp add: good_refl)

section \<open>Closing and settling\<close>

lemma job_ok_close: "job_ok j \<Longrightarrow> terminal st \<Longrightarrow> job_ok (close_job_row e st why j)"
  by (auto simp: job_ok_def close_job_row_def terminal_def open_for_claim_def job_deps_def)

lemma good_close: "terminal st \<Longrightarrow> good s (update_job i (close_job_row e st why) s)"
  by (rule good_update) (auto simp: job_ok_close)

lemma good_settle_step: "settle_step e s s' \<Longrightarrow> good s s'"
proof (induction rule: settle_step.induct)
  case (closes k s c why)
  then show ?case by (auto intro: good_close)
next
  case (promotes k s w spec)
  show ?case
  proof (rule good_update)
    fix j assume "find_job k s = Some j" "job_ok j"
    with promotes show "job_ok (promote_row spec j) \<and> (terminal (j_status j) \<longrightarrow> terminal (j_status (promote_row spec j)))"
      by (auto simp: job_ok_def promote_row_def job_deps_def)
  qed auto
qed

lemma good_settle [good_intros]: "good s (fst (settle_waiters e i s))"
proof (cases "store_inv s")
  case True
  then have "(settle_step e)\<^sup>*\<^sup>* s (fst (settle_waiters e i s))"
    by (intro settle_waiters_steps) (simp add: store_inv_def)
  then show ?thesis
    by (induction rule: rtranclp_induct) (auto intro: good_refl good_trans good_settle_step)
qed (simp add: good_def)

end
