(* ===== verification/Queue_Laws.thy ===== *)
theory Queue_Laws
  imports Queue Invariant
begin

text \<open>
  What an accepted job looks like, and what an enqueue does to the store: it appends rows that satisfy
  the invariant and touches nothing else.
\<close>

section \<open>What the checks guarantee\<close>

lemma check_lease_bounds:
  "check_lease spec = Inr (spec', le) \<Longrightarrow> 1 \<le> le_ttl le \<and> le_ttl le \<le> MAX_LEASE_TTL_S \<and> 1 \<le> le_max le"
  by (auto simp: check_lease_def Let_def split: if_splits option.splits)

lemma check_deps_known:
  assumes "check_deps s spec = Inr (spec', deps, state)"
  shows "state = dependency_state s deps \<and> (\<forall>d \<in> set deps. find_job d s \<noteq> None \<and> (d, spec_id spec) \<notin> (dep_rel s)\<^sup>*)"
proof -
  from assms obtain deps0 where d0: "spec_deps spec = Inr deps0" by (auto simp: check_deps_def and_then_Inr)
  let ?v = "if jget ''depends_on'' spec = JUndef then None else validate_dependencies s (spec_id spec) deps0"
  from assms d0 have v: "?v = None" "state = dependency_state s deps0" "deps = deps0"
    by (auto simp: check_deps_def Let_def split: option.splits if_splits prod.splits)
  show ?thesis
  proof (cases "jget ''depends_on'' spec = JUndef")
    case True
    with d0 v show ?thesis by (simp add: spec_deps_def)
  next
    case False
    with v validate_dependencies_None show ?thesis by simp
  qed
qed

lemma check_job_parts:
  assumes "check_job e s spec = Inr ad"
  obtains spec1 spec2 where "check_basics e s spec = Inr spec1" "check_lease spec1 = Inr (spec2, ad_lease ad)"
    "check_options spec2 = Inr (ad_priority ad, ad_template ad)"
    "check_deps s spec2 = Inr (ad_spec ad, ad_deps ad, ad_state ad)" "check_targets e s (ad_spec ad) = Inr ()"
  using assms by (auto simp: check_job_def and_then_Inr)

lemma check_job_lease:
  "check_job e s spec = Inr ad \<Longrightarrow>
     1 \<le> le_ttl (ad_lease ad) \<and> le_ttl (ad_lease ad) \<le> MAX_LEASE_TTL_S \<and> 1 \<le> le_max (ad_lease ad)"
  by (elim check_job_parts) (rule check_lease_bounds)

lemma check_job_deps:
  "check_job e s spec = Inr ad \<Longrightarrow>
     ad_state ad = dependency_state s (ad_deps ad) \<and> (\<forall>d \<in> set (ad_deps ad). find_job d s \<noteq> None)"
  by (elim check_job_parts) (auto dest: check_deps_known)

lemma dep_state_loop_waiting:
  "dep_state_loop s all_done sk ds = DWaiting \<Longrightarrow> all_done \<Longrightarrow> ds \<noteq> []"
  by (cases ds) (auto split: option.splits)

section \<open>The rows\<close>

lemma job_row_fields [simp]:
  "j_id (job_row e pr ad parent sp) = spec_id sp" "job_deps (job_row e pr ad parent sp) = ad_deps ad"
  "j_spec (job_row e pr ad parent sp) = sp" "j_status (job_row e pr ad parent sp) = state_status (ad_state ad)"
  "j_executor (job_row e pr ad parent sp) = executor_of sp"
  by (simp_all add: job_row_def job_deps_def)

lemma job_row_ok:
  assumes "check_job e s spec = Inr ad"
  shows "job_ok (job_row e pr ad parent sp)"
proof -
  have "ad_deps ad \<noteq> []" if "ad_state ad = DWaiting"
    using that check_job_deps [OF assms] dep_state_loop_waiting by (auto simp: dependency_state_def)
  then show ?thesis
    using check_job_lease [OF assms]
    by (cases "ad_state ad")
       (auto simp: job_ok_def job_row_def state_status_def state_reason_def job_deps_def)
qed

lemma insert_children_good:
  "\<forall>j \<in> set rows. job_ok j \<and> set (job_deps j) \<subseteq> set (job_ids s) \<Longrightarrow> good s (snd (insert_children rows s))"
proof (induction rows arbitrary: s)
  case (Cons j rows)
  show ?case
  proof (cases "find_job (j_id j) s = None")
    case True
    let ?s = "s\<lparr>jobs := jobs s @ [j]\<rparr>"
    have "good s ?s" using Cons.prems True by (intro good_append) auto
    moreover have "good ?s (snd (insert_children rows ?s))"
      by (rule Cons.IH) (use Cons.prems in \<open>auto simp: job_ids_def\<close>)
    ultimately show ?thesis using True by (auto intro: good_trans simp: split_beta)
  next
    case False
    with Cons show ?thesis by simp
  qed
qed (simp add: good_refl)

lemma insert_children_frame:
  "\<exists>rows'. snd (insert_children rows s) = s\<lparr>jobs := jobs s @ rows'\<rparr> \<and> set rows' \<subseteq> set rows \<and>
     fst (insert_children rows s) = map j_id rows' \<and> (\<forall>j \<in> set rows'. find_job (j_id j) s = None)"
proof (induction rows arbitrary: s)
  case (Cons j rows)
  show ?case
  proof (cases "find_job (j_id j) s = None")
    case True
    let ?s = "s\<lparr>jobs := jobs s @ [j]\<rparr>"
    from Cons [of ?s] obtain rows' where r: "snd (insert_children rows ?s) = ?s\<lparr>jobs := jobs ?s @ rows'\<rparr>"
      "set rows' \<subseteq> set rows" "fst (insert_children rows ?s) = map j_id rows'"
      "\<forall>j \<in> set rows'. find_job (j_id j) ?s = None" by blast
    have "find_job (j_id x) s = None" if "x \<in> set rows'" for x
      using r(4) that by (auto simp: find_job_def find_row_None)
    with r True show ?thesis by (intro exI [of _ "j # rows'"]) (auto simp: split_beta)
  next
    case False
    with Cons [of s] show ?thesis by auto
  qed
qed auto

section \<open>Enqueueing\<close>

text \<open>Every accepted enqueue appends rows made from one admitted spec, none on a dry run.\<close>

lemma enqueue_cases:
  assumes "enqueue_job e dry pr spec s = Inr (ea, s')"
  obtains ad rows where "check_job e s spec = Inr ad" "s' = s\<lparr>jobs := jobs s @ rows\<rparr>" "dry \<Longrightarrow> rows = []"
    "\<forall>j \<in> set rows. find_job (j_id j) s = None \<and> (\<exists>parent sp. j = job_row e pr ad parent sp)"
    "good s s'"
proof -
  from assms obtain ad where ad: "check_job e s spec = Inr ad"
    "(if truthy (jget ''fanout'' (ad_spec ad)) then enqueue_fanout e dry pr ad s else enqueue_single e dry pr ad s) = Inr (ea, s')"
    by (auto simp: enqueue_job_def and_then_Inr)
  have deps: "set (ad_deps ad) \<subseteq> set (job_ids s)"
    using check_job_deps [OF ad(1)] by (auto simp: find_job_def job_ids_def find_row_None)
  show thesis
  proof (cases "truthy (jget ''fanout'' (ad_spec ad))")
    case True
    with ad(2) obtain ds where ds: "fanout_devices e s (ad_spec ad) = Inr ds"
      by (auto simp: enqueue_fanout_def and_then_Inr Let_def)
    let ?rows = "map (job_row e pr ad (Some (spec_id (ad_spec ad)))) (map (child_spec (ad_spec ad)) ds)"
    show thesis
    proof (cases dry)
      case True
      with ad(2) ds \<open>truthy _\<close> have "s' = s" by (auto simp: enqueue_fanout_def Let_def)
      then show thesis by (intro that [OF ad(1), of "[]"]) (auto simp: good_refl)
    next
      case False
      with ad(2) ds \<open>truthy _\<close> have s': "s' = snd (insert_children ?rows s)"
        by (auto simp: enqueue_fanout_def Let_def split_beta)
      obtain rows' where r: "snd (insert_children ?rows s) = s\<lparr>jobs := jobs s @ rows'\<rparr>" "set rows' \<subseteq> set ?rows"
        "\<forall>j \<in> set rows'. find_job (j_id j) s = None"
        using insert_children_frame [of ?rows s] by blast
      have "good s s'"
        unfolding s' by (rule insert_children_good) (use job_row_ok [OF ad(1)] deps in auto)
      moreover have "\<forall>j \<in> set ?rows. \<exists>parent sp. j = job_row e pr ad parent sp" by auto
      with r(2) have "\<forall>j \<in> set rows'. \<exists>parent sp. j = job_row e pr ad parent sp" by blast
      ultimately show thesis using that [OF ad(1), of rows'] s' r False by simp
    qed
  next
    case False
    with ad(2) have single: "enqueue_single e dry pr ad s = Inr (ea, s')" by simp
    then have free: "find_job (spec_id (ad_spec ad)) s = None"
      by (auto simp: enqueue_single_def Let_def split: if_splits)
    show thesis
    proof (cases dry)
      case True
      with single free have "s' = s" by (auto simp: enqueue_single_def Let_def)
      then show thesis by (intro that [OF ad(1), of "[]"]) (auto simp: good_refl)
    next
      case False
      let ?row = "job_row e pr ad None (ad_spec ad)"
      from False single free have "s' = s\<lparr>jobs := jobs s @ [?row]\<rparr>" by (simp add: enqueue_single_def Let_def)
      moreover have "good s (s\<lparr>jobs := jobs s @ [?row]\<rparr>)"
        by (rule good_append) (use job_row_ok [OF ad(1)] free deps in auto)
      ultimately show thesis using that [OF ad(1), of "[?row]"] free False by (simp, blast)
    qed
  qed
qed

lemma enqueue_frame:
  assumes "enqueue_job e dry pr spec s = Inr (ea, s')"
  shows "devices s' = devices s" "device_locks s' = device_locks s" "schedules s' = schedules s"
    "results s' = results s" "device_reservations s' = device_reservations s" "artifacts s' = artifacts s"
  using assms by (rule enqueue_cases; simp)+

lemma enqueue_good [good_intros]: "enqueue_job e dry pr spec s = Inr (ea, s') \<Longrightarrow> good s s'"
  by (erule enqueue_cases)

end
