(* ===== verification/Cron.thy ===== *)
theory Cron
  imports Js_Value Match_Laws
begin

text \<open>
  \<open>collector/src/cron.ts\<close>: the five-field cron matcher, the minute-by-minute search for the next and
  the previous run, and the minute key the scheduler deduplicates with. An instant is a number of
  minutes since the epoch; the fields of a local date come from a fixed offset from UTC (a change of
  daylight saving time is not modelled).
\<close>

section \<open>Local dates\<close>

record local_date =
  ld_year :: int
  ld_month :: int
  ld_day :: int
  ld_hour :: int
  ld_minute :: int
  ld_dow :: int

text \<open>The proleptic Gregorian calendar from a day number (day 0 is 1970-01-01, a Thursday).\<close>

definition civil :: "int \<Rightarrow> int \<times> int \<times> int" where
  "civil days =
     (let z = days + 719468; era = z div 146097; doe = z mod 146097;
          yoe = (doe - doe div 1460 + doe div 36524 - doe div 146096) div 365;
          doy = doe - (365 * yoe + yoe div 4 - yoe div 100);
          mp = (5 * doy + 2) div 153;
          d = doy - (153 * mp + 2) div 5 + 1;
          m = (if mp < 10 then mp + 3 else mp - 9);
          y = yoe + era * 400 + (if m \<le> 2 then 1 else 0)
      in (y, m, d))"

definition local_date_of :: "int \<Rightarrow> int \<Rightarrow> local_date" where
  "local_date_of tz minutes =
     (let t = minutes + tz; days = t div 1440; r = t mod 1440; (y, m, d) = civil days
      in \<lparr>ld_year = y, ld_month = m, ld_day = d, ld_hour = r div 60, ld_minute = r mod 60,
          ld_dow = (days + 4) mod 7\<rparr>)"

section \<open>Fields\<close>

definition BOUNDS :: "(int \<times> int) list" where
  "BOUNDS = [(0, 59), (0, 23), (1, 31), (1, 12), (0, 6)]"

text \<open>\<open>Number(s)\<close> where it is an integer.\<close>

definition integer_of :: "string \<Rightarrow> int option" where
  "integer_of s = int_of (JNum (str_number s))"

definition range_of :: "string \<Rightarrow> bool \<Rightarrow> nat \<Rightarrow> (int \<times> int) option" where
  "range_of rp has_step index =
     (if rp = ''*'' then Some (BOUNDS ! index)
      else if CHR ''-'' \<in> set rp then
        (let ps = split_on CHR ''-'' rp in
         case (integer_of (ps ! 0), integer_of (ps ! 1)) of
           (Some a, Some b) \<Rightarrow> Some (a, b)
         | _ \<Rightarrow> None)
      else
        (case integer_of rp of
           None \<Rightarrow> None
         | Some n \<Rightarrow> if has_step then Some (n, snd (BOUNDS ! index)) else Some (n, n)))"

definition part_matches :: "string \<Rightarrow> int \<Rightarrow> nat \<Rightarrow> bool" where
  "part_matches part v index =
     (let ps = split_on CHR ''/'' part; rp = hd ps; has_step = (length ps \<ge> 2);
          step = (if has_step then integer_of (ps ! 1) else Some 1)
      in case step of
           None \<Rightarrow> False
         | Some k \<Rightarrow>
             if k < 1 then False
             else (case range_of rp has_step index of
                     None \<Rightarrow> False
                   | Some (lo, hi) \<Rightarrow> v \<ge> lo \<and> v \<le> hi \<and> (v - lo) mod k = 0))"

definition field_matches :: "string \<Rightarrow> int \<Rightarrow> nat \<Rightarrow> bool" where
  "field_matches field v index = list_ex (\<lambda>part. part_matches part v index) (split_on CHR '','' field)"

text \<open>\<open>split(/\s+/)\<close>\<close>

lemma dropWhile_shorter [termination_simp]: "length (dropWhile P s) < Suc (length s)"
  by (simp add: le_imp_less_Suc length_dropWhile_le)

fun split_ws :: "string \<Rightarrow> string list" where
  "split_ws [] = [[]]"
| "split_ws (c # s) =
     (if is_space c then [] # split_ws (dropWhile is_space s)
      else case split_ws s of [] \<Rightarrow> [[c]] | w # ws \<Rightarrow> (c # w) # ws)"

definition cron_char :: "char \<Rightarrow> bool" where
  "cron_char c \<longleftrightarrow> is_digit c \<or> c \<in> set ''*,-'' \<or> c = CHR ''/''"

text \<open>
  \<open>fieldMatches(...) !== undefined\<close> holds of every boolean, so the test looks at the number of
  fields and their characters only.
\<close>

definition is_valid_cron :: "string \<Rightarrow> bool" where
  "is_valid_cron expr =
     (let fields = split_ws (trim expr)
      in length fields = 5 \<and> list_all (\<lambda>f. f \<noteq> [] \<and> list_all cron_char f) fields)"

definition cron_values :: "local_date \<Rightarrow> int list" where
  "cron_values d = [ld_minute d, ld_hour d, ld_day d, ld_month d, ld_dow d]"

definition cron_matches :: "string \<Rightarrow> local_date \<Rightarrow> bool" where
  "cron_matches expr d =
     (let fields = split_ws (trim expr) in
      if length fields \<noteq> 5 then False
      else list_all (\<lambda>i. field_matches (fields ! i) (cron_values d ! i) i) [0, 1, 2, 3, 4])"

section \<open>Next and previous run\<close>

definition HORIZON_MINUTES :: nat where
  "HORIZON_MINUTES = 7 * 24 * 60"

fun walk_from :: "int \<Rightarrow> string \<Rightarrow> int \<Rightarrow> nat \<Rightarrow> int \<Rightarrow> int option" where
  "walk_from tz expr step 0 m = None"
| "walk_from tz expr step (Suc n) m =
     (let m' = m + step in
      if cron_matches expr (local_date_of tz m') then Some m' else walk_from tz expr step n m')"

definition cron_walk :: "int \<Rightarrow> string \<Rightarrow> int \<Rightarrow> int \<Rightarrow> int option" where
  "cron_walk tz expr start step =
     (if \<not> is_valid_cron expr then None else walk_from tz expr step HORIZON_MINUTES start)"

definition next_run :: "int \<Rightarrow> string \<Rightarrow> int \<Rightarrow> int option" where
  "next_run tz expr start = cron_walk tz expr start 1"

definition prev_run :: "int \<Rightarrow> string \<Rightarrow> int \<Rightarrow> int option" where
  "prev_run tz expr start = cron_walk tz expr start (- 1)"

definition minute_key :: "local_date \<Rightarrow> string" where
  "minute_key d =
     int_str (ld_year d) @ ''-'' @ pad2 (nat (ld_month d)) @ ''-'' @ pad2 (nat (ld_day d)) @ ''T'' @
     pad2 (nat (ld_hour d)) @ '':'' @ pad2 (nat (ld_minute d))"

section \<open>The search\<close>

text \<open>The walk is the first hit among the instants 1 to \<open>n\<close> steps away.\<close>

lemma find_map: "List.find P (map f xs) = map_option f (List.find (P \<circ> f) xs)"
  by (induction xs) auto

lemma walk_from_find:
  "walk_from tz expr step n m =
     map_option (\<lambda>i. m + int i * step)
       (List.find (\<lambda>i. cron_matches expr (local_date_of tz (m + int i * step))) [1..<Suc n])"
proof (induction n arbitrary: m)
  case (Suc n)
  have "[1..<Suc (Suc n)] = 1 # map Suc [1..<Suc n]"
    by (metis One_nat_def map_Suc_upt upt_conv_Cons zero_less_Suc Suc_less_eq)
  then show ?case
    by (simp add: Let_def Suc find_map o_def algebra_simps option.map_comp del: upt_Suc)
qed simp

lemma find_upt_Some:
  "List.find P [1..<Suc n] = Some i \<longleftrightarrow> 1 \<le> i \<and> i \<le> n \<and> P i \<and> (\<forall>k. 1 \<le> k \<and> k < i \<longrightarrow> \<not> P k)"
  (is "?L \<longleftrightarrow> ?R")
proof
  assume ?L
  then obtain j where j: "j < n" "P (Suc j)" "i = Suc j" "\<forall>l < j. \<not> P (Suc l)"
    by (auto simp: find_Some_iff simp del: upt_Suc)
  moreover have "\<not> P k" if "1 \<le> k" "k < i" for k using that j(3,4) by (cases k) auto
  ultimately show ?R by auto
next
  assume ?R
  then show ?L
    by (cases i) (auto simp: find_Some_iff simp del: upt_Suc intro!: exI [of _ "i - 1"])
qed

lemma find_upt_None: "List.find P [1..<Suc n] = None \<longleftrightarrow> (\<forall>i. 1 \<le> i \<and> i \<le> n \<longrightarrow> \<not> P i)"
  by (auto simp: find_None simp del: upt_Suc)

lemma walk_from_Some:
  "walk_from tz expr step n m = Some t \<longleftrightarrow>
     (\<exists>i. 1 \<le> i \<and> i \<le> n \<and> t = m + int i * step \<and> cron_matches expr (local_date_of tz t) \<and>
        (\<forall>k. 1 \<le> k \<and> k < i \<longrightarrow> \<not> cron_matches expr (local_date_of tz (m + int k * step))))"
  unfolding walk_from_find map_option_eq_Some find_upt_Some by auto

lemma walk_from_None:
  "walk_from tz expr step n m = None \<longleftrightarrow>
     (\<forall>i. 1 \<le> i \<and> i \<le> n \<longrightarrow> \<not> cron_matches expr (local_date_of tz (m + int i * step)))"
  unfolding walk_from_find option.map_disc_iff find_upt_None ..

text \<open>The next run is the least matching minute of the horizon, the previous one the greatest.\<close>

lemma next_run_least:
  "next_run tz expr start = Some t \<longleftrightarrow>
     is_valid_cron expr \<and> start < t \<and> t \<le> start + int HORIZON_MINUTES \<and>
     cron_matches expr (local_date_of tz t) \<and>
     (\<forall>u. start < u \<and> u < t \<longrightarrow> \<not> cron_matches expr (local_date_of tz u))" (is "?L \<longleftrightarrow> ?R")
proof
  assume ?L
  then obtain i where valid: "is_valid_cron expr" and i: "1 \<le> i" "i \<le> HORIZON_MINUTES" "t = start + int i"
    "cron_matches expr (local_date_of tz t)"
    "\<forall>k. 1 \<le> k \<and> k < i \<longrightarrow> \<not> cron_matches expr (local_date_of tz (start + int k))"
    by (auto simp: next_run_def cron_walk_def walk_from_Some split: if_splits)
  have "\<not> cron_matches expr (local_date_of tz u)" if "start < u" "u < t" for u
  proof -
    from that i(3) have "1 \<le> nat (u - start) \<and> nat (u - start) < i" by linarith
    with i(5) that show ?thesis by force
  qed
  with valid i show ?R by auto
next
  assume R: ?R
  then have "1 \<le> nat (t - start) \<and> nat (t - start) \<le> HORIZON_MINUTES \<and> t = start + int (nat (t - start))"
    by auto
  with R show ?L
    by (auto simp: next_run_def cron_walk_def walk_from_Some intro!: exI [of _ "nat (t - start)"])
qed

lemma prev_run_greatest:
  "prev_run tz expr start = Some t \<longleftrightarrow>
     is_valid_cron expr \<and> t < start \<and> start - int HORIZON_MINUTES \<le> t \<and>
     cron_matches expr (local_date_of tz t) \<and>
     (\<forall>u. t < u \<and> u < start \<longrightarrow> \<not> cron_matches expr (local_date_of tz u))" (is "?L \<longleftrightarrow> ?R")
proof
  assume ?L
  then obtain i where valid: "is_valid_cron expr" and i: "1 \<le> i" "i \<le> HORIZON_MINUTES" "t = start - int i"
    "cron_matches expr (local_date_of tz t)"
    "\<forall>k. 1 \<le> k \<and> k < i \<longrightarrow> \<not> cron_matches expr (local_date_of tz (start - int k))"
    by (auto simp: prev_run_def cron_walk_def walk_from_Some split: if_splits)
  have "\<not> cron_matches expr (local_date_of tz u)" if "t < u" "u < start" for u
  proof -
    from that i(3) have "1 \<le> nat (start - u) \<and> nat (start - u) < i" by linarith
    with i(5) that show ?thesis by force
  qed
  with valid i show ?R by auto
next
  assume R: ?R
  then have "1 \<le> nat (start - t) \<and> nat (start - t) \<le> HORIZON_MINUTES \<and> t = start - int (nat (start - t))"
    by auto
  with R show ?L
    by (auto simp: prev_run_def cron_walk_def walk_from_Some intro!: exI [of _ "nat (start - t)"])
qed

section \<open>What a field denotes\<close>

datatype cron_part = Star | Every nat | At nat | AtEvery nat nat | Range nat nat | RangeEvery nat nat nat

fun print_part :: "cron_part \<Rightarrow> string" where
  "print_part Star = ''*''"
| "print_part (Every k) = ''*/'' @ nat_str k"
| "print_part (At n) = nat_str n"
| "print_part (AtEvery n k) = nat_str n @ ''/'' @ nat_str k"
| "print_part (Range a b) = nat_str a @ ''-'' @ nat_str b"
| "print_part (RangeEvery a b k) = nat_str a @ ''-'' @ nat_str b @ ''/'' @ nat_str k"

text \<open>The values a part denotes between the bounds of its field.\<close>

fun part_values :: "int \<times> int \<Rightarrow> cron_part \<Rightarrow> int set" where
  "part_values (lo, hi) Star = {lo..hi}"
| "part_values (lo, hi) (Every k) = {v \<in> {lo..hi}. k > 0 \<and> int k dvd v - lo}"
| "part_values (lo, hi) (At n) = {int n}"
| "part_values (lo, hi) (AtEvery n k) = {v \<in> {int n..hi}. k > 0 \<and> int k dvd v - int n}"
| "part_values (lo, hi) (Range a b) = {int a..int b}"
| "part_values (lo, hi) (RangeEvery a b k) = {v \<in> {int a..int b}. k > 0 \<and> int k dvd v - int a}"

lemma integer_of_nat_str [simp]: "integer_of (nat_str n) = Some (int n)"
  by (simp add: integer_of_def int_of_def str_number_digits nat_str_list_all digits_val_nat_str)

lemma nat_str_chars: "\<not> is_digit c \<Longrightarrow> c \<notin> set (nat_str n)"
  using nat_str_digits by blast

lemma cron_punct [simp]:
  "\<not> is_digit CHR ''/''" "\<not> is_digit CHR ''-''" "\<not> is_digit CHR '',''" "\<not> is_digit CHR ''*''"
  by (simp_all add: is_digit_def code_def)

lemma split_on_append_sep: "d \<notin> set s \<Longrightarrow> split_on d (s @ d # t) = s # split_on d t"
  by (induction s) auto

lemma nat_str_not_star [simp]: "nat_str n \<noteq> ''*''" "nat_str n @ xs \<noteq> ''*''"
  using nat_str_chars [of "CHR ''*''" n] nat_str_nonempty [of n] by (cases "nat_str n"; auto)+

lemmas cron_split = split_on_append_sep split_on_no_sep nat_str_chars

lemma range_of_star: "range_of ''*'' b index = Some (BOUNDS ! index)"
  by (simp add: range_of_def)

lemma range_of_num:
  "range_of (nat_str n) b index = Some (int n, if b then snd (BOUNDS ! index) else int n)"
  by (simp add: range_of_def nat_str_chars)

lemma range_of_pair: "range_of (nat_str a @ CHR ''-'' # nat_str m) b index = Some (int a, int m)"
  by (simp add: range_of_def cron_split)

lemma part_matches_plain:
  "CHR ''/'' \<notin> set rp \<Longrightarrow> range_of rp False index = Some (lo, hi) \<Longrightarrow>
     part_matches rp v index \<longleftrightarrow> v \<in> {lo..hi}"
  by (simp add: part_matches_def split_on_no_sep)

lemma part_matches_step:
  "CHR ''/'' \<notin> set rp \<Longrightarrow> range_of rp True index = Some (lo, hi) \<Longrightarrow>
     part_matches (rp @ CHR ''/'' # nat_str k) v index \<longleftrightarrow> v \<in> {lo..hi} \<and> k > 0 \<and> int k dvd v - lo"
  by (auto simp: part_matches_def cron_split mod_eq_0_iff_dvd)

lemma part_matches_print:
  "part_matches (print_part p) v index \<longleftrightarrow> v \<in> part_values (BOUNDS ! index) p"
proof -
  obtain lo hi where b: "BOUNDS ! index = (lo, hi)" by fastforce
  show ?thesis
  proof (cases p)
    case Star
    then show ?thesis using part_matches_plain [of "''*''" index lo hi v] by (simp add: b range_of_star)
  next
    case (Every k)
    then show ?thesis using part_matches_step [of "''*''" index lo hi k v] by (simp add: b range_of_star)
  next
    case (At n)
    then show ?thesis using part_matches_plain [of "nat_str n" index "int n" "int n" v]
      by (auto simp: b range_of_num nat_str_chars)
  next
    case (AtEvery n k)
    then show ?thesis using part_matches_step [of "nat_str n" index "int n" hi k v]
      by (simp add: b range_of_num nat_str_chars)
  next
    case (Range a m)
    then show ?thesis using part_matches_plain [of "nat_str a @ ''-'' @ nat_str m" index "int a" "int m" v]
      by (simp add: b range_of_pair nat_str_chars)
  next
    case (RangeEvery a m k)
    then show ?thesis using part_matches_step [of "nat_str a @ ''-'' @ nat_str m" index "int a" "int m" k v]
      by (simp add: b range_of_pair nat_str_chars)
  qed
qed

lemma print_part_no_comma: "CHR '','' \<notin> set (print_part p)"
  by (cases p) (auto simp: nat_str_chars)

lemma split_join:
  assumes "ps \<noteq> []" "\<forall>p \<in> set ps. d \<notin> set p"
  shows "split_on d (join [d] ps) = ps"
  using assms
proof (induction ps)
  case (Cons p ps)
  show ?case
  proof (cases "ps = []")
    case True
    with Cons show ?thesis by (simp add: split_on_no_sep)
  next
    case False
    with Cons show ?thesis by (simp add: join_Cons split_on_append_sep)
  qed
qed simp

definition print_field :: "cron_part list \<Rightarrow> string" where
  "print_field ps = join '','' (map print_part ps)"

lemma field_matches_print:
  assumes "ps \<noteq> []"
  shows "field_matches (print_field ps) v index \<longleftrightarrow> (\<exists>p \<in> set ps. v \<in> part_values (BOUNDS ! index) p)"
proof -
  have "split_on CHR '','' (print_field ps) = map print_part ps"
    unfolding print_field_def using assms by (intro split_join) (auto simp: print_part_no_comma)
  then show ?thesis
    using assms by (auto simp: field_matches_def list_ex_iff part_matches_print)
qed

text \<open>Five fields between single blanks: the expression is valid and denotes the conjunction.\<close>

definition print_cron :: "cron_part list list \<Rightarrow> string" where
  "print_cron fs = join '' '' (map print_field fs)"

lemma print_part_chars: "c \<in> set (print_part p) \<Longrightarrow> cron_char c"
  using nat_str_digits by (cases p) (auto simp: cron_char_def)

lemma cron_char_comma: "cron_char CHR '',''"
  by (simp add: cron_char_def)

lemma print_field_chars: "c \<in> set (print_field ps) \<Longrightarrow> cron_char c"
proof (induction ps)
  case (Cons p ps)
  then show ?case
    by (cases "ps = []") (auto simp: print_field_def join_Cons print_part_chars cron_char_comma)
qed (simp add: print_field_def)

lemma cron_char_not_space: "cron_char c \<Longrightarrow> \<not> is_space c"
  by (auto simp: cron_char_def is_digit_def is_space_def code_def)

lemma print_part_nonempty [simp]: "print_part p \<noteq> []"
  by (cases p) auto

lemma print_field_nonempty: "ps \<noteq> [] \<Longrightarrow> print_field ps \<noteq> []"
  by (cases ps; cases "tl ps = []") (auto simp: print_field_def join_Cons)

lemma split_ws_word: "\<forall>c \<in> set w. \<not> is_space c \<Longrightarrow> split_ws w = [w]"
  by (induction w) auto

lemma split_ws_append:
  "\<forall>c \<in> set w. \<not> is_space c \<Longrightarrow> split_ws (w @ CHR '' '' # t) = w # split_ws (dropWhile is_space t)"
  by (induction w) (auto simp: is_space_def code_def)

lemma split_ws_join:
  assumes "ws \<noteq> []" "\<forall>w \<in> set ws. w \<noteq> [] \<and> (\<forall>c \<in> set w. \<not> is_space c)"
  shows "split_ws (join '' '' ws) = ws"
  using assms
proof (induction ws)
  case (Cons w ws)
  show ?case
  proof (cases "ws = []")
    case True
    with Cons show ?thesis by (simp add: split_ws_word)
  next
    case False
    then obtain w' ws' where ws: "ws = w' # ws'" by (cases ws) auto
    with Cons.prems obtain c r where w': "w' = c # r" "\<not> is_space c" by (cases w') auto
    have "dropWhile is_space (join '' '' ws) = join '' '' ws"
      using w' ws by (cases ws') auto
    with Cons False show ?thesis by (simp add: join_Cons split_ws_append)
  qed
qed simp

lemma trim_id:
  assumes "s \<noteq> []" "\<not> is_space (hd s)" "\<not> is_space (last s)"
  shows "trim s = s"
proof -
  have "dropWhile is_space s = s" using assms by (cases s) auto
  moreover have "dropWhile is_space (rev s) = rev s" using assms by (cases s rule: rev_cases) auto
  ultimately show ?thesis by (simp add: trim_def)
qed

lemma join_ends:
  assumes "ws \<noteq> []" "\<forall>w \<in> set ws. w \<noteq> []"
  shows "join sep ws \<noteq> [] \<and> hd (join sep ws) = hd (hd ws) \<and> last (join sep ws) = last (last ws)"
  using assms
proof (induction ws)
  case (Cons w ws)
  then show ?case by (cases "ws = []") (auto simp: join_Cons)
qed simp

lemma print_cron_fields:
  assumes "length fs = 5" "\<forall>f \<in> set fs. f \<noteq> []"
  shows "split_ws (trim (print_cron fs)) = map print_field fs"
proof -
  let ?ws = "map print_field fs"
  have ws: "?ws \<noteq> []" "\<forall>w \<in> set ?ws. w \<noteq> [] \<and> (\<forall>c \<in> set w. \<not> is_space c)"
    using assms print_field_nonempty print_field_chars cron_char_not_space by (auto; blast)+
  with join_ends [of ?ws "'' ''"] have ends: "join '' '' ?ws \<noteq> []"
    "hd (join '' '' ?ws) = hd (hd ?ws)" "last (join '' '' ?ws) = last (last ?ws)" by blast+
  have "hd ?ws \<in> set ?ws" "last ?ws \<in> set ?ws" using ws(1) by (simp_all del: set_map)
  with ws(2) have "\<not> is_space (hd (hd ?ws))" "\<not> is_space (last (last ?ws))"
    by (metis hd_in_set last_in_set)+
  with ends have "trim (print_cron fs) = join '' '' ?ws" by (simp add: print_cron_def trim_id)
  with split_ws_join [OF ws] show ?thesis by simp
qed

lemma is_valid_print_cron:
  "length fs = 5 \<Longrightarrow> \<forall>f \<in> set fs. f \<noteq> [] \<Longrightarrow> is_valid_cron (print_cron fs)"
  by (auto simp: is_valid_cron_def print_cron_fields list_all_iff print_field_nonempty print_field_chars)

lemma cron_matches_print:
  assumes "length fs = 5" "\<forall>f \<in> set fs. f \<noteq> []"
  shows "cron_matches (print_cron fs) d \<longleftrightarrow>
    (\<forall>i < 5. \<exists>p \<in> set (fs ! i). cron_values d ! i \<in> part_values (BOUNDS ! i) p)"
proof -
  have all5: "(\<forall>i < 5. Q i) \<longleftrightarrow> (\<forall>i \<in> set [0, 1, 2, 3, 4]. Q i)" for Q :: "nat \<Rightarrow> bool"
    by (auto simp: less_Suc_eq numeral_eq_Suc)
  have "fs ! i \<noteq> []" if "i < 5" for i using assms that by auto
  then show ?thesis
    using assms unfolding cron_matches_def Let_def print_cron_fields [OF assms] all5
    by (simp add: field_matches_print)
qed

end
