(* ===== verification/Scheduler.thy ===== *)
theory Scheduler
  imports Queue Cron
begin

text \<open>
  Schedules and the other ways onto the queue: the \<open>/schedules\<close> routes and \<open>schedulerTick\<close> of
  \<open>collector/src/server.ts\<close> (lines 1019 to 1105), and of \<open>api/mutations.ts\<close> the retry, the priority
  change, the preview of targets and the hand-fired schedule. All of them enqueue with \<open>enqueueJob\<close>.
\<close>

section \<open>The routes\<close>

definition schedule_refusal :: "js \<Rightarrow> refusal option" where
  "schedule_refusal b =
     (let template = jget ''template'' b; cron = jget ''cron'' b in
      if \<not> truthy (jget ''id'' b) \<or> \<not> truthy cron \<or> \<not> truthy template
        then Some (400, ''id, cron, and template required'')
      else if \<not> is_valid_cron (js_string cron) then Some (400, ''invalid cron: '' @ js_string cron)
      else if \<not> is_object template \<or> is_arr template then Some (400, ''template must be a job spec object'')
      else if truthy (jget ''job_id'' template)
        then Some (400, ''template must not carry job_id; the scheduler generates it'')
      else None)"

definition post_schedule :: "js \<Rightarrow> store \<Rightarrow> refusal + store" where
  "post_schedule b s =
     (case schedule_refusal b of
        Some r \<Rightarrow> Inl r
      | None \<Rightarrow>
          let i = js_string (jget ''id'' b); cron = js_string (jget ''cron'' b);
              template = jdel ''job_id'' (jget ''template'' b); enabled = truthy (jget ''enabled'' b)
          in Inr (s\<lparr>schedules := upsert_row s_id i
                      (\<lambda>r. r\<lparr>s_cron := cron, s_template := template, s_enabled := enabled\<rparr>)
                      \<lparr>s_id = i, s_cron = cron, s_template = template, s_enabled = enabled, s_last_run = None\<rparr>
                      (schedules s)\<rparr>))"

definition patch_schedule :: "id \<Rightarrow> js \<Rightarrow> store \<Rightarrow> refusal + store" where
  "patch_schedule i b s =
     (case jget ''enabled'' b of
        JBool on \<Rightarrow>
          if has_row s_id i (schedules s)
          then Inr (s\<lparr>schedules := update_row s_id i (\<lambda>r. r\<lparr>s_enabled := on\<rparr>) (schedules s)\<rparr>)
          else Inl (404, ''not found'')
      | _ \<Rightarrow> Inl (400, ''enabled (boolean) required''))"

definition delete_schedule :: "id \<Rightarrow> store \<Rightarrow> refusal + store" where
  "delete_schedule i s =
     (if has_row s_id i (schedules s) then Inr (s\<lparr>schedules := delete_row s_id i (schedules s)\<rparr>)
      else Inl (404, ''not found''))"

section \<open>The tick\<close>

definition local_now :: "env \<Rightarrow> local_date" where
  "local_now e = local_date_of (e_tz_min e) (e_now e div 60)"

definition tick_key :: "env \<Rightarrow> string" where
  "tick_key e = minute_key (local_now e)"

definition is_due :: "env \<Rightarrow> schedule \<Rightarrow> bool" where
  "is_due e r \<longleftrightarrow> s_enabled r \<and> s_last_run r \<noteq> Some (tick_key e) \<and> cron_matches (s_cron r) (local_now e)"

definition schedule_job_id :: "env \<Rightarrow> id \<Rightarrow> id" where
  "schedule_job_id e i = i @ ''-'' @ filter is_digit (tick_key e)"

definition schedule_provenance :: "id \<Rightarrow> provenance" where
  "schedule_provenance i = \<lparr>pr_requested_by = Some (''schedule:'' @ i), pr_source = Some ''schedule''\<rparr>"

definition stamp_run :: "env \<Rightarrow> id \<Rightarrow> store \<Rightarrow> store" where
  "stamp_run e i s =
     s\<lparr>schedules := update_row s_id i (\<lambda>r. r\<lparr>s_last_run := Some (tick_key e)\<rparr>) (schedules s)\<rparr>"

definition fire :: "env \<Rightarrow> schedule \<Rightarrow> id list \<times> store \<Rightarrow> id list \<times> store" where
  "fire e r st =
     (let s1 = stamp_run e (s_id r) (snd st); job = schedule_job_id e (s_id r) in
      case resolve_latest_build s1 (s_template r) of
        Inl why \<Rightarrow> (fst st, s1)
      | Inr payload \<Rightarrow>
          (case enqueue_job e False (schedule_provenance (s_id r)) (jset ''job_id'' (JStr job) payload) s1 of
             Inl x \<Rightarrow> (fst st, s1)
           | Inr (_, s2) \<Rightarrow> (fst st @ [job], s2)))"

definition scheduler_tick :: "env \<Rightarrow> store \<Rightarrow> id list \<times> store" where
  "scheduler_tick e s = fold (fire e) (filter (is_due e) (schedules s)) ([], s)"

section \<open>Firing by hand\<close>

definition pad4 :: "nat \<Rightarrow> string" where
  "pad4 n = (if n < 10 then ''000'' else if n < 100 then ''00'' else if n < 1000 then ''0'' else []) @ nat_str n"

text \<open>The first fourteen digits of \<open>toISOString()\<close>.\<close>

definition utc_stamp :: "env \<Rightarrow> string" where
  "utc_stamp e =
     (let d = local_date_of 0 (e_now e div 60) in
      pad4 (nat (ld_year d)) @ pad2 (nat (ld_month d)) @ pad2 (nat (ld_day d)) @
      pad2 (nat (ld_hour d)) @ pad2 (nat (ld_minute d)) @ pad2 (nat (e_now e mod 60)))"

text \<open>The error a route that forwards to \<open>POST /jobs\<close> answers with.\<close>

definition enqueue_failed :: "enqueue_refusal \<Rightarrow> refusal" where
  "enqueue_failed r = (er_http r, ''enqueue failed: '' @ stringify (JObj [(''error'', JStr (er_message r))]))"

definition run_schedule :: "env \<Rightarrow> provenance \<Rightarrow> id \<Rightarrow> store \<Rightarrow> refusal + (id \<times> store)" where
  "run_schedule e pr i s =
     (case find_row s_id i (schedules s) of
        None \<Rightarrow> Inl (404, ''not found'')
      | Some r \<Rightarrow>
          let job = i @ ''-manual-'' @ utc_stamp e in
          (case enqueue_job e False pr (jset ''job_id'' (JStr job) (s_template r)) s of
             Inl x \<Rightarrow> Inl (enqueue_failed x)
           | Inr (_, s') \<Rightarrow> Inr (job, s')))"

section \<open>Retry, priority, preview\<close>

text \<open>\<open>replace(/-r(\d+)$/, "")\<close>\<close>

definition strip_retry :: "string \<Rightarrow> string" where
  "strip_retry s =
     (let r = rev s; ds = takeWhile is_digit r; rest = dropWhile is_digit r in
      case rest of
        a # b # cs \<Rightarrow> if ds \<noteq> [] \<and> a = CHR ''r'' \<and> b = CHR ''-'' then rev cs else s
      | _ \<Rightarrow> s)"

definition retry_name :: "string \<Rightarrow> nat \<Rightarrow> id" where
  "retry_name base n = base @ ''-r'' @ nat_str n"

text \<open>
  The loop that walks past taken ids, with fuel: \<open>None\<close> when it runs out. The number of jobs plus one
  is enough, since the names differ.
\<close>

fun next_free :: "nat \<Rightarrow> string \<Rightarrow> nat \<Rightarrow> store \<Rightarrow> nat option" where
  "next_free 0 base n s = None"
| "next_free (Suc k) base n s =
     (if find_job (retry_name base n) s = None then Some n else next_free k base (Suc n) s)"

definition retry_spec :: "js \<Rightarrow> id \<Rightarrow> js \<Rightarrow> string option \<Rightarrow> js" where
  "retry_spec spec job body template =
     (let r1 = jdel ''fanout'' (jset ''job_id'' (JStr job) spec);
          pool = jget ''pool'' body; dev = jget ''device_id'' body;
          t0 = jor (jget ''targets'' spec) (JObj []);
          t1 = (if truthy pool then jset ''pool'' pool t0 else t0);
          t2 = (if truthy dev then jset ''device_id'' dev t1 else t1);
          r2 = (if truthy pool \<or> truthy dev then jset ''targets'' t2 r1 else r1);
          r3 = (if int_of (jget ''priority'' body) \<noteq> None then jset ''priority'' (jget ''priority'' body) r2 else r2)
      in case template of
           None \<Rightarrow> r3
         | Some t \<Rightarrow> if t = [] then r3 else jset ''template_id'' (JStr t) r3)"

definition retry_job :: "env \<Rightarrow> provenance \<Rightarrow> id \<Rightarrow> js \<Rightarrow> store \<Rightarrow> refusal + (id \<times> store)" where
  "retry_job e pr i body s =
     (case find_job i s of
        None \<Rightarrow> Inl (404, ''not found'')
      | Some j \<Rightarrow>
          let base = strip_retry (js_string (jor (jget ''job_id'' (j_spec j)) (JStr i))) in
          (case next_free (Suc (length (jobs s))) base 2 s of
             None \<Rightarrow> Inl (500, [])
           | Some n \<Rightarrow>
               (case enqueue_job e False pr (retry_spec (j_spec j) (retry_name base n) body (j_template_id j)) s of
                  Inl x \<Rightarrow> Inl (enqueue_failed x)
                | Inr (_, s') \<Rightarrow> Inr (retry_name base n, s'))))"

definition patch_priority :: "id \<Rightarrow> js \<Rightarrow> store \<Rightarrow> refusal + store" where
  "patch_priority i body s =
     (case int_of (jget ''priority'' body) of
        None \<Rightarrow> Inl (400, ''priority (integer) required'')
      | Some p \<Rightarrow>
          if find_job i s = None then Inl (404, ''not found'')
          else Inr (update_job i (\<lambda>j. j\<lparr>j_priority := p\<rparr>) s))"

definition preview_targets :: "env \<Rightarrow> js \<Rightarrow> store \<Rightarrow> refusal + candidate list" where
  "preview_targets e body s =
     (let t = jor (jget ''targets'' body) (JObj []); m = jget ''match'' t; dev = jget ''device_id'' t;
          dq = \<lparr>dq_pool = jget ''pool'' t, dq_match = m, dq_workload = jget ''workload'' body,
                dq_backend = jget ''backend'' body,
                dq_job = JObj [(''reservation'', jget ''reservation'' body), (''targets'', t)],
                dq_ignore_reservations = False\<rparr>
      in if truthy m \<and> (case m of JStr x \<Rightarrow> \<not> is_valid_match (e_regex e) x | _ \<Rightarrow> True)
         then Inl (400, ''invalid targets.match expression: '' @ js_string m)
         else Inr (map candidate_of (filter (\<lambda>d. \<not> truthy dev \<or> dev = JStr (d_id d)) (matching_devices e s dq))))"

section \<open>The retry's loop ends\<close>

lemma next_free_None: "next_free k base n s = None \<Longrightarrow> \<forall>m \<in> {n..<n + k}. find_job (retry_name base m) s \<noteq> None"
proof (induction k arbitrary: n)
  case (Suc k)
  then have "find_job (retry_name base n) s \<noteq> None" "\<forall>m \<in> {Suc n..<Suc n + k}. find_job (retry_name base m) s \<noteq> None"
    by (auto split: if_splits)
  moreover have "{n..<n + Suc k} = insert n {Suc n..<Suc n + k}" by auto
  ultimately show ?case by simp
qed simp

lemma retry_name_inject: "retry_name base m = retry_name base n \<longleftrightarrow> m = n"
  by (simp add: retry_name_def)

lemma next_free_found: "\<exists>m. next_free (Suc (length (jobs s))) base n s = Some m"
proof (rule ccontr)
  assume "\<nexists>m. next_free (Suc (length (jobs s))) base n s = Some m"
  then have none: "next_free (Suc (length (jobs s))) base n s = None" by auto
  let ?I = "{n..<n + Suc (length (jobs s))}"
  have "retry_name base ` ?I \<subseteq> set (job_ids s)"
    using next_free_None [OF none] by (auto simp: find_job_def job_ids_def find_row_None)
  then have "card (retry_name base ` ?I) \<le> card (set (job_ids s))" by (intro card_mono) auto
  moreover have "card (retry_name base ` ?I) = card ?I"
    by (rule card_image) (auto simp: inj_on_def retry_name_inject)
  moreover have "card (set (job_ids s)) \<le> length (jobs s)"
    by (metis card_length job_ids_def length_map)
  ultimately show False by simp
qed

lemma next_free_free: "next_free k base n s = Some m \<Longrightarrow> find_job (retry_name base m) s = None \<and> n \<le> m"
  by (induction k arbitrary: n) (auto split: if_splits dest: Suc_leD)

end
