(* ===== verification/Lifecycle.thy ===== *)
theory Lifecycle
  imports Queue_Laws Scheduler
begin

text \<open>
  The collector as a state machine. Every operation of the queue, of the registry and of the scheduler
  takes a good step (it keeps the invariant, removes no job and reopens none); the step relation is
  their union, and the invariant holds in every store the collector reaches.
\<close>

section \<open>The contract of an operation\<close>

locale job_table_op =
  fixes run :: "store \<Rightarrow> store"
  assumes good_run: "good s (run s)"
begin

lemma keeps_inv: "store_inv s \<Longrightarrow> store_inv (run s)"
  using good_run good_inv by blast

lemma keeps_job: "store_inv s \<Longrightarrow> find_job i s \<noteq> None \<Longrightarrow> find_job i (run s) \<noteq> None"
proof -
  assume "store_inv s" "find_job i s \<noteq> None"
  moreover from this(1) obtain rows where "job_keys (run s) = job_keys s @ rows"
    using good_run [of s] by (auto simp: good_def)
  then have "set (job_ids s) \<subseteq> set (job_ids (run s))" by (simp add: job_ids_keys)
  ultimately show ?thesis by (auto simp: find_job_def job_ids_def find_row_None)
qed

lemma keeps_closed: "store_inv s \<Longrightarrow> closed_in i s \<Longrightarrow> closed_in i (run s)"
  using good_run [of s] by (simp add: good_def)

lemma keeps_deps: "store_inv s \<Longrightarrow> find_job i s \<noteq> None \<Longrightarrow> deps_of i (run s) = deps_of i s"
proof -
  assume inv: "store_inv s" and "find_job i s \<noteq> None"
  then obtain j where j: "find_job i s = Some j" by auto
  obtain rows where rows: "job_keys (run s) = job_keys s @ rows"
    using good_run [of s] inv by (auto simp: good_def)
  from j have "(i, job_deps j) \<in> set (job_keys s)"
    by (auto simp: find_job_def job_keys_def dest!: find_row_SomeD)
  with rows have "(i, job_deps j) \<in> set (job_keys (run s))" by simp
  then obtain j' where j': "j' \<in> set (jobs (run s))" "j_id j' = i" "job_deps j' = job_deps j"
    by (auto simp: job_keys_def)
  have "find_job i (run s) = Some j'"
    using keeps_inv [OF inv] j' by (auto simp: store_inv_def find_job_def job_ids_def find_row_in)
  with j j'(3) show ?thesis by (simp add: deps_of_job)
qed

end

text \<open>An operation of the registry is one: it writes neither jobs nor new locks.\<close>

sublocale registry_operation \<subseteq> job_table_op run
proof
  fix s
  from locks_new obtain P where "device_locks (run s) = filter P (device_locks s)" by blast
  with jobs_kept show "good s (run s)" by (rule good_frame)
qed

definition answered :: "store \<Rightarrow> 'e + ('a \<times> store) \<Rightarrow> store" where
  "answered s r = (case r of Inl _ \<Rightarrow> s | Inr (_, s') \<Rightarrow> s')"

lemma answered_simps [simp]: "answered s (Inl r) = s" "answered s (Inr (x, s')) = s'"
  by (simp_all add: answered_def)

lemma answered_good: "(\<And>x s'. r = Inr (x, s') \<Longrightarrow> good s s') \<Longrightarrow> good s (answered s r)"
  by (cases r) (auto simp: good_refl)

section \<open>The queue's operations\<close>

interpretation enqueue_op: job_table_op "\<lambda>s. answered s (enqueue_job e dry pr spec s)" for e dry pr spec
  by unfold_locales (auto intro: answered_good enqueue_good)

lemma job_ok_claim: "job_ok j \<Longrightarrow> j_status j = Queued \<Longrightarrow> job_ok (claim_row e c j)"
  by (auto simp: job_ok_def claim_row_def job_deps_def)

lemma queued_for_mem:
  "j \<in> set (queued_for ex s) \<longleftrightarrow> j \<in> set (jobs s) \<and> j_status j = Queued \<and> j_executor j = ex"
  by (auto simp: queued_for_def queue_order_def)

lemma grant_good:
  assumes "j \<in> set (queued_for ex s)"
  shows "good s (grant e ex c j s)"
proof (cases "store_inv s")
  case True
  then have row: "find_job (j_id j) s = Some j"
    using assms by (auto simp: queued_for_mem store_inv_def find_job_def job_ids_def find_row_in)
  have "good s (update_job (j_id j) (claim_row e c) s)"
  proof (rule good_update)
    fix k assume "find_job (j_id j) s = Some k" "job_ok k"
    with row assms show "job_ok (claim_row e c k) \<and> (terminal (j_status k) \<longrightarrow> terminal (j_status (claim_row e c k)))"
      by (auto simp: queued_for_mem job_ok_claim)
  qed (simp add: claim_row_def job_deps_def)
  then show ?thesis by (auto simp: grant_def Let_def intro: good_trans good_put_lock)
qed (simp add: good_def)

lemma claim_tx_cases:
  obtains "claim_tx e ex c s = (None, s)"
  | j where "claim_tx e ex c s = (Some j, grant e ex c j s)" "j \<in> set (queued_for ex s)"
      "\<not> claimant_blocked e s ex c" "spec_eligible_for e s (claimant_context e s ex c) (j_spec j)"
      "List.find (\<lambda>j. spec_eligible_for e s (claimant_context e s ex c) (j_spec j)) (queued_for ex s) = Some j"
proof (cases "List.find (\<lambda>j. spec_eligible_for e s (claimant_context e s ex c) (j_spec j)) (queued_for ex s)")
  case None
  then have "claim_tx e ex c s = (None, s)" by (simp add: claim_tx_def)
  then show thesis by (rule that(1))
next
  case (Some j)
  note f = find_SomeD [OF Some]
  show thesis
  proof (cases "claimant_blocked e s ex c")
    case True
    then have "claim_tx e ex c s = (None, s)" by (simp add: claim_tx_def)
    then show thesis by (rule that(1))
  next
    case False
    with Some have "claim_tx e ex c s = (Some j, grant e ex c j s)" by (simp add: claim_tx_def)
    with f False Some show thesis by (intro that(2)) auto
  qed
qed

lemma claim_tx_good [good_intros]: "good s (snd (claim_tx e ex c s))"
  by (cases rule: claim_tx_cases [of e ex c s]) (auto simp: good_refl grant_good)

interpretation claim_op: job_table_op "\<lambda>s. snd (claim_tx e ex c s)" for e ex c
  by unfold_locales (rule claim_tx_good)

lemma expired_job_good: "good s (sweep_job e j s)" if "j \<in> set (expired_jobs e s)"
proof (cases "store_inv s")
  case True
  have j: "j \<in> set (jobs s)" "j_status j = Claimed" using that by (auto simp: expired_jobs_def lease_expired_def)
  with True have row: "find_job (j_id j) s = Some j" "job_ok j"
    by (auto simp: store_inv_def find_job_def job_ids_def find_row_in)
  have "good s (update_job (j_id j) (sweep_row e j) s)"
  proof (rule good_update)
    fix k assume "find_job (j_id j) s = Some k" "job_ok k"
    with row j show "job_ok (sweep_row e j k) \<and> (terminal (j_status k) \<longrightarrow> terminal (j_status (sweep_row e j k)))"
      by (auto simp: sweep_row_def job_ok_close) (auto simp: job_ok_def requeue_row_def job_deps_def)
  qed (simp add: sweep_row_def requeue_row_def job_deps_def close_job_row_def)
  then show ?thesis unfolding sweep_job_def by (blast intro: good_trans good_drop_locks)
qed (simp add: good_def)

text \<open>A job that the fold has not reached is as it was read.\<close>

lemma sweep_job_other: "j_id k \<noteq> j_id j \<Longrightarrow> find_job (j_id k) (sweep_job e j s) = find_job (j_id k) s"
  by (simp add: sweep_job_def frame_simps find_job_update sweep_row_def close_job_row_def requeue_row_def)

lemma sweep_fold_good:
  "store_inv s \<Longrightarrow> distinct (map j_id js) \<Longrightarrow> \<forall>j \<in> set js. find_job (j_id j) s = Some j \<and> lease_expired e j \<Longrightarrow>
     good s (fold (sweep_job e) js s)"
proof (induction js arbitrary: s)
  case (Cons j js)
  have "j \<in> set (expired_jobs e s)"
    using Cons.prems(3) by (auto simp: expired_jobs_def find_job_def dest!: find_row_SomeD)
  then have g: "good s (sweep_job e j s)" by (rule expired_job_good)
  moreover have "good (sweep_job e j s) (fold (sweep_job e) js (sweep_job e j s))"
  proof (rule Cons.IH)
    show "store_inv (sweep_job e j s)" using g Cons.prems(1) by (rule good_inv)
    show "\<forall>k \<in> set js. find_job (j_id k) (sweep_job e j s) = Some k \<and> lease_expired e k"
    proof
      fix k assume k: "k \<in> set js"
      then have "j_id k \<in> j_id ` set js" by simp
      with Cons.prems(2) have "j_id k \<noteq> j_id j" by auto
      with k Cons.prems(3) show "find_job (j_id k) (sweep_job e j s) = Some k \<and> lease_expired e k"
        by (simp add: sweep_job_other)
    qed
  qed (use Cons.prems in auto)
  ultimately show ?case by (simp add: good_trans)
qed (simp add: good_refl)

lemma sweep_good [good_intros]: "good s (sweep_leases_tx e s)"
proof (cases "store_inv s")
  case True
  then have d: "distinct (map j_id (jobs s))" by (simp add: store_inv_def job_ids_def)
  show ?thesis
    unfolding sweep_leases_tx_def
  proof (rule sweep_fold_good [OF True])
    show "distinct (map j_id (expired_jobs e s))" using d by (simp add: expired_jobs_def distinct_map_filter)
    show "\<forall>j \<in> set (expired_jobs e s). find_job (j_id j) s = Some j \<and> lease_expired e j"
      using d by (auto simp: expired_jobs_def find_job_def find_row_in)
  qed
qed (simp add: good_def)

interpretation sweep_op: job_table_op "sweep_leases e days" for e days
  by unfold_locales (unfold sweep_leases_def, blast intro: good_trans sweep_good hygiene_op.good_run)

lemma release_good: "release_tx i c s = Inr s' \<Longrightarrow> good s s'"
proof -
  assume r: "release_tx i c s = Inr s'"
  then obtain j where j: "find_job i s = Some j" "j_status j = Claimed"
    "s' = drop_locks i (update_job i (release_row (j_claimed_by j)) s)"
    by (auto simp: release_tx_def release_refusal_def split: option.splits if_splits)
  have "good s (update_job i (release_row (j_claimed_by j)) s)"
  proof (rule good_update)
    fix k assume "find_job i s = Some k" "job_ok k"
    with j show "job_ok (release_row (j_claimed_by j) k) \<and>
        (terminal (j_status k) \<longrightarrow> terminal (j_status (release_row (j_claimed_by j) k)))"
      by (auto simp: job_ok_def release_row_def job_deps_def)
  qed (simp add: release_row_def job_deps_def)
  then show "good s s'" unfolding j(3) by (blast intro: good_trans good_drop_locks)
qed

lemma accepted_good: "(\<And>s'. r = Inr s' \<Longrightarrow> good s s') \<Longrightarrow> good s (accepted s r)"
  by (cases r) (auto simp: good_refl)

interpretation release_op: job_table_op "\<lambda>s. accepted s (release_tx i c s)" for i c
  by unfold_locales (auto intro: accepted_good release_good)

lemma cancel_good: "cancel_tx e i why s = Inr (out, s') \<Longrightarrow> good s s'"
proof -
  assume "cancel_tx e i why s = Inr (out, s')"
  then have s': "s' = fst (settle_waiters e i (drop_locks i (update_job i (close_job_row e Cancelled (Some why)) s)))"
    by (auto simp: cancel_tx_def Let_def split: option.splits if_splits prod.splits)
  have "good s (update_job i (close_job_row e Cancelled (Some why)) s)" by (rule good_close) simp
  then show "good s s'" unfolding s' by (blast intro: good_trans good_drop_locks good_settle)
qed

interpretation cancel_op: job_table_op "\<lambda>s. answered s (cancel_tx e i why s)" for e i why
  by unfold_locales (auto intro: answered_good cancel_good)

lemma finish_good:
  assumes "terminal st"
  shows "good s (update_job i (finish_row e st why) s)"
proof (rule good_update)
  fix j assume "job_ok j"
  with assms show "job_ok (finish_row e st why j) \<and> (terminal (j_status j) \<longrightarrow> terminal (j_status (finish_row e st why j)))"
    by (simp add: finish_row_def job_ok_close)
qed (simp add: finish_row_def)

lemma close_good: "terminal st \<Longrightarrow> good s (fst (close_job_tx e i st why s))"
  unfolding close_job_tx_def by (blast intro: good_trans finish_good good_drop_locks good_settle)

lemma preempt_good: "requeue_preempted_tx i b s = Some (cp, s') \<Longrightarrow> good s s'"
proof -
  assume r: "requeue_preempted_tx i b s = Some (cp, s')"
  then obtain j where j: "find_job i s = Some j" "j_status j = Claimed"
    "s' = drop_locks i (update_job i (preempt_row cp) s)"
    by (auto simp: requeue_preempted_tx_def Let_def split: option.splits if_splits)
  have "good s (update_job i (preempt_row cp) s)"
  proof (rule good_update)
    fix k assume "find_job i s = Some k" "job_ok k"
    with j show "job_ok (preempt_row cp k) \<and> (terminal (j_status k) \<longrightarrow> terminal (j_status (preempt_row cp k)))"
      by (auto simp: job_ok_def preempt_row_def job_deps_def)
  qed (simp add: preempt_row_def job_deps_def)
  then show "good s s'" unfolding j(3) by (blast intro: good_trans good_drop_locks)
qed

lemma closing_terminal: "terminal (closing_to_status c)"
  by (cases c) auto

lemma post_result_good: "good s (snd (post_result e b s))"
proof -
  let ?s1 = "store_result e b s"
  have s1: "good s ?s1"
    by (rule good_same) (simp_all add: store_result_def touch_device_def)
  have closing: "good ?s1 (snd (close_by_rows e b ?s1))"
    using close_good [OF closing_terminal] by (simp add: close_by_rows_def Let_def split_beta)
  have "good ?s1 (snd (post_result e b s))"
    using closing preempt_good [of "body_job b" b ?s1]
    by (auto simp: post_result_def Let_def good_refl split: option.splits)
  with s1 show ?thesis by (rule good_trans)
qed

lemma renew_good: "good s (update_job i (renew_row e) s)"
proof (rule good_update)
  fix k assume "job_ok k"
  then show "job_ok (renew_row e k) \<and> (terminal (j_status k) \<longrightarrow> terminal (j_status (renew_row e k)))"
    by (auto simp: job_ok_def renew_row_def job_deps_def)
qed (simp add: renew_row_def job_deps_def)

lemma post_beacon_store:
  "snd (post_beacon e b s) =
     (if truthy (jget ''job_id'' b) then update_job (body_job b) (renew_row e) (store_beacon e b s)
      else store_beacon e b s)"
  by (simp add: post_beacon_def Let_def split: option.split)

lemma post_beacon_good: "good s (snd (post_beacon e b s))"
proof -
  have "good s (store_beacon e b s)" by (rule good_same) (simp_all add: store_beacon_def)
  then show ?thesis by (auto simp: post_beacon_store intro: good_trans renew_good)
qed

lemma post_results_good: "post_results e b s = Inr (rep, s') \<Longrightarrow> good s s'"
  using post_beacon_good [of s e b] post_result_good [of s e b]
  by (auto simp: post_results_def split: if_splits)

interpretation results_op: job_table_op "\<lambda>s. answered s (post_results e b s)" for e b
  by unfold_locales (auto intro: answered_good post_results_good)

lemma acquire_good: "good s (snd (snd (acquire_locks i devs s)))"
proof (induction devs arbitrary: s)
  case (Cons dev devs)
  have "good s (snd (snd (acquire_locks i devs (put_lock dev i s))))"
    using good_put_lock Cons good_trans by blast
  with Cons show ?case by (auto simp: split_beta)
qed (simp add: good_refl)

interpretation acquire_op: job_table_op "\<lambda>s. snd (snd (acquire_locks i devs s))" for i devs
  by unfold_locales (rule acquire_good)

interpretation unlock_op: job_table_op "\<lambda>s. snd (release_locks i s)" for i
  by unfold_locales (simp add: release_locks_def good_drop_locks)

interpretation unlock_device_op: job_table_op "\<lambda>s. fst (release_device_lock dev s)" for dev
  by unfold_locales (auto simp: release_device_lock_def delete_row_def intro!: good_frame)

lemma priority_good: "patch_priority i b s = Inr s' \<Longrightarrow> good s s'"
proof -
  assume "patch_priority i b s = Inr s'"
  then obtain p where "s' = update_job i (\<lambda>j. j\<lparr>j_priority := p\<rparr>) s"
    by (auto simp: patch_priority_def split: option.splits if_splits)
  then show "good s s'"
    by (auto intro!: good_update simp: job_deps_def job_ok_def)
qed

interpretation priority_op: job_table_op "\<lambda>s. accepted s (patch_priority i b s)" for i b
  by unfold_locales (auto intro: accepted_good priority_good)

lemma fire_good: "good (snd st) (snd (fire e r st))"
proof -
  let ?s1 = "stamp_run e (s_id r) (snd st)"
  have s1: "good (snd st) ?s1" by (rule good_same) (simp_all add: stamp_run_def)
  have "good ?s1 (snd (fire e r st))"
    by (auto simp: fire_def Let_def good_refl split: sum.splits prod.splits intro: enqueue_good)
  with s1 show ?thesis by (rule good_trans)
qed

lemma tick_fold_good: "good (snd st) (snd (fold (fire e) rs st))"
proof (induction rs arbitrary: st)
  case (Cons r rs)
  have "good (snd st) (snd (fire e r st))" by (rule fire_good)
  also have "good (snd (fire e r st)) (snd (fold (fire e) rs (fire e r st)))" by (rule Cons)
  finally show ?case by simp
qed (simp add: good_refl)

interpretation tick_op: job_table_op "\<lambda>s. snd (scheduler_tick e s)" for e
  using tick_fold_good [of "([], s)" for s] by unfold_locales (simp add: scheduler_tick_def)

lemma retry_good: "retry_job e pr i b s = Inr (k, s') \<Longrightarrow> good s s'"
  by (auto simp: retry_job_def Let_def split: option.splits sum.splits intro: enqueue_good)

interpretation retry_op: job_table_op "\<lambda>s. answered s (retry_job e pr i b s)" for e pr i b
  by unfold_locales (auto intro: answered_good retry_good)

lemma run_schedule_good: "run_schedule e pr i s = Inr (k, s') \<Longrightarrow> good s s'"
  by (auto simp: run_schedule_def Let_def split: option.splits sum.splits intro: enqueue_good)

interpretation run_schedule_op: job_table_op "\<lambda>s. answered s (run_schedule e pr i s)" for e pr i
  by unfold_locales (auto intro: answered_good run_schedule_good)

end
