(* ===== verification/Collector.thy ===== *)
theory Collector
  imports Lifecycle
begin

text \<open>
  The collector as a whole: the requests it serves and the timers it runs, one function from a request
  to the store it leaves, the relation of its steps and the stores it reaches; and the exclusion
  property of device claims.
\<close>

section \<open>The registry's other operations\<close>

lemma registry_update:
  assumes f: "\<And>d. d_id (f d) = d_id d" and run: "\<And>s. run s = s \<or> run s = s\<lparr>devices := update_row d_id dev f (devices s)\<rparr>"
  shows "registry_operation run"
proof
  fix s x i
  show "jobs (run s) = jobs s" using run [of s] by auto
  have locks: "device_locks (run s) = device_locks s" using run [of s] by auto
  then show "\<exists>P. device_locks (run s) = filter P (device_locks s)"
    by (intro exI [of _ "\<lambda>_. True"]) simp
  show "lock_of x s = Some i \<Longrightarrow> lock_of x (run s) = Some i" by (simp add: lock_of_def locks)
  assume found: "find_device x s \<noteq> None"
  have "row_update d_id f" using f by unfold_locales
  then have "find_row d_id x (update_row d_id dev f (devices s)) \<noteq> None"
    using found by (auto simp: find_device_def row_update.find_update)
  with run [of s] found show "find_device x (run s) \<noteq> None" by (auto simp: find_device_def)
qed

interpretation edit_op: registry_operation "\<lambda>s. accepted s (edit_device dev b s)" for dev b
  by (rule registry_update [of "edit_row b" _ dev]) (auto simp: edit_row_def edit_device_def Let_def)

interpretation touch_op: registry_operation "touch_device e dev" for e dev
  by (rule registry_update [of "\<lambda>d. d\<lparr>d_last_seen := e_now e\<rparr>" _ dev]) (auto simp: touch_device_def)

interpretation reserve_op: registry_operation "\<lambda>s. accepted s (reserve_device actor dev b s)" for actor dev b
proof
  fix s x i
  have s': "\<exists>vs. accepted s (reserve_device actor dev b s) = s\<lparr>device_reservations := vs\<rparr>"
    by (auto simp: reserve_device_def Let_def split: option.splits intro: exI [of _ "device_reservations s"])
  then show "jobs (accepted s (reserve_device actor dev b s)) = jobs s" by auto
  from s' show "\<exists>P. device_locks (accepted s (reserve_device actor dev b s)) = filter P (device_locks s)"
    by (intro exI [of _ "\<lambda>_. True"]) auto
  from s' show "lock_of x s = Some i \<Longrightarrow> lock_of x (accepted s (reserve_device actor dev b s)) = Some i"
    by (auto simp: lock_of_def)
  from s' show "find_device x s \<noteq> None \<Longrightarrow> find_device x (accepted s (reserve_device actor dev b s)) \<noteq> None"
    by (auto simp: find_device_def)
qed

interpretation unreserve_op: registry_operation "\<lambda>s. fst (unreserve_device dev s)" for dev
  by unfold_locales
     (simp_all add: unreserve_device_def lock_of_def find_device_def exI [of _ "\<lambda>_. True"])

section \<open>Requests\<close>

text \<open>
  A poll is its heartbeat followed by up to \<open>LONG_POLL_S\<close> claim transactions with other requests
  between them, so it appears as those pieces. The two operations that take a lock away from a claim
  that still runs are apart: \<open>Unlock\<close> (\<open>POST /locks/release\<close>) and \<open>Unlock_Device\<close>
  (\<open>POST /api/devices/:id/release-lock\<close>).
\<close>

datatype request =
    Enqueue bool provenance js
  | Retry provenance id js
  | Run_Schedule provenance id
  | Priority id js
  | Cancel id string
  | Poll_Device id
  | Poll_Executor string
  | Claim_Job executor_kind string
  | Post_Results js
  | Release_Claim id "string option"
  | Sweep rat
  | Tick
  | Acquire id "id list"
  | Unlock id
  | Unlock_Device id
  | Register_Device "string list" "tailnet_peer option" string js
  | Edit_Device id js
  | Forget_Device id
  | Reserve "string option" id js
  | Unreserve id
  | Post_Schedule js
  | Patch_Schedule id js
  | Delete_Schedule id
  | Post_Event string js

fun serve :: "env \<Rightarrow> request \<Rightarrow> store \<Rightarrow> store" where
  "serve e (Enqueue dry pr spec) s = answered s (enqueue_job e dry pr spec s)"
| "serve e (Retry pr i b) s = answered s (retry_job e pr i b s)"
| "serve e (Run_Schedule pr i) s = answered s (run_schedule e pr i s)"
| "serve e (Priority i b) s = accepted s (patch_priority i b s)"
| "serve e (Cancel i why) s = answered s (cancel_tx e i why s)"
| "serve e (Poll_Device dev) s = touch_device e dev s"
| "serve e (Poll_Executor name) s = touch_executor e name s"
| "serve e (Claim_Job ex c) s = snd (claim_tx e ex c s)"
| "serve e (Post_Results b) s = answered s (post_results e b s)"
| "serve e (Release_Claim i c) s = accepted s (release_tx i c s)"
| "serve e (Sweep days) s = sweep_leases e days s"
| "serve e Tick s = snd (scheduler_tick e s)"
| "serve e (Acquire i devs) s = snd (snd (acquire_locks i devs s))"
| "serve e (Unlock i) s = snd (release_locks i s)"
| "serve e (Unlock_Device dev) s = fst (release_device_lock dev s)"
| "serve e (Register_Device allowlist peer ip b) s = registered e allowlist peer ip b s"
| "serve e (Edit_Device dev b) s = accepted s (edit_device dev b s)"
| "serve e (Forget_Device dev) s = accepted s (forget_device dev s)"
| "serve e (Reserve actor dev b) s = accepted s (reserve_device actor dev b s)"
| "serve e (Unreserve dev) s = fst (unreserve_device dev s)"
| "serve e (Post_Schedule b) s = accepted s (post_schedule b s)"
| "serve e (Patch_Schedule i b) s = accepted s (patch_schedule i b s)"
| "serve e (Delete_Schedule i) s = accepted s (delete_schedule i s)"
| "serve e (Post_Event topic b) s = snd (post_event e topic b s)"

definition serve_all :: "(env \<times> request) list \<Rightarrow> store \<Rightarrow> store" where
  "serve_all rs s = fold (\<lambda>(e, r). serve e r) rs s"

inductive fleet_step :: "store \<Rightarrow> store \<Rightarrow> bool" where
  "fleet_step s (serve e r s)"

inductive_cases fleet_stepE: "fleet_step s s'"
inductive_simps fleet_step_iff: "fleet_step s s'"

inductive reachable :: "store \<Rightarrow> bool" where
  start: "reachable empty_store"
| step: "reachable s \<Longrightarrow> fleet_step s s' \<Longrightarrow> reachable s'"

lemma schedules_good:
  "post_schedule b s = Inr s' \<Longrightarrow> good s s'" "patch_schedule i b s = Inr s' \<Longrightarrow> good s s'"
  "delete_schedule i s = Inr s' \<Longrightarrow> good s s'"
  by (auto simp: post_schedule_def patch_schedule_def delete_schedule_def Let_def
      split: option.splits js.splits if_splits intro!: good_same)

lemmas op_good = enqueue_op.good_run retry_op.good_run run_schedule_op.good_run priority_op.good_run
  cancel_op.good_run claim_op.good_run results_op.good_run release_op.good_run sweep_op.good_run
  tick_op.good_run acquire_op.good_run unlock_op.good_run unlock_device_op.good_run
  register_op.good_run edit_op.good_run forget_op.good_run reserve_op.good_run unreserve_op.good_run
  touch_op.good_run

lemma serve_good: "good s (serve e r s)"
  by (cases r)
     (auto simp: op_good touch_executor_def post_event_def Let_def intro: accepted_good schedules_good good_same)

interpretation serve_op: job_table_op "serve e r" for e r
  by unfold_locales (rule serve_good)

lemma reachable_inv: "reachable s \<Longrightarrow> store_inv s"
  by (induction rule: reachable.induct) (auto simp: store_inv_empty elim!: fleet_stepE intro: serve_op.keeps_inv)

lemma reachable_serve: "reachable s \<Longrightarrow> reachable (serve e r s)"
  by (rule reachable.step) (auto intro: fleet_step.intros)

lemma reachable_serve_all: "reachable s \<Longrightarrow> reachable (serve_all rs s)"
  by (induction rs arbitrary: s) (auto simp: serve_all_def reachable_serve split: prod.splits)

section \<open>One claim to a device\<close>

text \<open>The device claims: job and claimant.\<close>

definition claims :: "store \<Rightarrow> (id \<times> string) set" where
  "claims s = {(i, c). \<exists>j \<in> set (jobs s). j_id j = i \<and> j_status j = Claimed \<and> j_executor j = Device \<and> j_claimed_by j = Some c}"

definition exclusive :: "store \<Rightarrow> bool" where
  "exclusive s \<longleftrightarrow> (\<forall>(i, c) \<in> claims s. lock_of c s = Some i)"

definition takes_lock :: "request \<Rightarrow> bool" where
  "takes_lock r = (case r of Unlock _ \<Rightarrow> True | Unlock_Device _ \<Rightarrow> True | _ \<Rightarrow> False)"

lemma exclusive_single: "exclusive s \<Longrightarrow> (i, c) \<in> claims s \<Longrightarrow> (k, c) \<in> claims s \<Longrightarrow> i = k"
  by (metis (mono_tags, lifting) case_prodD exclusive_def option.inject)

text \<open>What a step may do: keep claims with their locks, drop claims, or claim an unlocked device.\<close>

definition guarded :: "store \<Rightarrow> store \<Rightarrow> bool" where
  "guarded s s' \<longleftrightarrow> (\<forall>(i, c) \<in> claims s'. (i, c) \<in> claims s \<and> (lock_of c s = Some i \<longrightarrow> lock_of c s' = Some i) \<or>
      lock_of c s' = Some i)"

lemma guarded_exclusive: "guarded s s' \<Longrightarrow> exclusive s \<Longrightarrow> exclusive s'"
  by (fastforce simp: guarded_def exclusive_def)

lemma guarded_refl: "guarded s s"
  by (auto simp: guarded_def)

lemma guarded_trans [trans]: "guarded s s1 \<Longrightarrow> guarded s1 s2 \<Longrightarrow> guarded s s2"
  by (fastforce simp: guarded_def)

lemma guardedI:
  "claims s' \<subseteq> claims s \<Longrightarrow> (\<And>i c. (i, c) \<in> claims s' \<Longrightarrow> lock_of c s = Some i \<Longrightarrow> lock_of c s' = Some i) \<Longrightarrow> guarded s s'"
  by (auto simp: guarded_def)

lemma guarded_same: "jobs s' = jobs s \<Longrightarrow> (\<And>i c. lock_of c s = Some i \<Longrightarrow> lock_of c s' = Some i) \<Longrightarrow> guarded s s'"
  by (rule guardedI) (auto simp: claims_def)

lemma guarded_frame: "jobs s' = jobs s \<Longrightarrow> device_locks s' = device_locks s \<Longrightarrow> guarded s s'"
  by (rule guarded_same) (auto simp: lock_of_def)

lemma claims_update:
  assumes "\<And>j. j_status (f j) \<noteq> Claimed" "\<And>j. j_id (f j) = j_id j"
  shows "claims (update_job i f s) \<subseteq> claims s - {i} \<times> UNIV"
proof
  fix x assume "x \<in> claims (update_job i f s)"
  then obtain j c where j: "x = (j_id j, c)" "j \<in> set (jobs (update_job i f s))" "j_status j = Claimed"
    "j_executor j = Device" "j_claimed_by j = Some c" by (auto simp: claims_def)
  from j(2) obtain k where k: "k \<in> set (jobs s)" "j = (if j_id k = i then f k else k)"
    by (auto simp: jobs_update_job update_row_def)
  with j(3) assms(1) have "j_id k \<noteq> i" by auto
  with j k show "x \<in> claims s - {i} \<times> UNIV" by (auto simp: claims_def)
qed

lemma claims_update_same:
  assumes "\<And>j. j_id (f j) = j_id j \<and> j_status (f j) = j_status j \<and> j_executor (f j) = j_executor j \<and> j_claimed_by (f j) = j_claimed_by j"
  shows "claims (update_job i f s) \<subseteq> claims s"
proof
  fix x assume "x \<in> claims (update_job i f s)"
  then obtain j c where j: "x = (j_id j, c)" "j \<in> set (jobs (update_job i f s))" "j_status j = Claimed"
    "j_executor j = Device" "j_claimed_by j = Some c" by (auto simp: claims_def)
  from j(2) obtain k where k: "k \<in> set (jobs s)" "j = (if j_id k = i then f k else k)"
    by (auto simp: jobs_update_job update_row_def)
  with j assms [of k] have "j_id j = j_id k \<and> j_status k = Claimed \<and> j_executor k = Device \<and> j_claimed_by k = Some c"
    by (auto split: if_splits)
  with j(1) k(1) show "x \<in> claims s" by (auto simp: claims_def)
qed

lemma lock_of_drop_keep: "lock_of c s = Some k \<Longrightarrow> k \<noteq> i \<Longrightarrow> lock_of c (drop_locks i s) = Some k"
proof -
  have "find_row l_device_id c ls = Some l \<Longrightarrow> l_job_id l \<noteq> i \<Longrightarrow>
      find_row l_device_id c (filter (\<lambda>l. l_job_id l \<noteq> i) ls) = Some l" for ls l
    by (induction ls) (auto simp: find_row_def split: if_splits)
  then show "lock_of c s = Some k \<Longrightarrow> k \<noteq> i \<Longrightarrow> ?thesis" by (auto simp: lock_of_def drop_locks_def)
qed

text \<open>A job stops being claimed, and its locks go.\<close>

lemma guarded_unclaim:
  assumes "\<And>j. j_status (f j) \<noteq> Claimed" "\<And>j. j_id (f j) = j_id j"
  shows "guarded s (drop_locks i (update_job i f s))"
proof (rule guardedI)
  have c: "claims (drop_locks i (update_job i f s)) \<subseteq> claims s - {i} \<times> UNIV"
    using claims_update [OF assms] by (simp add: claims_def frame_simps)
  then show "claims (drop_locks i (update_job i f s)) \<subseteq> claims s" by blast
  fix k c assume "(k, c) \<in> claims (drop_locks i (update_job i f s))" "lock_of c s = Some k"
  with c show "lock_of c (drop_locks i (update_job i f s)) = Some k"
    by (intro lock_of_drop_keep) (auto simp: lock_of_update_job)
qed

lemma guarded_settle: "guarded s (fst (settle_waiters e i s))"
proof -
  let ?P = "\<lambda>s'. claims s' \<subseteq> claims s \<and> (\<forall>c. lock_of c s' = lock_of c s)"
  have upd: "?P (update_job k f s')" if "?P s'" "\<And>j. j_status (f j) \<noteq> Claimed \<and> j_id (f j) = j_id j" for k f s'
    using claims_update [of f k s'] that by (auto simp: lock_of_update_job)
  have "?P (fst (settle_waiters e i s))"
    using settle_waiters_run [of s e i]
  proof (rule settle_preserves [where P = ?P])
    show "?P (update_job k (close_job_row e c why) s')" if "c = Failed \<or> c = Skipped" "?P s'" for k c why s'
      using that by (intro upd) auto
    show "?P (update_job k (promote_row spec) s')" if "?P s'" for k spec s'
      using that by (intro upd) auto
  qed simp
  then show ?thesis by (intro guardedI) auto
qed

lemma guarded_registry: "registry_operation run \<Longrightarrow> guarded s (run s)"
  by (rule guarded_same) (auto simp: registry_operation_def)

lemma guarded_fold: "(\<And>x s. guarded s (f x s)) \<Longrightarrow> guarded s (fold f xs s)"
proof (induction xs arbitrary: s)
  case (Cons x xs)
  have "guarded s (f x s)" by (rule Cons.prems)
  also have "guarded (f x s) (fold f xs (f x s))" by (rule Cons.IH) (rule Cons.prems)
  finally show ?case by simp
qed (simp add: guarded_refl)

lemma guarded_enqueue: "enqueue_job e dry pr spec s = Inr (ea, s') \<Longrightarrow> guarded s s'"
proof (erule enqueue_cases)
  fix ad rows
  assume s': "s' = s\<lparr>jobs := jobs s @ rows\<rparr>"
    and rows: "\<forall>j \<in> set rows. find_job (j_id j) s = None \<and> (\<exists>parent sp. j = job_row e pr ad parent sp)"
  have "j_status j \<noteq> Claimed" if "j \<in> set rows" for j
    using rows that by (cases "ad_state ad") (auto simp: state_status_def)
  then have "claims s' \<subseteq> claims s" by (auto simp: claims_def s')
  then show "guarded s s'" by (rule guardedI) (simp add: s' lock_of_def)
qed

lemma guarded_claim: "store_inv s \<Longrightarrow> guarded s (snd (claim_tx e ex c s))"
proof (cases rule: claim_tx_cases [of e ex c s])
  case 1
  then show ?thesis by (simp add: guarded_refl)
next
  case (2 j)
  assume inv: "store_inv s"
  let ?s1 = "update_job (j_id j) (claim_row e c) s"
  have j: "j \<in> set (jobs s)" "j_executor j = ex" using 2(2) by (auto simp: queued_for_mem)
  have uniq: "k = j" if "k \<in> set (jobs s)" "j_id k = j_id j" for k
    using inv j(1) that by (auto simp: store_inv_def job_ids_def distinct_map inj_on_def)
  have c1: "claims ?s1 \<subseteq> claims s \<union> (if ex = Device then {(j_id j, c)} else {})"
  proof
    fix x assume "x \<in> claims ?s1"
    then obtain k d where k: "x = (j_id k, d)" "k \<in> set (jobs ?s1)" "j_status k = Claimed"
      "j_executor k = Device" "j_claimed_by k = Some d" by (auto simp: claims_def)
    from k(2) obtain k0 where k0: "k0 \<in> set (jobs s)" "k = (if j_id k0 = j_id j then claim_row e c k0 else k0)"
      by (auto simp: jobs_update_job update_row_def)
    show "x \<in> claims s \<union> (if ex = Device then {(j_id j, c)} else {})"
    proof (cases "j_id k0 = j_id j")
      case True
      with uniq k0 j(2) k show ?thesis by (auto simp: claim_row_def)
    next
      case False
      with k k0 show ?thesis by (auto simp: claims_def)
    qed
  qed
  show ?thesis
  proof (cases ex)
    case Device
    with 2(3) have free: "lock_of c s = None" by (simp add: claimant_blocked_def Let_def)
    have "claims (put_lock c (j_id j) ?s1) \<subseteq> claims s \<union> {(j_id j, c)}"
      using c1 Device by (simp add: claims_def frame_simps)
    moreover have "snd (claim_tx e ex c s) = put_lock c (j_id j) ?s1"
      using 2(1) Device by (simp add: grant_def Let_def)
    ultimately show ?thesis using free
      by (auto simp: guarded_def lock_of_put_lock lock_of_update_job)
  next
    case Host
    with c1 have "claims ?s1 \<subseteq> claims s" by simp
    moreover have "snd (claim_tx e ex c s) = ?s1"
      using 2(1) Host by (simp add: grant_def Let_def)
    ultimately show ?thesis by (auto intro!: guardedI simp: lock_of_update_job)
  qed
qed

lemma guarded_results: "post_results e b s = Inr (rep, s') \<Longrightarrow> guarded s s'"
proof -
  have beacon: "guarded s (snd (post_beacon e b s))"
  proof -
    have "guarded s (store_beacon e b s)" by (rule guarded_frame) (simp_all add: store_beacon_def)
    also have "guarded (store_beacon e b s) (update_job i (renew_row e) (store_beacon e b s))" for i
      by (rule guardedI) (auto simp: lock_of_update_job renew_row_def dest!: subsetD [OF claims_update_same, rotated])
    finally show ?thesis
      using \<open>guarded s (store_beacon e b s)\<close> by (simp add: post_beacon_store)
  qed
  have s1: "guarded s (store_result e b s)"
    by (rule guarded_frame) (simp_all add: store_result_def touch_device_def)
  have closing: "guarded s1 (snd (close_by_rows e b s1))" for s1
  proof -
    have "terminal (closing_to_status c)" for c by (rule closing_terminal)
    then have "closing_to_status c \<noteq> Claimed" for c by (metis terminal_cases(7))
    then have "guarded s1 (drop_locks i (update_job i (finish_row e (closing_to_status c) why) s1))" for i c why
      by (intro guarded_unclaim) (simp_all add: finish_row_def)
    from guarded_trans [OF this guarded_settle] show ?thesis
      by (simp add: close_by_rows_def close_job_tx_def Let_def split_beta)
  qed
  have aside: "guarded s1 s2" if "requeue_preempted_tx i b s1 = Some (cp, s2)" for s1 s2 i cp
    using that by (auto simp: requeue_preempted_tx_def Let_def preempt_row_def split: option.splits if_splits
        intro!: guarded_unclaim)
  have "guarded s (snd (post_result e b s))"
    using guarded_trans [OF s1 closing] guarded_trans [OF s1 aside] s1
    by (auto simp: post_result_def Let_def split: option.splits)
  with beacon show "post_results e b s = Inr (rep, s') \<Longrightarrow> guarded s s'"
    by (auto simp: post_results_def split: if_splits)
qed

lemma guarded_acquire: "guarded s (snd (snd (acquire_locks i devs s)))"
proof (induction devs arbitrary: s)
  case (Cons dev devs)
  have "guarded s (put_lock dev i s)" if "lock_of dev s = None \<or> lock_of dev s = Some i"
    using that by (intro guarded_same) (auto simp: frame_simps lock_of_put_lock)
  with Cons show ?case by (auto simp: split_beta intro: guarded_trans)
qed (simp add: guarded_refl)

lemma guarded_tick: "guarded s (snd (scheduler_tick e s))"
proof -
  have fire: "guarded (snd st) (snd (fire e r st))" for r st
  proof -
    have "guarded (snd st) (stamp_run e (s_id r) (snd st))"
      by (rule guarded_frame) (simp_all add: stamp_run_def)
    then show ?thesis
      by (auto simp: fire_def Let_def split: sum.splits prod.splits intro: guarded_enqueue guarded_trans)
  qed
  have "guarded (snd st) (snd (fold (fire e) rs st))" for rs st
  proof (induction rs arbitrary: st)
    case (Cons r rs)
    have "guarded (snd st) (snd (fire e r st))" by (rule fire)
    also have "guarded (snd (fire e r st)) (snd (fold (fire e) rs (fire e r st)))" by (rule Cons)
    finally show ?case by simp
  qed (simp add: guarded_refl)
  from this [of "([], s)"] show ?thesis by (simp add: scheduler_tick_def)
qed

lemma guarded_sweep: "guarded s (sweep_leases e days s)"
proof -
  have "guarded s (sweep_leases_tx e s)" for s
    unfolding sweep_leases_tx_def sweep_job_def
    by (intro guarded_fold guarded_unclaim) (auto simp: sweep_row_def requeue_row_def close_job_row_def)
  also have "guarded s1 (fst (forget_stale_simulators e days s1))" for s1
    by (rule guarded_registry) (rule hygiene_op.registry_operation_axioms)
  finally show ?thesis by (simp add: sweep_leases_def)
qed

lemma guarded_cancel: "cancel_tx e i why s = Inr (out, s') \<Longrightarrow> guarded s s'"
proof -
  assume "cancel_tx e i why s = Inr (out, s')"
  then have s': "s' = fst (settle_waiters e i (drop_locks i (update_job i (close_job_row e Cancelled (Some why)) s)))"
    by (auto simp: cancel_tx_def Let_def split: option.splits if_splits prod.splits)
  have "guarded s (drop_locks i (update_job i (close_job_row e Cancelled (Some why)) s))"
    by (rule guarded_unclaim) (simp_all add: close_job_row_def)
  also have "guarded (drop_locks i (update_job i (close_job_row e Cancelled (Some why)) s)) s'"
    unfolding s' by (rule guarded_settle)
  finally show ?thesis .
qed

lemma guarded_release: "release_tx i c s = Inr s' \<Longrightarrow> guarded s s'"
  by (auto simp: release_tx_def release_row_def split: option.splits intro!: guarded_unclaim)

lemma guarded_priority: "patch_priority i b s = Inr s' \<Longrightarrow> guarded s s'"
  by (auto simp: patch_priority_def lock_of_update_job split: option.splits if_splits
      intro!: guardedI dest!: subsetD [OF claims_update_same, rotated])

lemma guarded_answered: "(\<And>x s'. r = Inr (x, s') \<Longrightarrow> guarded s s') \<Longrightarrow> guarded s (answered s r)"
  by (cases r) (auto simp: guarded_refl)

lemma guarded_accepted: "(\<And>s'. r = Inr s' \<Longrightarrow> guarded s s') \<Longrightarrow> guarded s (accepted s r)"
  by (cases r) (auto simp: guarded_refl)

lemma guarded_retry: "retry_job e pr i b s = Inr (k, s') \<Longrightarrow> guarded s s'"
  by (auto simp: retry_job_def Let_def split: option.splits sum.splits intro: guarded_enqueue)

lemma guarded_run_schedule: "run_schedule e pr i s = Inr (k, s') \<Longrightarrow> guarded s s'"
  by (auto simp: run_schedule_def Let_def split: option.splits sum.splits intro: guarded_enqueue)

lemma guarded_schedules:
  "post_schedule b s = Inr s' \<Longrightarrow> guarded s s'" "patch_schedule i b s = Inr s' \<Longrightarrow> guarded s s'"
  "delete_schedule i s = Inr s' \<Longrightarrow> guarded s s'"
  by (auto simp: post_schedule_def patch_schedule_def delete_schedule_def Let_def
      split: option.splits js.splits if_splits intro!: guarded_frame)

lemmas guarded_registry_ops =
  guarded_registry [OF register_op.registry_operation_axioms]
  guarded_registry [OF edit_op.registry_operation_axioms]
  guarded_registry [OF forget_op.registry_operation_axioms]
  guarded_registry [OF reserve_op.registry_operation_axioms]
  guarded_registry [OF unreserve_op.registry_operation_axioms]
  guarded_registry [OF touch_op.registry_operation_axioms]

lemma serve_guarded: "store_inv s \<Longrightarrow> \<not> takes_lock r \<Longrightarrow> guarded s (serve e r s)"
proof (cases r)
  case (Poll_Executor name)
  then show ?thesis by (auto simp: touch_executor_def intro: guarded_frame)
next
  case (Post_Event topic b)
  then show ?thesis by (auto simp: post_event_def Let_def intro: guarded_frame)
qed (auto simp: takes_lock_def guarded_registry_ops guarded_claim guarded_sweep guarded_tick guarded_acquire
       intro: guarded_answered guarded_accepted guarded_enqueue guarded_retry guarded_run_schedule
         guarded_priority guarded_cancel guarded_results guarded_release guarded_schedules)

lemma serve_all_exclusive:
  "store_inv s \<Longrightarrow> exclusive s \<Longrightarrow> \<forall>(e, r) \<in> set rs. \<not> takes_lock r \<Longrightarrow> exclusive (serve_all rs s)"
proof (induction rs arbitrary: s)
  case (Cons er rs)
  obtain e r where er: "er = (e, r)" by fastforce
  have "exclusive (serve e r s)"
    using guarded_exclusive [OF serve_guarded Cons.prems(2)] Cons.prems(1,3) er by simp
  with Cons er show ?case by (auto simp: serve_all_def intro: serve_op.keeps_inv)
qed (simp add: serve_all_def)

lemma exclusive_empty: "exclusive empty_store"
  by (simp add: exclusive_def claims_def empty_store_def)

end
