(* ===== verification/Claim_Laws.thy ===== *)
theory Claim_Laws
  imports Collector
begin

text \<open>
  What a claim, a preemption, a sweep and a release guarantee. The choice of the queue and the choice
  of the newest build share one contract, the locale \<open>best_choice\<close>.
\<close>

section \<open>Choosing the best\<close>

locale best_choice =
  fixes pick :: "'a list \<Rightarrow> 'a option" and ok :: "'a \<Rightarrow> bool" and rank :: "'a \<Rightarrow> 'k::linorder"
  assumes pick_None: "pick xs = None \<longleftrightarrow> (\<forall>x \<in> set xs. \<not> ok x)"
    and pick_Some: "pick xs = Some x \<Longrightarrow> x \<in> set xs \<and> ok x \<and> (\<forall>y \<in> set xs. ok y \<longrightarrow> rank x \<le> rank y)"
begin

lemma chosen: "y \<in> set xs \<Longrightarrow> ok y \<Longrightarrow> \<exists>x. pick xs = Some x \<and> x \<in> set xs \<and> ok x \<and> rank x \<le> rank y"
  using pick_None [of xs] pick_Some by (cases "pick xs") fastforce+

lemma chosen_more:
  assumes "pick xs = Some x" "pick ys = Some y" "set xs \<subseteq> set ys"
  shows "rank y \<le> rank x"
  using pick_Some [OF assms(1)] pick_Some [OF assms(2)] assms(3) by blast

end

lemma find_sorted:
  fixes rank :: "'a \<Rightarrow> 'k::linorder"
  assumes "sorted (map rank xs)" "List.find ok xs = Some x" "y \<in> set xs" "ok y"
  shows "rank x \<le> rank y"
  using assms by (induction xs) (auto split: if_splits)

lemma find_sort_key_choice: "best_choice (\<lambda>xs. List.find ok (sort_key rank xs)) ok rank"
proof
  fix xs x
  show "List.find ok (sort_key rank xs) = None \<longleftrightarrow> (\<forall>x \<in> set xs. \<not> ok x)" by (simp add: find_None)
  assume f: "List.find ok (sort_key rank xs) = Some x"
  have "rank x \<le> rank y" if "y \<in> set xs" "ok y" for y
    by (rule find_sorted [OF _ f]) (use that in auto)
  with find_SomeD [OF f] show "x \<in> set xs \<and> ok x \<and> (\<forall>y \<in> set xs. ok y \<longrightarrow> rank x \<le> rank y)" by auto
qed

definition claim_rank :: "job \<Rightarrow> int \<times> int" where
  "claim_rank j = (- j_priority j, j_created_at j)"

interpretation queue_choice: best_choice "\<lambda>js. List.find (\<lambda>j. spec_eligible_for e s cx (j_spec j)) (queue_order js)"
  "\<lambda>j. spec_eligible_for e s cx (j_spec j)" claim_rank for e s cx
  using find_sort_key_choice [of "\<lambda>j. spec_eligible_for e s cx (j_spec j)" claim_rank]
  by (simp add: queue_order_def claim_rank_def [abs_def])

lemma newest_fold:
  assumes "foldl (\<lambda>best r. case best of None \<Rightarrow> Some r
             | Some b \<Rightarrow> if publish_rank (fst r) (snd r) > publish_rank (fst b) (snd b) then Some r else best) (Some b0) rows = Some b"
  shows "b \<in> insert b0 (set rows) \<and> (\<forall>r \<in> insert b0 (set rows). publish_rank (fst r) (snd r) \<le> publish_rank (fst b) (snd b))"
  using assms by (induction rows arbitrary: b0) (auto split: if_splits, fastforce+)

definition build_choice :: "(nat \<times> artifact) list \<Rightarrow> (nat \<times> artifact) option" where
  "build_choice rows =
     foldl (\<lambda>best r. case best of None \<Rightarrow> Some r
             | Some b \<Rightarrow> if publish_rank (fst r) (snd r) > publish_rank (fst b) (snd b) then Some r else best) None rows"

lemma newest_choice: "newest rows = map_option snd (build_choice rows)"
  by (simp add: newest_def build_choice_def)

lemma foldl_best_some:
  "\<exists>b. foldl (\<lambda>best r. case best of None \<Rightarrow> Some r
             | Some b \<Rightarrow> if publish_rank (fst r) (snd r) > publish_rank (fst b) (snd b) then Some r else best) (Some b0) rows = Some b"
  by (induction rows arbitrary: b0) auto

interpretation latest_choice: best_choice "\<lambda>rows. build_choice (filter p rows)" p "\<lambda>r. - publish_rank (fst r) (snd r)" for p
proof
  fix rows x
  show "build_choice (filter p rows) = None \<longleftrightarrow> (\<forall>x \<in> set rows. \<not> p x)"
  proof (cases "filter p rows")
    case Nil
    then show ?thesis by (auto simp: build_choice_def filter_empty_conv)
  next
    case (Cons r rs)
    then have "r \<in> set (filter p rows)" by simp
    moreover have "build_choice (filter p rows) \<noteq> None"
      using foldl_best_some [of r rs] Cons by (auto simp: build_choice_def)
    ultimately show ?thesis by auto
  qed
  assume c: "build_choice (filter p rows) = Some x"
  then obtain r rs where rs: "filter p rows = r # rs" by (cases "filter p rows") (auto simp: build_choice_def)
  have "x \<in> insert r (set rs) \<and> (\<forall>y \<in> insert r (set rs). publish_rank (fst y) (snd y) \<le> publish_rank (fst x) (snd x))"
    by (rule newest_fold) (use c rs in \<open>simp add: build_choice_def\<close>)
  moreover have "insert r (set rs) = {y \<in> set rows. p y}" using rs by (metis list.simps(15) set_filter)
  ultimately show "x \<in> set rows \<and> p x \<and> (\<forall>y \<in> set rows. p y \<longrightarrow> - publish_rank (fst x) (snd x) \<le> - publish_rank (fst y) (snd y))"
    by auto
qed

section \<open>Claims\<close>

definition queued_jobs :: "executor_kind \<Rightarrow> store \<Rightarrow> job list" where
  "queued_jobs ex s = filter (\<lambda>j. j_status j = Queued \<and> j_executor j = ex) (jobs s)"

definition eligible :: "env \<Rightarrow> store \<Rightarrow> executor_kind \<Rightarrow> string \<Rightarrow> job \<Rightarrow> bool" where
  "eligible e s ex c j \<longleftrightarrow> spec_eligible_for e s (claimant_context e s ex c) (j_spec j)"

lemma mem_queued_jobs: "j \<in> set (queued_jobs ex s) \<longleftrightarrow> j \<in> set (jobs s) \<and> j_status j = Queued \<and> j_executor j = ex"
  by (auto simp: queued_jobs_def)

lemma claim_tx_choice:
  "\<not> claimant_blocked e s ex c \<Longrightarrow>
     fst (claim_tx e ex c s) = List.find (\<lambda>j. spec_eligible_for e s (claimant_context e s ex c) (j_spec j)) (queue_order (queued_jobs ex s))"
  by (simp add: claim_tx_def queued_for_def queued_jobs_def split: option.split)

lemma claim_best:
  assumes "fst (claim_tx e ex c s) = Some j"
  shows "j \<in> set (queued_jobs ex s) \<and> eligible e s ex c j \<and>
    (\<forall>k \<in> set (queued_jobs ex s). eligible e s ex c k \<longrightarrow> claim_rank j \<le> claim_rank k)"
proof -
  have "\<not> claimant_blocked e s ex c" using assms by (auto simp: claim_tx_def)
  with assms claim_tx_choice have "List.find (\<lambda>j. spec_eligible_for e s (claimant_context e s ex c) (j_spec j)) (queue_order (queued_jobs ex s)) = Some j"
    by simp
  from queue_choice.pick_Some [OF this] show ?thesis by (simp add: eligible_def)
qed

lemma claim_none:
  "fst (claim_tx e ex c s) = None \<longleftrightarrow>
     claimant_blocked e s ex c \<or> (\<forall>k \<in> set (queued_jobs ex s). \<not> eligible e s ex c k)"
proof (cases "claimant_blocked e s ex c")
  case False
  then show ?thesis
    using queue_choice.pick_None [of e s "claimant_context e s ex c" "queued_jobs ex s"]
    by (simp add: claim_tx_choice eligible_def)
qed (simp add: claim_tx_def)

lemma claim_rank_priority: "claim_rank j \<le> claim_rank k \<Longrightarrow> j_priority k \<le> j_priority j"
  by (auto simp: claim_rank_def less_eq_prod_def)

text \<open>Eligibility of a device reads the store only through the claimant's context.\<close>

lemma spec_eligible_device: "cx_executor cx = Device \<Longrightarrow> spec_eligible_for e s cx spec = spec_eligible_for e s' cx spec"
  by (simp add: spec_eligible_for_def Let_def)

lemma claimant_context_cong:
  "devices s' = devices s \<Longrightarrow> device_reservations s' = device_reservations s \<Longrightarrow>
     claimant_context e s' ex c = claimant_context e s ex c"
proof -
  assume a: "devices s' = devices s" "device_reservations s' = device_reservations s"
  have "find_device c s' = find_device c s" "reservation_of c s' = reservation_of c s"
    by (simp_all add: find_device_def reservation_of_def a)
  then show ?thesis by (simp only: claimant_context_def)
qed

lemma context_executor [simp]: "cx_executor (claimant_context e s ex c) = ex"
  by (simp add: claimant_context_def Let_def split: option.split)

lemma eligible_cong:
  assumes "devices s' = devices s" "device_reservations s' = device_reservations s"
  shows "eligible e s' Device c j = eligible e s Device c j"
  unfolding eligible_def claimant_context_cong [OF assms]
  by (rule spec_eligible_device) simp

text \<open>What eligibility of a device job implies.\<close>

lemma eligible_device:
  assumes "eligible e s Device c j"
  defines "cx \<equiv> claimant_context e s Device c"
  shows "truthy (jget ''device_id'' (jget ''targets'' (j_spec j))) \<longrightarrow> jget ''device_id'' (jget ''targets'' (j_spec j)) = JStr c"
    "reservation_allows (e_regex e) (j_spec j) c (cx_reserved_for cx) (cx_descriptor cx)"
    "capability_matches (cx_capabilities cx) (jget ''workload'' (j_spec j)) (jget ''backend'' (j_spec j))"
    "constraints_satisfied e (jget ''constraints'' (j_spec j)) (cx_beacon cx) (cx_beacon_age cx)"
  using assms(1) unfolding cx_def eligible_def spec_eligible_for_def Let_def context_executor
  by (auto simp: claimant_context_def Let_def split: if_splits option.splits)

section \<open>Preemption\<close>

lemma mem_queued_for: "j \<in> set (queued_for ex s) \<longleftrightarrow> j \<in> set (queued_jobs ex s)"
  by (simp add: queued_for_mem mem_queued_jobs)

lemma preemption_pending_iff:
  "j_claimed_by j = Some c \<Longrightarrow> c \<noteq> [] \<Longrightarrow>
     preemption_pending e s j \<longleftrightarrow> jget ''preemptible'' (j_spec j) = JBool True \<and>
       (\<exists>k \<in> set (queued_jobs (j_executor j) s). j_priority k > j_priority j \<and> eligible e s (j_executor j) c k)"
  by (auto simp: preemption_pending_def list_ex_iff mem_queued_for eligible_def)

text \<open>
  A job that stands aside is replaced: when the same device asks next, it is given a job of higher
  priority than the one it gave back.
\<close>

lemma preempted_is_replaced:
  assumes inv: "store_inv s" and j: "find_job i s = Some j" "j_status j = Claimed" "j_executor j = Device"
    "j_claimed_by j = Some c" "c \<noteq> []"
    and pending: "preemption_pending e s j" and aside: "requeue_preempted_tx i b s = Some (cp, s')"
    and free: "\<not> claimant_blocked e s' Device c"
  shows "\<exists>k. fst (claim_tx e Device c s') = Some k \<and> j_priority k > j_priority j \<and> k \<in> set (jobs s)"
proof -
  let ?f = "preempt_row (first_artifact_sha b)"
  have s': "s' = drop_locks i (update_job i ?f s)"
    using aside j by (auto simp: requeue_preempted_tx_def Let_def)
  then have same: "devices s' = devices s" "device_reservations s' = device_reservations s"
    by (simp_all add: frame_simps)
  have jobs': "jobs s' = update_row j_id i ?f (jobs s)" by (simp add: s' frame_simps row_simps)
  have row: "k = j" if "k \<in> set (jobs s)" "j_id k = i" for k
    using inv_find [OF inv that(1)] j(1) that(2) by simp
  from pending j obtain k where k: "k \<in> set (queued_jobs Device s)" "j_priority k > j_priority j" "eligible e s Device c k"
    by (auto simp: preemption_pending_iff)
  then have "j_id k \<noteq> i" using row j(2) by (auto simp: mem_queued_jobs)
  with k(1) have "k \<in> set (queued_jobs Device s')"
    by (auto simp: mem_queued_jobs jobs' update_row_def intro: image_eqI [of _ _ k])
  moreover have "eligible e s' Device c k" using k(3) eligible_cong [OF same] by simp
  ultimately have "fst (claim_tx e Device c s') \<noteq> None" using claim_none free by blast
  then obtain m where m: "fst (claim_tx e Device c s') = Some m" by auto
  note best = claim_best [OF m]
  with \<open>k \<in> set (queued_jobs Device s')\<close> \<open>eligible e s' Device c k\<close> have "claim_rank m \<le> claim_rank k" by blast
  then have prio: "j_priority m > j_priority j" using claim_rank_priority k(2) by fastforce
  have "m \<in> set (jobs s')" using best by (simp add: mem_queued_jobs)
  then obtain m0 where m0: "m0 \<in> set (jobs s)" "m = (if j_id m0 = i then ?f m0 else m0)"
    by (auto simp: jobs' update_row_def)
  have "j_id m0 \<noteq> i"
  proof
    assume "j_id m0 = i"
    with m0 row have "m = ?f j" by auto
    with prio show False by (simp add: preempt_row_def)
  qed
  with m m0 prio show ?thesis by auto
qed

section \<open>The sweep\<close>

definition gave_lock :: "env \<Rightarrow> store \<Rightarrow> lock \<Rightarrow> bool" where
  "gave_lock e s l \<longleftrightarrow> l_job_id l \<in> j_id ` set (expired_jobs e s)"

text \<open>Every expired claim is rewritten, every other row and every other lock stays.\<close>

lemma fold_sweep_map:
  "distinct (map j_id js) \<Longrightarrow>
     jobs (fold (sweep_job e) js s) = map (\<lambda>k. case List.find (\<lambda>j. j_id j = j_id k) js of None \<Rightarrow> k | Some j \<Rightarrow> sweep_row e j k) (jobs s) \<and>
     device_locks (fold (sweep_job e) js s) = filter (\<lambda>l. l_job_id l \<notin> j_id ` set js) (device_locks s)"
proof (induction js arbitrary: s)
  case (Cons j js)
  let ?s1 = "sweep_job e j s"
  have id: "j_id (sweep_row e j k) = j_id k" for k
    by (simp add: sweep_row_def requeue_row_def close_job_row_def)
  have "j_id x \<noteq> j_id j" if "x \<in> set js" for x
    using Cons.prems imageI [OF that, of j_id] by auto
  then have none: "List.find (\<lambda>x. j_id x = j_id j) js = None" by (simp add: find_None)
  have "jobs (fold (sweep_job e) js ?s1) =
      map (\<lambda>k. case List.find (\<lambda>x. j_id x = j_id k) js of None \<Rightarrow> k | Some x \<Rightarrow> sweep_row e x k) (jobs ?s1)"
    using Cons by simp
  also have "jobs ?s1 = map (\<lambda>k. if j_id k = j_id j then sweep_row e j k else k) (jobs s)"
    by (simp add: sweep_job_def frame_simps row_simps update_row_def)
  finally have "jobs (fold (sweep_job e) (j # js) s) =
      map (\<lambda>k. case List.find (\<lambda>x. j_id x = j_id k) (j # js) of None \<Rightarrow> k | Some x \<Rightarrow> sweep_row e x k) (jobs s)"
    using id none by (auto simp: o_def)
  moreover have "device_locks (fold (sweep_job e) js ?s1) = filter (\<lambda>l. l_job_id l \<notin> j_id ` set js) (device_locks ?s1)"
    using Cons by simp
  then have "device_locks (fold (sweep_job e) (j # js) s) = filter (\<lambda>l. l_job_id l \<notin> j_id ` set (j # js)) (device_locks s)"
    by (simp add: sweep_job_def drop_locks_def update_job_def conj_commute)
  ultimately show ?case by blast
qed simp

lemma sweep_map:
  assumes "distinct (job_ids s)"
  shows "jobs (sweep_leases_tx e s) = map (\<lambda>j. if lease_expired e j then sweep_row e j j else j) (jobs s)"
    and "device_locks (sweep_leases_tx e s) = filter (\<lambda>l. \<not> gave_lock e s l) (device_locks s)"
proof -
  have d: "distinct (map j_id (expired_jobs e s))"
    using assms by (simp add: expired_jobs_def job_ids_def distinct_map_filter)
  note m = fold_sweep_map [OF d, of e s]
  have "(case List.find (\<lambda>j. j_id j = j_id k) (expired_jobs e s) of None \<Rightarrow> k | Some j \<Rightarrow> sweep_row e j k) =
      (if lease_expired e k then sweep_row e k k else k)" if k: "k \<in> set (jobs s)" for k
  proof (cases "List.find (\<lambda>j. j_id j = j_id k) (expired_jobs e s)")
    case None
    then have "\<not> lease_expired e k" using k by (auto simp: find_None expired_jobs_def)
    with None show ?thesis by simp
  next
    case (Some j)
    from find_SomeD [OF Some] have "j \<in> set (jobs s)" "j_id j = j_id k" "lease_expired e j"
      by (auto simp: expired_jobs_def)
    with assms k have "j = k" by (auto simp: job_ids_def distinct_map inj_on_def)
    with Some \<open>lease_expired e j\<close> show ?thesis by simp
  qed
  with m show "jobs (sweep_leases_tx e s) = map (\<lambda>j. if lease_expired e j then sweep_row e j j else j) (jobs s)"
    by (simp add: sweep_leases_tx_def)
  show "device_locks (sweep_leases_tx e s) = filter (\<lambda>l. \<not> gave_lock e s l) (device_locks s)"
    using m by (simp add: sweep_leases_tx_def gave_lock_def)
qed

lemma sweep_row_not_expired: "\<not> lease_expired e (sweep_row e j k)"
  by (simp add: lease_expired_def sweep_row_def requeue_row_def close_job_row_def)

lemma sweep_none_expired: "distinct (job_ids s) \<Longrightarrow> expired_jobs e (sweep_leases_tx e s) = []"
  by (auto simp: expired_jobs_def sweep_map filter_empty_conv sweep_row_not_expired)

lemma sweep_idempotent: "distinct (job_ids s) \<Longrightarrow> sweep_leases_tx e (sweep_leases_tx e s) = sweep_leases_tx e s"
  by (subst sweep_leases_tx_def) (simp add: sweep_none_expired)

section \<open>Claim and release\<close>

lemma inv_lock_drop:
  "store_inv s \<Longrightarrow> lock_of dev (drop_locks i s) = (if lock_of dev s = Some i then None else lock_of dev s)"
  by (rule lock_of_drop_locks) (simp add: store_inv_def)

text \<open>Handed back before any row was posted, a claim leaves its job as it was, but for the note.\<close>

lemma claim_release_back:
  assumes inv: "store_inv s" and cl: "claim_tx e ex c s = (Some j, s1)" and no_rows: "\<not> has_results (j_id j) s"
  shows "\<exists>s2 note. release_tx (j_id j) (Some c) s1 = Inr s2 \<and>
    find_job (j_id j) s2 = Some (j\<lparr>j_claimed_at := None, j_last_error := Some note\<rparr>) \<and>
    (\<forall>k. k \<noteq> j_id j \<longrightarrow> find_job k s2 = find_job k s) \<and>
    (ex = Device \<longrightarrow> lock_of c s2 = None) \<and>
    (\<forall>dev i. i \<noteq> j_id j \<longrightarrow> lock_of dev s = Some i \<longrightarrow> lock_of dev s2 = Some i)"
proof -
  have j: "j \<in> set (jobs s)" "j_status j = Queued" "j_executor j = ex" and s1: "s1 = grant e ex c j s"
    and nb: "\<not> claimant_blocked e s ex c"
    by (cases rule: claim_tx_cases [of e ex c s]; use cl in \<open>auto simp: queued_for_mem\<close>)+
  have row: "find_job (j_id j) s = Some j" and ok: "job_ok j"
    using inv j(1) by (auto simp: inv_find store_inv_def)
  have inv1: "store_inv s1" using claim_op.keeps_inv [OF inv, of e ex c] cl by simp
  let ?u = "update_job (j_id j) (claim_row e c) s"
  have find1: "find_job k s1 = (if k = j_id j then Some (claim_row e c j) else find_job k s)" for k
    using row by (simp add: s1 grant_def Let_def find_job_update claim_row_def frame_simps)
  have res1: "results s1 = results s" by (simp add: s1 grant_def Let_def frame_simps)
  let ?note = "''released by '' @ c @ '' before starting''"
  let ?s2 = "drop_locks (j_id j) (update_job (j_id j) (release_row (Some c)) s1)"
  have rel: "release_tx (j_id j) (Some c) s1 = Inr ?s2"
    using find1 no_rows res1 by (simp add: release_tx_def release_refusal_def claim_row_def has_results_def)
  have undone: "release_row (Some c) (claim_row e c j) = j\<lparr>j_claimed_at := None, j_last_error := Some ?note\<rparr>"
    using ok j(2) by (simp add: release_row_def claim_row_def job_ok_def)
  have find2: "find_job k ?s2 = (if k = j_id j then Some (j\<lparr>j_claimed_at := None, j_last_error := Some ?note\<rparr>) else find_job k s)" for k
    using find1 undone by (simp add: frame_simps find_job_update release_row_def)
  have lock2: "lock_of dev ?s2 = (if lock_of dev s1 = Some (j_id j) then None else lock_of dev s1)" for dev
    using inv1 by (subst lock_of_drop_locks) (simp_all add: store_inv_def frame_simps)
  have lock1: "lock_of dev s1 = (if ex = Device \<and> dev = c then Some (j_id j) else lock_of dev s)" for dev
    by (auto simp: s1 grant_def Let_def lock_of_put_lock lock_of_update_job)
  have free: "ex = Device \<Longrightarrow> lock_of c s = None" using nb by (simp add: claimant_blocked_def Let_def)
  show ?thesis
    using rel find2 free by (intro exI [of _ ?s2] exI [of _ ?note] conjI) (auto simp: lock2 lock1)
qed

end
