(* ===== verification/Examples.thy ===== *)
theory Examples
  imports Claim_Laws
begin

text \<open>
  Concrete inputs: an environment, a device, specs, jobs in the states of their life, and a run of the
  collector from an empty database. The witnesses of the properties evaluate them.
\<close>

definition demo_env :: "int \<Rightarrow> env" where
  "demo_env t = \<lparr>e_now = t, e_tz_min = 0, e_collector = ''home'', e_regex = (\<lambda>_ _. Some False)\<rparr>"

definition demo_provenance :: provenance where
  "demo_provenance = \<lparr>pr_requested_by = None, pr_source = None\<rparr>"

definition demo_device :: "id \<Rightarrow> int \<Rightarrow> js \<Rightarrow> device" where
  "demo_device i seen descriptor =
     \<lparr>d_id = i, d_descriptor = descriptor, d_pools = [''shelf''], d_pools_override = None,
      d_capabilities = Some [''batch''], d_last_seen = seen, d_last_beacon = None, d_last_net = None,
      d_ttl_s = None, d_name = None, d_notes = None\<rparr>"

definition demo_spec :: "string \<Rightarrow> (string \<times> js) list \<Rightarrow> js" where
  "demo_spec i fs =
     JObj ([(''schema'', JInt 1), (''job_id'', JStr i), (''workload'', JStr ''batch''),
            (''executor'', JStr ''device'')] @ fs)"

text \<open>A queued job, one claimed by \<open>d1\<close> until second 100, and one that waits.\<close>

definition queued_job :: "id \<Rightarrow> int \<Rightarrow> int \<Rightarrow> job" where
  "queued_job i priority created =
     (fresh_job i Device (demo_spec i []))\<lparr>j_priority := priority, j_created_at := created\<rparr>"

definition claimed_job :: "id \<Rightarrow> int \<Rightarrow> job" where
  "claimed_job i attempts =
     (fresh_job i Device (demo_spec i [(''preemptible'', JBool True)]))
       \<lparr>j_status := Claimed, j_attempts := attempts, j_claimed_by := Some ''d1'', j_lease_deadline := Some 100\<rparr>"

definition waiting_job :: "id \<Rightarrow> id list \<Rightarrow> job" where
  "waiting_job i deps = (fresh_job i Device (demo_spec i []))\<lparr>j_status := Waiting, j_depends_on := Some deps\<rparr>"

definition demo_store :: "job list \<Rightarrow> store" where
  "demo_store js = empty_store\<lparr>devices := [demo_device ''d1'' 0 (JObj [(''os'', JStr ''android'')])], jobs := js\<rparr>"

definition locked :: "id \<Rightarrow> store \<Rightarrow> store" where
  "locked i s = s\<lparr>device_locks := [\<lparr>l_device_id = ''d1'', l_job_id = i\<rparr>]\<rparr>"

definition demo_final :: "string \<Rightarrow> (string \<times> js) list \<Rightarrow> js" where
  "demo_final i fs =
     JObj ([(''schema'', JInt 1), (''kind'', JStr ''result''), (''job_id'', JStr i), (''device_id'', JStr ''d1''),
            (''iter'', JInt 0), (''final'', JBool True)] @ fs)"

lemmas demo_defs = demo_store_def locked_def queued_job_def claimed_job_def waiting_job_def fresh_job_def
  demo_device_def demo_spec_def demo_env_def empty_store_def

text \<open>A run from the empty database: a device registers, two jobs come in, the device takes one.\<close>

definition demo_run :: "(env \<times> request) list" where
  "demo_run =
     [(demo_env 0, Register_Device [] None ''10.0.0.1''
         (JObj [(''device_id'', JStr ''d1''), (''descriptor'', JObj [(''os'', JStr ''android'')])])),
      (demo_env 1, Enqueue False demo_provenance (demo_spec ''a'' [])),
      (demo_env 2, Enqueue False demo_provenance (demo_spec ''b'' [(''depends_on'', JArr [JStr ''a''])])),
      (demo_env 3, Claim_Job Device ''d1'')]"

lemma demo_run_status: "map j_status (jobs (serve_all demo_run empty_store)) = [Claimed, Waiting]"
  by code_simp

lemma demo_run_quiet: "\<forall>(e, r) \<in> set demo_run. \<not> takes_lock r"
  by (simp add: demo_run_def takes_lock_def)

end
