(* ===== verification/Queue_Properties.thy ===== *)
theory Queue_Properties
  imports Examples
begin

text \<open>
  The properties of the queue as a whole: what holds in every store the collector reaches, what a
  claim, a preemption, a sweep and a release do, and how closing a job moves the jobs that wait on it.
\<close>

section \<open>Every reachable store\<close>

text \<open>C1: in every store the collector reaches, job ids are distinct, a job has a lease deadline
  exactly when it is claimed and a finish time exactly when it is closed, no job was given more
  attempts than it may have and a job that can still be claimed has one left, and the dependencies
  form no cycle.\<close>

theorem reachable_store_sound:
  "reachable s \<Longrightarrow>
     distinct (job_ids s) \<and>
     (\<forall>j \<in> set (jobs s).
        (j_status j = Claimed \<longleftrightarrow> j_lease_deadline j \<noteq> None) \<and>
        (terminal (j_status j) \<longleftrightarrow> j_finished_at j \<noteq> None) \<and>
        j_attempts j \<le> j_max_attempts j \<and>
        (open_for_claim (j_status j) \<longrightarrow> j_attempts j < j_max_attempts j)) \<and>
     acyclic (dep_rel s)"
  using reachable_inv [of s] store_inv_acyclic [of s] by (simp add: store_inv_def job_ok_def)

lemma demo_run_reachable: "reachable (serve_all demo_run empty_store)"
  by (rule reachable_serve_all) (rule reachable.start)

theorem reachable_store_sound_witness:
  "acyclic (dep_rel (serve_all demo_run empty_store)) \<and>
   map j_status (jobs (serve_all demo_run empty_store)) = [Claimed, Waiting]"
  using reachable_store_sound [OF demo_run_reachable] demo_run_status by blast




text \<open>C3: no request reopens a closed job, deletes a job or changes what a job depends on.\<close>

theorem closed_jobs_stay_closed:
  "reachable s \<Longrightarrow> find_job i s \<noteq> None \<Longrightarrow>
     find_job i (serve e r s) \<noteq> None \<and> deps_of i (serve e r s) = deps_of i s \<and>
     (closed_in i s \<longrightarrow> closed_in i (serve e r s))"
  using serve_op.keeps_job serve_op.keeps_deps serve_op.keeps_closed reachable_inv by blast

theorem closed_jobs_stay_closed_witness:
  "deps_of ''b'' (serve (demo_env 4) (Cancel ''a'' ''why'') (serve_all demo_run empty_store)) =
     deps_of ''b'' (serve_all demo_run empty_store)"
proof -
  have "find_job ''b'' (serve_all demo_run empty_store) \<noteq> None" by code_simp
  with closed_jobs_stay_closed [OF demo_run_reachable] show ?thesis by blast
qed

section \<open>Claims\<close>

text \<open>C4: a claim gives the claimant a queued job it is eligible for such that no other such job has a
  higher priority, or the same priority and an earlier creation; it gives nothing exactly when the
  claimant is blocked (its device is locked, or at work for another collector) or eligible for nothing.\<close>

theorem claim_picks_first:
  "case fst (claim_tx e ex c s) of
     None \<Rightarrow> claimant_blocked e s ex c \<or> (\<forall>k \<in> set (queued_jobs ex s). \<not> eligible e s ex c k)
   | Some j \<Rightarrow>
       j \<in> set (queued_jobs ex s) \<and> eligible e s ex c j \<and> \<not> claimant_blocked e s ex c \<and>
       (\<forall>k \<in> set (queued_jobs ex s). eligible e s ex c k \<longrightarrow>
          j_priority k < j_priority j \<or> (j_priority k = j_priority j \<and> j_created_at j \<le> j_created_at k))"
proof (cases "fst (claim_tx e ex c s)")
  case None
  with claim_none [of e ex c s] show ?thesis by simp
next
  case (Some j)
  have nb: "\<not> claimant_blocked e s ex c" using Some by (auto simp: claim_tx_def)
  from claim_best [OF Some] have j: "j \<in> set (queued_jobs ex s)" "eligible e s ex c j"
    and best: "\<forall>k \<in> set (queued_jobs ex s). eligible e s ex c k \<longrightarrow> claim_rank j \<le> claim_rank k" by blast+
  have "j_priority k < j_priority j \<or> (j_priority k = j_priority j \<and> j_created_at j \<le> j_created_at k)"
    if "k \<in> set (queued_jobs ex s)" "eligible e s ex c k" for k
    using best that by (auto simp: claim_rank_def less_eq_prod_def)
  with Some j nb show ?thesis by simp
qed

definition demo_queue :: store where
  "demo_queue = demo_store [queued_job ''a'' 0 1, queued_job ''b'' 7 3, queued_job ''c'' 7 2]"

theorem claim_picks_first_witness:
  "map_option j_id (fst (claim_tx (demo_env 5) Device ''d1'' demo_queue)) = Some ''c'' \<and>
   list_all (\<lambda>k. j_priority k \<le> 7) (filter (eligible (demo_env 5) demo_queue Device ''d1'') (queued_jobs Device demo_queue))"
proof -
  have c: "map_option j_id (fst (claim_tx (demo_env 5) Device ''d1'' demo_queue)) = Some ''c''"
    and p: "map_option j_priority (fst (claim_tx (demo_env 5) Device ''d1'' demo_queue)) = Some 7" by code_simp+
  show ?thesis
    using claim_picks_first [of "demo_env 5" demo_queue Device "''d1''"] c p
    by (cases "fst (claim_tx (demo_env 5) Device ''d1'' demo_queue)") (auto simp: list_all_iff)
qed




text \<open>C6: when a beacon is told to stand aside, there is a better job to take: if the device gives its
  preemptible job back and asks again unblocked, it is given a job of strictly higher priority.\<close>

theorem preemption_promise_kept:
  assumes "store_inv s" "find_job i s = Some j" "j_status j = Claimed" "j_executor j = Device"
    and "j_claimed_by j = Some c" "c \<noteq> []" "preemption_pending e s j"
    and "requeue_preempted_tx i b s = Some (checkpoint, s')" "\<not> claimant_blocked e s' Device c"
  shows "\<exists>k. fst (claim_tx e Device c s') = Some k \<and> j_priority k > j_priority j \<and> k \<in> set (jobs s)"
  using assms by (rule preempted_is_replaced)

definition outranked_store :: store where
  "outranked_store = locked ''a'' (demo_store [claimed_job ''a'' 1, queued_job ''b'' 3 5])"

lemma outranked_inv: "store_inv outranked_store"
  by (simp add: outranked_store_def demo_defs store_inv_def job_ids_def job_keys_def job_deps_def job_ok_def)

theorem preemption_promise_kept_witness:
  "\<exists>k. fst (claim_tx (demo_env 6) Device ''d1''
          (snd (the (requeue_preempted_tx ''a'' (demo_final ''a'' []) outranked_store)))) = Some k \<and> j_priority k > 0"
proof -
  have p: "preemption_pending (demo_env 6) outranked_store (claimed_job ''a'' 1)" by code_simp
  obtain cp s' where r: "requeue_preempted_tx ''a'' (demo_final ''a'' []) outranked_store = Some (cp, s')"
    by (simp add: requeue_preempted_tx_def outranked_store_def demo_defs find_job_def find_row_def Let_def)
  have "\<not> claimant_blocked (demo_env 6)
      (snd (the (requeue_preempted_tx ''a'' (demo_final ''a'' []) outranked_store))) Device ''d1''" by code_simp
  with r have b: "\<not> claimant_blocked (demo_env 6) s' Device ''d1''" by simp
  have f: "find_job ''a'' outranked_store = Some (claimed_job ''a'' 1)"
    by (simp add: outranked_store_def demo_defs find_job_def find_row_def)
  from preemption_promise_kept [OF outranked_inv f _ _ _ _ p r b] r show ?thesis
    by (auto simp: demo_defs)
qed

text \<open>C7: a claim handed back before any result was posted leaves no trace but its note: the job is
  queued again with the attempts it had, the device's lock is gone, every other job is as it was.\<close>

theorem release_undoes_claim:
  assumes "store_inv s" "claim_tx e ex c s = (Some j, s1)" "\<not> has_results (j_id j) s"
  shows "\<exists>s2 note. release_tx (j_id j) (Some c) s1 = Inr s2 \<and>
    find_job (j_id j) s2 = Some (j\<lparr>j_claimed_at := None, j_last_error := Some note\<rparr>) \<and>
    (\<forall>k. k \<noteq> j_id j \<longrightarrow> find_job k s2 = find_job k s) \<and>
    (ex = Device \<longrightarrow> lock_of c s2 = None) \<and>
    (\<forall>dev i. i \<noteq> j_id j \<longrightarrow> lock_of dev s = Some i \<longrightarrow> lock_of dev s2 = Some i)"
  using assms by (rule claim_release_back)

lemma demo_queue_inv: "store_inv demo_queue"
  by (simp add: demo_queue_def demo_defs store_inv_def job_ids_def job_keys_def job_deps_def job_ok_def)

theorem release_undoes_claim_witness:
  "\<exists>j s2. fst (claim_tx (demo_env 5) Device ''d1'' demo_queue) = Some j \<and>
     release_tx (j_id j) (Some ''d1'') (snd (claim_tx (demo_env 5) Device ''d1'' demo_queue)) = Inr s2 \<and>
     lock_of ''d1'' s2 = None"
proof -
  have "fst (claim_tx (demo_env 5) Device ''d1'' demo_queue) \<noteq> None" by code_simp
  then obtain j where j: "claim_tx (demo_env 5) Device ''d1'' demo_queue = (Some j, snd (claim_tx (demo_env 5) Device ''d1'' demo_queue))"
    by (metis not_None_eq prod.collapse)
  have "\<not> has_results (j_id j) demo_queue" by (simp add: has_results_def demo_queue_def demo_defs)
  from release_undoes_claim [OF demo_queue_inv j this] j show ?thesis by (metis fst_conv)
qed

section \<open>Leases\<close>

text \<open>A beacon renews the lease of a claimed job to its full length from now and reports it; for any
  other job it reports that the claim is gone. No job row but that one changes.\<close>

theorem beacon_renews_claim:
  assumes "truthy (jget ''job_id'' b)"
  shows "(\<exists>preempt. fst (post_beacon e b s) = Beacon_Reply (status_of (body_job b) s = Some Claimed) preempt) \<and>
    jobs (snd (post_beacon e b s)) =
      map (\<lambda>j. if j_id j = body_job b \<and> j_status j = Claimed
              then j\<lparr>j_lease_deadline := Some (e_now e + j_lease_ttl_s j)\<rparr> else j) (jobs s)"
proof -
  have j0: "jobs (store_beacon e b s) = jobs s" by (simp add: store_beacon_def)
  have "jobs (snd (post_beacon e b s)) = map (\<lambda>j. if j_id j = body_job b then renew_row e j else j) (jobs s)"
    using assms by (simp add: post_beacon_store jobs_update_job update_row_def j0)
  then have jobs': "jobs (snd (post_beacon e b s)) =
      map (\<lambda>j. if j_id j = body_job b \<and> j_status j = Claimed
              then j\<lparr>j_lease_deadline := Some (e_now e + j_lease_ttl_s j)\<rparr> else j) (jobs s)"
    by (simp add: renew_row_def if_bool_eq_conj)
  have f: "find_job i (update_job i (renew_row e) (store_beacon e b s)) = map_option (renew_row e) (find_job i s)" for i
    by (simp add: find_job_update renew_row_def) (simp add: find_job_def j0)
  have st: "j_status (renew_row e j) = j_status j" for j by (simp add: renew_row_def)
  have "\<exists>preempt. fst (post_beacon e b s) = Beacon_Reply (status_of (body_job b) s = Some Claimed) preempt"
    using assms by (cases "find_job (body_job b) s") (auto simp: post_beacon_def Let_def f st status_of_def)
  with jobs' show ?thesis by blast
qed

definition demo_beacon :: js where
  "demo_beacon = JObj [(''device_id'', JStr ''d1''), (''job_id'', JStr ''a'')]"

theorem beacon_renews_claim_witness:
  "\<exists>preempt. fst (post_beacon (demo_env 90) demo_beacon (demo_store [claimed_job ''a'' 1])) = Beacon_Reply True preempt"
proof -
  have t: "truthy (jget ''job_id'' demo_beacon)" by (simp add: demo_beacon_def)
  have st: "status_of (body_job demo_beacon) (demo_store [claimed_job ''a'' 1]) = Some Claimed"
    by (simp add: demo_beacon_def body_job_def status_of_def find_job_def find_row_def demo_defs)
  from beacon_renews_claim [OF t, of "demo_env 90" "demo_store [claimed_job ''a'' 1]"]
  have "\<exists>preempt. fst (post_beacon (demo_env 90) demo_beacon (demo_store [claimed_job ''a'' 1])) =
      Beacon_Reply (status_of (body_job demo_beacon) (demo_store [claimed_job ''a'' 1]) = Some Claimed) preempt" by blast
  then show ?thesis by (simp only: st simp_thms)
qed

text \<open>a sweep rewrites exactly the claims whose lease lapsed (back to the queue while attempts are
  left, failed when none is) and drops exactly their locks; a second sweep at that moment changes nothing.\<close>

theorem sweep_exact:
  assumes "distinct (job_ids s)"
  shows "jobs (sweep_leases_tx e s) = map (\<lambda>j. if lease_expired e j then sweep_row e j j else j) (jobs s) \<and>
    (\<forall>j. lease_expired e j \<longrightarrow>
       j_status (sweep_row e j j) = (if j_attempts j < j_max_attempts j then Queued else Failed) \<and>
       j_attempts (sweep_row e j j) = j_attempts j \<and> j_lease_deadline (sweep_row e j j) = None) \<and>
    device_locks (sweep_leases_tx e s) =
      filter (\<lambda>l. \<not> (\<exists>j \<in> set (jobs s). lease_expired e j \<and> j_id j = l_job_id l)) (device_locks s) \<and>
    sweep_leases_tx e (sweep_leases_tx e s) = sweep_leases_tx e s"
proof -
  have "gave_lock e s l \<longleftrightarrow> (\<exists>j \<in> set (jobs s). lease_expired e j \<and> j_id j = l_job_id l)" for l
    by (force simp: gave_lock_def expired_jobs_def image_iff)
  then show ?thesis
    using sweep_map [OF assms, of e] sweep_idempotent [OF assms, of e]
    by (simp add: sweep_row_def requeue_row_def close_job_row_def)
qed

theorem sweep_exact_witness:
  "map j_status (jobs (sweep_leases_tx (demo_env 100) (demo_store [claimed_job ''a'' 1, claimed_job ''b'' 3, queued_job ''c'' 0 0])))
     = [Queued, Failed, Queued]"
proof -
  let ?s = "demo_store [claimed_job ''a'' 1, claimed_job ''b'' 3, queued_job ''c'' 0 0]"
  have "distinct (job_ids ?s)" by (simp add: demo_defs job_ids_def)
  from sweep_exact [OF this, of "demo_env 100"] show ?thesis
    by (simp add: demo_defs lease_expired_def sweep_row_def requeue_row_def close_job_row_def)
qed

text \<open>the sweep does not settle waiters. A job that waits on one the sweep gave up on stays
  waiting, although a settlement would have failed it and an enqueue with that dependency is failed on
  arrival.\<close>

theorem sweep_strands_waiters:
  assumes "store_inv s" "j \<in> set (jobs s)" "lease_expired e j" "j_max_attempts j \<le> j_attempts j"
    and "w \<in> set (waiters_on (j_id j) s)"
  shows "w \<in> set (waiters_on (j_id j) (sweep_leases_tx e s)) \<and>
    (\<exists>why. dep_verdict (sweep_leases_tx e s) (job_deps w) = VFail why) \<and>
    (\<exists>why. dependency_state (sweep_leases_tx e s) [j_id j] = DFailed why)"
proof -
  have d: "distinct (job_ids s)" using assms(1) by (simp add: store_inv_def)
  let ?s = "sweep_leases_tx e s"
  note map = sweep_map(1) [OF d, of e]
  have w: "w \<in> set (jobs s)" "j_status w = Waiting" "j_id j \<in> set (job_deps w)"
    using assms(5) by (auto simp: mem_waiters_on)
  then have "\<not> lease_expired e w" by (simp add: lease_expired_def)
  with w map have "w \<in> set (jobs ?s)" by (auto intro: image_eqI [of _ _ w])
  with w have wait: "w \<in> set (waiters_on (j_id j) ?s)" by (simp add: mem_waiters_on)
  have "sweep_row e j j \<in> set (jobs ?s)" using assms(2,3) map by auto
  moreover have "store_inv ?s" using sweep_good good_inv assms(1) by blast
  moreover have id: "j_id (sweep_row e j j) = j_id j" and st: "j_status (sweep_row e j j) = Failed"
    using assms(4) by (simp_all add: sweep_row_def close_job_row_def)
  ultimately have f: "status_of (j_id j) ?s = Some Failed" using inv_find by (metis option.simps(9) status_of_def)
  then have "broken_dep ?s (j_id j)" by (simp add: broken_dep_def)
  with w(3) have "List.find (broken_dep ?s) (job_deps w) \<noteq> None" by (auto simp: find_None)
  then have "\<exists>why. dep_verdict ?s (job_deps w) = VFail why" by (auto simp: dep_verdict_def)
  with wait f show ?thesis by (simp add: dependency_state_def)
qed

theorem sweep_strands_waiters_witness:
  "\<exists>w why. w \<in> set (waiters_on ''a'' (sweep_leases_tx (demo_env 100) (demo_store [claimed_job ''a'' 3, waiting_job ''b'' [''a'']]))) \<and>
     dep_verdict (sweep_leases_tx (demo_env 100) (demo_store [claimed_job ''a'' 3, waiting_job ''b'' [''a'']])) (job_deps w) = VFail why"
proof -
  let ?s = "demo_store [claimed_job ''a'' 3, waiting_job ''b'' [''a'']]"
  have inv: "store_inv ?s"
    by (simp add: demo_defs store_inv_def job_ids_def job_keys_def job_deps_def job_ok_def)
  have "claimed_job ''a'' 3 \<in> set (jobs ?s)" "lease_expired (demo_env 100) (claimed_job ''a'' 3)"
    "j_max_attempts (claimed_job ''a'' 3) \<le> j_attempts (claimed_job ''a'' 3)"
    "waiting_job ''b'' [''a''] \<in> set (waiters_on (j_id (claimed_job ''a'' 3)) ?s)"
    by (simp_all add: demo_defs lease_expired_def waiters_on_def)
  from sweep_strands_waiters [OF inv this] show ?thesis by (auto simp: claimed_job_def fresh_job_def)
qed

section \<open>Dependencies\<close>

text \<open>C8: closing a job moves everything that waits on it. If every waiting job waited on something
  still open, then after a final result and after a cancellation every waiting job again does: each of
  its dependencies is open or done, and one is open.\<close>

theorem closing_settles:
  assumes "store_inv s" "settled s" "terminal st"
  shows "settled (fst (close_job_tx e i st reason s)) \<and>
    (\<forall>out s'. cancel_tx e i why s = Inr (out, s') \<longrightarrow> settled s')"
proof
  have d: "distinct (job_ids s)" using assms(1) by (simp add: store_inv_def)
  show "settled (fst (close_job_tx e i st reason s))"
    unfolding close_job_tx_def
    by (rule close_and_settle [OF assms(2) d]) (use assms(3) in \<open>auto simp: finish_row_def\<close>)
  show "\<forall>out s'. cancel_tx e i why s = Inr (out, s') \<longrightarrow> settled s'"
  proof (intro allI impI)
    fix out s' assume "cancel_tx e i why s = Inr (out, s')"
    then have "s' = fst (settle_waiters e i (drop_locks i (update_job i (close_job_row e Cancelled (Some why)) s)))"
      by (auto simp: cancel_tx_def Let_def split: option.splits if_splits prod.splits)
    moreover have "settled (fst (settle_waiters e i (drop_locks i (update_job i (close_job_row e Cancelled (Some why)) s))))"
      by (rule close_and_settle [OF assms(2) d]) simp_all
    ultimately show "settled s'" by simp
  qed
qed

definition chain_store :: store where
  "chain_store = demo_store [claimed_job ''a'' 1, waiting_job ''b'' [''a''], waiting_job ''c'' [''a'', ''b'']]"

theorem closing_settles_witness:
  "settled (fst (close_job_tx (demo_env 9) ''a'' Failed None chain_store)) \<and>
   map j_status (jobs (fst (close_job_tx (demo_env 9) ''a'' Failed None chain_store))) = [Failed, Failed, Failed]"
proof
  have inv: "store_inv chain_store"
    by (simp add: chain_store_def demo_defs store_inv_def job_ids_def job_keys_def job_deps_def job_ok_def)
  have "settled chain_store"
    by (auto simp: settled_def movable_def chain_store_def demo_defs dep_verdict_VOpen job_deps_def status_of_def
        find_job_def find_row_def open_status_def)
  from closing_settles [OF inv this, of Failed] show "settled (fst (close_job_tx (demo_env 9) ''a'' Failed None chain_store))"
    by simp
  show "map j_status (jobs (fst (close_job_tx (demo_env 9) ''a'' Failed None chain_store))) = [Failed, Failed, Failed]"
    by code_simp
qed

text \<open>the settlement always returns: the fuel of the model, one more than the number of waiting
  jobs, is never used up, whatever the dependencies look like.\<close>

theorem settlement_returns:
  "\<exists>r. settle (settle_fuel s) e i (s, no_settlement) = Some r \<and> settle_waiters e i s = r"
  by (simp add: settle_waiters_run)

text \<open>A settlement takes only allowed steps. Whatever the table looks like, it leaves every job that
  is not waiting, failed or skipped exactly as it was, and every lock, device, result and dependency.\<close>

theorem settlement_frame:
  assumes "distinct (job_ids s)" "status_of k s \<notin> {Some Waiting, Some Failed, Some Skipped}"
  shows "find_job k (fst (settle_waiters e i s)) = find_job k s \<and>
    job_keys (fst (settle_waiters e i s)) = job_keys s \<and>
    device_locks (fst (settle_waiters e i s)) = device_locks s \<and> results (fst (settle_waiters e i s)) = results s"
  using settle_waiters_frame [OF assms(1)] assms(2) by blast

theorem settlement_frame_witness:
  "find_job ''d'' (fst (settle_waiters (demo_env 9) ''a''
     (demo_store [(claimed_job ''a'' 1)\<lparr>j_status := Failed\<rparr>, waiting_job ''b'' [''a''], claimed_job ''d'' 1])))
     = Some (claimed_job ''d'' 1)"
proof -
  let ?s = "demo_store [(claimed_job ''a'' 1)\<lparr>j_status := Failed\<rparr>, waiting_job ''b'' [''a''], claimed_job ''d'' 1]"
  have d: "distinct (job_ids ?s)" and f: "find_job ''d'' ?s = Some (claimed_job ''d'' 1)"
    by (simp_all add: demo_defs job_ids_def find_job_def find_row_def)
  then have "status_of ''d'' ?s \<notin> {Some Waiting, Some Failed, Some Skipped}"
    by (simp add: status_of_def demo_defs)
  from settlement_frame [OF d this, of "demo_env 9" "''a''"] f show ?thesis by simp
qed

text \<open>C9: the cycle check of an enqueue decides what it claims to: it accepts exactly the dependencies
  that all exist and from none of which the new job's id can be reached along \<open>depends_on\<close>.\<close>

theorem dependency_check_exact:
  "validate_dependencies s job deps = None \<longleftrightarrow>
     list_all (\<lambda>d. find_job d s \<noteq> None \<and> (d, job) \<notin> (dep_rel s)\<^sup>*) deps"
  by (simp add: validate_dependencies_None list_all_iff)

definition two_refs :: string where
  "two_refs = ref_text ''a'' ''artifact'' @ '' '' @ ref_text ''b'' ''artifact''"

text \<open>A string that starts with one reference and ends with another is taken for a single one: the
  lazy id of the anchored expression runs over the end of the first reference, so neither is filled in
  although both resolve.\<close>

theorem two_references_misread:
  "map ref_job (dep_refs two_refs) = [''a'', ''b''] \<and>
   map_option ref_job (whole_ref two_refs) = Some (''a.artifact} ${jobs.b'') \<and>
   fill_string (\<lambda>i f. if i \<in> {''a'', ''b''} then Inr (JStr ''sha'') else Inl ''no result'') two_refs =
     (JStr two_refs, [two_refs @ '' (no result)''])"
  by code_simp

end
