(* ===== verification/Enqueue_Properties.thy ===== *)
theory Enqueue_Properties
  imports Match_Laws Examples
begin

text \<open>
  The properties of enqueueing: what is refused, what a dry run promises, what the rows look like, which
  devices a fan-out reaches and which build \<open>latest\<close> names.
\<close>

section \<open>Secrets\<close>

definition secret_names :: "string list" where
  "secret_names = [''password'', ''passwd'', ''secret'', ''token'', ''api_key'', ''apikey'']"

definition plain_char :: "char \<Rightarrow> bool" where
  "plain_char c \<longleftrightarrow> is_lower c \<or> c = CHR ''_''"

lemma lower_char_plain: "plain_char (lower_char c) \<Longrightarrow> is_alpha c \<or> c = CHR ''_''"
proof -
  assume a: "plain_char (lower_char c)"
  have "code (lower_char c) = code c + 32" if "is_upper c \<or> (192 \<le> code c \<and> code c \<le> 222 \<and> code c \<noteq> 215)"
    using that by (auto simp: lower_char_def code_def is_upper_def)
  moreover have "lower_char c = c" if "\<not> (is_upper c \<or> (192 \<le> code c \<and> code c \<le> 222 \<and> code c \<noteq> 215))"
    unfolding lower_char_def using that by (rule if_not_P)
  moreover have "code CHR ''_'' = 95" by (simp add: code_def)
  ultimately show ?thesis using a
    by (fastforce simp: plain_char_def is_alpha_def is_lower_def is_upper_def)
qed

lemma escape_plain: "is_alpha c \<or> c = CHR ''_'' \<Longrightarrow> escape_char c = [c]"
  by (auto simp: escape_char_def Let_def is_alpha_def is_lower_def is_upper_def code_def)

lemma concat_escape: "\<forall>c \<in> set k. is_alpha c \<or> c = CHR ''_'' \<Longrightarrow> concat (map escape_char k) = k"
  by (induction k) (simp_all add: escape_plain)

lemma lower_quote:
  assumes "list_all plain_char (lower k)"
  shows "lower (quote k) = quote (lower k)"
proof -
  have k: "\<forall>c \<in> set k. is_alpha c \<or> c = CHR ''_''"
    using assms lower_char_plain by (simp add: list_all_iff lower_def)
  have l: "\<forall>c \<in> set (lower k). is_alpha c \<or> c = CHR ''_''"
    using assms by (auto simp: list_all_iff plain_char_def is_alpha_def)
  note concat_escape [OF k] concat_escape [OF l]
  moreover have "lower_char CHR 0x22 = CHR 0x22" by (simp add: lower_char_def is_upper_def code_def)
  ultimately show ?thesis by (simp add: quote_def)
qed

lemma secret_names_plain: "n \<in> set secret_names \<Longrightarrow> list_all plain_char n"
  by (auto simp: secret_names_def plain_char_def is_lower_def code_def)

lemma secret_found:
  assumes "k \<in> set (deep_keys spec)" "lower k \<in> set secret_names"
  shows "secret_in spec \<noteq> None"
proof -
  have "contains (lower (quote k)) (lower (stringify spec))"
    using assms(1) by (intro contains_lower_mono stringify_deep_keys)
  moreover have "lower (quote k) = quote (lower k)" using assms(2) secret_names_plain lower_quote by blast
  moreover have "quote (lower k) \<in> set banned_members" using assms(2) by (auto simp: banned_members_def secret_names_def)
  ultimately show ?thesis by (auto simp: secret_in_def find_None)
qed

text \<open>no accepted spec names a secret: at no depth does it have a member called password, passwd,
  secret, token, api_key or apikey, in any mixture of upper and lower case.\<close>

theorem accepted_spec_has_no_secret:
  assumes "enqueue_job e dry pr spec s = Inr r" "k \<in> set (deep_keys spec)"
  shows "lower k \<notin> {''password'', ''passwd'', ''secret'', ''token'', ''api_key'', ''apikey''}"
proof
  assume "lower k \<in> {''password'', ''passwd'', ''secret'', ''token'', ''api_key'', ''apikey''}"
  then have found: "secret_in spec \<noteq> None" using assms(2) by (intro secret_found) (auto simp: secret_names_def)
  obtain ad where "check_job e s spec = Inr ad" using assms(1) by (auto simp: enqueue_job_def and_then_Inr)
  then obtain spec1 where "check_basics e s spec = Inr spec1" by (rule check_job_parts)
  with found show False by (auto simp: check_basics_def split: if_splits option.splits)
qed

theorem accepted_spec_has_no_secret_witness:
  "lower ''workload'' \<notin> {''password'', ''passwd'', ''secret'', ''token'', ''api_key'', ''apikey''}"
proof -
  have "case enqueue_job (demo_env 1) True demo_provenance (demo_spec ''a'' []) (demo_store []) of Inl _ \<Rightarrow> False | Inr _ \<Rightarrow> True"
    by code_simp
  then obtain r where r: "enqueue_job (demo_env 1) True demo_provenance (demo_spec ''a'' []) (demo_store []) = Inr r"
    by (auto split: sum.splits)
  have "''workload'' \<in> set (deep_keys (demo_spec ''a'' []))" by (simp add: demo_spec_def)
  from accepted_spec_has_no_secret [OF r this] show ?thesis .
qed

section \<open>The rows\<close>

text \<open>what an enqueue does to the store. It appends rows with ids the table did not have, each with
  no attempt made, at least one allowed, a lease between one second and a day, dependencies that exist,
  and the status its dependencies call for; a dry run appends none. Nothing else changes.\<close>

theorem enqueue_appends_sound_rows:
  assumes "enqueue_job e dry pr spec s = Inr (ea, s')"
  shows "\<exists>rows. s' = s\<lparr>jobs := jobs s @ rows\<rparr> \<and> (dry \<longrightarrow> rows = []) \<and>
    (\<forall>j \<in> set rows. find_job (j_id j) s = None \<and> j_attempts j = 0 \<and> 1 \<le> j_max_attempts j \<and>
       1 \<le> j_lease_ttl_s j \<and> j_lease_ttl_s j \<le> 86400 \<and> (\<forall>d \<in> set (job_deps j). find_job d s \<noteq> None) \<and>
       j_status j = state_status (dependency_state s (job_deps j)))"
  using assms
proof (rule enqueue_cases)
  fix ad rows
  assume ad: "check_job e s spec = Inr ad" and s': "s' = s\<lparr>jobs := jobs s @ rows\<rparr>" and dry: "dry \<Longrightarrow> rows = []"
    and rows: "\<forall>j \<in> set rows. find_job (j_id j) s = None \<and> (\<exists>parent sp. j = job_row e pr ad parent sp)"
  have fields: "j_attempts (job_row e pr ad parent sp) = 0" "j_max_attempts (job_row e pr ad parent sp) = le_max (ad_lease ad)"
    "j_lease_ttl_s (job_row e pr ad parent sp) = le_ttl (ad_lease ad)" for parent sp
    by (simp_all add: job_row_def)
  show ?thesis
    using s' dry rows check_job_lease [OF ad] check_job_deps [OF ad]
    by (intro exI [of _ rows]) (auto simp: fields MAX_LEASE_TTL_S_def)
qed

theorem enqueue_appends_sound_rows_witness:
  "\<exists>rows s'. s' = (demo_store [])\<lparr>jobs := jobs (demo_store []) @ rows\<rparr> \<and> rows \<noteq> [] \<and>
     list_all (\<lambda>j. j_lease_ttl_s j \<le> 86400) rows"
proof -
  let ?r = "enqueue_job (demo_env 1) False demo_provenance (demo_spec ''a'' []) (demo_store [])"
  have n: "case ?r of Inl _ \<Rightarrow> False | Inr (ea, s') \<Rightarrow> length (jobs s') = 1" by code_simp
  then obtain ea s' where r: "?r = Inr (ea, s')" "length (jobs s') = 1" by (auto split: sum.splits)
  from enqueue_appends_sound_rows [OF r(1)] obtain rows where
    "s' = (demo_store [])\<lparr>jobs := jobs (demo_store []) @ rows\<rparr>" "\<forall>j \<in> set rows. j_lease_ttl_s j \<le> 86400" by blast
  with r(2) show ?thesis by (intro exI [of _ rows] exI [of _ s']) (auto simp: demo_defs list_all_iff)
qed

text \<open>The loop of \<open>dependencyState\<close>, with the verdict of \<open>settleWaiters\<close>.\<close>

lemma dep_state_loop_eq:
  "\<forall>d \<in> set ds. status_of d s \<noteq> None \<Longrightarrow>
   dep_state_loop s ad sk ds =
     (case List.find (broken_dep s) ds of
        Some d \<Rightarrow> DFailed (''dependency '' @ d @ '' '' @ status_str (the (status_of d s)))
      | None \<Rightarrow>
          (case coalesce sk (List.find (\<lambda>d. status_of d s = Some Skipped) ds) of
             Some d \<Rightarrow> DSkipped (''dependency '' @ d @ '' skipped'')
           | None \<Rightarrow> if ad \<and> list_all (\<lambda>d. status_of d s = Some Done) ds then DQueued else DWaiting))"
proof (induction ds arbitrary: ad sk)
  case (Cons d ds)
  then obtain st where "status_of d s = Some st" by auto
  with Cons show ?case
    by (cases st; cases sk) (simp_all add: Let_def broken_dep_def cong: option.case_cong)
qed (auto simp: coalesce_def split: option.splits)

text \<open>an enqueue and a settlement judge dependencies alike: over jobs that exist, the status a new
  job would be given on arrival is the one the settlement would give a waiting job, for the same reason.\<close>

theorem arrival_agrees_with_settlement:
  assumes "\<forall>d \<in> set deps. find_job d s \<noteq> None"
  shows "dep_verdict s deps =
    (case dependency_state s deps of
       DQueued \<Rightarrow> VReady | DWaiting \<Rightarrow> VOpen | DFailed why \<Rightarrow> VFail why | DSkipped why \<Rightarrow> VSkip why)"
proof -
  have known: "\<forall>d \<in> set deps. status_of d s \<noteq> None" using assms by (simp add: status_of_def)
  show ?thesis
  proof (cases "List.find (broken_dep s) deps")
    case None
    with known show ?thesis
      by (simp add: dependency_state_def dep_state_loop_eq dep_verdict_def split: option.split)
  next
    case (Some d)
    with known obtain st where "status_of d s = Some st" by (auto dest: find_SomeD)
    with Some known show ?thesis by (simp add: dependency_state_def dep_state_loop_eq dep_verdict_def)
  qed
qed

theorem arrival_agrees_with_settlement_witness:
  "dep_verdict (demo_store [queued_job ''a'' 0 0, (queued_job ''b'' 0 0)\<lparr>j_status := Skipped\<rparr>]) [''a'', ''b''] =
     VSkip ''dependency b skipped''"
proof -
  let ?s = "demo_store [queued_job ''a'' 0 0, (queued_job ''b'' 0 0)\<lparr>j_status := Skipped\<rparr>]"
  have "\<forall>d \<in> set [''a'', ''b'']. find_job d ?s \<noteq> None" by (simp add: demo_defs find_job_def find_row_def)
  moreover have "dependency_state ?s [''a'', ''b''] = DSkipped ''dependency b skipped''" by code_simp
  ultimately show ?thesis using arrival_agrees_with_settlement [of "[''a'', ''b'']" ?s] by simp
qed

section \<open>Dry runs\<close>

lemma insert_children_ids: "set (fst (insert_children rows s)) \<subseteq> j_id ` set rows"
proof -
  obtain rows' where "set rows' \<subseteq> set rows" "fst (insert_children rows s) = map j_id rows'"
    using insert_children_frame [of rows s] by blast
  then show ?thesis by (simp add: image_mono)
qed

text \<open>a dry run changes nothing and tells the truth: it is refused exactly when the enqueue would be,
  with the same answer, and otherwise the enqueue is accepted with the status, the id and at most the
  children the dry run named.\<close>

theorem dry_run_predicts_enqueue:
  "case enqueue_job e True pr spec s of
     Inl r \<Rightarrow> enqueue_job e False pr spec s = Inl r
   | Inr (ea, s1) \<Rightarrow> s1 = s \<and>
       (\<exists>ea' s2. enqueue_job e False pr spec s = Inr (ea', s2) \<and> ea_status ea' = ea_status ea \<and>
          ea_job_id ea' = ea_job_id ea \<and>
          (case ea_fanout ea of
             None \<Rightarrow> ea_fanout ea' = None
           | Some ids \<Rightarrow> (\<exists>created. ea_fanout ea' = Some created \<and> set created \<subseteq> set ids)))"
proof (cases "check_job e s spec")
  case (Inl r)
  then show ?thesis by (simp add: enqueue_job_def)
next
  case (Inr ad)
  show ?thesis
  proof (cases "truthy (jget ''fanout'' (ad_spec ad))")
    case False
    with Inr show ?thesis by (simp add: enqueue_job_def enqueue_single_def Let_def)
  next
    case True
    show ?thesis
    proof (cases "fanout_devices e s (ad_spec ad)")
      case (Inl r)
      with Inr True show ?thesis by (simp add: enqueue_job_def enqueue_fanout_def Let_def)
    next
      case (Inr ds)
      let ?rows = "map (job_row e pr ad (Some (spec_id (ad_spec ad)))) (map (child_spec (ad_spec ad)) ds)"
      have "set (fst (insert_children ?rows s)) \<subseteq> set (map spec_id (map (child_spec (ad_spec ad)) ds))"
        using insert_children_ids [of ?rows s] by (simp add: image_image)
      with Inr \<open>check_job e s spec = Inr ad\<close> True show ?thesis
        by (simp add: enqueue_job_def enqueue_fanout_def Let_def split_beta)
    qed
  qed
qed

section \<open>Fan-out\<close>

lemma one_per_subset: "set (one_per key seen ds) \<subseteq> set ds"
  by (induction key seen ds rule: one_per.induct) auto

lemma fanout_devices_selected: "fanout_devices e s spec = Inr ds \<Longrightarrow> set ds \<subseteq> set (selected_devices e s spec)"
  using one_per_subset by (fastforce simp: fanout_devices_def Let_def split: if_splits js.splits)

lemma child_spec_fields:
  "jget ''device_id'' (jget ''targets'' (child_spec spec d)) = JStr (d_id d)"
  "jget ''fanout'' (child_spec spec d) = JUndef" "spec_id (child_spec spec d) = spec_id spec @ ''--'' @ d_id d"
  by (simp_all add: child_spec_def spec_id_def)

text \<open>every child a fan-out creates is pinned to one registered device that passed the selection
  (its pool, its capabilities, the match, and its reservation, if it has one, held by the spec), is
  named after parent and device, and does not fan out again.\<close>

theorem fanout_children_pinned:
  assumes "enqueue_fanout e False pr ad s = Inr (ea, s')" "j \<in> set (jobs s')" "j \<notin> set (jobs s)"
  shows "\<exists>d \<in> set (devices s). device_matches e s (spec_query False (ad_spec ad)) d \<and>
    (\<forall>label. reservation_of (d_id d) s = Some label \<and> label \<noteq> [] \<longrightarrow> jget ''reservation'' (ad_spec ad) = JStr label) \<and>
    jget ''device_id'' (jget ''targets'' (j_spec j)) = JStr (d_id d) \<and>
    j_id j = spec_id (ad_spec ad) @ ''--'' @ d_id d \<and>
    j_parent_job_id j = Some (spec_id (ad_spec ad)) \<and> jget ''fanout'' (j_spec j) = JUndef"
proof -
  obtain ds where ds: "fanout_devices e s (ad_spec ad) = Inr ds"
    using assms(1) by (auto simp: enqueue_fanout_def and_then_Inr Let_def)
  let ?rows = "map (job_row e pr ad (Some (spec_id (ad_spec ad)))) (map (child_spec (ad_spec ad)) ds)"
  have "s' = snd (insert_children ?rows s)" using assms(1) ds by (auto simp: enqueue_fanout_def Let_def split_beta)
  with insert_children_frame [of ?rows s] obtain rows where "s' = s\<lparr>jobs := jobs s @ rows\<rparr>" "set rows \<subseteq> set ?rows" by auto
  with assms(2,3) have "j \<in> set ?rows" by auto
  then obtain d where d: "d \<in> set ds" "j = job_row e pr ad (Some (spec_id (ad_spec ad))) (child_spec (ad_spec ad) d)" by auto
  then have "d \<in> set (selected_devices e s (ad_spec ad))" using fanout_devices_selected [OF ds] by blast
  then have sel: "d \<in> set (devices s)" "device_matches e s (spec_query False (ad_spec ad)) d"
    by (auto simp: selected_devices_def matching_devices_def)
  then have "reservation_allows (e_regex e) (ad_spec ad) (d_id d) (reservation_of (d_id d) s) (device_view d)"
    by (auto simp: device_matches_def spec_query_def Let_def split: if_splits)
  then have "\<forall>label. reservation_of (d_id d) s = Some label \<and> label \<noteq> [] \<longrightarrow> jget ''reservation'' (ad_spec ad) = JStr label"
    by (auto simp: reservation_allows_def)
  moreover have "j_parent_job_id j = Some (spec_id (ad_spec ad))" by (simp add: d(2) job_row_def)
  ultimately show ?thesis using sel d(2) by (intro bexI [of _ d]) (auto simp: child_spec_fields)
qed

definition fanout_admitted :: admitted where
  "fanout_admitted =
     \<lparr>ad_spec = demo_spec ''p'' [(''fanout'', JBool True)], ad_lease = \<lparr>le_ttl = 600, le_max = 3\<rparr>, ad_priority = 0,
      ad_template = None, ad_deps = [], ad_state = DQueued\<rparr>"

theorem fanout_children_pinned_witness:
  "\<exists>j. \<exists>s' :: store. j \<in> set (jobs s') \<and> j_id j = ''p--d1'' \<and> jget ''fanout'' (j_spec j) = JUndef \<and>
     jget ''device_id'' (jget ''targets'' (j_spec j)) = JStr ''d1''"
proof -
  let ?r = "enqueue_fanout (demo_env 1) False demo_provenance fanout_admitted (demo_store [])"
  have "case ?r of Inl _ \<Rightarrow> False | Inr (ea, s') \<Rightarrow> map j_id (jobs s') = [''p--d1'']" by code_simp
  then obtain ea s' where r: "?r = Inr (ea, s')" "map j_id (jobs s') = [''p--d1'']" by (auto split: sum.splits)
  then obtain j where j: "j \<in> set (jobs s')" "j_id j = ''p--d1''" by (auto simp: map_eq_Cons_conv)
  have "j \<notin> set (jobs (demo_store []))" by (simp add: demo_defs)
  from fanout_children_pinned [OF r(1) j(1) this]
  have "jget ''fanout'' (j_spec j) = JUndef \<and> jget ''device_id'' (jget ''targets'' (j_spec j)) = JStr ''d1''"
    by (auto simp: demo_defs)
  with j show ?thesis by blast
qed

section \<open>\<open>latest\<close>\<close>

text \<open>A spec that asks for the latest build of an app is given the hash of a build of that app that
  was not published from a pull request, such that no other such build was published later; a refusal
  means that there is none.\<close>

theorem latest_is_newest_merged:
  "case latest_build s app of
     None \<Rightarrow> list_all (\<lambda>a. \<not> (a_app a = Some app \<and> a_channel a \<noteq> Some ''pr'')) (artifacts s)
   | Some b \<Rightarrow> b \<in> set (artifacts s) \<and> a_app b = Some app \<and> a_channel b \<noteq> Some ''pr'' \<and>
       (\<exists>n < length (artifacts s). b = artifacts s ! n \<and>
         (\<forall>m < length (artifacts s). a_app (artifacts s ! m) = Some app \<and> a_channel (artifacts s ! m) \<noteq> Some ''pr'' \<longrightarrow>
            publish_rank m (artifacts s ! m) \<le> publish_rank n b))"
proof -
  let ?p = "\<lambda>(n :: nat, a). a_app a = Some app \<and> a_channel a \<noteq> Some ''pr''"
  let ?rows = "List.enumerate 0 (artifacts s)"
  have rows: "(n, a) \<in> set ?rows \<longleftrightarrow> n < length (artifacts s) \<and> a = artifacts s ! n" for n a
    by (auto simp: in_set_enumerate_eq)
  have "filter (\<lambda>(_, a). a_channel a \<noteq> Some ''pr'') (app_builds s app) = filter ?p ?rows"
    unfolding app_builds_def filter_filter by (rule filter_cong) auto
  then have l: "latest_build s app = map_option snd (build_choice (filter ?p ?rows))"
    by (simp add: latest_build_def newest_choice)
  show ?thesis
  proof (cases "build_choice (filter ?p ?rows)")
    case None
    with latest_choice.pick_None [of ?p ?rows] have no: "\<forall>x \<in> set ?rows. \<not> ?p x" by blast
    have "\<not> (a_app a = Some app \<and> a_channel a \<noteq> Some ''pr'')" if a: "a \<in> set (artifacts s)" for a
    proof -
      from a obtain n where "n < length (artifacts s)" "a = artifacts s ! n" by (auto simp: in_set_conv_nth)
      with no rows [of n a] show ?thesis by fastforce
    qed
    with None l show ?thesis by (simp add: list_all_iff)
  next
    case (Some x)
    obtain n b where x: "x = (n, b)" by fastforce
    from latest_choice.pick_Some [OF Some] have c: "x \<in> set ?rows" "?p x"
      "\<forall>y \<in> set ?rows. ?p y \<longrightarrow> - publish_rank (fst x) (snd x) \<le> - publish_rank (fst y) (snd y)" by blast+
    have n: "n < length (artifacts s)" "b = artifacts s ! n" using c(1) x rows by auto
    have "publish_rank m (artifacts s ! m) \<le> publish_rank n b"
      if "m < length (artifacts s)" "a_app (artifacts s ! m) = Some app \<and> a_channel (artifacts s ! m) \<noteq> Some ''pr''" for m
      using c(3) that rows [of m "artifacts s ! m"] x by fastforce
    with Some l x n c(2) show ?thesis by auto
  qed
qed

definition demo_build :: "string \<Rightarrow> int \<Rightarrow> string option \<Rightarrow> artifact" where
  "demo_build sha seq channel =
     \<lparr>a_sha256 = sha, a_name = None, a_size = 1, a_created_at = 0, a_app = Some ''app'', a_build = None,
      a_platform = None, a_media_type = None, a_published_at = None, a_publish_seq = Some seq,
      a_channel = channel, a_pinned = False, a_pin_reason = None\<rparr>"

theorem latest_is_newest_merged_witness:
  "latest_build (empty_store\<lparr>artifacts := [demo_build ''x'' 1 None, demo_build ''y'' 3 (Some ''pr''), demo_build ''z'' 2 None]\<rparr>) ''app''
     = Some (demo_build ''z'' 2 None) \<and>
   a_channel (demo_build ''z'' 2 None) \<noteq> Some ''pr''"
proof -
  let ?s = "empty_store\<lparr>artifacts := [demo_build ''x'' 1 None, demo_build ''y'' 3 (Some ''pr''), demo_build ''z'' 2 None]\<rparr>"
  have "latest_build ?s ''app'' = Some (demo_build ''z'' 2 None)" by code_simp
  with latest_is_newest_merged [where s = ?s and app = "''app''"] show ?thesis by simp
qed

section \<open>Match expressions\<close>

text \<open>
  Properties of the languages the collector reads from its users.
\<close>




end
