(* ===== verification/Alerts.thy ===== *)
theory Alerts
  imports Registry Cron Skip_Status
begin

text \<open>
  The alert engine (\<open>alerts.ts\<close>): the rules, which read the store and say what is wrong now, and the
  reconcile pass, which folds that into the table of alerts. An alert is a state: one row per
  condition while it holds. The numbers in messages and thresholds are exact rationals.
\<close>

section \<open>Settings\<close>

record alert_finding =
  af_rule :: string
  af_subject :: string
  af_critical :: bool
  af_message :: string

definition warning :: "string \<Rightarrow> string \<Rightarrow> string \<Rightarrow> alert_finding" where
  "warning rule subject message =
     \<lparr>af_rule = rule, af_subject = subject, af_critical = False, af_message = message\<rparr>"

record thresholds =
  th_offline_s :: rat
  th_late_s :: rat
  th_stuck_multiple :: rat
  th_low_battery :: rat
  th_db_bytes :: rat
  th_log_bytes :: rat
  th_regression_pct :: rat
  th_regression_days :: rat
  th_regression_min :: rat
  th_skip_streak :: int

text \<open>A positive number from the process environment, or the default.\<close>

definition env_setting :: "(string \<Rightarrow> string option) \<Rightarrow> string \<Rightarrow> rat \<Rightarrow> rat" where
  "env_setting getenv name fallback =
     (case getenv name of
        None \<Rightarrow> fallback
      | Some v \<Rightarrow> (case str_number v of Fin r \<Rightarrow> if r > 0 then r else fallback | _ \<Rightarrow> fallback))"

definition thresholds_of :: "(string \<Rightarrow> string option) \<Rightarrow> thresholds" where
  "thresholds_of getenv =
     \<lparr>th_offline_s = env_setting getenv ''FLEET_ALERT_DEVICE_OFFLINE_S'' (15 * 60),
      th_late_s = env_setting getenv ''FLEET_ALERT_SCHEDULE_LATE_S'' (5 * 60),
      th_stuck_multiple = env_setting getenv ''FLEET_ALERT_STUCK_LEASE_MULTIPLE'' 2,
      th_low_battery = env_setting getenv ''FLEET_ALERT_LOW_BATTERY_PCT'' 15,
      th_db_bytes = env_setting getenv ''FLEET_ALERT_DB_BYTES'' (2 * 1024 * 1024 * 1024),
      th_log_bytes = env_setting getenv ''FLEET_ALERT_LOG_BYTES'' (200 * 1024 * 1024),
      th_regression_pct = env_setting getenv ''FLEET_ALERT_REGRESSION_PCT'' 10,
      th_regression_days = env_setting getenv ''FLEET_ALERT_REGRESSION_DAYS'' 7,
      th_regression_min = env_setting getenv ''FLEET_ALERT_REGRESSION_MIN_SAMPLES'' 4,
      th_skip_streak = round_half_up (env_setting getenv ''FLEET_ALERT_SKIP_STREAK'' 3)\<rparr>"

text \<open>\<open>r.toFixed(f)\<close>, below 1e21.\<close>

definition to_fixed :: "nat \<Rightarrow> rat \<Rightarrow> string" where
  "to_fixed f r =
     (let n = nat \<lfloor>\<bar>r\<bar> * 10 ^ f + 1 / 2\<rfloor>; fp = nat_str (n mod 10 ^ f)
      in (if r < 0 then ''-'' else []) @ nat_str (n div 10 ^ f) @
         (if f = 0 then [] else ''.'' @ replicate (f - length fp) CHR ''0'' @ fp))"

definition minutes_text :: "int \<Rightarrow> string" where
  "minutes_text seconds = int_str (round_half_up (of_int seconds / 60))"

section \<open>Devices\<close>

record beacon_fields =
  bf_battery_pct :: "jsnum option"
  bf_charging :: "bool option"
  bf_thermal :: "string option"
  bf_mem_mb :: "jsnum option"
  bf_mem_method :: "string option"
  bf_process_alive :: "bool option"
  bf_job_id :: "string option"
  bf_busy :: "busy_claim option"

definition num_field :: "js \<Rightarrow> jsnum option" where
  "num_field v = (case v of JNum n \<Rightarrow> Some n | _ \<Rightarrow> None)"

definition bool_field :: "js \<Rightarrow> bool option" where
  "bool_field v = (case v of JBool b \<Rightarrow> Some b | _ \<Rightarrow> None)"

text \<open>\<open>beaconFields\<close>: the payload sits under \<open>beacon\<close>, or at the top level in older rows.\<close>

definition beacon_fields_of :: "js option \<Rightarrow> beacon_fields option" where
  "beacon_fields_of sample =
     (case sample of
        None \<Rightarrow> None
      | Some v \<Rightarrow>
          if \<not> truthy v then None
          else let b = jor (jget ''beacon'' v) v in
            Some \<lparr>bf_battery_pct = num_field (jget ''battery_pct'' b), bf_charging = bool_field (jget ''charging'' b),
                  bf_thermal = str_of (jget ''thermal'' b),
                  bf_mem_mb = coalesce (num_field (jget ''mem_mb'' b)) (num_field (jget ''pss_mb'' b)),
                  bf_mem_method = str_of (jget ''mem_method'' b),
                  bf_process_alive = bool_field (jget ''process_alive'' b),
                  bf_job_id = str_of (jget ''job_id'' v), bf_busy = busy_fields b\<rparr>)"

definition named :: "device \<Rightarrow> bool" where
  "named d \<longleftrightarrow> d_name d \<noteq> None \<and> d_name d \<noteq> Some []"

definition device_label :: "device \<Rightarrow> string" where
  "device_label d = (if named d then the (d_name d) @ '' ('' @ d_id d @ '')'' else d_id d)"

definition low_battery :: "thresholds \<Rightarrow> beacon_fields \<Rightarrow> bool" where
  "low_battery th b \<longleftrightarrow>
     (case bf_battery_pct b of
        None \<Rightarrow> False
      | Some pct \<Rightarrow> num_le (Fin 0) pct \<and> num_lt pct (Fin (th_low_battery th)) \<and> bf_charging b = Some False)"

definition device_alerts :: "env \<Rightarrow> thresholds \<Rightarrow> device \<Rightarrow> alert_finding list" where
  "device_alerts e th d =
     (let age_s = age e (d_last_seen d); label = device_label d; b = beacon_fields_of (d_last_beacon d) in
      if is_expired d (Some age_s) then []
      else if of_int age_s > th_offline_s th then
        (if named d
         then [warning ''device-offline'' (d_id d) (label @ '' has not checked in for '' @ minutes_text age_s @ '' min'')]
         else [])
      else
        (if map_option bf_thermal b = Some (Some ''critical'')
         then [\<lparr>af_rule = ''thermal-critical'', af_subject = d_id d, af_critical = True,
                 af_message = label @ '' is thermally critical''\<rparr>]
         else []) @
        (if ''personal'' \<in> set (effective_pools d) then []
         else case b of
           None \<Rightarrow> []
         | Some f \<Rightarrow>
             if low_battery th f
             then [warning ''low-battery'' (d_id d)
                     (label @ '' is at '' @ num_str (the (bf_battery_pct f)) @ ''% and not charging'')]
             else []))"

section \<open>Jobs\<close>

definition failed_alerts :: "env \<Rightarrow> store \<Rightarrow> alert_finding list" where
  "failed_alerts e s =
     map (\<lambda>j. warning ''job-failed'' (j_id j)
            (j_workload j @ '' job '' @ j_id j @ '' failed after '' @ int_str (j_attempts j) @ ''/'' @
             int_str (j_max_attempts j) @
             (case j_last_error j of Some x \<Rightarrow> if x = [] then [] else '': '' @ x | None \<Rightarrow> [])))
       (filter (\<lambda>j. j_status j = Failed \<and>
            (case j_finished_at j of Some t \<Rightarrow> t \<ge> e_now e - 24 * 3600 | None \<Rightarrow> False)) (jobs s))"

definition held_s :: "env \<Rightarrow> job \<Rightarrow> int" where
  "held_s e j = (case j_claimed_at j of None \<Rightarrow> 0 | Some t \<Rightarrow> age e t)"

definition is_stuck :: "env \<Rightarrow> thresholds \<Rightarrow> store \<Rightarrow> job \<Rightarrow> bool" where
  "is_stuck e th s j \<longleftrightarrow>
     j_status j = Claimed \<and> j_claimed_at j \<noteq> None \<and> \<not> list_ex (\<lambda>r. r_job_id r = j_id j) (results s) \<and>
     of_int (held_s e j) > of_int (j_lease_ttl_s j) * th_stuck_multiple th"

definition stuck_alerts :: "env \<Rightarrow> thresholds \<Rightarrow> store \<Rightarrow> alert_finding list" where
  "stuck_alerts e th s =
     map (\<lambda>j. warning ''job-stuck'' (j_id j)
            (j_workload j @ '' job '' @ j_id j @ '' has been claimed by '' @
             (case j_claimed_by j of None \<Rightarrow> ''?'' | Some c \<Rightarrow> c) @ '' for '' @ minutes_text (held_s e j) @
             '' min with no results''))
       (filter (is_stuck e th s) (jobs s))"

section \<open>Regressions\<close>

record watched =
  w_workload :: string
  w_metric :: string
  w_lower_is_worse :: bool
  w_label :: string

definition WATCHED :: "watched list" where
  "WATCHED =
     [\<lparr>w_workload = ''benchmark'', w_metric = ''decode_tok_s'', w_lower_is_worse = True, w_label = ''decode throughput''\<rparr>,
      \<lparr>w_workload = ''cold-start'', w_metric = ''launch_ms'', w_lower_is_worse = False, w_label = ''cold launch time''\<rparr>,
      \<lparr>w_workload = ''batch'', w_metric = ''top1_pct'', w_lower_is_worse = True, w_label = ''top-1 accuracy''\<rparr>]"

definition median :: "rat list \<Rightarrow> rat" where
  "median xs =
     (let s = sort xs; mid = length s div 2 in
      if length s mod 2 = 1 then s ! mid else (s ! (mid - 1) + s ! mid) / 2)"

text \<open>\<open>json_extract(x) = 1\<close> and \<open>= 0\<close>: SQLite reads \<open>true\<close> as 1 and \<open>false\<close> as 0.\<close>

definition sql_one :: "js \<Rightarrow> bool" where
  "sql_one v \<longleftrightarrow> v = JBool True \<or> v = JInt 1"

definition sql_zero :: "js \<Rightarrow> bool" where
  "sql_zero v \<longleftrightarrow> v = JBool False \<or> v = JInt 0"

definition metric_of :: "watched \<Rightarrow> result_row \<Rightarrow> js" where
  "metric_of w r = jget (w_metric w) (jget ''metrics'' (r_payload r))"

definition is_sample :: "env \<Rightarrow> thresholds \<Rightarrow> store \<Rightarrow> watched \<Rightarrow> result_row \<Rightarrow> bool" where
  "is_sample e th s w r \<longleftrightarrow>
     map_option j_workload (find_job (r_job_id r) s) = Some (w_workload w) \<and>
     sql_one (jget ''final'' (r_payload r)) \<and> \<not> sql_zero (jget ''ok'' (r_payload r)) \<and>
     \<not> nullish (metric_of w r) \<and>
     of_int (r_created_at r) \<ge> (of_int (e_now e) :: rat) - (th_regression_days th + 1) * 86400"

text \<open>Newest first; rows of one second in the reverse of their insertion.\<close>

definition samples :: "env \<Rightarrow> thresholds \<Rightarrow> store \<Rightarrow> watched \<Rightarrow> result_row list" where
  "samples e th s w = sort_key (\<lambda>r. - r_created_at r) (rev (filter (is_sample e th s w) (results s)))"

record sample_group =
  g_latest :: rat
  g_history :: "rat list"
  g_device :: id
  g_label :: string

definition group_key :: "store \<Rightarrow> watched \<Rightarrow> result_row \<Rightarrow> string" where
  "group_key s w r =
     (let spec = (case find_job (r_job_id r) s of Some j \<Rightarrow> j_spec j | None \<Rightarrow> JUndef); model = jget ''model'' spec
      in join ''|'' [r_device_id r, w_metric w, js_string (jor (jget ''name'' model) (JStr [])),
           js_string (jor (jget ''quant'' model) (JStr [])), js_string (jor (jget ''backend'' spec) (JStr []))])"

definition group_label :: "store \<Rightarrow> result_row \<Rightarrow> string" where
  "group_label s r =
     (let spec = (case find_job (r_job_id r) s of Some j \<Rightarrow> j_spec j | None \<Rightarrow> JUndef); model = jget ''model'' spec
      in join '' '' (map js_string (filter truthy [jget ''name'' model, jget ''quant'' model, jget ''backend'' spec])))"

definition add_sample ::
  "store \<Rightarrow> watched \<Rightarrow> result_row \<Rightarrow> (string \<times> sample_group) list \<Rightarrow> (string \<times> sample_group) list" where
  "add_sample s w r gs =
     (case js_number (metric_of w r) of
        Fin v \<Rightarrow>
          let k = group_key s w r in
          if map_of gs k = None
          then gs @ [(k, \<lparr>g_latest = v, g_history = [], g_device = r_device_id r, g_label = group_label s r\<rparr>)]
          else map (\<lambda>(l, g). if l = k then (l, g\<lparr>g_history := g_history g @ [v]\<rparr>) else (l, g)) gs
      | _ \<Rightarrow> gs)"

definition groups :: "env \<Rightarrow> thresholds \<Rightarrow> store \<Rightarrow> watched \<Rightarrow> (string \<times> sample_group) list" where
  "groups e th s w = fold (add_sample s w) (samples e th s w) []"

definition delta_pct :: "sample_group \<Rightarrow> rat" where
  "delta_pct g = (g_latest g - median (g_history g)) / median (g_history g) * 100"

definition regressed :: "thresholds \<Rightarrow> watched \<Rightarrow> sample_group \<Rightarrow> bool" where
  "regressed th w g \<longleftrightarrow>
     of_nat (length (g_history g)) \<ge> th_regression_min th \<and> g_history g \<noteq> [] \<and> median (g_history g) \<noteq> 0 \<and>
     (if w_lower_is_worse w then delta_pct g \<le> - th_regression_pct th else delta_pct g \<ge> th_regression_pct th)"

definition regression_alert :: "thresholds \<Rightarrow> watched \<Rightarrow> sample_group \<Rightarrow> alert_finding" where
  "regression_alert th w g =
     warning (w_workload w @ ''-regressed'') (g_device g @ ''|'' @ w_metric w @ ''|'' @ g_label g)
       (w_label w @ '' on '' @ g_device g @ (if g_label g = [] then [] else '' ('' @ g_label g @ '')'') @ '' is '' @
        to_fixed 0 \<bar>delta_pct g\<bar> @ ''% '' @ (if w_lower_is_worse w then ''below'' else ''above'') @ '' its '' @
        rat_str (th_regression_days th) @ ''-day median ('' @ to_fixed 1 (g_latest g) @ '' vs '' @
        to_fixed 1 (median (g_history g)) @ '', '' @ nat_str (length (g_history g)) @ '' prior runs)'')"

definition regression_alerts :: "env \<Rightarrow> thresholds \<Rightarrow> store \<Rightarrow> alert_finding list" where
  "regression_alerts e th s =
     concat (map (\<lambda>w. map (regression_alert th w) (filter (regressed th w) (map snd (groups e th s w)))) WATCHED)"

section \<open>Schedules\<close>

text \<open>\<open>id.split("--")[0]\<close>\<close>

fun before_dashes :: "string \<Rightarrow> string" where
  "before_dashes [] = []"
| "before_dashes [c] = [c]"
| "before_dashes (c # d # s) = (if c = CHR ''-'' \<and> d = CHR ''-'' then [] else c # before_dashes (d # s))"

text \<open>The id of a run, \<open><schedule>-<YYYYMMDDHHMM>\<close>, or of a child of one.\<close>

definition own_run :: "id \<Rightarrow> id \<Rightarrow> bool" where
  "own_run sid i \<longleftrightarrow>
     starts_with (sid @ ''-'') i \<and>
     (let rest = drop (length sid + 1) i; tail = drop 12 rest in
      12 \<le> length rest \<and> list_all is_digit (take 12 rest) \<and>
      (tail = [] \<or> (starts_with ''--'' tail \<and> \<not> list_ex (\<lambda>c. code c = 10 \<or> code c = 13) tail)))"

record schedule_run =
  sr_run :: id
  sr_skipped :: bool
  sr_reasons :: "string list"

definition run_rows :: "id \<Rightarrow> store \<Rightarrow> job list" where
  "run_rows sid s = sort_key j_id (filter (\<lambda>j. own_run sid (j_id j)) (jobs s))"

definition rows_of_run :: "id \<Rightarrow> store \<Rightarrow> id \<Rightarrow> job list" where
  "rows_of_run sid s k = filter (\<lambda>j. before_dashes (j_id j) = k) (run_rows sid s)"

definition run_finished :: "job list \<Rightarrow> bool" where
  "run_finished rows = list_all (\<lambda>j. j_status j \<in> {Done, Failed, Cancelled, Skipped}) rows"

definition run_skipped :: "job list \<Rightarrow> bool" where
  "run_skipped rows \<longleftrightarrow>
     Done \<notin> j_status ` set rows \<and> Failed \<notin> j_status ` set rows \<and> Skipped \<in> j_status ` set rows"

definition run_reasons :: "job list \<Rightarrow> string list" where
  "run_reasons rows =
     List.map_filter (\<lambda>j. if j_status j = Skipped \<and> j_last_error j \<noteq> Some [] then j_last_error j else None) rows"

text \<open>The finished runs of a schedule, newest id first.\<close>

definition schedule_runs :: "id \<Rightarrow> store \<Rightarrow> schedule_run list" where
  "schedule_runs sid s =
     map (\<lambda>k. \<lparr>sr_run = k, sr_skipped = run_skipped (rows_of_run sid s k), sr_reasons = run_reasons (rows_of_run sid s k)\<rparr>)
       (rev (sort (filter (\<lambda>k. run_finished (rows_of_run sid s k))
          (nub (map (\<lambda>j. before_dashes (j_id j)) (run_rows sid s))))))"

definition missed_alert :: "env \<Rightarrow> thresholds \<Rightarrow> schedule \<Rightarrow> alert_finding list" where
  "missed_alert e th r =
     (case (prev_run (e_tz_min e) (s_cron r) (e_now e div 60), s_last_run r) of
        (Some m, Some lr) \<Rightarrow>
          let due = minute_key (local_date_of (e_tz_min e) m) in
          if lr \<noteq> due \<and> of_int (e_now e - 60 * m) > th_late_s th
          then [warning ''schedule-missed'' (s_id r)
                  (''schedule '' @ s_id r @ '' should have fired at '' @ due @ '' and did not'')]
          else []
      | _ \<Rightarrow> [])"

definition streak_of :: "thresholds \<Rightarrow> nat" where
  "streak_of th = nat (max 1 (th_skip_streak th))"

definition skipping_reason :: "schedule_run list \<Rightarrow> string" where
  "skipping_reason recent =
     (let reasons = map (\<lambda>r. skip_reason_text (case sr_reasons r of [] \<Rightarrow> None | x # _ \<Rightarrow> Some x)) recent;
          ds = nub reasons
      in if length ds = 1 then hd ds
         else hd reasons @ '' (the latest of '' @ nat_str (length ds) @ '' different reasons)'')"

definition skipping_alert :: "thresholds \<Rightarrow> store \<Rightarrow> schedule \<Rightarrow> alert_finding list" where
  "skipping_alert th s r =
     (let streak = streak_of th; recent = take streak (schedule_runs (s_id r) s) in
      if length recent < streak \<or> \<not> list_all sr_skipped recent then []
      else [warning ''schedule-skipping'' (s_id r)
              (s_id r @ '' has skipped '' @ nat_str streak @ '' runs in a row: '' @ skipping_reason recent)])"

section \<open>The collector\<close>

text \<open>The dash of the first message is not an 8-bit character; it is written as two hyphens.\<close>

definition size_alerts :: "thresholds \<Rightarrow> nat \<Rightarrow> nat \<Rightarrow> alert_finding list" where
  "size_alerts th db_bytes log_bytes =
     (if of_nat db_bytes > th_db_bytes th
      then [warning ''db-size'' ''collector''
              (''the database is '' @ to_fixed 1 (of_nat db_bytes / 10 ^ 9) @ '' GB -- prune beacons on the System screen'')]
      else []) @
     (if of_nat log_bytes > th_log_bytes th
      then [warning ''log-size'' ''collector''
              (''the log is '' @ to_fixed 0 (of_nat log_bytes / 10 ^ 6) @ '' MB and launchd does not rotate it'')]
      else [])"

definition evaluate :: "env \<Rightarrow> thresholds \<Rightarrow> nat \<Rightarrow> nat \<Rightarrow> store \<Rightarrow> alert_finding list" where
  "evaluate e th db_bytes log_bytes s =
     concat (map (device_alerts e th) (devices s)) @ failed_alerts e s @ stuck_alerts e th s @
     regression_alerts e th s @ concat (map (missed_alert e th) (filter s_enabled (schedules s))) @
     concat (map (skipping_alert th s) (filter s_enabled (schedules s))) @ size_alerts th db_bytes log_bytes"

section \<open>The table of alerts\<close>

datatype alert_state = Open | Acked | Snoozed | Resolved

record alert =
  al_id :: nat
  al_rule :: string
  al_subject :: string
  al_critical :: bool
  al_message :: string
  al_state :: alert_state
  al_first_seen :: int
  al_last_seen :: int
  al_resolved_at :: "int option"
  al_snooze_until :: "int option"
  al_seen_count :: nat
  al_notified :: bool

text \<open>
  The source joins rule and subject with a NUL, which neither contains; here the key is the pair.
  Rows are never deleted, so the ids that \<open>AUTOINCREMENT\<close> gives count the rows.
\<close>

type_synonym alert_key = "string \<times> string"

definition alert_key :: "alert \<Rightarrow> alert_key" where
  "alert_key a = (al_rule a, al_subject a)"

definition finding_key :: "alert_finding \<Rightarrow> alert_key" where
  "finding_key f = (af_rule f, af_subject f)"

text \<open>\<open>new Map(findings.map(f => [key(f), f]))\<close>: a later finding replaces an earlier one of its key, in
  its place.\<close>

definition put_current :: "alert_finding \<Rightarrow> alert_finding list \<Rightarrow> alert_finding list" where
  "put_current f fs =
     (if has_row finding_key (finding_key f) fs
      then update_row finding_key (finding_key f) (\<lambda>_. f) fs else fs @ [f])"

definition current_findings :: "alert_finding list \<Rightarrow> alert_finding list" where
  "current_findings fs = fold put_current fs []"

definition refresh_row :: "env \<Rightarrow> alert_finding \<Rightarrow> alert \<Rightarrow> alert" where
  "refresh_row e f a =
     a\<lparr>al_last_seen := e_now e, al_seen_count := al_seen_count a + 1, al_message := af_message f,
       al_critical := af_critical f\<rparr>"

definition resolve_row :: "env \<Rightarrow> alert \<Rightarrow> alert" where
  "resolve_row e a = a\<lparr>al_state := Resolved, al_resolved_at := Some (e_now e)\<rparr>"

text \<open>One row of the first loop: the findings still to be accounted for, and the table.\<close>

definition settle_alert ::
  "env \<Rightarrow> alert \<Rightarrow> alert_finding list \<times> alert list \<Rightarrow> alert_finding list \<times> alert list" where
  "settle_alert e a st =
     (case st of (current, table) \<Rightarrow>
        (case find_row finding_key (alert_key a) current of
           Some f \<Rightarrow> (delete_row finding_key (alert_key a) current, update_row al_id (al_id a) (refresh_row e f) table)
         | None \<Rightarrow> (current, update_row al_id (al_id a) (resolve_row e) table)))"

definition new_alert :: "env \<Rightarrow> nat \<Rightarrow> alert_finding \<Rightarrow> alert" where
  "new_alert e n f =
     \<lparr>al_id = n, al_rule = af_rule f, al_subject = af_subject f, al_critical = af_critical f,
      al_message = af_message f, al_state = Open, al_first_seen = e_now e, al_last_seen = e_now e,
      al_resolved_at = None, al_snooze_until = None, al_seen_count = 1, al_notified = False\<rparr>"

fun open_alerts :: "env \<Rightarrow> alert_finding list \<Rightarrow> alert list \<Rightarrow> alert list \<times> alert list" where
  "open_alerts e [] table = ([], table)"
| "open_alerts e (f # fs) table =
     (let a = new_alert e (Suc (length table)) f; (opened, table') = open_alerts e fs (table @ [a])
      in (a # opened, table'))"

definition reconcile :: "env \<Rightarrow> alert_finding list \<Rightarrow> alert list \<Rightarrow> alert list \<times> alert list" where
  "reconcile e fs table =
     (let (current, table1) = fold (settle_alert e) (filter (\<lambda>a. al_state a \<noteq> Resolved) table) (current_findings fs, table)
      in open_alerts e current table1)"

definition expire_snooze_row :: "env \<Rightarrow> alert \<Rightarrow> alert" where
  "expire_snooze_row e a =
     (if al_state a = Snoozed \<and> (case al_snooze_until a of Some t \<Rightarrow> t \<le> e_now e | None \<Rightarrow> False)
      then a\<lparr>al_state := Open, al_snooze_until := None\<rparr> else a)"

definition expire_snoozes :: "env \<Rightarrow> alert list \<Rightarrow> alert list" where
  "expire_snoozes e table = map (expire_snooze_row e) table"

definition mark_notified :: "alert list \<Rightarrow> alert list \<Rightarrow> alert list" where
  "mark_notified opened table =
     fold (\<lambda>a. update_row al_id (al_id a) (\<lambda>x. x\<lparr>al_notified := True\<rparr>)) opened table"

text \<open>One tick: what it notifies about, and the table after it.\<close>

definition alert_tick ::
  "env \<Rightarrow> thresholds \<Rightarrow> nat \<Rightarrow> nat \<Rightarrow> store \<Rightarrow> alert list \<Rightarrow> alert list \<times> alert list" where
  "alert_tick e th db_bytes log_bytes s table =
     (let (opened, table') = reconcile e (evaluate e th db_bytes log_bytes s) (expire_snoozes e table)
      in (opened, mark_notified opened table'))"

definition edit_alert :: "nat \<Rightarrow> (alert \<Rightarrow> alert) \<Rightarrow> alert list \<Rightarrow> refusal + alert list" where
  "edit_alert n f table =
     (case find_row al_id n table of
        Some a \<Rightarrow> if al_state a \<noteq> Resolved then Inr (update_row al_id n f table)
                  else Inl (404, ''no open alert with that id'')
      | None \<Rightarrow> Inl (404, ''no open alert with that id''))"

definition ack_alert :: "nat \<Rightarrow> alert list \<Rightarrow> refusal + alert list" where
  "ack_alert n = edit_alert n (\<lambda>a. a\<lparr>al_state := Acked\<rparr>)"

definition snooze_alert :: "env \<Rightarrow> nat \<Rightarrow> js \<Rightarrow> alert list \<Rightarrow> refusal + alert list" where
  "snooze_alert e n body table =
     (case js_number (jor (jget ''minutes'' body) (JInt 60)) of
        Fin m \<Rightarrow>
          if m < 1 then Inl (400, ''minutes must be >= 1'')
          else edit_alert n (\<lambda>a. a\<lparr>al_state := Snoozed, al_snooze_until := Some (e_now e + 60 * round_half_up m)\<rparr>) table
      | _ \<Rightarrow> Inl (400, ''minutes must be >= 1''))"

end
