(* ===== verification/Alert_Laws.thy ===== *)
theory Alert_Laws
  imports Alerts
begin

text \<open>
  What a reconcile pass does to the table of alerts, as a function of the table; the invariant of the
  table; and the runs of a schedule whose id holds two dashes.
\<close>

section \<open>Findings by key\<close>

interpretation put_row: row_update finding_key "\<lambda>x. if finding_key x = finding_key f then f else x" for f
  by unfold_locales simp

lemma put_current_keys:
  "distinct (map finding_key fs) \<Longrightarrow> distinct (map finding_key (put_current f fs))"
  "finding_key ` set (put_current f fs) = insert (finding_key f) (finding_key ` set fs)"
proof -
  have u: "update_row finding_key (finding_key f) (\<lambda>_. f) fs =
      update_row finding_key (finding_key f) (\<lambda>x. if finding_key x = finding_key f then f else x) fs"
    by (simp add: update_row_def)
  have k: "map finding_key (update_row finding_key (finding_key f) (\<lambda>_. f) fs) = map finding_key fs"
    unfolding u by (rule put_row.keys_update)
  show "distinct (map finding_key fs) \<Longrightarrow> distinct (map finding_key (put_current f fs))"
    by (auto simp: put_current_def k has_row_iff)
  have "finding_key ` set (update_row finding_key (finding_key f) (\<lambda>_. f) fs) = finding_key ` set fs"
    using k by (metis list.set_map)
  then show "finding_key ` set (put_current f fs) = insert (finding_key f) (finding_key ` set fs)"
    by (auto simp: put_current_def has_row_iff)
qed

lemma current_findings_keys:
  "distinct (map finding_key (current_findings fs))"
  "finding_key ` set (current_findings fs) = finding_key ` set fs"
proof -
  have "distinct (map finding_key (fold put_current fs acc)) \<and>
      finding_key ` set (fold put_current fs acc) = finding_key ` set acc \<union> finding_key ` set fs"
    if "distinct (map finding_key acc)" for acc
    using that by (induction fs arbitrary: acc) (auto simp: put_current_keys)
  from this [of "[]"] show "distinct (map finding_key (current_findings fs))"
    "finding_key ` set (current_findings fs) = finding_key ` set fs"
    by (auto simp: current_findings_def)
qed

section \<open>The first loop\<close>

definition unresolved :: "alert list \<Rightarrow> alert list" where
  "unresolved table = filter (\<lambda>a. al_state a \<noteq> Resolved) table"

text \<open>What one pass writes for a row.\<close>

definition settled_row :: "env \<Rightarrow> alert_finding list \<Rightarrow> alert \<Rightarrow> alert" where
  "settled_row e current a =
     (if al_state a = Resolved then a
      else case find_row finding_key (alert_key a) current of
        Some f \<Rightarrow> refresh_row e f a
      | None \<Rightarrow> resolve_row e a)"

definition alert_inv :: "alert list \<Rightarrow> bool" where
  "alert_inv table \<longleftrightarrow>
     map al_id table = [1..<Suc (length table)] \<and> distinct (map alert_key (unresolved table))"

lemma row_keeps_id [simp]:
  "al_id (refresh_row e f a) = al_id a" "al_id (resolve_row e a) = al_id a" "al_id (settled_row e c a) = al_id a"
  "alert_key (refresh_row e f a) = alert_key a" "alert_key (resolve_row e a) = alert_key a"
  "alert_key (settled_row e c a) = alert_key a"
  by (auto simp: refresh_row_def resolve_row_def settled_row_def alert_key_def split: option.split)

lemma inv_ids: "alert_inv table \<Longrightarrow> distinct (map al_id table)"
  unfolding alert_inv_def by (metis distinct_upt)

lemma settle_loop:
  assumes "distinct (map al_id os)" "distinct (map alert_key os)" "distinct (map finding_key cur)"
  shows "fold (settle_alert e) os (cur, table) =
    (filter (\<lambda>f. finding_key f \<notin> alert_key ` set os) cur,
     map (\<lambda>r. case find_row al_id (al_id r) os of
            None \<Rightarrow> r
          | Some a \<Rightarrow> (case find_row finding_key (alert_key a) cur of Some f \<Rightarrow> refresh_row e f r | None \<Rightarrow> resolve_row e r))
       table)"
  using assms
proof (induction os arbitrary: cur table)
  case Nil
  then show ?case by (simp add: find_row_def)
next
  case (Cons a os)
  define cur' where "cur' = delete_row finding_key (alert_key a) cur"
  define h where "h = (case find_row finding_key (alert_key a) cur of Some f \<Rightarrow> refresh_row e f | None \<Rightarrow> resolve_row e)"
  have gone: "delete_row finding_key (alert_key a) cur = cur" if "find_row finding_key (alert_key a) cur = None"
    using that unfolding delete_row_def filter_id_conv find_row_None by (metis imageI)
  have step: "settle_alert e a (cur, table) = (cur', update_row al_id (al_id a) h table)"
    by (auto simp: settle_alert_def cur'_def h_def gone split: option.split)
  have hid: "al_id (h r) = al_id r" for r by (auto simp: h_def split: option.split)
  have d: "distinct (map finding_key cur')" using Cons.prems(3) by (simp add: cur'_def)
  have look: "find_row finding_key (alert_key b) cur' = find_row finding_key (alert_key b) cur" if "b \<in> set os" for b
    
  proof -
    have "alert_key b \<noteq> alert_key a" using that Cons.prems(2) by (metis distinct.simps(2) imageI list.set_map list.simps(9))
    then show ?thesis by (simp add: cur'_def row_simps)
  qed
  have fresh: "find_row al_id (al_id a) os = None" using Cons.prems(1) by (simp add: find_row_None)
  have 1: "filter (\<lambda>f. finding_key f \<notin> alert_key ` set os) cur' = filter (\<lambda>f. finding_key f \<notin> alert_key ` set (a # os)) cur"
    by (auto simp: cur'_def delete_row_def intro: filter_cong)
  have 2: "(case find_row al_id (al_id r') os of None \<Rightarrow> r'
       | Some b \<Rightarrow> (case find_row finding_key (alert_key b) cur' of Some f \<Rightarrow> refresh_row e f r' | None \<Rightarrow> resolve_row e r')) =
     (case find_row al_id (al_id r) (a # os) of None \<Rightarrow> r
       | Some b \<Rightarrow> (case find_row finding_key (alert_key b) cur of Some f \<Rightarrow> refresh_row e f r | None \<Rightarrow> resolve_row e r))"
    if r': "r' = (if al_id r = al_id a then h r else r)" for r r'
  proof (cases "al_id r = al_id a")
    case True
    with r' fresh hid show ?thesis by (auto simp: find_row_def h_def split: option.split)
  next
    case False
    then have "find_row al_id (al_id r) (a # os) = find_row al_id (al_id r) os" by (auto simp: find_row_def)
    with False r' look show ?thesis
      by (cases "find_row al_id (al_id r) os") (use find_row_SomeD in \<open>force+\<close>)
  qed
  show ?case
    unfolding fold_simps step Cons.IH [OF _ _ d] using Cons.prems(1,2) Cons.IH [OF _ _ d, of "update_row al_id (al_id a) h table"]
    by (simp only: distinct.simps list.map simp_thms 1 update_row_def map_map comp_def 2 [OF refl])
qed

lemma settle_all:
  assumes "alert_inv table"
  shows "fold (settle_alert e) (unresolved table) (current_findings fs, table) =
    (filter (\<lambda>f. finding_key f \<notin> alert_key ` set (unresolved table)) (current_findings fs),
     map (settled_row e (current_findings fs)) table)"
proof -
  have d: "distinct (map al_id table)" using assms by (rule inv_ids)
  then have o: "distinct (map al_id (unresolved table))" by (simp add: unresolved_def distinct_map_filter)
  have "find_row al_id (al_id r) (unresolved table) = (if al_state r = Resolved then None else Some r)"
    if r: "r \<in> set table" for r
  proof (cases "al_state r = Resolved")
    case True
    have "al_id r \<notin> al_id ` set (unresolved table)"
      using d r True by (auto simp: unresolved_def distinct_map inj_on_def)
    with True show ?thesis by (simp add: find_row_None)
  next
    case False
    with r have "r \<in> set (unresolved table)" by (simp add: unresolved_def)
    with False o show ?thesis by (simp add: find_row_in)
  qed
  then have "map (\<lambda>r. case find_row al_id (al_id r) (unresolved table) of None \<Rightarrow> r
       | Some a \<Rightarrow> (case find_row finding_key (alert_key a) (current_findings fs) of
             Some f \<Rightarrow> refresh_row e f r | None \<Rightarrow> resolve_row e r)) table =
      map (settled_row e (current_findings fs)) table"
    by (auto simp: settled_row_def)
  with settle_loop [OF o _ current_findings_keys(1), of e fs table] assms show ?thesis
    by (simp add: alert_inv_def)
qed

section \<open>The second loop\<close>

lemma open_alerts_eq:
  "open_alerts e fs table =
     (map (\<lambda>(n, f). new_alert e n f) (List.enumerate (Suc (length table)) fs),
      table @ map (\<lambda>(n, f). new_alert e n f) (List.enumerate (Suc (length table)) fs))"
  by (induction fs arbitrary: table) (simp_all add: Let_def)

definition opened_rows :: "env \<Rightarrow> alert_finding list \<Rightarrow> alert list \<Rightarrow> alert list" where
  "opened_rows e fs table =
     map (\<lambda>(n, f). new_alert e n f)
       (List.enumerate (Suc (length table))
          (filter (\<lambda>f. finding_key f \<notin> alert_key ` set (unresolved table)) (current_findings fs)))"

lemma reconcile_eq:
  assumes "alert_inv table"
  shows "reconcile e fs table =
    (opened_rows e fs table, map (settled_row e (current_findings fs)) table @ opened_rows e fs table)"
  using settle_all [OF assms, of e fs]
  by (simp add: reconcile_def open_alerts_eq opened_rows_def flip: unresolved_def)

lemma opened_keys:
  "map alert_key (opened_rows e fs table) =
     map finding_key (filter (\<lambda>f. finding_key f \<notin> alert_key ` set (unresolved table)) (current_findings fs))"
proof -
  have "map alert_key (map (\<lambda>(n, f). new_alert e n f) (List.enumerate k gs)) = map finding_key gs" for k gs
    by (induction gs arbitrary: k) (simp_all add: new_alert_def alert_key_def finding_key_def)
  then show ?thesis by (simp add: opened_rows_def)
qed

lemma opened_fields: "a \<in> set (opened_rows e fs table) \<Longrightarrow> al_state a = Open \<and> length table < al_id a"
  by (auto simp: opened_rows_def new_alert_def in_set_enumerate_eq)

lemma opened_ids: "map al_id (opened_rows e fs table) = [Suc (length table)..<Suc (length table + length (opened_rows e fs table))]"
proof -
  have "map al_id (map (\<lambda>(n, f). new_alert e n f) (List.enumerate k gs)) = [k..<k + length gs]" for k gs
    by (induction gs arbitrary: k) (simp_all add: new_alert_def upt_rec)
  from this [of "Suc (length table)"] show ?thesis by (simp add: opened_rows_def)
qed

lemma unresolved_settled:
  "unresolved (map (settled_row e cur) table) =
     map (settled_row e cur) (filter (\<lambda>a. alert_key a \<in> finding_key ` set cur) (unresolved table))"
proof -
  have "al_state (settled_row e cur a) \<noteq> Resolved \<longleftrightarrow> al_state a \<noteq> Resolved \<and> alert_key a \<in> finding_key ` set cur" for a
    by (auto simp: settled_row_def refresh_row_def resolve_row_def find_row_None split: option.split
        dest: find_row_SomeD) (metis find_row_None not_None_eq)
  then show ?thesis by (simp add: unresolved_def filter_map comp_def conj_commute)
qed

lemma unresolved_after:
  assumes "alert_inv table"
  shows "map alert_key (unresolved (snd (reconcile e fs table))) =
    map alert_key (filter (\<lambda>a. alert_key a \<in> finding_key ` set fs) (unresolved table)) @
    map finding_key (filter (\<lambda>f. finding_key f \<notin> alert_key ` set (unresolved table)) (current_findings fs))"
proof -
  have "unresolved (xs @ opened_rows e fs table) = unresolved xs @ opened_rows e fs table" for xs
    by (auto simp: unresolved_def filter_id_conv dest: opened_fields)
  then show ?thesis
    using reconcile_eq [OF assms, of e fs]
    by (simp add: unresolved_settled current_findings_keys(2) opened_keys comp_def)
qed

lemma reconcile_inv: "alert_inv table \<Longrightarrow> alert_inv (snd (reconcile e fs table))"
proof -
  assume inv: "alert_inv table"
  let ?m = "length (opened_rows e fs table)"
  have "map al_id (snd (reconcile e fs table)) = [1..<Suc (length table)] @ [Suc (length table)..<Suc (length table + ?m)]"
    using inv by (simp add: reconcile_eq [OF inv] opened_ids comp_def alert_inv_def del: upt_Suc)
  also have "\<dots> = [1..<Suc (length (snd (reconcile e fs table)))]"
    using upt_add_eq_append [of 1 "Suc (length table)" ?m] by (simp add: reconcile_eq [OF inv] del: upt_Suc)
  finally have ids: "map al_id (snd (reconcile e fs table)) = [1..<Suc (length (snd (reconcile e fs table)))]" .
  let ?old = "filter (\<lambda>a. alert_key a \<in> finding_key ` set fs) (unresolved table)"
    and ?new = "filter (\<lambda>f. finding_key f \<notin> alert_key ` set (unresolved table)) (current_findings fs)"
  have "set (map alert_key ?old) \<inter> set (map finding_key ?new) = {}"
    by auto (metis imageI)
  moreover have "distinct (map alert_key ?old)" "distinct (map finding_key ?new)"
    using inv current_findings_keys(1) [of fs] by (simp_all add: alert_inv_def distinct_map_filter)
  ultimately have "distinct (map alert_key (unresolved (snd (reconcile e fs table))))"
    by (simp add: unresolved_after [OF inv] del: set_map)
  with ids show ?thesis by (simp add: alert_inv_def)
qed

section \<open>A schedule whose id holds two dashes\<close>

lemma before_dashes_append: "contains ''--'' p \<Longrightarrow> before_dashes (p @ t) = before_dashes p"
proof (induction p rule: before_dashes.induct)
  case (3 c d s)
  show ?case
  proof (cases "c = CHR ''-'' \<and> d = CHR ''-''")
    case False
    with "3.prems" have "contains ''--'' (d # s)" by auto
    with False "3.IH" show ?thesis by auto
  qed auto
qed auto

lemma own_run_key:
  "contains ''--'' (sid @ ''-'') \<Longrightarrow> own_run sid i \<Longrightarrow> before_dashes i = before_dashes (sid @ ''-'')"
  by (auto simp: own_run_def starts_with_def prefix_def before_dashes_append simp flip: append_assoc)

lemma nub_constant: "\<forall>x \<in> set xs. x = c \<Longrightarrow> length (nub xs) \<le> 1"
proof (induction xs)
  case (Cons x xs)
  then have "filter (\<lambda>y. y \<noteq> x) (nub xs) = []" by (simp add: filter_empty_conv)
  then show ?case by simp
qed simp

lemma one_run:
  assumes "contains ''--'' (sid @ ''-'')"
  shows "length (schedule_runs sid s) \<le> 1"
proof -
  let ?keys = "nub (map (\<lambda>j. before_dashes (j_id j)) (run_rows sid s))"
  have "length ?keys \<le> 1"
    by (rule nub_constant [of _ "before_dashes (sid @ ''-'')"]) (auto simp: run_rows_def own_run_key [OF assms])
  moreover have "length (schedule_runs sid s) \<le> length ?keys" by (simp add: schedule_runs_def)
  ultimately show ?thesis by linarith
qed

end
