(* ===== verification/Alert_Properties.thy ===== *)
theory Alert_Properties
  imports Alert_Laws Examples
begin

text \<open>
  The properties of the alert engine: what a pass over the table of alerts opens, keeps and resolves,
  and which alerts are ever notified.
\<close>

lemma image_filter_keys: "g ` set (filter (\<lambda>x. g x \<notin> S) xs) = g ` set xs - S"
  by auto

lemma settled_row_found:
  assumes "alert_inv table" "a \<in> set table"
  shows "find_row al_id (al_id a) (snd (reconcile e fs table)) = Some (settled_row e (current_findings fs) a)"
proof -
  have "distinct (map al_id (snd (reconcile e fs table)))" using reconcile_inv [OF assms(1)] by (rule inv_ids)
  moreover have "settled_row e (current_findings fs) a \<in> set (snd (reconcile e fs table))"
    using assms(2) by (simp add: reconcile_eq [OF assms(1)])
  ultimately show ?thesis using find_row_in [of al_id _ "settled_row e (current_findings fs) a"] by simp
qed

text \<open>C14: after a pass the unresolved alerts are exactly the conditions that hold, one alert each, and the
  pass reports as new, and so notifies about, exactly the conditions that had no unresolved alert.\<close>

theorem reconcile_exact:
  assumes "alert_inv table"
  shows "alert_key ` set (unresolved (snd (reconcile e fs table))) = finding_key ` set fs \<and>
    distinct (map alert_key (unresolved (snd (reconcile e fs table)))) \<and>
    alert_key ` set (fst (reconcile e fs table)) = finding_key ` set fs - alert_key ` set (unresolved table) \<and>
    distinct (map alert_key (fst (reconcile e fs table)))"
proof -
  let ?old = "filter (\<lambda>a. alert_key a \<in> finding_key ` set fs) (unresolved table)"
  let ?new = "filter (\<lambda>f. finding_key f \<notin> alert_key ` set (unresolved table)) (current_findings fs)"
  have new: "finding_key ` set ?new = finding_key ` set fs - alert_key ` set (unresolved table)"
    unfolding image_filter_keys current_findings_keys(2) ..
  have old: "alert_key ` set ?old = finding_key ` set fs \<inter> alert_key ` set (unresolved table)" by auto
  have "alert_key ` set (unresolved (snd (reconcile e fs table))) = alert_key ` set ?old \<union> finding_key ` set ?new"
    using arg_cong [OF unresolved_after [OF assms, of e fs], of set] by simp
  also have "\<dots> = finding_key ` set fs" unfolding old new by auto
  finally have keys: "alert_key ` set (unresolved (snd (reconcile e fs table))) = finding_key ` set fs" .
  have opened: "map alert_key (fst (reconcile e fs table)) = map finding_key ?new"
    by (simp add: reconcile_eq [OF assms] opened_keys)
  have "alert_key ` set (fst (reconcile e fs table)) = finding_key ` set ?new"
    using arg_cong [OF opened, of set] by simp
  moreover have "distinct (map finding_key ?new)" using current_findings_keys(1) [of fs] by (rule distinct_map_filter)
  moreover have "distinct (map alert_key (unresolved (snd (reconcile e fs table))))"
    using reconcile_inv [OF assms] by (simp add: alert_inv_def)
  ultimately show ?thesis unfolding opened new by (simp add: keys)
qed

definition demo_alert :: "nat \<Rightarrow> string \<Rightarrow> alert_state \<Rightarrow> alert" where
  "demo_alert n subject st = (new_alert (demo_env 0) n (warning ''job-stuck'' subject ''m''))\<lparr>al_state := st\<rparr>"

definition demo_alerts :: "alert list" where
  "demo_alerts = [demo_alert 1 ''a'' Acked, demo_alert 2 ''b'' Open, demo_alert 3 ''c'' Resolved]"

lemma demo_alerts_inv: "alert_inv demo_alerts"
  by (simp add: alert_inv_def demo_alerts_def demo_alert_def unresolved_def alert_key_def new_alert_def warning_def)

theorem reconcile_exact_witness:
  "alert_key ` set (fst (reconcile (demo_env 9) [warning ''job-stuck'' ''a'' ''m'', warning ''job-stuck'' ''c'' ''m''] demo_alerts)) =
     {(''job-stuck'', ''c'')}"
  using reconcile_exact [OF demo_alerts_inv, of "demo_env 9" "[warning ''job-stuck'' ''a'' ''m'', warning ''job-stuck'' ''c'' ''m'']"]
  by (simp add: demo_alerts_def demo_alert_def unresolved_def alert_key_def finding_key_def new_alert_def warning_def)

text \<open>an alert that persists is never notified again and keeps what a person did to it. While its
  condition holds an unresolved alert keeps its state, its snooze and its mark of notification, only its
  wording and its count move; when the condition ends it is resolved, and a resolved row never changes.\<close>

theorem alert_persists:
  assumes "alert_inv table" "a \<in> set table"
  shows "case find_row al_id (al_id a) (snd (reconcile e fs table)) of
      None \<Rightarrow> False
    | Some a' \<Rightarrow>
        al_id a \<notin> al_id ` set (fst (reconcile e fs table)) \<and> alert_key a' = alert_key a \<and>
        al_first_seen a' = al_first_seen a \<and> al_notified a' = al_notified a \<and>
        (if al_state a = Resolved then a' = a
         else if alert_key a \<in> finding_key ` set fs
         then al_state a' = al_state a \<and> al_snooze_until a' = al_snooze_until a \<and> al_seen_count a' = al_seen_count a + 1
         else al_state a' = Resolved \<and> al_resolved_at a' = Some (e_now e))"
proof -
  have "set (map al_id table) = {1..<Suc (length table)}" using assms(1) by (simp add: alert_inv_def del: upt_Suc set_map)
  moreover have "al_id a \<in> set (map al_id table)" using assms(2) by simp
  ultimately have "al_id a \<le> length table" by simp
  then have fresh: "al_id a \<notin> al_id ` set (fst (reconcile e fs table))"
    by (auto simp: reconcile_eq [OF assms(1)] dest: opened_fields)
  have found: "(\<exists>f. find_row finding_key (alert_key a) (current_findings fs) = Some f) \<longleftrightarrow> alert_key a \<in> finding_key ` set fs"
    using find_row_None [of finding_key "alert_key a" "current_findings fs"] current_findings_keys(2) [of fs] by auto
  show ?thesis
    unfolding settled_row_found [OF assms]
    using fresh found
    by (auto simp: settled_row_def refresh_row_def resolve_row_def alert_key_def split: option.splits)
qed

theorem alert_persists_witness:
  "case find_row al_id 1 (snd (reconcile (demo_env 9) [warning ''job-stuck'' ''a'' ''later''] demo_alerts)) of
     None \<Rightarrow> False | Some a' \<Rightarrow> al_state a' = Acked \<and> al_seen_count a' = 2"
proof -
  have a: "demo_alert 1 ''a'' Acked \<in> set demo_alerts" by (simp add: demo_alerts_def)
  have f: "al_id (demo_alert 1 ''a'' Acked) = 1" "al_state (demo_alert 1 ''a'' Acked) = Acked"
    "al_seen_count (demo_alert 1 ''a'' Acked) = 1" "alert_key (demo_alert 1 ''a'' Acked) = (''job-stuck'', ''a'')"
    by (simp_all add: demo_alert_def new_alert_def alert_key_def warning_def)
  have k: "finding_key ` set [warning ''job-stuck'' ''a'' ''later''] = {(''job-stuck'', ''a'')}"
    by (simp add: finding_key_def warning_def)
  from alert_persists [OF demo_alerts_inv a, of "demo_env 9" "[warning ''job-stuck'' ''a'' ''later'']", unfolded f k]
  show ?thesis by (auto split: option.splits)
qed

text \<open>A schedule whose id holds two dashes in a row, or ends in one, is never reported as skipping
  while more than one skip is asked for: every run of it is taken for the same run, because the run is
  what stands before the first two dashes of a job's id.\<close>

theorem dashed_schedule_never_skips:
  assumes "contains ''--'' (s_id r @ ''-'')" "1 < streak_of th"
  shows "skipping_alert th s r = []"
  using one_run [OF assms(1), of s] assms(2) by (simp add: skipping_alert_def Let_def)

definition demo_thresholds :: thresholds where
  "demo_thresholds = thresholds_of (\<lambda>_. None)"

definition demo_schedule :: "id \<Rightarrow> schedule" where
  "demo_schedule i = \<lparr>s_id = i, s_cron = ''* * * * *'', s_template = JObj [], s_enabled = True, s_last_run = None\<rparr>"

definition skipped_run :: "id \<Rightarrow> string \<Rightarrow> job" where
  "skipped_run i minute = (queued_job (i @ ''-'' @ minute) 0 0)\<lparr>j_status := Skipped\<rparr>"

definition three_skips :: "id \<Rightarrow> store" where
  "three_skips i = demo_store [skipped_run i ''202601010100'', skipped_run i ''202601020100'', skipped_run i ''202601030100'']"

theorem dashed_schedule_never_skips_witness:
  "skipping_alert demo_thresholds (three_skips ''tv--app'') (demo_schedule ''tv--app'') = [] \<and>
   length (skipping_alert demo_thresholds (three_skips ''tv-app'') (demo_schedule ''tv-app'')) = 1"
proof
  have s: "s_id (demo_schedule ''tv--app'') = ''tv--app''" by (simp add: demo_schedule_def)
  have c: "contains ''--'' (''tv--app'' @ ''-'')" "1 < streak_of demo_thresholds" by code_simp+
  show "skipping_alert demo_thresholds (three_skips ''tv--app'') (demo_schedule ''tv--app'') = []"
    by (rule dashed_schedule_never_skips [OF _ c(2)]) (simp add: s c(1) del: append.simps)
  show "length (skipping_alert demo_thresholds (three_skips ''tv-app'') (demo_schedule ''tv-app'')) = 1" by code_simp
qed

end
