(* ===== verification/Findings.thy ===== *)
theory Findings
  imports Registry Skip_Status
begin

text \<open>
  Night QA findings (\<open>findings.ts\<close>): what an exploration posts, how it is checked and folded into the
  ledger, the issue it would file, a person's verdict on it, and the regression test it becomes.
  The ledger is a state of its own beside the queue's store: the tables \<open>findings\<close>,
  \<open>finding_verdicts\<close> and \<open>regressions\<close>. Rows are never deleted, so their ids count them.
\<close>

section \<open>Data\<close>

datatype severity = High | Medium | Low

datatype verdict_kind = Real | Duplicate | Not_A_Bug | Agent_Mistake | Fixed

record replay =
  rp_kind :: string
  rp_sha256 :: "string option"
  rp_attempts :: nat
  rp_reproduced :: nat

type_synonym evidence = "(string \<times> string) list"

record exploration =
  x_fingerprint :: string
  x_app :: string
  x_build :: string
  x_platform :: string
  x_device_id :: id
  x_job_id :: id
  x_mission_id :: string
  x_check :: string
  x_subclass :: "string option"
  x_severity :: severity
  x_title :: string
  x_detail :: string
  x_screen :: string
  x_screen_name :: string
  x_steps :: "string list"
  x_replay :: "replay option"
  x_artifacts :: evidence

datatype issue_state = Dry_Run | Pending | Filed | Not_Filed | Capped | No_Repo

record issue =
  is_state :: issue_state
  is_dry_run :: bool
  is_repo :: "string option"
  is_title :: string
  is_body :: string
  is_url :: "string option"
  is_number :: "int option"
  is_detail :: string
  is_at :: int

record finding =
  f_id :: nat
  f_fingerprint :: string
  f_app :: string
  f_build :: string
  f_platform :: string
  f_device_id :: id
  f_job_id :: id
  f_last_job_id :: id
  f_mission_id :: string
  f_check :: string
  f_subclass :: "string option"
  f_severity :: severity
  f_title :: string
  f_detail :: string
  f_screen :: string
  f_screen_name :: string
  f_steps :: "string list"
  f_replay :: "replay option"
  f_artifacts :: evidence
  f_first_seen :: int
  f_last_seen :: int
  f_seen_count :: nat
  f_builds_seen :: "string list"
  f_verdict :: "verdict_kind option"
  f_verdict_note :: "string option"
  f_verdict_at :: "int option"
  f_duplicate_of :: "nat option"
  f_issue :: "issue option"

record history_row =
  h_finding :: nat
  h_at :: int
  h_regressed :: bool
  h_verdict :: "verdict_kind option"
  h_note :: "string option"
  h_actor :: "string option"
  h_source :: "string option"

datatype regression_state = Candidate | Active | Retired

datatype outcome = Passed | Reproduced | Flow_Failed | Not_Run

record regression =
  g_finding :: nat
  g_app :: string
  g_platform :: string
  g_check :: string
  g_kind :: string
  g_flow :: string
  g_flow_sha256 :: string
  g_state :: regression_state
  g_created_at :: int
  g_activated_at :: "int option"
  g_retired_at :: "int option"
  g_runs :: nat
  g_last_run_at :: "int option"
  g_last_job_id :: "id option"
  g_last_outcome :: "outcome option"
  g_last_detail :: "string option"

record ledger =
  findings :: "finding list"
  verdict_log :: "history_row list"
  regressions :: "regression list"

definition find_finding :: "nat \<Rightarrow> ledger \<Rightarrow> finding option" where
  "find_finding n l = find_row f_id n (findings l)"

definition find_regression :: "nat \<Rightarrow> ledger \<Rightarrow> regression option" where
  "find_regression n l = find_row g_finding n (regressions l)"

definition update_finding :: "nat \<Rightarrow> (finding \<Rightarrow> finding) \<Rightarrow> ledger \<Rightarrow> ledger" where
  "update_finding n f l = l\<lparr>findings := update_row f_id n f (findings l)\<rparr>"

definition update_regression :: "nat \<Rightarrow> (regression \<Rightarrow> regression) \<Rightarrow> ledger \<Rightarrow> ledger" where
  "update_regression n f l = l\<lparr>regressions := update_row g_finding n f (regressions l)\<rparr>"

section \<open>Checking a posted finding\<close>

definition CHECK_NAMES :: "string list" where
  "CHECK_NAMES = [''crash'', ''anr'', ''frozen'', ''blank'', ''left_app'', ''a11y'', ''visual'', ''goal'', ''dead_control'']"

definition REPLAY_KINDS :: "string list" where
  "REPLAY_KINDS = [''maestro'', ''tvloop'', ''none'']"

definition ARTIFACT_KEYS :: "string list" where
  "ARTIFACT_KEYS = [''shot'', ''sheet'', ''trajectory'', ''log'', ''replay'']"

definition severity_of :: "js \<Rightarrow> severity option" where
  "severity_of v =
     (if v = JStr ''high'' then Some High else if v = JStr ''medium'' then Some Medium
      else if v = JStr ''low'' then Some Low else None)"

text \<open>The fields that must be non-empty strings, with their sizes.\<close>

definition required_fields :: "(string \<times> nat) list" where
  "required_fields =
     [(''fingerprint'', 256), (''app'', 200), (''build'', 200), (''platform'', 200), (''device_id'', 200),
      (''job_id'', 200), (''mission_id'', 200), (''title'', 300)]"

definition text_fields :: "(string \<times> nat) list" where
  "text_fields = [(''detail'', 8000), (''screen'', 300), (''screen_name'', 300)]"

definition longer :: "string \<Rightarrow> nat \<Rightarrow> string" where
  "longer key n = key @ '' is longer than '' @ nat_str n @ '' characters''"

definition required_problem :: "js \<Rightarrow> string \<times> nat \<Rightarrow> string option" where
  "required_problem b kn =
     (case kn of (key, n) \<Rightarrow>
        (case str_of (jget key b) of
           None \<Rightarrow> Some (key @ '' is required (a non-empty string)'')
         | Some v \<Rightarrow>
             if length v > n then Some (longer key n)
             else if trim v = [] then Some (key @ '' is required (a non-empty string)'') else None))"

definition text_problem :: "js \<Rightarrow> string \<times> nat \<Rightarrow> string option" where
  "text_problem b kn =
     (case kn of (key, n) \<Rightarrow>
        (case str_of (jget key b) of
           None \<Rightarrow> Some (key @ '' must be a string'')
         | Some v \<Rightarrow> if length v > n then Some (longer key n) else None))"

text \<open>The first problem a list of checks reports.\<close>

definition first_problem :: "('a \<Rightarrow> 'e option) \<Rightarrow> 'a list \<Rightarrow> 'e option" where
  "first_problem check xs = (case List.map_filter check xs of [] \<Rightarrow> None | p # _ \<Rightarrow> Some p)"

definition subclass_ok :: "js \<Rightarrow> bool" where
  "subclass_ok v \<longleftrightarrow>
     nullish v \<or>
     (case str_of v of
        Some s \<Rightarrow> 1 \<le> length s \<and> length s \<le> 40 \<and> list_all (\<lambda>c. is_lower c \<or> c = CHR ''_'') s
      | None \<Rightarrow> False)"

definition steps_problem :: "js \<Rightarrow> string option" where
  "steps_problem v =
     (case v of
        JArr xs \<Rightarrow>
          if \<not> list_all is_str xs then Some ''steps must be an array of strings''
          else if length xs > 100 then Some ''steps has more than 100 entries''
          else if list_ex (\<lambda>s. length s > 500) (strings_of v) then Some ''a step is longer than 500 characters''
          else None
      | _ \<Rightarrow> Some ''steps must be an array of strings'')"

definition is_sha_value :: "js \<Rightarrow> bool" where
  "is_sha_value v \<longleftrightarrow> (case str_of v of Some s \<Rightarrow> is_sha256 s | None \<Rightarrow> False)"

definition artifact_problem :: "string \<times> js \<Rightarrow> string option" where
  "artifact_problem kv =
     (case kv of (k, v) \<Rightarrow>
        if k \<notin> set ARTIFACT_KEYS
        then Some (''unknown artifact '' @ stringify (JStr k) @ ''; expected '' @ join '', '' ARTIFACT_KEYS)
        else if v \<noteq> JUndef \<and> \<not> is_sha_value v then Some (''artifacts.'' @ k @ '' must be a sha256 hex digest'')
        else None)"

definition artifacts_problem :: "js \<Rightarrow> string option" where
  "artifacts_problem v =
     (case v of
        JObj fs \<Rightarrow> first_problem artifact_problem fs
      | _ \<Rightarrow> Some ''artifacts must be an object (it may be empty)'')"

definition count_of :: "js \<Rightarrow> nat option" where
  "count_of v = (case int_of v of Some n \<Rightarrow> if 0 \<le> n \<and> n \<le> 50 then Some (nat n) else None | None \<Rightarrow> None)"

text \<open>A rejection carries its status: 400 for a malformed body, 422 for a finding nobody could repeat.\<close>

definition check_replay :: "js \<Rightarrow> refusal + replay" where
  "check_replay r =
     (case str_of (jget ''kind'' r) of
        None \<Rightarrow> Inl (400, ''replay.kind must be one of '' @ join '', '' REPLAY_KINDS)
      | Some kind \<Rightarrow>
          if kind \<notin> set REPLAY_KINDS then Inl (400, ''replay.kind must be one of '' @ join '', '' REPLAY_KINDS)
          else if jget ''sha256'' r \<noteq> JNull \<and> \<not> is_sha_value (jget ''sha256'' r)
            then Inl (400, ''replay.sha256 must be a sha256 hex digest or null'')
          else case (count_of (jget ''attempts'' r), count_of (jget ''reproduced'' r)) of
            (Some a, Some n) \<Rightarrow>
              if n > a then Inl (400, ''replay.reproduced cannot exceed replay.attempts'')
              else if n = 0
                then Inl (422, ''replay reproduced it 0 of '' @ nat_str a @
                       '' times; a finding nobody could repeat is not filed'')
              else Inr \<lparr>rp_kind = kind, rp_sha256 = str_of (jget ''sha256'' r), rp_attempts = a, rp_reproduced = n\<rparr>
          | _ \<Rightarrow> Inl (400, ''replay.attempts and replay.reproduced must be whole numbers from 0 to 50''))"

definition check_evidence :: "js \<Rightarrow> refusal + replay option" where
  "check_evidence b =
     (case jget ''replay'' b of
        JNull \<Rightarrow>
          if jget ''check'' b = JStr ''crash'' then Inr None
          else Inl (422, ''replay is null, which only a crash may be (its crash log is the evidence); check '' @
                 js_string (jget ''check'' b) @ '' needs a replay that reproduced it'')
      | JObj fs \<Rightarrow> map_sum id Some (check_replay (JObj fs))
      | _ \<Rightarrow> Inl (400, ''replay must be an object or null''))"

definition text_of :: "js \<Rightarrow> string \<Rightarrow> string" where
  "text_of b key = (case str_of (jget key b) of Some v \<Rightarrow> v | None \<Rightarrow> [])"

definition artifacts_of :: "js \<Rightarrow> evidence" where
  "artifacts_of v =
     List.map_filter (\<lambda>k. if truthy (jget k v) then map_option (Pair k) (str_of (jget k v)) else None) ARTIFACT_KEYS"

definition is_check :: "js \<Rightarrow> bool" where
  "is_check v \<longleftrightarrow> v \<in> set (map JStr CHECK_NAMES)"

definition body_problem :: "js \<Rightarrow> string option" where
  "body_problem b =
     (case first_problem (required_problem b) required_fields of
        Some p \<Rightarrow> Some p
      | None \<Rightarrow>
     (case first_problem (text_problem b) text_fields of
        Some p \<Rightarrow> Some p
      | None \<Rightarrow>
          if \<not> subclass_ok (jget ''subclass'' b)
            then Some ''subclass must be a short lowercase name like overlap or raw_error''
          else if \<not> is_check (jget ''check'' b)
            then Some (''unknown check '' @ stringify (jget ''check'' b) @ ''; expected one of '' @ join '', '' CHECK_NAMES)
          else if severity_of (jget ''severity'' b) = None then Some ''severity must be one of high, medium, low''
          else case steps_problem (jget ''steps'' b) of
            Some p \<Rightarrow> Some p
          | None \<Rightarrow> artifacts_problem (jget ''artifacts'' b)))"

definition validate_finding :: "js \<Rightarrow> refusal + exploration" where
  "validate_finding b =
     (if \<not> is_plain_object b then Inl (400, ''body must be a JSON object'')
      else case body_problem b of
        Some p \<Rightarrow> Inl (400, p)
      | None \<Rightarrow>
          map_sum id
            (\<lambda>r. \<lparr>x_fingerprint = text_of b ''fingerprint'', x_app = text_of b ''app'', x_build = text_of b ''build'',
                   x_platform = text_of b ''platform'', x_device_id = text_of b ''device_id'',
                   x_job_id = text_of b ''job_id'', x_mission_id = text_of b ''mission_id'',
                   x_check = text_of b ''check'', x_subclass = str_of (jget ''subclass'' b),
                   x_severity = the (severity_of (jget ''severity'' b)), x_title = text_of b ''title'',
                   x_detail = text_of b ''detail'', x_screen = text_of b ''screen'',
                   x_screen_name = text_of b ''screen_name'', x_steps = strings_of (jget ''steps'' b),
                   x_replay = r, x_artifacts = artifacts_of (jget ''artifacts'' b)\<rparr>)
            (check_evidence b))"

section \<open>Folding a sighting into the ledger\<close>

definition ratio :: "replay \<Rightarrow> rat" where
  "ratio r = of_nat (rp_reproduced r) / of_nat (max 1 (rp_attempts r))"

definition better_replay :: "replay option \<Rightarrow> replay option \<Rightarrow> bool" where
  "better_replay prev new =
     (case new of
        None \<Rightarrow> False
      | Some n \<Rightarrow>
          (case prev of
             None \<Rightarrow> True
           | Some p \<Rightarrow>
               if rp_reproduced n \<noteq> rp_reproduced p then rp_reproduced n > rp_reproduced p
               else ratio n > ratio p))"

fun severity_rank :: "severity \<Rightarrow> nat" where
  "severity_rank High = 3"
| "severity_rank Medium = 2"
| "severity_rank Low = 1"

definition put_evidence :: "string \<Rightarrow> string \<Rightarrow> evidence \<Rightarrow> evidence" where
  "put_evidence k v ev = (if k \<in> fst ` set ev then map (\<lambda>(l, x). if l = k then (l, v) else (l, x)) ev else ev @ [(k, v)])"

text \<open>\<open>{ ...f.artifacts, ...existing.artifacts }\<close>\<close>

definition merge_evidence :: "evidence \<Rightarrow> evidence \<Rightarrow> evidence" where
  "merge_evidence new old = fold (\<lambda>(k, v). put_evidence k v) old new"

definition add_build :: "string \<Rightarrow> string list \<Rightarrow> string list" where
  "add_build b bs = (if b \<in> set bs then bs else bs @ [b])"

definition new_finding :: "int \<Rightarrow> nat \<Rightarrow> exploration \<Rightarrow> finding" where
  "new_finding now n x =
     \<lparr>f_id = n, f_fingerprint = x_fingerprint x, f_app = x_app x, f_build = x_build x, f_platform = x_platform x,
      f_device_id = x_device_id x, f_job_id = x_job_id x, f_last_job_id = x_job_id x, f_mission_id = x_mission_id x,
      f_check = x_check x, f_subclass = x_subclass x, f_severity = x_severity x, f_title = x_title x,
      f_detail = x_detail x, f_screen = x_screen x, f_screen_name = x_screen_name x, f_steps = x_steps x,
      f_replay = x_replay x, f_artifacts = x_artifacts x, f_first_seen = now, f_last_seen = now, f_seen_count = 1,
      f_builds_seen = [x_build x], f_verdict = None, f_verdict_note = None, f_verdict_at = None,
      f_duplicate_of = None, f_issue = None\<rparr>"

definition seen_again :: "int \<Rightarrow> exploration \<Rightarrow> finding \<Rightarrow> finding" where
  "seen_again now x f =
     (let take_replay = better_replay (f_replay f) (x_replay x);
          merged = merge_evidence (x_artifacts x) (f_artifacts f);
          artifacts' = (case map_of (x_artifacts x) ''replay'' of
                          Some sha \<Rightarrow> if take_replay \<and> sha \<noteq> [] then put_evidence ''replay'' sha merged else merged
                        | None \<Rightarrow> merged)
      in f\<lparr>f_seen_count := f_seen_count f + 1, f_last_seen := now, f_last_job_id := x_job_id x,
           f_builds_seen := add_build (x_build x) (f_builds_seen f),
           f_replay := (if take_replay then x_replay x else f_replay f), f_artifacts := artifacts',
           f_severity := (if severity_rank (x_severity x) > severity_rank (f_severity f) then x_severity x else f_severity f)\<rparr>)"

end
