(* ===== verification/Issues.thy ===== *)
theory Issues
  imports Findings
begin

text \<open>
  The issue a solid finding would file (\<open>findings.ts\<close>, T6): when it is worth one, how its text is
  composed, the cap per app and day, and what an answer of GitHub does to the record. With it the
  whole of \<open>storeFinding\<close>. The request to GitHub is a parameter: its answer is an argument.
\<close>

record issue_options =
  io_repos :: "(string \<times> string) list"
  io_armed :: bool
  io_token :: "string option"
  io_dash_url :: string
  io_cap :: nat

section \<open>Text\<close>

definition replay_label :: "replay option \<Rightarrow> string \<Rightarrow> string" where
  "replay_label r check =
     (case r of
        None \<Rightarrow> if check = ''crash'' then ''crash log'' else ''not replayed''
      | Some p \<Rightarrow>
          (if rp_reproduced p \<ge> rp_attempts p then ''reproduced '' else ''flaky '') @
          nat_str (rp_reproduced p) @ ''/'' @ nat_str (rp_attempts p))"

text \<open>The longest run of a character, and a fence of backticks longer than any inside the text.\<close>

fun longest_run :: "char \<Rightarrow> nat \<Rightarrow> nat \<Rightarrow> string \<Rightarrow> nat" where
  "longest_run c cur best [] = max cur best"
| "longest_run c cur best (x # xs) =
     (if x = c then longest_run c (Suc cur) best xs else longest_run c 0 (max cur best) xs)"

definition tick :: char where "tick = CHR 0x60"

definition fence :: "string \<Rightarrow> string" where
  "fence s = replicate (max 3 (longest_run tick 0 0 s + 1)) tick"

definition artifact_label :: "string \<Rightarrow> string" where
  "artifact_label k =
     (if k = ''shot'' then ''screenshot'' else if k = ''sheet'' then ''contact sheet''
      else if k = ''trajectory'' then ''trajectory'' else if k = ''log'' then ''log excerpt'' else ''replay file'')"

definition newline :: string where "newline = [CHR 0x0A]"

definition ticked :: "string \<Rightarrow> string" where
  "ticked s = [tick] @ s @ [tick]"

definition bar :: "string \<Rightarrow> string \<Rightarrow> string" where
  "bar name v = ''| '' @ name @ '' | '' @ v @ '' |''"

definition numbered :: "string list \<Rightarrow> string" where
  "numbered steps = join newline (map (\<lambda>(i, s). nat_str i @ ''. '' @ s) (List.enumerate 1 steps))"

definition artifact_links :: "string \<Rightarrow> evidence \<Rightarrow> string list" where
  "artifact_links dash ev =
     List.map_filter (\<lambda>k. map_option (\<lambda>sha. ''['' @ artifact_label k @ '']('' @ dash @ ''/artifacts/'' @ sha @ '')'') (map_of ev k))
       ARTIFACT_KEYS"

definition replay_text :: "finding \<Rightarrow> string" where
  "replay_text f =
     (case f_replay f of
        Some r \<Rightarrow> replay_label (Some r) (f_check f) @ '' on a clean install ('' @ rp_kind r @ '')''
      | None \<Rightarrow> ''not replayed; the crash log is the evidence'')"

definition issue_title :: "finding \<Rightarrow> string" where
  "issue_title f = take 250 (''[night-qa] '' @ f_check f @ '': '' @ f_title f)"

fun severity_str :: "severity \<Rightarrow> string" where
  "severity_str High = ''high''"
| "severity_str Medium = ''medium''"
| "severity_str Low = ''low''"

definition issue_table :: "finding \<Rightarrow> string list" where
  "issue_table f =
     [''| | |'', ''|---|---|'',
      bar ''Check'' (ticked (f_check f) @ '' (severity '' @ severity_str (f_severity f) @ '')''),
      bar ''Build'' (ticked (f_build f)),
      bar ''Platform / device'' (f_platform f @ '' / '' @ ticked (f_device_id f)),
      bar ''Screen'' ((if f_screen_name f = [] then ''unnamed'' else f_screen_name f) @
        (if f_screen f = [] then [] else '' ('' @ ticked (f_screen f) @ '')'')),
      bar ''Replay'' (replay_text f),
      bar ''Mission / job'' (ticked (f_mission_id f) @ '' / '' @ ticked (f_job_id f)), []]"

definition fenced :: "string \<Rightarrow> string \<Rightarrow> string list" where
  "fenced heading s = [heading, [], fence s, s, fence s, []]"

definition issue_body :: "finding \<Rightarrow> string \<Rightarrow> string" where
  "issue_body f dash =
     (let steps = numbered (f_steps f); links = artifact_links dash (f_artifacts f) in
      join newline
        ([''Night QA found this while exploring **'' @ f_app f @ ''** and replayed it before filing.'', []] @
         issue_table f @
         (if trim (f_detail f) = [] then [] else fenced ''### What went wrong'' (f_detail f)) @
         (if steps = [] then [] else fenced ''### Steps'' steps) @
         (if links = [] then [] else [''Artifacts: '' @ join ('' '' @ [CHR 0xB7] @ '' '') links, []]) @
         [''[Open it in the Fleet Runner dashboard]('' @ dash @ ''/dash/findings/'' @ nat_str (f_id f) @ '')'', [],
          ''<sub>Filed by Fleet Runner night QA. Fingerprint '' @ ticked (f_fingerprint f) @
            ''. Fleet Runner only ever opens issues; it never edits, comments on or closes them.</sub>'']))"

section \<open>Planning\<close>

definition issue_worthy :: "finding \<Rightarrow> bool" where
  "issue_worthy f \<longleftrightarrow>
     f_check f = ''crash'' \<or>
     (case f_replay f of None \<Rightarrow> False | Some r \<Rightarrow> rp_attempts r \<ge> 1 \<and> rp_reproduced r = rp_attempts r)"

definition SETTLED :: "issue_state list" where
  "SETTLED = [Dry_Run, Pending, Filed, Not_Filed]"

definition has_settled_issue :: "finding \<Rightarrow> bool" where
  "has_settled_issue f \<longleftrightarrow> (case f_issue f of None \<Rightarrow> False | Some i \<Rightarrow> is_state i \<in> set SETTLED)"

definition DAY_S :: int where "DAY_S = 24 * 3600"

definition counted :: "string \<Rightarrow> int \<Rightarrow> finding \<Rightarrow> bool" where
  "counted app since f \<longleftrightarrow>
     f_app f = app \<and> has_settled_issue f \<and> (case f_issue f of None \<Rightarrow> False | Some i \<Rightarrow> is_at i \<ge> since)"

definition filed_today :: "int \<Rightarrow> finding \<Rightarrow> finding list \<Rightarrow> nat" where
  "filed_today now f fs = length (filter (\<lambda>g. f_id g \<noteq> f_id f \<and> counted (f_app f) (now - DAY_S) g) fs)"

definition plan_issue :: "issue_options \<Rightarrow> int \<Rightarrow> finding \<Rightarrow> finding list \<Rightarrow> issue" where
  "plan_issue io now f fs =
     (let repo = map_of (io_repos io) (f_app f); n = filed_today now f fs;
          base = \<lparr>is_state = Dry_Run, is_dry_run = True, is_repo = repo, is_title = issue_title f,
                   is_body = issue_body f (io_dash_url io), is_url = None, is_number = None,
                   is_detail = ''dry run: FLEET_GITHUB_ISSUES/FLEET_GITHUB_TOKEN not set, so nothing was sent'',
                   is_at = now\<rparr>
      in if repo = None \<or> repo = Some []
         then base\<lparr>is_state := No_Repo, is_detail := ''FLEET_FINDINGS_REPOS names no repository for '' @ f_app f\<rparr>
         else if n \<ge> io_cap io
         then base\<lparr>is_state := Capped,
                is_detail := f_app f @ '' already has '' @ nat_str n @ '' issues in the last 24 h (cap '' @
                  nat_str (io_cap io) @ ''); tried again next time it is seen''\<rparr>
         else if io_armed io \<and> io_token io \<noteq> None \<and> io_token io \<noteq> Some []
         then base\<lparr>is_state := Pending, is_dry_run := False, is_detail := ''filing''\<rparr>
         else base)"

definition wants_issue :: "finding \<Rightarrow> bool" where
  "wants_issue f \<longleftrightarrow>
     \<not> has_settled_issue f \<and> (f_verdict f = None \<or> f_verdict f = Some Real) \<and> issue_worthy f"

definition maybe_plan_issue :: "issue_options \<Rightarrow> int \<Rightarrow> nat \<Rightarrow> ledger \<Rightarrow> issue option \<times> ledger" where
  "maybe_plan_issue io now n l =
     (case find_finding n l of
        None \<Rightarrow> (None, l)
      | Some f \<Rightarrow>
          if wants_issue f
          then let i = plan_issue io now f (findings l) in (Some i, update_finding n (\<lambda>f. f\<lparr>f_issue := Some i\<rparr>) l)
          else (None, l))"

definition find_fingerprint :: "string \<Rightarrow> ledger \<Rightarrow> finding option" where
  "find_fingerprint fp l = find_row f_fingerprint fp (findings l)"

text \<open>\<open>storeFinding\<close>: the id of the row, whether it is new, and the issue planned now.\<close>

definition store_finding ::
  "issue_options \<Rightarrow> int \<Rightarrow> exploration \<Rightarrow> ledger \<Rightarrow> (nat \<times> bool \<times> issue option) \<times> ledger" where
  "store_finding io now x l =
     (case find_fingerprint (x_fingerprint x) l of
        None \<Rightarrow>
          let n = Suc (length (findings l));
              (i, l') = maybe_plan_issue io now n (l\<lparr>findings := findings l @ [new_finding now n x]\<rparr>)
          in ((n, True, i), l')
      | Some f \<Rightarrow>
          let (i, l') = maybe_plan_issue io now (f_id f) (update_finding (f_id f) (seen_again now x) l)
          in ((f_id f, False, i), l'))"

text \<open>\<open>POST /findings\<close>\<close>

definition post_finding :: "issue_options \<Rightarrow> int \<Rightarrow> js \<Rightarrow> ledger \<Rightarrow> refusal + ((nat \<times> bool \<times> issue option) \<times> ledger)" where
  "post_finding io now b l = map_sum id (\<lambda>x. store_finding io now x l) (validate_finding b)"

section \<open>Filing\<close>

datatype github_answer =
    Answered bool int "string option" "int option"
  | No_Answer string

definition answered_issue :: "issue \<Rightarrow> github_answer \<Rightarrow> issue" where
  "answered_issue i a =
     (case a of
        Answered ok status url number \<Rightarrow>
          (if ok
           then i\<lparr>is_state := Filed, is_url := url, is_number := number, is_detail := ''github responded '' @ int_str status\<rparr>
           else i\<lparr>is_state := Not_Filed, is_detail := ''github responded '' @ int_str status\<rparr>)
      | No_Answer why \<Rightarrow> i\<lparr>is_state := Not_Filed, is_detail := ''request failed: '' @ why\<rparr>)"

text \<open>Only a pending record with a repository and a token is sent; nothing is ever sent again.\<close>

definition file_issue :: "issue_options \<Rightarrow> nat \<Rightarrow> issue \<Rightarrow> github_answer \<Rightarrow> ledger \<Rightarrow> issue \<times> ledger" where
  "file_issue io n i a l =
     (if is_state i \<noteq> Pending \<or> is_repo i = None \<or> is_repo i = Some [] \<or> io_token io = None \<or> io_token io = Some []
      then (i, l)
      else let i' = answered_issue i a in (i', update_finding n (\<lambda>f. f\<lparr>f_issue := Some i'\<rparr>) l))"

end
