(* ===== verification/Verdicts.thy ===== *)
theory Verdicts
  imports Issues
begin

text \<open>
  A person's verdict on a finding and the regression test it becomes (\<open>findings.ts\<close>, T4 and LOOP
  phase 4): verdicts with their history, duplicates followed to a root, the life of a regression test
  from candidate to active to retired, and the report of a night's run, which may reopen the finding.
  Reading a flow from the artifact store is a parameter.
\<close>

section \<open>Verdicts\<close>

definition verdict_names :: "(string \<times> verdict_kind) list" where
  "verdict_names =
     [(''real'', Real), (''duplicate'', Duplicate), (''not_a_bug'', Not_A_Bug), (''agent_mistake'', Agent_Mistake),
      (''fixed'', Fixed)]"

fun verdict_str :: "verdict_kind \<Rightarrow> string" where
  "verdict_str Real = ''real''"
| "verdict_str Duplicate = ''duplicate''"
| "verdict_str Not_A_Bug = ''not_a_bug''"
| "verdict_str Agent_Mistake = ''agent_mistake''"
| "verdict_str Fixed = ''fixed''"

record verdict_body =
  vb_verdict :: "verdict_kind option"
  vb_note :: "string option"
  vb_duplicate_of :: "nat option"

definition verdict_message :: string where
  "verdict_message = ''verdict must be one of '' @ join '', '' (map fst verdict_names) @ '', or null to reopen''"

definition verdict_of_js :: "js \<Rightarrow> (string + verdict_kind option)" where
  "verdict_of_js v =
     (if v = JUndef then Inl ''verdict is required (or null to reopen)''
      else if v = JNull then Inr None
      else case str_of v of
        None \<Rightarrow> Inl verdict_message
      | Some name \<Rightarrow> (case map_of verdict_names name of Some k \<Rightarrow> Inr (Some k) | None \<Rightarrow> Inl verdict_message))"

definition duplicate_id :: "js \<Rightarrow> string + nat option" where
  "duplicate_id v =
     (if nullish v then Inr None
      else case int_of (JNum (js_number v)) of
        Some n \<Rightarrow> if n > 0 then Inr (Some (nat n)) else Inl ''duplicate_of must be a finding id''
      | None \<Rightarrow> Inl ''duplicate_of must be a finding id'')"

definition note_of :: "js \<Rightarrow> string option" where
  "note_of v = (case str_of v of Some s \<Rightarrow> if trim s = [] then None else Some (trim s) | None \<Rightarrow> None)"

definition parse_verdict_body :: "js \<Rightarrow> string + verdict_body" where
  "parse_verdict_body body =
     (let b = (if is_plain_object body then body else JObj []); note = jget ''note'' b in
      case verdict_of_js (jget ''verdict'' b) of
        Inl why \<Rightarrow> Inl why
      | Inr v \<Rightarrow>
          if \<not> nullish note \<and> \<not> is_str note then Inl ''note must be a string''
          else map_sum id (\<lambda>d. \<lparr>vb_verdict = v, vb_note = note_of note, vb_duplicate_of = d\<rparr>)
                 (duplicate_id (jget ''duplicate_of'' b)))"

text \<open>The finding a chain of duplicates leads to, at most twenty steps up.\<close>

fun dup_root :: "nat \<Rightarrow> ledger \<Rightarrow> finding \<Rightarrow> finding" where
  "dup_root 0 l t = t"
| "dup_root (Suc hops) l t =
     (if f_verdict t = Some Duplicate then
        (case f_duplicate_of t of
           None \<Rightarrow> t
         | Some up \<Rightarrow> (case find_finding up l of None \<Rightarrow> t | Some u \<Rightarrow> dup_root hops l u))
      else t)"

definition MAX_HOPS :: nat where "MAX_HOPS = 20"

definition duplicate_target :: "nat \<Rightarrow> nat option \<Rightarrow> ledger \<Rightarrow> refusal + nat" where
  "duplicate_target n dup l =
     (case dup of
        None \<Rightarrow> Inl (400, ''a duplicate needs duplicate_of: the id it duplicates'')
      | Some d \<Rightarrow>
          (case find_finding d l of
             None \<Rightarrow> Inl (400, ''duplicate_of '' @ nat_str d @ '' is not a finding'')
           | Some t \<Rightarrow>
               let root = dup_root MAX_HOPS l t in
               if f_id root = n then Inl (400, ''a finding cannot be a duplicate of itself'') else Inr (f_id root)))"

section \<open>Regression tests\<close>

definition FLOW_MAX_BYTES :: nat where "FLOW_MAX_BYTES = 64 * 1024"

definition flow_sha_of :: "finding \<Rightarrow> string option" where
  "flow_sha_of f =
     coalesce (case f_replay f of None \<Rightarrow> None | Some r \<Rightarrow> rp_sha256 r) (map_of (f_artifacts f) ''replay'')"

definition flow_kind :: "finding \<Rightarrow> string \<Rightarrow> string" where
  "flow_kind f txt =
     (case f_replay f of
        Some r \<Rightarrow>
          if rp_kind r = ''tvloop'' \<or> rp_kind r = ''maestro'' then rp_kind r
          else if starts_with [CHR 0x7B] (dropWhile is_space txt) then ''tvloop'' else ''maestro''
      | None \<Rightarrow> if starts_with [CHR 0x7B] (dropWhile is_space txt) then ''tvloop'' else ''maestro'')"

definition new_regression :: "int \<Rightarrow> finding \<Rightarrow> string \<Rightarrow> string \<Rightarrow> regression_state \<Rightarrow> regression" where
  "new_regression now f sha txt st =
     \<lparr>g_finding = f_id f, g_app = f_app f, g_platform = f_platform f, g_check = f_check f, g_kind = flow_kind f txt,
      g_flow = txt, g_flow_sha256 = sha, g_state = st, g_created_at = now,
      g_activated_at = (if st = Active then Some now else None), g_retired_at = None, g_runs = 0,
      g_last_run_at = None, g_last_job_id = None, g_last_outcome = None, g_last_detail = None\<rparr>"

definition active_text :: "finding \<Rightarrow> string" where
  "active_text f = ''its replay flow is now an active regression test in '' @ f_app f @ CHR 0x27 # ''s nightly ui-test''"

text \<open>\<open>keepFlow\<close>: what it says, and the ledger after it.\<close>

definition keep_flow ::
  "(string \<Rightarrow> string option) \<Rightarrow> int \<Rightarrow> finding \<Rightarrow> regression_state \<Rightarrow> ledger \<Rightarrow> string \<times> ledger" where
  "keep_flow read now f st l =
     (case flow_sha_of f of
        None \<Rightarrow> (''no replay flow was posted with this finding, so there is nothing to keep as a test'', l)
      | Some sha \<Rightarrow>
          if sha = [] then (''no replay flow was posted with this finding, so there is nothing to keep as a test'', l)
          else if map_option rp_kind (f_replay f) = Some ''none''
          then (''the replay was not a file (kind none), so there is nothing to keep as a test'', l)
          else case read sha of
            None \<Rightarrow> (''the replay flow '' @ take 12 sha @ '' is not in the artifact store (collected, or over '' @
                       nat_str FLOW_MAX_BYTES @ '' bytes)'', l)
          | Some txt \<Rightarrow>
              (if st = Active then active_text f
               else ''its replay flow is kept as a candidate regression test; it joins the nightly when the finding is marked fixed'',
               l\<lparr>regressions := regressions l @ [new_regression now f sha txt st]\<rparr>))"

fun regression_state_str :: "regression_state \<Rightarrow> string" where
  "regression_state_str Candidate = ''candidate''"
| "regression_state_str Active = ''active''"
| "regression_state_str Retired = ''retired''"

definition move_regression ::
  "(string \<Rightarrow> string option) \<Rightarrow> int \<Rightarrow> finding \<Rightarrow> verdict_kind option \<Rightarrow> ledger \<Rightarrow> string option \<times> ledger" where
  "move_regression read now f v l =
     (case (v, find_regression (f_id f) l) of
        (Some Real, None) \<Rightarrow> map_prod Some id (keep_flow read now f Candidate l)
      | (Some Real, Some g) \<Rightarrow>
          if g_state g = Retired
          then (Some ''its retired regression test is a candidate again'',
                update_regression (f_id f) (\<lambda>g. g\<lparr>g_state := Candidate, g_retired_at := None\<rparr>) l)
          else (None, l)
      | (Some Fixed, None) \<Rightarrow> map_prod Some id (keep_flow read now f Active l)
      | (Some Fixed, Some g) \<Rightarrow>
          if g_state g = Active then (None, l)
          else (Some (active_text f),
                update_regression (f_id f) (\<lambda>g. g\<lparr>g_state := Active, g_activated_at := Some now, g_retired_at := None\<rparr>) l)
      | (Some _, Some g) \<Rightarrow>
          if g_state g \<noteq> Retired
          then (Some (''its '' @ regression_state_str (g_state g) @ '' regression test is retired''),
                update_regression (f_id f) (\<lambda>g. g\<lparr>g_state := Retired, g_retired_at := Some now\<rparr>) l)
          else (None, l)
      | _ \<Rightarrow> (None, l))"

section \<open>\<open>setVerdict\<close>\<close>

record actor =
  ac_actor :: "string option"
  ac_source :: "string option"

definition judge_row :: "int \<Rightarrow> verdict_kind option \<Rightarrow> string option \<Rightarrow> nat option \<Rightarrow> finding \<Rightarrow> finding" where
  "judge_row now v note target f =
     f\<lparr>f_verdict := v, f_verdict_note := (if v = None then None else note),
       f_verdict_at := (if v = None then None else Some now), f_duplicate_of := target\<rparr>"

definition log_verdict :: "history_row \<Rightarrow> ledger \<Rightarrow> ledger" where
  "log_verdict h l = l\<lparr>verdict_log := verdict_log l @ [h]\<rparr>"

text \<open>A refusal of a verdict has a hint where the code gives one.\<close>

type_synonym verdict_refusal = "refusal \<times> string option"

definition may_be_fixed :: "finding \<Rightarrow> ledger \<Rightarrow> bool" where
  "may_be_fixed f l \<longleftrightarrow>
     f_verdict f = Some Real \<or> f_verdict f = Some Fixed \<or>
     map_option g_state (find_regression (f_id f) l) = Some Active"

definition verdict_refusal_of ::
  "nat \<Rightarrow> verdict_kind option \<Rightarrow> string option \<Rightarrow> ledger \<Rightarrow> finding \<Rightarrow> verdict_refusal option" where
  "verdict_refusal_of n v note l f =
     (if note \<noteq> None \<and> length (the note) > 2000 then Some ((400, ''note is longer than 2000 characters''), None)
      else if v = Some Fixed \<and> \<not> may_be_fixed f l
      then Some ((409, ''finding '' @ nat_str n @ '' is '' @
                   (case f_verdict f of None \<Rightarrow> ''open'' | Some k \<Rightarrow> verdict_str k) @ ''; fixed comes only after real''),
                 Some ''mark it real first, and fixed once the fix has merged'')
      else None)"

definition set_verdict ::
  "(string \<Rightarrow> string option) \<Rightarrow> int \<Rightarrow> actor \<Rightarrow> nat \<Rightarrow> verdict_kind option \<Rightarrow> string option \<Rightarrow> nat option \<Rightarrow>
     ledger \<Rightarrow> verdict_refusal + (string option \<times> ledger)" where
  "set_verdict read now by n v note dup l =
     (case find_finding n l of
        None \<Rightarrow> Inl ((404, ''no finding '' @ nat_str n), None)
      | Some f \<Rightarrow>
          (case verdict_refusal_of n v note l f of
             Some r \<Rightarrow> Inl r
           | None \<Rightarrow>
               (case (if v = Some Duplicate then map_sum id Some (duplicate_target n dup l) else Inr None) of
                  Inl r \<Rightarrow> Inl (r, None)
                | Inr target \<Rightarrow>
                    Inr (move_regression read now f v
                      (log_verdict
                        \<lparr>h_finding = n, h_at = now, h_regressed = False, h_verdict = v, h_note = note,
                         h_actor = ac_actor by, h_source = ac_source by\<rparr>
                        (update_finding n (judge_row now v note target) l))))))"

section \<open>A night's run of a regression test\<close>

record regression_run =
  rr_job_id :: id
  rr_device_id :: id
  rr_build :: string
  rr_outcome :: outcome
  rr_detail :: string

definition outcome_names :: "(string \<times> outcome) list" where
  "outcome_names = [(''passed'', Passed), (''reproduced'', Reproduced), (''failed'', Flow_Failed), (''skipped'', Not_Run)]"

definition id_field :: "js \<Rightarrow> string \<Rightarrow> bool" where
  "id_field b k \<longleftrightarrow> (case str_of (jget k b) of Some s \<Rightarrow> trim s \<noteq> [] \<and> length s \<le> 200 | None \<Rightarrow> False)"

definition parse_regression_run :: "js \<Rightarrow> string + regression_run" where
  "parse_regression_run b =
     (if \<not> is_plain_object b then Inl ''body must be a JSON object''
      else case List.find (\<lambda>k. \<not> id_field b k) [''job_id'', ''device_id''] of
        Some k \<Rightarrow> Inl (k @ '' is required (a non-empty string of at most 200 characters)'')
      | None \<Rightarrow>
          let build = jget ''build'' b; detail = jget ''detail'' b in
          if \<not> nullish build \<and> \<not> (case str_of build of Some s \<Rightarrow> length s \<le> 200 | None \<Rightarrow> False)
          then Inl ''build must be a string of at most 200 characters''
          else case (case str_of (jget ''outcome'' b) of Some s \<Rightarrow> map_of outcome_names s | None \<Rightarrow> None) of
            None \<Rightarrow> Inl (''outcome must be one of '' @ join '', '' (map fst outcome_names))
          | Some out \<Rightarrow>
              if \<not> nullish detail \<and> \<not> is_str detail then Inl ''detail must be a string''
              else Inr \<lparr>rr_job_id = text_of b ''job_id'', rr_device_id = text_of b ''device_id'',
                         rr_build = (case str_of build of Some s \<Rightarrow> if trim s = [] then ''installed'' else trim s
                                      | None \<Rightarrow> ''installed''),
                         rr_outcome = out, rr_detail = take 2000 (text_of b ''detail'')\<rparr>)"

definition run_row :: "int \<Rightarrow> regression_run \<Rightarrow> bool \<Rightarrow> regression \<Rightarrow> regression" where
  "run_row now run already g =
     g\<lparr>g_runs := g_runs g + 1, g_last_run_at := Some now, g_last_job_id := Some (rr_job_id run),
       g_last_outcome := Some (if already then Reproduced else rr_outcome run),
       g_last_detail := (if rr_detail run = [] then None else Some (rr_detail run))\<rparr>"

definition reopen_row :: "int \<Rightarrow> regression_run \<Rightarrow> finding \<Rightarrow> finding" where
  "reopen_row now run f =
     f\<lparr>f_verdict := None, f_verdict_note := None, f_verdict_at := None, f_duplicate_of := None,
       f_seen_count := f_seen_count f + 1, f_last_seen := now, f_last_job_id := rr_job_id run,
       f_builds_seen := add_build (rr_build run) (f_builds_seen f)\<rparr>"

definition regressed_note :: "regression_run \<Rightarrow> string" where
  "regressed_note run =
     take 2000 (''regressed on build '' @ rr_build run @ '' (job '' @ rr_job_id run @ '', '' @ rr_device_id run @ '')'' @
       (if rr_detail run = [] then [] else '': '' @ rr_detail run))"

text \<open>\<open>recordRegressionRun\<close>: whether the finding was reopened, and the ledger after the report.\<close>

definition record_regression_run :: "int \<Rightarrow> nat \<Rightarrow> regression_run \<Rightarrow> ledger \<Rightarrow> refusal + (bool \<times> ledger)" where
  "record_regression_run now n run l =
     (case (find_regression n l, find_finding n l) of
        (Some g, Some f) \<Rightarrow>
          let already = (g_last_job_id g = Some (rr_job_id run) \<and> g_last_outcome g = Some Reproduced);
              l1 = update_regression n (run_row now run already) l
          in if rr_outcome run = Reproduced \<and> g_state g = Active \<and> \<not> already
             then Inr (True, log_verdict
                    \<lparr>h_finding = n, h_at = now, h_regressed = True, h_verdict = None, h_note = Some (regressed_note run),
                     h_actor = None, h_source = Some ''regression''\<rparr>
                    (update_finding n (reopen_row now run) l1))
             else Inr (False, l1)
      | _ \<Rightarrow> Inl (404, ''finding '' @ nat_str n @ '' has no regression test''))"

text \<open>What a nightly pulls: an app's tests in one state, the active ones unless it says otherwise.\<close>

definition list_regressions ::
  "string option \<Rightarrow> string option \<Rightarrow> string option \<Rightarrow> ledger \<Rightarrow> string + regression list" where
  "list_regressions app st platform l =
     (let wanted = (case st of None \<Rightarrow> ''active'' | Some x \<Rightarrow> x);
          keep = (\<lambda>x v. case x of None \<Rightarrow> True | Some y \<Rightarrow> y = [] \<or> v = y)
      in if wanted \<notin> {''all'', ''candidate'', ''active'', ''retired''}
         then Inl ''state must be candidate, active, retired or all''
         else Inr (sort_key g_finding
           (filter (\<lambda>g. keep app (g_app g) \<and> keep platform (g_platform g) \<and>
               (wanted = ''all'' \<or> regression_state_str (g_state g) = wanted)) (regressions l))))"

end
