(* ===== verification/Finding_Laws.thy ===== *)
theory Finding_Laws
  imports Verdicts
begin

text \<open>
  The invariant of the ledger of findings and that every operation keeps it: one row per fingerprint,
  evidence behind every row, duplicates that point at another finding, and a regression test whose
  state agrees with the verdict of its finding. The operations are collected in one step function.
\<close>

section \<open>Lookups after updates\<close>

lemma find_finding_update:
  "(\<And>f. f_id (h f) = f_id f) \<Longrightarrow>
     find_finding k (update_finding n h l) = (if k = n then map_option h (find_finding n l) else find_finding k l)"
  unfolding find_finding_def update_finding_def
  by (simp add: row_update.find_update row_update.intro)

lemma find_regression_update:
  "(\<And>g. g_finding (h g) = g_finding g) \<Longrightarrow>
     find_regression k (update_regression n h l) =
       (if k = n then map_option h (find_regression n l) else find_regression k l)"
  unfolding find_regression_def update_regression_def
  by (simp add: row_update.find_update row_update.intro)

lemma ledger_frames [simp]:
  "find_regression k (update_finding n h l) = find_regression k l"
  "find_finding k (update_regression n h' l) = find_finding k l"
  "regressions (update_finding n h l) = regressions l" "findings (update_regression n h' l) = findings l"
  "find_finding k (log_verdict x l) = find_finding k l" "find_regression k (log_verdict x l) = find_regression k l"
  "findings (log_verdict x l) = findings l" "regressions (log_verdict x l) = regressions l"
  by (simp_all add: find_regression_def find_finding_def update_finding_def update_regression_def log_verdict_def)

lemma finding_row_keys [simp]:
  "f_id (seen_again now x f) = f_id f" "f_fingerprint (seen_again now x f) = f_fingerprint f"
  "f_id (judge_row now v note t f) = f_id f" "f_fingerprint (judge_row now v note t f) = f_fingerprint f"
  "f_id (reopen_row now run f) = f_id f" "f_fingerprint (reopen_row now run f) = f_fingerprint f"
  "g_finding (run_row now run a g) = g_finding g"
  by (simp_all add: seen_again_def judge_row_def reopen_row_def run_row_def Let_def)

lemma find_finding_id: "find_finding n l = Some f \<Longrightarrow> f_id f = n \<and> f \<in> set (findings l)"
  by (auto simp: find_finding_def dest: find_row_SomeD)

section \<open>The invariant\<close>

definition evidence_ok :: "string \<Rightarrow> replay option \<Rightarrow> bool" where
  "evidence_ok check r \<longleftrightarrow>
     (case r of None \<Rightarrow> check = ''crash'' | Some p \<Rightarrow> 1 \<le> rp_reproduced p \<and> rp_reproduced p \<le> rp_attempts p)"

definition test_ok :: "verdict_kind option \<Rightarrow> regression \<Rightarrow> bool" where
  "test_ok v g \<longleftrightarrow>
     (g_state g = Active \<longrightarrow> g_activated_at g \<noteq> None) \<and> (g_state g = Retired \<longleftrightarrow> g_retired_at g \<noteq> None) \<and>
     (case v of
        None \<Rightarrow> True
      | Some Real \<Rightarrow> g_state g \<noteq> Retired
      | Some Fixed \<Rightarrow> g_state g = Active
      | Some _ \<Rightarrow> g_state g = Retired)"

definition finding_ok :: "ledger \<Rightarrow> finding \<Rightarrow> bool" where
  "finding_ok l f \<longleftrightarrow>
     evidence_ok (f_check f) (f_replay f) \<and> 1 \<le> f_seen_count f \<and>
     (f_verdict f = Some Duplicate \<longleftrightarrow> f_duplicate_of f \<noteq> None) \<and>
     (\<forall>d. f_duplicate_of f = Some d \<longrightarrow> d \<noteq> f_id f \<and> find_finding d l \<noteq> None)"

definition ledger_inv :: "ledger \<Rightarrow> bool" where
  "ledger_inv l \<longleftrightarrow>
     map f_id (findings l) = [1..<Suc (length (findings l))] \<and>
     distinct (map f_fingerprint (findings l)) \<and> distinct (map g_finding (regressions l)) \<and>
     (\<forall>n f. find_finding n l = Some f \<longrightarrow> finding_ok l f) \<and>
     (\<forall>n g. find_regression n l = Some g \<longrightarrow> (\<exists>f. find_finding n l = Some f \<and> test_ok (f_verdict f) g))"

lemma inv_finding: "ledger_inv l \<Longrightarrow> find_finding n l = Some f \<Longrightarrow> finding_ok l f"
  by (simp add: ledger_inv_def)

lemma inv_test:
  "ledger_inv l \<Longrightarrow> find_regression n l = Some g \<Longrightarrow> find_finding n l = Some f \<Longrightarrow> test_ok (f_verdict f) g"
  by (force simp: ledger_inv_def)

lemma inv_test_ex:
  "ledger_inv l \<Longrightarrow> find_regression n l = Some g \<Longrightarrow> \<exists>f. find_finding n l = Some f \<and> test_ok (f_verdict f) g"
  by (simp add: ledger_inv_def del: upt_Suc)

lemma map_key_update:
  "(\<And>f. k (h f) = k f) \<Longrightarrow>
     map k (findings (update_finding n h l)) = map k (findings l)"
  by (simp add: update_finding_def update_row_def)

text \<open>An update of one finding and of its regression test that keeps their keys and leaves both in order
  keeps the invariant.\<close>

lemma inv_update_both:
  assumes "ledger_inv l"
    and keys: "\<And>f. f_id (h f) = f_id f" "\<And>f. f_fingerprint (h f) = f_fingerprint f" "\<And>g. g_finding (r g) = g_finding g"
    and f: "\<And>f. find_finding n l = Some f \<Longrightarrow> finding_ok l (h f)"
    and g: "\<And>f g. find_finding n l = Some f \<Longrightarrow> find_regression n l = Some g \<Longrightarrow> test_ok (f_verdict (h f)) (r g)"
  shows "ledger_inv (update_regression n r (update_finding n h l))" (is "ledger_inv ?l")
proof -
  have look: "find_finding k ?l = (if k = n then map_option h (find_finding n l) else find_finding k l)" for k
    using find_finding_update [OF keys(1)] by simp
  have test: "find_regression k ?l = (if k = n then map_option r (find_regression n l) else find_regression k l)" for k
    using find_regression_update [OF keys(3)] by simp
  have len: "length (findings ?l) = length (findings l)" by (simp add: update_finding_def)
  have "find_finding k ?l = None \<longleftrightarrow> find_finding k l = None" for k
    unfolding look by simp
  then have ok: "finding_ok ?l f \<longleftrightarrow> finding_ok l f" for f by (simp add: finding_ok_def)
  have tests: "map g_finding (regressions ?l) = map g_finding (regressions l)"
    by (simp add: update_regression_def update_row_def keys(3))
  show ?thesis
    unfolding ledger_inv_def len ok tests
  proof (intro conjI allI impI)
    fix k f' assume "find_finding k ?l = Some f'"
    then show "finding_ok l f'" unfolding look using f inv_finding [OF assms(1)] by (auto split: if_splits)
  next
    fix k g' assume g': "find_regression k ?l = Some g'"
    show "\<exists>f. find_finding k ?l = Some f \<and> test_ok (f_verdict f) g'"
    proof (cases "k = n")
      case True
      with g' test obtain g0 where g0: "find_regression n l = Some g0" "g' = r g0" by auto
      with inv_test_ex [OF assms(1)] obtain f0 where "find_finding n l = Some f0" by blast
      with g g0 True look show ?thesis by auto
    next
      case False
      with g' test inv_test_ex [OF assms(1)] look show ?thesis by auto
    qed
  qed (use assms(1) in \<open>simp_all add: ledger_inv_def map_key_update keys del: upt_Suc\<close>)
qed

lemma update_regression_id [simp]: "update_regression n (\<lambda>g. g) l = l"
  by (simp add: update_regression_def update_row_def)

lemma update_finding_id [simp]: "update_finding n (\<lambda>f. f) l = l"
  by (simp add: update_finding_def update_row_def)

lemma inv_update_finding:
  assumes "ledger_inv l"
    and "\<And>f. f_id (h f) = f_id f" "\<And>f. f_fingerprint (h f) = f_fingerprint f"
    and "\<And>f. find_finding n l = Some f \<Longrightarrow> finding_ok l (h f)"
    and "\<And>f g. find_finding n l = Some f \<Longrightarrow> find_regression n l = Some g \<Longrightarrow> test_ok (f_verdict (h f)) g"
  shows "ledger_inv (update_finding n h l)"
  using inv_update_both [where h = h and r = "\<lambda>g. g", OF assms(1-3) refl] assms(4,5) by simp

lemma inv_update_regression:
  assumes "ledger_inv l" "\<And>g. g_finding (r g) = g_finding g"
    and "\<And>f g. find_finding n l = Some f \<Longrightarrow> find_regression n l = Some g \<Longrightarrow> test_ok (f_verdict f) (r g)"
  shows "ledger_inv (update_regression n r l)"
  using inv_update_both [where h = "\<lambda>f. f" and r = r, OF assms(1) refl refl assms(2)] assms(1,3) inv_finding by simp

lemma inv_log: "ledger_inv l \<Longrightarrow> ledger_inv (log_verdict h l)"
  by (simp add: ledger_inv_def finding_ok_def del: upt_Suc)

section \<open>Sightings\<close>

lemma map_sum_Inr: "map_sum id f s = Inr y \<longleftrightarrow> (\<exists>x. s = Inr x \<and> y = f x)"
  by (cases s) auto

lemma check_replay_ok: "check_replay r = Inr p \<Longrightarrow> 1 \<le> rp_reproduced p \<and> rp_reproduced p \<le> rp_attempts p"
  unfolding check_replay_def
  by (simp split: option.splits if_splits) (clarsimp simp: Suc_le_eq not_less)

lemma check_evidence_ok: "check_evidence b = Inr r \<Longrightarrow> evidence_ok (text_of b ''check'') r"
  unfolding check_evidence_def evidence_ok_def
  by (simp split: js.splits if_splits add: map_sum_Inr text_of_def str_of_def) (auto dest: check_replay_ok)

lemma validated_evidence: "validate_finding b = Inr x \<Longrightarrow> evidence_ok (x_check x) (x_replay x)"
  by (auto simp: validate_finding_def map_sum_Inr split: if_splits option.splits dest: check_evidence_ok)

lemma inv_seen_again:
  assumes "ledger_inv l" "evidence_ok (x_check x) (x_replay x)"
  shows "ledger_inv (update_finding n (seen_again now x) l)"
proof (rule inv_update_finding [OF assms(1)])
  show "finding_ok l (seen_again now x f)" if "find_finding n l = Some f" for f
    using inv_finding [OF assms(1) that] assms(2)
    by (auto simp: finding_ok_def seen_again_def Let_def evidence_ok_def better_replay_def split: option.splits)
  show "test_ok (f_verdict (seen_again now x f)) g" if "find_finding n l = Some f" "find_regression n l = Some g" for f g
    using inv_test [OF assms(1) that(2,1)] by (simp add: seen_again_def Let_def)
qed simp_all

lemma inv_new_finding:
  assumes "ledger_inv l" "evidence_ok (x_check x) (x_replay x)" "find_fingerprint (x_fingerprint x) l = None"
  shows "ledger_inv (l\<lparr>findings := findings l @ [new_finding now (Suc (length (findings l))) x]\<rparr>)" (is "ledger_inv ?l")
proof -
  have ids: "map f_id (findings l) = [1..<Suc (length (findings l))]" using assms(1) by (simp add: ledger_inv_def)
  then have fresh: "find_finding (Suc (length (findings l))) l = None"
    by (metis Suc_n_not_le_n atLeastLessThan_iff find_finding_id image_eqI less_Suc_eq_le list.set_map not_None_eq set_upt)
  have look: "find_finding k ?l = (if k = Suc (length (findings l))
      then Some (new_finding now (Suc (length (findings l))) x) else find_finding k l)" for k
    using fresh by (auto simp: find_finding_def row_simps new_finding_def coalesce_def split: option.splits)
  have reg: "find_regression k ?l = find_regression k l" for k by (simp add: find_regression_def)
  have "finding_ok ?l f" if "find_finding k ?l = Some f" for k f
  proof (cases "k = Suc (length (findings l))")
    case True
    with that look assms(2) show ?thesis by (auto simp: finding_ok_def new_finding_def)
  next
    case False
    with that look have "find_finding k l = Some f" by simp
    then have "finding_ok l f" using assms(1) inv_finding by blast
    then show ?thesis by (auto simp: finding_ok_def look)
  qed
  moreover have "\<exists>f. find_finding k ?l = Some f \<and> test_ok (f_verdict f) g" if "find_regression k ?l = Some g" for k g
  proof -
    from that inv_test_ex [OF assms(1)] obtain f where f: "find_finding k l = Some f" "test_ok (f_verdict f) g"
      unfolding reg by blast
    with fresh have "k \<noteq> Suc (length (findings l))" by auto
    with f look show ?thesis by simp
  qed
  moreover have "distinct (map f_fingerprint (findings ?l))"
    using assms(1,3) by (auto simp: ledger_inv_def find_fingerprint_def find_row_None new_finding_def)
  moreover have "map f_id (findings ?l) = [1..<Suc (length (findings ?l))]"
    using ids by (simp add: new_finding_def)
  ultimately show ?thesis using assms(1) by (simp add: ledger_inv_def del: upt_Suc)
qed

lemma inv_issue: "ledger_inv l \<Longrightarrow> ledger_inv (update_finding n (\<lambda>f. f\<lparr>f_issue := i\<rparr>) l)"
  by (rule inv_update_finding) (auto dest: inv_finding inv_test simp: finding_ok_def)

lemma inv_maybe_plan: "ledger_inv l \<Longrightarrow> ledger_inv (snd (maybe_plan_issue io now n l))"
  by (auto simp: maybe_plan_issue_def Let_def inv_issue split: option.split)

lemma inv_file_issue: "ledger_inv l \<Longrightarrow> ledger_inv (snd (file_issue io n i a l))"
  by (auto simp: file_issue_def Let_def inv_issue)

lemma inv_store_finding:
  "ledger_inv l \<Longrightarrow> evidence_ok (x_check x) (x_replay x) \<Longrightarrow> ledger_inv (snd (store_finding io now x l))"
  by (auto simp: store_finding_def Let_def split_beta intro!: inv_maybe_plan inv_seen_again inv_new_finding split: option.split)

section \<open>Verdicts\<close>

lemma dup_root_found:
  "find_finding (f_id t) l = Some t \<Longrightarrow> find_finding (f_id (dup_root h l t)) l = Some (dup_root h l t)"
proof (induction h l t rule: dup_root.induct)
  case (2 hops l t)
  then show ?case by (auto split: option.split dest: find_finding_id)
qed simp

lemma duplicate_target_found:
  assumes "duplicate_target n dup l = Inr r"
  shows "r \<noteq> n \<and> find_finding r l \<noteq> None"
proof -
  from assms obtain d t where t: "find_finding d l = Some t" and r: "r = f_id (dup_root MAX_HOPS l t)" "r \<noteq> n"
    by (auto simp: duplicate_target_def Let_def split: option.splits if_splits)
  from t have "find_finding (f_id t) l = Some t" by (auto dest: find_finding_id)
  from dup_root_found [OF this, of MAX_HOPS] r show ?thesis by simp
qed

lemma judged_finding_ok:
  assumes "finding_ok l f" "v = Some Duplicate \<longleftrightarrow> target \<noteq> None"
    "\<And>d. target = Some d \<Longrightarrow> d \<noteq> f_id f \<and> find_finding d l \<noteq> None"
  shows "finding_ok l (judge_row now v note target f)"
  using assms by (auto simp: finding_ok_def judge_row_def)

lemma keep_flow_shape:
  "snd (keep_flow read now f st l) = l \<or>
   (\<exists>sha txt. snd (keep_flow read now f st l) = l\<lparr>regressions := regressions l @ [new_regression now f sha txt st]\<rparr>)"
  by (auto simp: keep_flow_def split: option.split)

text \<open>What a verdict leaves of the regression test of its finding.\<close>

definition moved_test :: "int \<Rightarrow> verdict_kind option \<Rightarrow> regression \<Rightarrow> regression" where
  "moved_test now v g =
     (case v of
        None \<Rightarrow> g
      | Some Real \<Rightarrow> if g_state g = Retired then g\<lparr>g_state := Candidate, g_retired_at := None\<rparr> else g
      | Some Fixed \<Rightarrow>
          if g_state g = Active then g else g\<lparr>g_state := Active, g_activated_at := Some now, g_retired_at := None\<rparr>
      | Some _ \<Rightarrow> if g_state g = Retired then g else g\<lparr>g_state := Retired, g_retired_at := Some now\<rparr>)"

lemma moved_test_ok: "test_ok w g \<Longrightarrow> test_ok v (moved_test now v g)"
  by (auto simp: test_ok_def moved_test_def split: option.splits verdict_kind.splits)

lemma moved_test_finding [simp]: "g_finding (moved_test now v g) = g_finding g"
  by (simp add: moved_test_def split: option.split verdict_kind.split)

lemma update_row_cong:
  "find_row k n xs = Some g \<Longrightarrow> distinct (map k xs) \<Longrightarrow> h g = h' g \<Longrightarrow> update_row k n h xs = update_row k n h' xs"
proof (induction xs)
  case (Cons x xs)
  show ?case
  proof (cases "k x = n")
    case True
    with Cons.prems have "x = g" "\<And>y. y \<in> set xs \<Longrightarrow> k y \<noteq> n" by (auto simp: find_row_def image_iff)
    then show ?thesis using Cons.prems True by (auto simp: update_row_def intro!: map_cong [OF refl])
  next
    case False
    with Cons show ?thesis by (simp add: find_row_def update_row_def)
  qed
qed (simp add: find_row_def)

lemma update_row_same:
  "find_row k n xs = Some g \<Longrightarrow> distinct (map k xs) \<Longrightarrow> h g = g \<Longrightarrow> update_row k n h xs = xs"
  using update_row_cong [of k n xs g h "\<lambda>x. x"] by (simp add: update_row_def)

lemma update_regression_cong:
  "find_regression n l = Some g \<Longrightarrow> distinct (map g_finding (regressions l)) \<Longrightarrow> h g = h' g \<Longrightarrow>
     update_regression n h l = update_regression n h' l"
  using update_row_cong [of g_finding n "regressions l" g h h']
  by (simp add: find_regression_def update_regression_def)

lemma update_regression_same:
  "find_regression n l = Some g \<Longrightarrow> distinct (map g_finding (regressions l)) \<Longrightarrow> h g = g \<Longrightarrow> update_regression n h l = l"
  using update_row_same [of g_finding n "regressions l" g h]
  by (simp add: find_regression_def update_regression_def)

lemma move_regression_some:
  assumes "find_regression (f_id f) l = Some g" "distinct (map g_finding (regressions l))"
  shows "snd (move_regression read now f v l) = update_regression (f_id f) (moved_test now v) l"
proof -
  note cong = update_regression_cong [OF assms] and same = update_regression_same [OF assms, symmetric]
  have "v = None \<or> v = Some Real \<or> v = Some Fixed \<or> v = Some Duplicate \<or> v = Some Not_A_Bug \<or> v = Some Agent_Mistake"
    by (cases v) (auto intro: verdict_kind.exhaust)
  then show ?thesis
    using assms(1) by (elim disjE) (auto simp: move_regression_def moved_test_def intro!: cong same)
qed

lemma move_regression_none:
  assumes "find_regression (f_id f) l = None"
  shows "snd (move_regression read now f v l) = l \<or>
    (\<exists>st sha txt. snd (move_regression read now f v l) = l\<lparr>regressions := regressions l @ [new_regression now f sha txt st]\<rparr> \<and>
       (v = Some Real \<and> st = Candidate \<or> v = Some Fixed \<and> st = Active))"
  using assms keep_flow_shape [of read now f Candidate l] keep_flow_shape [of read now f Active l]
  by (auto simp: move_regression_def split: option.split verdict_kind.split)

text \<open>A new regression test that agrees with its finding keeps the invariant.\<close>

lemma inv_new_regression:
  assumes "ledger_inv l" "find_finding (g_finding g) l = Some f" "test_ok (f_verdict f) g"
    "find_regression (g_finding g) l = None"
  shows "ledger_inv (l\<lparr>regressions := regressions l @ [g]\<rparr>)" (is "ledger_inv ?l")
proof -
  have look: "find_finding k ?l = find_finding k l" for k by (simp add: find_finding_def)
  have test: "find_regression k ?l = (if k = g_finding g then Some g else find_regression k l)" for k
    using assms(4) by (auto simp: find_regression_def row_simps coalesce_def split: option.splits)
  have "\<exists>f. find_finding k l = Some f \<and> test_ok (f_verdict f) g'" if "find_regression k ?l = Some g'" for k g'
    using that assms(2,3) inv_test_ex [OF assms(1)] by (cases "k = g_finding g") (auto simp: test)
  moreover have "distinct (map g_finding (regressions ?l))"
    using assms(1,4) by (auto simp: ledger_inv_def find_regression_def find_row_None)
  moreover have "finding_ok ?l = finding_ok l" by (simp add: fun_eq_iff finding_ok_def look)
  ultimately show ?thesis using assms(1) unfolding ledger_inv_def by (simp add: look del: upt_Suc)
qed

lemma inv_move_none:
  assumes "ledger_inv l" "find_finding (f_id f) l = Some f'" "f_verdict f' = v" "find_regression (f_id f) l = None"
  shows "ledger_inv (snd (move_regression read now f v l))"
  using move_regression_none [OF assms(4), of read now v]
proof (elim disjE exE conjE)
  fix st sha flow
  assume "snd (move_regression read now f v l) = l\<lparr>regressions := regressions l @ [new_regression now f sha flow st]\<rparr>"
    and "v = Some Real" "st = Candidate"
  with assms show ?thesis by (auto intro!: inv_new_regression simp: new_regression_def test_ok_def)
next
  fix st sha flow
  assume "snd (move_regression read now f v l) = l\<lparr>regressions := regressions l @ [new_regression now f sha flow st]\<rparr>"
    and "v = Some Fixed" "st = Active"
  with assms show ?thesis by (auto intro!: inv_new_regression simp: new_regression_def test_ok_def)
qed (simp add: assms(1))

lemma inv_set_verdict:
  assumes "ledger_inv l" "set_verdict read now by n v note dup l = Inr (m, l')"
  shows "ledger_inv l'"
proof -
  from assms(2) obtain f target where f: "find_finding n l = Some f"
    and target: "(if v = Some Duplicate then map_sum id Some (duplicate_target n dup l) else Inr None) = Inr target"
    and l': "l' = snd (move_regression read now f v (log_verdict
      \<lparr>h_finding = n, h_at = now, h_regressed = False, h_verdict = v, h_note = note, h_actor = ac_actor by, h_source = ac_source by\<rparr>
      (update_finding n (judge_row now v note target) l)))" (is "_ = snd (move_regression _ _ _ _ (log_verdict ?x ?l))")
    by (auto simp: set_verdict_def split: option.splits sum.splits dest: arg_cong [where f = snd])
  from f have id: "f_id f = n" by (auto dest: find_finding_id)
  have dup: "v = Some Duplicate \<longleftrightarrow> target \<noteq> None" "\<And>d. target = Some d \<Longrightarrow> d \<noteq> n \<and> find_finding d l \<noteq> None"
    using target by (auto simp: map_sum_Inr split: if_splits dest: duplicate_target_found)
  have ok: "finding_ok l (judge_row now v note target f)"
    by (rule judged_finding_ok [OF inv_finding [OF assms(1) f] dup(1)]) (simp add: dup(2) id)
  have judged: "f_verdict (judge_row now v note target f') = v" for f' by (simp add: judge_row_def)
  show ?thesis
  proof (cases "find_regression n l")
    case None
    then have inv: "ledger_inv (log_verdict ?x ?l)"
      using ok f by (intro inv_log inv_update_finding assms(1)) auto
    have "find_finding n (log_verdict ?x ?l) = Some (judge_row now v note target f)"
      using f by (simp add: find_finding_update)
    with inv None id judged show ?thesis unfolding l' by (auto intro!: inv_move_none)
  next
    case (Some g)
    have "distinct (map g_finding (regressions (log_verdict ?x ?l)))" using assms(1) by (simp add: ledger_inv_def)
    then have "l' = update_regression n (moved_test now v) (log_verdict ?x ?l)"
      using move_regression_some Some l' id by simp
    then have "l' = log_verdict ?x (update_regression n (moved_test now v) ?l)"
      by (simp add: log_verdict_def update_regression_def)
    moreover have "ledger_inv (update_regression n (moved_test now v) ?l)"
      by (rule inv_update_both [OF assms(1)])
        (use ok f judged in \<open>auto intro: moved_test_ok [OF inv_test [OF assms(1)]]\<close>)
    ultimately show ?thesis by (simp add: inv_log)
  qed
qed

lemma inv_record_run:
  assumes "ledger_inv l" "record_regression_run now n run l = Inr (b, l')"
  shows "ledger_inv l'"
proof -
  have reopened: "finding_ok l (reopen_row now run f)" if "find_finding n l = Some f" for f
    using inv_finding [OF assms(1) that] by (auto simp: finding_ok_def reopen_row_def)
  have run: "test_ok v (run_row now run a g) \<longleftrightarrow> test_ok v g" for v a g
    by (simp add: test_ok_def run_row_def split: option.split verdict_kind.split)
  have 1: "ledger_inv (update_regression n (run_row now run a) l)" for a
    by (rule inv_update_regression [OF assms(1)]) (auto simp: run dest: inv_test [OF assms(1)])
  have 2: "ledger_inv (update_finding n (reopen_row now run) (update_regression n (run_row now run a) l))"
    if "find_regression n l = Some g" "g_state g = Active" for a g
  proof (rule inv_update_finding [OF 1])
    fix f assume "find_finding n (update_regression n (run_row now run a) l) = Some f"
    with reopened [of f] show "finding_ok (update_regression n (run_row now run a) l) (reopen_row now run f)"
      by (simp add: finding_ok_def)
  next
    fix f g' assume *: "find_finding n (update_regression n (run_row now run a) l) = Some f"
      "find_regression n (update_regression n (run_row now run a) l) = Some g'"
    from inv_test [OF 1 *(2,1)] show "test_ok (f_verdict (reopen_row now run f)) g'"
      by (simp add: test_ok_def reopen_row_def)
  qed simp_all
  show ?thesis
    using assms(2) 1 2 by (auto simp: record_regression_run_def Let_def inv_log split: option.splits if_splits)
qed

lemma first_problem_None: "first_problem c xs = None \<longleftrightarrow> list_all (\<lambda>x. c x = None) xs"
  by (induction xs) (auto simp: first_problem_def List.map_filter_def split: list.splits)

end
