(* ===== verification/Ledger_Runs.thy ===== *)
theory Ledger_Runs
  imports Finding_Laws "HOL-Library.Sublist"
begin

text \<open>
  The ledger of findings over time: what the requests of \<open>api/findings.ts\<close> and the answers of GitHub can
  make of an empty ledger, the invariant every such ledger has, and the cap on issues per app and day.
\<close>

section \<open>Reachable ledgers\<close>

definition empty_ledger :: ledger where
  "empty_ledger = \<lparr>findings = [], verdict_log = [], regressions = []\<rparr>"

text \<open>The clock never goes back. The artifact store may hold anything when a verdict is given.\<close>

inductive ledger_reachable :: "issue_options \<Rightarrow> int \<Rightarrow> ledger \<Rightarrow> bool" for io where
  start: "ledger_reachable io now empty_ledger"
| later: "ledger_reachable io now' l" if "ledger_reachable io now l" "now \<le> now'"
| posted: "ledger_reachable io now l'" if "ledger_reachable io now l" "post_finding io now b l = Inr (r, l')"
| judged: "ledger_reachable io now l'"
    if "ledger_reachable io now l" "set_verdict read now by n v note dup l = Inr (m, l')"
| reported: "ledger_reachable io now l'"
    if "ledger_reachable io now l" "record_regression_run now n run l = Inr (b, l')"
| answered: "ledger_reachable io now (snd (file_issue io n i a l))"
    if "ledger_reachable io now l" "find_finding n l = Some f" "f_issue f = Some i"

lemma inv_start: "ledger_inv empty_ledger"
  by (simp add: ledger_inv_def empty_ledger_def find_finding_def find_regression_def find_row_def)

lemma inv_post: "ledger_inv l \<Longrightarrow> post_finding io now b l = Inr (r, l') \<Longrightarrow> ledger_inv l'"
  by (auto simp: post_finding_def map_sum_Inr dest: validated_evidence inv_store_finding)
    (metis inv_store_finding snd_conv validated_evidence)

lemma reachable_ledger_inv: "ledger_reachable io now l \<Longrightarrow> ledger_inv l"
  by (induction rule: ledger_reachable.induct)
    (auto intro: inv_start inv_post inv_set_verdict inv_record_run inv_file_issue)

section \<open>The issues of a day\<close>

definition issues_between :: "string \<Rightarrow> int \<Rightarrow> int \<Rightarrow> finding list \<Rightarrow> nat" where
  "issues_between app a b fs =
     length (filter (\<lambda>f. counted app a f \<and> (case f_issue f of None \<Rightarrow> False | Some i \<Rightarrow> is_at i \<le> b)) fs)"

definition past_issues :: "int \<Rightarrow> finding list \<Rightarrow> bool" where
  "past_issues now fs \<longleftrightarrow> (\<forall>f i. f \<in> set fs \<longrightarrow> f_issue f = Some i \<longrightarrow> is_at i \<le> now)"

definition cap_inv :: "issue_options \<Rightarrow> int \<Rightarrow> finding list \<Rightarrow> bool" where
  "cap_inv io now fs \<longleftrightarrow> past_issues now fs \<and> (\<forall>app t. issues_between app (t - DAY_S) t fs \<le> io_cap io)"

text \<open>An issue counts for an app and a window as a function of its app and its record.\<close>

definition same_issue :: "finding \<Rightarrow> finding \<Rightarrow> bool" where
  "same_issue f f' \<longleftrightarrow>
     f_app f = f_app f' \<and> has_settled_issue f = has_settled_issue f' \<and>
     map_option is_at (f_issue f) = map_option is_at (f_issue f')"

lemma same_issue_counted:
  assumes "same_issue f f'"
  shows "counted app a f = counted app a f'"
    "(case f_issue f of None \<Rightarrow> False | Some i \<Rightarrow> is_at i \<le> b) = (case f_issue f' of None \<Rightarrow> False | Some i \<Rightarrow> is_at i \<le> b)"
  using assms by (auto simp: same_issue_def counted_def split: option.splits)

lemma same_issue_rows [simp]:
  "same_issue f f" "same_issue (judge_row now v note t f) f" "same_issue (seen_again now x f) f"
  "same_issue (reopen_row now run f) f"
  by (simp_all add: same_issue_def judge_row_def seen_again_def reopen_row_def Let_def has_settled_issue_def)

lemma cap_map:
  assumes "cap_inv io now fs" "\<And>f. f \<in> set fs \<Longrightarrow> same_issue (h f) f"
  shows "cap_inv io now (map h fs)"
proof -
  have "is_at i \<le> now" if "f \<in> set fs" "f_issue (h f) = Some i" for f i
  proof -
    from assms(2) [OF that(1)] that(2) have "map_option is_at (f_issue f) = Some (is_at i)" by (simp add: same_issue_def)
    with assms(1) that(1) show ?thesis by (auto simp: cap_inv_def past_issues_def)
  qed
  then have "past_issues now (map h fs)" by (auto simp: past_issues_def)
  moreover have "issues_between app a b (map h fs) = issues_between app a b fs" for app a b
    unfolding issues_between_def filter_map length_map
    by (rule arg_cong [where f = length], rule filter_cong [OF refl])
      (use same_issue_counted [OF assms(2)] in simp)
  ultimately show ?thesis using assms(1) by (simp add: cap_inv_def)
qed

lemma cap_update:
  "cap_inv io now (findings l) \<Longrightarrow> (\<And>f. same_issue (h f) f) \<Longrightarrow> cap_inv io now (findings (update_finding n h l))"
  by (auto simp: update_finding_def update_row_def intro!: cap_map)

lemma cap_later: "cap_inv io now fs \<Longrightarrow> now \<le> now' \<Longrightarrow> cap_inv io now' fs"
  by (force simp: cap_inv_def past_issues_def)

lemma cap_new: "cap_inv io now fs \<Longrightarrow> cap_inv io now (fs @ [new_finding now n x])"
  by (auto simp: cap_inv_def past_issues_def issues_between_def counted_def new_finding_def has_settled_issue_def)

lemma length_filter_update:
  "distinct (map k xs) \<Longrightarrow>
     length (filter P (update_row k n h xs)) \<le> length (filter (\<lambda>x. k x \<noteq> n \<and> P x) xs) + 1"
proof (induction xs)
  case (Cons x xs)
  show ?case
  proof (cases "k x = n")
    case True
    with Cons.prems have "\<And>y. y \<in> set xs \<Longrightarrow> k y \<noteq> n" by (auto simp: image_iff)
    then have "update_row k n h xs = xs" "filter (\<lambda>x. k x \<noteq> n \<and> P x) xs = filter P xs"
      by (auto simp: update_row_def intro!: map_idI filter_cong)
    with True show ?thesis by (simp add: update_row_def)
  next
    case False
    with Cons show ?thesis by (simp add: update_row_def)
  qed
qed (simp add: update_row_def)

lemma length_filter_same:
  "(\<And>x. x \<in> set xs \<Longrightarrow> P (h x) = P x) \<Longrightarrow> length (filter P (map h xs)) = length (filter P xs)"
  by (simp add: filter_map) (metis (mono_tags, lifting) comp_apply filter_cong)

text \<open>A plan keeps the cap: it is settled only where fewer than the cap were settled in the last day.\<close>

lemma plan_settled:
  assumes "is_state (plan_issue io now f fs) \<in> set SETTLED"
  shows "filed_today now f fs < io_cap io"
  using assms by (auto simp: plan_issue_def Let_def SETTLED_def split: if_splits)

lemma plan_at [simp]: "is_at (plan_issue io now f fs) = now"
  by (simp add: plan_issue_def Let_def)

lemma cap_plan:
  assumes cap: "cap_inv io now (findings l)" and ids: "distinct (map f_id (findings l))"
    and f: "find_finding n l = Some f" "wants_issue f"
  shows "cap_inv io now (findings (update_finding n (\<lambda>g. g\<lparr>f_issue := Some (plan_issue io now f (findings l))\<rparr>) l))"
    (is "cap_inv io now (findings (update_finding n ?h l))")
proof -
  let ?i = "plan_issue io now f (findings l)"
  let ?in = "\<lambda>app a b g. counted app a g \<and> (case f_issue g of None \<Rightarrow> False | Some i \<Rightarrow> is_at i \<le> b)"
  have fs: "findings (update_finding n ?h l) = update_row f_id n ?h (findings l)" by (simp add: update_finding_def)
  have fn: "f_id f = n" "f \<in> set (findings l)" using f(1) by (auto dest: find_finding_id)
  have only: "g = f" if "g \<in> set (findings l)" "f_id g = n" for g
    using that fn ids by (metis distinct_map inj_onD)
  have old: "\<not> ?in app a b f" for app a b using f(2) by (simp add: counted_def wants_issue_def)
  have past: "past_issues now (update_row f_id n ?h (findings l))"
    using cap by (auto simp: cap_inv_def past_issues_def update_row_def split: if_splits)
  have "issues_between app (t - DAY_S) t (update_row f_id n ?h (findings l)) \<le> io_cap io" for app t
  proof (cases "?in app (t - DAY_S) t (?h f)")
    case False
    have "?in app (t - DAY_S) t (if f_id g = n then ?h g else g) = ?in app (t - DAY_S) t g"
      if g: "g \<in> set (findings l)" for g
    proof (cases "f_id g = n")
      case True
      with only [OF g] have "g = f" by blast
      then show ?thesis using False old [of app "t - DAY_S" t] True by (simp only: if_True simp_thms)
    qed simp
    then have "issues_between app (t - DAY_S) t (update_row f_id n ?h (findings l)) = issues_between app (t - DAY_S) t (findings l)"
      unfolding issues_between_def update_row_def by (intro length_filter_same)
    with cap show ?thesis by (simp add: cap_inv_def)
  next
    case True
    then have t: "f_app f = app" "t - DAY_S \<le> now" "now \<le> t" "is_state ?i \<in> set SETTLED"
      by (auto simp: counted_def has_settled_issue_def)
    have "issues_between app (t - DAY_S) t (update_row f_id n ?h (findings l))
        \<le> length (filter (\<lambda>g. f_id g \<noteq> n \<and> ?in app (t - DAY_S) t g) (findings l)) + 1"
      unfolding issues_between_def by (rule length_filter_update [OF ids])
    also have "\<dots> \<le> filed_today now f (findings l) + 1"
    proof -
      have "counted app (now - DAY_S) g" if "?in app (t - DAY_S) t g" for g
        using that t(3) by (auto simp: counted_def split: option.splits)
      then have "length (filter (\<lambda>g. f_id g \<noteq> n \<and> ?in app (t - DAY_S) t g) (findings l)) \<le> filed_today now f (findings l)"
        unfolding filed_today_def t(1) fn(1) by (intro length_filter_mono) auto
      then show ?thesis by simp
    qed
    also have "\<dots> \<le> io_cap io" using plan_settled [OF t(4)] by simp
    finally show ?thesis .
  qed
  with past show ?thesis by (simp add: cap_inv_def fs)
qed

text \<open>An answer of GitHub leaves a settled record settled, with its time.\<close>

lemma same_issue_answered:
  assumes "f_issue f = Some i" "is_state i = Pending"
  shows "same_issue (f\<lparr>f_issue := Some (answered_issue i a)\<rparr>) f"
  using assms by (auto simp: same_issue_def has_settled_issue_def answered_issue_def SETTLED_def split: github_answer.split)

lemma cap_answer:
  assumes "cap_inv io now (findings l)" "distinct (map f_id (findings l))" "find_finding n l = Some f" "f_issue f = Some i"
  shows "cap_inv io now (findings (snd (file_issue io n i a l)))"
proof -
  let ?h = "\<lambda>g. g\<lparr>f_issue := Some (answered_issue i a)\<rparr>"
  let ?h' = "\<lambda>g. if f_issue g = Some i then ?h g else g"
  show ?thesis
  proof (cases "is_state i = Pending")
    case True
    have "update_finding n ?h l = update_finding n ?h' l"
      using update_row_cong [of f_id n "findings l" f ?h ?h'] assms(2-4) by (simp add: update_finding_def find_finding_def)
    with True cap_update [OF assms(1), of ?h' n] assms(1) show ?thesis
      by (simp add: file_issue_def Let_def same_issue_answered)
  qed (simp add: file_issue_def assms(1))
qed

section \<open>Every reachable ledger keeps the cap\<close>

lemma move_regression_findings [simp]: "findings (snd (move_regression read now f v l)) = findings l"
  by (auto simp: move_regression_def keep_flow_def update_regression_def split: option.split verdict_kind.split)

lemma set_verdict_findings:
  "set_verdict read now by n v note dup l = Inr (m, l') \<Longrightarrow>
     \<exists>t. findings l' = findings (update_finding n (judge_row now v note t) l)"
  by (auto simp: set_verdict_def split: option.splits sum.splits dest!: arg_cong [where f = "\<lambda>p. findings (snd p)"])
    (metis)

lemma record_run_findings:
  "record_regression_run now n run l = Inr (b, l') \<Longrightarrow>
     findings l' = findings l \<or> findings l' = findings (update_finding n (reopen_row now run) l)"
  by (auto simp: record_regression_run_def Let_def update_finding_def split: option.splits if_splits)

lemma inv_distinct_ids: "ledger_inv l \<Longrightarrow> distinct (map f_id (findings l))"
  by (simp add: ledger_inv_def del: upt_Suc)

lemma cap_maybe_plan:
  "cap_inv io now (findings l) \<Longrightarrow> distinct (map f_id (findings l)) \<Longrightarrow>
     cap_inv io now (findings (snd (maybe_plan_issue io now n l)))"
  by (auto simp: maybe_plan_issue_def Let_def intro: cap_plan split: option.split)

lemma cap_store:
  assumes "cap_inv io now (findings l)" "ledger_inv l" "evidence_ok (x_check x) (x_replay x)"
  shows "cap_inv io now (findings (snd (store_finding io now x l)))"
proof (cases "find_fingerprint (x_fingerprint x) l")
  case None
  let ?l = "l\<lparr>findings := findings l @ [new_finding now (Suc (length (findings l))) x]\<rparr>"
  have "cap_inv io now (findings ?l)" using cap_new [OF assms(1)] by simp
  moreover have "distinct (map f_id (findings ?l))"
    using inv_new_finding [OF assms(2,3) None] by (rule inv_distinct_ids)
  ultimately show ?thesis using None cap_maybe_plan [of io now ?l] by (simp add: store_finding_def Let_def split_beta)
next
  case (Some f)
  let ?l = "update_finding (f_id f) (seen_again now x) l"
  have "cap_inv io now (findings ?l)" by (rule cap_update [OF assms(1)]) simp
  moreover have "distinct (map f_id (findings ?l))"
    using inv_seen_again [OF assms(2,3)] by (rule inv_distinct_ids)
  ultimately show ?thesis using Some cap_maybe_plan [of io now ?l] by (simp add: store_finding_def Let_def split_beta)
qed

lemma reachable_cap: "ledger_reachable io now l \<Longrightarrow> cap_inv io now (findings l)"
proof (induction rule: ledger_reachable.induct)
  case (start now)
  show ?case by (simp add: cap_inv_def past_issues_def issues_between_def empty_ledger_def)
next
  case (posted now l b r l')
  then obtain x where "validate_finding b = Inr x" "l' = snd (store_finding io now x l)"
    by (auto simp: post_finding_def map_sum_Inr) (metis snd_conv)
  with posted reachable_ledger_inv show ?case by (auto intro: cap_store dest: validated_evidence)
next
  case (judged now l read who n v said dup m l')
  then show ?case using set_verdict_findings [OF judged(2)] by (auto intro!: cap_update)
next
  case (reported now l n run b l')
  then show ?case using record_run_findings [OF reported(2)] by (auto intro!: cap_update)
next
  case (answered now l n f i a)
  then show ?case using inv_distinct_ids reachable_ledger_inv cap_answer by blast
qed (auto intro: cap_later)

section \<open>Fences\<close>

lemma longest_run_ge: "cur \<le> longest_run c cur best s \<and> best \<le> longest_run c cur best s"
proof (induction s arbitrary: cur best)
  case (Cons x xs)
  show ?case using Cons [of "Suc cur" best] Cons [of 0 "max cur best"] by auto
qed simp

lemma longest_run_prefix: "prefix (replicate k c) s \<Longrightarrow> cur + k \<le> longest_run c cur best s"
proof (induction s arbitrary: cur best k)
  case (Cons x xs)
  show ?case
  proof (cases k)
    case 0
    then show ?thesis using longest_run_ge [of cur c best "x # xs"] by simp
  next
    case (Suc j)
    with Cons.prems have "x = c" "prefix (replicate j c) xs" by auto
    with Cons.IH [of j "Suc cur"] Suc show ?thesis by simp
  qed
qed auto

lemma longest_run_sublist: "sublist (replicate k c) s \<Longrightarrow> k \<le> longest_run c cur best s"
proof (induction s arbitrary: cur best)
  case (Cons x xs)
  from Cons.prems consider "prefix (replicate k c) (x # xs)" | "sublist (replicate k c) xs"
    by (auto simp: sublist_Cons_right)
  then show ?case
  proof cases
    case 1
    then show ?thesis using longest_run_prefix [of k c "x # xs" cur best] by simp
  next
    case 2
    then show ?thesis using Cons.IH by simp
  qed
qed simp

lemma fence_longer: "sublist (replicate k tick) s \<Longrightarrow> k < length (fence s)"
  using longest_run_sublist [of k tick s 0 0] by (auto simp: fence_def)

end
