(* ===== verification/Finding_Properties.thy ===== *)
theory Finding_Properties
  imports Ledger_Runs
begin

text \<open>
  The properties of the ledger of findings: what an accepted finding is, what sightings, verdicts and
  nightly runs keep of the ledger, the cap on issues and their fences.
\<close>

section \<open>Examples\<close>

definition demo_options :: issue_options where
  "demo_options = \<lparr>io_repos = [(''plants'', ''me/plants'')], io_armed = True, io_token = Some ''t'', io_dash_url = ''u'', io_cap = 1\<rparr>"

definition demo_post :: "string \<Rightarrow> string \<Rightarrow> js" where
  "demo_post fp title = JObj
     [(''fingerprint'', JStr fp), (''app'', JStr ''plants''), (''build'', JStr ''1''), (''platform'', JStr ''ios''),
      (''device_id'', JStr ''d1''), (''job_id'', JStr ''j1''), (''mission_id'', JStr ''m''), (''check'', JStr ''blank''),
      (''severity'', JStr ''low''), (''title'', JStr title), (''detail'', JStr ''d''), (''screen'', JStr ''s''),
      (''screen_name'', JStr ''n''), (''steps'', JArr [JStr ''tap'']), (''artifacts'', JObj []),
      (''replay'', JObj [(''kind'', JStr ''maestro''), (''sha256'', JNull), (''attempts'', JInt 2), (''reproduced'', JInt 2)])]"

definition demo_exploration :: "string \<Rightarrow> string \<Rightarrow> exploration" where
  "demo_exploration fp title =
     \<lparr>x_fingerprint = fp, x_app = ''plants'', x_build = ''1'', x_platform = ''ios'', x_device_id = ''d1'', x_job_id = ''j1'',
      x_mission_id = ''m'', x_check = ''blank'', x_subclass = None, x_severity = Low, x_title = title, x_detail = ''d'',
      x_screen = ''s'', x_screen_name = ''n'', x_steps = [''tap''],
      x_replay = Some \<lparr>rp_kind = ''maestro'', rp_sha256 = None, rp_attempts = 2, rp_reproduced = 2\<rparr>, x_artifacts = []\<rparr>"

definition demo_finding :: "nat \<Rightarrow> string \<Rightarrow> finding" where
  "demo_finding n fp = new_finding 0 n (demo_exploration fp ''t'')"

definition demo_ledger :: "finding list \<Rightarrow> ledger" where
  "demo_ledger fs = \<lparr>findings = fs, verdict_log = [], regressions = []\<rparr>"

definition nobody :: actor where
  "nobody = \<lparr>ac_actor = None, ac_source = None\<rparr>"

lemma demo_valid: "validate_finding (demo_post ''fp'' ''t'') = Inr (demo_exploration ''fp'' ''t'')"
  by code_simp

section \<open>What is accepted\<close>

definition well_formed :: "exploration \<Rightarrow> bool" where
  "well_formed x \<longleftrightarrow>
     list_all (\<lambda>(s, n). trim s \<noteq> [] \<and> length s \<le> n)
       [(x_fingerprint x, 256), (x_app x, 200), (x_build x, 200), (x_platform x, 200), (x_device_id x, 200),
        (x_job_id x, 200), (x_mission_id x, 200), (x_title x, 300)] \<and>
     length (x_detail x) \<le> 8000 \<and> length (x_screen x) \<le> 300 \<and> length (x_screen_name x) \<le> 300 \<and>
     x_check x \<in> set CHECK_NAMES \<and> length (x_steps x) \<le> 100 \<and> list_all (\<lambda>s. length s \<le> 500) (x_steps x) \<and>
     list_all (\<lambda>(k, sha). k \<in> set ARTIFACT_KEYS \<and> is_sha256 sha) (x_artifacts x) \<and>
     evidence_ok (x_check x) (x_replay x)"

lemma required_problem_None:
  "required_problem b (k, n) = None \<longleftrightarrow> (\<exists>s. jget k b = JStr s \<and> length s \<le> n \<and> trim s \<noteq> [])"
  by (auto simp: required_problem_def str_of_def split: js.splits)

lemma text_problem_None: "text_problem b (k, n) = None \<longleftrightarrow> (\<exists>s. jget k b = JStr s \<and> length s \<le> n)"
  by (auto simp: text_problem_def str_of_def split: js.splits)

lemma text_of_JStr [simp]: "jget k b = JStr s \<Longrightarrow> text_of b k = s"
  by (simp add: text_of_def str_of_def)

lemma length_map_filter: "length (List.map_filter f xs) \<le> length xs"
  by (simp add: List.map_filter_def)

lemma steps_problem_None:
  "steps_problem v = None \<Longrightarrow> length (strings_of v) \<le> 100 \<and> list_all (\<lambda>s. length s \<le> 500) (strings_of v)"
  unfolding steps_problem_def strings_of_def
  by (auto simp: list_all_iff list_ex_iff not_less split: js.splits if_splits intro: order_trans [OF length_map_filter])

lemma artifacts_problem_None:
  assumes "artifacts_problem v = None"
  shows "list_all (\<lambda>(k, sha). k \<in> set ARTIFACT_KEYS \<and> is_sha256 sha) (artifacts_of v)"
proof -
  from assms obtain fs where v: "v = JObj fs" "list_all (\<lambda>kv. artifact_problem kv = None) fs"
    by (auto simp: artifacts_problem_def first_problem_None split: js.splits)
  have "is_sha256 sha" if "str_of (jget k v) = Some sha" for k sha
  proof -
    from that v(1) have "map_of fs k = Some (JStr sha)" by (auto simp: str_of_def split: js.splits option.splits)
    then have "(k, JStr sha) \<in> set fs" by (rule map_of_SomeD)
    with v(2) have "artifact_problem (k, JStr sha) = None" by (simp add: list_all_iff)
    then show ?thesis by (auto simp: artifact_problem_def is_sha_value_def str_of_def split: if_splits)
  qed
  then show ?thesis
    by (auto simp: artifacts_of_def list_all_iff List.map_filter_def split: if_splits)
qed

lemma body_problem_None:
  assumes "body_problem b = None"
  shows "list_all (\<lambda>kn. required_problem b kn = None) required_fields" "list_all (\<lambda>kn. text_problem b kn = None) text_fields"
    "is_check (jget ''check'' b)" "steps_problem (jget ''steps'' b) = None" "artifacts_problem (jget ''artifacts'' b) = None"
  using assms by (auto simp: body_problem_def first_problem_None split: option.splits if_splits)

text \<open>C12: what the collector accepts is a finding of the documented shape. Every accepted body has its ids,
  its app, build and title within their sizes and not blank, a known check, at most a hundred steps of at
  most 500 characters, only known artifacts with a sha256 digest, and evidence: a replay that reproduced
  it at least once and no more often than it was tried, or none at all for a crash.\<close>

theorem accepted_finding_well_formed:
  assumes "validate_finding b = Inr x"
  shows "well_formed x"
proof -
  from assms have body: "body_problem b = None"
    and x: "\<exists>r. check_evidence b = Inr r \<and> x_replay x = r"
      "x_fingerprint x = text_of b ''fingerprint''" "x_app x = text_of b ''app''" "x_build x = text_of b ''build''"
      "x_platform x = text_of b ''platform''" "x_device_id x = text_of b ''device_id''" "x_job_id x = text_of b ''job_id''"
      "x_mission_id x = text_of b ''mission_id''" "x_check x = text_of b ''check''" "x_title x = text_of b ''title''"
      "x_detail x = text_of b ''detail''" "x_screen x = text_of b ''screen''" "x_screen_name x = text_of b ''screen_name''"
      "x_steps x = strings_of (jget ''steps'' b)" "x_artifacts x = artifacts_of (jget ''artifacts'' b)"
    by (auto simp: validate_finding_def map_sum_Inr split: if_splits option.splits)
  note none = body_problem_None [OF body]
  have "text_of b ''check'' \<in> set CHECK_NAMES" using none(3) by (auto simp: is_check_def text_of_def str_of_def)
  with none(1,2) steps_problem_None [OF none(4)] artifacts_problem_None [OF none(5)] validated_evidence [OF assms]
  show ?thesis
    by (auto simp: well_formed_def x(2-) required_fields_def text_fields_def required_problem_None text_problem_None)
qed

theorem accepted_finding_well_formed_witness: "well_formed (demo_exploration ''fp'' ''t'')"
  by (rule accepted_finding_well_formed [OF demo_valid])

section \<open>The ledger\<close>

lemma post_valid:
  "validate_finding b = Inr x \<Longrightarrow>
     post_finding io now b l = Inr (fst (store_finding io now x l), snd (store_finding io now x l))"
  by (simp add: post_finding_def)

lemma demo_reachable_1: "ledger_reachable demo_options 0 (snd (store_finding demo_options 0 (demo_exploration ''fp'' ''t'') empty_ledger))"
  by (rule ledger_reachable.posted [OF ledger_reachable.start post_valid [OF demo_valid]])

text \<open>C10: the ledger is sound at all times: whatever is posted, judged, reported and answered, every finding
  keeps evidence, no fingerprint has two rows, a finding is a duplicate exactly when it points at another
  stored finding, and a regression test agrees with the verdict of its finding: never retired while the
  finding is real, active while it is fixed, retired once it is judged anything else.\<close>

theorem ledger_sound:
  assumes "ledger_reachable io now l"
  shows "ledger_inv l"
  using assms by (rule reachable_ledger_inv)

theorem ledger_sound_witness:
  "ledger_inv (snd (store_finding demo_options 0 (demo_exploration ''fp'' ''t'') empty_ledger))"
  by (rule ledger_sound [OF demo_reachable_1])

text \<open>C11: no app gets more issues than its cap in any 24 hours, dry runs and failed requests included:
  this holds of every window of a day, not only of the days the code counts.\<close>

theorem issue_cap_holds:
  assumes "ledger_reachable io now l"
  shows "issues_between app (t - DAY_S) t (findings l) \<le> io_cap io"
  using reachable_cap [OF assms] by (simp add: cap_inv_def)

theorem issue_cap_holds_witness:
  "issues_between ''plants'' (0 - DAY_S) 0
     (findings (snd (store_finding demo_options 0 (demo_exploration ''fp'' ''t'') empty_ledger))) \<le> 1"
  using issue_cap_holds [OF demo_reachable_1, of "''plants''" 0] by (simp add: demo_options_def)

section \<open>Sightings\<close>

definition same_words :: "finding \<Rightarrow> finding \<Rightarrow> bool" where
  "same_words f f' \<longleftrightarrow>
     (f_id f, f_fingerprint f, f_title f, f_detail f, f_steps f, f_screen f, f_first_seen f) =
       (f_id f', f_fingerprint f', f_title f', f_detail f', f_steps f', f_screen f', f_first_seen f') \<and>
     (f_verdict f, f_verdict_note f, f_verdict_at f, f_duplicate_of f) =
       (f_verdict f', f_verdict_note f', f_verdict_at f', f_duplicate_of f')"

lemma maybe_plan_finding:
  "find_finding k (snd (maybe_plan_issue io now n l)) =
     map_option (\<lambda>f. if k = n \<and> wants_issue f then f\<lparr>f_issue := Some (plan_issue io now f (findings l))\<rparr> else f)
       (find_finding k l)"
  by (cases "find_finding k l") (auto simp: maybe_plan_issue_def Let_def find_finding_update split: option.split)

lemma store_known_finding:
  assumes "find_fingerprint (x_fingerprint x) l = Some f" "find_finding (f_id f) l = Some f"
  shows "find_finding k (snd (store_finding io now x l)) =
    (if k = f_id f
     then Some (let f' = seen_again now x f in
       if wants_issue f'
       then f'\<lparr>f_issue := Some (plan_issue io now f' (findings (update_finding (f_id f) (seen_again now x) l)))\<rparr> else f')
     else find_finding k l)"
  using assms(2)
  by (cases "find_finding k l") (auto simp: store_finding_def assms(1) Let_def split_beta maybe_plan_finding find_finding_update)

lemma known_fingerprint:
  assumes "ledger_inv l" "find_finding n l = Some f" "x_fingerprint x = f_fingerprint f"
  shows "find_fingerprint (x_fingerprint x) l = Some f"
proof -
  have "f \<in> set (findings l)" using assms(2) by (auto dest: find_finding_id)
  moreover have "distinct (map f_fingerprint (findings l))" using assms(1) by (simp add: ledger_inv_def)
  ultimately show ?thesis unfolding find_fingerprint_def assms(3) by (simp add: find_row_in)
qed

lemma severity_max: "severity_rank (f_severity (seen_again now x f)) = max (severity_rank (f_severity f)) (severity_rank (x_severity x))"
  by (simp add: seen_again_def Let_def)

text \<open>a repeat sighting never changes what a person has read or judged. A finding posted again is folded
  into its row: the row keeps its title, detail, steps and verdict, counts one more sighting, its severity
  becomes the higher of the two, and every other row stays as it was. An issue that was settled is kept: it
  is never planned, and so never sent, a second time.\<close>

theorem repeat_sighting:
  assumes "ledger_inv l" "find_finding n l = Some f" "x_fingerprint x = f_fingerprint f"
  shows "case find_finding n (snd (store_finding io now x l)) of
      None \<Rightarrow> False
    | Some f' \<Rightarrow> same_words f f' \<and> f_seen_count f' = f_seen_count f + 1 \<and>
        severity_rank (f_severity f') = max (severity_rank (f_severity f)) (severity_rank (x_severity x)) \<and>
        (has_settled_issue f \<longrightarrow> f_issue f' = f_issue f) \<and>
        (k \<noteq> n \<longrightarrow> find_finding k (snd (store_finding io now x l)) = find_finding k l)"
proof -
  have id: "f_id f = n" using assms(2) by (auto dest: find_finding_id)
  have settled: "\<not> wants_issue (seen_again now x f)" if "has_settled_issue f"
    using that by (simp add: wants_issue_def has_settled_issue_def seen_again_def Let_def)
  note look = store_known_finding [OF known_fingerprint [OF assms], unfolded id, OF assms(2), of _ io now]
  show ?thesis
    using settled severity_max [of now x f]
    by (simp add: look Let_def) (auto simp: same_words_def seen_again_def Let_def)
qed

theorem repeat_sighting_witness:
  "case find_finding 1 (snd (store_finding demo_options 5 (demo_exploration ''fp'' ''other'') (demo_ledger [demo_finding 1 ''fp'']))) of
     None \<Rightarrow> False
   | Some f' \<Rightarrow> f_title f' = ''t'' \<and> f_seen_count f' = 2"
proof -
  let ?l = "demo_ledger [demo_finding 1 ''fp'']"
  have f: "find_finding 1 ?l = Some (demo_finding 1 ''fp'')" "find_regression k ?l = None" for k
    by (simp_all add: demo_ledger_def find_finding_def find_regression_def find_row_def demo_finding_def new_finding_def)
  have "ledger_inv ?l"
    by (auto simp: ledger_inv_def f(2))
      (auto simp: demo_ledger_def find_finding_def find_regression_def find_row_def demo_finding_def new_finding_def finding_ok_def
        demo_exploration_def evidence_ok_def split: if_splits)
  note again = repeat_sighting [OF this f(1), where x = "demo_exploration ''fp'' ''other''" and io = demo_options and now = 5 and k = 1]
  have "x_fingerprint (demo_exploration ''fp'' ''other'') = f_fingerprint (demo_finding 1 ''fp'')"
    "f_title (demo_finding 1 ''fp'') = ''t''" "f_seen_count (demo_finding 1 ''fp'') = 1"
    by (simp_all add: demo_finding_def new_finding_def demo_exploration_def)
  with again show ?thesis
    by (cases "find_finding 1 (snd (store_finding demo_options 5 (demo_exploration ''fp'' ''other'') ?l))")
      (simp_all add: same_words_def)
qed

section \<open>Verdicts and nightly runs\<close>

text \<open>The chains a verdict leaves. Marking a finding a duplicate follows the chain of the finding it is
  said to duplicate, but not the findings that already point at the one being marked: they keep pointing
  at it while it now is a duplicate itself, a chain of two steps.\<close>

theorem duplicates_left_behind:
  assumes "set_verdict read now by n (Some Duplicate) note dup l = Inr (m, l')"
    and "find_finding c l = Some f" "c \<noteq> n" "f_duplicate_of f = Some n"
  shows "find_finding c l' = Some f \<and> map_option f_verdict (find_finding n l') = Some (Some Duplicate)"
proof -
  from set_verdict_findings [OF assms(1)] obtain t
    where "findings l' = findings (update_finding n (judge_row now (Some Duplicate) note t) l)" by blast
  then have "find_finding k l' = find_finding k (update_finding n (judge_row now (Some Duplicate) note t) l)" for k
    by (simp add: find_finding_def)
  moreover have "find_finding n l \<noteq> None" using assms(1) by (auto simp: set_verdict_def split: option.splits)
  ultimately show ?thesis using assms(2,3) by (auto simp: find_finding_update judge_row_def)
qed

definition chain_ledger :: ledger where
  "chain_ledger = demo_ledger
     [(demo_finding 1 ''a'')\<lparr>f_verdict := Some Duplicate, f_duplicate_of := Some 2\<rparr>, demo_finding 2 ''b'', demo_finding 3 ''c'']"

theorem duplicates_left_behind_witness:
  "case set_verdict (\<lambda>_. None) 9 nobody 2 (Some Duplicate) None (Some 3) chain_ledger of
     Inl _ \<Rightarrow> False
   | Inr (_, l') \<Rightarrow> map f_duplicate_of (findings l') = [Some 2, Some 3, None] \<and>
       map_option f_verdict (find_finding 2 l') = Some (Some Duplicate)"
proof -
  have "case set_verdict (\<lambda>_. None) 9 nobody 2 (Some Duplicate) None (Some 3) chain_ledger of
      Inl _ \<Rightarrow> False | Inr (_, l') \<Rightarrow> map f_duplicate_of (findings l') = [Some 2, Some 3, None]"
    by code_simp
  then obtain m l' where r: "set_verdict (\<lambda>_. None) 9 nobody 2 (Some Duplicate) None (Some 3) chain_ledger = Inr (m, l')"
    and fs: "map f_duplicate_of (findings l') = [Some 2, Some 3, None]"
    by (auto split: sum.splits)
  have "find_finding 1 chain_ledger = Some ((demo_finding 1 ''a'')\<lparr>f_verdict := Some Duplicate, f_duplicate_of := Some 2\<rparr>)"
    by (simp add: chain_ledger_def demo_ledger_def find_finding_def find_row_def demo_finding_def new_finding_def)
  from duplicates_left_behind [OF r this] r fs show ?thesis by simp
qed

text \<open>C13: a regression that comes back reopens its finding, and once per job. The first report of a job that
  an active regression test reproduced its bug clears the verdict, counts the sighting and leaves the test
  active; whatever further devices of the same job report next, the findings stay as they are then.\<close>

theorem regression_reopens_once:
  assumes "find_regression n l = Some g" "find_finding n l = Some f" "g_state g = Active"
    and "rr_outcome run = Reproduced" "g_last_job_id g \<noteq> Some (rr_job_id run)"
    and "rr_job_id run' = rr_job_id run"
  shows "case record_regression_run now n run l of
      Inl _ \<Rightarrow> False
    | Inr (b, l') \<Rightarrow>
        b \<and> find_finding n l' = Some (reopen_row now run f) \<and> f_verdict (reopen_row now run f) = None \<and>
        map_option g_state (find_regression n l') = Some Active \<and>
        (case record_regression_run now' n run' l' of
           Inl _ \<Rightarrow> False
         | Inr (b', l'') \<Rightarrow> \<not> b' \<and> findings l'' = findings l' \<and> verdict_log l'' = verdict_log l')"
proof -
  have row: "g_state (run_row now run a g) = g_state g" "g_last_job_id (run_row now run a g) = Some (rr_job_id run)"
    "g_last_outcome (run_row now run False g) = Some (rr_outcome run)" for a
    by (simp_all add: run_row_def)
  have frame: "verdict_log (update_regression n h l) = verdict_log l" "findings (log_verdict x l) = findings l" for h x l
    by (simp_all add: update_regression_def log_verdict_def)
  show ?thesis
    using assms
    by (simp add: record_regression_run_def Let_def find_finding_update find_regression_update row frame)
      (simp add: reopen_row_def)
qed

definition demo_test :: regression where
  "demo_test = new_regression 3 (demo_finding 1 ''fp'') ''sha'' ''flow'' Active"

definition demo_report :: "id \<Rightarrow> regression_run" where
  "demo_report dev = \<lparr>rr_job_id = ''n1'', rr_device_id = dev, rr_build = ''2'', rr_outcome = Reproduced, rr_detail = ''again''\<rparr>"

definition fixed_ledger :: ledger where
  "fixed_ledger = (demo_ledger [(demo_finding 1 ''fp'')\<lparr>f_verdict := Some Fixed\<rparr>])\<lparr>regressions := [demo_test]\<rparr>"

theorem regression_reopens_once_witness:
  "case record_regression_run 7 1 (demo_report ''d1'') fixed_ledger of
     Inl _ \<Rightarrow> False
   | Inr (b, l') \<Rightarrow> b \<and>
       (case record_regression_run 8 1 (demo_report ''d2'') l' of
          Inl _ \<Rightarrow> False | Inr (b', l'') \<Rightarrow> \<not> b' \<and> findings l'' = findings l')"
proof -
  have g: "find_regression 1 fixed_ledger = Some demo_test" "g_state demo_test = Active" "g_last_job_id demo_test = None"
    by (simp_all add: fixed_ledger_def demo_ledger_def find_regression_def find_row_def demo_test_def new_regression_def
        demo_finding_def new_finding_def)
  have f: "find_finding 1 fixed_ledger = Some ((demo_finding 1 ''fp'')\<lparr>f_verdict := Some Fixed\<rparr>)"
    by (simp add: fixed_ledger_def demo_ledger_def find_finding_def find_row_def demo_finding_def new_finding_def)
  have r: "rr_outcome (demo_report ''d1'') = Reproduced" "rr_job_id (demo_report ''d2'') = rr_job_id (demo_report ''d1'')"
    by (simp_all add: demo_report_def)
  have n: "g_last_job_id demo_test \<noteq> Some (rr_job_id (demo_report ''d1''))" by (simp add: g(3))
  note once = regression_reopens_once [OF g(1) f g(2) r(1) n r(2), of 7 8]
  show ?thesis
  proof (cases "record_regression_run 7 1 (demo_report ''d1'') fixed_ledger")
    case (Inr p)
    with once show ?thesis by (cases p) (auto simp only: sum.case prod.case split: sum.splits)
  qed (use once in simp)
qed

section \<open>Text of an issue\<close>

text \<open>What a model wrote cannot break out of its block in an issue: the fence drawn around a text is
  longer than every run of backticks inside the text.\<close>

theorem fence_not_closed:
  assumes "sublist (replicate k tick) s"
  shows "k < length (fence s) \<and> set (fence s) = {tick} \<and> \<not> sublist (fence s) s"
proof -
  have "fence s = replicate (length (fence s)) tick" by (simp add: fence_def)
  then have "\<not> sublist (fence s) s" using fence_longer [of "length (fence s)" s] by (metis less_irrefl)
  with fence_longer [OF assms] show ?thesis by (auto simp: fence_def)
qed

theorem fence_not_closed_witness: "4 < length (fence (replicate 4 tick @ ''x''))"
proof -
  have "sublist (replicate 4 tick) (replicate 4 tick @ ''x'')" by (simp add: prefix_imp_sublist)
  from fence_not_closed [OF this] show ?thesis by blast
qed

end
