(* ===== verification/Artifacts.thy ===== *)
theory Artifacts
  imports Queue Findings "HOL-Library.Word"
begin

text \<open>
  The artifact store: content-addressed bytes with a row each (\<open>POST /artifacts\<close>, \<open>GET /artifacts/:sha256\<close>
  of \<open>server.ts\<close>), and pins, garbage collection and deletion (\<open>api/mutations.ts\<close>). The files of
  \<open>ARTIFACT_DIR\<close> are a table of their own; the digest is SHA-256, a parameter.
\<close>

section \<open>Media types\<close>

text \<open>
  What an artifact's bytes are (\<open>media-type.ts\<close>): a media type a client asked for, or the one the first
  bytes and the name of the upload suggest.
\<close>

type_synonym byte = "8 word"

definition byte_char :: "byte \<Rightarrow> char" where
  "byte_char b = char_of (unat b)"

definition chars :: "byte list \<Rightarrow> string" where
  "chars bs = map byte_char bs"

text \<open>The table is a plain object, so a look-up of \<open>constructor\<close> finds the function every object inherits:
  an extension that is no media type at all.\<close>

datatype entry = No_Entry | Media string | Inherited

definition BY_EXTENSION :: "(string \<times> string) list" where
  "BY_EXTENSION =
     [(''png'', ''image/png''), (''jpg'', ''image/jpeg''), (''jpeg'', ''image/jpeg''), (''gif'', ''image/gif''),
      (''webp'', ''image/webp''), (''svg'', ''image/svg+xml''), (''pdf'', ''application/pdf''),
      (''json'', ''application/json''), (''xml'', ''application/xml''), (''html'', ''text/html''),
      (''txt'', ''text/plain''), (''log'', ''text/plain''), (''md'', ''text/markdown''), (''csv'', ''text/csv''),
      (''zip'', ''application/zip''), (''apk'', ''application/vnd.android.package-archive''),
      (''ipa'', ''application/octet-stream''), (''gz'', ''application/gzip''), (''tgz'', ''application/gzip''),
      (''mp4'', ''video/mp4''), (''mov'', ''video/quicktime''), (''gguf'', ''application/octet-stream'')]"

definition by_extension :: "string \<Rightarrow> entry" where
  "by_extension ext =
     (case map_of BY_EXTENSION ext of
        Some t \<Rightarrow> Media t
      | None \<Rightarrow> if ext = ''constructor'' then Inherited else No_Entry)"

definition alnum :: "char \<Rightarrow> bool" where
  "alnum c \<longleftrightarrow> is_lower c \<or> is_digit c"

definition media_char :: "char \<Rightarrow> bool" where
  "media_char c \<longleftrightarrow> alnum c \<or> c \<in> set ''!#$&^_.+-''"

definition media_word :: "string \<Rightarrow> bool" where
  "media_word s \<longleftrightarrow> (case s of [] \<Rightarrow> False | c # cs \<Rightarrow> alnum c \<and> list_all media_char cs)"

definition clean_media_type :: "string option \<Rightarrow> string option" where
  "clean_media_type raw =
     (case raw of
        None \<Rightarrow> None
      | Some r \<Rightarrow>
          let v = lower (trim (hd (split_on (CHR '';'') r))) in
          case split_on (CHR ''/'') v of
            [a, b] \<Rightarrow> if media_word a \<and> media_word b \<and> length v \<le> 100 then Some v else None
          | _ \<Rightarrow> None)"

definition starts :: "byte list \<Rightarrow> byte list \<Rightarrow> bool" where
  "starts sig b \<longleftrightarrow> take (length sig) b = sig"

text \<open>The extension of the lowered name: the letters and digits after the last dot, if only those follow it.\<close>

definition extension :: "string \<Rightarrow> string option" where
  "extension name =
     (let r = rev (lower name); ext = takeWhile alnum r in
      if ext \<noteq> [] \<and> starts_with ''.'' (drop (length ext) r) then Some (rev ext) else None)"

text \<open>\<open>trimStart\<close> of the UTF-8 text, on the bytes: the white space of JavaScript as it is encoded, the byte
  order mark included.\<close>

definition SPACES :: "byte list list" where
  "SPACES =
     [[9], [10], [11], [12], [13], [32], [0xC2, 0xA0], [0xE1, 0x9A, 0x80]] @
     map (\<lambda>n. [0xE2, 0x80, 0x80 + of_nat n]) [0..<11] @
     [[0xE2, 0x80, 0xA8], [0xE2, 0x80, 0xA9], [0xE2, 0x80, 0xAF], [0xE2, 0x81, 0x9F], [0xE3, 0x80, 0x80], [0xEF, 0xBB, 0xBF]]"

lemma starts_length: "starts w b \<Longrightarrow> length w \<le> length b"
  unfolding starts_def by (metis length_take min.cobounded1)

lemma spaces_nonempty: "w \<in> set SPACES \<Longrightarrow> 0 < length w"
  unfolding SPACES_def by (auto simp del: upt.simps)

function skip_space :: "byte list \<Rightarrow> byte list" where
  "skip_space b =
     (case List.find (\<lambda>w. starts w b) SPACES of None \<Rightarrow> b | Some w \<Rightarrow> skip_space (drop (length w) b))"
  by pat_completeness auto
termination
proof (relation "measure length")
  fix b w assume "List.find (\<lambda>w. starts w b) SPACES = Some w"
  then have "w \<in> set SPACES" "starts w b" by (auto dest: find_SomeD)
  then have "0 < length w" and "length w \<le> length b" using spaces_nonempty starts_length by blast+
  then show "(drop (length w) b, b) \<in> measure length" unfolding in_measure length_drop by linarith
qed simp

declare skip_space.simps [simp del]

definition textual_byte :: "byte \<Rightarrow> bool" where
  "textual_byte c \<longleftrightarrow> c = 9 \<or> c = 10 \<or> c = 13 \<or> c \<ge> 32"

definition sniff_text :: "byte list \<Rightarrow> string" where
  "sniff_text b =
     (let sample = take 4096 b; start = chars (skip_space sample) in
      if sample = [] \<or> \<not> list_all textual_byte sample then ''application/octet-stream''
      else if starts_with ''{'' start \<or> starts_with ''['' start then ''application/json''
      else if starts_with ''<?xml'' start \<or> starts_with ''<testsuite'' start then ''application/xml''
      else if starts_with ''<!doctype html'' (lower start) \<or> starts_with ''<html'' (lower start) then ''text/html''
      else ''text/plain'')"

definition sniff_media_type :: "byte list \<Rightarrow> string option \<Rightarrow> entry" where
  "sniff_media_type b name =
     (let n = length b; ext = extension (case name of None \<Rightarrow> [] | Some s \<Rightarrow> s);
          known = (case ext of None \<Rightarrow> No_Entry | Some x \<Rightarrow> by_extension x) in
      if n \<ge> 8 \<and> starts [0x89, 0x50, 0x4E, 0x47] b then Media ''image/png''
      else if n \<ge> 3 \<and> starts [0xFF, 0xD8, 0xFF] b then Media ''image/jpeg''
      else if n \<ge> 6 \<and> starts [0x47, 0x49, 0x46, 0x38] b then Media ''image/gif''
      else if n \<ge> 12 \<and> starts [0x52, 0x49, 0x46, 0x46] b \<and> starts [0x57, 0x45, 0x42, 0x50] (drop 8 b)
        then Media ''image/webp''
      else if n \<ge> 5 \<and> starts [0x25, 0x50, 0x44, 0x46, 0x2D] b then Media ''application/pdf''
      else if n \<ge> 2 \<and> starts [0x1F, 0x8B] b then Media ''application/gzip''
      else if known \<noteq> No_Entry then known
      else if n \<ge> 4 \<and> starts [0x50, 0x4B, 0x03, 0x04] b then Media ''application/zip''
      else Media (sniff_text b))"

definition is_textual :: "string \<Rightarrow> bool" where
  "is_textual t \<longleftrightarrow> starts_with ''text/'' t \<or> t = ''application/json'' \<or> t = ''application/xml''"

section \<open>The store\<close>

record blob =
  bb_sha256 :: string
  bb_bytes :: "byte list"

section \<open>Upload\<close>

record upload =
  u_body :: "byte list"
  u_name :: "string option"
  u_app :: "string option"
  u_build :: "string option"
  u_platform :: "string option"
  u_media_type :: "string option"
  u_channel :: "string option"

text \<open>\<open>artifactChannel\<close>: refused, none, or \<open>pr\<close>.\<close>

definition artifact_channel :: "string option \<Rightarrow> string option option" where
  "artifact_channel raw =
     (case raw of
        None \<Rightarrow> Some None
      | Some r \<Rightarrow>
          let v = lower (trim r) in
          if v = [] then Some None else if v = ''pr'' then Some (Some ''pr'') else None)"

definition uploaded_row :: "env \<Rightarrow> string \<Rightarrow> string \<Rightarrow> string option \<Rightarrow> upload \<Rightarrow> artifact" where
  "uploaded_row e sha media channel u =
     \<lparr>a_sha256 = sha, a_name = u_name u, a_size = length (u_body u), a_created_at = e_now e, a_app = u_app u,
      a_build = u_build u, a_platform = u_platform u, a_media_type = Some media, a_published_at = None,
      a_publish_seq = None, a_channel = channel, a_pinned = False, a_pin_reason = None\<rparr>"

text \<open>\<open>INSERT OR IGNORE\<close>, then the media type of a row that has none.\<close>

definition learn_media :: "string \<Rightarrow> artifact \<Rightarrow> artifact" where
  "learn_media media a = (if a_media_type a = None then a\<lparr>a_media_type := Some media\<rparr> else a)"

definition insert_artifact :: "artifact \<Rightarrow> artifact list \<Rightarrow> artifact list" where
  "insert_artifact a as = (if has_row a_sha256 (a_sha256 a) as then as else as @ [a])"

definition next_seq :: "artifact list \<Rightarrow> int" where
  "next_seq as = (case List.map_filter a_publish_seq as of [] \<Rightarrow> 0 | xs \<Rightarrow> Max (set xs)) + 1"

definition publish_row :: "env \<Rightarrow> int \<Rightarrow> string option \<Rightarrow> upload \<Rightarrow> artifact \<Rightarrow> artifact" where
  "publish_row e sq channel u a =
     a\<lparr>a_app := u_app u, a_build := coalesce (u_build u) (a_build a), a_platform := coalesce (u_platform u) (a_platform a),
       a_published_at := Some (e_now e), a_channel := channel, a_publish_seq := Some sq\<rparr>"

text \<open>A build on the \<open>pr\<close> channel moves only rows of that channel.\<close>

definition publish :: "env \<Rightarrow> string \<Rightarrow> string option \<Rightarrow> upload \<Rightarrow> artifact list \<Rightarrow> artifact list" where
  "publish e sha channel u as =
     (if u_app u = None \<or> u_app u = Some [] then as
      else update_row a_sha256 sha
        (\<lambda>a. if channel = Some ''pr'' \<and> a_channel a \<noteq> Some ''pr'' then a else publish_row e (next_seq as) channel u a) as)"

definition keep_blob :: "string \<Rightarrow> byte list \<Rightarrow> blob list \<Rightarrow> blob list" where
  "keep_blob sha body bs =
     (if has_row bb_sha256 sha bs then bs else bs @ [\<lparr>bb_sha256 = sha, bb_bytes = body\<rparr>])"

definition media_entry :: "upload \<Rightarrow> entry" where
  "media_entry u =
     (case clean_media_type (u_media_type u) of
        Some t \<Rightarrow> Media t
      | None \<Rightarrow> sniff_media_type (take 4096 (u_body u)) (u_name u))"

text \<open>The answer, and the files and the database after it. A media type that is no string cannot be bound to
  the statement: the request fails after the bytes were stored.\<close>

definition upload_artifact ::
  "(byte list \<Rightarrow> string) \<Rightarrow> env \<Rightarrow> upload \<Rightarrow> blob list \<times> store \<Rightarrow> (refusal + string) \<times> (blob list \<times> store)" where
  "upload_artifact digest e u st =
     (case artifact_channel (u_channel u) of
        None \<Rightarrow> (Inl (400, ''x-artifact-channel must be '' @ q @ ''pr'' @ q @ '' or absent''), st)
      | Some channel \<Rightarrow>
          if u_body u = [] then (Inl (400, ''empty body''), st)
          else
            let sha = digest (u_body u); (bs, s) = st; bs' = keep_blob sha (u_body u) bs in
            (case media_entry u of
               Media media \<Rightarrow>
                 let as = map (\<lambda>a. if a_sha256 a = sha then learn_media media a else a)
                            (insert_artifact (uploaded_row e sha media channel u) (artifacts s))
                 in (Inr sha, (bs', s\<lparr>artifacts := publish e sha channel u as\<rparr>))
             | _ \<Rightarrow> (Inl (500, ''the media type cannot be stored''), (bs', s))))"

section \<open>Download\<close>

datatype delivery =
    Whole "byte list"
  | Part nat nat "byte list"
  | Unsatisfiable nat
  | No_Delivery refusal

text \<open>\<open>/^bytes=(\d*)-(\d*)$/\<close>\<close>

definition range_parts :: "string \<Rightarrow> (string \<times> string) option" where
  "range_parts r =
     (if \<not> starts_with ''bytes='' r then None
      else let rest = drop 6 r; a = takeWhile is_digit rest in
        (case drop (length a) rest of
           [] \<Rightarrow> None
         | c # b \<Rightarrow> if c = CHR ''-'' \<and> list_all is_digit b then Some (a, b) else None))"

definition range_bounds :: "nat \<Rightarrow> string \<times> string \<Rightarrow> int \<times> int" where
  "range_bounds n ab =
     (case ab of (a, b) \<Rightarrow>
        (if a = [] then int n - int (digits_val b) else int (digits_val a),
         if a \<noteq> [] \<and> b \<noteq> [] then min (int (digits_val b)) (int n - 1) else int n - 1))"

definition serve_bytes :: "string option \<Rightarrow> byte list \<Rightarrow> delivery" where
  "serve_bytes rng body =
     (case (case rng of None \<Rightarrow> None | Some r \<Rightarrow> range_parts r) of
        None \<Rightarrow> Whole body
      | Some (a, b) \<Rightarrow>
          if a = [] \<and> b = [] then Whole body
          else let (x, y) = range_bounds (length body) (a, b) in
            if x < 0 \<or> x > y then Unsatisfiable (length body)
            else Part (nat x) (nat y) (take (nat y + 1 - nat x) (drop (nat x) body)))"

definition download_artifact :: "string \<Rightarrow> string option \<Rightarrow> blob list \<Rightarrow> delivery" where
  "download_artifact sha rng bs =
     (if \<not> is_sha256 sha then No_Delivery (400, ''bad sha256'')
      else case find_row bb_sha256 sha bs of
        None \<Rightarrow> No_Delivery (404, ''not found'')
      | Some b \<Rightarrow> serve_bytes rng (bb_bytes b))"

definition safe_filename :: "string \<Rightarrow> string" where
  "safe_filename wanted =
     take 100 (filter (\<lambda>c. is_alpha c \<or> is_digit c \<or> c = CHR ''.'' \<or> c = CHR ''_'' \<or> c = CHR ''-'') wanted)"

end
