(* ===== verification/Artifact_Gc.thy ===== *)
theory Artifact_Gc
  imports Artifacts
begin

text \<open>
  What keeps an artifact and what may take it away (\<open>api/mutations.ts\<close>): the scan of everything the
  collector stores, the candidates of garbage collection, pins and deletion; with them the other manual
  clean-up, retention, and the saved templates the scan reads.
\<close>

section \<open>References\<close>

definition replay_json :: "replay \<Rightarrow> js" where
  "replay_json r =
     JObj [(''kind'', JStr (rp_kind r)), (''sha256'', case rp_sha256 r of None \<Rightarrow> JNull | Some x \<Rightarrow> JStr x),
           (''attempts'', JInt (int (rp_attempts r))), (''reproduced'', JInt (int (rp_reproduced r)))]"

definition finding_blob :: "finding \<Rightarrow> string" where
  "finding_blob f =
     stringify (JObj (map (\<lambda>(k, v). (k, JStr v)) (f_artifacts f))) @ '' '' @
     (case f_replay f of None \<Rightarrow> [] | Some r \<Rightarrow> stringify (replay_json r))"

definition stored_blobs :: "store \<Rightarrow> ledger \<Rightarrow> string list" where
  "stored_blobs s l =
     map (\<lambda>j. stringify (j_spec j)) (jobs s) @ map (\<lambda>r. stringify (r_payload r)) (results s) @
     map (\<lambda>c. stringify (s_template c)) (schedules s) @ map (\<lambda>t. stringify (t_spec t)) (job_templates s) @
     map finding_blob (findings l)"

definition pinned_shas :: "store \<Rightarrow> string list" where
  "pinned_shas s = map a_sha256 (filter a_pinned (artifacts s))"

definition protected_shas :: "store \<Rightarrow> ledger \<Rightarrow> string list" where
  "protected_shas s l =
     concat (map sha256_refs (stored_blobs s l)) @ map bl_sha256 (baselines s) @ pinned_shas s"

definition exploration_kept :: "store \<Rightarrow> ledger \<Rightarrow> string list" where
  "exploration_kept s l = concat (map sha256_refs (map finding_blob (findings l))) @ pinned_shas s"

section \<open>Candidates\<close>

definition EXPLORE_RUN_KEEP_DAYS :: rat where "EXPLORE_RUN_KEEP_DAYS = 7"

text \<open>Rows at least so many days old, largest first. \<open>LIKE\<close> ignores the case of letters.\<close>

definition is_old :: "env \<Rightarrow> rat \<Rightarrow> int \<Rightarrow> bool" where
  "is_old e days t \<longleftrightarrow> of_int t \<le> of_int (e_now e) - days * 86400"

definition older_than :: "env \<Rightarrow> rat option \<Rightarrow> artifact \<Rightarrow> bool" where
  "older_than e days a \<longleftrightarrow> (case days of None \<Rightarrow> False | Some d \<Rightarrow> is_old e d (a_created_at a))"

definition by_size :: "artifact list \<Rightarrow> artifact list" where
  "by_size = sort_key (\<lambda>a. - int (a_size a))"

definition is_exploration_run :: "artifact \<Rightarrow> bool" where
  "is_exploration_run a \<longleftrightarrow> (case a_name a of None \<Rightarrow> False | Some n \<Rightarrow> starts_with ''explore-run-'' (lower n))"

definition gc_candidates :: "env \<Rightarrow> rat option \<Rightarrow> store \<Rightarrow> ledger \<Rightarrow> artifact list" where
  "gc_candidates e days s l =
     (let referenced = protected_shas s l; kept = exploration_kept s l;
          rows = filter (\<lambda>a. a_sha256 a \<notin> set referenced) (by_size (filter (older_than e days) (artifacts s)));
          runs = filter (\<lambda>a. a_sha256 a \<notin> set kept)
            (by_size (filter (\<lambda>a. is_exploration_run a \<and> older_than e (Some EXPLORE_RUN_KEEP_DAYS) a) (artifacts s)))
      in rows @ filter (\<lambda>a. \<not> has_row a_sha256 (a_sha256 a) rows) runs)"

text \<open>\<open>Math.max(0, Number(days ?? 30) || 30)\<close>: no days at all are 30 days. An infinity matches no row.\<close>

definition gc_days :: "string option \<Rightarrow> rat option" where
  "gc_days raw =
     (case js_number (case raw of None \<Rightarrow> JInt 30 | Some x \<Rightarrow> JStr x) of
        Fin d \<Rightarrow> Some (if d = 0 then 30 else max 0 d)
      | NaN \<Rightarrow> Some 30
      | NInf \<Rightarrow> Some 0
      | PInf \<Rightarrow> None)"

section \<open>Pins and deletion\<close>

definition pin_row :: "bool \<Rightarrow> string option \<Rightarrow> artifact \<Rightarrow> artifact" where
  "pin_row pin why a = a\<lparr>a_pinned := pin, a_pin_reason := (if pin then why else None)\<rparr>"

definition pin_artifact :: "string \<Rightarrow> js \<Rightarrow> store \<Rightarrow> refusal + store" where
  "pin_artifact sha body s =
     (if \<not> is_sha256 sha then Inl (400, ''bad sha256'')
      else
        let pin = (jget ''pinned'' body \<noteq> JBool False);
            why = (if nullish (jget ''reason'' body) then Some ''pinned from the dashboard'' else str_of (jget ''reason'' body))
        in if has_row a_sha256 sha (artifacts s)
           then Inr (s\<lparr>artifacts := update_row a_sha256 sha (pin_row pin why) (artifacts s)\<rparr>)
           else Inl (404, ''not found''))"

definition deletion_refusal :: "string \<Rightarrow> store \<Rightarrow> refusal option" where
  "deletion_refusal sha s =
     (if \<not> is_sha256 sha then Some (400, ''bad sha256'')
      else case find_row a_sha256 sha (filter a_pinned (artifacts s)) of
        Some a \<Rightarrow>
          Some (409, ''pinned'' @ (case a_pin_reason a of None \<Rightarrow> [] | Some why \<Rightarrow> if why = [] then [] else '': '' @ why) @
            ''; unpin it first if you really mean to delete it'')
      | None \<Rightarrow>
          (case filter (\<lambda>j. contains sha (stringify (j_spec j))) (jobs s) of
             j # js \<Rightarrow>
               Some (409, ''still referenced by '' @ nat_str (Suc (length js)) @ '' job(s), e.g. '' @ j_id j)
           | [] \<Rightarrow>
               (case find_row bl_sha256 sha (baselines s) of
                  Some b \<Rightarrow>
                    Some (409, ''accepted visual baseline for '' @ bl_suite b @ ''/'' @ bl_page b @ '' ('' @ bl_profile b @
                      ''); accept a different shot first'')
                | None \<Rightarrow> if has_row a_sha256 sha (artifacts s) then None else Some (404, ''not found''))))"

definition delete_artifact :: "string \<Rightarrow> blob list \<times> store \<Rightarrow> refusal + (blob list \<times> store)" where
  "delete_artifact sha st =
     (case st of (bs, s) \<Rightarrow>
        (case deletion_refusal sha s of
           Some r \<Rightarrow> Inl r
         | None \<Rightarrow> Inr (delete_row bb_sha256 sha bs, s\<lparr>artifacts := delete_row a_sha256 sha (artifacts s)\<rparr>)))"

section \<open>Templates\<close>

definition save_template :: "env \<Rightarrow> js \<Rightarrow> store \<Rightarrow> refusal + store" where
  "save_template e b s =
     (if \<not> truthy (jget ''id'' b) \<or> \<not> truthy (jget ''spec'' b) then Inl (400, ''id and spec required'')
      else if truthy (jget ''job_id'' (jget ''spec'' b))
      then Inl (400, ''template must not carry job_id; it is generated at enqueue'')
      else
        let i = js_string (jget ''id'' b); name = str_of (jget ''name'' b); spec = jget ''spec'' b in
        Inr (if has_row t_id i (job_templates s)
             then s\<lparr>job_templates := update_row t_id i
                     (\<lambda>t. t\<lparr>t_name := name, t_spec := spec, t_updated_at := Some (e_now e)\<rparr>) (job_templates s)\<rparr>
             else s\<lparr>job_templates := job_templates s @
                     [\<lparr>t_id = i, t_name = name, t_spec = spec, t_created_at = e_now e, t_updated_at = None\<rparr>]\<rparr>))"

definition delete_template :: "id \<Rightarrow> store \<Rightarrow> refusal + store" where
  "delete_template i s =
     (if has_row t_id i (job_templates s) then Inr (s\<lparr>job_templates := delete_row t_id i (job_templates s)\<rparr>)
      else Inl (404, ''not found''))"

section \<open>Retention\<close>

definition days_of :: "js \<Rightarrow> string \<Rightarrow> rat option" where
  "days_of b k = (case js_number (jor (jget k b) (JInt 30)) of Fin d \<Rightarrow> if d < 1 then None else Some d | _ \<Rightarrow> None)"

text \<open>The counts of old beacons and events, and the store after the request. Power samples are not modelled;
  only the check of their setting is.\<close>

definition retention :: "env \<Rightarrow> js \<Rightarrow> store \<Rightarrow> refusal + ((nat \<times> nat) \<times> store)" where
  "retention e b s =
     (case (days_of b ''beacon_days'', days_of b ''event_days'', days_of b ''power_days'') of
        (Some bd, Some ed, Some _) \<Rightarrow>
          let counts = (length (filter (\<lambda>x. is_old e bd (b_ts x)) (beacon_samples s)),
                        length (filter (\<lambda>x. is_old e ed (ev_created_at x)) (events s)))
          in Inr (counts,
               if jget ''dry_run'' b \<noteq> JBool False then s
               else s\<lparr>beacon_samples := filter (\<lambda>x. \<not> is_old e bd (b_ts x)) (beacon_samples s),
                      events := filter (\<lambda>x. \<not> is_old e ed (ev_created_at x)) (events s)\<rparr>)
      | _ \<Rightarrow> Inl (400, ''beacon_days, event_days and power_days must be >= 1''))"

end
