(* ===== verification/Artifact_Laws.thy ===== *)
theory Artifact_Laws
  imports Artifact_Gc Claim_Laws
begin

text \<open>
  Laws of the artifact store: which build \<open>latest\<close> is, what an upload does to the order of builds, that a
  stored hash is found by the scan for references wherever it stands in a JSON value.
\<close>

section \<open>Builds\<close>

definition build_of :: "string \<Rightarrow> artifact \<Rightarrow> bool" where
  "build_of app a \<longleftrightarrow> a_app a = Some app \<and> a_channel a \<noteq> Some ''pr''"

text \<open>Every row that names an app has been published and so has its number.\<close>

definition published :: "artifact list \<Rightarrow> bool" where
  "published as \<longleftrightarrow> (\<forall>a. a \<in> set as \<longrightarrow> a_app a \<noteq> None \<longrightarrow> a_app a \<noteq> Some [] \<longrightarrow> a_publish_seq a \<noteq> None)"

definition artifacts_ok :: "artifact list \<Rightarrow> bool" where
  "artifacts_ok as \<longleftrightarrow> distinct (map a_sha256 as) \<and> published as"

lemma latest_build_rows:
  "latest_build s app = map_option snd (build_choice (filter (\<lambda>(_, a). build_of app a) (List.enumerate 0 (artifacts s))))"
  unfolding latest_build_def newest_choice app_builds_def filter_filter
  by (rule arg_cong [where f = "\<lambda>xs. map_option snd (build_choice xs)"], rule filter_cong) (auto simp: build_of_def)

lemma enumerate_member: "(n, a) \<in> set (List.enumerate k xs) \<Longrightarrow> a \<in> set xs"
  by (auto simp: in_set_enumerate_eq)

lemma member_enumerate: "a \<in> set xs \<Longrightarrow> \<exists>n. (n, a) \<in> set (List.enumerate 0 xs)"
proof -
  assume "a \<in> set xs"
  then obtain n where "n < length xs" "a = xs ! n" by (auto simp: in_set_conv_nth)
  then have "(n, a) \<in> set (List.enumerate 0 xs)" by (simp add: in_set_enumerate_eq)
  then show ?thesis by blast
qed

lemma latest_build_newest:
  assumes "published (artifacts s)" "app \<noteq> []" "a \<in> set (artifacts s)" "build_of app a"
  shows "\<exists>b. latest_build s app = Some b \<and> b \<in> set (artifacts s) \<and> build_of app b \<and>
    the (a_publish_seq a) \<le> the (a_publish_seq b)"
proof -
  let ?rows = "List.enumerate 0 (artifacts s)"
  obtain n where n: "(n, a) \<in> set ?rows" using member_enumerate [OF assms(3)] by blast
  then obtain m b where b: "build_choice (filter (\<lambda>(_, a). build_of app a) ?rows) = Some (m, b)" "(m, b) \<in> set ?rows" "build_of app b"
    "publish_rank n a \<le> publish_rank m b"
    using latest_choice.chosen [of "(n, a)" ?rows "\<lambda>(_, a). build_of app a"] assms(4) by auto
  have rank: "publish_rank k x = the (a_publish_seq x)" if "(k, x) \<in> set ?rows" "build_of app x" for k x
    using that assms(1,2) enumerate_member [OF that(1)] by (auto simp: published_def publish_rank_def build_of_def)
  from b rank [OF b(2,3)] rank [OF n assms(4)] show ?thesis
    by (auto simp: latest_build_rows dest: enumerate_member)
qed

section \<open>Uploads\<close>

lemma next_seq_above: "a \<in> set as \<Longrightarrow> a_publish_seq a = Some k \<Longrightarrow> k < next_seq as"
proof -
  assume a: "a \<in> set as" "a_publish_seq a = Some k"
  then have k: "k \<in> set (List.map_filter a_publish_seq as)" by (force simp: List.map_filter_def)
  then have "k \<le> Max (set (List.map_filter a_publish_seq as))" by (intro Max_ge) auto
  with k show ?thesis by (auto simp: next_seq_def split: list.splits)
qed

definition stored_rows :: "env \<Rightarrow> string \<Rightarrow> string \<Rightarrow> string option \<Rightarrow> upload \<Rightarrow> artifact list \<Rightarrow> artifact list" where
  "stored_rows e sha media channel u as =
     map (\<lambda>a. if a_sha256 a = sha then learn_media media a else a)
       (insert_artifact (uploaded_row e sha media channel u) as)"

lemma upload_cases:
  assumes "upload_artifact digest e u (bs, s) = (Inr sha, (bs', s'))"
  obtains channel media where "artifact_channel (u_channel u) = Some channel" "sha = digest (u_body u)"
    "bs' = keep_blob sha (u_body u) bs"
    "s' = s\<lparr>artifacts := publish e sha channel u (stored_rows e sha media channel u (artifacts s))\<rparr>"
  using assms
  by (auto simp: upload_artifact_def Let_def stored_rows_def split: option.splits if_splits entry.splits)

lemma learn_media_fields [simp]:
  "a_sha256 (learn_media m a) = a_sha256 a" "a_app (learn_media m a) = a_app a"
  "a_channel (learn_media m a) = a_channel a" "a_publish_seq (learn_media m a) = a_publish_seq a"
  by (simp_all add: learn_media_def)

lemma stored_rows_sha: "map a_sha256 (stored_rows e sha media channel u as) = map a_sha256 (insert_artifact (uploaded_row e sha media channel u) as)"
  by (simp add: stored_rows_def)

lemma stored_rows_distinct:
  "distinct (map a_sha256 as) \<Longrightarrow> distinct (map a_sha256 (stored_rows e sha media channel u as))"
  unfolding stored_rows_sha
  by (auto simp: insert_artifact_def has_row_iff uploaded_row_def)

lemma stored_rows_has: "\<exists>a \<in> set (stored_rows e sha media channel u as). a_sha256 a = sha"
proof -
  have "sha \<in> set (map a_sha256 (stored_rows e sha media channel u as))"
    unfolding stored_rows_sha by (auto simp: insert_artifact_def has_row_iff uploaded_row_def)
  then show ?thesis by auto
qed

lemma stored_rows_new:
  "a \<in> set (stored_rows e sha media channel u as) \<Longrightarrow>
     (\<exists>a0 \<in> set as. a_sha256 a = a_sha256 a0 \<and> a_app a = a_app a0 \<and> a_channel a = a_channel a0 \<and> a_publish_seq a = a_publish_seq a0) \<or>
     (a_sha256 a = sha \<and> a_channel a = channel \<and> a_app a = u_app u \<and> a_publish_seq a = None)"
  by (auto simp: stored_rows_def insert_artifact_def uploaded_row_def split: if_splits)

lemma publish_distinct: "distinct (map a_sha256 as) \<Longrightarrow> distinct (map a_sha256 (publish e sha channel u as))"
proof -
  have "map a_sha256 (publish e sha channel u as) = map a_sha256 as"
    by (auto simp: publish_def update_row_def publish_row_def)
  then show "distinct (map a_sha256 as) \<Longrightarrow> ?thesis" by simp
qed

lemma upload_keeps_ok:
  assumes "artifacts_ok (artifacts s)" "upload_artifact digest e u (bs, s) = (Inr sha, (bs', s'))"
  shows "artifacts_ok (artifacts s')"
  using assms(2)
proof (rule upload_cases)
  fix channel media
  let ?rows = "stored_rows e sha media channel u (artifacts s)"
  assume s': "s' = s\<lparr>artifacts := publish e sha channel u ?rows\<rparr>"
  have ok: "a_publish_seq a \<noteq> None \<or> a_sha256 a = sha \<and> a_channel a = channel \<and> a_app a = u_app u"
    if "a \<in> set ?rows" "a_app a \<noteq> None" "a_app a \<noteq> Some []" for a
    using stored_rows_new [OF that(1)] that(2,3) assms(1) by (auto simp: artifacts_ok_def published_def)
  have "published (publish e sha channel u ?rows)"
  proof (cases "u_app u = None \<or> u_app u = Some []")
    case True
    then have "publish e sha channel u ?rows = ?rows" by (simp add: publish_def)
    with True ok show ?thesis unfolding published_def by metis
  next
    case False
    then show ?thesis using ok by (auto simp: published_def publish_def update_row_def publish_row_def)
  qed
  moreover have "distinct (map a_sha256 (publish e sha channel u ?rows))"
    using assms(1) by (auto simp: artifacts_ok_def intro: publish_distinct stored_rows_distinct)
  ultimately show ?thesis by (simp add: s' artifacts_ok_def)
qed

text \<open>A build that is not published stays out of the choice.\<close>

lemma newest_map:
  assumes "\<And>n a. (n, a) \<in> set rows \<Longrightarrow> a_publish_seq (g a) = a_publish_seq a"
  shows "build_choice (map (apsnd g) rows) = map_option (apsnd g) (build_choice rows)"
proof -
  let ?f = "\<lambda>best r. case best of None \<Rightarrow> Some r
             | Some b \<Rightarrow> if publish_rank (fst r) (snd r) > publish_rank (fst b) (snd b) then Some r else best"
  have "foldl ?f (map_option (apsnd g) acc) (map (apsnd g) rs) = map_option (apsnd g) (foldl ?f acc rs)"
    if "set rs \<subseteq> set rows" "\<And>b. acc = Some b \<Longrightarrow> b \<in> set rows" for acc rs
    using that
  proof (induction rs arbitrary: acc)
    case (Cons r rs)
    have rank: "publish_rank (fst x) (g (snd x)) = publish_rank (fst x) (snd x)" if "x \<in> set rows" for x
      using assms [of "fst x" "snd x"] that by (simp add: publish_rank_def)
    have step: "?f (map_option (apsnd g) acc) (apsnd g r) = map_option (apsnd g) (?f acc r)"
      using Cons.prems rank by (cases acc) auto
    have "\<And>b. ?f acc r = Some b \<Longrightarrow> b \<in> set rows" using Cons.prems by (auto split: option.splits if_splits)
    with Cons.IH [of "?f acc r"] Cons.prems(1) step show ?case by simp
  qed simp
  from this [of rows None] show ?thesis by (simp add: build_choice_def)
qed

lemma enumerate_map: "List.enumerate n (map g xs) = map (apsnd g) (List.enumerate n xs)"
  by (induction xs arbitrary: n) auto

lemma latest_build_unmoved:
  assumes "artifacts s' = map g (artifacts s @ new)"
    and g: "\<And>a. build_of app (g a) = build_of app a" "\<And>a. build_of app a \<Longrightarrow> a_publish_seq (g a) = a_publish_seq a"
    and new: "\<And>a. a \<in> set new \<Longrightarrow> \<not> build_of app a"
  shows "latest_build s' app = map_option g (latest_build s app)"
proof -
  let ?p = "\<lambda>(n :: nat, a). build_of app a"
  have "filter ?p (List.enumerate 0 (artifacts s')) = map (apsnd g) (filter ?p (List.enumerate 0 (artifacts s @ new)))"
    unfolding assms(1) enumerate_map filter_map
    by (rule arg_cong [where f = "map (apsnd g)"], rule filter_cong) (auto simp: g(1))
  also have "filter ?p (List.enumerate 0 (artifacts s @ new)) = filter ?p (List.enumerate 0 (artifacts s))"
    using new by (auto simp: enumerate_append_eq filter_empty_conv dest: enumerate_member)
  finally have rows: "filter ?p (List.enumerate 0 (artifacts s')) =
    map (apsnd g) (filter ?p (List.enumerate 0 (artifacts s)))" .
  have "build_choice (map (apsnd g) (filter ?p (List.enumerate 0 (artifacts s)))) =
      map_option (apsnd g) (build_choice (filter ?p (List.enumerate 0 (artifacts s))))"
    by (rule newest_map) (auto simp: g(2))
  then show ?thesis
    unfolding latest_build_rows rows by (simp add: option.map_comp comp_def snd_apsnd)
qed

section \<open>References in text\<close>

lemma word_runs_nonempty: "word_runs s \<noteq> []"
  by (cases s) (auto split: list.split)

lemma word_runs_word:
  "\<not> word_char d \<Longrightarrow> list_all word_char w \<Longrightarrow> word_runs (w @ d # z) = w # word_runs z"
  by (induction w) simp_all

lemma word_runs_rest: "\<not> word_char c \<Longrightarrow> \<exists>u us. word_runs (p @ c # rest) = u # us @ word_runs rest"
proof (induction p)
  case Nil
  then show ?case by (metis append_Nil word_runs.simps(2))
next
  case (Cons x p)
  then obtain u us where "word_runs (p @ c # rest) = u # us @ word_runs rest" by blast
  then have "word_runs ((x # p) @ c # rest) = (if word_char x then (x # u) # us @ word_runs rest else [] # (u # us) @ word_runs rest)"
    by simp
  then show ?case by (cases "word_char x") (simp_all only: if_True if_False, blast+)
qed

lemma sha_in_text:
  assumes "is_sha256 sha" "\<not> word_char c" "\<not> word_char d"
  shows "sha \<in> set (sha256_refs (p @ c # sha @ d # z))"
proof -
  have "Registry.hex_char x \<Longrightarrow> word_char x" for x by (auto simp: Registry.hex_char_def word_char_def is_alpha_def is_lower_def)
  then have "list_all word_char sha" using assms(1) by (auto simp: is_sha256_def list_all_iff)
  then have "sha \<in> set (word_runs (sha @ d # z))" using word_runs_word [OF assms(3)] by simp
  moreover obtain u us where "word_runs (p @ c # sha @ d # z) = u # us @ word_runs (sha @ d # z)"
    using word_runs_rest [OF assms(2)] by blast
  ultimately show ?thesis using assms(1) by (simp add: sha256_refs_def)
qed

text \<open>Every string that occurs in a value, at any depth, where \<open>stringify\<close> prints it.\<close>

fun deep_strings :: "js \<Rightarrow> string list" where
  "deep_strings (JStr s) = [s]"
| "deep_strings (JArr xs) = concat (map deep_strings xs)"
| "deep_strings (JObj fs) = concat (map (\<lambda>(_, v). deep_strings v) fs)"
| "deep_strings _ = []"

lemma contains_trans: "contains a b \<Longrightarrow> contains b c \<Longrightarrow> contains a c"
  by (auto simp: contains_iff_sublist intro: sublist_order.order_trans)

lemma stringify_deep_strings: "t \<in> set (deep_strings j) \<Longrightarrow> contains (quote t) (stringify j)"
proof (induction j rule: deep_strings.induct)
  case (2 xs)
  then obtain x where x: "x \<in> set xs" "t \<in> set (deep_strings x)" by auto
  with 2 have "contains (quote t) (stringify x)" by blast
  moreover have "contains (stringify x) (join '','' (map stringify xs))" using x by (intro join_member) auto
  ultimately have "contains (quote t) (join '','' (map stringify xs))" by (rule contains_trans)
  then show ?case by (auto intro: contains_appendI1 contains_appendI2)
next
  case (3 fs)
  let ?item = "\<lambda>(k, v). if v = JUndef then [] else [quote k @ '':'' @ stringify v]"
  from 3 obtain k v where kv: "(k, v) \<in> set fs" "t \<in> set (deep_strings v)" by auto
  then have "v \<noteq> JUndef" by auto
  have "contains (quote t) (quote k @ '':'' @ stringify v)"
    using kv 3 by (auto intro: contains_appendI1 contains_appendI2)
  moreover have "contains (quote k @ '':'' @ stringify v) (join '','' (concat (map ?item fs)))"
    using kv(1) \<open>v \<noteq> JUndef\<close> by (intro join_member) force
  ultimately have "contains (quote t) (join '','' (concat (map ?item fs)))" by (rule contains_trans)
  then show ?case by (auto intro: contains_appendI1 contains_appendI2)
qed simp_all

lemma concat_escape_plain:
  "list_all p s \<Longrightarrow> (\<And>c. p c \<Longrightarrow> escape_char c = [c]) \<Longrightarrow> concat (map escape_char s) = s"
  by (induction s) auto

lemma quote_sha: "is_sha256 sha \<Longrightarrow> quote sha = CHR 0x22 # sha @ [CHR 0x22]"
proof -
  assume "is_sha256 sha"
  moreover have "escape_char c = [c]" if "Registry.hex_char c" for c
    using that by (auto simp: escape_char_def Let_def Registry.hex_char_def is_digit_def code_def)
  ultimately have "concat (map escape_char sha) = sha" by (auto simp: is_sha256_def intro: concat_escape_plain)
  then show ?thesis by (simp add: quote_def)
qed

lemma contains_split: "contains p s \<Longrightarrow> \<exists>a b. s = a @ p @ b"
  by (auto simp: contains_iff_sublist sublist_def)

text \<open>The scan for references finds a hash wherever it is a string of a stored value.\<close>

lemma sha_in_json:
  assumes "is_sha256 sha" "sha \<in> set (deep_strings j)" "contains (stringify j) text"
  shows "sha \<in> set (sha256_refs text)"
proof -
  from contains_split [OF contains_trans [OF stringify_deep_strings [OF assms(2)] assms(3)]] quote_sha [OF assms(1)]
  obtain a b where "text = a @ CHR 0x22 # sha @ CHR 0x22 # b" by auto
  moreover have quo: "\<not> word_char (CHR 0x22)"
    by (simp add: word_char_def is_alpha_def is_lower_def is_upper_def is_digit_def code_def)
  ultimately show ?thesis using sha_in_text [OF assms(1) quo quo, of a b] by simp
qed

end
