(* ===== verification/Artifact_Properties.thy ===== *)
theory Artifact_Properties
  imports Artifact_Laws Examples
begin

text \<open>
  The properties of the artifact store: what \<open>latest\<close> means after an upload, that stored bytes come back,
  the bounds of a partial download, and what garbage collection never offers.
\<close>

section \<open>Examples\<close>

definition demo_upload :: "byte list \<Rightarrow> string option \<Rightarrow> upload" where
  "demo_upload body channel =
     \<lparr>u_body = body, u_name = Some ''app.apk'', u_app = Some ''app'', u_build = None, u_platform = None,
      u_media_type = None, u_channel = channel\<rparr>"

definition hash_a :: string where "hash_a = replicate 64 CHR ''a''"

definition hash_b :: string where "hash_b = replicate 64 CHR ''b''"

definition demo_digest :: "byte list \<Rightarrow> string" where
  "demo_digest body = (if body = [1] then hash_a else hash_b)"

definition demo_artifact :: "string \<Rightarrow> int option \<Rightarrow> artifact" where
  "demo_artifact sha sq =
     \<lparr>a_sha256 = sha, a_name = None, a_size = 1, a_created_at = 0, a_app = Some ''app'', a_build = None,
      a_platform = None, a_media_type = None, a_published_at = None, a_publish_seq = sq,
      a_channel = None, a_pinned = False, a_pin_reason = None\<rparr>"

text \<open>The bytes of \<open>hash_a\<close> were published before those of \<open>hash_b\<close>.\<close>

definition demo_shelf :: store where
  "demo_shelf = empty_store\<lparr>artifacts := [demo_artifact hash_a (Some 1), demo_artifact hash_b (Some 2)]\<rparr>"

lemma demo_shelf_ok: "artifacts_ok (artifacts demo_shelf)"
  by (simp add: artifacts_ok_def published_def demo_shelf_def demo_artifact_def hash_a_def hash_b_def)

section \<open>Publishing\<close>

text \<open>Publishing a build makes it the latest one. After an upload that names an app and no channel,
  \<open>latest\<close> of that app is the uploaded hash, whether its bytes are new or were stored long ago and a
  revert publishes them again; and the table stays one in which this holds for the next upload.\<close>

theorem publish_is_latest:
  assumes "artifacts_ok (artifacts s)" "upload_artifact digest e u (bs, s) = (Inr sha, (bs', s'))"
    and "u_app u = Some app" "app \<noteq> []" "artifact_channel (u_channel u) = Some None"
  shows "map_option a_sha256 (latest_build s' app) = Some sha \<and> artifacts_ok (artifacts s')"
proof -
  have ok: "artifacts_ok (artifacts s')" using upload_keeps_ok [OF assms(1,2)] .
  obtain media where s': "artifacts s' = publish e sha None u (stored_rows e sha media None u (artifacts s))"
    using upload_cases [OF assms(2)] assms(5) by (metis option.inject store.select_convs(5) store.surjective store.update_convs(5))
  let ?rows = "stored_rows e sha media None u (artifacts s)"
  let ?g = "publish_row e (next_seq ?rows) None u"
  have rows: "artifacts s' = map (\<lambda>a. if a_sha256 a = sha then ?g a else a) ?rows"
    using s' assms(3,4) by (simp add: publish_def update_row_def)
  obtain r where r: "r \<in> set ?rows" "a_sha256 r = sha" using stored_rows_has by blast
  then have gr: "?g r \<in> set (artifacts s')" unfolding rows by force
  have "build_of app (?g r)" "a_publish_seq (?g r) = Some (next_seq ?rows)"
    using assms(3) by (simp_all add: publish_row_def build_of_def)
  with latest_build_newest [OF _ assms(4) gr] ok obtain b where b: "latest_build s' app = Some b" "b \<in> set (artifacts s')"
    "build_of app b" "next_seq ?rows \<le> the (a_publish_seq b)" by (auto simp: artifacts_ok_def)
  have "a_publish_seq b \<noteq> None" using ok b(2,3) assms(4) by (auto simp: artifacts_ok_def published_def build_of_def)
  with b(2,4) have "a_sha256 b = sha" unfolding rows by (auto dest: next_seq_above simp: publish_row_def split: if_splits)
  with b(1) ok show ?thesis by simp
qed

theorem publish_is_latest_witness:
  "map_option a_sha256 (latest_build demo_shelf ''app'') = Some hash_b \<and>
   (case upload_artifact demo_digest (demo_env 9) (demo_upload [1] None) ([], demo_shelf) of
      (_, (_, s')) \<Rightarrow> map_option a_sha256 (latest_build s' ''app'') = Some hash_a)"
proof
  show "map_option a_sha256 (latest_build demo_shelf ''app'') = Some hash_b" by code_simp
  have "fst (upload_artifact demo_digest (demo_env 9) (demo_upload [1] None) ([], demo_shelf)) = Inr hash_a" by code_simp
  then obtain bs' s' where u: "upload_artifact demo_digest (demo_env 9) (demo_upload [1] None) ([], demo_shelf) = (Inr hash_a, (bs', s'))"
    by (metis prod.collapse)
  from publish_is_latest [OF demo_shelf_ok u, of "''app''"]
  show "case upload_artifact demo_digest (demo_env 9) (demo_upload [1] None) ([], demo_shelf) of
      (_, (_, s')) \<Rightarrow> map_option a_sha256 (latest_build s' ''app'') = Some hash_a"
    by (simp add: u) (simp add: demo_upload_def artifact_channel_def)
qed

text \<open>C15: a pull request never moves what the nightly tests. An upload on the \<open>pr\<close> channel leaves the
  latest build of every app what it was, also when its bytes are those of a merged build.\<close>

theorem pr_upload_keeps_latest:
  assumes "upload_artifact digest e u (bs, s) = (Inr sha, (bs', s'))" "artifact_channel (u_channel u) = Some (Some ''pr'')"
  shows "map_option a_sha256 (latest_build s' app) = map_option a_sha256 (latest_build s app)"
proof -
  obtain media where s': "artifacts s' = publish e sha (Some ''pr'') u (stored_rows e sha media (Some ''pr'') u (artifacts s))"
    using upload_cases [OF assms(1)] assms(2) by (metis option.inject store.select_convs(5) store.surjective store.update_convs(5))
  let ?learn = "\<lambda>a. if a_sha256 a = sha then learn_media media a else a"
  let ?rows = "stored_rows e sha media (Some ''pr'') u (artifacts s)"
  let ?pub = "\<lambda>a. if a_sha256 a = sha \<and> a_channel a = Some ''pr'' \<and> \<not> (u_app u = None \<or> u_app u = Some [])
      then publish_row e (next_seq ?rows) (Some ''pr'') u a else a"
  let ?new = "if has_row a_sha256 sha (artifacts s) then [] else [uploaded_row e sha media (Some ''pr'') u]"
  have new: "insert_artifact (uploaded_row e sha media (Some ''pr'') u) (artifacts s) = artifacts s @ ?new"
    "\<And>a. a \<in> set ?new \<Longrightarrow> a_channel a = Some ''pr''"
    by (auto simp: insert_artifact_def uploaded_row_def split: if_splits)
  have "artifacts s' = map (?pub \<circ> ?learn) (artifacts s @ ?new)"
    using s' by (auto simp: publish_def update_row_def stored_rows_def new(1))
  moreover have "build_of app' ((?pub \<circ> ?learn) a) = build_of app' a" for a app'
    by (auto simp: build_of_def publish_row_def)
  moreover have "a_publish_seq ((?pub \<circ> ?learn) a) = a_publish_seq a" if "build_of app' a" for a app'
    using that by (auto simp: build_of_def)
  moreover have "\<not> build_of app' a" if "a \<in> set ?new" for a app' using new(2) [OF that] by (simp add: build_of_def)
  ultimately have "latest_build s' app = map_option (?pub \<circ> ?learn) (latest_build s app)" by (rule latest_build_unmoved)
  moreover have "a_sha256 ((?pub \<circ> ?learn) a) = a_sha256 a" for a by (simp add: publish_row_def)
  ultimately show ?thesis by (simp add: option.map_comp comp_def)
qed

theorem pr_upload_keeps_latest_witness:
  "case upload_artifact demo_digest (demo_env 9) (demo_upload [1] (Some ''PR'')) ([], demo_shelf) of
     (_, (_, s')) \<Rightarrow> map_option a_sha256 (latest_build s' ''app'') = Some hash_b"
proof -
  have "fst (upload_artifact demo_digest (demo_env 9) (demo_upload [1] (Some ''PR'')) ([], demo_shelf)) = Inr hash_a" by code_simp
  then obtain bs' s' where u: "upload_artifact demo_digest (demo_env 9) (demo_upload [1] (Some ''PR'')) ([], demo_shelf) = (Inr hash_a, (bs', s'))"
    by (metis prod.collapse)
  have c: "artifact_channel (u_channel (demo_upload [1] (Some ''PR''))) = Some (Some ''pr'')" by code_simp
  have "map_option a_sha256 (latest_build demo_shelf ''app'') = Some hash_b" by code_simp
  with pr_upload_keeps_latest [OF u c, of "''app''"] show ?thesis by (simp add: u)
qed

section \<open>Bytes\<close>

definition blobs_ok :: "(byte list \<Rightarrow> string) \<Rightarrow> blob list \<Rightarrow> bool" where
  "blobs_ok digest bs \<longleftrightarrow> list_all (\<lambda>b. bb_sha256 b = digest (bb_bytes b)) bs"

text \<open>C17: bytes come back. Where every stored file has the digest it is named by, an accepted upload keeps
  it so, and a download under the answered hash delivers exactly the uploaded bytes, if no other bytes
  have the same digest.\<close>

theorem upload_download:
  assumes "blobs_ok digest bs" "upload_artifact digest e u (bs, s) = (Inr sha, (bs', s'))" "is_sha256 sha"
    and "\<And>x. digest x = digest (u_body u) \<Longrightarrow> x = u_body u"
  shows "download_artifact sha None bs' = Whole (u_body u) \<and> blobs_ok digest bs'"
proof -
  from assms(2) have sha: "sha = digest (u_body u)" "bs' = keep_blob sha (u_body u) bs" by (auto elim: upload_cases)
  have ok: "blobs_ok digest bs'" using assms(1) by (auto simp: blobs_ok_def sha keep_blob_def)
  have "has_row bb_sha256 sha bs'" by (auto simp: sha(2) keep_blob_def has_row_iff)
  then obtain b where b: "find_row bb_sha256 sha bs' = Some b" by (auto simp: has_row_def)
  then have "b \<in> set bs'" "bb_sha256 b = sha" using find_row_SomeD [OF b] by simp_all
  with ok have "digest (bb_bytes b) = digest (u_body u)" by (auto simp: blobs_ok_def list_all_iff sha(1))
  then have "bb_bytes b = u_body u" by (rule assms(4))
  with b ok assms(3) show ?thesis by (simp add: download_artifact_def serve_bytes_def)
qed

theorem upload_download_witness:
  "case upload_artifact demo_digest (demo_env 9) (demo_upload [1] None) ([], empty_store) of
     (_, (bs', _)) \<Rightarrow> download_artifact hash_a None bs' = Whole [1]"
proof -
  have "fst (upload_artifact demo_digest (demo_env 9) (demo_upload [1] None) ([], empty_store)) = Inr hash_a" by code_simp
  then obtain bs' s' where u: "upload_artifact demo_digest (demo_env 9) (demo_upload [1] None) ([], empty_store) = (Inr hash_a, (bs', s'))"
    by (metis prod.collapse)
  have body: "u_body (demo_upload [1] None) = [1]" by (simp add: demo_upload_def)
  have "is_sha256 hash_a" by code_simp
  moreover have "x = [1]" if "demo_digest x = demo_digest [1]" for x
    using that by (simp add: demo_digest_def hash_a_def hash_b_def split: if_splits)
  ultimately show ?thesis using upload_download [OF _ u, unfolded body] by (simp add: u blobs_ok_def)
qed

text \<open>a partial download stays inside the file: the part sent is not empty, begins and ends where the
  answer says, ends before the file does, and is that part of the file.\<close>

theorem part_within_file:
  assumes "serve_bytes rng body = Part x y part"
  shows "x \<le> y \<and> y < length body \<and> length part = y + 1 - x \<and>
    take (y + 1 - x) (drop x body) = part \<and> part \<noteq> []"
proof -
  from assms obtain r p where p: "rng = Some r" "range_parts r = Some p"
    by (auto simp: serve_bytes_def split: option.splits)
  let ?lo = "fst (range_bounds (length body) p)" and ?hi = "snd (range_bounds (length body) p)"
  have part: "0 \<le> ?lo" "?lo \<le> ?hi" "x = nat ?lo" "y = nat ?hi" "part = take (y + 1 - x) (drop x body)"
    using assms p by (auto simp: serve_bytes_def Let_def split_beta split: if_splits)
  moreover have "?hi \<le> int (length body) - 1" by (auto simp: range_bounds_def split_beta)
  ultimately have xy: "x \<le> y" "y < length body" by linarith+
  then have "length part = y + 1 - x" using part(5) by simp
  moreover have "y + 1 - x \<noteq> 0" using xy(1) by simp
  ultimately show ?thesis using xy part(5) by (metis list.size(3))
qed

theorem part_within_file_witness:
  "serve_bytes (Some ''bytes=1-99'') [7, 8, 9] = Part 1 2 [8, 9] \<and> 2 < length [7 :: byte, 8, 9]"
proof -
  have "serve_bytes (Some ''bytes=1-99'') [7, 8, 9] = Part 1 2 [8, 9]" by code_simp
  from part_within_file [OF this] this show ?thesis by simp
qed

section \<open>Garbage collection\<close>

definition stored_values :: "store \<Rightarrow> js list" where
  "stored_values s =
     map j_spec (jobs s) @ map r_payload (results s) @ map s_template (schedules s) @ map t_spec (job_templates s)"

definition finding_shas :: "finding \<Rightarrow> string list" where
  "finding_shas f =
     map snd (f_artifacts f) @ (case f_replay f of None \<Rightarrow> [] | Some r \<Rightarrow> (case rp_sha256 r of None \<Rightarrow> [] | Some x \<Rightarrow> [x]))"

lemma finding_blob_refs:
  assumes "is_sha256 sha" "sha \<in> set (finding_shas f)"
  shows "sha \<in> set (sha256_refs (finding_blob f))"
proof (cases "sha \<in> set (map snd (f_artifacts f))")
  case True
  then show ?thesis
    by (intro sha_in_json [OF assms(1), where j = "JObj (map (\<lambda>(k, v). (k, JStr v)) (f_artifacts f))"])
      (force simp: finding_blob_def intro: contains_appendI1)+
next
  case False
  with assms(2) obtain r where r: "f_replay f = Some r" "rp_sha256 r = Some sha"
    by (cases "f_replay f"; cases "rp_sha256 (the (f_replay f))") (auto simp: finding_shas_def)
  then show ?thesis
    by (intro sha_in_json [OF assms(1), where j = "replay_json r"])
      (auto simp: replay_json_def finding_blob_def intro: contains_appendI2)
qed

lemma value_protected:
  assumes "is_sha256 sha" "v \<in> set (stored_values s)" "sha \<in> set (deep_strings v)"
  shows "sha \<in> set (protected_shas s l)"
proof -
  have "stringify v \<in> set (stored_blobs s l)" using assms(2) by (auto simp: stored_values_def stored_blobs_def)
  moreover have "sha \<in> set (sha256_refs (stringify v))"
    by (rule sha_in_json [OF assms(1,3)]) (simp add: contains_refl)
  ultimately show ?thesis by (auto simp: protected_shas_def)
qed

text \<open>C16: garbage collection never offers what is in use. A candidate is not pinned and no finding links it;
  and unless it is an exploration run of more than seven days, it is no accepted baseline and its hash is
  not a string anywhere in a job, a result, a schedule or a template.\<close>

theorem gc_keeps_what_is_used:
  assumes "a \<in> set (gc_candidates e days s l)" "is_sha256 (a_sha256 a)"
  shows "\<not> a_pinned a \<and> list_all (\<lambda>f. a_sha256 a \<notin> set (finding_shas f)) (findings l) \<and>
    (is_exploration_run a \<and> older_than e (Some EXPLORE_RUN_KEEP_DAYS) a \<or>
     a_sha256 a \<notin> bl_sha256 ` set (baselines s) \<and>
     list_all (\<lambda>v. a_sha256 a \<notin> set (deep_strings v)) (stored_values s))"
proof -
  have a: "a \<in> set (artifacts s)" "a_sha256 a \<notin> set (exploration_kept s l)"
    "is_exploration_run a \<and> older_than e (Some EXPLORE_RUN_KEEP_DAYS) a \<or> a_sha256 a \<notin> set (protected_shas s l)"
    using assms(1) by (auto simp: gc_candidates_def Let_def by_size_def protected_shas_def exploration_kept_def stored_blobs_def)
  have "\<not> a_pinned a" using a(1,2) by (auto simp: exploration_kept_def pinned_shas_def)
  moreover have "list_all (\<lambda>f. a_sha256 a \<notin> set (finding_shas f)) (findings l)"
    using a(2) finding_blob_refs [OF assms(2)] by (fastforce simp: exploration_kept_def list_all_iff)
  moreover have "a_sha256 a \<notin> bl_sha256 ` set (baselines s) \<and>
      list_all (\<lambda>v. a_sha256 a \<notin> set (deep_strings v)) (stored_values s)"
    if "a_sha256 a \<notin> set (protected_shas s l)"
    using that value_protected [OF assms(2)] by (auto simp: protected_shas_def list_all_iff)
  ultimately show ?thesis using a(3) by blast
qed

theorem gc_keeps_what_is_used_witness:
  "map a_sha256 (gc_candidates (demo_env 9000000) (Some 30)
     (demo_shelf\<lparr>jobs := [queued_job ''x'' 0 0\<lparr>j_spec := JObj [(''app'', JObj [(''sha256'', JStr hash_b)])]\<rparr>]\<rparr>)
     \<lparr>findings = [], verdict_log = [], regressions = []\<rparr>) = [hash_a] \<and>
   hash_a \<notin> set (deep_strings (JObj [(''app'', JObj [(''sha256'', JStr hash_b)])]))"
proof
  let ?s = "demo_shelf\<lparr>jobs := [queued_job ''x'' 0 0\<lparr>j_spec := JObj [(''app'', JObj [(''sha256'', JStr hash_b)])]\<rparr>]\<rparr>"
  let ?l = "\<lparr>findings = [], verdict_log = [], regressions = []\<rparr> :: ledger"
  show *: "map a_sha256 (gc_candidates (demo_env 9000000) (Some 30) ?s ?l) = [hash_a]" by code_simp
  have "map a_name (gc_candidates (demo_env 9000000) (Some 30) ?s ?l) = [None]" by code_simp
  with * obtain a where a: "a \<in> set (gc_candidates (demo_env 9000000) (Some 30) ?s ?l)" "a_sha256 a = hash_a" "a_name a = None"
    by auto
  have "is_sha256 (a_sha256 a)" unfolding a(2) by code_simp
  with a(3) show "hash_a \<notin> set (deep_strings (JObj [(''app'', JObj [(''sha256'', JStr hash_b)])]))"
    using gc_keeps_what_is_used [OF a(1)] a(2) by (simp add: stored_values_def is_exploration_run_def)
qed

end
