(* ===== verification/Access.thy ===== *)
theory Access
  imports Scheduler
begin

text \<open>
  Who is asking and whether they may (\<open>auth.ts\<close>, \<open>api/policy.ts\<close>, \<open>api/guard.ts\<close>): tokens and their
  scopes, what a route needs, the decision of the request hook, and the finer checks of the handlers. The
  hash of a token and the random bytes of a new one are parameters; the token file is a list of records.
\<close>

section \<open>Tokens\<close>

datatype scope = Read | Run | Admin | Agent | Delegate

definition SCOPES :: "(string \<times> scope) list" where
  "SCOPES = [(''read'', Read), (''run'', Run), (''admin'', Admin), (''agent'', Agent), (''delegate'', Delegate)]"

text \<open>An expiry is absent, a text that is no date, or an instant.\<close>

datatype expiry = Never | Unreadable | At int

record token_record =
  tk_id :: string
  tk_name :: string
  tk_hash :: string
  tk_scopes :: "string list"
  tk_expires :: expiry
  tk_revoked :: bool

definition expand :: "string list \<Rightarrow> scope list" where
  "expand names =
     (let out = List.map_filter (map_of SCOPES) names;
          out1 = (if Admin \<in> set out then out @ [Run, Agent] else out)
      in if Run \<in> set out1 then out1 @ [Read] else out1)"

definition token_name_char :: "char \<Rightarrow> bool" where
  "token_name_char c \<longleftrightarrow> word_char c \<or> c \<in> set ''.@:-''"

definition good_token_name :: "string \<Rightarrow> bool" where
  "good_token_name n \<longleftrightarrow> 1 \<le> length n \<and> length n \<le> 64 \<and> list_all token_name_char n"

text \<open>\<open>createToken\<close>, with the id and the token that were drawn.\<close>

definition create_token ::
  "(string \<Rightarrow> string) \<Rightarrow> string \<times> string \<Rightarrow> string \<Rightarrow> string list \<Rightarrow> expiry \<Rightarrow> token_record list \<Rightarrow>
     string + (token_record \<times> token_record list)" where
  "create_token hash drawn raw_name scopes expires tokens =
     (let name = trim raw_name; unknown = filter (\<lambda>x. map_of SCOPES x = None) scopes in
      if \<not> good_token_name name then Inl ''token name must be 1-64 of letters, digits, . _ - @ :''
      else if unknown \<noteq> [] then
        Inl (''unknown scope(s): '' @ join '', '' unknown @ ''. Scopes are '' @ join '', '' (map fst SCOPES) @ ''.'')
      else if scopes = [] then Inl ''a token needs at least one scope''
      else if list_ex (\<lambda>t. tk_name t = name \<and> \<not> tk_revoked t) tokens
      then Inl (''a live token named '' @ name @ '' already exists; revoke it first'')
      else
        let r = \<lparr>tk_id = fst drawn, tk_name = name, tk_hash = hash (snd drawn), tk_scopes = nub scopes,
                 tk_expires = expires, tk_revoked = False\<rparr>
        in Inr (r, tokens @ [r]))"

definition revoke_token :: "string \<Rightarrow> token_record list \<Rightarrow> nat \<times> token_record list" where
  "revoke_token who tokens =
     (let hit = (\<lambda>t. (tk_id t = who \<or> tk_name t = who) \<and> \<not> tk_revoked t) in
      (length (filter hit tokens), map (\<lambda>t. if hit t then t\<lparr>tk_revoked := True\<rparr> else t) tokens))"

definition token_live :: "int \<Rightarrow> token_record \<Rightarrow> bool" where
  "token_live now t \<longleftrightarrow> \<not> tk_revoked t \<and> (case tk_expires t of At x \<Rightarrow> x > now | _ \<Rightarrow> True)"

definition look_up :: "(string \<Rightarrow> string) \<Rightarrow> int \<Rightarrow> token_record list \<Rightarrow> string \<Rightarrow> token_record option" where
  "look_up hash now tokens token =
     (case List.find (\<lambda>t. tk_hash t = hash token) tokens of
        None \<Rightarrow> None
      | Some t \<Rightarrow> if token_live now t then Some t else None)"

section \<open>What a route needs\<close>

datatype need = Public | Protocol | Scoped scope

text \<open>A pattern of a path, one entry per piece between slashes.\<close>

datatype piece = Lit string | Any | One_Of "string list" | Number | Digest

fun piece_ok :: "piece \<Rightarrow> string \<Rightarrow> bool" where
  "piece_ok (Lit l) s = (s = l)"
| "piece_ok Any s = (s \<noteq> [])"
| "piece_ok (One_Of ls) s = (s \<in> set ls)"
| "piece_ok Number s = (s \<noteq> [] \<and> list_all is_digit s)"
| "piece_ok Digest s = is_sha256 s"

definition path_ok :: "piece list \<Rightarrow> string \<Rightarrow> bool" where
  "path_ok ps p \<longleftrightarrow> list_all2 piece_ok (Lit [] # ps) (split_on (CHR ''/'') p)"

type_synonym route = "string \<times> piece list"

definition PROTOCOL_ROUTES :: "route list" where
  "PROTOCOL_ROUTES =
     [(''POST'', [Lit ''devices'', Lit ''register'']),
      (''GET'', [Lit ''devices'', Any, Lit ''next-job'']),
      (''GET'', [Lit ''executor'', Lit ''next-job'']),
      (''POST'', [Lit ''results'']),
      (''POST'', [Lit ''jobs'', Any, Lit ''release'']),
      (''POST'', [Lit ''locks'', One_Of [''acquire'', ''release'']]),
      (''POST'', [Lit ''artifacts'']),
      (''POST'', [Lit ''events'', Any]),
      (''GET'', [Lit ''events'', Any, Lit ''poll'']),
      (''POST'', [Lit ''api'', Lit ''jobs'', Any, Lit ''mirror'']),
      (''POST'', [Lit ''findings'']),
      (''GET'', [Lit ''findings'', Lit ''regressions'']),
      (''POST'', [Lit ''findings'', Number, Lit ''regression''])]"

definition RUN_ROUTES :: "route list" where
  "RUN_ROUTES =
     [(''POST'', [Lit ''jobs'']),
      (''POST'', [Lit ''api'', Lit ''jobs'']),
      (''POST'', [Lit ''api'', Lit ''jobs'', Lit ''preview-targets'']),
      (''POST'', [Lit ''api'', Lit ''jobs'', Any, One_Of [''cancel'', ''retry'']]),
      (''POST'', [Lit ''api'', Lit ''v1'', Lit ''jobs'']),
      (''POST'', [Lit ''api'', Lit ''v1'', Lit ''jobs'', Lit ''validate'']),
      (''POST'', [Lit ''api'', Lit ''v1'', Lit ''jobs'', Any, One_Of [''cancel'', ''retry'']]),
      (''POST'', [Lit ''api'', Lit ''v1'', Lit ''findings'', Any, Lit ''verdict''])]"

definition on_route :: "route list \<Rightarrow> string \<Rightarrow> string \<Rightarrow> bool" where
  "on_route routes m p \<longleftrightarrow> list_ex (\<lambda>(rm, ps). rm = m \<and> path_ok ps p) routes"

definition public_page :: "string \<Rightarrow> bool" where
  "public_page p \<longleftrightarrow>
     p \<in> set [''/'', ''/runner'', ''/get'', ''/dash'', ''/api/health'', ''/api/v1/health'', ''/api/v1/openapi.json'',
              ''/api/v1/whoami''] \<or>
     starts_with ''/dash/'' p \<or> starts_with ''/.well-known/'' p"

definition route_of :: "string \<Rightarrow> string" where
  "route_of url = hd (split_on (CHR ''?'') url)"

definition requirement :: "string \<Rightarrow> string \<Rightarrow> need" where
  "requirement meth url =
     (let p = route_of url; m = (if meth = ''HEAD'' then ''GET'' else meth) in
      if m = ''OPTIONS'' then Public
      else if m = ''GET'' \<and> public_page p then Public
      else if p = ''/api/session'' then Public
      else if on_route PROTOCOL_ROUTES m p then Protocol
      else if m = ''GET'' \<and> path_ok [Lit ''artifacts'', Digest] p then Protocol
      else if on_route RUN_ROUTES m p then Scoped Run
      else if p = ''/api/v1/audit'' then Scoped Admin
      else if m = ''GET'' then Scoped Read
      else Scoped Admin)"

section \<open>Who is asking\<close>

record auth_context =
  cx_tokens_mode :: bool
  cx_actor :: "string option"
  cx_verified :: bool
  cx_token :: "(string \<times> string) option"
  cx_scopes :: "scope list"
  cx_source :: "string option"
  cx_internal :: bool

record headers =
  hd_method :: string
  hd_authorization :: "string option"
  hd_fleet_token :: "string option"
  hd_cookie :: "string option"
  hd_internal :: "string option"
  hd_verified :: "string option"
  hd_actor :: "string option"
  hd_source :: "string option"

record auth_config =
  ac_tokens_mode :: bool
  ac_protocol_open :: bool
  ac_secret :: string
  ac_hash :: "string \<Rightarrow> string"
  ac_tokens :: "token_record list"
  ac_now :: int
  ac_dash_token :: "string option"

definition label_char :: "char \<Rightarrow> bool" where
  "label_char c \<longleftrightarrow> word_char c \<or> c \<in> set ''.@:+- ''"

definition label_of :: "nat \<Rightarrow> string option \<Rightarrow> string option" where
  "label_of n raw =
     (case raw of
        None \<Rightarrow> None
      | Some r \<Rightarrow> let v = take n (trim r) in if v \<noteq> [] \<and> list_all label_char v then Some v else None)"

definition hex_value :: "char \<Rightarrow> nat option" where
  "hex_value c =
     (let n = code (lower_char c) in
      if 48 \<le> n \<and> n \<le> 57 then Some (n - 48) else if 97 \<le> n \<and> n \<le> 102 then Some (n - 87) else None)"

fun percent_byte :: "string \<Rightarrow> (nat \<times> string) option" where
  "percent_byte (c # a # b # s) =
     (if c = CHR 0x25
      then (case (hex_value a, hex_value b) of (Some x, Some y) \<Rightarrow> Some (16 * x + y, s) | _ \<Rightarrow> None)
      else None)"
| "percent_byte _ = None"

lemma percent_byte_shorter: "percent_byte s = Some (n, s') \<Longrightarrow> length s' < length s"
  by (induction s rule: percent_byte.induct) (auto split: if_splits option.splits)

text \<open>\<open>decodeURIComponent\<close>, in the characters of the model: those below code point 256. \<open>None\<close> is a text it
  throws on, or one that decodes to other characters, which no token has.\<close>

function uri_decode :: "string \<Rightarrow> string option" where
  "uri_decode s =
     (case s of
        [] \<Rightarrow> Some []
      | c # cs \<Rightarrow>
          if c \<noteq> CHR 0x25 then map_option (Cons c) (uri_decode cs)
          else case percent_byte s of
            None \<Rightarrow> None
          | Some (n, r) \<Rightarrow>
              if n < 128 then map_option (Cons (char_of n)) (uri_decode r)
              else if n = 0xC2 \<or> n = 0xC3
              then (case percent_byte r of
                      Some (k, r') \<Rightarrow>
                        if 128 \<le> k \<and> k < 192 then map_option (Cons (char_of ((n - 0xC0) * 64 + (k - 128)))) (uri_decode r')
                        else None
                    | None \<Rightarrow> None)
              else None)"
  by pat_completeness auto
termination
  by (relation "measure length") (auto dest!: percent_byte_shorter)

declare uri_decode.simps [simp del]

definition cookie_value :: "string \<Rightarrow> string option" where
  "cookie_value cookie =
     (let name = ''fleet_token='';
          parts = (case split_on (CHR '';'') cookie of [] \<Rightarrow> [] | x # xs \<Rightarrow> x # map (dropWhile is_space) xs)
      in map_option (drop (length name)) (List.find (\<lambda>x. starts_with name x \<and> length name < length x) parts))"

text \<open>\<open>bearer\<close>: nothing presented, a token, or a cookie that cannot be decoded (the request fails).\<close>

datatype presented = Nothing | Token string | Broken_Cookie

definition bearer_text :: "string \<Rightarrow> string option" where
  "bearer_text h =
     (let sp = takeWhile is_space (drop 6 h); tok = dropWhile is_space (drop 6 h) in
      if lower (take 6 h) = ''bearer'' \<and> sp \<noteq> [] \<and> tok \<noteq> [] \<and> list_all (\<lambda>c. \<not> is_space c) tok then Some tok else None)"

definition bearer :: "headers \<Rightarrow> presented" where
  "bearer h =
     (case (case hd_authorization h of None \<Rightarrow> None | Some x \<Rightarrow> bearer_text x) of
        Some t \<Rightarrow> Token t
      | None \<Rightarrow>
          (case hd_fleet_token h of
             Some (c # cs) \<Rightarrow> Token (c # cs)
           | _ \<Rightarrow>
               if hd_method h = ''GET'' \<or> hd_method h = ''HEAD''
               then (case cookie_value (case hd_cookie h of None \<Rightarrow> [] | Some c \<Rightarrow> c) of
                       None \<Rightarrow> Nothing
                     | Some v \<Rightarrow> (case uri_decode v of None \<Rightarrow> Broken_Cookie | Some t \<Rightarrow> Token t))
               else Nothing))"

definition look_up_presented :: "auth_config \<Rightarrow> presented \<Rightarrow> token_record option" where
  "look_up_presented cfg p =
     (case p of Token (c # cs) \<Rightarrow> look_up (ac_hash cfg) (ac_now cfg) (ac_tokens cfg) (c # cs) | _ \<Rightarrow> None)"

definition all_scopes :: "scope list" where
  "all_scopes = map snd SCOPES"

definition resolve_context :: "auth_config \<Rightarrow> headers \<Rightarrow> auth_context" where
  "resolve_context cfg h =
     (let source = label_of 40 (hd_source h); claimed = label_of 120 (hd_actor h) in
      if hd_internal h = Some (ac_secret cfg)
      then \<lparr>cx_tokens_mode = ac_tokens_mode cfg, cx_actor = claimed, cx_verified = (hd_verified h = Some ''1''),
             cx_token = None, cx_scopes = all_scopes, cx_source = source, cx_internal = True\<rparr>
      else if \<not> ac_tokens_mode cfg
      then \<lparr>cx_tokens_mode = False, cx_actor = claimed, cx_verified = False, cx_token = None,
             cx_scopes = all_scopes, cx_source = source, cx_internal = False\<rparr>
      else case look_up_presented cfg (bearer h) of
        None \<Rightarrow> \<lparr>cx_tokens_mode = True, cx_actor = None, cx_verified = False, cx_token = None, cx_scopes = [],
                  cx_source = source, cx_internal = False\<rparr>
      | Some t \<Rightarrow>
          let scopes = expand (tk_scopes t) in
          \<lparr>cx_tokens_mode = True,
           cx_actor = (if Delegate \<in> set scopes \<and> claimed \<noteq> None then claimed else Some (tk_name t)),
           cx_verified = True, cx_token = Some (tk_id t, tk_name t), cx_scopes = scopes, cx_source = source,
           cx_internal = False\<rparr>)"

definition provenance_of :: "auth_context \<Rightarrow> provenance" where
  "provenance_of cx = \<lparr>pr_requested_by = cx_actor cx, pr_source = cx_source cx\<rparr>"

text \<open>\<open>forward\<close>: the headers of a request one route makes to another.\<close>

definition forward_headers :: "auth_config \<Rightarrow> auth_context \<Rightarrow> headers \<Rightarrow> string \<Rightarrow> headers" where
  "forward_headers cfg cx h meth =
     \<lparr>hd_method = meth, hd_authorization = None,
      hd_fleet_token = (case hd_fleet_token h of Some [] \<Rightarrow> None | x \<Rightarrow> x), hd_cookie = None,
      hd_internal = Some (ac_secret cfg), hd_verified = (if cx_verified cx then Some ''1'' else None),
      hd_actor = (case cx_actor cx of Some [] \<Rightarrow> None | x \<Rightarrow> x), hd_source = (case cx_source cx of Some [] \<Rightarrow> None | x \<Rightarrow> x)\<rparr>"

section \<open>The hook\<close>

datatype decision = Pass | Unauthorized | Insufficient scope

definition decide :: "bool \<Rightarrow> auth_context \<Rightarrow> string \<Rightarrow> string \<Rightarrow> decision" where
  "decide protocol_open cx meth url =
     (if \<not> cx_tokens_mode cx \<or> cx_internal cx then Pass
      else case requirement meth url of
        Public \<Rightarrow> Pass
      | Protocol \<Rightarrow>
          if protocol_open \<or> Agent \<in> set (cx_scopes cx) \<or> (meth = ''GET'' \<and> Read \<in> set (cx_scopes cx)) then Pass
          else if cx_token cx = None then Unauthorized else Insufficient Agent
      | Scoped sc \<Rightarrow>
          if cx_token cx = None then Unauthorized
          else if sc \<in> set (cx_scopes cx) then Pass else Insufficient sc)"

definition admitted :: "auth_config \<Rightarrow> headers \<Rightarrow> string \<Rightarrow> decision" where
  "admitted cfg h url = decide (ac_protocol_open cfg) (resolve_context cfg h) (hd_method h) url"

section \<open>The audit log\<close>

definition quiet :: "string \<Rightarrow> bool" where
  "quiet p \<longleftrightarrow>
     list_ex (\<lambda>x. starts_with x p) [''/results'', ''/devices/register'', ''/executor/next-job'', ''/locks/'', ''/events/''] \<or>
     (case split_on (CHR ''/'') p of
        [] # d # i # n # _ \<Rightarrow> d = ''devices'' \<and> i \<noteq> [] \<and> starts_with ''next-job'' n
      | _ \<Rightarrow> False) \<or>
     p \<in> set [''/artifacts'', ''/findings'', ''/api/session''] \<or>
     path_ok [Lit ''findings'', Number, Lit ''regression''] p \<or> path_ok [Lit ''api'', Lit ''jobs'', Any, Lit ''mirror''] p"

record audit_row =
  au_actor :: "string option"
  au_verified :: bool
  au_token :: "string option"
  au_source :: "string option"
  au_method :: string
  au_route :: string
  au_status :: nat

definition audit :: "auth_context \<Rightarrow> string \<Rightarrow> string \<Rightarrow> nat \<Rightarrow> audit_row option" where
  "audit cx meth url status =
     (let p = route_of url in
      if meth \<in> set [''GET'', ''HEAD'', ''OPTIONS''] \<or> cx_internal cx \<or> quiet p then None
      else Some \<lparr>au_actor = cx_actor cx, au_verified = cx_verified cx, au_token = map_option fst (cx_token cx),
                 au_source = cx_source cx, au_method = meth, au_route = take 300 p, au_status = status\<rparr>)"

section \<open>Policy of the job routes\<close>

text \<open>
  The checks a scope alone cannot make (\<open>api/policy.ts\<close>, \<open>api/guard.ts\<close>) and the routes that make them:
  enqueue, cancel and retry of the dashboard's API and \<open>POST /jobs\<close>. A request already admitted by the hook
  is its context with its headers.
\<close>

section \<open>Decisions\<close>

definition restricted :: "auth_context \<Rightarrow> bool" where
  "restricted cx \<longleftrightarrow> cx_tokens_mode cx \<and> \<not> cx_internal cx \<and> Admin \<notin> set (cx_scopes cx)"

definition owner_hint :: string where
  "owner_hint = ''an admin token can act on any job''"

definition not_owned :: "auth_context \<Rightarrow> id list \<Rightarrow> store \<Rightarrow> (string \<times> string) option" where
  "not_owned cx ids s =
     (if \<not> restricted cx \<or> ids = [] then None
      else case List.find (\<lambda>j. j_requested_by j \<noteq> cx_actor cx) (filter (\<lambda>j. j_id j \<in> set ids) (jobs s)) of
        None \<Rightarrow> None
      | Some j \<Rightarrow>
          Some (''you can stop only jobs you started; '' @ j_id j @ '' was started by '' @
                  (case j_requested_by j of None \<Rightarrow> ''someone unrecorded'' | Some w \<Rightarrow> w), owner_hint))"

text \<open>The entries of the catalogue that are marked dangerous.\<close>

definition DANGEROUS :: "string list" where
  "DANGEROUS = [''shell'']"

definition needs_admin :: "auth_context \<Rightarrow> js \<Rightarrow> (string \<times> string) option" where
  "needs_admin cx workload =
     (if \<not> restricted cx then None
      else case str_of workload of
        None \<Rightarrow> None
      | Some w \<Rightarrow>
          if w \<in> set DANGEROUS
          then Some (''the '' @ w @ '' workload needs the admin scope'',
                     ''ask an operator to run it, or use a token with admin'')
          else None)"

text \<open>\<open>requireToken\<close>: the dashboard's token, where tokens are off and one is set.\<close>

definition guard_passes :: "auth_config \<Rightarrow> headers \<Rightarrow> bool" where
  "guard_passes cfg h \<longleftrightarrow>
     ac_tokens_mode cfg \<or>
     (case ac_dash_token cfg of None \<Rightarrow> True | Some t \<Rightarrow> t = [] \<or> hd_fleet_token h = Some t)"

definition guard_message :: string where
  "guard_message = ''X-Fleet-Token required (FLEET_DASH_TOKEN is set on the collector)''"

section \<open>Routes\<close>

definition post_jobs :: "auth_context \<Rightarrow> env \<Rightarrow> js \<Rightarrow> store \<Rightarrow> refusal + (enqueue_accepted \<times> store)" where
  "post_jobs cx e body s =
     (case needs_admin cx (jget ''workload'' body) of
        Some (why, _) \<Rightarrow> Inl (403, why)
      | None \<Rightarrow> map_sum (\<lambda>r. (er_http r, er_message r)) id (enqueue_job e False (provenance_of cx) body s))"

text \<open>A route that forwards arrives at \<open>POST /jobs\<close> as an internal request of the same caller.\<close>

definition forwarded :: "auth_config \<Rightarrow> headers \<Rightarrow> string \<Rightarrow> auth_context" where
  "forwarded cfg h meth = resolve_context cfg (forward_headers cfg (resolve_context cfg h) h meth)"

definition post_api_jobs :: "auth_config \<Rightarrow> headers \<Rightarrow> env \<Rightarrow> js \<Rightarrow> store \<Rightarrow> refusal + (enqueue_accepted \<times> store)" where
  "post_api_jobs cfg h e body s =
     (if \<not> guard_passes cfg h then Inl (401, guard_message)
      else case needs_admin (resolve_context cfg h) (jget ''workload'' body) of
        Some (why, _) \<Rightarrow> Inl (403, why)
      | None \<Rightarrow> post_jobs (forwarded cfg h ''POST'') e body s)"

text \<open>\<open>slice\<close> is a method of strings: any other reason makes the request fail.\<close>

definition cancel_reason :: "js \<Rightarrow> string option" where
  "cancel_reason body =
     map_option (take 500) (str_of (jor (jget ''reason'' body) (JStr ''cancelled from the dashboard'')))"

definition cancel_route :: "auth_config \<Rightarrow> headers \<Rightarrow> env \<Rightarrow> id \<Rightarrow> js \<Rightarrow> store \<Rightarrow> refusal + (cancel_outcome \<times> store)" where
  "cancel_route cfg h e i body s =
     (if \<not> guard_passes cfg h then Inl (401, guard_message)
      else case not_owned (resolve_context cfg h) [i] s of
        Some (why, _) \<Rightarrow> Inl (403, why)
      | None \<Rightarrow>
          (case cancel_reason body of
             None \<Rightarrow> Inl (500, ''reason must be a string'')
           | Some why \<Rightarrow> cancel_tx e i why s))"

definition retry_route :: "auth_config \<Rightarrow> headers \<Rightarrow> env \<Rightarrow> id \<Rightarrow> js \<Rightarrow> store \<Rightarrow> refusal + (id \<times> store)" where
  "retry_route cfg h e i body s =
     (if \<not> guard_passes cfg h then Inl (401, guard_message)
      else case not_owned (resolve_context cfg h) [i] s of
        Some (why, _) \<Rightarrow> Inl (403, why)
      | None \<Rightarrow> retry_job e (provenance_of (forwarded cfg h ''POST'')) i body s)"

end
