(* ===== verification/Access_Properties.thy ===== *)
theory Access_Properties
  imports Access Examples
begin

text \<open>
  The properties of access control: the life of a token, what a token without the admin scope may do to
  jobs, and two ways round the rules.
\<close>

section \<open>Tokens\<close>

lemma look_up_append:
  "(\<And>t. t \<in> set tokens \<Longrightarrow> tk_hash t \<noteq> hash token) \<Longrightarrow>
     look_up hash now (tokens @ [r]) token = (if tk_hash r = hash token \<and> token_live now r then Some r else None)"
  by (induction tokens) (auto simp: look_up_def)

lemma look_up_other: "tk_hash r \<noteq> hash token \<Longrightarrow> look_up hash now (tokens @ [r]) token = look_up hash now tokens token"
  by (induction tokens) (auto simp: look_up_def split: if_splits)

lemma look_up_revoked:
  assumes "\<And>t. t \<in> set tokens \<Longrightarrow> tk_hash t \<noteq> hash token" "tk_name r = nm" "tk_hash r = hash token"
  shows "look_up hash now (snd (revoke_token nm (tokens @ [r]))) token = None"
proof -
  have "look_up hash now (map f tokens @ [r']) token = None"
    if "\<And>t. tk_hash (f t) = tk_hash t" "tk_revoked r'" "tk_hash r' = hash token" for f r'
    by (subst look_up_append) (use assms(1) that in \<open>auto simp: token_live_def\<close>)
  from this [of "\<lambda>t. if (tk_id t = nm \<or> tk_name t = nm) \<and> \<not> tk_revoked t then t\<lparr>tk_revoked := True\<rparr> else t"
      "if (tk_id r = nm \<or> tk_name r = nm) \<and> \<not> tk_revoked r then r\<lparr>tk_revoked := True\<rparr> else r"] assms(2,3)
  show ?thesis by (auto simp: revoke_token_def Let_def split: if_splits)
qed

text \<open>the life of a token. A created token is found by what was drawn for it while it has not expired,
  under the given name, and no other token is found differently; once it is revoked by its name it is
  found no more. Its scopes grant what they imply and nothing else: only an admin or a run token can queue
  jobs, and no token can name other people unless it was created to.\<close>

theorem token_life:
  assumes "create_token hash drawn name scopes expires tokens = Inr (r, tokens')"
    and "\<And>t. t \<in> set tokens \<Longrightarrow> tk_hash t \<noteq> hash (snd drawn)" "token_live now r"
  shows "look_up hash now tokens' (snd drawn) = Some r \<and> tk_name r = trim name \<and>
    (hash other \<noteq> hash (snd drawn) \<longrightarrow> look_up hash now tokens' other = look_up hash now tokens other) \<and>
    look_up hash now (snd (revoke_token (tk_name r) tokens')) (snd drawn) = None \<and>
    (Run \<in> set (expand (tk_scopes r)) \<longleftrightarrow> ''run'' \<in> set scopes \<or> ''admin'' \<in> set scopes) \<and>
    (Admin \<in> set (expand (tk_scopes r)) \<longleftrightarrow> ''admin'' \<in> set scopes) \<and>
    (Delegate \<in> set (expand (tk_scopes r)) \<longleftrightarrow> ''delegate'' \<in> set scopes)"
proof -
  have r: "tk_hash r = hash (snd drawn)" "tk_name r = trim name" "tk_scopes r = nub scopes" "tokens' = tokens @ [r]"
    using assms(1) by (auto simp: create_token_def Let_def split: if_splits)
  have names: "Admin \<in> set (List.map_filter (map_of SCOPES) xs) \<longleftrightarrow> ''admin'' \<in> set xs"
    "Run \<in> set (List.map_filter (map_of SCOPES) xs) \<longleftrightarrow> ''run'' \<in> set xs"
    "Delegate \<in> set (List.map_filter (map_of SCOPES) xs) \<longleftrightarrow> ''delegate'' \<in> set xs" for xs
    by (induction xs) (auto simp: SCOPES_def split: if_splits)
  have "Run \<in> set (expand xs) \<longleftrightarrow> ''run'' \<in> set xs \<or> ''admin'' \<in> set xs"
    "Admin \<in> set (expand xs) \<longleftrightarrow> ''admin'' \<in> set xs" "Delegate \<in> set (expand xs) \<longleftrightarrow> ''delegate'' \<in> set xs" for xs
    using names [of xs] by (auto simp: expand_def Let_def)
  then show ?thesis
    using look_up_append [where tokens = tokens and hash = hash and token = "snd drawn" and now = now and r = r, OF assms(2)]
      look_up_revoked [where tokens = tokens and hash = hash and token = "snd drawn" and r = r and now = now, OF assms(2) refl]
      look_up_other [of r hash other now tokens]
      assms(3) r by (simp add: set_nub)
qed

definition demo_hash :: "string \<Rightarrow> string" where
  "demo_hash t = ''sha256:'' @ t"

theorem token_life_witness:
  "case create_token demo_hash (''1'', ''fr_x'') ''ci'' [''run''] Never [] of
     Inl _ \<Rightarrow> False
   | Inr (r, tokens) \<Rightarrow>
       look_up demo_hash 5 tokens ''fr_x'' = Some r \<and>
       look_up demo_hash 5 (snd (revoke_token ''ci'' tokens)) ''fr_x'' = None"
proof -
  let ?r = "\<lparr>tk_id = ''1'', tk_name = ''ci'', tk_hash = demo_hash ''fr_x'', tk_scopes = [''run''], tk_expires = Never,
    tk_revoked = False\<rparr>"
  have c: "create_token demo_hash (''1'', ''fr_x'') ''ci'' [''run''] Never [] = Inr (?r, [?r])" by code_simp
  from token_life [OF c, of 5] show ?thesis unfolding c by (simp add: token_live_def)
qed

section \<open>What a token may do\<close>



definition demo_token :: "string \<Rightarrow> string list \<Rightarrow> token_record" where
  "demo_token name scopes =
     \<lparr>tk_id = name, tk_name = name, tk_hash = demo_hash name, tk_scopes = scopes, tk_expires = Never, tk_revoked = False\<rparr>"

definition demo_config :: auth_config where
  "demo_config =
     \<lparr>ac_tokens_mode = True, ac_protocol_open = False, ac_secret = ''s'', ac_hash = demo_hash,
      ac_tokens = [demo_token ''viewer'' [''read''], demo_token ''ci'' [''run'']], ac_now = 0, ac_dash_token = None\<rparr>"

definition demo_headers :: "string \<Rightarrow> string \<Rightarrow> headers" where
  "demo_headers meth token =
     \<lparr>hd_method = meth, hd_authorization = Some (''Bearer '' @ token), hd_fleet_token = None, hd_cookie = None,
      hd_internal = None, hd_verified = None, hd_actor = None, hd_source = None\<rparr>"

text \<open>A job of \<open>shell\<close> that \<open>ci\<close> once started.\<close>

definition shell_job :: job where
  "shell_job = (queued_job ''x'' 0 0)\<lparr>j_requested_by := Some ''ci'',
     j_spec := JObj [(''schema'', JInt 1), (''job_id'', JStr ''x''), (''workload'', JStr ''shell''), (''executor'', JStr ''device'')]\<rparr>"


lemma split_on_slash: "list_all (\<lambda>c. c \<noteq> d) w \<Longrightarrow> split_on d (w @ d # s) = w # split_on d s"
  by (induction w) auto

lemma split_on_whole: "list_all (\<lambda>c. c \<noteq> d) w \<Longrightarrow> split_on d w = [w]"
  by (induction w) auto

definition next_job_url :: "id \<Rightarrow> string" where
  "next_job_url d = ''/devices/'' @ d @ ''/next-job''"

lemma next_job_is_protocol:
  assumes "d \<noteq> []" "list_all (\<lambda>c. c \<noteq> CHR ''/'' \<and> c \<noteq> CHR ''?'') d"
  shows "requirement ''GET'' (next_job_url d) = Protocol"
proof -
  have slash: "list_all (\<lambda>c. c \<noteq> CHR ''/'') d" and query: "list_all (\<lambda>c. c \<noteq> CHR ''?'') d"
    using assms(2) by (simp_all add: list_all_iff)
  have url: "route_of (next_job_url d) = next_job_url d"
    using query by (simp add: route_of_def next_job_url_def split_on_whole list_all_append)
  have "split_on (CHR ''/'') (next_job_url d) = [[], ''devices'', d, ''next-job'']"
    using split_on_slash [OF slash, of "''next-job''"] by (simp add: next_job_url_def)
  then have "on_route PROTOCOL_ROUTES ''GET'' (next_job_url d)"
    using assms(1) by (simp add: on_route_def PROTOCOL_ROUTES_def path_ok_def)
  moreover have "\<not> public_page (next_job_url d)" "next_job_url d \<noteq> ''/api/session''"
    by (simp_all add: public_page_def next_job_url_def starts_with_def)
  ultimately show ?thesis by (simp add: requirement_def url Let_def)
qed

text \<open>C19: a token that may only read can take work from the queue. With the runner protocol closed to tokens
  without the agent scope, the exception for reading artifacts lets every GET of the protocol pass: a read
  token is admitted to the claim of any device.\<close>

theorem read_token_claims:
  assumes "cx_tokens_mode cx" "Read \<in> set (cx_scopes cx)" "Agent \<notin> set (cx_scopes cx)"
    and "d \<noteq> []" "list_all (\<lambda>c. c \<noteq> CHR ''/'' \<and> c \<noteq> CHR ''?'') d"
  shows "requirement ''GET'' (next_job_url d) = Protocol \<and> decide False cx ''GET'' (next_job_url d) = Pass"
  using next_job_is_protocol [OF assms(4,5)] assms(1,2) by (simp add: decide_def)

theorem read_token_claims_witness:
  "admitted demo_config (demo_headers ''GET'' ''viewer'') (next_job_url ''d1'') = Pass \<and>
   cx_scopes (resolve_context demo_config (demo_headers ''GET'' ''viewer'')) = [Read] \<and>
   admitted demo_config (demo_headers ''POST'' ''viewer'') ''/results'' = Insufficient Agent"
proof -
  let ?cx = "resolve_context demo_config (demo_headers ''GET'' ''viewer'')"
  have s: "cx_tokens_mode ?cx" "cx_scopes ?cx = [Read]" by code_simp+
  then have cx: "Read \<in> set (cx_scopes ?cx)" "Agent \<notin> set (cx_scopes ?cx)" by simp_all
  have d: "''d1'' \<noteq> []" "list_all (\<lambda>c. c \<noteq> CHR ''/'' \<and> c \<noteq> CHR ''?'') ''d1''" by simp_all
  have m: "hd_method (demo_headers ''GET'' ''viewer'') = ''GET''" "ac_protocol_open demo_config = False"
    by (simp_all add: demo_headers_def demo_config_def)
  have "admitted demo_config (demo_headers ''POST'' ''viewer'') ''/results'' = Insufficient Agent" by code_simp
  with read_token_claims [OF s(1) cx d] s(2) show ?thesis by (simp add: admitted_def m)
qed

text \<open>a retry is not asked what it would run. For the caller of a job, the retry of it is decided by the
  enqueue alone, whatever the workload: a token without admin that may not queue \<open>shell\<close> may queue it by
  retrying a \<open>shell\<close> job recorded under its caller's name.\<close>

theorem retry_skips_workload_check:
  assumes "ac_tokens_mode cfg" "find_job i s = Some j" "distinct (map j_id (jobs s))"
    and "j_requested_by j = cx_actor (resolve_context cfg h)"
  shows "retry_route cfg h e i body s = retry_job e (provenance_of (forwarded cfg h ''POST'')) i body s"
proof -
  have j: "find_row j_id i (jobs s) = Some j" using assms(2) by (simp add: find_job_def)
  have "x = j" if x: "x \<in> set (jobs s)" "j_id x = i" for x
    using find_row_in [OF assms(3) x(1)] j x(2) by simp
  then have "List.find (\<lambda>j. j_requested_by j \<noteq> cx_actor (resolve_context cfg h)) (filter (\<lambda>x. j_id x \<in> set [i]) (jobs s)) = None"
    using assms(4) by (auto simp: find_None)
  then have "not_owned (resolve_context cfg h) [i] s = None" by (simp add: not_owned_def)
  then show ?thesis by (simp add: retry_route_def guard_passes_def assms(1))
qed

theorem retry_skips_workload_check_witness:
  "(case post_api_jobs demo_config (demo_headers ''POST'' ''ci'') (demo_env 9) (j_spec shell_job) (demo_store [shell_job]) of
      Inl (http, _) \<Rightarrow> http = 403 | Inr _ \<Rightarrow> False) \<and>
   (case retry_route demo_config (demo_headers ''POST'' ''ci'') (demo_env 9) ''x'' (JObj []) (demo_store [shell_job]) of
      Inl _ \<Rightarrow> False | Inr (job, s') \<Rightarrow> job = ''x-r2'' \<and> map (\<lambda>j. jget ''workload'' (j_spec j)) (jobs s') = [JStr ''shell'', JStr ''shell''])"
proof
  show "case post_api_jobs demo_config (demo_headers ''POST'' ''ci'') (demo_env 9) (j_spec shell_job) (demo_store [shell_job]) of
      Inl (http, _) \<Rightarrow> http = 403 | Inr _ \<Rightarrow> False" by code_simp
  let ?pr = "provenance_of (forwarded demo_config (demo_headers ''POST'' ''ci'') ''POST'')"
  have j: "find_job ''x'' (demo_store [shell_job]) = Some shell_job" "distinct (map j_id (jobs (demo_store [shell_job])))"
    by (simp_all add: demo_store_def find_job_def find_row_def shell_job_def queued_job_def fresh_job_def)
  have a: "ac_tokens_mode demo_config" by (simp add: demo_config_def)
  have o: "j_requested_by shell_job = cx_actor (resolve_context demo_config (demo_headers ''POST'' ''ci''))" by code_simp
  have r: "retry_route demo_config (demo_headers ''POST'' ''ci'') (demo_env 9) ''x'' (JObj []) (demo_store [shell_job]) =
      retry_job (demo_env 9) ?pr ''x'' (JObj []) (demo_store [shell_job])"
    by (rule retry_skips_workload_check [OF a j o])
  show "case retry_route demo_config (demo_headers ''POST'' ''ci'') (demo_env 9) ''x'' (JObj []) (demo_store [shell_job]) of
      Inl _ \<Rightarrow> False | Inr (job, s') \<Rightarrow> job = ''x-r2'' \<and> map (\<lambda>j. jget ''workload'' (j_spec j)) (jobs s') = [JStr ''shell'', JStr ''shell'']"
    unfolding r by code_simp
qed

end
