(* ===== verification/Ledger_Views.thy ===== *)
theory Ledger_Views
  imports Verdicts
begin

text \<open>
  The reading side of the ledger of findings (\<open>findings.ts\<close>, 1010 to 1220): the filtered list, the
  detail of one finding, and how often a check is right. An instant is a number of milliseconds since the epoch, the time of a row a number of seconds.
  \<open>Date.parse\<close> on what is not a span is a parameter (its result in milliseconds, \<open>None\<close> for \<open>NaN\<close>).
\<close>

section \<open>Since\<close>

definition MAX_DATE_MS :: int where
  "MAX_DATE_MS = 8640000000000000"

definition unit_ms :: "char \<Rightarrow> int option" where
  "unit_ms c =
     (case lower_char c of
        CHR ''m'' \<Rightarrow> Some 60000
      | CHR ''h'' \<Rightarrow> Some 3600000
      | CHR ''d'' \<Rightarrow> Some 86400000
      | CHR ''w'' \<Rightarrow> Some 604800000
      | _ \<Rightarrow> None)"

text \<open>\<open>/^(\d+)\s*(m|h|d|w)$/i\<close> on the trimmed text: the span in milliseconds.\<close>

definition span_ms :: "string \<Rightarrow> int option" where
  "span_ms raw =
     (let s = trim raw; ds = takeWhile is_digit s; r = dropWhile is_space (dropWhile is_digit s)
      in if ds = [] then None
         else case r of [c] \<Rightarrow> map_option (\<lambda>u. int (digits_val ds) * u) (unit_ms c) | _ \<Rightarrow> None)"

text \<open>The answer is a \<open>Date\<close>, valid or not, or null.\<close>

definition parse_since :: "(string \<Rightarrow> int option) \<Rightarrow> int \<Rightarrow> string \<Rightarrow> int option" where
  "parse_since date_parse now_ms raw =
     (case span_ms raw of Some width \<Rightarrow> Some (now_ms - width) | None \<Rightarrow> date_parse raw)"

text \<open>
  The key a column of times is compared with: \<open>None\<close> is the exception of \<open>toISOString\<close> on a date that is
  not valid. From the year 10000 on the text begins with a plus sign, which sorts before every digit.
\<close>

definition YEAR_10000_MS :: int where
  "YEAR_10000_MS = 253402300800000"

definition YEAR_0_S :: int where
  "YEAR_0_S = -62167219200"

definition sqlite_time :: "int \<Rightarrow> int option" where
  "sqlite_time ms =
     (if \<bar>ms\<bar> > MAX_DATE_MS then None
      else if ms \<ge> YEAR_10000_MS then Some (YEAR_0_S - 1)
      else Some (ms div 1000))"

section \<open>The list\<close>

record list_query =
  lq_app :: "string option"
  lq_check :: "string option"
  lq_status :: "string option"
  lq_verdict :: "string option"
  lq_since :: "string option"
  lq_limit :: "jsnum option"
  lq_offset :: "jsnum option"

record finding_list =
  fl_findings :: "finding list"
  fl_open :: nat
  fl_triaged :: nat
  fl_all :: nat
  fl_apps :: "string list"
  fl_checks :: "string list"
  fl_limit :: nat
  fl_offset :: nat
  fl_total :: nat

datatype list_answer = Listed finding_list | Bad_Query string | Threw

definition VERDICTS :: "string list" where
  "VERDICTS = map fst verdict_names"

text \<open>A filter that is absent or empty keeps everything.\<close>

definition wanted_text :: "string option \<Rightarrow> string \<Rightarrow> bool" where
  "wanted_text w v = (case w of None \<Rightarrow> True | Some x \<Rightarrow> x = [] \<or> v = x)"

definition status_keeps :: "string \<Rightarrow> finding \<Rightarrow> bool" where
  "status_keeps st f =
     (if st = ''open'' then f_verdict f = None else if st = ''triaged'' then f_verdict f \<noteq> None else True)"

text \<open>The verdicts asked for; \<open>None\<close> when the list may hold any.\<close>

definition wanted_verdicts :: "string option \<Rightarrow> string list option" where
  "wanted_verdicts w =
     (case w of
        None \<Rightarrow> None
      | Some t \<Rightarrow> if t = [] then None else Some (filter (\<lambda>v. v \<noteq> []) (map trim (split_on CHR '','' t))))"

definition verdict_keeps :: "string list option \<Rightarrow> finding \<Rightarrow> bool" where
  "verdict_keeps w f =
     (case w of
        None \<Rightarrow> True
      | Some vs \<Rightarrow> (case f_verdict f of None \<Rightarrow> False | Some v \<Rightarrow> verdict_str v \<in> set vs))"

text \<open>
  \<open>Math.min(500, Math.max(1, Number(limit) || 100))\<close>. SQLite takes a whole number only: \<open>None\<close> is its
  refusal of the statement.
\<close>

definition page_limit :: "jsnum option \<Rightarrow> nat option" where
  "page_limit w =
     (case w of
        None \<Rightarrow> Some 100
      | Some NaN \<Rightarrow> Some 100
      | Some PInf \<Rightarrow> Some 500
      | Some NInf \<Rightarrow> Some 1
      | Some (Fin r) \<Rightarrow>
          (let n = (if r = 0 then 100 else r); m = min 500 (max 1 n)
           in if of_int \<lfloor>m\<rfloor> = m then Some (nat \<lfloor>m\<rfloor>) else None))"

text \<open>\<open>Math.max(0, Math.floor(Number(offset) || 0))\<close>, which must fit 64 bits.\<close>

definition page_offset :: "jsnum option \<Rightarrow> nat option" where
  "page_offset w =
     (case w of
        None \<Rightarrow> Some 0
      | Some NaN \<Rightarrow> Some 0
      | Some PInf \<Rightarrow> None
      | Some NInf \<Rightarrow> Some 0
      | Some (Fin r) \<Rightarrow> (let n = max 0 \<lfloor>r\<rfloor> in if n < 2 ^ 63 then Some (nat n) else None))"

definition newest_first :: "finding list \<Rightarrow> finding list" where
  "newest_first = sort_key (\<lambda>f. (- f_last_seen f, - int (f_id f)))"

definition list_findings ::
  "(string \<Rightarrow> int option) \<Rightarrow> int \<Rightarrow> list_query \<Rightarrow> ledger \<Rightarrow> list_answer" where
  "list_findings date_parse now_ms lq l =
     (let st = (case lq_status lq of None \<Rightarrow> ''all'' | Some x \<Rightarrow> x);
          since = (case lq_since lq of None \<Rightarrow> [] | Some x \<Rightarrow> x)
      in if st \<notin> {''open'', ''triaged'', ''all''} then Bad_Query ''status must be open, triaged or all''
         else if since \<noteq> [] \<and> parse_since date_parse now_ms since = None
         then Bad_Query ''since must be an ISO-8601 date or time, or a span like 24h or 7d''
         else if since \<noteq> [] \<and> sqlite_time (the (parse_since date_parse now_ms since)) = None then Threw
         else
           let recent = (\<lambda>f. since = [] \<or> f_last_seen f \<ge> the (sqlite_time (the (parse_since date_parse now_ms since))));
               scoped = filter (\<lambda>f. wanted_text (lq_app lq) (f_app f) \<and> wanted_text (lq_check lq) (f_check f) \<and> recent f)
                          (findings l);
               vs = wanted_verdicts (lq_verdict lq);
               kept = filter (\<lambda>f. status_keeps st f \<and> verdict_keeps vs f) scoped
           in case List.find (\<lambda>v. v \<notin> set VERDICTS) (case vs of None \<Rightarrow> [] | Some xs \<Rightarrow> xs) of
                Some bad \<Rightarrow> Bad_Query (''verdict must be one of '' @ join '', '' VERDICTS @
                              '' (comma-separated), not '' @ quote bad)
              | None \<Rightarrow>
                  (case (page_limit (lq_limit lq), page_offset (lq_offset lq)) of
                     (Some max_rows, Some start) \<Rightarrow>
                       Listed \<lparr>fl_findings = take max_rows (drop start (newest_first kept)),
                         fl_open = length (filter (\<lambda>f. f_verdict f = None) scoped),
                         fl_triaged = length (filter (\<lambda>f. f_verdict f \<noteq> None) scoped),
                         fl_all = length scoped,
                         fl_apps = sort (remdups (map f_app (findings l))),
                         fl_checks = sort (remdups (map f_check (findings l))),
                         fl_limit = max_rows, fl_offset = start, fl_total = length kept\<rparr>
                   | _ \<Rightarrow> Threw))"

section \<open>One finding\<close>

definition FLOW_INLINE_BYTES :: nat where
  "FLOW_INLINE_BYTES = 16 * 1024"

text \<open>\<open>Buffer.byteLength\<close>: two bytes from code unit 128 on.\<close>

definition byte_length :: "string \<Rightarrow> nat" where
  "byte_length s = sum_list (map (\<lambda>c. if code c < 128 then 1 else 2) s)"

definition verdict_history :: "nat \<Rightarrow> ledger \<Rightarrow> history_row list" where
  "verdict_history n l = filter (\<lambda>h. h_finding h = n) (verdict_log l)"

record evidence_link =
  el_role :: string
  el_label :: string
  el_sha256 :: string
  el_url :: string
  el_in_store :: bool

record replay_flow =
  rf_kind :: string
  rf_sha256 :: string
  rf_url :: string
  rf_in_store :: bool
  rf_text :: "string option"
  rf_truncated :: bool

record finding_detail =
  fd_finding :: finding
  fd_duplicates :: "(nat \<times> string \<times> nat) list"
  fd_duplicate_of_title :: "string option"
  fd_builds :: nat
  fd_attempts :: "nat option"
  fd_reproduced :: "nat option"
  fd_regression_runs :: nat
  fd_evidence :: "evidence_link list"
  fd_flow :: "replay_flow option"
  fd_regression :: "regression option"
  fd_history :: "history_row list"

definition content_url :: "string \<Rightarrow> string" where
  "content_url sha = ''/api/v1/artifacts/'' @ sha @ ''/content''"

definition evidence_links :: "(string \<Rightarrow> bool) \<Rightarrow> finding \<Rightarrow> evidence_link list" where
  "evidence_links stored f =
     List.map_filter (\<lambda>k. case map_of (f_artifacts f) k of
         None \<Rightarrow> None
       | Some sha \<Rightarrow>
           if sha = [] then None
           else Some \<lparr>el_role = k, el_label = artifact_label k, el_sha256 = sha, el_url = content_url sha,
                      el_in_store = stored sha\<rparr>) ARTIFACT_KEYS"

definition flow_text ::
  "(string \<Rightarrow> bool) \<Rightarrow> (string \<Rightarrow> string option) \<Rightarrow> string \<Rightarrow> regression option \<Rightarrow> string option" where
  "flow_text stored read sha g =
     coalesce (if stored sha then read sha else None)
       (case g of None \<Rightarrow> None | Some r \<Rightarrow> if g_flow_sha256 r = sha then Some (g_flow r) else None)"

definition replay_flow_of ::
  "(string \<Rightarrow> bool) \<Rightarrow> (string \<Rightarrow> string option) \<Rightarrow> finding \<Rightarrow> regression option \<Rightarrow> replay_flow option" where
  "replay_flow_of stored read f g =
     (case flow_sha_of f of
        None \<Rightarrow> None
      | Some sha \<Rightarrow>
          if sha = [] then None
          else
            (let t = flow_text stored read sha g;
                 declared = (case f_replay f of None \<Rightarrow> [] | Some r \<Rightarrow> rp_kind r)
             in Some \<lparr>rf_kind = (if declared \<noteq> [] \<and> declared \<noteq> ''none'' then declared
                                 else case g of None \<Rightarrow> ''maestro'' | Some r \<Rightarrow> g_kind r),
                      rf_sha256 = sha, rf_url = content_url sha, rf_in_store = stored sha,
                      rf_text = (case t of None \<Rightarrow> None
                                 | Some x \<Rightarrow> if byte_length x \<le> FLOW_INLINE_BYTES then Some x else None),
                      rf_truncated = (case t of None \<Rightarrow> False | Some x \<Rightarrow> byte_length x > FLOW_INLINE_BYTES)\<rparr>))"

definition finding_detail ::
  "(string \<Rightarrow> bool) \<Rightarrow> (string \<Rightarrow> string option) \<Rightarrow> nat \<Rightarrow> ledger \<Rightarrow> finding_detail option" where
  "finding_detail stored read n l =
     (case find_finding n l of
        None \<Rightarrow> None
      | Some f \<Rightarrow>
          (let g = find_regression n l;
               original = (case f_duplicate_of f of None \<Rightarrow> None | Some d \<Rightarrow> if d = 0 then None else find_finding d l)
           in Some \<lparr>fd_finding = f,
                fd_duplicates = map (\<lambda>d. (f_id d, f_title d, f_seen_count d))
                  (sort_key f_id (filter (\<lambda>d. f_duplicate_of d = Some n) (findings l))),
                fd_duplicate_of_title = map_option f_title original,
                fd_builds = length (f_builds_seen f),
                fd_attempts = map_option rp_attempts (f_replay f),
                fd_reproduced = map_option rp_reproduced (f_replay f),
                fd_regression_runs = (case g of None \<Rightarrow> 0 | Some r \<Rightarrow> g_runs r),
                fd_evidence = evidence_links stored f,
                fd_flow = replay_flow_of stored read f g,
                fd_regression = g, fd_history = verdict_history n l\<rparr>))"

section \<open>Precision\<close>

text \<open>The numbers of findings with each verdict, per app, check and class of the visual judge.\<close>

record precision_class =
  pc_app :: string
  pc_check :: string
  pc_subclass :: "string option"
  pc_open :: nat
  pc_real :: nat
  pc_duplicate :: nat
  pc_not_a_bug :: nat
  pc_agent_mistake :: nat

definition PRECISION_FLOOR :: rat where "PRECISION_FLOOR = 3 / 10"

definition PRECISION_MIN_JUDGED :: nat where "PRECISION_MIN_JUDGED = 10"

text \<open>\<open>Math.max(1, Math.floor(min ?? 10))\<close>; \<open>None\<close> is a bound no count reaches.\<close>

definition min_judged :: "jsnum option \<Rightarrow> nat option" where
  "min_judged w =
     (case w of
        None \<Rightarrow> Some PRECISION_MIN_JUDGED
      | Some (Fin r) \<Rightarrow> Some (nat (max 1 \<lfloor>r\<rfloor>))
      | Some NInf \<Rightarrow> Some 1
      | Some PInf \<Rightarrow> None
      | Some NaN \<Rightarrow> None)"

type_synonym class_key = "string \<times> string \<times> string"

definition class_key :: "finding \<Rightarrow> class_key" where
  "class_key f = (f_app f, f_check f, (case f_subclass f of None \<Rightarrow> [] | Some x \<Rightarrow> x))"

definition verdict_count :: "(verdict_kind option \<Rightarrow> bool) \<Rightarrow> finding list \<Rightarrow> nat" where
  "verdict_count p fs = length (filter (\<lambda>f. p (f_verdict f)) fs)"

definition class_of :: "class_key \<Rightarrow> finding list \<Rightarrow> precision_class" where
  "class_of k fs =
     (case k of (app, check, sub) \<Rightarrow>
        let rows = filter (\<lambda>f. class_key f = k) fs
        in \<lparr>pc_app = app, pc_check = check, pc_subclass = (if sub = [] then None else Some sub),
            pc_open = verdict_count (\<lambda>v. v = None) rows,
            pc_real = verdict_count (\<lambda>v. v = Some Real \<or> v = Some Fixed) rows,
            pc_duplicate = verdict_count (\<lambda>v. v = Some Duplicate) rows,
            pc_not_a_bug = verdict_count (\<lambda>v. v = Some Not_A_Bug) rows,
            pc_agent_mistake = verdict_count (\<lambda>v. v = Some Agent_Mistake) rows\<rparr>)"

definition judged :: "precision_class \<Rightarrow> nat" where
  "judged c = pc_real c + pc_not_a_bug c + pc_agent_mistake c"

definition precision_of :: "precision_class \<Rightarrow> rat option" where
  "precision_of c = (if judged c > 0 then Some (of_nat (pc_real c) / of_nat (judged c)) else None)"

definition class_disabled :: "nat option \<Rightarrow> precision_class \<Rightarrow> bool" where
  "class_disabled mn c =
     (case (precision_of c, mn) of (Some p, Some n) \<Rightarrow> p < PRECISION_FLOOR \<and> judged c \<ge> n | _ \<Rightarrow> False)"

definition precision_classes :: "string option \<Rightarrow> ledger \<Rightarrow> precision_class list" where
  "precision_classes app l =
     (let rows = filter (\<lambda>f. wanted_text app (f_app f)) (findings l)
      in map (\<lambda>k. class_of k rows) (sort (remdups (map class_key rows))))"

definition disabled_classes :: "string option \<Rightarrow> jsnum option \<Rightarrow> ledger \<Rightarrow> precision_class list" where
  "disabled_classes app mn l = filter (class_disabled (min_judged mn)) (precision_classes app l)"

end
