(* ===== verification/Digest.thy ===== *)
theory Digest
  imports Ledger_Views Alerts
begin

text \<open>
  The morning digest (\<open>findings.ts\<close>, from line 1222): what was found and how the jobs ended in the last
  hours, as data and as the text of a notification, and the tick that posts it once a day. The send is
  a step of its own: the day is claimed in the table before the webhook is called.
\<close>

section \<open>Jobs in the window\<close>

record skipped_schedule =
  ss_name :: string
  ss_count :: nat
  ss_reason :: string

record jobs_summary =
  js_done :: nat
  js_failed :: nat
  js_skipped :: nat
  js_skipped_by :: "skipped_schedule list"

text \<open>\<open>.replace(/-\d{12}$/, "")\<close>\<close>

definition without_minute :: "string \<Rightarrow> string" where
  "without_minute s =
     (let n = length s - 13; t = drop n s in
      if 13 \<le> length s \<and> hd t = CHR ''-'' \<and> list_all is_digit (tl t) then take n s else s)"

definition schedule_name :: "id \<Rightarrow> string" where
  "schedule_name i = without_minute (before_dashes i)"

definition finished_since :: "int \<Rightarrow> job_status \<Rightarrow> job \<Rightarrow> bool" where
  "finished_since since st j \<longleftrightarrow>
     j_status j = st \<and> (case j_finished_at j of None \<Rightarrow> False | Some t \<Rightarrow> t \<ge> since)"

text \<open>The skipped jobs of the window, the latest first.\<close>

definition recent_skips :: "int \<Rightarrow> store \<Rightarrow> job list" where
  "recent_skips since s =
     sort_key (\<lambda>j. case j_finished_at j of None \<Rightarrow> 0 | Some t \<Rightarrow> - t) (filter (finished_since since Skipped) (jobs s))"

definition count_skip :: "job \<Rightarrow> skipped_schedule list \<Rightarrow> skipped_schedule list" where
  "count_skip j by_name =
     (let name = schedule_name (j_id j) in
      if name \<in> set (map ss_name by_name)
      then map (\<lambda>x. if ss_name x = name then x\<lparr>ss_count := ss_count x + 1\<rparr> else x) by_name
      else by_name @ [\<lparr>ss_name = name, ss_count = 1, ss_reason = skip_reason_text (j_last_error j)\<rparr>])"

definition jobs_in_window :: "int \<Rightarrow> store \<Rightarrow> jobs_summary" where
  "jobs_in_window since s =
     \<lparr>js_done = length (filter (finished_since since Done) (jobs s)),
      js_failed = length (filter (finished_since since Failed) (jobs s)),
      js_skipped = length (filter (finished_since since Skipped) (jobs s)),
      js_skipped_by = sort_key (\<lambda>x. - int (ss_count x)) (fold count_skip (recent_skips since s) [])\<rparr>"

definition SKIPS_NAMED :: nat where "SKIPS_NAMED = 3"

definition skip_line :: "skipped_schedule \<Rightarrow> string" where
  "skip_line x =
     ''- skipped: '' @ ss_name x @ (if ss_count x > 1 then '' x'' @ nat_str (ss_count x) else []) @
     '' ('' @ ss_reason x @ '')''"

definition jobs_lines :: "jobs_summary \<Rightarrow> rat \<Rightarrow> string list" where
  "jobs_lines j hours =
     (if js_done j + js_failed j + js_skipped j = 0 then []
      else
        [''Jobs, last '' @ rat_str hours @ ''h: '' @ nat_str (js_done j) @ '' done, '' @ nat_str (js_failed j) @
         '' failed, '' @ nat_str (js_skipped j) @ '' skipped (nothing ran).''] @
        map skip_line (take SKIPS_NAMED (js_skipped_by j)) @
        (if length (js_skipped_by j) > SKIPS_NAMED
         then [''- and '' @ nat_str (length (js_skipped_by j) - SKIPS_NAMED) @ '' more skipping''] else []))"

section \<open>The digest\<close>

record digest_entry =
  de_id :: nat
  de_severity :: severity
  de_check :: string
  de_title :: string
  de_screen_name :: string
  de_replay :: string
  de_new :: bool
  de_seen_count :: nat

record app_digest =
  ad_app :: string
  ad_count :: nat
  ad_new :: nat
  ad_again :: nat
  ad_top :: "digest_entry list"

record digest =
  dg_hours :: rat
  dg_since_ms :: int
  dg_total :: nat
  dg_new :: nat
  dg_again :: nat
  dg_apps :: "app_digest list"
  dg_jobs :: jobs_summary
  dg_link :: string
  dg_text :: string

definition TOP_PER_APP :: nat where "TOP_PER_APP = 5"

definition DIGEST_MAX_CHARS :: nat where "DIGEST_MAX_CHARS = 3500"

fun severity_order :: "severity \<Rightarrow> nat" where
  "severity_order High = 0"
| "severity_order Medium = 1"
| "severity_order Low = 2"

text \<open>What is still to be looked at, or was confirmed, and was seen in the window.\<close>

definition digest_keeps :: "int \<Rightarrow> finding \<Rightarrow> bool" where
  "digest_keeps since f \<longleftrightarrow> f_last_seen f \<ge> since \<and> (f_verdict f = None \<or> f_verdict f = Some Real)"

definition digest_rows :: "int \<Rightarrow> ledger \<Rightarrow> finding list" where
  "digest_rows since l =
     sort_key (\<lambda>f. (f_app f, severity_order (f_severity f), - int (f_seen_count f), f_id f))
       (filter (digest_keeps since) (findings l))"

definition entry_of :: "int \<Rightarrow> finding \<Rightarrow> digest_entry" where
  "entry_of since f =
     \<lparr>de_id = f_id f, de_severity = f_severity f, de_check = f_check f, de_title = f_title f,
      de_screen_name = f_screen_name f, de_replay = replay_label (f_replay f) (f_check f),
      de_new = (f_first_seen f \<ge> since), de_seen_count = f_seen_count f\<rparr>"

definition empty_app :: "string \<Rightarrow> app_digest" where
  "empty_app app = \<lparr>ad_app = app, ad_count = 0, ad_new = 0, ad_again = 0, ad_top = []\<rparr>"

definition count_entry :: "int \<Rightarrow> finding \<Rightarrow> app_digest \<Rightarrow> app_digest" where
  "count_entry since f a =
     (let fresh = (f_first_seen f \<ge> since) in
      a\<lparr>ad_count := ad_count a + 1,
        ad_new := (if fresh then ad_new a + 1 else ad_new a),
        ad_again := (if fresh then ad_again a else ad_again a + 1),
        ad_top := (if length (ad_top a) < TOP_PER_APP then ad_top a @ [entry_of since f] else ad_top a)\<rparr>)"

definition add_entry :: "int \<Rightarrow> finding \<Rightarrow> app_digest list \<Rightarrow> app_digest list" where
  "add_entry since f apps =
     (let as = (if f_app f \<in> set (map ad_app apps) then apps else apps @ [empty_app (f_app f)])
      in map (\<lambda>a. if ad_app a = f_app f then count_entry since f a else a) as)"

definition digest_apps :: "int \<Rightarrow> ledger \<Rightarrow> app_digest list" where
  "digest_apps since l = fold (add_entry since) (digest_rows since l) []"

definition plural :: "nat \<Rightarrow> string \<Rightarrow> string" where
  "plural n one = nat_str n @ '' '' @ (if n = 1 then one else one @ ''s'')"

definition entry_line :: "digest_entry \<Rightarrow> string" where
  "entry_line t =
     ''- ['' @ severity_str (de_severity t) @ ''] '' @ de_check t @ '': '' @ de_title t @
     (if de_screen_name t = [] then [] else '' on '' @ de_screen_name t) @ '' ('' @ de_replay t @
     (if de_new t then [] else '', seen '' @ nat_str (de_seen_count t) @ ''x'') @ '')''"

definition app_lines :: "app_digest \<Rightarrow> string list" where
  "app_lines a =
     [[], ad_app a @ '': '' @ nat_str (ad_count a) @ '' ('' @ nat_str (ad_new a) @ '' new, '' @
        nat_str (ad_again a) @ '' again)''] @
     map entry_line (ad_top a) @
     (if ad_count a > length (ad_top a) then [''- and '' @ nat_str (ad_count a - length (ad_top a)) @ '' more''] else [])"

definition spaced :: "string list \<Rightarrow> string list" where
  "spaced ls = (if ls = [] then [] else [] # ls)"

definition digest_lines ::
  "rat \<Rightarrow> nat \<Rightarrow> nat \<Rightarrow> app_digest list \<Rightarrow> jobs_summary \<Rightarrow> string \<Rightarrow> string list" where
  "digest_lines hours count fresh apps j link =
     (if count = 0
      then [''Night QA, last '' @ rat_str hours @ ''h: nothing new.''] @ spaced (jobs_lines j hours)
      else
        [''Night QA, last '' @ rat_str hours @ ''h: '' @ plural count ''finding'' @ '' ('' @ nat_str fresh @ '' new, '' @
         nat_str (count - fresh) @ '' seen again) in '' @ plural (length apps) ''app'' @ ''.''] @
        concat (map app_lines apps) @ spaced (jobs_lines j hours) @ [[], ''Triage: '' @ link])"

definition trim_end :: "string \<Rightarrow> string" where
  "trim_end s = rev (dropWhile is_space (rev s))"

definition clip_digest :: "string \<Rightarrow> string \<Rightarrow> string" where
  "clip_digest link t =
     (if length t > DIGEST_MAX_CHARS
      then trim_end (take (DIGEST_MAX_CHARS - 40) t) @ newline @ ''...'' @ newline @ ''Triage: '' @ link
      else t)"

definition since_ms :: "rat \<Rightarrow> int \<Rightarrow> int" where
  "since_ms hours now_ms = \<lfloor>of_int now_ms - hours * 3600000\<rfloor>"

definition build_digest :: "rat \<Rightarrow> string \<Rightarrow> int \<Rightarrow> store \<Rightarrow> ledger \<Rightarrow> digest" where
  "build_digest hours dash_url now_ms s l =
     (let since = since_ms hours now_ms div 1000;
          apps = digest_apps since l;
          count = length (digest_rows since l);
          fresh = sum_list (map ad_new apps);
          link = dash_url @ ''/dash/findings?status=open'';
          j = jobs_in_window since s
      in \<lparr>dg_hours = hours, dg_since_ms = since_ms hours now_ms, dg_total = count, dg_new = fresh,
          dg_again = count - fresh, dg_apps = apps, dg_jobs = j, dg_link = link,
          dg_text = clip_digest link (join newline (digest_lines hours count fresh apps j link))\<rparr>)"

section \<open>Once a day\<close>

definition local_date_ms :: "int \<Rightarrow> int \<Rightarrow> local_date" where
  "local_date_ms tz now_ms = local_date_of tz (now_ms div 60000)"

definition local_day :: "local_date \<Rightarrow> string" where
  "local_day d = int_str (ld_year d) @ ''-'' @ pad2 (nat (ld_month d)) @ ''-'' @ pad2 (nat (ld_day d))"

text \<open>\<open>/^(\d{2}):(\d{2})$/\<close>: the minute of the day.\<close>

definition minute_of :: "string \<Rightarrow> int option" where
  "minute_of t =
     (if length t = 5 \<and> t ! 2 = CHR '':'' \<and> list_all is_digit (take 2 t @ drop 3 t)
      then Some (int (digits_val (take 2 t)) * 60 + int (digits_val (drop 3 t))) else None)"

definition digest_due :: "local_date \<Rightarrow> string \<Rightarrow> string option \<Rightarrow> bool" where
  "digest_due d t last_day =
     (case minute_of t of
        None \<Rightarrow> False
      | Some m \<Rightarrow> ld_hour d * 60 + ld_minute d \<ge> m \<and> last_day \<noteq> Some (local_day d))"

record digest_row =
  dr_day :: string
  dr_count :: nat
  dr_posted :: bool
  dr_detail :: string

record digest_options =
  do_at :: "string option"
  do_hours :: rat
  do_webhook :: "string option"
  do_dash_url :: string
  do_tz_min :: int

text \<open>\<open>ORDER BY day DESC LIMIT 1\<close>\<close>

definition last_digest_day :: "digest_row list \<Rightarrow> string option" where
  "last_digest_day rows = (case rev (sort (map dr_day rows)) of [] \<Rightarrow> None | d # _ \<Rightarrow> Some d)"

definition setting_off :: "string option \<Rightarrow> bool" where
  "setting_off w = (w = None \<or> w = Some [])"

text \<open>
  A tick up to the webhook: whether it ran, the digest to send (if any), and the table. \<open>INSERT OR IGNORE\<close>
  does nothing when the day has a row.
\<close>

definition digest_tick ::
  "int \<Rightarrow> digest_options \<Rightarrow> store \<Rightarrow> ledger \<Rightarrow> digest_row list \<Rightarrow> bool \<times> digest option \<times> digest_row list" where
  "digest_tick now_ms opts s l rows =
     (let d = local_date_ms (do_tz_min opts) now_ms; day = local_day d in
      if setting_off (do_at opts) \<or> setting_off (do_webhook opts) then (False, None, rows)
      else if \<not> digest_due d (the (do_at opts)) (last_digest_day rows) then (False, None, rows)
      else if day \<in> set (map dr_day rows) then (False, None, rows)
      else
        let g = build_digest (do_hours opts) (do_dash_url opts) now_ms s l;
            row = \<lparr>dr_day = day, dr_count = dg_total g, dr_posted = False,
                   dr_detail = (if dg_total g = 0 then ''nothing new; not sent'' else ''sending'')\<rparr>
        in (True, if dg_total g = 0 then None else Some g, rows @ [row]))"

text \<open>The answer of the webhook to the digest of a day, whenever it comes.\<close>

definition digest_answered :: "string \<Rightarrow> bool \<Rightarrow> digest_row list \<Rightarrow> digest_row list" where
  "digest_answered day ok rows =
     map (\<lambda>r. if dr_day r = day
              then r\<lparr>dr_posted := ok, dr_detail := (if ok then ''sent'' else ''webhook failed; see the collector log'')\<rparr>
              else r) rows"

end
