(* ===== verification/Digest_Laws.thy ===== *)
theory Digest_Laws
  imports Digest
begin

text \<open>
  Laws of the reading side of the ledger: pages of a list, the classes a judge's record is kept by, the
  counts and the length of the digest, and the table of the days it was sent on.
\<close>

section \<open>Pages\<close>

lemma concat_pages: "concat (map (\<lambda>k. take n (drop (k * n) xs)) [0..<m]) = take (m * n) xs"
proof (induction m)
  case (Suc m)
  have "take (m * n) xs @ take n (drop (m * n) xs) = take (m * n + n) xs" by (simp add: take_add)
  with Suc show ?case by (simp add: add.commute)
qed simp

lemma page_limit_nat: "1 \<le> n \<Longrightarrow> n \<le> 500 \<Longrightarrow> page_limit (Some (Fin (of_nat n))) = Some n"
  unfolding page_limit_def Let_def by (auto simp: max_def min_def)

lemma page_offset_nat: "n < 2 ^ 63 \<Longrightarrow> page_offset (Some (Fin (of_nat n))) = Some n"
proof -
  assume "n < 2 ^ 63"
  then have "int n < int (2 ^ 63)" by (simp only: of_nat_less_iff)
  then show ?thesis by (simp add: page_offset_def)
qed

text \<open>What a query asks of a finding.\<close>

definition since_keeps :: "(string \<Rightarrow> int option) \<Rightarrow> int \<Rightarrow> list_query \<Rightarrow> finding \<Rightarrow> bool" where
  "since_keeps dp now_ms lq f =
     (case lq_since lq of
        None \<Rightarrow> True
      | Some t \<Rightarrow> t = [] \<or> f_last_seen f \<ge> the (sqlite_time (the (parse_since dp now_ms t))))"

definition asked_for :: "(string \<Rightarrow> int option) \<Rightarrow> int \<Rightarrow> list_query \<Rightarrow> finding \<Rightarrow> bool" where
  "asked_for dp now_ms lq f \<longleftrightarrow>
     wanted_text (lq_app lq) (f_app f) \<and> wanted_text (lq_check lq) (f_check f) \<and> since_keeps dp now_ms lq f \<and>
     status_keeps (case lq_status lq of None \<Rightarrow> ''all'' | Some x \<Rightarrow> x) f \<and>
     verdict_keeps (wanted_verdicts (lq_verdict lq)) f"

definition page_query :: "nat \<Rightarrow> nat \<Rightarrow> list_query \<Rightarrow> list_query" where
  "page_query n k lq = lq\<lparr>lq_limit := Some (Fin (of_nat n)), lq_offset := Some (Fin (of_nat (k * n)))\<rparr>"

text \<open>An accepted query, whatever its page: the answer of any other page of it.\<close>

definition query_ok :: "(string \<Rightarrow> int option) \<Rightarrow> int \<Rightarrow> list_query \<Rightarrow> bool" where
  "query_ok dp now_ms lq \<longleftrightarrow>
     (case lq_status lq of None \<Rightarrow> True | Some x \<Rightarrow> x \<in> {''open'', ''triaged'', ''all''}) \<and>
     (case lq_since lq of
        None \<Rightarrow> True
      | Some t \<Rightarrow> t = [] \<or>
          (case parse_since dp now_ms t of None \<Rightarrow> False | Some ms \<Rightarrow> sqlite_time ms \<noteq> None)) \<and>
     (case wanted_verdicts (lq_verdict lq) of None \<Rightarrow> True | Some vs \<Rightarrow> set vs \<subseteq> set VERDICTS)"

definition scoped_findings :: "(string \<Rightarrow> int option) \<Rightarrow> int \<Rightarrow> list_query \<Rightarrow> ledger \<Rightarrow> finding list" where
  "scoped_findings dp now_ms lq l =
     filter (\<lambda>f. wanted_text (lq_app lq) (f_app f) \<and> wanted_text (lq_check lq) (f_check f) \<and> since_keeps dp now_ms lq f)
       (findings l)"

lemma find_bad_verdict:
  "List.find (\<lambda>v. v \<notin> set VERDICTS) (case w of None \<Rightarrow> [] | Some xs \<Rightarrow> xs) = None \<longleftrightarrow>
   (case w of None \<Rightarrow> True | Some vs \<Rightarrow> set vs \<subseteq> set VERDICTS)"
  by (auto simp: find_None_iff split: option.splits)

lemma listed_shape:
  "((if \<not> a then Bad_Query e1 else if b then Bad_Query e2 else if c then Threw
     else case v of Some bad \<Rightarrow> Bad_Query (g bad)
       | None \<Rightarrow> (case (x, y) of (Some n, Some k) \<Rightarrow> Listed (h n k) | _ \<Rightarrow> Threw)) = Listed r)
   \<longleftrightarrow> (a \<and> (\<not> b \<and> \<not> c) \<and> v = None) \<and> (\<exists>n k. x = Some n \<and> y = Some k \<and> r = h n k)"
  by (auto split: option.splits)

lemma list_findings_listed:
  "list_findings dp now_ms lq l = Listed r \<longleftrightarrow>
   query_ok dp now_ms lq \<and>
   (\<exists>n k. page_limit (lq_limit lq) = Some n \<and> page_offset (lq_offset lq) = Some k \<and>
     r = \<lparr>fl_findings = take n (drop k (newest_first (filter (asked_for dp now_ms lq) (findings l)))),
          fl_open = length (filter (\<lambda>f. f_verdict f = None) (scoped_findings dp now_ms lq l)),
          fl_triaged = length (filter (\<lambda>f. f_verdict f \<noteq> None) (scoped_findings dp now_ms lq l)),
          fl_all = length (scoped_findings dp now_ms lq l),
          fl_apps = sort (remdups (map f_app (findings l))),
          fl_checks = sort (remdups (map f_check (findings l))),
          fl_limit = n, fl_offset = k,
          fl_total = length (filter (asked_for dp now_ms lq) (findings l))\<rparr>)"
proof -
  have keep: "(case lq_since lq of None \<Rightarrow> [] | Some x \<Rightarrow> x) = [] \<or>
      f_last_seen f \<ge> the (sqlite_time (the (parse_since dp now_ms (case lq_since lq of None \<Rightarrow> [] | Some x \<Rightarrow> x))))
      \<longleftrightarrow> since_keeps dp now_ms lq f" for f
    by (auto simp: since_keeps_def split: option.splits)
  have both: "filter (\<lambda>f. status_keeps (case lq_status lq of None \<Rightarrow> ''all'' | Some x \<Rightarrow> x) f \<and>
        verdict_keeps (wanted_verdicts (lq_verdict lq)) f) (scoped_findings dp now_ms lq l)
      = filter (asked_for dp now_ms lq) (findings l)"
    by (auto simp: scoped_findings_def asked_for_def intro: filter_cong)
  let ?st = "case lq_status lq of None \<Rightarrow> ''all'' | Some x \<Rightarrow> x"
  let ?sc = "case lq_since lq of None \<Rightarrow> [] | Some x \<Rightarrow> x"
  have st: "?st \<in> {''open'', ''triaged'', ''all''} \<longleftrightarrow>
      (case lq_status lq of None \<Rightarrow> True | Some x \<Rightarrow> x \<in> {''open'', ''triaged'', ''all''})"
    by (auto split: option.splits)
  have sc: "\<not> (?sc \<noteq> [] \<and> parse_since dp now_ms ?sc = None) \<and>
        \<not> (?sc \<noteq> [] \<and> sqlite_time (the (parse_since dp now_ms ?sc)) = None) \<longleftrightarrow>
      (case lq_since lq of None \<Rightarrow> True
       | Some t \<Rightarrow> t = [] \<or> (case parse_since dp now_ms t of None \<Rightarrow> False | Some ms \<Rightarrow> sqlite_time ms \<noteq> None))"
    by (auto split: option.splits)
  show ?thesis
    unfolding list_findings_def Let_def query_ok_def keep scoped_findings_def[symmetric] both
    unfolding st[symmetric] sc[symmetric] find_bad_verdict[symmetric]
    by (rule listed_shape)
qed

lemma page_query_simps [simp]:
  "lq_limit (page_query n k lq) = Some (Fin (of_nat n))"
  "lq_offset (page_query n k lq) = Some (Fin (of_nat (k * n)))"
  "query_ok dp now_ms (page_query n k lq) = query_ok dp now_ms lq"
  "asked_for dp now_ms (page_query n k lq) = asked_for dp now_ms lq"
  "scoped_findings dp now_ms (page_query n k lq) l = scoped_findings dp now_ms lq l"
  by (simp_all add: page_query_def query_ok_def asked_for_def fun_eq_iff since_keeps_def scoped_findings_def)

section \<open>Precision\<close>

definition class_total :: "precision_class \<Rightarrow> nat" where
  "class_total c = pc_open c + pc_duplicate c + judged c"

lemma class_of_total: "class_total (class_of k fs) = length (filter (\<lambda>f. class_key f = k) fs)"
proof (induction fs)
  case (Cons f fs)
  then show ?case
    by (cases "f_verdict f" rule: option.exhaust; cases "the (f_verdict f)"; cases k)
      (auto simp: class_total_def class_of_def judged_def verdict_count_def Let_def)
qed (cases k, simp add: class_total_def class_of_def judged_def verdict_count_def Let_def)

lemma sum_by_key:
  "set (map h xs) \<subseteq> set ks \<Longrightarrow> distinct ks \<Longrightarrow>
   sum_list (map (\<lambda>k. length (filter (\<lambda>x. h x = k) xs)) ks) = length xs"
proof (induction xs)
  case (Cons x xs)
  have one: "sum_list (map (\<lambda>k. if h x = k then Suc (g k) else g k) js) =
      sum_list (map g js) + (if h x \<in> set js then 1 else 0)" if "distinct js" for js and g :: "_ \<Rightarrow> nat"
    using that by (induction js) auto
  have "(\<lambda>k. length (filter (\<lambda>x. h x = k) (x # xs))) =
      (\<lambda>k. if h x = k then Suc (length (filter (\<lambda>x. h x = k) xs)) else length (filter (\<lambda>x. h x = k) xs))"
    by (simp add: fun_eq_iff)
  with Cons one[of ks "\<lambda>k. length (filter (\<lambda>x. h x = k) xs)"] show ?case by simp
qed simp

lemma classes_count_all:
  "sum_list (map class_total (precision_classes app l)) =
   length (filter (\<lambda>f. wanted_text app (f_app f)) (findings l))"
  by (simp add: precision_classes_def Let_def comp_def class_of_total sum_by_key del: filter_filter)

text \<open>A finding says something about its check once it was judged, and not as a duplicate.\<close>

definition decided :: "finding \<Rightarrow> bool" where
  "decided f \<longleftrightarrow> f_verdict f \<noteq> None \<and> f_verdict f \<noteq> Some Duplicate"

definition class_record :: "precision_class \<Rightarrow> string \<times> string \<times> string option \<times> rat option \<times> nat" where
  "class_record c = (pc_app c, pc_check c, pc_subclass c, precision_of c, judged c)"

lemma class_of_decided:
  "judged (class_of k (filter decided fs)) = judged (class_of k fs)"
  "pc_real (class_of k (filter decided fs)) = pc_real (class_of k fs)"
  "pc_app (class_of k (filter decided fs)) = pc_app (class_of k fs)"
  "pc_check (class_of k (filter decided fs)) = pc_check (class_of k fs)"
  "pc_subclass (class_of k (filter decided fs)) = pc_subclass (class_of k fs)"
proof -
  have count: "verdict_count p (filter (\<lambda>f. class_key f = k) (filter decided fs)) =
      verdict_count p (filter (\<lambda>f. class_key f = k) fs)"
    if "\<And>f. p (f_verdict f) \<Longrightarrow> decided f" for p
    unfolding verdict_count_def filter_filter using that by (intro arg_cong[where f = length] filter_cong) auto
  have kinds: "verdict_count (\<lambda>v. v = Some Real \<or> v = Some Fixed) (filter (\<lambda>f. class_key f = k) (filter decided fs)) =
      verdict_count (\<lambda>v. v = Some Real \<or> v = Some Fixed) (filter (\<lambda>f. class_key f = k) fs)"
    "verdict_count (\<lambda>v. v = Some Not_A_Bug) (filter (\<lambda>f. class_key f = k) (filter decided fs)) =
      verdict_count (\<lambda>v. v = Some Not_A_Bug) (filter (\<lambda>f. class_key f = k) fs)"
    "verdict_count (\<lambda>v. v = Some Agent_Mistake) (filter (\<lambda>f. class_key f = k) (filter decided fs)) =
      verdict_count (\<lambda>v. v = Some Agent_Mistake) (filter (\<lambda>f. class_key f = k) fs)"
    by (rule count; force simp: decided_def)+
  show real: "pc_real (class_of k (filter decided fs)) = pc_real (class_of k fs)"
    by (cases k) (use kinds in \<open>simp add: class_of_def Let_def del: filter_filter\<close>)
  show "judged (class_of k (filter decided fs)) = judged (class_of k fs)"
    unfolding judged_def real by (cases k) (use kinds in \<open>simp add: class_of_def Let_def del: filter_filter\<close>)
qed (cases k, simp add: class_of_def Let_def)+

lemma judged_has_row:
  assumes "judged (class_of k fs) > 0" shows "k \<in> class_key ` set fs"
proof (rule ccontr)
  assume "k \<notin> class_key ` set fs"
  then have none: "filter (\<lambda>f. class_key f = k) fs = []" by (auto simp: filter_empty_conv)
  with class_of_total[of k fs] assms show False by (simp add: class_total_def)
qed

lemma disabled_judged: "class_disabled mn c \<Longrightarrow> judged c > 0"
  by (auto simp: class_disabled_def precision_of_def split: option.splits if_splits)

lemma disabled_ignores_duplicates:
  "map class_record (disabled_classes app mn (l\<lparr>findings := filter decided (findings l)\<rparr>)) =
   map class_record (disabled_classes app mn l)"
proof -
  define fs where "fs = filter (\<lambda>f. wanted_text app (f_app f)) (findings l)"
  have fs': "filter (\<lambda>f. decided f \<and> wanted_text app (f_app f)) (findings l) = filter decided fs"
    by (simp add: fs_def conj_commute)
  let ?bad = "\<lambda>k. class_disabled (min_judged mn) (class_of k fs)"
  have same: "class_record (class_of k (filter decided fs)) = class_record (class_of k fs)"
    "class_disabled (min_judged mn) (class_of k (filter decided fs)) = ?bad k" for k
    unfolding class_record_def class_disabled_def precision_of_def class_of_decided by (rule refl)+
  have lists: "map class_record (disabled_classes app mn l) =
      map (\<lambda>k. class_record (class_of k fs)) (filter ?bad (sort (remdups (map class_key fs))))"
    "map class_record (disabled_classes app mn (l\<lparr>findings := filter decided (findings l)\<rparr>)) =
      map (\<lambda>k. class_record (class_of k fs)) (filter ?bad (sort (remdups (map class_key (filter decided fs)))))"
    by (simp_all add: disabled_classes_def precision_classes_def Let_def filter_map comp_def fs' same flip: fs_def)
  have "k \<in> class_key ` set (filter decided fs)" if "?bad k" for k
    using disabled_judged[OF that] by (intro judged_has_row) (simp add: class_of_decided)
  then have "filter ?bad (sort (remdups (map class_key (filter decided fs)))) =
      filter ?bad (sort (remdups (map class_key fs)))"
    by (intro sorted_distinct_set_unique) (auto intro: sorted_filter[where f = "\<lambda>x. x", simplified])
  then show ?thesis by (simp add: lists)
qed

lemma disabled_floor:
  "class_disabled mn c \<Longrightarrow>
   10 * pc_real c < 3 * judged c \<and> (case mn of None \<Rightarrow> False | Some n \<Rightarrow> n \<le> judged c)"
proof -
  assume dis: "class_disabled mn c"
  then have pos: "judged c > 0" by (rule disabled_judged)
  with dis have "of_nat (pc_real c) / of_nat (judged c) < (3 / 10 :: rat)"
    by (auto simp: class_disabled_def precision_of_def PRECISION_FLOOR_def split: option.splits)
  with pos have "of_nat (10 * pc_real c) < (of_nat (3 * judged c) :: rat)" by (simp add: field_simps)
  then have "10 * pc_real c < 3 * judged c" by (simp only: of_nat_less_iff)
  with dis show ?thesis by (auto simp: class_disabled_def split: option.splits)
qed

section \<open>The apps of a digest\<close>

definition app_summary :: "int \<Rightarrow> finding list \<Rightarrow> string \<Rightarrow> app_digest" where
  "app_summary since rows app =
     (let own = filter (\<lambda>f. f_app f = app) rows
      in \<lparr>ad_app = app, ad_count = length own,
          ad_new = length (filter (\<lambda>f. f_first_seen f \<ge> since) own),
          ad_again = length (filter (\<lambda>f. \<not> f_first_seen f \<ge> since) own),
          ad_top = take TOP_PER_APP (map (entry_of since) own)\<rparr>)"

lemma ad_app_summary [simp]: "ad_app (app_summary since rows app) = app"
  by (simp add: app_summary_def Let_def)

lemma nub_snoc: "nub (xs @ [x]) = (if x \<in> set xs then nub xs else nub xs @ [x])"
  by (induction xs) auto

lemma summary_snoc:
  "app_summary since (rows @ [f]) app =
   (if f_app f = app then count_entry since f (app_summary since rows app) else app_summary since rows app)"
  by (simp add: app_summary_def count_entry_def Let_def)

lemma summary_none: "app \<notin> f_app ` set rows \<Longrightarrow> app_summary since rows app = empty_app app"
  by (auto simp: app_summary_def empty_app_def Let_def filter_empty_conv cong: filter_cong)

lemma apps_of_rows: "fold (add_entry since) rows [] = map (app_summary since rows) (nub (map f_app rows))"
proof (induction rows rule: rev_induct)
  case (snoc f rows)
  let ?apps = "map (app_summary since rows) (nub (map f_app rows))"
  have names: "map ad_app ?apps = nub (map f_app rows)" by (simp add: comp_def)
  have "(if f_app f \<in> set (map ad_app ?apps) then ?apps else ?apps @ [empty_app (f_app f)]) =
      map (app_summary since rows) (nub (map f_app (rows @ [f])))"
    unfolding names by (simp add: nub_snoc summary_none)
  then have "add_entry since f ?apps =
      map (\<lambda>a. if ad_app a = f_app f then count_entry since f a else a)
        (map (app_summary since rows) (nub (map f_app (rows @ [f]))))"
    by (simp only: add_entry_def Let_def)
  then show ?case by (simp add: snoc summary_snoc comp_def cong: map_cong)
qed simp

lemma digest_apps_exact:
  "digest_apps since l = map (app_summary since (digest_rows since l)) (nub (map f_app (digest_rows since l)))"
  by (simp add: digest_apps_def apps_of_rows)

lemma sum_apps:
  assumes "\<And>app. g (app_summary since rows app) = length (filter (\<lambda>f. f_app f = app) (filter p rows))"
  shows "sum_list (map g (map (app_summary since rows) (nub (map f_app rows)))) = length (filter p rows)"
proof -
  have "sum_list (map (\<lambda>k. length (filter (\<lambda>f. f_app f = k) (filter p rows))) (nub (map f_app rows))) =
      length (filter p rows)"
    by (rule sum_by_key) auto
  then show ?thesis by (simp add: comp_def assms del: filter_filter)
qed

lemma digest_sums:
  "sum_list (map ad_count (digest_apps since l)) = length (digest_rows since l)"
  "sum_list (map ad_new (digest_apps since l)) = length (filter (\<lambda>f. f_first_seen f \<ge> since) (digest_rows since l))"
  "sum_list (map ad_again (digest_apps since l)) =
     length (filter (\<lambda>f. \<not> f_first_seen f \<ge> since) (digest_rows since l))"
  unfolding digest_apps_exact
  by (subst sum_apps[where p = "\<lambda>f. True"] sum_apps[where p = "\<lambda>f. f_first_seen f \<ge> since"]
        sum_apps[where p = "\<lambda>f. \<not> f_first_seen f \<ge> since"];
      simp add: app_summary_def Let_def conj_commute)+

lemma length_filter_sort_key: "length (filter p (sort_key f xs)) = length (filter p xs)"
  by (simp add: filter_sort)

lemma app_of_digest:
  assumes "a \<in> set (digest_apps since l)"
  defines "own \<equiv> filter (\<lambda>f. f_app f = ad_app a) (digest_rows since l)"
  shows "ad_count a = length own \<and> ad_count a > 0 \<and>
    ad_new a = length (filter (\<lambda>f. f_first_seen f \<ge> since) own) \<and> ad_again a = ad_count a - ad_new a \<and>
    length (ad_top a) = min 5 (ad_count a) \<and> sorted (map (severity_order \<circ> de_severity) (ad_top a))"
proof -
  obtain app where app: "app \<in> f_app ` set (digest_rows since l)" "a = app_summary since (digest_rows since l) app"
    using assms(1) by (auto simp: digest_apps_exact)
  have own: "own = filter (\<lambda>f. f_app f = app) (digest_rows since l)" by (simp add: own_def app(2))
  have "sorted (map (\<lambda>f. (f_app f, severity_order (f_severity f), - int (f_seen_count f), f_id f)) own)"
    unfolding own digest_rows_def by (rule sorted_filter) (rule sorted_sort_key)
  then have "sorted (map (\<lambda>f. severity_order (f_severity f)) own)"
    unfolding sorted_map by (rule sorted_wrt_mono_rel[rotated]) (auto simp: own less_eq_prod_def)
  then have top: "sorted (map (severity_order \<circ> de_severity) (ad_top a))"
    by (simp add: app(2) app_summary_def Let_def take_map [symmetric] comp_def entry_of_def sorted_wrt_take flip: own)
  have "own \<noteq> []" using app(1) by (auto simp: own filter_empty_conv)
  moreover have "length (filter (\<lambda>f. \<not> f_first_seen f \<ge> since) own) =
      length own - length (filter (\<lambda>f. f_first_seen f \<ge> since) own)"
    using sum_length_filter_compl[of "\<lambda>f. f_first_seen f \<ge> since" own] by linarith
  ultimately show ?thesis
    using top by (simp add: app(2) app_summary_def Let_def TOP_PER_APP_def min.commute del: filter_filter flip: own)
qed

section \<open>The text of a digest\<close>

lemma length_trim_end: "length (trim_end s) \<le> length s"
  by (simp add: trim_end_def) (metis length_dropWhile_le length_rev)

lemma length_clip: "length (clip_digest link t) \<le> max DIGEST_MAX_CHARS (DIGEST_MAX_CHARS - 27 + length link)"
proof -
  have "length (trim_end (take (DIGEST_MAX_CHARS - 40) t)) \<le> DIGEST_MAX_CHARS - 40"
    by (rule order_trans[OF length_trim_end]) simp
  then show ?thesis by (simp add: clip_digest_def newline_def DIGEST_MAX_CHARS_def max_def)
qed

lemma join_suffix: "suffix t (join sep (xs @ [t]))"
  by (induction xs rule: induct_list012) (auto simp: suffix_def intro: exI[of _ "[]"])

lemma join_suffix_part: "suffix t (join sep (xs @ ys @ zs @ [u, t]))"
  using join_suffix[of t sep "xs @ ys @ zs @ [u]"] by simp

lemma clip_suffix: "suffix (''Triage: '' @ link) t \<Longrightarrow> suffix (''Triage: '' @ link) (clip_digest link t)"
proof -
  assume "suffix (''Triage: '' @ link) t"
  moreover have "suffix (''Triage: '' @ link) (xs @ ys @ zs @ ws @ ''Triage: '' @ link)" for xs ys zs ws :: string
    by (simp only: suffix_def append_assoc [symmetric]) blast
  ultimately show ?thesis unfolding clip_digest_def by (cases "DIGEST_MAX_CHARS < length t") (simp_all only: if_True if_False)
qed

section \<open>The days of the digest\<close>

datatype digest_event = Tick_At int digest_options store ledger | Webhook_Answer string bool

type_synonym digest_state = "digest_row list \<times> string list"

text \<open>The table, and the days the webhook was called for, through ticks and answers in any order.\<close>

fun digest_step :: "digest_event \<Rightarrow> digest_state \<Rightarrow> digest_state" where
  "digest_step (Tick_At now_ms opts s l) (rows, sent) =
     (case digest_tick now_ms opts s l rows of
        (_, None, rows') \<Rightarrow> (rows', sent)
      | (_, Some g, rows') \<Rightarrow> (rows', sent @ [local_day (local_date_ms (do_tz_min opts) now_ms)]))"
| "digest_step (Webhook_Answer day ok) (rows, sent) = (digest_answered day ok rows, sent)"

definition digest_table_ok :: "digest_state \<Rightarrow> bool" where
  "digest_table_ok st \<longleftrightarrow>
     distinct (map dr_day (fst st)) \<and> distinct (snd st) \<and>
     (\<forall>d \<in> set (snd st). \<exists>r \<in> set (fst st). dr_day r = d \<and> dr_count r > 0)"

lemma digest_tick_cases:
  obtains "digest_tick now_ms opts s l rows = (False, None, rows)"
  | r g where "digest_tick now_ms opts s l rows = (True, g, rows @ [r])"
      "dr_day r = local_day (local_date_ms (do_tz_min opts) now_ms)"
      "dr_day r \<notin> set (map dr_day rows)" "g \<noteq> None \<longrightarrow> dr_count r > 0"
proof -
  let ?d = "local_date_ms (do_tz_min opts) now_ms"
  show thesis
  proof (cases "setting_off (do_at opts) \<or> setting_off (do_webhook opts) \<or>
      \<not> digest_due ?d (the (do_at opts)) (last_digest_day rows) \<or> local_day ?d \<in> set (map dr_day rows)")
    case True
    then show ?thesis by (intro that(1)) (auto simp: digest_tick_def Let_def)
  next
    case False
    then show ?thesis by (intro that(2)) (auto simp: digest_tick_def Let_def split: if_splits)
  qed
qed

lemma answered_days [simp]: "map dr_day (digest_answered day ok rows) = map dr_day rows"
  by (simp add: digest_answered_def comp_def)

lemma answered_row:
  "(\<exists>r \<in> set (digest_answered day ok rows). dr_day r = d \<and> dr_count r > 0) =
   (\<exists>r \<in> set rows. dr_day r = d \<and> dr_count r > 0)"
  unfolding digest_answered_def set_map bex_simps(7) by (intro bex_cong) auto

lemma digest_step_ok: "digest_table_ok st \<Longrightarrow> digest_table_ok (digest_step ev st)"
proof (induction ev st rule: digest_step.induct)
  case (1 now_ms opts s l rows sent)
  show ?case
  proof (cases rule: digest_tick_cases[of now_ms opts s l rows])
    case 1
    with \<open>digest_table_ok (rows, sent)\<close> show ?thesis by simp
  next
    case (2 r g)
    have new: "dr_day r \<notin> set sent"
      using 2(3) \<open>digest_table_ok (rows, sent)\<close>
      by (simp add: digest_table_ok_def) (metis image_eqI)
    show ?thesis
      using 2 new \<open>digest_table_ok (rows, sent)\<close>
      by (cases g) (auto simp: digest_table_ok_def)
  qed
next
  case (2 day ok rows sent)
  then show ?case by (auto simp: digest_table_ok_def answered_row)
qed

lemma digest_run_ok: "digest_table_ok st \<Longrightarrow> digest_table_ok (fold digest_step evs st)"
  by (induction evs arbitrary: st) (simp_all add: digest_step_ok)

end
