(* ===== verification/Digest_Properties.thy ===== *)
theory Digest_Properties
  imports Digest_Laws Examples
begin

text \<open>
  The properties of the reading side of the ledger: pages of the list, the record of a check, and the
  morning digest.
\<close>

section \<open>Examples\<close>

definition seen_finding :: "nat \<Rightarrow> string \<Rightarrow> int \<Rightarrow> verdict_kind option \<Rightarrow> finding" where
  "seen_finding n app seen v =
     (new_finding seen n
       \<lparr>x_fingerprint = nat_str n, x_app = app, x_build = ''1'', x_platform = ''ios'', x_device_id = ''d'', x_job_id = ''j'',
        x_mission_id = ''m'', x_check = ''blank'', x_subclass = None, x_severity = Low, x_title = ''t'', x_detail = [],
        x_screen = [], x_screen_name = [], x_steps = [], x_replay = None, x_artifacts = []\<rparr>)\<lparr>f_verdict := v\<rparr>"

definition seen_ledger :: "finding list \<Rightarrow> ledger" where
  "seen_ledger fs = \<lparr>findings = fs, verdict_log = [], regressions = []\<rparr>"

definition open_query :: list_query where
  "open_query = \<lparr>lq_app = Some ''plants'', lq_check = None, lq_status = Some ''open'', lq_verdict = None, lq_since = Some ''1d'',
     lq_limit = None, lq_offset = None\<rparr>"

definition three_open :: ledger where
  "three_open = seen_ledger
     [seen_finding 1 ''plants'' 90000 None, seen_finding 2 ''books'' 90000 None,
      seen_finding 3 ''plants'' 90500 None, seen_finding 4 ''plants'' 90000 (Some Real), seen_finding 5 ''plants'' 90000 None]"

section \<open>Pages\<close>

text \<open>paging through the list of findings loses nothing and repeats nothing. For any accepted query,
  walking its pages of n rows (n from 1 to 500) until they pass the total gives exactly the findings the
  query asks for, newest first, each as often as the table has it; and the total on every page is their
  number.\<close>

theorem pages_partition:
  assumes "query_ok dp now_ms lq" "1 \<le> n" "n \<le> 500" "m * n < 2 ^ 63"
    "length (filter (asked_for dp now_ms lq) (findings l)) \<le> m * n"
  shows "\<exists>pages.
     map (\<lambda>k. list_findings dp now_ms (page_query n k lq) l) [0..<m] = map Listed pages \<and>
     concat (map fl_findings pages) = newest_first (filter (asked_for dp now_ms lq) (findings l)) \<and>
     list_all (\<lambda>p. fl_total p = length (concat (map fl_findings pages)) \<and> fl_open p + fl_triaged p = fl_all p \<and>
       fl_total p \<le> fl_all p) pages"
proof -
  let ?all = "newest_first (filter (asked_for dp now_ms lq) (findings l))"
  have "\<exists>p. list_findings dp now_ms (page_query n k lq) l = Listed p \<and> fl_findings p = take n (drop (k * n) ?all) \<and>
      fl_total p = length ?all \<and> fl_open p + fl_triaged p = fl_all p \<and> fl_total p \<le> fl_all p" if "k < m" for k
  proof -
    have "k * n < 2 ^ 63" using that assms(4) by (meson le_less_trans less_imp_le mult_le_mono1)
    then have "page_offset (Some (Fin (of_nat (k * n)))) = Some (k * n)" by (rule page_offset_nat)
    moreover have "length (filter (asked_for dp now_ms lq) (findings l)) \<le> length (scoped_findings dp now_ms lq l)"
      unfolding scoped_findings_def by (rule length_filter_mono) (simp add: asked_for_def)
    ultimately show ?thesis
      using assms(1-3) sum_length_filter_compl[of "\<lambda>f. f_verdict f = None" "scoped_findings dp now_ms lq l"]
      by (simp add: list_findings_listed page_limit_nat newest_first_def del: of_nat_mult)
  qed
  then obtain page where page: "list_findings dp now_ms (page_query n k lq) l = Listed (page k)"
      "fl_findings (page k) = take n (drop (k * n) ?all)" "fl_total (page k) = length ?all"
      "fl_open (page k) + fl_triaged (page k) = fl_all (page k)" "fl_total (page k) \<le> fl_all (page k)"
    if "k < m" for k by metis
  have "concat (map fl_findings (map page [0..<m])) = concat (map (\<lambda>k. take n (drop (k * n) ?all)) [0..<m])"
    unfolding map_map comp_def by (intro arg_cong[where f = concat] map_cong) (simp_all add: page(2))
  also have "\<dots> = ?all" using assms(5) by (simp add: concat_pages newest_first_def)
  finally have whole: "concat (map fl_findings (map page [0..<m])) = ?all" .
  have each: "list_all (\<lambda>p. fl_total p = length ?all \<and> fl_open p + fl_triaged p = fl_all p \<and> fl_total p \<le> fl_all p)
      (map page [0..<m])"
    unfolding list_all_iff
  proof
    fix p assume "p \<in> set (map page [0..<m])"
    then obtain k where "k < m" "p = page k" by auto
    then show "fl_total p = length ?all \<and> fl_open p + fl_triaged p = fl_all p \<and> fl_total p \<le> fl_all p"
      using page(3-5)[of k] by blast
  qed
  have listed: "map (\<lambda>k. list_findings dp now_ms (page_query n k lq) l) [0..<m] = map Listed (map page [0..<m])"
    by (simp add: page(1) cong: map_cong)
  show ?thesis
    by (rule exI[of _ "map page [0..<m]"], unfold whole) (intro conjI listed refl each)
qed

theorem pages_partition_witness:
  "concat (map (\<lambda>k. case list_findings (\<lambda>t. None) 90000000 (page_query 2 k open_query) three_open of
       Listed p \<Rightarrow> map f_id (fl_findings p) | _ \<Rightarrow> []) [0..<2]) = [3, 5, 1] \<and>
   (\<exists>pages. map (\<lambda>k. list_findings (\<lambda>t. None) 90000000 (page_query 2 k open_query) three_open) [0..<2] = map Listed pages \<and>
     concat (map fl_findings pages) = newest_first (filter (asked_for (\<lambda>t. None) 90000000 open_query) (findings three_open)) \<and>
     list_all (\<lambda>p. fl_total p = length (concat (map fl_findings pages)) \<and> fl_open p + fl_triaged p = fl_all p \<and>
       fl_total p \<le> fl_all p) pages)"
proof
  show "concat (map (\<lambda>k. case list_findings (\<lambda>t. None) 90000000 (page_query 2 k open_query) three_open of
       Listed p \<Rightarrow> map f_id (fl_findings p) | _ \<Rightarrow> []) [0..<2]) = [3, 5, 1]" by code_simp
  have "query_ok (\<lambda>t. None) 90000000 open_query" by code_simp
  moreover have "length (filter (asked_for (\<lambda>t. None) 90000000 open_query) (findings three_open)) \<le> 2 * 2" by code_simp
  ultimately show "\<exists>pages. map (\<lambda>k. list_findings (\<lambda>t. None) 90000000 (page_query 2 k open_query) three_open) [0..<2] = map Listed pages \<and>
     concat (map fl_findings pages) = newest_first (filter (asked_for (\<lambda>t. None) 90000000 open_query) (findings three_open)) \<and>
     list_all (\<lambda>p. fl_total p = length (concat (map fl_findings pages)) \<and> fl_open p + fl_triaged p = fl_all p \<and>
       fl_total p \<le> fl_all p) pages"
    by (intro pages_partition) simp_all
qed

section \<open>The record of a check\<close>

text \<open>how the record of a check is kept. Every finding is counted in exactly one class of its app (the
  five counts of the classes add up to the findings), and only judged findings decide which classes a
  workload stops running: leaving out everything untriaged and every duplicate disables the same classes
  with the same precision. A disabled class has the minimum of judged findings, and fewer than three in
  ten of them were real.\<close>

theorem precision_by_judgement:
  "sum_list (map (\<lambda>c. pc_open c + pc_duplicate c + judged c) (precision_classes app l)) =
     length (filter (\<lambda>f. wanted_text app (f_app f)) (findings l)) \<and>
   map class_record (disabled_classes app mn (l\<lparr>findings := filter decided (findings l)\<rparr>)) =
     map class_record (disabled_classes app mn l) \<and>
   list_all (\<lambda>c. 10 * pc_real c < 3 * judged c \<and> (case min_judged mn of None \<Rightarrow> False | Some n \<Rightarrow> n \<le> judged c))
     (disabled_classes app mn l)"
proof (intro conjI)
  show "sum_list (map (\<lambda>c. pc_open c + pc_duplicate c + judged c) (precision_classes app l)) =
     length (filter (\<lambda>f. wanted_text app (f_app f)) (findings l))"
    using classes_count_all[of app l] by (simp add: class_total_def [abs_def])
  show "map class_record (disabled_classes app mn (l\<lparr>findings := filter decided (findings l)\<rparr>)) =
     map class_record (disabled_classes app mn l)" by (rule disabled_ignores_duplicates)
  have "10 * pc_real c < 3 * judged c \<and> (case min_judged mn of None \<Rightarrow> False | Some n \<Rightarrow> n \<le> judged c)"
    if "class_disabled (min_judged mn) c" for c
    using that disabled_floor[of "min_judged mn" c] by simp
  then show "list_all (\<lambda>c. 10 * pc_real c < 3 * judged c \<and> (case min_judged mn of None \<Rightarrow> False | Some n \<Rightarrow> n \<le> judged c))
     (disabled_classes app mn l)"
    by (simp add: list_all_iff disabled_classes_def)
qed

section \<open>The morning digest\<close>

text \<open>the digest accounts for every finding once. The apps of a digest are those of the findings still
  to be looked at, or confirmed, that were seen in the window, each app once; every such finding is
  counted under its app as new or as seen again; the totals are the sums; and an app names its first five,
  the most severe.\<close>

theorem digest_accounts:
  "let d = build_digest hours url now_ms s l; since = since_ms hours now_ms div 1000;
       rows = filter (digest_keeps since) (findings l)
   in distinct (map ad_app (dg_apps d)) \<and>
      list_all (\<lambda>a. ad_count a = length (filter (\<lambda>f. f_app f = ad_app a) rows) \<and> ad_count a > 0 \<and>
        ad_new a = length (filter (\<lambda>f. f_app f = ad_app a \<and> f_first_seen f \<ge> since) rows) \<and>
        ad_again a = ad_count a - ad_new a \<and>
        length (ad_top a) = min 5 (ad_count a) \<and> sorted (map (severity_order \<circ> de_severity) (ad_top a)))
        (dg_apps d) \<and>
      dg_total d = length rows \<and> dg_new d = length (filter (\<lambda>f. f_first_seen f \<ge> since) rows) \<and>
      sum_list (map ad_count (dg_apps d)) = dg_total d \<and> sum_list (map ad_again (dg_apps d)) = dg_again d"
proof -
  define since where "since = since_ms hours now_ms div 1000"
  define rows where "rows = filter (digest_keeps since) (findings l)"
  have perm: "length (filter p (digest_rows since l)) = length (filter p rows)" for p
    unfolding digest_rows_def rows_def by (rule length_filter_sort_key)
  have app: "ad_count a = length (filter (\<lambda>f. f_app f = ad_app a) rows) \<and> ad_count a > 0 \<and>
        ad_new a = length (filter (\<lambda>f. f_app f = ad_app a \<and> f_first_seen f \<ge> since) rows) \<and>
        ad_again a = ad_count a - ad_new a \<and>
        length (ad_top a) = min 5 (ad_count a) \<and> sorted (map (severity_order \<circ> de_severity) (ad_top a))"
    if "a \<in> set (digest_apps since l)" for a
    using app_of_digest[OF that] unfolding filter_filter perm .
  have total: "length (digest_rows since l) = length rows" using perm[of "\<lambda>f. True"] by simp
  have d: "dg_apps (build_digest hours url now_ms s l) = digest_apps since l"
    "dg_total (build_digest hours url now_ms s l) = length rows"
    "dg_new (build_digest hours url now_ms s l) = length (filter (\<lambda>f. f_first_seen f \<ge> since) rows)"
    "dg_again (build_digest hours url now_ms s l) = length (filter (\<lambda>f. \<not> f_first_seen f \<ge> since) rows)"
    using sum_length_filter_compl[of "\<lambda>f. f_first_seen f \<ge> since" rows]
    by (simp_all add: build_digest_def Let_def total digest_sums perm flip: since_def)
  show ?thesis
    unfolding Let_def since_def[symmetric] rows_def[symmetric] d
  proof (intro conjI)
    show "distinct (map ad_app (digest_apps since l))" by (simp add: digest_apps_exact comp_def)
    show "list_all (\<lambda>a. ad_count a = length (filter (\<lambda>f. f_app f = ad_app a) rows) \<and> ad_count a > 0 \<and>
        ad_new a = length (filter (\<lambda>f. f_app f = ad_app a \<and> f_first_seen f \<ge> since) rows) \<and>
        ad_again a = ad_count a - ad_new a \<and>
        length (ad_top a) = min 5 (ad_count a) \<and> sorted (map (severity_order \<circ> de_severity) (ad_top a)))
        (digest_apps since l)"
      unfolding list_all_iff using app by blast
  qed (simp_all only: digest_sums perm total)
qed

text \<open>The size of a digest. Its text is at most 3500 characters, or 3473 and the link where the link is
  long (the limit leaves 27 characters for it), and when there is anything to report it ends with the link
  to the triage page, however much was cut off.\<close>

theorem digest_text_bounded:
  "let d = build_digest hours url now_ms s l
   in length (dg_text d) \<le> max 3500 (3473 + length (dg_link d)) \<and>
      (dg_total d = 0 \<or> suffix (''Triage: '' @ dg_link d) (dg_text d))"
proof -
  have lines: "suffix (''Triage: '' @ link) (join newline (digest_lines h n f as j link))" if "n \<noteq> 0" for h n f as j link
    unfolding digest_lines_def by (simp only: that if_False join_suffix_part)
  define d where "d = build_digest hours url now_ms s l"
  have t: "dg_text d = clip_digest (dg_link d)
      (join newline (digest_lines hours (dg_total d) (dg_new d) (dg_apps d) (dg_jobs d) (dg_link d)))"
    by (simp add: d_def build_digest_def Let_def)
  have "length (dg_text d) \<le> max 3500 (3473 + length (dg_link d))"
    using length_clip[of "dg_link d"] by (simp add: t DIGEST_MAX_CHARS_def)
  moreover have "dg_total d = 0 \<or> suffix (''Triage: '' @ dg_link d) (dg_text d)"
    by (cases "dg_total d = 0") (simp, unfold t, rule disjI2, rule clip_suffix, rule lines)
  ultimately show ?thesis by (simp only: d_def Let_def simp_thms)
qed

text \<open>C21: at most one digest a day. Whatever the clock, the offset of local time and the settings do between
  two ticks, and whenever the webhook answers, no local day has two rows in the table, the webhook is
  called at most once for a day, and only when there was something to report.\<close>

theorem digest_at_most_once:
  "case fold digest_step evs ([], []) of
     (rows, sent) \<Rightarrow> distinct (map dr_day rows) \<and> distinct sent \<and>
       list_all (\<lambda>d. list_ex (\<lambda>r. dr_day r = d \<and> dr_count r > 0) rows) sent"
  using digest_run_ok[of "([], [])" evs]
  by (auto simp: digest_table_ok_def list_all_iff list_ex_iff split: prod.split)

section \<open>A gap between two digests\<close>

text \<open>
  The window is a fixed number of hours before the tick, not the time since the last digest. A collector
  that was down at the hour of the digest sends it late, and what was seen between the hour of the day
  before and the start of the window is in neither digest.
\<close>

definition seven :: digest_options where
  "seven = \<lparr>do_at = Some ''07:00'', do_hours = 24, do_webhook = Some ''w'', do_dash_url = ''u'', do_tz_min = 0\<rparr>"

definition named_in :: "digest option \<Rightarrow> nat list" where
  "named_in g = (case g of None \<Rightarrow> [] | Some d \<Rightarrow> concat (map (\<lambda>a. map de_id (ad_top a)) (dg_apps d)))"

lemma digest_gap:
  "let first = seen_finding 1 ''plants'' 20000 None; missed = seen_finding 2 ''plants'' 30000 None;
       later = seen_finding 3 ''plants'' 100000 None;
       (_, g1, rows) = digest_tick 25200000 seven (demo_store []) (seen_ledger [first]) [];
       (_, g2, _) = digest_tick 129600000 seven (demo_store []) (seen_ledger [first, missed, later]) rows
   in named_in g1 = [1] \<and> named_in g2 = [3]"
  by code_simp

text \<open>
  Two queries that end in an exception instead of an answer: a span that reaches back past the first
  date JavaScript can hold, and a number of rows that is not whole, which SQLite refuses.
\<close>

lemma since_out_of_range_throws:
  assumes "lq_status lq = None" "lq_since lq = Some t" "span_ms t = Some width" "now_ms - width < - MAX_DATE_MS"
  shows "list_findings dp now_ms lq l = Threw"
proof -
  have "t \<noteq> []" using assms(3) by (auto simp: span_ms_def trim_def Let_def)
  with assms show ?thesis by (simp add: list_findings_def parse_since_def sqlite_time_def MAX_DATE_MS_def)
qed

lemma fractional_limit_throws:
  "list_findings (\<lambda>t. None) 90000000 (open_query\<lparr>lq_limit := Some (Fin (5 / 2))\<rparr>) three_open = Threw"
  by code_simp

end
