(* ===== verification/Supervisor.thy ===== *)
theory Supervisor
  imports Store
begin

text \<open>
  The supervisor of a fleet machine (\<open>fleet/src/supervisor.ts\<close>): it starts the components of the machine,
  restarts one that exits after a growing delay, gives up on one that keeps failing, and rotates their
  logs. Instants and delays are milliseconds. What the operating system does is the event a step is
  given: the pid a spawn gets (none when the command cannot be started), an exit, a timer that fires, and
  \<open>stop\<close>. Signals and the copying of output into the logs have no effect on this state.
\<close>

section \<open>State\<close>

record timings =
  tm_backoff_ms :: "int list"
  tm_give_up_after :: nat
  tm_healthy_after_ms :: int

definition DEFAULT_TIMINGS :: timings where
  "DEFAULT_TIMINGS = \<lparr>tm_backoff_ms = [1000, 2000, 5000, 10000, 30000], tm_give_up_after = 5, tm_healthy_after_ms = 60000\<rparr>"

record exit_info =
  ei_code :: "int option"
  ei_signal :: "string option"
  ei_at :: int

text \<open>A child process object; its pid is \<open>undefined\<close> when the spawn failed.\<close>

record child_process =
  cp_pid :: "nat option"

record child =
  ch_name :: string
  ch_process :: "child_process option"
  ch_restarts :: nat
  ch_gave_up_at :: "int option"
  ch_last_exit :: "exit_info option"
  ch_started_at :: "int option"
  ch_timer :: "int option"

datatype event_kind = Ev_Start | Ev_Exit | Ev_Gave_Up

record report =
  re_child :: string
  re_kind :: event_kind
  re_detail :: string

record supervisor =
  sv_children :: "child list"
  sv_stopping :: bool
  sv_gave_up :: "string list"
  sv_resolved :: bool
  sv_reports :: "report list"

definition child_of :: "string \<Rightarrow> supervisor \<Rightarrow> child option" where
  "child_of name sv = find_row ch_name name (sv_children sv)"

definition update_child :: "string \<Rightarrow> (child \<Rightarrow> child) \<Rightarrow> supervisor \<Rightarrow> supervisor" where
  "update_child name f sv = sv\<lparr>sv_children := update_row ch_name name f (sv_children sv)\<rparr>"

definition tell :: "string \<Rightarrow> event_kind \<Rightarrow> string \<Rightarrow> supervisor \<Rightarrow> supervisor" where
  "tell name kind detail sv = sv\<lparr>sv_reports := sv_reports sv @ [\<lparr>re_child = name, re_kind = kind, re_detail = detail\<rparr>]\<rparr>"

section \<open>Steps\<close>

definition started :: "int \<Rightarrow> nat option \<Rightarrow> child \<Rightarrow> child" where
  "started now pid c = c\<lparr>ch_process := Some \<lparr>cp_pid = pid\<rparr>, ch_started_at := Some now\<rparr>"

definition start_child :: "int \<Rightarrow> nat option \<Rightarrow> string \<Rightarrow> supervisor \<Rightarrow> supervisor" where
  "start_child now pid name sv =
     (if child_of name sv = None \<or> sv_stopping sv then sv
      else tell name Ev_Start (''pid '' @ (case pid of None \<Rightarrow> ''?'' | Some n \<Rightarrow> nat_str n))
             (update_child name (started now pid) sv))"

definition new_child :: "string \<Rightarrow> child" where
  "new_child name =
     \<lparr>ch_name = name, ch_process = None, ch_restarts = 0, ch_gave_up_at = None, ch_last_exit = None,
      ch_started_at = None, ch_timer = None\<rparr>"

definition idle_supervisor :: supervisor where
  "idle_supervisor = \<lparr>sv_children = [], sv_stopping = False, sv_gave_up = [], sv_resolved = False, sv_reports = []\<rparr>"

text \<open>The loop of \<open>supervise\<close>, for components with different names.\<close>

definition add_child :: "int \<Rightarrow> string \<times> nat option \<Rightarrow> supervisor \<Rightarrow> supervisor" where
  "add_child now spec sv =
     start_child now (snd spec) (fst spec) (sv\<lparr>sv_children := sv_children sv @ [new_child (fst spec)]\<rparr>)"

definition supervise :: "int \<Rightarrow> (string \<times> nat option) list \<Rightarrow> supervisor" where
  "supervise now specs = fold (add_child now) specs idle_supervisor"

text \<open>The \<open>error\<close> event of a process that could not be started only reports.\<close>

definition child_error :: "string \<Rightarrow> string \<Rightarrow> supervisor \<Rightarrow> supervisor" where
  "child_error name message = tell name Ev_Exit (''could not be started: '' @ message)"

definition ran_for :: "int \<Rightarrow> child \<Rightarrow> int" where
  "ran_for now c = (case ch_started_at c of None \<Rightarrow> 0 | Some t \<Rightarrow> now - t)"

definition gone :: "int \<Rightarrow> int option \<Rightarrow> string option \<Rightarrow> child \<Rightarrow> child" where
  "gone now exit_code sig c =
     c\<lparr>ch_process := None, ch_last_exit := Some \<lparr>ei_code = exit_code, ei_signal = sig, ei_at = now\<rparr>\<rparr>"

definition counted_exit :: "timings \<Rightarrow> int \<Rightarrow> child \<Rightarrow> child" where
  "counted_exit tm now c =
     c\<lparr>ch_restarts := Suc (if ran_for now c > tm_healthy_after_ms tm then 0 else ch_restarts c)\<rparr>"

definition backoff :: "timings \<Rightarrow> nat \<Rightarrow> int" where
  "backoff tm restarts =
     (if tm_backoff_ms tm = [] then 1
      else tm_backoff_ms tm ! min (restarts - 1) (length (tm_backoff_ms tm) - 1))"

definition after_exit :: "timings \<Rightarrow> int \<Rightarrow> child \<Rightarrow> child" where
  "after_exit tm now c =
     (if ch_restarts c > tm_give_up_after tm then c\<lparr>ch_gave_up_at := Some now\<rparr>
      else c\<lparr>ch_timer := Some (now + backoff tm (ch_restarts c))\<rparr>)"

definition exit_text :: "int \<Rightarrow> int option \<Rightarrow> string option \<Rightarrow> child \<Rightarrow> string" where
  "exit_text now exit_code sig c =
     (case sig of
        Some g \<Rightarrow> if g = [] then ''code '' @ (case exit_code of None \<Rightarrow> ''null'' | Some n \<Rightarrow> int_str n) else ''signal '' @ g
      | None \<Rightarrow> ''code '' @ (case exit_code of None \<Rightarrow> ''null'' | Some n \<Rightarrow> int_str n)) @
     '' after '' @ int_str ((ran_for now c + 500) div 1000) @ ''s''"

definition gave_up_text :: "timings \<Rightarrow> string \<Rightarrow> string \<Rightarrow> string" where
  "gave_up_text tm log_dir name =
     nat_str (tm_give_up_after tm) @ '' failures in quick succession; not restarting. The reason is in '' @
     log_dir @ ''/'' @ name @ ''.log.''"

definition give_up :: "timings \<Rightarrow> string \<Rightarrow> string \<Rightarrow> supervisor \<Rightarrow> supervisor" where
  "give_up tm log_dir name sv =
     (let names = (if name \<in> set (sv_gave_up sv) then sv_gave_up sv else sv_gave_up sv @ [name])
      in tell name Ev_Gave_Up (gave_up_text tm log_dir name)
           (sv\<lparr>sv_gave_up := names, sv_resolved := (sv_resolved sv \<or> length names = length (sv_children sv))\<rparr>))"

definition child_exit ::
  "timings \<Rightarrow> string \<Rightarrow> int \<Rightarrow> int option \<Rightarrow> string option \<Rightarrow> string \<Rightarrow> supervisor \<Rightarrow> supervisor" where
  "child_exit tm log_dir now exit_code sig name sv =
     (case child_of name sv of
        None \<Rightarrow> sv
      | Some c \<Rightarrow>
          if sv_stopping sv then update_child name (gone now exit_code sig) sv
          else
            (let c' = counted_exit tm now (gone now exit_code sig c);
                 sv' = tell name Ev_Exit (exit_text now exit_code sig c)
                   (update_child name (\<lambda>c. after_exit tm now (counted_exit tm now (gone now exit_code sig c))) sv)
             in if ch_restarts c' > tm_give_up_after tm then give_up tm log_dir name sv' else sv'))"

definition timer_fires :: "int \<Rightarrow> nat option \<Rightarrow> string \<Rightarrow> supervisor \<Rightarrow> supervisor" where
  "timer_fires now pid name sv = start_child now pid name (update_child name (\<lambda>c. c\<lparr>ch_timer := None\<rparr>) sv)"

text \<open>\<open>stop\<close> up to its wait: the children it signals, and the state. It returns once they have exited.\<close>

definition stop_all :: "supervisor \<Rightarrow> string list \<times> supervisor" where
  "stop_all sv =
     (map ch_name (filter (\<lambda>c. ch_process c \<noteq> None) (sv_children sv)),
      sv\<lparr>sv_stopping := True, sv_children := map (\<lambda>c. c\<lparr>ch_timer := None\<rparr>) (sv_children sv)\<rparr>)"

definition stop_done :: "supervisor \<Rightarrow> bool" where
  "stop_done sv \<longleftrightarrow> sv_stopping sv \<and> list_all (\<lambda>c. ch_process c = None) (sv_children sv)"

section \<open>What another process reads\<close>

record child_snapshot =
  cs_name :: string
  cs_pid :: "nat option"
  cs_restarts :: nat
  cs_gave_up_at :: "int option"
  cs_started_at :: "int option"
  cs_last_exit :: "exit_info option"

definition child_snapshot_of :: "child \<Rightarrow> child_snapshot" where
  "child_snapshot_of c =
     \<lparr>cs_name = ch_name c, cs_pid = (case ch_process c of None \<Rightarrow> None | Some p \<Rightarrow> cp_pid p), cs_restarts = ch_restarts c,
      cs_gave_up_at = ch_gave_up_at c, cs_started_at = ch_started_at c, cs_last_exit = ch_last_exit c\<rparr>"

record snapshot =
  sn_pid :: nat
  sn_at :: int
  sn_children :: "child_snapshot list"

definition snapshot_of :: "nat \<Rightarrow> int \<Rightarrow> supervisor \<Rightarrow> snapshot" where
  "snapshot_of pid now sv = \<lparr>sn_pid = pid, sn_at = now, sn_children = map child_snapshot_of (sv_children sv)\<rparr>"

section \<open>Log files\<close>

text \<open>The generations of one log: the file itself, then \<open>.1\<close>, \<open>.2\<close> and so on.\<close>

definition MAX_LOG_BYTES :: nat where "MAX_LOG_BYTES = 8 * 1024 * 1024"

definition KEEP_ROTATIONS :: nat where "KEEP_ROTATIONS = 3"

type_synonym generations = "nat \<rightharpoonup> nat list"

definition rename_gen :: "nat \<Rightarrow> nat \<Rightarrow> generations \<Rightarrow> generations" where
  "rename_gen a b g = (case g a of None \<Rightarrow> g | Some content \<Rightarrow> (g(a := None))(b \<mapsto> content))"

definition rotate_log :: "generations \<Rightarrow> generations" where
  "rotate_log g =
     (case g 0 of
        None \<Rightarrow> g
      | Some content \<Rightarrow>
          if length content < MAX_LOG_BYTES then g
          else rename_gen 0 1 (fold (\<lambda>i. rename_gen i (Suc i)) (rev [1..<KEEP_ROTATIONS]) g))"

section \<open>Runs\<close>

datatype machine_event =
    Exited string "int option" "string option"
  | Spawn_Error string string
  | Timer_Fired string "nat option"
  | Stop_Asked

text \<open>
  When an event can happen. Only a process that was started exits: for one that could not be, Node emits
  \<open>error\<close> in the place of \<open>exit\<close>.
\<close>

definition child_running :: "child \<Rightarrow> bool" where
  "child_running c \<longleftrightarrow> (case ch_process c of None \<Rightarrow> False | Some p \<Rightarrow> cp_pid p \<noteq> None)"

fun can_happen :: "int \<Rightarrow> machine_event \<Rightarrow> supervisor \<Rightarrow> bool" where
  "can_happen now (Exited name _ _) sv = (case child_of name sv of None \<Rightarrow> False | Some c \<Rightarrow> child_running c)"
| "can_happen now (Spawn_Error name _) sv =
     (case child_of name sv of None \<Rightarrow> False | Some c \<Rightarrow> ch_process c = Some \<lparr>cp_pid = None\<rparr>)"
| "can_happen now (Timer_Fired name _) sv =
     (case child_of name sv of
        None \<Rightarrow> False | Some c \<Rightarrow> (case ch_timer c of None \<Rightarrow> False | Some due \<Rightarrow> due \<le> now))"
| "can_happen now Stop_Asked sv = True"

fun happen :: "timings \<Rightarrow> string \<Rightarrow> int \<Rightarrow> machine_event \<Rightarrow> supervisor \<Rightarrow> supervisor" where
  "happen tm log_dir now (Exited name exit_code sig) sv = child_exit tm log_dir now exit_code sig name sv"
| "happen tm log_dir now (Spawn_Error name message) sv = child_error name message sv"
| "happen tm log_dir now (Timer_Fired name pid) sv = timer_fires now pid name sv"
| "happen tm log_dir now Stop_Asked sv = snd (stop_all sv)"

section \<open>Laws\<close>

text \<open>
  The supervisor over time: the states a run of it reaches, with the lengths of the runs of every
  component, and the invariant that ties its restart counters to them.
\<close>

section \<open>Reachable states\<close>

fun runs_ended :: "int \<Rightarrow> machine_event \<Rightarrow> supervisor \<Rightarrow> (string \<times> int) list" where
  "runs_ended now (Exited name _ _) sv =
     (case child_of name sv of
        None \<Rightarrow> [] | Some c \<Rightarrow> if sv_stopping sv then [] else [(name, ran_for now c)])"
| "runs_ended now _ sv = []"

inductive supervised :: "timings \<Rightarrow> string \<Rightarrow> int \<Rightarrow> supervisor \<Rightarrow> (string \<times> int) list \<Rightarrow> bool"
  for tm log_dir where
  begun: "distinct (map fst specs) \<Longrightarrow> supervised tm log_dir now (supervise now specs) []"
| event: "supervised tm log_dir now sv h \<Longrightarrow> now \<le> t \<Longrightarrow> can_happen t ev sv \<Longrightarrow>
    supervised tm log_dir t (happen tm log_dir t ev sv) (h @ runs_ended t ev sv)"

definition runs_of :: "string \<Rightarrow> (string \<times> int) list \<Rightarrow> int list" where
  "runs_of name h = map snd (filter (\<lambda>r. fst r = name) h)"

lemma runs_of_append [simp]: "runs_of name (h @ h') = runs_of name h @ runs_of name h'"
  and runs_of_Nil [simp]: "runs_of name [] = []"
  and runs_of_single [simp]: "runs_of name [(n, r)] = (if n = name then [r] else [])"
  by (simp_all add: runs_of_def)

text \<open>The short runs at the end, and one more where there was a run before them.\<close>

definition quick_tail :: "timings \<Rightarrow> int list \<Rightarrow> nat" where
  "quick_tail tm runs = length (takeWhile (\<lambda>r. r \<le> tm_healthy_after_ms tm) (rev runs))"

definition quick_restarts :: "timings \<Rightarrow> int list \<Rightarrow> nat" where
  "quick_restarts tm runs = min (length runs) (Suc (quick_tail tm runs))"

lemma quick_restarts_snoc:
  "quick_restarts tm (runs @ [r]) = Suc (if r > tm_healthy_after_ms tm then 0 else quick_restarts tm runs)"
  by (simp add: quick_restarts_def quick_tail_def)

lemma quick_restarts_Nil [simp]: "quick_restarts tm [] = 0"
  by (simp add: quick_restarts_def)

lemma long_takeWhile: "k \<le> length (takeWhile p xs) \<longleftrightarrow> k \<le> length xs \<and> list_all p (take k xs)"
proof (induction xs arbitrary: k)
  case (Cons x xs)
  then show ?case by (cases k) auto
qed simp

lemma quick_restarts_exceed:
  "n < quick_restarts tm runs \<longleftrightarrow>
   n < length runs \<and> list_all (\<lambda>r. r \<le> tm_healthy_after_ms tm) (drop (length runs - n) runs)"
proof -
  have "list_all p (take n (rev runs)) = list_all p (drop (length runs - n) runs)" for p
    by (simp add: take_rev list_all_iff)
  then show ?thesis by (auto simp: quick_restarts_def quick_tail_def less_Suc_eq_le long_takeWhile)
qed

section \<open>The invariant\<close>

definition phase_ok :: "bool \<Rightarrow> child \<Rightarrow> bool" where
  "phase_ok stopping c =
     (case (ch_process c, ch_timer c, ch_gave_up_at c) of
        (Some _, None, None) \<Rightarrow> True
      | (None, Some _, None) \<Rightarrow> \<not> stopping
      | (None, None, Some _) \<Rightarrow> True
      | (None, None, None) \<Rightarrow> stopping
      | _ \<Rightarrow> False)"

definition child_ok :: "timings \<Rightarrow> bool \<Rightarrow> int list \<Rightarrow> child \<Rightarrow> bool" where
  "child_ok tm stopping runs c \<longleftrightarrow>
     phase_ok stopping c \<and> ch_restarts c = quick_restarts tm runs \<and>
     (ch_gave_up_at c \<noteq> None \<longleftrightarrow> ch_restarts c > tm_give_up_after tm)"

definition children_ok :: "timings \<Rightarrow> supervisor \<Rightarrow> (string \<times> int) list \<Rightarrow> bool" where
  "children_ok tm sv h \<longleftrightarrow>
     distinct (map ch_name (sv_children sv)) \<and>
     (\<forall>c \<in> set (sv_children sv). child_ok tm (sv_stopping sv) (runs_of (ch_name c) h) c)"

definition gave_up_names :: "supervisor \<Rightarrow> string set" where
  "gave_up_names sv = ch_name ` {c \<in> set (sv_children sv). ch_gave_up_at c \<noteq> None}"

definition given_up_ok :: "supervisor \<Rightarrow> bool" where
  "given_up_ok sv \<longleftrightarrow>
     distinct (sv_gave_up sv) \<and> set (sv_gave_up sv) = gave_up_names sv \<and>
     (sv_resolved sv \<longleftrightarrow> sv_children sv \<noteq> [] \<and> (\<forall>c \<in> set (sv_children sv). ch_gave_up_at c \<noteq> None))"

definition supervisor_ok :: "timings \<Rightarrow> supervisor \<Rightarrow> (string \<times> int) list \<Rightarrow> bool" where
  "supervisor_ok tm sv h \<longleftrightarrow> children_ok tm sv h \<and> given_up_ok sv"

lemmas child_fields =
  started_def gone_def counted_exit_def after_exit_def new_child_def

lemma child_of_SomeD: "child_of name sv = Some c \<Longrightarrow> c \<in> set (sv_children sv) \<and> ch_name c = name"
  unfolding child_of_def by (rule find_row_SomeD)

lemma tell_simps [simp]:
  "sv_children (tell n k d sv) = sv_children sv" "sv_stopping (tell n k d sv) = sv_stopping sv"
  "sv_gave_up (tell n k d sv) = sv_gave_up sv" "sv_resolved (tell n k d sv) = sv_resolved sv"
  by (simp_all add: tell_def)

lemma tell_ok [simp]:
  "children_ok tm (tell n k d sv) h = children_ok tm sv h" "given_up_ok (tell n k d sv) = given_up_ok sv"
  by (simp_all add: children_ok_def given_up_ok_def gave_up_names_def)

lemma update_child_simps [simp]:
  "sv_children (update_child n f sv) = update_row ch_name n f (sv_children sv)"
  "sv_stopping (update_child n f sv) = sv_stopping sv" "sv_gave_up (update_child n f sv) = sv_gave_up sv"
  "sv_resolved (update_child n f sv) = sv_resolved sv"
  by (simp_all add: update_child_def)

lemma only_child:
  "distinct (map ch_name (sv_children sv)) \<Longrightarrow> child_of name sv = Some c \<Longrightarrow>
   x \<in> set (sv_children sv) \<Longrightarrow> ch_name x = name \<Longrightarrow> x = c"
  by (metis child_of_SomeD distinct_map inj_on_def)

lemma set_updated_children:
  assumes "distinct (map ch_name (sv_children sv))" "child_of name sv = Some c"
  shows "set (sv_children (update_child name f sv)) = {x \<in> set (sv_children sv). ch_name x \<noteq> name} \<union> {f c}"
proof -
  have "{x \<in> set (sv_children sv). ch_name x = name} = {c}"
    using only_child[OF assms] child_of_SomeD[OF assms(2)] by blast
  then show ?thesis by (simp add: set_update_row)
qed

interpretation started_row: row_update ch_name "started now pid" for now pid
  by unfold_locales (simp add: started_def)

interpretation gone_row: row_update ch_name "gone now exit_code sig" for now exit_code sig
  by unfold_locales (simp add: gone_def)

interpretation no_timer_row: row_update ch_name "\<lambda>c. c\<lparr>ch_timer := None\<rparr>"
  by unfold_locales simp

interpretation exit_row: row_update ch_name "\<lambda>c. after_exit tm now (counted_exit tm now (gone now exit_code sig c))"
  for tm now exit_code sig
  by unfold_locales (simp add: after_exit_def counted_exit_def gone_def)

text \<open>A step of one child.\<close>

lemma update_child_ok:
  assumes ok: "children_ok tm sv h" and found: "child_of name sv = Some c"
    and row: "row_update ch_name f"
    and child: "child_ok tm (sv_stopping sv) (runs_of name (h @ h')) (f c)"
    and others: "\<And>n. n \<noteq> name \<Longrightarrow> runs_of n h' = []"
  shows "children_ok tm (update_child name f sv) (h @ h')"
proof -
  have d: "distinct (map ch_name (sv_children sv))" using ok by (simp add: children_ok_def)
  have "ch_name (f c) = name" using child_of_SomeD[OF found] row_update.keeps_key[OF row] by simp
  with ok child show ?thesis
    unfolding children_ok_def set_updated_children[OF d found]
    by (auto simp: row_update.keys_update[OF row] others)
qed

lemma gave_up_kept:
  assumes ok: "children_ok tm sv h" "given_up_ok sv" and found: "child_of name sv = Some c"
    and row: "row_update ch_name f" and same: "ch_gave_up_at (f c) = None \<longleftrightarrow> ch_gave_up_at c = None"
  shows "given_up_ok (update_child name f sv)"
proof -
  have d: "distinct (map ch_name (sv_children sv))" using ok by (simp add: children_ok_def)
  have c: "c \<in> set (sv_children sv)" "ch_name c = name" using child_of_SomeD[OF found] by auto
  have f: "ch_name (f c) = name" using c(2) row_update.keeps_key[OF row] by simp
  have split: "set (sv_children sv) = {x \<in> set (sv_children sv). ch_name x \<noteq> name} \<union> {c}"
    using c only_child[OF d found] by blast
  have names: "gave_up_names (update_child name f sv) =
      ch_name ` {x \<in> {x \<in> set (sv_children sv). ch_name x \<noteq> name} \<union> {f c}. ch_gave_up_at x \<noteq> None}"
    "gave_up_names sv =
      ch_name ` {x \<in> {x \<in> set (sv_children sv). ch_name x \<noteq> name} \<union> {c}. ch_gave_up_at x \<noteq> None}"
    unfolding gave_up_names_def set_updated_children[OF d found] using split by simp_all
  have "gave_up_names (update_child name f sv) = gave_up_names sv"
    unfolding names using f c(2) same by (cases "ch_gave_up_at c") (simp_all add: conj_disj_distribR Collect_disj_eq Collect_conv_if)
  moreover have "(\<forall>x \<in> set (sv_children (update_child name f sv)). ch_gave_up_at x \<noteq> None) \<longleftrightarrow>
      (\<forall>x \<in> set (sv_children sv). ch_gave_up_at x \<noteq> None)"
    unfolding set_updated_children[OF d found] by (subst (2) split) (use same in \<open>auto simp del: not_None_eq\<close>)
  moreover have "sv_children (update_child name f sv) = [] \<longleftrightarrow> sv_children sv = []"
    by (simp add: update_row_def)
  ultimately show ?thesis
    using ok(2) unfolding given_up_ok_def by simp
qed

lemma all_gave_up:
  assumes "distinct (map ch_name (sv_children sv))" "distinct gs" "set gs = gave_up_names sv"
  shows "length gs = length (sv_children sv) \<longleftrightarrow> (\<forall>c \<in> set (sv_children sv). ch_gave_up_at c \<noteq> None)"
proof -
  let ?up = "{c \<in> set (sv_children sv). ch_gave_up_at c \<noteq> None}"
  have "card ?up = length gs"
    using assms distinct_card[of gs]
    by (simp add: gave_up_names_def card_image distinct_map inj_on_subset[of ch_name "set (sv_children sv)"])
  moreover have "card (set (sv_children sv)) = length (sv_children sv)"
    using assms(1) distinct_card by (auto simp: distinct_map)
  moreover have "?up = set (sv_children sv) \<longleftrightarrow> card ?up = card (set (sv_children sv))"
    by (metis (no_types, lifting) card_subset_eq finite_set mem_Collect_eq subsetI)
  ultimately show ?thesis by auto
qed

section \<open>Every event keeps the invariant\<close>

lemma child_okI:
  "supervisor_ok tm sv h \<Longrightarrow> child_of name sv = Some c \<Longrightarrow> child_ok tm (sv_stopping sv) (runs_of name h) c"
  by (auto simp: supervisor_ok_def children_ok_def dest: child_of_SomeD)

lemma started_ok:
  "child_ok tm False runs c \<Longrightarrow> ch_timer c \<noteq> None \<Longrightarrow> child_ok tm False runs (started now pid (c\<lparr>ch_timer := None\<rparr>))"
  by (auto simp: child_ok_def phase_ok_def started_def split: option.splits)

lemma stopped_exit_ok:
  "child_ok tm True runs c \<Longrightarrow> child_running c \<Longrightarrow> child_ok tm True runs (gone now exit_code sig c)"
  by (auto simp: child_ok_def phase_ok_def gone_def child_running_def split: option.splits)

lemma exit_ok:
  assumes "child_ok tm False runs c" "child_running c"
  shows "child_ok tm False (runs @ [ran_for now c]) (after_exit tm now (counted_exit tm now (gone now exit_code sig c)))"
  using assms
  by (auto simp: child_ok_def phase_ok_def gone_def counted_exit_def after_exit_def child_running_def ran_for_def
      quick_restarts_snoc split: option.splits)

lemma restarts_after_exit:
  "ch_restarts (after_exit tm now c) = ch_restarts c"
  "ch_gave_up_at (after_exit tm now c) = (if ch_restarts c > tm_give_up_after tm then Some now else ch_gave_up_at c)"
  by (simp_all add: after_exit_def)

lemma give_up_ok:
  assumes "children_ok tm sv h" "distinct (sv_gave_up sv)"
    "insert name (set (sv_gave_up sv)) = gave_up_names sv"
    "sv_resolved sv \<longrightarrow> (\<forall>c \<in> set (sv_children sv). ch_gave_up_at c \<noteq> None)" "sv_children sv \<noteq> []"
  shows "supervisor_ok tm (give_up tm log_dir name sv) h"
proof -
  let ?gs = "if name \<in> set (sv_gave_up sv) then sv_gave_up sv else sv_gave_up sv @ [name]"
  have gs: "distinct ?gs" "set ?gs = gave_up_names sv" using assms(2,3) by (auto split: if_splits)
  have d: "distinct (map ch_name (sv_children sv))" using assms(1) by (simp add: children_ok_def)
  have fields: "sv_children (give_up tm log_dir name sv) = sv_children sv"
    "sv_stopping (give_up tm log_dir name sv) = sv_stopping sv" "sv_gave_up (give_up tm log_dir name sv) = ?gs"
    "sv_resolved (give_up tm log_dir name sv) \<longleftrightarrow> sv_resolved sv \<or> length ?gs = length (sv_children sv)"
    by (simp_all add: give_up_def Let_def)
  show ?thesis
    unfolding supervisor_ok_def given_up_ok_def children_ok_def gave_up_names_def fields all_gave_up[OF d gs]
    using assms(1,4,5) gs by (auto simp: children_ok_def gave_up_names_def)
qed

lemma exit_keeps:
  assumes ok: "supervisor_ok tm sv h" and found: "child_of name sv = Some c" and up: "child_running c"
  shows "supervisor_ok tm (child_exit tm log_dir now exit_code sig name sv)
    (h @ runs_ended now (Exited name exit_code sig) sv)"
proof (cases "sv_stopping sv")
  case True
  have g: "ch_gave_up_at (gone now exit_code sig c) = ch_gave_up_at c" by (simp add: gone_def)
  show ?thesis
    using True ok found stopped_exit_ok[of tm "runs_of name h" c now exit_code sig] up child_okI[OF ok found]
      update_child_ok[of tm sv h name c "gone now exit_code sig" "[]", OF _ found gone_row.row_update_axioms]
      gave_up_kept[OF _ _ found gone_row.row_update_axioms, of tm h now exit_code sig] g
    by (simp add: child_exit_def supervisor_ok_def)
next
  case False
  let ?f = "\<lambda>c. after_exit tm now (counted_exit tm now (gone now exit_code sig c))"
  let ?sv = "tell name Ev_Exit (exit_text now exit_code sig c) (update_child name ?f sv)"
  let ?h = "h @ [(name, ran_for now c)]"
  have kids: "children_ok tm sv h" and given: "given_up_ok sv" using ok by (simp_all add: supervisor_ok_def)
  have d: "distinct (map ch_name (sv_children sv))" using kids by (simp add: children_ok_def)
  have c: "c \<in> set (sv_children sv)" "ch_name c = name" using child_of_SomeD[OF found] by auto
  have fresh: "ch_gave_up_at c = None"
    using child_okI[OF ok found] up by (auto simp: child_ok_def phase_ok_def child_running_def split: option.splits)
  have new: "children_ok tm (update_child name ?f sv) ?h"
    by (rule update_child_ok[OF kids found exit_row.row_update_axioms])
      (use exit_ok child_okI[OF ok found] False up in auto)
  have other: "ch_name x \<noteq> name" if "x \<in> set (sv_children sv)" "ch_gave_up_at x \<noteq> None" for x
    using that fresh only_child[OF d found, of x] by auto
  have step: "child_exit tm log_dir now exit_code sig name sv =
      (if ch_restarts (counted_exit tm now (gone now exit_code sig c)) > tm_give_up_after tm
       then give_up tm log_dir name ?sv else ?sv)"
    "h @ runs_ended now (Exited name exit_code sig) sv = ?h"
    by (simp_all add: child_exit_def Let_def False found)
  show ?thesis
    unfolding step
  proof (cases "ch_restarts (counted_exit tm now (gone now exit_code sig c)) > tm_give_up_after tm")
    case True
    have up': "ch_gave_up_at (?f c) \<noteq> None" "ch_name (?f c) = name"
      using True c(2) exit_row.keeps_key[of tm now exit_code sig c] by (simp_all add: restarts_after_exit)
    have "{x \<in> set (sv_children (update_child name ?f sv)). ch_gave_up_at x \<noteq> None} =
        insert (?f c) {x \<in> set (sv_children sv). ch_gave_up_at x \<noteq> None}"
      unfolding set_updated_children[OF d found] using up'(1) other by blast
    then have names: "gave_up_names (update_child name ?f sv) = insert name (gave_up_names sv)"
      by (simp only: gave_up_names_def image_insert up'(2))
    have "\<not> sv_resolved sv" using given c(1) fresh by (auto simp: given_up_ok_def)
    then have "supervisor_ok tm (give_up tm log_dir name ?sv) ?h"
      using new names given c(1)
      by (intro give_up_ok) (auto simp: given_up_ok_def gave_up_names_def update_row_def)
    with True show "supervisor_ok tm (if ch_restarts (counted_exit tm now (gone now exit_code sig c)) > tm_give_up_after tm
        then give_up tm log_dir name ?sv else ?sv) ?h" by (simp only: if_True)
  next
    case few: False
    have "given_up_ok (update_child name ?f sv)"
      by (rule gave_up_kept[OF kids given found exit_row.row_update_axioms])
        (use few fresh in \<open>simp add: restarts_after_exit gone_def counted_exit_def\<close>)
    with new few show "supervisor_ok tm (if ch_restarts (counted_exit tm now (gone now exit_code sig c)) > tm_give_up_after tm
        then give_up tm log_dir name ?sv else ?sv) ?h" by (simp only: if_False supervisor_ok_def tell_ok simp_thms)
  qed
qed

lemma start_child_ok_step:
  assumes "child_of name sv = Some c" "\<not> sv_stopping sv"
  shows "start_child now pid name sv =
    tell name Ev_Start (''pid '' @ (case pid of None \<Rightarrow> ''?'' | Some n \<Rightarrow> nat_str n)) (update_child name (started now pid) sv)"
  using assms by (simp add: start_child_def)

lemma update_row_twice:
  "update_row key k f (update_row key k g rows) = update_row key k (\<lambda>x. if key (g x) = k then f (g x) else g x) rows"
  by (simp add: update_row_def comp_def)

lemma update_child_twice:
  assumes "row_update ch_name g"
  shows "update_child name f (update_child name g sv) = update_child name (\<lambda>c. f (g c)) sv"
  using row_update.keeps_key[OF assms]
  by (auto simp: update_child_def update_row_twice update_row_def)

interpretation restarted_row: row_update ch_name "\<lambda>c. started now pid (c\<lparr>ch_timer := None\<rparr>)" for now pid
  by unfold_locales (simp add: started_def)

lemma timer_keeps:
  assumes ok: "supervisor_ok tm sv h" and found: "child_of name sv = Some c" and due: "ch_timer c \<noteq> None"
  shows "supervisor_ok tm (timer_fires now pid name sv) h"
proof -
  let ?f = "\<lambda>c. started now pid (c\<lparr>ch_timer := None\<rparr>)"
  have kids: "children_ok tm sv h" and given: "given_up_ok sv" using ok by (simp_all add: supervisor_ok_def)
  have run: "\<not> sv_stopping sv"
    using child_okI[OF ok found] due by (auto simp: child_ok_def phase_ok_def split: option.splits)
  have "child_of name (update_child name (\<lambda>c. c\<lparr>ch_timer := None\<rparr>) sv) = Some (c\<lparr>ch_timer := None\<rparr>)"
    using found by (simp add: child_of_def no_timer_row.find_update_same)
  then have step: "timer_fires now pid name sv =
      tell name Ev_Start (''pid '' @ (case pid of None \<Rightarrow> ''?'' | Some n \<Rightarrow> nat_str n)) (update_child name ?f sv)"
    using run by (simp add: timer_fires_def start_child_ok_step update_child_twice[OF no_timer_row.row_update_axioms])
  have "children_ok tm (update_child name ?f sv) (h @ [])"
    by (rule update_child_ok[OF kids found restarted_row.row_update_axioms])
      (use started_ok child_okI[OF ok found] due run in auto)
  moreover have "given_up_ok (update_child name ?f sv)"
    by (rule gave_up_kept[OF kids given found restarted_row.row_update_axioms]) (simp add: started_def)
  ultimately show ?thesis by (simp add: step supervisor_ok_def)
qed

lemma stop_keeps: "supervisor_ok tm sv h \<Longrightarrow> supervisor_ok tm (snd (stop_all sv)) h"
proof -
  assume ok: "supervisor_ok tm sv h"
  have "child_ok tm True runs (c\<lparr>ch_timer := None\<rparr>)" if "child_ok tm st runs c" for st runs c
    using that by (auto simp: child_ok_def phase_ok_def split: option.splits)
  moreover have "ch_name ` {x \<in> (\<lambda>c. c\<lparr>ch_timer := None\<rparr>) ` set (sv_children sv). ch_gave_up_at x \<noteq> None} =
      gave_up_names sv"
  proof -
    have "{x \<in> (\<lambda>c. c\<lparr>ch_timer := None\<rparr>) ` S. ch_gave_up_at x \<noteq> None} =
        (\<lambda>c. c\<lparr>ch_timer := None\<rparr>) ` {x \<in> S. ch_gave_up_at x \<noteq> None}"
      for S :: "child set" by auto
    then show ?thesis unfolding gave_up_names_def by (simp only: image_image) simp
  qed
  ultimately show ?thesis
    using ok by (auto simp: stop_all_def supervisor_ok_def children_ok_def given_up_ok_def gave_up_names_def comp_def)
qed

lemma update_row_absent: "k \<notin> key ` set rows \<Longrightarrow> update_row key k f rows = rows"
  unfolding update_row_def by (rule map_idI) auto

lemma update_row_append: "update_row key k f (rows @ rows') = update_row key k f rows @ update_row key k f rows'"
  by (simp add: update_row_def)

lemma supervise_ok:
  assumes "distinct (map fst specs)"
  shows "supervisor_ok tm (supervise now specs) []"
proof -
  have "sv_children (fold (add_child now) specs sv) = sv_children sv @ map (\<lambda>(n, pid). started now pid (new_child n)) specs \<and>
      sv_stopping (fold (add_child now) specs sv) = sv_stopping sv \<and>
      sv_gave_up (fold (add_child now) specs sv) = sv_gave_up sv \<and>
      sv_resolved (fold (add_child now) specs sv) = sv_resolved sv"
    if "\<not> sv_stopping sv" "distinct (map ch_name (sv_children sv) @ map fst specs)" for sv
    using that
  proof (induction specs arbitrary: sv)
    case (Cons spec specs)
    have fresh: "fst spec \<notin> ch_name ` set (sv_children sv)" using Cons.prems(2) by auto
    have one: "add_child now spec sv = tell (fst spec) Ev_Start (''pid '' @ (case snd spec of None \<Rightarrow> ''?'' | Some n \<Rightarrow> nat_str n))
        (sv\<lparr>sv_children := sv_children sv @ [started now (snd spec) (new_child (fst spec))]\<rparr>)"
      using Cons.prems(1) fresh
      by (simp add: add_child_def start_child_def child_of_def find_row_append find_row_single
          update_child_def update_row_append update_row_absent find_row_None[THEN iffD2] coalesce_def)
        (simp add: new_child_def update_row_def tell_def)
    then show ?case
      using Cons.IH[of "add_child now spec sv"] Cons.prems
      by (simp add: started_def new_child_def case_prod_beta)
  qed simp
  from this[of idle_supervisor] assms
  have fields: "sv_children (supervise now specs) = map (\<lambda>(n, pid). started now pid (new_child n)) specs"
    "\<not> sv_stopping (supervise now specs)" "sv_gave_up (supervise now specs) = []" "\<not> sv_resolved (supervise now specs)"
    by (simp_all add: supervise_def idle_supervisor_def)
  have names: "map ch_name (map (\<lambda>(n, pid). started now pid (new_child n)) specs) = map fst specs"
    by (simp add: started_def new_child_def case_prod_beta comp_def)
  show ?thesis
    unfolding supervisor_ok_def children_ok_def given_up_ok_def gave_up_names_def fields names
    using assms fields(2,4)
    by (cases specs) (auto simp: child_ok_def phase_ok_def started_def new_child_def)
qed

lemma supervised_ok: "supervised tm log_dir now sv h \<Longrightarrow> supervisor_ok tm sv h"
proof (induction rule: supervised.induct)
  case (event now sv h t ev)
  show ?case
  proof (cases ev)
    case (Exited name exit_code sig)
    with event(3) obtain c where "child_of name sv = Some c" "child_running c" by (auto split: option.splits)
    then show ?thesis unfolding Exited happen.simps by (rule exit_keeps[OF event.IH])
  next
    case (Spawn_Error name message)
    with event show ?thesis by (simp add: child_error_def supervisor_ok_def)
  next
    case (Timer_Fired name pid)
    with event(3) obtain c where "child_of name sv = Some c" "ch_timer c \<noteq> None" by (auto split: option.splits)
    from timer_keeps[OF event.IH this] show ?thesis by (simp add: Timer_Fired)
  next
    case Stop_Asked
    with event stop_keeps show ?thesis by simp
  qed
qed (rule supervise_ok)

section \<open>A component that cannot be started\<close>

definition unstarted :: "string \<Rightarrow> supervisor \<Rightarrow> bool" where
  "unstarted name sv \<longleftrightarrow> (\<exists>c. child_of name sv = Some c \<and> ch_process c = Some \<lparr>cp_pid = None\<rparr>)"

lemma child_of_update:
  assumes "row_update ch_name f"
  shows "child_of n (update_child name f sv) = (if n = name then map_option f (child_of name sv) else child_of n sv)"
  unfolding child_of_def update_child_simps by (rule row_update.find_update[OF assms])

lemma child_of_tell [simp]: "child_of n (tell m k d sv) = child_of n sv"
  by (simp add: child_of_def)

lemma child_of_give_up [simp]: "child_of n (give_up tm log_dir m sv) = child_of n sv"
  by (simp add: give_up_def Let_def child_of_def)

lemma find_map_timer:
  "List.find (\<lambda>r. ch_name r = n) (map (\<lambda>c. c\<lparr>ch_timer := None\<rparr>) cs) =
   map_option (\<lambda>c. c\<lparr>ch_timer := None\<rparr>) (List.find (\<lambda>r. ch_name r = n) cs)"
  by (induction cs) auto

lemma unstarted_stays:
  assumes ok: "supervisor_ok tm sv h" and un: "unstarted name sv" and can: "can_happen t ev sv"
  shows "unstarted name (happen tm log_dir t ev sv)"
proof -
  obtain c where c: "child_of name sv = Some c" "ch_process c = Some \<lparr>cp_pid = None\<rparr>"
    using un by (auto simp: unstarted_def)
  have no_timer: "ch_timer c = None"
    using child_okI[OF ok c(1)] c(2) by (auto simp: child_ok_def phase_ok_def split: option.splits)
  have "child_of name (happen tm log_dir t ev sv) = Some c \<or>
      child_of name (happen tm log_dir t ev sv) = Some (c\<lparr>ch_timer := None\<rparr>)"
  proof (cases ev)
    case (Exited n exit_code sig)
    then have "n \<noteq> name" using can c by (auto simp: child_running_def split: option.splits)
    then show ?thesis
      using c by (auto simp: Exited child_exit_def Let_def child_of_update[OF gone_row.row_update_axioms]
          child_of_update[OF exit_row.row_update_axioms] split: option.splits)
  next
    case (Spawn_Error n message)
    then show ?thesis using c by (simp add: child_error_def)
  next
    case (Timer_Fired n pid)
    then have "n \<noteq> name" using can c no_timer by (auto split: option.splits)
    then show ?thesis
      using c by (auto simp: Timer_Fired timer_fires_def start_child_def child_of_update[OF no_timer_row.row_update_axioms]
          child_of_update[OF started_row.row_update_axioms])
  next
    case Stop_Asked
    then show ?thesis
      using c by (simp add: stop_all_def child_of_def find_row_def find_map_timer)
  qed
  with c(2) show ?thesis by (auto simp: unstarted_def)
qed

section \<open>Rotation\<close>

lemma rotate_log_shifts:
  assumes "g 0 = Some content" "MAX_LOG_BYTES \<le> length content"
  shows "rotate_log g i =
    (if i = 0 then None else if i \<le> 2 then g (i - 1)
     else if i = 3 then (if g 2 = None then g 3 else g 2) else g i)"
proof -
  have "rev [1..<KEEP_ROTATIONS] = [2, 1]" by (simp add: KEEP_ROTATIONS_def upt_rec)
  moreover have "i \<le> 2 \<longleftrightarrow> i = 0 \<or> i = 1 \<or> i = 2" by arith
  ultimately show ?thesis
    using assms by (auto simp: rotate_log_def rename_gen_def eval_nat_numeral split: option.splits)
qed

end
