(* ===== verification/Supervisor_Properties.thy ===== *)
theory Supervisor_Properties
  imports Supervisor
begin

text \<open>
  The properties of the supervisor of a fleet machine: what state its components are in, when it gives up
  on one, and what happens to one that cannot be started.
\<close>

section \<open>Runs of the machine\<close>

text \<open>A sequence of timed events; \<open>None\<close> when one of them cannot happen.\<close>

fun play :: "timings \<Rightarrow> string \<Rightarrow> int \<Rightarrow> (int \<times> machine_event) list \<Rightarrow> supervisor \<Rightarrow> supervisor option" where
  "play tm log_dir now [] sv = Some sv"
| "play tm log_dir now ((t, ev) # evs) sv =
     (if now \<le> t \<and> can_happen t ev sv then play tm log_dir t evs (happen tm log_dir t ev sv) else None)"

fun history :: "timings \<Rightarrow> string \<Rightarrow> (int \<times> machine_event) list \<Rightarrow> supervisor \<Rightarrow> (string \<times> int) list" where
  "history tm log_dir [] sv = []"
| "history tm log_dir ((t, ev) # evs) sv =
     runs_ended t ev sv @ history tm log_dir evs (happen tm log_dir t ev sv)"

lemma play_supervised:
  "supervised tm log_dir now sv h \<Longrightarrow> play tm log_dir now evs sv = Some sv' \<Longrightarrow>
   \<exists>t. supervised tm log_dir t sv' (h @ history tm log_dir evs sv)"
proof (induction evs arbitrary: now sv h)
  case (Cons e evs)
  obtain t ev where e: "e = (t, ev)" by force
  with Cons.prems have "now \<le> t" "can_happen t ev sv" "play tm log_dir t evs (happen tm log_dir t ev sv) = Some sv'"
    by (auto split: if_splits)
  with Cons.IH[OF supervised.event[OF Cons.prems(1)], of t ev] show ?case by (auto simp: e)
qed auto

definition crash_loop :: "(int \<times> machine_event) list" where
  "crash_loop =
     [(10, Exited ''agent'' (Some 1) None), (1010, Timer_Fired ''agent'' (Some 2)),
      (70000, Exited ''agent'' (Some 1) None), (71000, Timer_Fired ''agent'' (Some 3)),
      (71001, Exited ''agent'' (Some 1) None), (73001, Timer_Fired ''agent'' (Some 4)),
      (73002, Exited ''agent'' (Some 1) None), (78002, Timer_Fired ''agent'' (Some 5)),
      (78003, Exited ''agent'' (Some 1) None), (88003, Timer_Fired ''agent'' (Some 6)),
      (88004, Exited ''agent'' None (Some ''SIGABRT'')), (118004, Timer_Fired ''agent'' (Some 7)),
      (118005, Exited ''agent'' (Some 1) None)]"

definition machine :: supervisor where
  "machine = supervise 0 [(''brain'', Some 8), (''agent'', Some 1)]"

lemma default_limits: "tm_give_up_after DEFAULT_TIMINGS = 5" "tm_healthy_after_ms DEFAULT_TIMINGS = 60000"
  by (simp_all add: DEFAULT_TIMINGS_def)

lemma machine_supervised: "supervised DEFAULT_TIMINGS ''logs'' 0 machine []"
  unfolding machine_def by (rule supervised.begun) simp

section \<open>Properties\<close>

text \<open>C22: the state of the supervised components. As long as the supervisor runs, each is exactly one of
  three things: a process, waiting for its restart, or given up. Once it was asked to stop no restart is
  pending, so nothing is started again. What \<open>fleet up\<close> waits for comes exactly when every component was
  given up.\<close>

theorem supervisor_sound:
  assumes "supervised tm log_dir now sv h"
  shows "(if sv_stopping sv then list_all (\<lambda>c. ch_timer c = None) (sv_children sv)
     else list_all (\<lambda>c. length (filter (\<lambda>b. b) [ch_process c \<noteq> None, ch_timer c \<noteq> None, ch_gave_up_at c \<noteq> None]) = 1)
       (sv_children sv)) \<and>
     (sv_resolved sv \<longleftrightarrow> sv_children sv \<noteq> [] \<and> list_all (\<lambda>c. ch_gave_up_at c \<noteq> None) (sv_children sv)) \<and>
     distinct (map ch_name (sv_children sv))"
proof -
  have ok: "supervisor_ok tm sv h" using assms by (rule supervised_ok)
  have "phase_ok (sv_stopping sv) c" if "c \<in> set (sv_children sv)" for c
    using ok that by (auto simp: supervisor_ok_def children_ok_def child_ok_def)
  moreover have "phase_ok True c \<Longrightarrow> ch_timer c = None"
    "phase_ok False c \<Longrightarrow>
       length (filter (\<lambda>b. b) [ch_process c \<noteq> None, ch_timer c \<noteq> None, ch_gave_up_at c \<noteq> None]) = 1" for c
    by (auto simp: phase_ok_def split: option.splits)
  ultimately have "if sv_stopping sv then list_all (\<lambda>c. ch_timer c = None) (sv_children sv)
     else list_all (\<lambda>c. length (filter (\<lambda>b. b) [ch_process c \<noteq> None, ch_timer c \<noteq> None, ch_gave_up_at c \<noteq> None]) = 1)
       (sv_children sv)"
    by (cases "sv_stopping sv") (simp_all add: list_all_iff)
  with ok show ?thesis by (simp add: supervisor_ok_def given_up_ok_def children_ok_def list_all_iff)
qed

theorem supervisor_sound_witness:
  "case play DEFAULT_TIMINGS ''logs'' 0 crash_loop machine of
     None \<Rightarrow> False
   | Some sv \<Rightarrow>
       list_all (\<lambda>c. length (filter (\<lambda>b. b) [ch_process c \<noteq> None, ch_timer c \<noteq> None, ch_gave_up_at c \<noteq> None]) = 1)
         (sv_children sv) \<and> \<not> sv_resolved sv"
proof -
  have shape: "case play DEFAULT_TIMINGS ''logs'' 0 crash_loop machine of
      None \<Rightarrow> False | Some sv \<Rightarrow> \<not> sv_stopping sv \<and> list_ex (\<lambda>c. ch_gave_up_at c = None) (sv_children sv)" by code_simp
  then obtain sv where sv: "play DEFAULT_TIMINGS ''logs'' 0 crash_loop machine = Some sv" "\<not> sv_stopping sv"
      "list_ex (\<lambda>c. ch_gave_up_at c = None) (sv_children sv)"
    by (auto split: option.splits)
  obtain t h where "supervised DEFAULT_TIMINGS ''logs'' t sv h" using play_supervised[OF machine_supervised sv(1)] by auto
  from supervisor_sound[OF this] sv show ?thesis by (auto simp: list_all_iff list_ex_iff)
qed

text \<open>when the supervisor gives up. A component is given up exactly when it has ended more often than the
  limit and its last runs, as many as the limit, were all short (at most the time after which a component
  counts as healthy). So a crash loop always ends, and a component is never given up for a failure after a
  long run, however many it had before.\<close>

theorem gives_up_on_crash_loops:
  assumes "supervised tm log_dir now sv h" "child_of name sv = Some c"
  shows "ch_gave_up_at c \<noteq> None \<longleftrightarrow>
    tm_give_up_after tm < length (runs_of name h) \<and>
    list_all (\<lambda>r. r \<le> tm_healthy_after_ms tm) (drop (length (runs_of name h) - tm_give_up_after tm) (runs_of name h))"
  using child_okI[OF supervised_ok[OF assms(1)] assms(2)] by (simp add: child_ok_def quick_restarts_exceed)

theorem gives_up_on_crash_loops_witness:
  "case play DEFAULT_TIMINGS ''logs'' 0 crash_loop machine of
     None \<Rightarrow> False
   | Some sv \<Rightarrow> (case child_of ''agent'' sv of None \<Rightarrow> False | Some c \<Rightarrow> ch_gave_up_at c \<noteq> None) \<and>
       runs_of ''agent'' (history DEFAULT_TIMINGS ''logs'' crash_loop machine) = [10, 68990, 1, 1, 1, 1, 1]"
proof -
  have runs: "runs_of ''agent'' (history DEFAULT_TIMINGS ''logs'' crash_loop machine) = [10, 68990, 1, 1, 1, 1, 1]"
    by code_simp
  have "case play DEFAULT_TIMINGS ''logs'' 0 crash_loop machine of
      None \<Rightarrow> False | Some sv \<Rightarrow> child_of ''agent'' sv \<noteq> None" by code_simp
  then obtain sv c where sv: "play DEFAULT_TIMINGS ''logs'' 0 crash_loop machine = Some sv" "child_of ''agent'' sv = Some c"
    by (auto split: option.splits)
  obtain t where "supervised DEFAULT_TIMINGS ''logs'' t sv (history DEFAULT_TIMINGS ''logs'' crash_loop machine)"
    using play_supervised[OF machine_supervised sv(1)] by auto
  from gives_up_on_crash_loops[OF this sv(2)] have "ch_gave_up_at c \<noteq> None" by (simp add: runs default_limits)
  with sv runs show ?thesis by simp
qed

text \<open>a component that cannot be started is never dealt with. Node reports a failed spawn by \<open>error\<close> in the
  place of \<open>exit\<close>, and only \<open>exit\<close> restarts, counts or gives up: whatever happens afterwards, the component
  keeps a process that does not exist, it is never restarted and never given up, what \<open>fleet up\<close> waits for
  never comes, and \<open>stop\<close> never returns.\<close>

theorem unstartable_component_hangs:
  assumes "supervised tm log_dir now sv h" "unstarted name sv" "play tm log_dir now evs sv = Some sv'"
  shows "(case child_of name sv' of
      None \<Rightarrow> False | Some c \<Rightarrow> ch_process c = Some \<lparr>cp_pid = None\<rparr> \<and> ch_timer c = None \<and> ch_gave_up_at c = None) \<and>
    \<not> sv_resolved sv' \<and> \<not> stop_done sv'"
proof -
  have "unstarted name sv' \<and> (\<exists>t h. supervised tm log_dir t sv' h)"
    using assms
  proof (induction evs arbitrary: now sv h)
    case (Cons e evs)
    obtain t ev where e: "e = (t, ev)" by force
    with Cons.prems have step: "now \<le> t" "can_happen t ev sv" "play tm log_dir t evs (happen tm log_dir t ev sv) = Some sv'"
      by (auto split: if_splits)
    show ?case
      by (rule Cons.IH[OF supervised.event[OF Cons.prems(1) step(1,2)] _ step(3)])
        (rule unstarted_stays[OF supervised_ok[OF Cons.prems(1)] Cons.prems(2) step(2)])
  qed auto
  then obtain t h' c where sup: "supervised tm log_dir t sv' h'" and c: "child_of name sv' = Some c"
      "ch_process c = Some \<lparr>cp_pid = None\<rparr>" by (auto simp: unstarted_def)
  have "phase_ok (sv_stopping sv') c" using child_okI[OF supervised_ok[OF sup] c(1)] by (simp add: child_ok_def)
  with c(2) have idle: "ch_timer c = None" "ch_gave_up_at c = None" by (auto simp: phase_ok_def split: option.splits)
  moreover have "\<not> sv_resolved sv'"
    using supervised_ok[OF sup] child_of_SomeD[OF c(1)] idle(2) by (auto simp: supervisor_ok_def given_up_ok_def)
  moreover have "\<not> stop_done sv'" using child_of_SomeD[OF c(1)] c(2) by (auto simp: stop_done_def list_all_iff)
  ultimately show ?thesis using c by simp
qed

theorem unstartable_component_hangs_witness:
  "case play DEFAULT_TIMINGS ''logs'' 0 [(5, Spawn_Error ''agent'' ''ENOENT''), (90000, Stop_Asked)]
        (supervise 0 [(''agent'', None)]) of
     None \<Rightarrow> False
   | Some sv \<Rightarrow> \<not> sv_resolved sv \<and> \<not> stop_done sv"
proof -
  have "case play DEFAULT_TIMINGS ''logs'' 0 [(5, Spawn_Error ''agent'' ''ENOENT''), (90000, Stop_Asked)]
      (supervise 0 [(''agent'', None)]) of None \<Rightarrow> False | Some sv \<Rightarrow> True" by code_simp
  then obtain sv where sv: "play DEFAULT_TIMINGS ''logs'' 0 [(5, Spawn_Error ''agent'' ''ENOENT''), (90000, Stop_Asked)]
      (supervise 0 [(''agent'', None)]) = Some sv" by (auto split: option.splits)
  have "supervised DEFAULT_TIMINGS ''logs'' 0 (supervise 0 [(''agent'', None)]) []" by (rule supervised.begun) simp
  moreover have "unstarted ''agent'' (supervise 0 [(''agent'', None)])"
    by (simp add: unstarted_def supervise_def add_child_def start_child_def child_of_def find_row_def idle_supervisor_def
        new_child_def update_child_def update_row_def started_def tell_def)
  ultimately show ?thesis using unstartable_component_hangs[OF _ _ sv] sv by simp
qed

end
