(* ===== verification/Host_World.thy ===== *)
theory Host_World
  imports Prelude
begin

text \<open>
  The host an executor runs on, as far as a job can tell: every command it runs may work, be ignored,
  fail before or after it took effect, or be the last thing the process does. A program is a function of
  a world and of the outcomes its commands will have (a list; when it is used up everything works).
  A small logic of pre- and postconditions, one for each way a program can end, carries the proofs.
\<close>

section \<open>Programs\<close>

datatype outcome = Takes | Ignored | Fails | Fails_Late | Dies | Dies_Late

datatype 'a ending = Returned 'a | Threw string | Died

type_synonym 'w host = "'w \<times> outcome list"

type_synonym ('a, 'w) io = "'w host \<Rightarrow> 'a ending \<times> 'w host"

definition world_after :: "'a ending \<times> 'w host \<Rightarrow> 'w" where
  "world_after r = fst (snd r)"

definition ret :: "'a \<Rightarrow> ('a, 'w) io" where
  "ret x = (\<lambda>h. (Returned x, h))"

definition throw :: "string \<Rightarrow> ('a, 'w) io" where
  "throw e = (\<lambda>h. (Threw e, h))"

definition bind_io :: "('a, 'w) io \<Rightarrow> ('a \<Rightarrow> ('b, 'w) io) \<Rightarrow> ('b, 'w) io" where
  "bind_io m f = (\<lambda>h. case m h of
       (Returned x, h') \<Rightarrow> f x h' | (Threw e, h') \<Rightarrow> (Threw e, h') | (Died, h') \<Rightarrow> (Died, h'))"

text \<open>\<open>try { m } catch (e) { k(e) }\<close>; a process that died runs no handler.\<close>

definition catch_io :: "('a, 'w) io \<Rightarrow> (string \<Rightarrow> ('a, 'w) io) \<Rightarrow> ('a, 'w) io" where
  "catch_io m k = (\<lambda>h. case m h of
       (Returned x, h') \<Rightarrow> (Returned x, h') | (Threw e, h') \<Rightarrow> k e h' | (Died, h') \<Rightarrow> (Died, h'))"

text \<open>\<open>try { m } finally { c }\<close> with a \<open>c\<close> that swallows its own exceptions.\<close>

definition finally_io :: "('a, 'w) io \<Rightarrow> (unit, 'w) io \<Rightarrow> ('a, 'w) io" where
  "finally_io m c = (\<lambda>h. case m h of
       (Died, h') \<Rightarrow> (Died, h')
     | (r, h') \<Rightarrow> (case c h' of (Died, h'') \<Rightarrow> (Died, h'') | (_, h'') \<Rightarrow> (r, h'')))"

definition quietly :: "('a, 'w) io \<Rightarrow> (unit, 'w) io" where
  "quietly m = catch_io (bind_io m (\<lambda>_. ret ())) (\<lambda>_. ret ())"

fun for_each :: "('a \<Rightarrow> (unit, 'w) io) \<Rightarrow> 'a list \<Rightarrow> (unit, 'w) io" where
  "for_each f [] = ret ()"
| "for_each f (x # xs) = bind_io (f x) (\<lambda>_. for_each f xs)"

definition get_world :: "('w, 'w) io" where
  "get_world = (\<lambda>(w, os). (Returned w, (w, os)))"

section \<open>Commands and files\<close>

text \<open>A command that should change the world, and one that reads it.\<close>

definition command :: "('w \<Rightarrow> 'w) \<Rightarrow> (unit, 'w) io" where
  "command f = (\<lambda>(w, os). case os of
       [] \<Rightarrow> (Returned (), (f w, []))
     | Takes # os' \<Rightarrow> (Returned (), (f w, os'))
     | Ignored # os' \<Rightarrow> (Returned (), (w, os'))
     | Fails # os' \<Rightarrow> (Threw ''command failed'', (w, os'))
     | Fails_Late # os' \<Rightarrow> (Threw ''command failed'', (f w, os'))
     | Dies # os' \<Rightarrow> (Died, (w, os'))
     | Dies_Late # os' \<Rightarrow> (Died, (f w, os')))"

definition ask :: "('w \<Rightarrow> 'a) \<Rightarrow> ('a, 'w) io" where
  "ask g = (\<lambda>(w, os). case os of
       [] \<Rightarrow> (Returned (g w), (w, []))
     | Fails # os' \<Rightarrow> (Threw ''command failed'', (w, os'))
     | Fails_Late # os' \<Rightarrow> (Threw ''command failed'', (w, os'))
     | Dies # os' \<Rightarrow> (Died, (w, os'))
     | Dies_Late # os' \<Rightarrow> (Died, (w, os'))
     | _ # os' \<Rightarrow> (Returned (g w), (w, os')))"

text \<open>
  A file written in place: \<open>f\<close> is the world with the new content, \<open>torn\<close> the world with the half of it
  that was there when the process died.
\<close>

definition write_file :: "('w \<Rightarrow> 'w) \<Rightarrow> ('w \<Rightarrow> 'w) \<Rightarrow> (unit, 'w) io" where
  "write_file f torn = (\<lambda>(w, os). case os of
       [] \<Rightarrow> (Returned (), (f w, []))
     | Fails # os' \<Rightarrow> (Threw ''cannot write'', (w, os'))
     | Fails_Late # os' \<Rightarrow> (Threw ''cannot write'', (f w, os'))
     | Dies # os' \<Rightarrow> (Died, (w, os'))
     | Dies_Late # os' \<Rightarrow> (Died, (torn w, os'))
     | _ # os' \<Rightarrow> (Returned (), (f w, os')))"

section \<open>A logic of endings\<close>

text \<open>
  From a world with \<open>P\<close>: a returned value has \<open>Q\<close>, an exception leaves \<open>E\<close>, the death of the process
  leaves \<open>D\<close>, whatever the commands do.
\<close>

named_theorems io_rules

definition io_ok :: "('w \<Rightarrow> bool) \<Rightarrow> ('a, 'w) io \<Rightarrow> ('a \<Rightarrow> 'w \<Rightarrow> bool) \<Rightarrow> ('w \<Rightarrow> bool) \<Rightarrow> ('w \<Rightarrow> bool) \<Rightarrow> bool" where
  "io_ok P m Q E D \<longleftrightarrow>
     (\<forall>w os. P w \<longrightarrow> (case m (w, os) of
         (Returned x, (w', _)) \<Rightarrow> Q x w' | (Threw _, (w', _)) \<Rightarrow> E w' | (Died, (w', _)) \<Rightarrow> D w'))"

lemma io_okI:
  "(\<And>w os. P w \<Longrightarrow> case m (w, os) of
      (Returned x, (w', _)) \<Rightarrow> Q x w' | (Threw _, (w', _)) \<Rightarrow> E w' | (Died, (w', _)) \<Rightarrow> D w') \<Longrightarrow> io_ok P m Q E D"
  by (simp add: io_ok_def)

lemma io_okD:
  assumes "io_ok P m Q E D" "P w" "m (w, os) = (r, (w', os'))"
  shows "case r of Returned x \<Rightarrow> Q x w' | Threw _ \<Rightarrow> E w' | Died \<Rightarrow> D w'"
  using assms(1) [unfolded io_ok_def, rule_format, OF assms(2), of os] assms(3) by (cases r) simp_all

lemma io_weaken:
  assumes "io_ok P' m Q' E' D'" "\<And>w. P w \<Longrightarrow> P' w" "\<And>x w. Q' x w \<Longrightarrow> Q x w" "\<And>w. E' w \<Longrightarrow> E w" "\<And>w. D' w \<Longrightarrow> D w"
  shows "io_ok P m Q E D"
  using assms unfolding io_ok_def by (fastforce split: ending.splits prod.splits)

lemma io_ret [io_rules]: "(\<And>w. P w \<Longrightarrow> Q x w) \<Longrightarrow> io_ok P (ret x) Q E D"
  by (simp add: io_ok_def ret_def)

lemma io_throw [io_rules]: "(\<And>w. P w \<Longrightarrow> E w) \<Longrightarrow> io_ok P (throw e) Q E D"
  by (simp add: io_ok_def throw_def)

lemma io_bind:
  assumes "io_ok P m R E D" "\<And>x. io_ok (R x) (f x) Q E D"
  shows "io_ok P (bind_io m f) Q E D"
  using assms unfolding io_ok_def bind_io_def by (fastforce split: ending.splits prod.splits)

lemma io_catch:
  assumes "io_ok P m Q R D" "\<And>e. io_ok R (k e) Q E D"
  shows "io_ok P (catch_io m k) Q E D"
  using assms unfolding io_ok_def catch_io_def by (fastforce split: ending.splits prod.splits)

lemma io_finally:
  assumes "io_ok P m (\<lambda>_. R) R D" "io_ok R c (\<lambda>_. S) S D"
  shows "io_ok P (finally_io m c) (\<lambda>_. S) S D"
  using assms unfolding io_ok_def finally_io_def by (fastforce split: ending.splits prod.splits)

lemma io_quietly:
  assumes "io_ok P m (\<lambda>_. S) S D" shows "io_ok P (quietly m) (\<lambda>_. S) E D"
  unfolding quietly_def by (rule io_catch io_bind io_ret assms | assumption)+

lemma io_for_each:
  assumes "\<And>x. x \<in> set xs \<Longrightarrow> io_ok I (f x) (\<lambda>_. I) E D"
  shows "io_ok I (for_each f xs) (\<lambda>_. I) E D"
  using assms
proof (induction xs)
  case (Cons x xs)
  then show ?case by (auto intro: io_bind)
qed (auto intro: io_ret)

lemma io_command:
  assumes "\<And>w. P w \<Longrightarrow> Q () w \<and> Q () (f w)" "\<And>w. P w \<Longrightarrow> E w \<and> E (f w)" "\<And>w. P w \<Longrightarrow> D w \<and> D (f w)"
  shows "io_ok P (command f) Q E D"
  using assms unfolding io_ok_def command_def by (auto split: list.splits outcome.splits)

lemma io_ask:
  assumes "\<And>w. P w \<Longrightarrow> Q (g w) w" "\<And>w. P w \<Longrightarrow> E w" "\<And>w. P w \<Longrightarrow> D w"
  shows "io_ok P (ask g) Q E D"
  using assms unfolding io_ok_def ask_def by (auto split: list.splits outcome.splits)

lemma io_write_file:
  assumes "\<And>w. P w \<Longrightarrow> Q () (f w)" "\<And>w. P w \<Longrightarrow> E w \<and> E (f w)" "\<And>w. P w \<Longrightarrow> D w \<and> D (torn w)"
  shows "io_ok P (write_file f torn) Q E D"
  using assms unfolding io_ok_def write_file_def by (auto split: list.splits outcome.splits)

lemma io_get [io_rules]: "(\<And>w. P w \<Longrightarrow> Q w w) \<Longrightarrow> io_ok P get_world Q E D"
  by (simp add: io_ok_def get_world_def)

section \<open>When everything works\<close>

text \<open>Total correctness of a program none of whose commands fails any more.\<close>

definition runs :: "('w \<Rightarrow> bool) \<Rightarrow> ('a, 'w) io \<Rightarrow> ('a \<Rightarrow> 'w \<Rightarrow> bool) \<Rightarrow> bool" where
  "runs P m Q \<longleftrightarrow> (\<forall>w. P w \<longrightarrow> (\<exists>x w'. m (w, []) = (Returned x, (w', [])) \<and> Q x w'))"

lemma runsD: "runs P m Q \<Longrightarrow> P w \<Longrightarrow> \<exists>x w'. m (w, []) = (Returned x, (w', [])) \<and> Q x w'"
  by (simp add: runs_def)

lemma runs_weaken:
  "runs P' m Q' \<Longrightarrow> (\<And>w. P w \<Longrightarrow> P' w) \<Longrightarrow> (\<And>x w. Q' x w \<Longrightarrow> Q x w) \<Longrightarrow> runs P m Q"
  unfolding runs_def by blast

lemma runs_ret: "(\<And>w. P w \<Longrightarrow> Q x w) \<Longrightarrow> runs P (ret x) Q"
  by (simp add: runs_def ret_def)

lemma runs_get: "(\<And>w. P w \<Longrightarrow> Q w w) \<Longrightarrow> runs P get_world Q"
  by (simp add: runs_def get_world_def)

lemma runs_command: "(\<And>w. P w \<Longrightarrow> Q () (f w)) \<Longrightarrow> runs P (command f) Q"
  by (simp add: runs_def command_def)

lemma runs_ask: "(\<And>w. P w \<Longrightarrow> Q (g w) w) \<Longrightarrow> runs P (ask g) Q"
  by (simp add: runs_def ask_def)

lemma runs_write_file: "(\<And>w. P w \<Longrightarrow> Q () (f w)) \<Longrightarrow> runs P (write_file f torn) Q"
  by (simp add: runs_def write_file_def)

lemma runs_bind:
  assumes "runs P m R" "\<And>x. runs (R x) (f x) Q" shows "runs P (bind_io m f) Q"
  unfolding runs_def
proof (intro allI impI)
  fix w assume "P w"
  from runsD[OF assms(1) this] obtain x w' where m: "m (w, []) = (Returned x, (w', []))" and "R x w'" by blast
  have "bind_io m f (w, []) = f x (w', [])" by (simp add: bind_io_def m)
  then show "\<exists>y w''. bind_io m f (w, []) = (Returned y, (w'', [])) \<and> Q y w''"
    using runsD[OF assms(2) \<open>R x w'\<close>] by simp
qed

lemma runs_catch: "runs P m Q \<Longrightarrow> runs P (catch_io m k) Q"
  unfolding runs_def
proof (intro allI impI)
  fix w assume run: "\<forall>w. P w \<longrightarrow> (\<exists>x w'. m (w, []) = (Returned x, (w', [])) \<and> Q x w')" and w: "P w"
  from run[rule_format, OF w] obtain x w' where m: "m (w, []) = (Returned x, (w', []))" and "Q x w'" by (elim exE conjE)
  have "catch_io m k (w, []) = (Returned x, (w', []))" by (simp add: catch_io_def m)
  then show "\<exists>y w''. catch_io m k (w, []) = (Returned y, (w'', [])) \<and> Q y w''" using \<open>Q x w'\<close> by (intro exI conjI)
qed

lemma runs_and:
  assumes "io_ok P m Q E D" "runs P m R" shows "runs P m (\<lambda>x w. Q x w \<and> R x w)"
  unfolding runs_def
proof (intro allI impI)
  fix w assume w: "P w"
  from runsD[OF assms(2) w] obtain x w' where m: "m (w, []) = (Returned x, (w', []))" and "R x w'" by blast
  with io_okD[OF assms(1) w m] have "m (w, []) = (Returned x, (w', [])) \<and> Q x w' \<and> R x w'" by simp
  then show "\<exists>x w'. m (w, []) = (Returned x, (w', [])) \<and> Q x w' \<and> R x w'" by (intro exI)
qed

lemma runs_if: "(b \<Longrightarrow> runs P m Q) \<Longrightarrow> (\<not> b \<Longrightarrow> runs P m' Q) \<Longrightarrow> runs P (if b then m else m') Q"
  by simp

lemma runs_case: "(\<And>w. P w \<Longrightarrow> runs (\<lambda>w'. w' = w) m Q) \<Longrightarrow> runs P m Q"
  by (simp add: runs_def)

lemma io_case: "(\<And>w. P w \<Longrightarrow> io_ok (\<lambda>w'. w' = w) m Q E D) \<Longrightarrow> io_ok P m Q E D"
  by (simp add: io_ok_def)

lemma io_never [simp]: "io_ok (\<lambda>_. False) m Q E D"
  by (simp add: io_ok_def)

lemma runs_never [simp]: "runs (\<lambda>_. False) m Q"
  by (simp add: runs_def)

end
