(* ===== verification/Device_State.thy ===== *)
theory Device_State
  imports Host_World Store
begin

text \<open>
  Device settings a job changes and must put back (\<open>collector/src/device-state.ts\<close>): the readers of what
  the tools print, the journal, applying a group of settings, restoring it, and the sweep at start-up.
  The world is what the settings of every device really are and the journal file, which is \<open>None\<close> when
  it is missing or cannot be read. A tool that answers at all is taken to answer truly; the value it
  gives is what the reader made of its text.
\<close>

section \<open>Reading what the tools print\<close>

definition CR :: char where "CR = CHR 0x0D"

definition no_cr :: "string \<Rightarrow> string" where
  "no_cr s = filter (\<lambda>c. c \<noteq> CR) s"

definition parse_android_setting_value :: "string \<Rightarrow> string option" where
  "parse_android_setting_value out = (let v = trim (no_cr out) in if v = [] \<or> v = ''null'' then None else Some v)"

text \<open>The text after the first occurrence of a word, found without regard to case.\<close>

fun after_word :: "string \<Rightarrow> string \<Rightarrow> string option" where
  "after_word p [] = (if p = [] then Some [] else None)"
| "after_word p (c # s) = (if prefix p (lower (c # s)) then Some (drop (length p) (c # s)) else after_word p s)"

text \<open>\<open>/Night mode:\s*(\S+)/i\<close>\<close>

definition parse_uimode_night :: "string \<Rightarrow> string option" where
  "parse_uimode_night out =
     (case after_word ''night mode:'' (no_cr out) of
        None \<Rightarrow> None
      | Some r \<Rightarrow>
          (let w = takeWhile (\<lambda>c. \<not> is_space c) (dropWhile is_space r) in if w = [] then None else Some (lower w)))"

text \<open>\<open>.replace(/^"(.*)"$/, "$1")\<close>\<close>

definition unquoted :: "string \<Rightarrow> string" where
  "unquoted s =
     (if 2 \<le> length s \<and> hd s = CHR 0x22 \<and> last s = CHR 0x22 \<and> list_all (\<lambda>c. code c \<noteq> 10 \<and> code c \<noteq> 13) s
      then butlast (tl s) else s)"

definition parse_defaults_array :: "string \<Rightarrow> string list option" where
  "parse_defaults_array out =
     (let t = no_cr out in
      if contains ''does not exist'' (lower t) then None
      else if CHR ''('' \<notin> set t \<or> CHR '')'' \<notin> set (tl (dropWhile (\<lambda>c. c \<noteq> CHR ''('') t)) then None
      else
        let inner = tl (dropWhile (\<lambda>c. c \<noteq> CHR ''('') t);
            body = rev (tl (dropWhile (\<lambda>c. c \<noteq> CHR '')'') (rev inner)));
            items = filter (\<lambda>s. s \<noteq> []) (map (\<lambda>s. trim (unquoted (trim s))) (split_on CHR '','' body))
        in if items = [] then None else Some items)"

definition parse_defaults_string :: "string \<Rightarrow> string option" where
  "parse_defaults_string out =
     (let t = trim (no_cr out) in if t = [] \<or> contains ''does not exist'' (lower t) then None else Some (unquoted t))"

definition word_char :: "char \<Rightarrow> bool" where
  "word_char c \<longleftrightarrow> is_alpha c \<or> is_digit c \<or> c = CHR ''_''"

text \<open>\<open>/^(usage|error|invalid|unknown|unrecognized|no devices)\b/i\<close>\<close>

definition is_complaint :: "string \<Rightarrow> bool" where
  "is_complaint l \<longleftrightarrow>
     list_ex (\<lambda>p. starts_with p (lower l) \<and> (length l = length p \<or> \<not> word_char (l ! length p)))
       [''usage'', ''error'', ''invalid'', ''unknown'', ''unrecognized'', ''no devices'']"

text \<open>\<open>/^(?:[\w_]+:\s*)?([A-Za-z][\w-]*)$/\<close>\<close>

definition ui_value_line :: "string \<Rightarrow> string option" where
  "ui_value_line l =
     (let pre = takeWhile (\<lambda>c. c \<noteq> CHR '':'') l; colon = (CHR '':'' \<in> set l);
          v = (if colon then dropWhile is_space (drop (length pre + 1) l) else l)
      in if (colon \<longrightarrow> pre \<noteq> [] \<and> list_all word_char pre) \<and> v \<noteq> [] \<and> is_alpha (hd v) \<and>
            list_all (\<lambda>c. word_char c \<or> c = CHR ''-'') v
         then Some (lower v) else None)"

definition parse_simctl_ui_value :: "string \<Rightarrow> string option" where
  "parse_simctl_ui_value out =
     (let ls = filter (\<lambda>l. l \<noteq> []) (map trim (split_on (CHR 0x0A) (no_cr out))) in
      if list_ex is_complaint ls then None
      else case List.map_filter ui_value_line (rev ls) of [] \<Rightarrow> None | v # _ \<Rightarrow> Some v)"

section \<open>Settings\<close>

definition SETTINGS :: "string list" where
  "SETTINGS =
     [''android:system.system_locales'', ''android:system.font_scale'', ''android:secure.font_weight_adjustment'',
      ''android:uimode.night'', ''ios:defaults.AppleLanguages'', ''ios:defaults.AppleLocale'', ''ios:ui.appearance'',
      ''ios:ui.content_size'']"

definition is_setting_name :: "string \<Rightarrow> bool" where
  "is_setting_name s \<longleftrightarrow> s \<in> set SETTINGS"

text \<open>\<open>/^android:(system|secure|global)\.(.+)$/\<close>\<close>

definition android_namespace :: "string \<Rightarrow> (string \<times> string) option" where
  "android_namespace name =
     (case List.find (\<lambda>ns. starts_with (''android:'' @ ns @ ''.'') name \<and> length (''android:'' @ ns @ ''.'') < length name)
             [''system'', ''secure'', ''global''] of
        None \<Rightarrow> None
      | Some ns \<Rightarrow> Some (ns, drop (length (''android:'' @ ns @ ''.'')) name))"

record state_target =
  st_id :: id
  st_platform :: string
  st_kind :: "string option"

datatype domain = Locale | Display

definition DOMAINS :: "domain list" where "DOMAINS = [Locale, Display]"

fun domain_str :: "domain \<Rightarrow> string" where
  "domain_str Locale = ''locale''"
| "domain_str Display = ''display''"

record state_entry =
  se_domain :: domain
  se_platform :: string
  se_kind :: "string option"
  se_prior :: "(string \<times> string option) list"
  se_wanted :: "(string \<times> string) list"

type_synonym journal_key = "domain \<times> id"

record state_world =
  sw_value :: "id \<Rightarrow> string \<Rightarrow> string option"
  sw_journal :: "(journal_key \<rightharpoonup> state_entry) option"

definition read_journal :: "state_world \<Rightarrow> (journal_key \<rightharpoonup> state_entry)" where
  "read_journal w = (case sw_journal w of None \<Rightarrow> Map.empty | Some j \<Rightarrow> j)"

definition write_journal :: "(journal_key \<rightharpoonup> state_entry) \<Rightarrow> (unit, state_world) io" where
  "write_journal j = write_file (\<lambda>w. w\<lparr>sw_journal := Some j\<rparr>) (\<lambda>w. w\<lparr>sw_journal := None\<rparr>)"

definition journal_put :: "domain \<Rightarrow> id \<Rightarrow> state_entry \<Rightarrow> (unit, state_world) io" where
  "journal_put d i e = bind_io get_world (\<lambda>w. write_journal ((read_journal w)((d, i) \<mapsto> e)))"

definition journal_drop :: "domain \<Rightarrow> id \<Rightarrow> (unit, state_world) io" where
  "journal_drop d i =
     bind_io get_world (\<lambda>w.
       if read_journal w (d, i) = None then ret () else write_journal ((read_journal w)((d, i) := None)))"

definition journal_get :: "domain \<Rightarrow> id \<Rightarrow> (state_entry option, state_world) io" where
  "journal_get d i = bind_io get_world (\<lambda>w. ret (read_journal w (d, i)))"

definition unmanageable :: "state_target \<Rightarrow> bool" where
  "unmanageable t \<longleftrightarrow> st_platform t \<noteq> ''android'' \<and> st_kind t \<noteq> Some ''simulator''"

definition read_setting :: "state_target \<Rightarrow> string \<Rightarrow> (string option, state_world) io" where
  "read_setting t name = ask (\<lambda>w. sw_value w (st_id t) name)"

definition is_ui_setting :: "string \<Rightarrow> bool" where
  "is_ui_setting name \<longleftrightarrow> name = ''ios:ui.appearance'' \<or> name = ''ios:ui.content_size''"

text \<open>What a setting is once it was written: night mode has no unset.\<close>

definition written_value :: "string \<Rightarrow> string option \<Rightarrow> string option" where
  "written_value name v =
     (if android_namespace name = None \<and> name = ''android:uimode.night''
      then Some (case v of None \<Rightarrow> ''no'' | Some x \<Rightarrow> x) else v)"

definition put_value :: "id \<Rightarrow> string \<Rightarrow> string option \<Rightarrow> state_world \<Rightarrow> state_world" where
  "put_value i name v w = w\<lparr>sw_value := (sw_value w)(i := (sw_value w i)(name := v))\<rparr>"

definition write_setting :: "state_target \<Rightarrow> string \<Rightarrow> string option \<Rightarrow> (unit, state_world) io" where
  "write_setting t name v =
     (if is_ui_setting name \<and> v = None then ret ()
      else command (put_value (st_id t) name (written_value name v)))"

definition plain_value :: "string option \<Rightarrow> string" where
  "plain_value v = map (\<lambda>c. if c = CHR ''_'' then CHR ''-'' else c) (lower (trim (case v of None \<Rightarrow> [] | Some x \<Rightarrow> x)))"

definition same_value :: "string option \<Rightarrow> string option \<Rightarrow> bool" where
  "same_value a b \<longleftrightarrow> plain_value a = plain_value b"

section \<open>Restoring\<close>

text \<open>One setting: whether it had to be changed, or what went wrong.\<close>

definition restore_setting :: "state_target \<Rightarrow> string \<times> string option \<Rightarrow> (bool \<times> bool, state_world) io" where
  "restore_setting t nv =
     (case nv of (name, wanted) \<Rightarrow>
        bind_io (catch_io (bind_io (read_setting t name) (\<lambda>v. ret (Some v))) (\<lambda>_. ret None)) (\<lambda>now.
          case now of
            None \<Rightarrow> ret (False, False)
          | Some v \<Rightarrow>
              if same_value v wanted then ret (False, True)
              else
                catch_io
                  (bind_io (write_setting t name wanted) (\<lambda>_.
                    bind_io (read_setting t name) (\<lambda>after. ret (True, same_value after wanted))))
                  (\<lambda>_. ret (True, False))))"

fun restore_settings :: "state_target \<Rightarrow> (string \<times> string option) list \<Rightarrow> (bool \<times> bool, state_world) io" where
  "restore_settings t [] = ret (False, True)"
| "restore_settings t (nv # rest) =
     bind_io (restore_setting t nv) (\<lambda>(changed, fine).
       bind_io (restore_settings t rest) (\<lambda>(changed', fine'). ret (changed \<or> changed', fine \<and> fine')))"

definition restore_state :: "state_target \<Rightarrow> domain \<Rightarrow> (bool, state_world) io" where
  "restore_state t d =
     bind_io (journal_get d (st_id t)) (\<lambda>entry.
       case entry of
         None \<Rightarrow> ret False
       | Some e \<Rightarrow>
           if unmanageable t then throw (st_id t @ '' has journalled '' @ domain_str d @ '' state but cannot be written to'')
           else bind_io (restore_settings t (se_prior e)) (\<lambda>(changed, fine).
             if \<not> fine then throw (st_id t @ '' is not fully restored ('' @ domain_str d @ '')'')
             else bind_io (journal_drop d (st_id t)) (\<lambda>_. ret changed)))"

section \<open>Applying\<close>

fun read_priors :: "state_target \<Rightarrow> string list \<Rightarrow> ((string \<times> string option) list, state_world) io" where
  "read_priors t [] = ret []"
| "read_priors t (name # rest) =
     bind_io (catch_io (read_setting t name)
         (\<lambda>_. throw (''cannot read '' @ name @ '' on '' @ st_id t @ '', so it cannot be safely changed''))) (\<lambda>v.
       if v = None \<and> is_ui_setting name
       then throw (''simctl could not report the current setting on '' @ st_id t @ '', so setting it could not be undone'')
       else bind_io (read_priors t rest) (\<lambda>vs. ret ((name, v) # vs)))"

definition set_one :: "state_target \<Rightarrow> domain \<Rightarrow> string \<times> string \<Rightarrow> (unit, state_world) io" where
  "set_one t d nv =
     catch_io (write_setting t (fst nv) (Some (snd nv)))
       (\<lambda>_. bind_io (quietly (restore_state t d)) (\<lambda>_. throw (''could not set '' @ fst nv @ '' on '' @ st_id t)))"

definition verify_one :: "state_target \<Rightarrow> domain \<Rightarrow> string \<times> string \<Rightarrow> (unit, state_world) io" where
  "verify_one t d nv =
     bind_io
       (catch_io (read_setting t (fst nv))
         (\<lambda>_. bind_io (quietly (restore_state t d)) (\<lambda>_. throw (''could not verify '' @ fst nv @ '' on '' @ st_id t))))
       (\<lambda>got. if same_value got (Some (snd nv)) then ret ()
              else bind_io (quietly (restore_state t d)) (\<lambda>_. throw (fst nv @ '' did not take on '' @ st_id t)))"

definition entry_for :: "state_target \<Rightarrow> domain \<Rightarrow> (string \<times> string option) list \<Rightarrow> (string \<times> string) list \<Rightarrow> state_entry" where
  "entry_for t d prior wanted =
     \<lparr>se_domain = d, se_platform = st_platform t, se_kind = st_kind t, se_prior = prior, se_wanted = wanted\<rparr>"

definition apply_state :: "state_target \<Rightarrow> domain \<Rightarrow> (string \<times> string) list \<Rightarrow> (unit, state_world) io" where
  "apply_state t d wanted =
     (if unmanageable t then throw (st_id t @ '' is physical '' @ st_platform t @ '' hardware'')
      else if wanted = [] then ret ()
      else case List.find (\<lambda>nv. \<not> is_setting_name (fst nv)) wanted of
        Some nv \<Rightarrow> throw (''unknown device setting '' @ fst nv)
      | None \<Rightarrow>
          bind_io (read_priors t (map fst wanted)) (\<lambda>prior.
            bind_io (journal_put d (st_id t) (entry_for t d prior wanted)) (\<lambda>_.
              bind_io (for_each (set_one t d) wanted) (\<lambda>_. for_each (verify_one t d) wanted))))"

section \<open>Around a job, and at start-up\<close>

definition with_state ::
  "state_target \<Rightarrow> domain \<Rightarrow> (string \<times> string) list \<Rightarrow> ('a, state_world) io \<Rightarrow> ('a, state_world) io" where
  "with_state t d wanted job =
     bind_io (apply_state t d wanted) (\<lambda>_. finally_io job (quietly (restore_state t d)))"

text \<open>The ids of the devices that needed repair; a failure is logged and the sweep goes on.\<close>

definition sweep_one :: "state_target \<Rightarrow> domain \<Rightarrow> id list \<Rightarrow> (id list, state_world) io" where
  "sweep_one t d repaired =
     catch_io (bind_io (restore_state t d) (\<lambda>changed.
         ret (if changed \<and> st_id t \<notin> set repaired then repaired @ [st_id t] else repaired)))
       (\<lambda>_. ret repaired)"

fun sweep_all :: "(state_target \<times> domain) list \<Rightarrow> id list \<Rightarrow> (id list, state_world) io" where
  "sweep_all [] repaired = ret repaired"
| "sweep_all ((t, d) # rest) repaired = bind_io (sweep_one t d repaired) (sweep_all rest)"

definition restore_attached_state :: "state_target list \<Rightarrow> (id list, state_world) io" where
  "restore_attached_state targets = sweep_all (concat (map (\<lambda>t. map (\<lambda>d. (t, d)) DOMAINS) targets)) []"

end
