(* ===== verification/Device_State_Laws.thy ===== *)
theory Device_State_Laws
  imports Device_State
begin

text \<open>
  Laws of the journal discipline: at every moment of a job, and wherever it is cut off, a device is
  either as it was found or has a journal entry that says how it was found; and a restore that is let
  work brings it back from there.
\<close>

section \<open>The invariant\<close>

definition entry_at :: "domain \<Rightarrow> id \<Rightarrow> state_world \<Rightarrow> state_entry option" where
  "entry_at d i w = read_journal w (d, i)"

definition noted :: "state_target \<Rightarrow> (string \<Rightarrow> string option) \<Rightarrow> string list \<Rightarrow> state_entry \<Rightarrow> bool" where
  "noted t orig names e \<longleftrightarrow> se_prior e = map (\<lambda>n. (n, orig n)) names \<and> \<not> unmanageable t \<and>
     list_all (\<lambda>n. is_ui_setting n \<longrightarrow> orig n \<noteq> None) names"

definition as_found :: "state_target \<Rightarrow> (string \<Rightarrow> string option) \<Rightarrow> string list \<Rightarrow> state_world \<Rightarrow> bool" where
  "as_found t orig names w \<longleftrightarrow> (\<forall>n \<in> set names. same_value (sw_value w (st_id t) n) (orig n))"

definition others_quiet :: "state_target \<Rightarrow> domain \<Rightarrow> state_world \<Rightarrow> bool" where
  "others_quiet t d w \<longleftrightarrow> (\<forall>d'. d' \<noteq> d \<longrightarrow> entry_at d' (st_id t) w = None)"

definition recoverable :: "state_target \<Rightarrow> domain \<Rightarrow> (string \<Rightarrow> string option) \<Rightarrow> string list \<Rightarrow> state_world \<Rightarrow> bool" where
  "recoverable t d orig names w \<longleftrightarrow>
     others_quiet t d w \<and>
     (case entry_at d (st_id t) w of None \<Rightarrow> as_found t orig names w | Some e \<Rightarrow> noted t orig names e)"

definition journalled :: "state_target \<Rightarrow> domain \<Rightarrow> state_entry \<Rightarrow> state_world \<Rightarrow> bool" where
  "journalled t d e w \<longleftrightarrow> others_quiet t d w \<and> entry_at d (st_id t) w = Some e"

lemma same_value_refl [simp]: "same_value v v"
  by (simp add: same_value_def)

lemma journalled_recoverable: "noted t orig names e \<Longrightarrow> journalled t d e w \<Longrightarrow> recoverable t d orig names w"
  by (simp add: recoverable_def journalled_def)

section \<open>Commands and the journal file\<close>

lemma entry_put_value [simp]: "entry_at d i (put_value i' n v w) = entry_at d i w"
  by (simp add: entry_at_def put_value_def read_journal_def)

lemma quiet_put_value [simp]: "others_quiet t d (put_value i n v w) = others_quiet t d w"
  by (simp add: others_quiet_def)

lemma journalled_put_value [simp]: "journalled t d e (put_value i n v w) = journalled t d e w"
  by (simp add: journalled_def)

lemma value_put_value [simp]:
  "sw_value (put_value i n v w) i' n' = (if i' = i \<and> n' = n then v else sw_value w i' n')"
  by (simp add: put_value_def)

lemma entry_written [simp]:
  "entry_at d i (w\<lparr>sw_journal := Some j\<rparr>) = j (d, i)" "entry_at d i (w\<lparr>sw_journal := None\<rparr>) = None"
  by (simp_all add: entry_at_def read_journal_def)

lemma found_written [simp]: "as_found t orig names (w\<lparr>sw_journal := j\<rparr>) = as_found t orig names w"
  by (simp add: as_found_def)

lemma read_setting_rule:
  "(\<And>w. P w \<Longrightarrow> Q (sw_value w (st_id t) n) w) \<Longrightarrow> (\<And>w. P w \<Longrightarrow> E w) \<Longrightarrow> (\<And>w. P w \<Longrightarrow> D w) \<Longrightarrow>
   io_ok P (read_setting t n) Q E D"
  unfolding read_setting_def by (rule io_ask)

lemma write_setting_rule:
  assumes "\<And>w v. P w \<Longrightarrow> Q (put_value (st_id t) n v w)" "\<And>w. P w \<Longrightarrow> Q w"
  shows "io_ok P (write_setting t n v) (\<lambda>_. Q) Q Q"
  unfolding write_setting_def using assms by (auto intro!: io_ret io_command)

lemma journal_put_rule:
  assumes "\<And>w. P w \<Longrightarrow> Q (w\<lparr>sw_journal := Some ((read_journal w)((d, i) \<mapsto> e))\<rparr>)" "\<And>w. P w \<Longrightarrow> J w"
    "\<And>w. Q w \<Longrightarrow> J w" "\<And>w. P w \<Longrightarrow> J (w\<lparr>sw_journal := None\<rparr>)"
  shows "io_ok P (journal_put d i e) (\<lambda>_. Q) J J"
  unfolding journal_put_def write_journal_def io_ok_def bind_io_def get_world_def write_file_def
  using assms by (auto split: list.splits outcome.splits)

lemma journal_drop_rule:
  assumes "\<And>w. P w \<Longrightarrow> J w" "\<And>w. Q w \<Longrightarrow> J w" "\<And>w. P w \<Longrightarrow> J (w\<lparr>sw_journal := None\<rparr>)"
    "\<And>w. P w \<Longrightarrow> entry_at d i w = None \<Longrightarrow> Q w"
    "\<And>w. P w \<Longrightarrow> Q (w\<lparr>sw_journal := Some ((read_journal w)((d, i) := None))\<rparr>)"
  shows "io_ok P (journal_drop d i) (\<lambda>_. Q) J J"
  unfolding journal_drop_def write_journal_def io_ok_def bind_io_def get_world_def write_file_def ret_def
  using assms by (auto simp: entry_at_def split: list.splits outcome.splits)

lemma journal_get_rule:
  "(\<And>w. P w \<Longrightarrow> Q (entry_at d i w) w) \<Longrightarrow> io_ok P (journal_get d i) Q E D"
  unfolding journal_get_def io_ok_def bind_io_def get_world_def ret_def entry_at_def by simp

section \<open>Restoring\<close>

definition settled :: "state_target \<Rightarrow> (string \<times> string option) list \<Rightarrow> state_world \<Rightarrow> bool" where
  "settled t nvs w \<longleftrightarrow> (\<forall>(n, v) \<in> set nvs. same_value (sw_value w (st_id t) n) v)"

lemma settled_put: "n \<notin> fst ` set nvs \<Longrightarrow> settled t nvs (put_value (st_id t) n v w) = settled t nvs w"
  unfolding settled_def by (rule ball_cong) (auto simp: image_iff)

definition kept ::
  "state_target \<Rightarrow> domain \<Rightarrow> state_entry \<Rightarrow> (string \<times> string option) list \<Rightarrow> state_world \<Rightarrow> bool" where
  "kept t d e nvs w \<longleftrightarrow> journalled t d e w \<and> settled t nvs w"

lemma kept_put: "n \<notin> fst ` set nvs \<Longrightarrow> kept t d e nvs (put_value (st_id t) n x w) = kept t d e nvs w"
  by (simp add: kept_def settled_put)

lemma restore_setting_rule:
  assumes new: "n \<notin> fst ` set nvs"
  shows "io_ok (kept t d e nvs) (restore_setting t (n, v))
    (\<lambda>r w. kept t d e nvs w \<and> (snd r \<longrightarrow> same_value (sw_value w (st_id t) n) v)) (kept t d e nvs) (kept t d e nvs)"
proof -
  let ?K = "kept t d e nvs"
  let ?Q = "\<lambda>r w. ?K w \<and> (snd r \<longrightarrow> same_value (sw_value w (st_id t) n) v)"
  let ?seen = "\<lambda>x w. ?K w \<and> x = sw_value w (st_id t) n"
  have see: "io_ok ?K (read_setting t n) ?seen ?K ?K"
    by (rule read_setting_rule) simp_all
  have read: "io_ok ?K (catch_io (bind_io (read_setting t n) (\<lambda>v. ret (Some v))) (\<lambda>_. ret None))
      (\<lambda>now w. ?K w \<and> (case now of None \<Rightarrow> True | Some x \<Rightarrow> x = sw_value w (st_id t) n)) ?K ?K"
    by (rule io_catch, rule io_bind, rule see) (auto intro: io_ret)
  have put: "io_ok ?K (write_setting t n v) (\<lambda>_. ?K) ?K ?K"
    by (rule write_setting_rule) (simp_all add: kept_put[OF new])
  have redo: "io_ok ?K
      (catch_io (bind_io (write_setting t n v) (\<lambda>_. bind_io (read_setting t n) (\<lambda>after. ret (True, same_value after v))))
        (\<lambda>_. ret (True, False))) ?Q ?K ?K"
    by (rule io_catch, rule io_bind, rule put, rule io_bind, rule see) (auto intro: io_ret)
  show ?thesis
    unfolding restore_setting_def prod.case
  proof (rule io_bind[OF read])
    fix now
    show "io_ok (\<lambda>w. ?K w \<and> (case now of None \<Rightarrow> True | Some x \<Rightarrow> x = sw_value w (st_id t) n))
       (case now of None \<Rightarrow> ret (False, False)
        | Some va \<Rightarrow> if same_value va v then ret (False, True)
           else catch_io (bind_io (write_setting t n v) (\<lambda>_. bind_io (read_setting t n) (\<lambda>after. ret (True, same_value after v))))
             (\<lambda>_. ret (True, False))) ?Q ?K ?K"
    proof (cases now)
      case (Some x)
      then show ?thesis by (cases "same_value x v") (auto intro: io_ret io_weaken[OF redo])
    qed (auto intro: io_ret)
  qed
qed

lemma restore_settings_rule:
  "distinct (map fst (nvs0 @ nvs)) \<Longrightarrow>
   io_ok (kept t d e nvs0) (restore_settings t nvs)
     (\<lambda>r w. journalled t d e w \<and> (snd r \<longrightarrow> settled t (nvs0 @ nvs) w)) (journalled t d e) (journalled t d e)"
proof (induction nvs arbitrary: nvs0)
  case Nil
  then show ?case by (auto intro!: io_ret simp: kept_def)
next
  case (Cons nv nvs)
  obtain n v where nv: "nv = (n, v)" by force
  let ?K = "kept t d e nvs0"
  have K_J: "\<And>w. ?K w \<Longrightarrow> journalled t d e w" by (simp add: kept_def)
  have one: "io_ok ?K (restore_setting t nv)
      (\<lambda>r w. ?K w \<and> (snd r \<longrightarrow> same_value (sw_value w (st_id t) n) v)) (journalled t d e) (journalled t d e)"
    by (rule io_weaken[OF restore_setting_rule[of n nvs0 t d e v, folded nv]]) (use Cons.prems nv in \<open>auto simp: K_J\<close>)
  have snoc: "kept t d e (nvs0 @ [nv]) w \<longleftrightarrow> ?K w \<and> same_value (sw_value w (st_id t) n) v" for w
    by (auto simp: kept_def settled_def nv)
  have rest: "io_ok (\<lambda>w. ?K w \<and> (fine \<longrightarrow> same_value (sw_value w (st_id t) n) v)) (restore_settings t nvs)
      (\<lambda>r w. journalled t d e w \<and> (fine \<and> snd r \<longrightarrow> settled t (nvs0 @ nv # nvs) w)) (journalled t d e) (journalled t d e)" for fine
  proof (cases fine)
    case True
    then show ?thesis using Cons.IH[of "nvs0 @ [nv]"] Cons.prems by (auto intro!: io_weaken[OF Cons.IH[of "nvs0 @ [nv]"]] simp: snoc)
  next
    case False
    then show ?thesis using Cons.prems by (auto intro!: io_weaken[OF Cons.IH[of nvs0]])
  qed
  show ?case
    unfolding restore_settings.simps
    by (rule io_bind[OF one], simp only: split_beta, rule io_bind[OF rest]) (auto intro!: io_ret)
qed

section \<open>The sweep\<close>

definition put_back :: "state_target \<Rightarrow> domain \<Rightarrow> (string \<Rightarrow> string option) \<Rightarrow> string list \<Rightarrow> state_world \<Rightarrow> bool" where
  "put_back t d orig names w \<longleftrightarrow> recoverable t d orig names w \<and> entry_at d (st_id t) w = None"

lemma settled_as_found: "settled t (map (\<lambda>n. (n, orig n)) names) w = as_found t orig names w"
  by (simp add: settled_def as_found_def)

lemma quiet_written:
  "others_quiet t d w \<Longrightarrow> others_quiet t d (w\<lparr>sw_journal := Some ((read_journal w)((d, st_id t) := x))\<rparr>)"
  "others_quiet t d (w\<lparr>sw_journal := None\<rparr>)"
  by (simp_all add: others_quiet_def entry_at_def read_journal_def)

lemma put_back_recoverable: "put_back t d orig names w \<Longrightarrow> recoverable t d orig names w"
  by (simp add: put_back_def)

lemma put_back_dropped:
  assumes "as_found t orig names w" "others_quiet t d w"
  shows "put_back t d orig names (w\<lparr>sw_journal := Some ((read_journal w)((d, st_id t) := None))\<rparr>)"
    "put_back t d orig names (w\<lparr>sw_journal := None\<rparr>)"
  using assms by (simp_all add: put_back_def recoverable_def quiet_written)

lemma restore_state_rule:
  assumes "distinct names"
  shows "io_ok (recoverable t d orig names) (restore_state t d) (\<lambda>_. put_back t d orig names)
     (recoverable t d orig names) (recoverable t d orig names)"
    (is "io_ok ?R _ _ _ _")
  unfolding restore_state_def
proof (rule io_bind[OF journal_get_rule[where Q = "\<lambda>x w. ?R w \<and> x = entry_at d (st_id t) w"]], simp)
  fix entry
  show "io_ok (\<lambda>w. ?R w \<and> entry = entry_at d (st_id t) w)
     (case entry of None \<Rightarrow> ret False
      | Some e \<Rightarrow> if unmanageable t
          then throw (st_id t @ '' has journalled '' @ domain_str d @ '' state but cannot be written to'')
          else bind_io (restore_settings t (se_prior e)) (\<lambda>(changed, fine).
             if \<not> fine then throw (st_id t @ '' is not fully restored ('' @ domain_str d @ '')'')
             else bind_io (journal_drop d (st_id t)) (\<lambda>_. ret changed)))
     (\<lambda>_. put_back t d orig names) ?R ?R"
  proof (cases entry)
    case None
    then show ?thesis by (auto intro!: io_ret simp: put_back_def)
  next
    case (Some e)
    show ?thesis
    proof (cases "noted t orig names e")
      case False
      then have "(\<lambda>w. ?R w \<and> entry = entry_at d (st_id t) w) = (\<lambda>_. False)"
        using Some by (intro ext) (auto simp: recoverable_def split: option.splits)
      then show ?thesis by simp
    next
      case noted: True
      let ?J = "journalled t d e"
      let ?P = "\<lambda>r w. ?J w \<and> (snd r \<longrightarrow> as_found t orig names w)"
      have prior: "se_prior e = map (\<lambda>n. (n, orig n)) names" and man: "\<not> unmanageable t"
        using noted by (simp_all add: noted_def)
      have J: "?J w \<Longrightarrow> ?R w" for w by (rule journalled_recoverable[OF noted])
      have undone: "io_ok ?J (restore_settings t (se_prior e)) ?P ?R ?R"
        by (rule io_weaken[OF restore_settings_rule[of "[]" "se_prior e" t d e]])
          (use assms in \<open>auto simp: prior settled_as_found kept_def settled_def[of t "[]"] J comp_def\<close>)
      have drop: "io_ok (\<lambda>w. ?J w \<and> as_found t orig names w) (journal_drop d (st_id t)) (\<lambda>_. put_back t d orig names) ?R ?R"
        by (rule journal_drop_rule)
          (auto simp: J journalled_def put_back_dropped intro: put_back_recoverable[OF put_back_dropped(2)] put_back_recoverable)
      have "io_ok ?J (bind_io (restore_settings t (se_prior e)) (\<lambda>(changed, fine).
             if \<not> fine then throw (st_id t @ '' is not fully restored ('' @ domain_str d @ '')'')
             else bind_io (journal_drop d (st_id t)) (\<lambda>_. ret changed))) (\<lambda>_. put_back t d orig names) ?R ?R"
      proof (rule io_bind[OF undone], simp only: split_beta)
        fix r
        show "io_ok (?P r) (if \<not> snd r then throw (st_id t @ '' is not fully restored ('' @ domain_str d @ '')'')
             else bind_io (journal_drop d (st_id t)) (\<lambda>_. ret (fst r))) (\<lambda>_. put_back t d orig names) ?R ?R"
          using io_bind[OF drop io_ret[of "put_back t d orig names" "\<lambda>_. put_back t d orig names" "fst r"]]
          by (cases "snd r") (simp_all add: io_throw J)
      qed
      moreover have "?R w \<and> entry = entry_at d (st_id t) w \<Longrightarrow> ?J w" for w
        using Some by (simp add: recoverable_def journalled_def)
      ultimately show ?thesis unfolding Some option.case if_not_P[OF man]
        by (rule io_weaken) (use Some in simp_all)
    qed
  qed
qed

lemma restore_other_rule:
  assumes "d' \<noteq> d" "\<And>w. P w \<Longrightarrow> recoverable t d orig names w"
  shows "io_ok P (restore_state t d') (\<lambda>_. P) P P"
  unfolding restore_state_def
  by (rule io_bind[OF journal_get_rule[where Q = "\<lambda>x w. P w \<and> x = None"]])
    (use assms in \<open>auto intro: io_ret split: option.splits simp: recoverable_def others_quiet_def\<close>)

lemma restore_any_rule:
  assumes "distinct names"
  shows "io_ok (recoverable t d orig names) (restore_state t d') (\<lambda>_. recoverable t d orig names)
     (recoverable t d orig names) (recoverable t d orig names)"
proof (cases "d' = d")
  case True
  then show ?thesis using io_weaken[OF restore_state_rule[OF assms]] put_back_recoverable by metis
next
  case False
  then show ?thesis by (rule restore_other_rule) simp
qed

lemma sweep_all_rule:
  assumes "\<And>d'. io_ok P (restore_state t d') (\<lambda>_. P) P P" "\<forall>td \<in> set tds. fst td = t"
  shows "io_ok P (sweep_all tds ids) (\<lambda>_. P) P P"
  using assms(2)
proof (induction tds arbitrary: ids)
  case Nil
  then show ?case by (auto intro: io_ret)
next
  case (Cons td tds)
  obtain d' where td: "td = (t, d')" using Cons.prems by (cases td) auto
  have "io_ok P (sweep_one t d' ids) (\<lambda>_. P) P P"
    unfolding sweep_one_def by (rule io_catch, rule io_bind, rule assms(1)) (auto intro: io_ret)
  then show ?case using Cons td by (auto intro!: io_bind)
qed

lemma attached_pairs: "concat (map (\<lambda>t. map (\<lambda>d. (t, d)) DOMAINS) [t]) = [(t, Locale), (t, Display)]"
  by (simp add: DOMAINS_def)

lemma sweep_rule:
  assumes "distinct names"
  shows "io_ok (recoverable t d orig names) (restore_attached_state [t]) (\<lambda>_. recoverable t d orig names)
     (recoverable t d orig names) (recoverable t d orig names)"
  unfolding restore_attached_state_def attached_pairs
  by (rule sweep_all_rule[of _ t]) (auto intro: restore_any_rule[OF assms])

section \<open>Applying\<close>

definition fresh :: "state_target \<Rightarrow> (string \<Rightarrow> string option) \<Rightarrow> state_world \<Rightarrow> bool" where
  "fresh t orig w \<longleftrightarrow> sw_value w (st_id t) = orig \<and> (\<forall>d. entry_at d (st_id t) w = None)"

lemma fresh_recoverable: "fresh t orig w \<Longrightarrow> recoverable t d orig names w"
  by (simp add: fresh_def recoverable_def others_quiet_def as_found_def)

lemma read_priors_rule:
  "io_ok (fresh t orig) (read_priors t names)
     (\<lambda>r w. fresh t orig w \<and> r = map (\<lambda>n. (n, orig n)) names \<and> list_all (\<lambda>n. is_ui_setting n \<longrightarrow> orig n \<noteq> None) names)
     (fresh t orig) (fresh t orig)"
proof (induction names)
  case Nil
  then show ?case by (auto intro: io_ret)
next
  case (Cons n names)
  let ?F = "fresh t orig"
  have read: "io_ok ?F (catch_io (read_setting t n)
      (\<lambda>_. throw (''cannot read '' @ n @ '' on '' @ st_id t @ '', so it cannot be safely changed'')))
      (\<lambda>x w. ?F w \<and> x = orig n) ?F ?F"
    by (rule io_catch[where R = ?F], rule read_setting_rule) (auto intro!: io_throw simp: fresh_def)
  have rest: "io_ok ?F (bind_io (read_priors t names) (\<lambda>vs. ret ((n, orig n) # vs)))
      (\<lambda>r w. ?F w \<and> r = (n, orig n) # map (\<lambda>n. (n, orig n)) names \<and>
        list_all (\<lambda>n. is_ui_setting n \<longrightarrow> orig n \<noteq> None) names) ?F ?F"
    by (rule io_bind[OF Cons.IH]) (auto intro: io_ret)
  show ?case
    unfolding read_priors.simps
  proof (rule io_bind[OF read])
    fix v
    show "io_ok (\<lambda>w. ?F w \<and> v = orig n)
       (if v = None \<and> is_ui_setting n
        then throw (''simctl could not report the current setting on '' @ st_id t @ '', so setting it could not be undone'')
        else bind_io (read_priors t names) (\<lambda>vs. ret ((n, v) # vs)))
       (\<lambda>r w. ?F w \<and> r = map (\<lambda>n. (n, orig n)) (n # names) \<and> list_all (\<lambda>n. is_ui_setting n \<longrightarrow> orig n \<noteq> None) (n # names))
       ?F ?F"
    proof (cases "v = None \<and> is_ui_setting n")
      case False
      then have "(if v = None \<and> is_ui_setting n then m else m') = m'" for m m' :: "((string \<times> string option) list, state_world) io"
        by (rule if_not_P)
      moreover have "io_ok (\<lambda>w. ?F w \<and> v = orig n) (bind_io (read_priors t names) (\<lambda>vs. ret ((n, v) # vs)))
         (\<lambda>r w. ?F w \<and> r = map (\<lambda>n. (n, orig n)) (n # names) \<and> list_all (\<lambda>n. is_ui_setting n \<longrightarrow> orig n \<noteq> None) (n # names))
         ?F ?F"
        by (cases "v = orig n") (use False in \<open>auto intro!: io_weaken[OF rest]\<close>)
      ultimately show ?thesis by simp
    qed (auto intro!: io_throw)
  qed
qed

lemma quiet_restore_rule:
  assumes "distinct names"
  shows "io_ok (recoverable t d orig names) (quietly (restore_state t d)) (\<lambda>_. recoverable t d orig names)
     E (recoverable t d orig names)"
  by (rule io_quietly[OF restore_any_rule[OF assms]])

lemma restore_and_throw:
  assumes "distinct names" "\<And>w. P w \<Longrightarrow> recoverable t d orig names w"
  shows "io_ok P (bind_io (quietly (restore_state t d)) (\<lambda>_. throw e)) Q
     (recoverable t d orig names) (recoverable t d orig names)"
  by (rule io_weaken[OF io_bind[OF quiet_restore_rule[OF assms(1)] io_throw]]) (use assms(2) in auto)

lemma set_one_rule:
  assumes "distinct names" "noted t orig names e"
  shows "io_ok (journalled t d e) (set_one t d nv) (\<lambda>_. journalled t d e)
     (recoverable t d orig names) (recoverable t d orig names)"
  unfolding set_one_def
proof (rule io_catch[where R = "recoverable t d orig names"])
  show "io_ok (journalled t d e) (write_setting t (fst nv) (Some (snd nv))) (\<lambda>_. journalled t d e)
     (recoverable t d orig names) (recoverable t d orig names)"
    by (rule io_weaken[OF write_setting_rule[of "journalled t d e" "journalled t d e"]])
      (use journalled_recoverable[OF assms(2)] in simp_all)
qed (rule restore_and_throw[OF assms(1)])

lemma verify_one_rule:
  assumes "distinct names" "noted t orig names e"
  shows "io_ok (journalled t d e) (verify_one t d nv) (\<lambda>_. journalled t d e)
     (recoverable t d orig names) (recoverable t d orig names)"
  unfolding verify_one_def
proof (rule io_bind[where R = "\<lambda>_. journalled t d e"])
  show "io_ok (journalled t d e)
     (catch_io (read_setting t (fst nv))
       (\<lambda>_. bind_io (quietly (restore_state t d)) (\<lambda>_. throw (''could not verify '' @ fst nv @ '' on '' @ st_id t))))
     (\<lambda>_. journalled t d e) (recoverable t d orig names) (recoverable t d orig names)"
    by (rule io_catch[where R = "journalled t d e"], rule read_setting_rule)
      (use journalled_recoverable[OF assms(2)] in \<open>auto intro!: restore_and_throw[OF assms(1)]\<close>)
  show "io_ok (journalled t d e)
     (if same_value got (Some (snd nv)) then ret ()
      else bind_io (quietly (restore_state t d)) (\<lambda>_. throw (fst nv @ '' did not take on '' @ st_id t)))
     (\<lambda>_. journalled t d e) (recoverable t d orig names) (recoverable t d orig names)" for got
    by (cases "same_value got (Some (snd nv))")
      (use journalled_recoverable[OF assms(2)] in \<open>auto intro!: restore_and_throw[OF assms(1)] io_ret\<close>)
qed

lemma apply_state_rule:
  assumes dist: "distinct (map fst wanted)"
  shows "io_ok (fresh t orig) (apply_state t d wanted)
     (\<lambda>_ w. (wanted = [] \<and> fresh t orig w) \<or> (\<exists>e. noted t orig (map fst wanted) e \<and> journalled t d e w))
     (recoverable t d orig (map fst wanted)) (recoverable t d orig (map fst wanted))"
    (is "io_ok ?F _ ?Q ?R ?R")
proof (cases "unmanageable t \<or> wanted = [] \<or> List.find (\<lambda>nv. \<not> is_setting_name (fst nv)) wanted \<noteq> None")
  case True
  then show ?thesis unfolding apply_state_def by (auto intro!: io_throw io_ret fresh_recoverable)
next
  case False
  let ?names = "map fst wanted"
  define P where "P r w \<longleftrightarrow> fresh t orig w \<and> r = map (\<lambda>n. (n, orig n)) ?names \<and>
     list_all (\<lambda>n. is_ui_setting n \<longrightarrow> orig n \<noteq> None) ?names" for r w
  have run: "apply_state t d wanted = bind_io (read_priors t ?names) (\<lambda>prior.
      bind_io (journal_put d (st_id t) (entry_for t d prior wanted)) (\<lambda>_.
        bind_io (for_each (set_one t d) wanted) (\<lambda>_. for_each (verify_one t d) wanted)))"
    using False by (simp add: apply_state_def split: option.splits)
  have priors: "io_ok ?F (read_priors t ?names) P ?R ?R"
    unfolding P_def by (rule io_weaken[OF read_priors_rule]) (auto intro: fresh_recoverable)
  have after: "io_ok (P prior) (bind_io (journal_put d (st_id t) (entry_for t d prior wanted)) (\<lambda>_.
        bind_io (for_each (set_one t d) wanted) (\<lambda>_. for_each (verify_one t d) wanted))) ?Q ?R ?R" for prior
  proof (cases "noted t orig ?names (entry_for t d prior wanted)")
    case True
    let ?J = "journalled t d (entry_for t d prior wanted)"
    have put: "io_ok (P prior) (journal_put d (st_id t) (entry_for t d prior wanted)) (\<lambda>_. ?J) ?R ?R"
      by (rule journal_put_rule)
        (auto simp: P_def journalled_def quiet_written fresh_def others_quiet_def recoverable_def as_found_def
           entry_at_def read_journal_def True)
    have each: "io_ok ?J (bind_io (for_each (set_one t d) wanted) (\<lambda>_. for_each (verify_one t d) wanted)) (\<lambda>_. ?J) ?R ?R"
      by (rule io_bind[where R = "\<lambda>_. ?J"]; rule io_for_each)
        (rule set_one_rule[OF dist True] verify_one_rule[OF dist True])+
    show ?thesis
      by (rule io_weaken[OF io_bind[OF put each]]) (use True in auto)
  next
    case F: False
    then have "P prior = (\<lambda>_. False)"
      using False by (intro ext) (simp add: P_def noted_def entry_for_def)
    then show ?thesis by simp
  qed
  show ?thesis unfolding run by (rule io_bind[OF priors after])
qed

section \<open>A job under changed settings\<close>

definition entries_of :: "id \<Rightarrow> state_world \<Rightarrow> domain \<Rightarrow> state_entry option" where
  "entries_of i w = (\<lambda>d. entry_at d i w)"

text \<open>What the model asks of the job itself: it may do anything to the device, but not to its journal entries.\<close>

definition leaves_journal :: "id \<Rightarrow> ('a, state_world) io \<Rightarrow> bool" where
  "leaves_journal i job \<longleftrightarrow>
     (\<forall>J. io_ok (\<lambda>w. entries_of i w = J) job (\<lambda>_ w. entries_of i w = J) (\<lambda>w. entries_of i w = J) (\<lambda>w. entries_of i w = J))"

lemma leaves_journal_rule:
  assumes "leaves_journal i job" "\<And>w w'. P w \<Longrightarrow> entries_of i w' = entries_of i w \<Longrightarrow> Q w'"
  shows "io_ok P job (\<lambda>_. Q) Q Q"
proof (rule io_case)
  fix w assume "P w"
  then show "io_ok (\<lambda>w'. w' = w) job (\<lambda>_. Q) Q Q"
    using assms(1) [unfolded leaves_journal_def, rule_format, of "entries_of i w"]
    by (auto intro: assms(2) elim!: io_weaken)
qed

lemma with_state_rule:
  assumes "distinct (map fst wanted)" "leaves_journal (st_id t) job"
  shows "io_ok (fresh t orig) (with_state t d wanted job) (\<lambda>_. recoverable t d orig (map fst wanted))
     (recoverable t d orig (map fst wanted)) (recoverable t d orig (map fst wanted))"
    (is "io_ok _ _ (\<lambda>_. ?R) ?R ?R")
proof -
  let ?P = "\<lambda>w. (wanted = [] \<and> fresh t orig w) \<or> (\<exists>e. noted t orig (map fst wanted) e \<and> journalled t d e w)"
  have "?R w'" if "?P w" "entries_of (st_id t) w' = entries_of (st_id t) w" for w w'
    using that by (auto simp: entries_of_def recoverable_def journalled_def others_quiet_def fresh_def as_found_def fun_eq_iff)
  then have job: "io_ok ?P job (\<lambda>_. ?R) ?R ?R"
    by (rule leaves_journal_rule[OF assms(2)])
  show ?thesis
    unfolding with_state_def
    by (rule io_bind[OF apply_state_rule[OF assms(1)]], rule io_finally[OF job], rule quiet_restore_rule[OF assms(1)])
qed

section \<open>A restore that is let work\<close>

definition can_put_back :: "string \<times> string option \<Rightarrow> bool" where
  "can_put_back nv \<longleftrightarrow> snd nv \<noteq> None \<or> (fst nv \<noteq> ''android:uimode.night'' \<and> \<not> is_ui_setting (fst nv))"

lemma written_same: "can_put_back (n, v) \<Longrightarrow> same_value (written_value n v) v"
  by (cases v) (auto simp: can_put_back_def written_value_def)

lemma restore_setting_runs:
  assumes "can_put_back (n, v)"
  shows "runs P (restore_setting t (n, v)) (\<lambda>r _. snd r)"
proof -
  have "\<not> (is_ui_setting n \<and> v = None)" using assms by (auto simp: can_put_back_def)
  then have "write_setting t n v = command (put_value (st_id t) n (written_value n v))"
    unfolding write_setting_def by (rule if_not_P)
  then show ?thesis
    using written_same[OF assms]
    by (auto simp: runs_def restore_setting_def bind_io_def catch_io_def read_setting_def ask_def ret_def command_def)
qed

lemma restore_settings_runs:
  "list_all can_put_back nvs \<Longrightarrow> runs (\<lambda>_. True) (restore_settings t nvs) (\<lambda>r _. snd r)"
proof (induction nvs)
  case Nil
  then show ?case by (auto intro: runs_ret)
next
  case (Cons nv nvs)
  obtain n v where nv: "nv = (n, v)" by force
  have rest: "runs (\<lambda>_. snd r) (bind_io (restore_settings t nvs) (\<lambda>r'. ret (fst r \<or> fst r', snd r \<and> snd r'))) (\<lambda>r _. snd r)" for r :: "bool \<times> bool"
  proof (cases "snd r")
    case True
    show ?thesis
      by (rule runs_bind[where R = "\<lambda>r' _. snd r'"], rule runs_weaken[OF Cons.IH])
        (use Cons.prems True in \<open>simp_all add: runs_ret\<close>)
  qed simp
  show ?case
    unfolding restore_settings.simps split_beta
    by (rule runs_bind[OF _ rest]) (use restore_setting_runs[of n v] Cons.prems nv in auto)
qed

lemma journal_drop_runs: "runs P (journal_drop d i) (\<lambda>_ _. True)"
  by (simp add: runs_def journal_drop_def bind_io_def get_world_def ret_def write_journal_def write_file_def)

lemma journal_get_runs: "runs P (journal_get d i) (\<lambda>x w. P w \<and> x = entry_at d i w)"
  by (simp add: runs_def journal_get_def bind_io_def get_world_def ret_def entry_at_def)

definition repairable :: "state_target \<Rightarrow> (string \<Rightarrow> string option) \<Rightarrow> string list \<Rightarrow> bool" where
  "repairable t orig names \<longleftrightarrow> distinct names \<and> (''android:uimode.night'' \<in> set names \<longrightarrow> orig ''android:uimode.night'' \<noteq> None)"

lemma restore_state_runs:
  assumes "repairable t orig names"
  shows "runs (recoverable t d orig names) (restore_state t d) (\<lambda>_ _. True)"
  unfolding restore_state_def
proof (rule runs_bind[OF journal_get_runs])
  fix entry
  let ?m = "\<lambda>entry. case entry of None \<Rightarrow> ret False
      | Some e \<Rightarrow> if unmanageable t
          then throw (st_id t @ '' has journalled '' @ domain_str d @ '' state but cannot be written to'')
          else bind_io (restore_settings t (se_prior e)) (\<lambda>(changed, fine).
             if \<not> fine then throw (st_id t @ '' is not fully restored ('' @ domain_str d @ '')'')
             else bind_io (journal_drop d (st_id t)) (\<lambda>_. ret changed))"
  show "runs (\<lambda>w. recoverable t d orig names w \<and> entry = entry_at d (st_id t) w) (?m entry) (\<lambda>_ _. True)"
  proof (cases entry)
    case None
    then show ?thesis by (auto intro: runs_ret)
  next
    case (Some e)
    show ?thesis
    proof (cases "noted t orig names e")
      case False
      then have "(\<lambda>w. recoverable t d orig names w \<and> entry = entry_at d (st_id t) w) = (\<lambda>_. False)"
        using Some by (intro ext) (auto simp: recoverable_def split: option.splits)
      then show ?thesis by simp
    next
      case noted: True
      then have man: "\<not> unmanageable t" and ok: "list_all can_put_back (se_prior e)"
        using assms by (auto simp: noted_def list_all_iff can_put_back_def repairable_def)
      have fine: "runs (\<lambda>_. snd r) (if \<not> snd r then throw m
             else bind_io (journal_drop d (st_id t)) (\<lambda>_. ret (fst r))) (\<lambda>_ _. True)" for r :: "bool \<times> bool" and m
        by (cases "snd r") (auto intro!: runs_bind[OF journal_drop_runs] runs_ret)
      show ?thesis
        unfolding Some option.case if_not_P[OF man] split_beta
        by (rule runs_weaken[OF runs_bind[OF restore_settings_runs[OF ok] fine]]) simp_all
    qed
  qed
qed

section \<open>Runs, crashes and sweeps\<close>

text \<open>
  The worlds a device can be in after a job ran under changed settings: the job's run and then any
  number of start-up sweeps, each with commands that do what they like, any of them possibly the
  last thing its process did.
\<close>

inductive reached ::
  "state_target \<Rightarrow> domain \<Rightarrow> (string \<times> string) list \<Rightarrow> ('a, state_world) io \<Rightarrow> state_world \<Rightarrow> state_world \<Rightarrow> bool"
  for t d wanted job w where
  job: "with_state t d wanted job (w, os) = (r, (w', os')) \<Longrightarrow> reached t d wanted job w w'"
| sweep: "reached t d wanted job w w' \<Longrightarrow> restore_attached_state [t] (w', os) = (r, (w'', os')) \<Longrightarrow>
    reached t d wanted job w w''"

lemma reached_by_job: "reached t d wanted job w (world_after (with_state t d wanted job (w, os)))"
  using reached.job[of t d wanted job w os] by (cases "with_state t d wanted job (w, os)") (auto simp: world_after_def)

lemma reached_by_sweep:
  "reached t d wanted job w w' \<Longrightarrow> reached t d wanted job w (world_after (restore_attached_state [t] (w', os)))"
  using reached.sweep[of t d wanted job w w' os] by (cases "restore_attached_state [t] (w', os)") (auto simp: world_after_def)

lemma reached_recoverable:
  assumes "reached t d wanted job w w'" "distinct (map fst wanted)" "leaves_journal (st_id t) job" "fresh t orig w"
  shows "recoverable t d orig (map fst wanted) w'"
  using assms(1)
proof (induction rule: reached.induct)
  case (job os r w' os')
  then show ?case
    using io_okD[OF with_state_rule[OF assms(2,3)] assms(4) job] by (simp split: ending.splits)
next
  case (sweep w' os r w'' os')
  then show ?case
    using io_okD[OF sweep_rule[OF assms(2)] sweep.IH sweep.hyps(2)] by (simp split: ending.splits)
qed

lemma sweep_one_runs:
  assumes "\<And>w. P w \<Longrightarrow> recoverable t d orig names w" "repairable t orig names"
    "io_ok P (restore_state t d') (\<lambda>_. Q) P P" "d' = d \<or> (\<forall>w. P w \<longrightarrow> entry_at d' (st_id t) w = None)"
  shows "runs P (sweep_one t d' ids) (\<lambda>_. Q)"
proof -
  have "runs P (restore_state t d') (\<lambda>_ _. True)"
    using assms(4)
  proof
    assume "d' = d"
    show ?thesis unfolding \<open>d' = d\<close> by (rule runs_weaken[OF restore_state_runs[OF assms(2)] assms(1)])
  next
    assume none: "\<forall>w. P w \<longrightarrow> entry_at d' (st_id t) w = None"
    show ?thesis
      unfolding restore_state_def
      by (rule runs_bind[where R = "\<lambda>x _. x = None"], rule runs_weaken[OF journal_get_runs])
        (use none in \<open>auto intro: runs_ret split: option.split\<close>)
  qed
  from runs_and[OF assms(3) this] show ?thesis
    unfolding sweep_one_def by (intro runs_catch runs_bind) (auto intro: runs_ret)
qed

lemma sweep_runs:
  assumes "repairable t orig names"
  shows "runs (recoverable t d orig names) (restore_attached_state [t]) (\<lambda>_. put_back t d orig names)"
proof -
  have dist: "distinct names" using assms by (simp add: repairable_def)
  have restore: "runs (recoverable t d orig names) (sweep_one t d ids) (\<lambda>_. put_back t d orig names)" for ids
    by (rule sweep_one_runs[OF _ assms restore_state_rule[OF dist] disjI1[OF refl]])
  have other: "runs P (sweep_one t d' ids) (\<lambda>_. P)" if "d' \<noteq> d" "\<And>w. P w \<Longrightarrow> recoverable t d orig names w" for P d' ids
    by (rule sweep_one_runs[OF that(2) assms restore_other_rule[OF that]])
      (use that in \<open>auto simp: recoverable_def others_quiet_def\<close>)
  have two: "restore_attached_state [t] = bind_io (sweep_one t Locale []) (\<lambda>ids. bind_io (sweep_one t Display ids) ret)"
  proof -
    have "sweep_all [] = ret" by (rule ext) simp
    then have "sweep_all [(t, Display)] = (\<lambda>ids. bind_io (sweep_one t Display ids) ret)"
      by (intro ext) simp
    then show ?thesis unfolding restore_attached_state_def attached_pairs by simp
  qed
  show ?thesis
  proof (cases d)
    case Locale
    have "runs (recoverable t d orig names) (sweep_one t Locale []) (\<lambda>_. put_back t d orig names)"
      using restore[of "[]"] Locale by simp
    moreover have "runs (put_back t d orig names) (sweep_one t Display ids) (\<lambda>_. put_back t d orig names)" for ids
      by (rule other) (use Locale in \<open>auto intro: put_back_recoverable\<close>)
    ultimately show ?thesis unfolding two by (intro runs_bind runs_ret)
  next
    case Display
    have "runs (recoverable t d orig names) (sweep_one t Locale []) (\<lambda>_. recoverable t d orig names)"
      by (rule other) (use Display in auto)
    moreover have "runs (recoverable t d orig names) (sweep_one t Display ids) (\<lambda>_. put_back t d orig names)" for ids
      using restore[of ids] Display by simp
    ultimately show ?thesis unfolding two by (intro runs_bind runs_ret)
  qed
qed

end
