(* ===== verification/Network_Shape.thy ===== *)
theory Network_Shape
  imports Device_State
begin

text \<open>
  Network conditions a job runs under (\<open>collector/src/network-shape.ts\<close>): the profiles, taking an
  Android device off the network and putting it back, dummynet shaping on the host, the delayed
  disconnection, and the sweep at start-up. The world holds what \<open>settings get global\<close> answers for
  every device, the host's packet filter, the journal file and the timers armed in this process.
  What \<open>shapeScope\<close> makes of the job's destination is an argument (URLs are parsed by the platform);
  \<open>applied_at\<close>, which only dates an entry, is left out.
\<close>

section \<open>Profiles\<close>

datatype profile = Offline nat | Three_G | Lossy

text \<open>\<open>/^offline-after-(\d+)s$/\<close>\<close>

definition offline_after :: "string \<Rightarrow> nat option" where
  "offline_after s =
     (let p = ''offline-after-''; n = drop (length p) s; d = butlast n in
      if starts_with p s \<and> n \<noteq> [] \<and> last n = CHR ''s'' \<and> d \<noteq> [] \<and> list_all is_digit d then Some (digits_val d) else None)"

definition parse_network_profile :: "string \<Rightarrow> string + profile" where
  "parse_network_profile spec =
     (let s = lower (trim spec) in
      if s = ''offline'' then Inr (Offline 0)
      else case offline_after s of
        Some n \<Rightarrow> Inr (Offline n)
      | None \<Rightarrow>
          if s = ''3g'' then Inr Three_G
          else if s = ''lossy'' then Inr Lossy
          else Inl (''params.network '' @ spec @ '' is not a profile I know: offline, offline-after-<n>s, 3g, lossy''))"

record pipe_config =
  pc_bw_kbit :: nat
  pc_delay_ms :: nat
  pc_plr :: rat

definition THREE_G_PIPE :: pipe_config where
  "THREE_G_PIPE = \<lparr>pc_bw_kbit = 780, pc_delay_ms = 200, pc_plr = 0\<rparr>"

definition LOSSY_PIPE :: pipe_config where
  "LOSSY_PIPE = \<lparr>pc_bw_kbit = 0, pc_delay_ms = 100, pc_plr = 5 / 100\<rparr>"

section \<open>The world and its journal\<close>

record android_prior =
  ap_wifi :: "string option"
  ap_data :: "string option"

record host_note =
  hn_pipe :: nat
  hn_scope :: string
  hn_pf_was_enabled :: bool

record shape_entry =
  he_profile :: string
  he_android :: "android_prior option"
  he_host :: "host_note option"

record net_world =
  nw_wifi :: "id \<Rightarrow> string option"
  nw_data :: "id \<Rightarrow> string option"
  nw_opted :: bool
  nw_sudo :: bool
  nw_anchors :: "string list"
  nw_pf_enabled :: bool
  nw_pipes :: "nat \<rightharpoonup> pipe_config"
  nw_rules :: "string list"
  nw_journal :: "(id \<rightharpoonup> shape_entry) option"
  nw_pending :: "id \<rightharpoonup> nat"

definition shape_journal :: "net_world \<Rightarrow> (id \<rightharpoonup> shape_entry)" where
  "shape_journal w = (case nw_journal w of None \<Rightarrow> Map.empty | Some j \<Rightarrow> j)"

definition write_shape_journal :: "(id \<rightharpoonup> shape_entry) \<Rightarrow> (unit, net_world) io" where
  "write_shape_journal j = write_file (\<lambda>w. w\<lparr>nw_journal := Some j\<rparr>) (\<lambda>w. w\<lparr>nw_journal := None\<rparr>)"

definition shape_put :: "id \<Rightarrow> shape_entry \<Rightarrow> (unit, net_world) io" where
  "shape_put i e = bind_io get_world (\<lambda>w. write_shape_journal ((shape_journal w)(i \<mapsto> e)))"

definition shape_drop :: "id \<Rightarrow> (unit, net_world) io" where
  "shape_drop i =
     bind_io get_world (\<lambda>w. if shape_journal w i = None then ret () else write_shape_journal ((shape_journal w)(i := None)))"

definition shape_get :: "id \<Rightarrow> (shape_entry option, net_world) io" where
  "shape_get i = bind_io get_world (\<lambda>w. ret (shape_journal w i))"

section \<open>Android\<close>

definition android_setting :: "(net_world \<Rightarrow> id \<Rightarrow> string option) \<Rightarrow> id \<Rightarrow> (string option, net_world) io" where
  "android_setting field i = catch_io (ask (\<lambda>w. field w i)) (\<lambda>_. ret None)"

definition dotted_quad :: "string \<Rightarrow> bool" where
  "dotted_quad h \<longleftrightarrow>
     length (split_on CHR ''.'' h) = 4 \<and>
     list_all (\<lambda>p. p \<noteq> [] \<and> length p \<le> 3 \<and> list_all is_digit p) (split_on CHR ''.'' h)"

text \<open>Both patterns of an id that is an address: \<open>a.b.c.d:port\<close>, \<open>name:port\<close>.\<close>

definition over_adb_tcp :: "id \<Rightarrow> bool" where
  "over_adb_tcp i \<longleftrightarrow>
     (let h = takeWhile (\<lambda>c. c \<noteq> CHR '':'') i; p = drop (length h + 1) i in
      CHR '':'' \<in> set i \<and> p \<noteq> [] \<and> list_all is_digit p \<and>
      (dotted_quad h \<or>
       h \<noteq> [] \<and> list_all (\<lambda>c. is_alpha c \<or> is_digit c \<or> c = CHR ''.'' \<or> c = CHR ''-'') h))"

definition set_wifi :: "id \<Rightarrow> string \<Rightarrow> net_world \<Rightarrow> net_world" where
  "set_wifi i v w = w\<lparr>nw_wifi := (nw_wifi w)(i := Some v)\<rparr>"

definition set_data :: "id \<Rightarrow> string \<Rightarrow> net_world \<Rightarrow> net_world" where
  "set_data i v w = (if nw_data w i = None then w else w\<lparr>nw_data := (nw_data w)(i := Some v)\<rparr>)"

definition android_restore :: "state_target \<Rightarrow> (bool, net_world) io" where
  "android_restore t =
     bind_io (shape_get (st_id t)) (\<lambda>entry.
     bind_io (android_setting nw_wifi (st_id t)) (\<lambda>before.
       let needed = (before = Some ''0'') in
       bind_io (if needed then command (set_wifi (st_id t) ''1'') else ret ()) (\<lambda>_.
       bind_io
         (if Option.bind (Option.bind entry he_android) ap_data = Some ''1''
          then quietly (command (set_data (st_id t) ''1'')) else ret ()) (\<lambda>_.
       bind_io
         (if needed
          then bind_io (android_setting nw_wifi (st_id t)) (\<lambda>after.
            if after \<noteq> Some ''1'' then throw (st_id t @ '' is still offline after svc wifi enable'') else ret ())
          else ret ()) (\<lambda>_.
       bind_io (shape_drop (st_id t)) (\<lambda>_. ret needed))))))"

text \<open>\<open>androidOffline\<close> up to what it has read of the device, and from there on.\<close>

definition offline_priors :: "state_target \<Rightarrow> (android_prior, net_world) io" where
  "offline_priors t =
     (if over_adb_tcp (st_id t) then throw (st_id t @ '' is attached over adb-tcp'')
      else bind_io (android_setting nw_wifi (st_id t)) (\<lambda>wifi.
           bind_io (android_setting nw_data (st_id t)) (\<lambda>data. ret \<lparr>ap_wifi = wifi, ap_data = data\<rparr>)))"

definition offline_acts :: "state_target \<Rightarrow> android_prior \<Rightarrow> (unit, net_world) io" where
  "offline_acts t prior =
     bind_io (shape_put (st_id t) \<lparr>he_profile = ''offline'', he_android = Some prior, he_host = None\<rparr>) (\<lambda>_.
     bind_io (command (set_wifi (st_id t) ''0'')) (\<lambda>_.
     bind_io (quietly (command (set_data (st_id t) ''0''))) (\<lambda>_.
     bind_io (android_setting nw_wifi (st_id t)) (\<lambda>now.
       if now \<noteq> Some ''0''
       then bind_io (quietly (bind_io (android_restore t) (\<lambda>_. ret ())))
              (\<lambda>_. throw (''could not take '' @ st_id t @ '' offline''))
       else ret ()))))"

definition android_offline :: "state_target \<Rightarrow> (unit, net_world) io" where
  "android_offline t = bind_io (offline_priors t) (offline_acts t)"

section \<open>Shaping on the host\<close>

definition PF_ANCHOR :: string where "PF_ANCHOR = ''fleet-shape''"

definition host_shaping_unavailable :: "(string option, net_world) io" where
  "host_shaping_unavailable =
     bind_io get_world (\<lambda>w.
       if \<not> nw_opted w then ret (Some ''host-side shaping is off on this executor'')
       else bind_io
         (catch_io (bind_io (ask nw_sudo) (\<lambda>yes. if yes then ret None else throw ''a password is required''))
            (\<lambda>_. ret (Some ''host-side shaping needs passwordless sudo for pfctl/dnctl''))) (\<lambda>no.
         if no \<noteq> None then ret no
         else catch_io
           (bind_io (ask nw_anchors) (\<lambda>ls.
              if list_ex (\<lambda>l. trim l = PF_ANCHOR) ls then ret None
              else ret (Some ''/etc/pf.conf has no fleet-shape anchor'')))
           (\<lambda>_. ret (Some ''pfctl could not be queried on this host''))))"

definition pipe_for :: "id \<Rightarrow> nat" where
  "pipe_for i = 4200 + foldl (\<lambda>h c. (h * 31 + code c) mod 600) 0 i"

record scope =
  sc_clause :: "string list"
  sc_label :: string

definition shape_rules :: "scope \<Rightarrow> nat \<Rightarrow> string list" where
  "shape_rules sc pipe =
     [''dummynet out proto tcp '' @ join '' '' (sc_clause sc) @ '' pipe '' @ nat_str pipe,
      ''dummynet in proto tcp from '' @ hd (split_on CHR '':'' (sc_label sc)) @ '' pipe '' @ nat_str pipe]"

definition host_restore :: "state_target \<Rightarrow> (bool, net_world) io" where
  "host_restore t =
     bind_io (shape_get (st_id t)) (\<lambda>entry.
       case Option.bind entry he_host of
         None \<Rightarrow> ret False
       | Some h \<Rightarrow>
           bind_io (quietly (command (\<lambda>w. w\<lparr>nw_rules := []\<rparr>))) (\<lambda>_.
           bind_io (quietly (command (\<lambda>w. w\<lparr>nw_pipes := (nw_pipes w)(hn_pipe h := None)\<rparr>))) (\<lambda>_.
           bind_io (if hn_pf_was_enabled h then ret () else quietly (command (\<lambda>w. w\<lparr>nw_pf_enabled := False\<rparr>))) (\<lambda>_.
           bind_io (shape_drop (st_id t)) (\<lambda>_. ret True)))))"

text \<open>\<open>hostShape\<close> from the destination on; rules loaded into an anchor replace the ones that were there.\<close>

definition host_shape_to :: "state_target \<Rightarrow> scope \<Rightarrow> string \<Rightarrow> pipe_config \<Rightarrow> (unit, net_world) io" where
  "host_shape_to t sc name cfg =
     (let pipe = pipe_for (st_id t) in
      bind_io (catch_io (ask nw_pf_enabled) (\<lambda>_. ret False)) (\<lambda>pf.
      bind_io (shape_put (st_id t) \<lparr>he_profile = name, he_android = None,
          he_host = Some \<lparr>hn_pipe = pipe, hn_scope = sc_label sc, hn_pf_was_enabled = pf\<rparr>\<rparr>) (\<lambda>_.
      bind_io (command (\<lambda>w. w\<lparr>nw_pipes := (nw_pipes w)(pipe \<mapsto> cfg)\<rparr>)) (\<lambda>_.
      bind_io (command (\<lambda>w. w\<lparr>nw_rules := shape_rules sc pipe\<rparr>)) (\<lambda>_.
      bind_io (if pf then ret () else command (\<lambda>w. w\<lparr>nw_pf_enabled := True\<rparr>)) (\<lambda>_.
      bind_io (catch_io (ask (\<lambda>w. nw_pipes w pipe \<noteq> None)) (\<lambda>_. ret False)) (\<lambda>listed.
      bind_io (catch_io (ask (\<lambda>w. list_ex (\<lambda>l. contains (''pipe '' @ nat_str pipe) l \<or> contains ''dummynet'' l) (nw_rules w)))
          (\<lambda>_. ret False)) (\<lambda>anchored.
        if \<not> listed \<or> \<not> anchored
        then bind_io (quietly (bind_io (host_restore t) (\<lambda>_. ret ())))
               (\<lambda>_. throw (''the '' @ name @ '' profile did not take effect on this host''))
        else ret ()))))))))"

definition host_shape :: "state_target \<Rightarrow> string + scope \<Rightarrow> string \<Rightarrow> pipe_config \<Rightarrow> (unit, net_world) io" where
  "host_shape t where_to name cfg =
     bind_io host_shaping_unavailable (\<lambda>why.
       case why of
         Some r \<Rightarrow> throw (''cannot apply the '' @ name @ '' profile: '' @ r)
       | None \<Rightarrow> (case where_to of Inl e \<Rightarrow> throw e | Inr sc \<Rightarrow> host_shape_to t sc name cfg))"

section \<open>Applying and restoring\<close>

text \<open>A delay above the platform's limit fires after one millisecond.\<close>

definition timer_ms :: "nat \<Rightarrow> nat" where
  "timer_ms s = (if 2147483647 < s * 1000 then 1 else s * 1000)"

definition modify_net :: "(net_world \<Rightarrow> net_world) \<Rightarrow> (unit, net_world) io" where
  "modify_net f = (\<lambda>(w, os). (Returned (), (f w, os)))"

definition apply_network :: "state_target \<Rightarrow> string \<Rightarrow> string + scope \<Rightarrow> (unit, net_world) io" where
  "apply_network t spec where_to =
     (case parse_network_profile spec of
        Inl e \<Rightarrow> throw e
      | Inr (Offline n) \<Rightarrow>
          if st_platform t \<noteq> ''android'' then throw (''the offline profile cannot be applied to '' @ st_id t)
          else if 0 < n then modify_net (\<lambda>w. w\<lparr>nw_pending := (nw_pending w)(st_id t \<mapsto> timer_ms n)\<rparr>)
          else android_offline t
      | Inr p \<Rightarrow>
          if st_platform t = ''android'' \<and> st_kind t = Some ''device''
          then throw (''the profile cannot be applied to the Android device '' @ st_id t)
          else if p = Three_G then host_shape t where_to ''3g'' THREE_G_PIPE
          else host_shape t where_to ''lossy'' LOSSY_PIPE)"

text \<open>The armed timer fires: what goes wrong is logged.\<close>

definition offline_timer_fires :: "state_target \<Rightarrow> (unit, net_world) io" where
  "offline_timer_fires t =
     bind_io get_world (\<lambda>w.
       if nw_pending w (st_id t) = None then ret ()
       else bind_io (modify_net (\<lambda>w. w\<lparr>nw_pending := (nw_pending w)(st_id t := None)\<rparr>)) (\<lambda>_.
         quietly (android_offline t)))"

definition restore_network :: "state_target \<Rightarrow> (bool, net_world) io" where
  "restore_network t =
     bind_io (modify_net (\<lambda>w. w\<lparr>nw_pending := (nw_pending w)(st_id t := None)\<rparr>)) (\<lambda>_.
     bind_io (host_restore t) (\<lambda>changed.
       if st_platform t = ''android'' then bind_io (android_restore t) (\<lambda>reconnected. ret (reconnected \<or> changed))
       else ret changed))"

definition quiet_network_restore :: "state_target \<Rightarrow> (unit, net_world) io" where
  "quiet_network_restore t = quietly (bind_io (restore_network t) (\<lambda>_. ret ()))"

definition with_network ::
  "string option \<Rightarrow> string + scope \<Rightarrow> state_target \<Rightarrow> ('a, net_world) io \<Rightarrow> ('a, net_world) io" where
  "with_network spec where_to t job =
     (case spec of
        None \<Rightarrow> job
      | Some s \<Rightarrow>
          if s = [] then job
          else bind_io (apply_network t s where_to) (\<lambda>_. finally_io job (quiet_network_restore t)))"

fun with_network_all ::
  "string option \<Rightarrow> string + scope \<Rightarrow> state_target list \<Rightarrow> ('a, net_world) io \<Rightarrow> ('a, net_world) io" where
  "with_network_all spec where_to [] job = job"
| "with_network_all spec where_to (t # ts) job = with_network spec where_to t (with_network_all spec where_to ts job)"

fun restore_attached :: "state_target list \<Rightarrow> (id list, net_world) io" where
  "restore_attached [] = ret []"
| "restore_attached (t # ts) =
     bind_io (catch_io (bind_io (restore_network t) (\<lambda>changed. ret (if changed then [st_id t] else []))) (\<lambda>_. ret [])) (\<lambda>ids.
     bind_io (restore_attached ts) (\<lambda>ids'. ret (ids @ ids')))"

end
