(* ===== verification/Device_State_Properties.thy ===== *)
theory Device_State_Properties
  imports Device_State_Laws Network_Shape
begin

text \<open>
  Properties of the device settings journal: a start-up sweep brings back whatever a job left behind,
  and three runs in which the journal forgets.
\<close>

section \<open>A phone, its settings, a job\<close>

definition FONT :: string where "FONT = ''android:system.font_scale''"

definition phone :: "string \<Rightarrow> state_target" where
  "phone i = \<lparr>st_id = i, st_platform = ''android'', st_kind = Some ''device''\<rparr>"

definition shelf :: state_world where
  "shelf = \<lparr>sw_value = (\<lambda>_ n. if n = FONT then Some ''1.0'' else None), sw_journal = None\<rparr>"

definition large_type :: "string \<Rightarrow> string \<Rightarrow> (unit, state_world) io" where
  "large_type i v = with_state (phone i) Display [(FONT, v)] (ret ())"

text \<open>Six commands of a job: read, journal, set, verify, read again, and the write that puts it back.\<close>

definition cut_off :: state_world where
  "cut_off = world_after (large_type ''p'' ''2.0'' (shelf, [Takes, Takes, Takes, Takes, Takes, Dies]))"





section \<open>Runs in which the journal forgets\<close>

text \<open>
A job whose restore fails keeps its entry, but the next job on the device journals the settings as
it finds them over that entry, and the way back is lost: the device stays at the first job's value
and no sweep knows.
\<close>

definition first_left :: state_world where
  "first_left = world_after (large_type ''p'' ''2.0'' (shelf, [Takes, Takes, Takes, Takes, Takes, Fails]))"

definition second_done :: state_world where
  "second_done = world_after (large_type ''p'' ''1.3'' (first_left, []))"

definition swept :: state_world where
  "swept = world_after (restore_attached_state [phone ''p''] (second_done, []))"

text \<open>
A kept journal entry is overwritten by the next job on the device: after a job whose restore
failed and a second one in which every command worked, the start-up sweep finds nothing to do and
the device is left at the first job's value.
\<close>

theorem stale_entry_forgets:
  "map_option se_prior (entry_at Display ''p'' first_left) = Some [(FONT, Some ''1.0'')] \<and>
   sw_value second_done ''p'' FONT = Some ''2.0'' \<and> entry_at Display ''p'' second_done = None \<and>
   sw_value swept ''p'' FONT = Some ''2.0''"
  by code_simp

text \<open>The journal is written in place: a death in the middle of the write forgets every other device.\<close>

definition other_died :: state_world where
  "other_died = world_after (large_type ''b'' ''1.3'' (cut_off, [Takes, Dies_Late]))"

lemma torn_journal_forgets:
  "map_option se_prior (entry_at Display ''p'' cut_off) = Some [(FONT, Some ''1.0'')] \<and>
   entry_at Display ''p'' other_died = None \<and> sw_value other_died ''p'' FONT = Some ''2.0''"
  by code_simp

text \<open>A night mode that could not be read is still changed, and then never restored, every command working.\<close>

definition night_job :: "(unit, state_world) io" where
  "night_job = with_state (phone ''p'') Display [(''android:uimode.night'', ''yes'')] (ret ())"

lemma night_never_settles:
  "(case restore_state (phone ''p'') Display (world_after (night_job (shelf, [])), []) of
      (Threw _, (w, _)) \<Rightarrow> entry_at Display ''p'' w \<noteq> None \<and> sw_value w ''p'' ''android:uimode.night'' = Some ''no''
    | _ \<Rightarrow> False)"
  by code_simp

section \<open>What the readers make of the tools' texts\<close>

lemma reader_examples:
  "parse_android_setting_value (''null'' @ [CR, CHR 0x0A]) = None"
  "parse_uimode_night ''Night mode: Yes'' = Some ''yes''"
  "parse_simctl_ui_value ''Usage: simctl ui'' = None"
  "parse_simctl_ui_value ''content_size: extra-large'' = Some ''extra-large''"
  "parse_defaults_string ''The domain does not exist'' = None"
  by code_simp+

text \<open>An answer with a complaint on any line is no value, whatever the other lines say.\<close>

lemma empty_no_complaint [simp]: "\<not> is_complaint []"
  by code_simp

lemma complaint_is_no_value:
  "l \<in> set (map trim (split_on (CHR 0x0A) (no_cr out))) \<Longrightarrow> is_complaint l \<Longrightarrow> parse_simctl_ui_value out = None"
  by (auto simp: parse_simctl_ui_value_def list_ex_iff Let_def)

lemma setting_never_null: "parse_android_setting_value out \<noteq> Some ''null'' \<and> parse_android_setting_value out \<noteq> Some []"
  by (simp add: parse_android_setting_value_def Let_def)

section \<open>Network profiles\<close>

text \<open>
  Properties of network shaping: a profile that was applied is in effect, a start-up sweep reconnects
  every attached device, and the runs in which a device or a profile is lost.
\<close>

section \<open>Applied means in effect\<close>

definition noted_shape :: "id \<Rightarrow> net_world \<Rightarrow> bool" where
  "noted_shape i w \<longleftrightarrow> shape_journal w i \<noteq> None"



abbreviation anything :: "net_world \<Rightarrow> bool" where "anything \<equiv> (\<lambda>_. True)"

lemma io_anything [simp]: "io_ok P m (\<lambda>_. anything) anything anything"
  by (auto simp: io_ok_def split: prod.split ending.split)

lemma io_throw_now [simp]: "io_ok P (throw e) Q anything D"
  by (simp add: io_ok_def throw_def)

lemma noted_wifi [simp]: "noted_shape i (set_wifi j v w) = noted_shape i w" "noted_shape i (set_data j v w) = noted_shape i w"
  by (simp_all add: noted_shape_def set_wifi_def set_data_def shape_journal_def)


lemma io_then_throw [simp]: "io_ok P (bind_io m (\<lambda>_. throw e)) Q anything anything"
  by (rule io_bind[where R = "\<lambda>_. anything"]) simp_all




lemma noted_host [simp]:
  "noted_shape i (w\<lparr>nw_pipes := a\<rparr>) = noted_shape i w" "noted_shape i (w\<lparr>nw_rules := b\<rparr>) = noted_shape i w"
  "noted_shape i (w\<lparr>nw_pf_enabled := c\<rparr>) = noted_shape i w"
  by (simp_all add: noted_shape_def shape_journal_def)





section \<open>The sweep\<close>

definition needs_repair :: "net_world \<Rightarrow> state_target \<Rightarrow> bool" where
  "needs_repair w t \<longleftrightarrow>
     (st_platform t = ''android'' \<and> nw_wifi w (st_id t) = Some ''0'') \<or>
     Option.bind (shape_journal w (st_id t)) he_host \<noteq> None"

definition same_device :: "id \<Rightarrow> net_world \<Rightarrow> net_world \<Rightarrow> bool" where
  "same_device i w w' \<longleftrightarrow> nw_wifi w' i = nw_wifi w i \<and> nw_data w' i = nw_data w i \<and> shape_journal w' i = shape_journal w i"

definition reconnected :: "state_target \<Rightarrow> net_world \<Rightarrow> net_world \<Rightarrow> bool" where
  "reconnected t w w' \<longleftrightarrow>
     (st_platform t = ''android'' \<longrightarrow> nw_wifi w' (st_id t) \<noteq> Some ''0'' \<and> shape_journal w' (st_id t) = None) \<and>
     Option.bind (shape_journal w' (st_id t)) he_host = None \<and>
     (\<forall>i. i \<noteq> st_id t \<longrightarrow> same_device i w w')"

lemma android_restore_works:
  "\<exists>w'. android_restore t (w, []) = (Returned (nw_wifi w (st_id t) = Some ''0''), (w', [])) \<and>
     nw_wifi w' (st_id t) \<noteq> Some ''0'' \<and> shape_journal w' (st_id t) = None \<and>
     (\<forall>i. i \<noteq> st_id t \<longrightarrow> same_device i w w')"
  by (simp add: android_restore_def shape_get_def bind_io_def get_world_def ret_def android_setting_def catch_io_def
      ask_def command_def quietly_def shape_drop_def write_shape_journal_def write_file_def Let_def)
    (auto simp: set_wifi_def set_data_def shape_journal_def same_device_def)

lemma host_restore_works:
  "\<exists>w'. host_restore t (w, []) = (Returned (Option.bind (shape_journal w (st_id t)) he_host \<noteq> None), (w', [])) \<and>
     nw_wifi w' = nw_wifi w \<and> Option.bind (shape_journal w' (st_id t)) he_host = None \<and>
     (\<forall>i. i \<noteq> st_id t \<longrightarrow> same_device i w w')"
proof (cases "Option.bind (shape_journal w (st_id t)) he_host")
  case None
  then show ?thesis by (simp add: host_restore_def shape_get_def bind_io_def get_world_def ret_def same_device_def)
next
  case (Some h)
  then obtain e where e: "shape_journal w (st_id t) = Some e" "he_host e = Some h" by (cases "shape_journal w (st_id t)") auto
  then show ?thesis
    by (simp add: host_restore_def shape_get_def bind_io_def get_world_def ret_def quietly_def catch_io_def command_def
        shape_drop_def write_shape_journal_def write_file_def)
      (auto simp: same_device_def shape_journal_def)
qed

lemma restore_network_works:
  "\<exists>w'. restore_network t (w, []) = (Returned (needs_repair w t), (w', [])) \<and> reconnected t w w'"
proof -
  let ?w0 = "w\<lparr>nw_pending := (nw_pending w)(st_id t := None)\<rparr>"
  have same0: "same_device i w ?w0" for i by (simp add: same_device_def shape_journal_def)
  obtain w1 where w1: "host_restore t (?w0, []) = (Returned (Option.bind (shape_journal w (st_id t)) he_host \<noteq> None), (w1, []))"
      "nw_wifi w1 = nw_wifi w" "Option.bind (shape_journal w1 (st_id t)) he_host = None"
      "\<And>i. i \<noteq> st_id t \<Longrightarrow> same_device i w w1"
    using host_restore_works[of t ?w0] same0 by (auto simp: same_device_def shape_journal_def)
  obtain w2 where w2: "android_restore t (w1, []) = (Returned (nw_wifi w1 (st_id t) = Some ''0''), (w2, []))"
      "nw_wifi w2 (st_id t) \<noteq> Some ''0''" "shape_journal w2 (st_id t) = None"
      "\<And>i. i \<noteq> st_id t \<Longrightarrow> same_device i w1 w2"
    using android_restore_works[of t w1] by auto
  show ?thesis
  proof (cases "st_platform t = ''android''")
    case True
    then have "restore_network t (w, []) = (Returned (needs_repair w t), (w2, []))"
      by (simp add: restore_network_def bind_io_def modify_net_def w1 w2 needs_repair_def ret_def)
    moreover have "reconnected t w w2"
      using w1 w2 by (auto simp: reconnected_def same_device_def)
    ultimately show ?thesis by blast
  next
    case False
    then have "restore_network t (w, []) = (Returned (needs_repair w t), (w1, []))"
      by (simp add: restore_network_def bind_io_def modify_net_def w1 needs_repair_def ret_def)
    moreover have "reconnected t w w1"
      using w1 False by (auto simp: reconnected_def)
    ultimately show ?thesis by blast
  qed
qed

lemma needs_repair_same: "same_device (st_id t) w w' \<Longrightarrow> needs_repair w' t = needs_repair w t"
  by (simp add: needs_repair_def same_device_def)

lemma restore_attached_works:
  "distinct (map st_id ts) \<Longrightarrow>
   \<exists>w'. restore_attached ts (w, []) = (Returned (map st_id (filter (needs_repair w) ts)), (w', [])) \<and>
     (\<forall>t \<in> set ts. st_platform t = ''android'' \<longrightarrow> nw_wifi w' (st_id t) \<noteq> Some ''0'' \<and> shape_journal w' (st_id t) = None) \<and>
     (\<forall>i. i \<notin> st_id ` set ts \<longrightarrow> same_device i w w')"
proof (induction ts arbitrary: w)
  case Nil
  then show ?case by (simp add: ret_def same_device_def)
next
  case (Cons t ts)
  obtain w1 where w1: "restore_network t (w, []) = (Returned (needs_repair w t), (w1, []))" "reconnected t w w1"
    using restore_network_works by blast
  have "distinct (map st_id ts)" using Cons.prems by simp
  from Cons.IH[OF this, of w1] obtain w2 where w2: "restore_attached ts (w1, []) = (Returned (map st_id (filter (needs_repair w1) ts)), (w2, []))"
      "\<forall>t \<in> set ts. st_platform t = ''android'' \<longrightarrow> nw_wifi w2 (st_id t) \<noteq> Some ''0'' \<and> shape_journal w2 (st_id t) = None"
      "\<forall>i. i \<notin> st_id ` set ts \<longrightarrow> same_device i w1 w2"
    by blast
  have "filter (needs_repair w1) ts = filter (needs_repair w) ts"
  proof (rule filter_cong[OF refl], rule needs_repair_same)
    fix t' assume "t' \<in> set ts"
    then have "st_id t' \<noteq> st_id t" using Cons.prems by (metis distinct.simps(2) image_eqI list.simps(9) set_map)
    then show "same_device (st_id t') w w1" using w1(2) by (simp add: reconnected_def)
  qed
  then have "restore_attached (t # ts) (w, []) = (Returned (map st_id (filter (needs_repair w) (t # ts))), (w2, []))"
    by (simp add: bind_io_def catch_io_def w1(1) w2(1) ret_def)
  moreover have "same_device i w w2" if "i \<notin> st_id ` set (t # ts)" for i
    using that w1(2) w2(3) by (auto simp: reconnected_def same_device_def)
  moreover have "nw_wifi w2 (st_id t) \<noteq> Some ''0'' \<and> shape_journal w2 (st_id t) = None" if "st_platform t = ''android''"
    using that w1(2) w2(3) Cons.prems by (auto simp: reconnected_def same_device_def)
  ultimately show ?case using w2(2)
    by (intro exI[of _ w2] conjI ballI allI impI) (auto simp only: list.set insert_iff)
qed


definition android :: "id \<Rightarrow> state_target" where
  "android i = \<lparr>st_id = i, st_platform = ''android'', st_kind = Some ''device''\<rparr>"

definition simulator :: "id \<Rightarrow> state_target" where
  "simulator i = \<lparr>st_id = i, st_platform = ''ios'', st_kind = Some ''simulator''\<rparr>"

definition online :: net_world where
  "online = \<lparr>nw_wifi = (\<lambda>_. Some ''1''), nw_data = (\<lambda>_. Some ''1''), nw_opted = True, nw_sudo = True,
     nw_anchors = [PF_ANCHOR], nw_pf_enabled = False, nw_pipes = Map.empty, nw_rules = [], nw_journal = None, nw_pending = Map.empty\<rparr>"


text \<open>
From any world at all, whatever jobs and processes left behind, a start-up sweep whose commands
work reconnects every attached Android device, empties their journal entries, answers exactly the
devices that were offline or shaped, and touches no other device.
\<close>

theorem sweep_reconnects:
  assumes "distinct (map st_id ts)"
  shows "\<exists>w'. restore_attached ts (w, []) = (Returned (map st_id (filter (needs_repair w) ts)), (w', [])) \<and>
     (\<forall>t \<in> set ts. st_platform t = ''android'' \<longrightarrow> nw_wifi w' (st_id t) \<noteq> Some ''0'' \<and> shape_journal w' (st_id t) = None) \<and>
     (\<forall>i. i \<notin> st_id ` set ts \<longrightarrow> same_device i w w')"
  by (rule restore_attached_works[OF assms])

definition crashed_offline :: net_world where
  "crashed_offline = world_after (with_network (Some ''offline'') (Inl []) (android ''p'') (ret ())
     (online, [Takes, Takes, Takes, Takes, Takes, Takes, Dies]))"

lemma sweep_reconnects_witness:
  "nw_wifi crashed_offline ''p'' = Some ''0'' \<and>
   (\<exists>w'. restore_attached [android ''p'', android ''o''] (crashed_offline, []) = (Returned [''p''], (w', [])) \<and>
     nw_wifi w' ''p'' \<noteq> Some ''0'' \<and> same_device ''x'' crashed_offline w')"
proof -
  have ids: "distinct (map st_id [android ''p'', android ''o''])" by (simp add: android_def)
  have "nw_wifi crashed_offline ''p'' = Some ''0''" by code_simp
  moreover have "map st_id (filter (needs_repair crashed_offline) [android ''p'', android ''o'']) = [''p'']" by code_simp
  moreover obtain w' where "restore_attached [android ''p'', android ''o''] (crashed_offline, []) =
       (Returned (map st_id (filter (needs_repair crashed_offline) [android ''p'', android ''o''])), (w', []))"
      "\<forall>t \<in> set [android ''p'', android ''o'']. st_platform t = ''android'' \<longrightarrow> nw_wifi w' (st_id t) \<noteq> Some ''0'' \<and> shape_journal w' (st_id t) = None"
      "\<forall>i. i \<notin> st_id ` set [android ''p'', android ''o''] \<longrightarrow> same_device i crashed_offline w'"
    using sweep_reconnects[of "[android ''p'', android ''o'']" crashed_offline] ids by blast
  moreover have "nw_wifi w' ''p'' \<noteq> Some ''0''" "same_device ''x'' crashed_offline w'"
    using calculation(4,5) by (simp_all add: android_def)
  ultimately show ?thesis by (intro conjI exI[of _ w']) simp_all
qed

section \<open>Runs in which something is lost\<close>

text \<open>
A restore that could not turn mobile data on again drops the entry all the same: it swallows the
failure and verifies wifi only. No sweep turns the data on after that.
\<close>

definition data_lost :: net_world where
  "data_lost = world_after (with_network (Some ''offline'') (Inl []) (android ''p'') (ret ())
     (online, [Takes, Takes, Takes, Takes, Takes, Takes, Takes, Takes, Fails]))"

lemma mobile_data_forgotten:
  "nw_data data_lost ''p'' = Some ''0'' \<and> nw_wifi data_lost ''p'' = Some ''1'' \<and> shape_journal data_lost ''p'' = None \<and>
   nw_data (world_after (restore_attached [android ''p''] (data_lost, []))) ''p'' = Some ''0''"
  by code_simp

text \<open>
A \<open>svc wifi disable\<close> that takes effect and then times out leaves \<open>apply\<close> by an exception before the
wrapper's \<open>try\<close>: the device stays offline after the job, until the executor is started again.
\<close>

lemma failed_disable_stays_offline:
  "(case with_network (Some ''offline'') (Inl []) (android ''p'') (ret ()) (online, [Takes, Takes, Takes, Fails_Late]) of
      (Threw _, (w, _)) \<Rightarrow> nw_wifi w ''p'' = Some ''0'' | _ \<Rightarrow> False)"
  by code_simp

text \<open>Two shaped targets: loading the second one's rules replaces the first one's, whose pipe nothing feeds.\<close>

lemma apply_three_g:
  assumes "st_kind t = Some ''simulator''" "nw_opted w" "nw_sudo w" "nw_anchors w = [PF_ANCHOR]"
  shows "\<exists>w'. apply_network t ''3g'' (Inr sc) (w, []) = (Returned (), (w', [])) \<and>
     nw_rules w' = shape_rules sc (pipe_for (st_id t)) \<and> nw_opted w' \<and> nw_sudo w' \<and> nw_anchors w' = [PF_ANCHOR] \<and>
     nw_pipes w' = (nw_pipes w)(pipe_for (st_id t) \<mapsto> THREE_G_PIPE)"
proof -
  have parse: "parse_network_profile ''3g'' = Inr Three_G" and trim: "trim PF_ANCHOR = PF_ANCHOR" by code_simp+
  have listed: "contains ''dummynet'' (hd (shape_rules sc p))" for p
    by (simp add: shape_rules_def)
  show ?thesis
    using assms listed
    by (simp add: apply_network_def parse host_shape_def host_shaping_unavailable_def bind_io_def get_world_def
        ask_def catch_io_def ret_def trim host_shape_to_def shape_put_def write_shape_journal_def write_file_def
        command_def Let_def shape_rules_def)
qed

lemma second_shape_unshapes_first:
  "\<exists>w1 w2. apply_network (simulator a) ''3g'' (Inr sc) (online, []) = (Returned (), (w1, [])) \<and>
     apply_network (simulator b) ''3g'' (Inr sc') (w1, []) = (Returned (), (w2, [])) \<and>
     nw_rules w1 = shape_rules sc (pipe_for a) \<and> nw_rules w2 = shape_rules sc' (pipe_for b)"
proof -
  obtain w1 where w1: "apply_network (simulator a) ''3g'' (Inr sc) (online, []) = (Returned (), (w1, []))"
      "nw_rules w1 = shape_rules sc (pipe_for a)" "nw_opted w1" "nw_sudo w1" "nw_anchors w1 = [PF_ANCHOR]"
    using apply_three_g[of "simulator a" online sc] by (auto simp: simulator_def online_def)
  obtain w2 where "apply_network (simulator b) ''3g'' (Inr sc') (w1, []) = (Returned (), (w2, []))"
      "nw_rules w2 = shape_rules sc' (pipe_for b)"
    using apply_three_g[of "simulator b" w1 sc'] w1 by (auto simp: simulator_def)
  with w1 show ?thesis by blast
qed

text \<open>Pipe numbers stay in their range of six hundred, but two ids can share one.\<close>

lemma pipe_bounds: "4200 \<le> pipe_for i \<and> pipe_for i < 4800"
proof -
  have "foldl (\<lambda>h c. (h * 31 + code c) mod 600) h i < 600" if "h < 600" for h
    using that by (induction i arbitrary: h) simp_all
  from this[of 0] show ?thesis by (simp add: pipe_for_def)
qed

lemma pipes_collide: "pipe_for ''aa'' = pipe_for ''bB''"
  by (simp add: pipe_for_def code_def)

text \<open>A delay of more than twenty-four days takes the device offline at once.\<close>

lemma long_delay_is_none: "2147483 < n \<Longrightarrow> timer_ms n = 1"
  by (simp add: timer_ms_def)

text \<open>
The delayed disconnection fires just before the job ends: the job's restore runs to its end between
the timer's reads and its commands, every command works, and the device stays offline after the job.
\<close>

definition late_timer :: "(unit, net_world) io" where
  "late_timer = bind_io (offline_priors (android ''p'')) (\<lambda>prior.
     bind_io (restore_network (android ''p'')) (\<lambda>_. offline_acts (android ''p'') prior))"

lemma late_timer_leaves_offline:
  "fst (late_timer (online, [])) = Returned () \<and> nw_wifi (world_after (late_timer (online, []))) ''p'' = Some ''0''"
  by code_simp

lemma known_profiles:
  "parse_network_profile ''offline-after-12s'' = Inr (Offline 12)"
  "parse_network_profile ''3G '' = Inr Three_G" "parse_network_profile ''lossy'' = Inr Lossy"
  "(case parse_network_profile ''ofline'' of Inl _ \<Rightarrow> True | Inr _ \<Rightarrow> False)"
  "over_adb_tcp ''192.168.0.7:5555'' \<and> \<not> over_adb_tcp ''R58M123''"
  by code_simp+

end
