(* ===== verification/Machine_Agent.thy ===== *)
theory Machine_Agent
  imports Js_Value
begin

text \<open>
  The machine runner's agent (\<open>runner-machine/src/agent.ts\<close>, \<open>cancellation.ts\<close>, \<open>beaconing.ts\<close>): one
  claim loop and one beacon loop per collector, all of them awaiting something most of the time, and one
  gate between them. An event is what ends an await; \<open>agent_step\<close> runs the code from there to the next
  await, or answers \<open>None\<close> where nothing awaits that. What a collector has claimed for this device and
  not closed or taken back is kept beside the agent's own state.
\<close>

section \<open>Identity and options\<close>

text \<open>\<open>.replace(/\.(local|lan|home|internal)$/, "")\<close>\<close>

definition drop_domain :: "string \<Rightarrow> string" where
  "drop_domain h =
     (case List.find (\<lambda>d. d = drop (length h - length d) h \<and> length d \<le> length h) [''.local'', ''.lan'', ''.home'', ''.internal''] of
        None \<Rightarrow> h | Some d \<Rightarrow> take (length h - length d) h)"

definition id_char :: "char \<Rightarrow> bool" where
  "id_char c \<longleftrightarrow> is_lower c \<or> is_digit c \<or> c = CHR ''_'' \<or> c = CHR ''-''"

text \<open>\<open>.replace(/[^a-z0-9_-]+/g, "-")\<close>: a run of other characters becomes one dash.\<close>

fun dash_runs :: "bool \<Rightarrow> string \<Rightarrow> string" where
  "dash_runs inside [] = []"
| "dash_runs inside (c # s) =
     (if id_char c then c # dash_runs False s else if inside then dash_runs True s else CHR ''-'' # dash_runs True s)"

definition trim_dashes :: "string \<Rightarrow> string" where
  "trim_dashes s = rev (dropWhile (\<lambda>c. c = CHR ''-'') (rev (dropWhile (\<lambda>c. c = CHR ''-'') s)))"

definition default_device_id :: "string \<Rightarrow> string" where
  "default_device_id hostname =
     (let clean = trim_dashes (dash_runs False (drop_domain (lower hostname)))
      in ''machine-'' @ (if clean = [] then ''unknown'' else clean))"

text \<open>\<open>FLEET_DEVICE_TTL_S\<close>: a positive integer, or a permanent device.\<close>

definition ttl_from_env :: "string option \<Rightarrow> int option" where
  "ttl_from_env raw =
     (case raw of
        None \<Rightarrow> None
      | Some s \<Rightarrow>
          if trim s = [] then None
          else (case str_number s of
              Fin r \<Rightarrow> if r = of_int \<lfloor>r\<rfloor> \<and> 1 \<le> r then Some \<lfloor>r\<rfloor> else None
            | _ \<Rightarrow> None))"

section \<open>The cancellation slot\<close>

type_synonym slot = "id option"

definition cancel_job :: "id \<Rightarrow> slot \<Rightarrow> slot" where
  "cancel_job j s = Some j"

definition is_cancelled :: "id \<Rightarrow> slot \<Rightarrow> bool" where
  "is_cancelled j s \<longleftrightarrow> s = Some j"

definition clear_job :: "id \<Rightarrow> slot \<Rightarrow> slot" where
  "clear_job j s = (if s = Some j then None else s)"

text \<open>
  \<open>leaseRenewedIn\<close>: what a 2xx answer to a beacon says of the lease. \<open>parse\<close> is the platform's JSON
  parser, \<open>None\<close> where it throws.
\<close>

definition lease_renewed_in :: "(string \<Rightarrow> js option) \<Rightarrow> string option \<Rightarrow> bool" where
  "lease_renewed_in parse body =
     (case body of
        None \<Rightarrow> True
      | Some b \<Rightarrow>
          if trim b = [] then True
          else (case parse b of
              None \<Rightarrow> True
            | Some v \<Rightarrow>
                if \<not> is_plain_object v then True
                else (case jget ''lease_renewed'' v of JBool r \<Rightarrow> r | _ \<Rightarrow> True)))"

section \<open>The job's device constraints\<close>

record machine_sample =
  ms_battery_pct :: "rat option"
  ms_charging :: "bool option"
  ms_on_ac :: "bool option"

definition constraint_error :: "js \<Rightarrow> machine_sample \<Rightarrow> string option" where
  "constraint_error c s =
     (if \<not> truthy c then None
      else if jget ''require_charging'' c = JBool True \<and> ms_charging s \<noteq> Some True \<and> ms_on_ac s \<noteq> Some True \<and>
        ms_battery_pct s \<noteq> None
      then Some ''constraint not met: require_charging (machine is on battery)''
      else case (jget ''min_battery_pct'' c, ms_battery_pct s) of
        (JNum n, Some b) \<Rightarrow>
          if num_lt (Fin b) n
          then Some (''constraint not met: min_battery_pct '' @ num_str n @ '' (at '' @ num_str (Fin b) @ ''%)'')
          else None
      | _ \<Rightarrow> None)"

section \<open>The agent\<close>

text \<open>Where a claim loop is: the await it sits in, and the job that await is about.\<close>

datatype claim_loop =
    Connecting bool
  | Asking
  | Polling "id option"
  | Giving_Back id
  | Checking id
  | Refusing id
  | Working id
  | Backing_Off
  | Ended

record agent =
  ag_held_by :: "id option"
  ag_job_id :: "id option"
  ag_cancelled :: slot
  ag_stopped :: bool
  ag_described :: bool
  ag_loop :: "id \<Rightarrow> claim_loop"
  ag_beacon :: "id \<Rightarrow> id option option"
  ag_claims :: "(id \<times> id) set"

definition set_loop :: "id \<Rightarrow> claim_loop \<Rightarrow> agent \<Rightarrow> agent" where
  "set_loop c l a = a\<lparr>ag_loop := (ag_loop a)(c := l)\<rparr>"

text \<open>Back at the head of the outer loop after an exception.\<close>

definition loop_error :: "id \<Rightarrow> agent \<Rightarrow> agent" where
  "loop_error c a = set_loop c (if ag_stopped a then Ended else Backing_Off) a"

definition take_or_release :: "id \<Rightarrow> id \<Rightarrow> agent \<Rightarrow> agent" where
  "take_or_release c j a =
     (if ag_held_by a \<noteq> None then set_loop c (Giving_Back j) a
      else set_loop c (Checking j) (a\<lparr>ag_held_by := Some c, ag_job_id := Some j\<rparr>))"

text \<open>\<open>register\<close> keeps the descriptor before it posts it, so it stays whatever the collector says.\<close>

definition describe_once :: "bool \<Rightarrow> agent \<Rightarrow> agent" where
  "describe_once described a = (if described then a\<lparr>ag_described := True\<rparr> else a)"

definition release_gate :: "agent \<Rightarrow> agent" where
  "release_gate a = a\<lparr>ag_held_by := None, ag_job_id := None\<rparr>"

definition drop_claim :: "bool \<Rightarrow> id \<Rightarrow> id \<Rightarrow> agent \<Rightarrow> agent" where
  "drop_claim b c j a = (if b then a\<lparr>ag_claims := ag_claims a - {(c, j)}\<rparr> else a)"

text \<open>
  What a beacon to a collector carries: the job whose lease it renews, and who else holds the machine; the
  second is read after the hardware has been sampled, a moment later than the first.
\<close>

definition beacon_job :: "agent \<Rightarrow> id \<Rightarrow> id option" where
  "beacon_job a c = (if ag_held_by a = Some c then ag_job_id a else None)"

definition beacon_busy :: "agent \<Rightarrow> id \<Rightarrow> (id \<times> id option) option" where
  "beacon_busy a c =
     (case ag_job_id a of
        None \<Rightarrow> None
      | Some j \<Rightarrow> if ag_held_by a \<noteq> Some c then Some (j, ag_held_by a) else None)"

datatype agent_event =
    Enter id
  | Registered id bool bool
  | Woken id bool
  | Ask id
  | Granted id id
  | Poll_Empty id
  | Arrived id
  | Poll_Failed id
  | Given_Back id bool
  | Checked id "string option"
  | Check_Failed id
  | Refused id bool
  | Worked id bool bool
  | Own_Beacon id bool
  | Beacon_Sent id
  | Beacon_Answered id "bool option"
  | Backed_Off id
  | Brain_Closed id id
  | Stop_Agent

fun agent_step :: "agent_event \<Rightarrow> agent \<Rightarrow> agent option" where
  "agent_step (Enter c) a =
     (case ag_loop a c of
        Connecting True \<Rightarrow> Some (set_loop c (if ag_stopped a then Ended else Asking) a)
      | _ \<Rightarrow> None)"
| "agent_step (Registered c described ok) a =
     (case ag_loop a c of
        Connecting False \<Rightarrow>
          (let a' = describe_once described a in Some (if described \<and> ok then set_loop c Asking a' else loop_error c a'))
      | _ \<Rightarrow> None)"
| "agent_step (Woken c described) a =
     (if ag_stopped a \<or> ag_beacon a c \<noteq> None then None else Some (describe_once described a))"
| "agent_step (Ask c) a =
     (case ag_loop a c of
        Asking \<Rightarrow>
          if ag_stopped a then Some (set_loop c Ended a)
          else if ag_held_by a \<noteq> None then Some a
          else Some (set_loop c (Polling None) a)
      | _ \<Rightarrow> None)"
| "agent_step (Granted c j) a =
     (case ag_loop a c of
        Polling None \<Rightarrow> Some (set_loop c (Polling (Some j)) (a\<lparr>ag_claims := insert (c, j) (ag_claims a)\<rparr>))
      | _ \<Rightarrow> None)"
| "agent_step (Poll_Empty c) a = (case ag_loop a c of Polling None \<Rightarrow> Some (set_loop c Asking a) | _ \<Rightarrow> None)"
| "agent_step (Arrived c) a =
     (case ag_loop a c of
        Polling (Some j) \<Rightarrow> if ag_stopped a then Some (set_loop c Asking a) else Some (take_or_release c j a)
      | _ \<Rightarrow> None)"
| "agent_step (Poll_Failed c) a =
     (case ag_loop a c of
        Polling _ \<Rightarrow> if ag_stopped a then Some (set_loop c Asking a) else Some (loop_error c a)
      | _ \<Rightarrow> None)"
| "agent_step (Given_Back c ok) a =
     (case ag_loop a c of Giving_Back j \<Rightarrow> Some (drop_claim ok c j (set_loop c Asking a)) | _ \<Rightarrow> None)"
| "agent_step (Checked c reason) a =
     (case ag_loop a c of
        Checking j \<Rightarrow> Some (set_loop c (if reason \<noteq> None then Refusing j else Working j) a)
      | _ \<Rightarrow> None)"
| "agent_step (Check_Failed c) a =
     (case ag_loop a c of Checking j \<Rightarrow> Some (loop_error c (release_gate a)) | _ \<Rightarrow> None)"
| "agent_step (Refused c ok) a =
     (case ag_loop a c of
        Refusing j \<Rightarrow>
          Some (drop_claim ok c j (if ok then set_loop c Asking (release_gate a) else loop_error c (release_gate a)))
      | _ \<Rightarrow> None)"
| "agent_step (Worked c returned posted) a =
     (case ag_loop a c of
        Working j \<Rightarrow>
          (let a' = release_gate (a\<lparr>ag_cancelled := clear_job j (ag_cancelled a)\<rparr>)
           in Some (drop_claim posted c j (if returned then set_loop c Asking a' else loop_error c a')))
      | _ \<Rightarrow> None)"
| "agent_step (Own_Beacon c renewed) a =
     (case ag_loop a c of
        Working j \<Rightarrow> Some (if renewed then a else a\<lparr>ag_cancelled := cancel_job j (ag_cancelled a)\<rparr>)
      | _ \<Rightarrow> None)"
| "agent_step (Beacon_Sent c) a =
     (if ag_stopped a \<or> \<not> ag_described a \<or> ag_beacon a c \<noteq> None then None
      else Some (a\<lparr>ag_beacon := (ag_beacon a)(c := Some (beacon_job a c))\<rparr>))"
| "agent_step (Beacon_Answered c answer) a =
     (case ag_beacon a c of
        None \<Rightarrow> None
      | Some mine \<Rightarrow>
          (let a' = a\<lparr>ag_beacon := (ag_beacon a)(c := None)\<rparr> in
           Some (case mine of
               Some j \<Rightarrow> if answer = Some False then a'\<lparr>ag_cancelled := cancel_job j (ag_cancelled a')\<rparr> else a'
             | None \<Rightarrow> a')))"
| "agent_step (Backed_Off c) a =
     (case ag_loop a c of
        Backing_Off \<Rightarrow> Some (set_loop c (if ag_stopped a then Ended else Connecting False) a)
      | _ \<Rightarrow> None)"
| "agent_step (Brain_Closed c j) a = Some (a\<lparr>ag_claims := ag_claims a - {(c, j)}\<rparr>)"
| "agent_step Stop_Agent a = Some (a\<lparr>ag_stopped := True\<rparr>)"

text \<open>
  Just after \<open>startAgent\<close> has made its first round of registrations: who took it, and whether the machine
  could be described.
\<close>

definition started_agent :: "bool \<Rightarrow> id set \<Rightarrow> agent" where
  "started_agent described registered =
     \<lparr>ag_held_by = None, ag_job_id = None, ag_cancelled = None, ag_stopped = False, ag_described = described,
      ag_loop = (\<lambda>c. Connecting (c \<in> registered)), ag_beacon = (\<lambda>_. None), ag_claims = {}\<rparr>"

fun agent_run :: "agent_event list \<Rightarrow> agent \<Rightarrow> agent option" where
  "agent_run [] a = Some a"
| "agent_run (e # es) a = Option.bind (agent_step e a) (agent_run es)"

section \<open>The rate-limited beacon of a long workload\<close>

record beaconer =
  be_job :: id
  be_last :: int
  be_interval :: int

text \<open>\<open>answer\<close> is the collector's \<open>lease_renewed\<close>, \<open>None\<close> when the post throws; \<open>False\<close> means stop.\<close>

definition beaconer_maybe :: "int \<Rightarrow> bool option \<Rightarrow> beaconer \<Rightarrow> slot \<Rightarrow> bool \<times> beaconer \<times> slot" where
  "beaconer_maybe now answer b s =
     (if is_cancelled (be_job b) s then (False, b, s)
      else if now - be_last b < be_interval b then (True, b, s)
      else
        let b' = b\<lparr>be_last := now\<rparr> in
        if answer = Some False then (False, b', cancel_job (be_job b) s) else (True, b', s))"

text \<open>A child process with a beacon ticker (\<open>runWithBeacons\<close>): what a tick does to it.\<close>

record ticked_child =
  tk_job :: id
  tk_cancelled :: bool
  tk_signalled :: bool

definition child_tick :: "bool option \<Rightarrow> ticked_child \<Rightarrow> slot \<Rightarrow> ticked_child \<times> slot" where
  "child_tick answer k s =
     (if is_cancelled (tk_job k) s \<and> \<not> tk_cancelled k then (k\<lparr>tk_cancelled := True, tk_signalled := True\<rparr>, s)
      else if answer = Some False \<and> \<not> tk_cancelled k
      then (k\<lparr>tk_cancelled := True, tk_signalled := True\<rparr>, cancel_job (tk_job k) s)
      else (k, s))"

text \<open>\<open>split(/\r?\n/)\<close>: the carriage return goes with the newline it stands before.\<close>

definition cut_cr :: "string \<Rightarrow> string" where
  "cut_cr l = (if l \<noteq> [] \<and> last l = CHR 0x0D then butlast l else l)"

definition text_lines :: "string \<Rightarrow> string list" where
  "text_lines s = (let ps = split_on (CHR 0x0A) s in map cut_cr (butlast ps) @ [last ps])"

text \<open>The one-character ellipsis; a model character is a byte, so it stands at \<open>0x85\<close>.\<close>

definition ELLIPSIS :: char where "ELLIPSIS = CHR 0x85"

text \<open>The line of a child's output that says what went wrong.\<close>

definition last_meaningful :: "string \<Rightarrow> nat \<Rightarrow> string" where
  "last_meaningful output limit =
     (let ls = filter (\<lambda>l. l \<noteq> []) (map trim (text_lines output));
          l = (if ls = [] then [] else last ls)
      in if limit < length l then take (limit - 1) l @ [ELLIPSIS] else l)"

section \<open>Laws\<close>

text \<open>
  Laws of the agent's gate: which loop has the running job, that every claim a collector has granted is
  accounted for, and what can set the cancellation slot. Proved by rule induction over the runs.
\<close>

section \<open>Runs\<close>

text \<open>The agents that can be, from a start with some set of registered collectors, by events a filter admits.\<close>

inductive agent_reach :: "(agent_event \<Rightarrow> bool) \<Rightarrow> agent \<Rightarrow> bool" for ok where
  begin_: "agent_reach ok (started_agent described registered)"
| step: "agent_reach ok a \<Longrightarrow> ok e \<Longrightarrow> agent_step e a = Some a' \<Longrightarrow> agent_reach ok a'"

lemma agent_run_reach: "agent_reach ok a \<Longrightarrow> list_all ok es \<Longrightarrow> agent_run es a = Some a' \<Longrightarrow> agent_reach ok a'"
proof (induction es arbitrary: a)
  case (Cons e es)
  then obtain b where "agent_step e a = Some b" "agent_run es b = Some a'" by (auto simp: bind_eq_Some_conv)
  with Cons show ?case by (auto intro: agent_reach.step)
qed simp

section \<open>The gate\<close>

text \<open>The job a loop runs, from the moment it has passed the gate to the moment it leaves.\<close>

fun running_job :: "claim_loop \<Rightarrow> id option" where
  "running_job (Checking j) = Some j"
| "running_job (Refusing j) = Some j"
| "running_job (Working j) = Some j"
| "running_job _ = None"

definition gate_ok :: "agent \<Rightarrow> bool" where
  "gate_ok a \<longleftrightarrow>
     (ag_held_by a = None \<longleftrightarrow> ag_job_id a = None) \<and>
     (\<forall>c j. running_job (ag_loop a c) = Some j \<longleftrightarrow> ag_held_by a = Some c \<and> ag_job_id a = Some j)"

lemma gate_okD: "gate_ok a \<Longrightarrow> running_job (ag_loop a c) = Some j \<Longrightarrow> ag_held_by a = Some c \<and> ag_job_id a = Some j"
  by (simp add: gate_ok_def)

text \<open>How a loop moves: the job it runs and the gate change together or not at all.\<close>

lemma gate_ok_same:
  assumes "gate_ok a" "ag_held_by a' = ag_held_by a" "ag_job_id a' = ag_job_id a"
    "\<And>c. running_job (ag_loop a' c) = running_job (ag_loop a c)"
  shows "gate_ok a'"
  using assms by (simp add: gate_ok_def)

lemma gate_ok_taken:
  assumes "gate_ok a" "ag_held_by a = None" "running_job l = Some j"
  shows "gate_ok (set_loop c l (a\<lparr>ag_held_by := Some c, ag_job_id := Some j\<rparr>))"
  using assms by (auto simp: gate_ok_def set_loop_def)

lemma gate_ok_left:
  assumes "gate_ok a" "running_job (ag_loop a c) = Some j" "running_job l = None"
    "ag_held_by a' = None" "ag_job_id a' = None" "ag_loop a' = (ag_loop a)(c := l)"
  shows "gate_ok a'"
proof -
  have "running_job (ag_loop a c') = None" if "c' \<noteq> c" for c'
    using assms(1,2) that by (cases "running_job (ag_loop a c')") (auto simp: gate_ok_def)
  then show ?thesis using assms by (auto simp: gate_ok_def)
qed

lemmas agent_defs = set_loop_def loop_error_def take_or_release_def release_gate_def drop_claim_def describe_once_def

lemma agent_step_gate:
  assumes ok: "gate_ok a" and e: "agent_step e a = Some a'"
  shows "gate_ok a'"
proof (cases e)
  case (Arrived c)
  then obtain j where j: "ag_loop a c = Polling (Some j)" using e by (auto split: claim_loop.splits option.splits)
  show ?thesis
  proof (cases "ag_stopped a \<or> ag_held_by a \<noteq> None")
    case True
    then show ?thesis using e j Arrived
      by (intro gate_ok_same[OF ok]) (auto simp: agent_defs split: if_splits)
  next
    case False
    then have "a' = set_loop c (Checking j) (a\<lparr>ag_held_by := Some c, ag_job_id := Some j\<rparr>)"
      using e j Arrived by (simp add: take_or_release_def)
    then show ?thesis using gate_ok_taken[OF ok, of "Checking j" j c] False by simp
  qed
next
  case (Check_Failed c)
  then obtain j where "ag_loop a c = Checking j" using e by (auto split: claim_loop.splits)
  then show ?thesis using e Check_Failed by (intro gate_ok_left[OF ok, of c j]) (auto simp: agent_defs)
next
  case (Refused c b)
  then obtain j where "ag_loop a c = Refusing j" using e by (auto split: claim_loop.splits)
  then show ?thesis using e Refused
    by (intro gate_ok_left[OF ok, of c j "ag_loop a' c"]) (auto simp: agent_defs fun_eq_iff split: if_splits)
next
  case (Worked c b p)
  then obtain j where "ag_loop a c = Working j" using e by (auto split: claim_loop.splits)
  then show ?thesis using e Worked
    by (intro gate_ok_left[OF ok, of c j "ag_loop a' c"]) (auto simp: agent_defs Let_def fun_eq_iff split: if_splits)
qed (use e in \<open>auto intro!: gate_ok_same[OF ok] simp: agent_defs Let_def split: claim_loop.splits option.splits if_splits bool.splits\<close>)

lemma started_gate: "gate_ok (started_agent described registered)"
  by (simp add: gate_ok_def started_agent_def)

lemma reach_gate: "agent_reach ok a \<Longrightarrow> gate_ok a"
  by (induction rule: agent_reach.induct) (auto intro: started_gate agent_step_gate)

section \<open>Claims\<close>

text \<open>The job a loop has in hand: the one its poll was granted, the one it gives back, the one it runs.\<close>

fun in_hand :: "claim_loop \<Rightarrow> id option" where
  "in_hand (Polling x) = x"
| "in_hand (Giving_Back j) = Some j"
| "in_hand l = running_job l"

definition claims_ok :: "agent \<Rightarrow> bool" where
  "claims_ok a \<longleftrightarrow> (\<forall>c j. (c, j) \<in> ag_claims a \<longrightarrow> in_hand (ag_loop a c) = Some j)"

text \<open>Events in which nothing was lost on the way: every post got through, and the agent was not stopped.\<close>

fun kept_in_touch :: "agent_event \<Rightarrow> bool" where
  "kept_in_touch (Poll_Failed _) = False"
| "kept_in_touch (Given_Back _ ok) = ok"
| "kept_in_touch (Check_Failed _) = False"
| "kept_in_touch (Refused _ ok) = ok"
| "kept_in_touch (Worked _ _ posted) = posted"
| "kept_in_touch Stop_Agent = False"
| "kept_in_touch _ = True"

lemma reach_running: "agent_reach kept_in_touch a \<Longrightarrow> \<not> ag_stopped a"
proof (induction rule: agent_reach.induct)
  case (step a e a')
  then show ?case
    by (cases e) (auto simp: agent_defs Let_def split: claim_loop.splits option.splits if_splits bool.splits)
qed (simp add: started_agent_def)

lemma agent_step_claims:
  assumes ok: "claims_ok a" and "\<not> ag_stopped a" "kept_in_touch e" "agent_step e a = Some a'"
  shows "claims_ok a'"
proof -
  have D: "in_hand (ag_loop a c) = Some j" if "(c, j) \<in> ag_claims a" for c j
    using ok that by (simp add: claims_ok_def)
  show ?thesis
  proof (cases "a' = a")
    case False
    then show ?thesis
      unfolding claims_ok_def using assms(2-)
      by (cases e) (auto dest!: D simp: agent_defs Let_def split: claim_loop.splits option.splits if_splits bool.splits)
  qed (simp add: ok)
qed

lemma reach_claims: "agent_reach kept_in_touch a \<Longrightarrow> claims_ok a"
proof (induction rule: agent_reach.induct)
  case (begin_ described registered)
  show ?case by (simp add: claims_ok_def started_agent_def)
next
  case (step a e a')
  then show ?case using agent_step_claims reach_running by blast
qed

section \<open>Cancellation\<close>

text \<open>Events in which no collector said an explicit false.\<close>

fun no_false :: "agent_event \<Rightarrow> bool" where
  "no_false (Own_Beacon _ renewed) = renewed"
| "no_false (Beacon_Answered _ answer) = (answer \<noteq> Some False)"
| "no_false _ = True"

lemma reach_uncancelled: "agent_reach no_false a \<Longrightarrow> ag_cancelled a = None"
proof (induction rule: agent_reach.induct)
  case (step a e a')
  then show ?case
    by (cases e) (auto simp: agent_defs clear_job_def Let_def split: claim_loop.splits option.splits if_splits bool.splits)
qed (simp add: started_agent_def)

end
