(* ===== verification/Machine_Routes.thy ===== *)
theory Machine_Routes
  imports Registry
begin

text \<open>
  What the machine runner declares and what it dispatches (\<open>runner-machine/src/routes.ts\<close>,
  \<open>capabilities.ts\<close>), the plan of a build (\<open>buildkinds.ts\<close>), and the self-check (\<open>workloads/selfcheck.ts\<close>).
\<close>

section \<open>Routes\<close>

record capability_flags =
  cf_llama_bench :: bool
  cf_mlx :: bool
  cf_gradle :: bool
  cf_xcodebuild :: bool
  cf_node :: bool
  cf_converters :: "string list"
  cf_shell_allowlist :: bool
  cf_llama_server :: bool

datatype workload_runner =
    Run_Benchmark | Run_Build | Run_Self_Check | Run_Llm_Eval | Run_Model_Convert | Run_Dataset_Prep | Run_Serve | Run_Shell

record route =
  rt_workload :: string
  rt_declares :: "capability_flags \<Rightarrow> string list"
  rt_run :: workload_runner

definition build_kinds :: "capability_flags \<Rightarrow> string list" where
  "build_kinds f =
     (if cf_gradle f then [''build:gradle''] else []) @
     (if cf_xcodebuild f then [''build:xcode''] else []) @
     (if cf_node f then [''build:npm''] else [])"

definition ROUTES :: "route list" where
  "ROUTES =
    [\<lparr>rt_workload = ''benchmark'',
      rt_declares = (\<lambda>f. [''benchmark''] @ (if cf_llama_bench f then [''benchmark:llama.cpp''] else []) @
         (if cf_mlx f then [''benchmark:mlx''] else [])),
      rt_run = Run_Benchmark\<rparr>,
     \<lparr>rt_workload = ''build'',
      rt_declares = (\<lambda>f. if build_kinds f \<noteq> [] then ''build'' # build_kinds f else []), rt_run = Run_Build\<rparr>,
     \<lparr>rt_workload = ''self-check'', rt_declares = (\<lambda>_. [''self-check'']), rt_run = Run_Self_Check\<rparr>,
     \<lparr>rt_workload = ''llm-eval'', rt_declares = (\<lambda>_. [''llm-eval'']), rt_run = Run_Llm_Eval\<rparr>,
     \<lparr>rt_workload = ''model-convert'',
      rt_declares = (\<lambda>f. if cf_converters f \<noteq> []
         then ''model-convert'' # map (\<lambda>c. ''model-convert:'' @ c) (cf_converters f) else []),
      rt_run = Run_Model_Convert\<rparr>,
     \<lparr>rt_workload = ''dataset-prep'', rt_declares = (\<lambda>f. if cf_converters f \<noteq> [] then [''dataset-prep''] else []),
      rt_run = Run_Dataset_Prep\<rparr>,
     \<lparr>rt_workload = ''serve'', rt_declares = (\<lambda>f. if cf_llama_server f then [''serve''] else []), rt_run = Run_Serve\<rparr>,
     \<lparr>rt_workload = ''shell'', rt_declares = (\<lambda>f. if cf_shell_allowlist f then [''shell''] else []), rt_run = Run_Shell\<rparr>]"

definition capabilities_from :: "capability_flags \<Rightarrow> string list" where
  "capabilities_from f = concat (map (\<lambda>r. rt_declares r f) ROUTES)"

definition route_for :: "string \<Rightarrow> route option" where
  "route_for w = List.find (\<lambda>r. rt_workload r = w) ROUTES"

text \<open>What a declared capability is a capability of: the word before its colon.\<close>

definition cap_base :: "string \<Rightarrow> string" where
  "cap_base c = takeWhile (\<lambda>x. x \<noteq> CHR '':'') c"

lemma cap_base_labelled: "CHR '':'' \<notin> set w \<Longrightarrow> cap_base (w @ CHR '':'' # b) = w"
  by (induction w) (auto simp: cap_base_def)

lemma cap_base_plain: "CHR '':'' \<notin> set w \<Longrightarrow> cap_base w = w"
  by (simp add: cap_base_def takeWhile_eq_all_conv) metis

lemma routes_distinct: "distinct (map rt_workload ROUTES)"
  by (simp add: ROUTES_def)

lemma find_by_key:
  "distinct (map k xs) \<Longrightarrow> List.find (\<lambda>x. k x = w) xs = Some r \<longleftrightarrow> r \<in> set xs \<and> k r = w"
  by (induction xs) force+

lemma route_for_Some: "route_for w = Some r \<longleftrightarrow> r \<in> set ROUTES \<and> rt_workload r = w"
  unfolding route_for_def by (rule find_by_key[OF routes_distinct])

lemma build_kinds_base: "c \<in> set (build_kinds f) \<Longrightarrow> cap_base c = ''build''"
  by (auto simp: build_kinds_def cap_base_def split: if_splits)

lemma declares_base: "r \<in> set ROUTES \<Longrightarrow> c \<in> set (rt_declares r f) \<Longrightarrow> cap_base c = rt_workload r"
  by (auto simp: ROUTES_def cap_base_def dest: build_kinds_base[unfolded cap_base_def] split: if_splits)

lemma declares_bare: "r \<in> set ROUTES \<Longrightarrow> rt_declares r f \<noteq> [] \<Longrightarrow> rt_workload r \<in> set (rt_declares r f)"
  by (auto simp: ROUTES_def split: if_splits)

lemma capability_base: "c \<in> set (capabilities_from f) \<Longrightarrow> \<exists>r. route_for (cap_base c) = Some r \<and> rt_declares r f \<noteq> []"
  unfolding capabilities_from_def route_for_Some by (auto simp: declares_base)

section \<open>Builds\<close>

datatype build_kind = Gradle | Xcode | Npm

definition kind_of :: "js \<Rightarrow> build_kind option" where
  "kind_of v =
     (if v = JStr ''gradle'' then Some Gradle else if v = JStr ''xcode'' then Some Xcode
      else if v = JStr ''npm'' then Some Npm else None)"

fun kind_binary :: "build_kind \<Rightarrow> string" where
  "kind_binary Gradle = ''gradle''"
| "kind_binary Xcode = ''xcodebuild''"
| "kind_binary Npm = ''node''"

text \<open>A parameter that is a string with something in it, trimmed.\<close>

definition build_str :: "js \<Rightarrow> string \<Rightarrow> string option" where
  "build_str params k =
     (case jget k params of JStr s \<Rightarrow> if trim s \<noteq> [] then Some (trim s) else None | _ \<Rightarrow> None)"

record build_plan =
  bp_kind :: build_kind
  bp_cmd :: string
  bp_args :: "string list"
  bp_cwd :: string
  bp_target :: string
  bp_product_dirs :: "string list"
  bp_product_exts :: "string list"
  bp_platform :: "string option"

definition path_in :: "string \<Rightarrow> string \<Rightarrow> string" where
  "path_in dir name = dir @ ''/'' @ name"

definition PACK_DIR :: string where "PACK_DIR = ''.fleet-pack''"

definition or_else :: "string option \<Rightarrow> string \<Rightarrow> string" where
  "or_else x d = (case x of None \<Rightarrow> d | Some s \<Rightarrow> s)"

definition plan_build ::
  "build_kind \<Rightarrow> js \<Rightarrow> string \<Rightarrow> bool \<Rightarrow> string option \<Rightarrow> string option \<Rightarrow> string + build_plan" where
  "plan_build kind params repo has_gradlew workspace project =
     (case kind of
        Gradle \<Rightarrow>
          let task = or_else (build_str params ''task'') ''assembleRelease'' in
          Inr \<lparr>bp_kind = Gradle, bp_cmd = (if has_gradlew then path_in repo ''gradlew'' else ''gradle''),
            bp_args = [task, ''--no-daemon'', ''--console=plain''], bp_cwd = repo, bp_target = task,
            bp_product_dirs = [''app/build/outputs/apk'', ''build/outputs/apk'', ''app/build/outputs'', ''build/libs'', ''build''],
            bp_product_exts = [''.apk'', ''.aab'', ''.jar''], bp_platform = Some ''android''\<rparr>
      | Xcode \<Rightarrow>
          (case build_str params ''scheme'' of
             None \<Rightarrow> Inl ''build kind 'xcode' needs params.scheme''
           | Some scheme \<Rightarrow>
               let configuration = or_else (build_str params ''configuration'') ''Debug'';
                   destination = or_else (build_str params ''destination'') ''generic/platform=iOS Simulator'';
                   container = (case workspace of
                       Some x \<Rightarrow> [''-workspace'', x]
                     | None \<Rightarrow> (case project of Some x \<Rightarrow> [''-project'', x] | None \<Rightarrow> []))
               in Inr \<lparr>bp_kind = Xcode, bp_cmd = ''xcodebuild'',
                 bp_args = container @ [''-scheme'', scheme, ''-configuration'', configuration, ''-destination'', destination,
                    ''-derivedDataPath'', path_in repo ''.fleet-derived-data'', ''build''],
                 bp_cwd = repo, bp_target = scheme,
                 bp_product_dirs = [''.fleet-derived-data/Build/Products''], bp_product_exts = [''.app''],
                 bp_platform = Some ''ios''\<rparr>)
      | Npm \<Rightarrow>
          let script = or_else (build_str params ''task'') ''build'' in
          Inr \<lparr>bp_kind = Npm, bp_cmd = ''npm'', bp_args = [''run'', script], bp_cwd = repo, bp_target = script,
            bp_product_dirs = [PACK_DIR, ''dist'', ''build'', ''out'', ''.''],
            bp_product_exts = [''.tgz'', ''.zip''], bp_platform = None\<rparr>)"

text \<open>The directory a repository's clone is kept in; \<open>sha256_hex\<close> is the platform's digest.\<close>

definition slash_or_colon :: "char \<Rightarrow> bool" where
  "slash_or_colon c \<longleftrightarrow> c = CHR ''/'' \<or> c = CHR 0x5C \<or> c = CHR '':''"

definition cache_char :: "char \<Rightarrow> bool" where
  "cache_char c \<longleftrightarrow> is_alpha c \<or> is_digit c \<or> c = CHR ''.'' \<or> c = CHR ''_'' \<or> c = CHR ''-''"

fun dashed :: "(char \<Rightarrow> bool) \<Rightarrow> bool \<Rightarrow> string \<Rightarrow> string" where
  "dashed ok inside [] = []"
| "dashed ok inside (c # s) =
     (if ok c then c # dashed ok False s else if inside then dashed ok True s else CHR ''-'' # dashed ok True s)"

definition trim_by :: "(char \<Rightarrow> bool) \<Rightarrow> string \<Rightarrow> string" where
  "trim_by p s = rev (dropWhile p (rev (dropWhile p s)))"

definition repo_cache_name :: "(string \<Rightarrow> string) \<Rightarrow> string \<Rightarrow> string" where
  "repo_cache_name sha256_hex repo =
     (let r = rev (dropWhile (\<lambda>c. c = CHR ''/'') (rev repo));
          leaf = rev (takeWhile (\<lambda>c. \<not> slash_or_colon c) (rev r));
          named = (if 4 \<le> length leaf \<and> lower (drop (length leaf - 4) leaf) = ''.git'' then take (length leaf - 4) leaf else leaf);
          base = take 40 (trim_by (\<lambda>c. c = CHR ''-'' \<or> c = CHR ''.'') (dashed cache_char False named))
      in (if base = [] then ''repo'' else base) @ ''-'' @ take 12 (sha256_hex repo))"

section \<open>The self-check\<close>

record check_row =
  ck_name :: string
  ck_ok :: "bool option"

definition skipped :: "string \<Rightarrow> check_row" where
  "skipped n = \<lparr>ck_name = n, ck_ok = None\<rparr>"

definition count_failed :: "check_row list \<Rightarrow> nat" where
  "count_failed cs = length (filter (\<lambda>c. ck_ok c = Some False) cs)"

text \<open>A tool: where it resolved, and the version its reader made of its answer.\<close>

definition tool_check :: "string \<Rightarrow> string option \<Rightarrow> string option \<Rightarrow> check_row" where
  "tool_check bin resolved version =
     (if resolved = None then skipped (''tool:'' @ bin)
      else \<lparr>ck_name = ''tool:'' @ bin, ck_ok = Some (version \<noteq> None)\<rparr>)"

definition xcodebuild_check :: "string option \<Rightarrow> string option \<Rightarrow> check_row" where
  "xcodebuild_check resolved version =
     (if resolved = None then skipped ''tool:xcodebuild''
      else if version \<noteq> None then \<lparr>ck_name = ''tool:xcodebuild'', ck_ok = Some True\<rparr>
      else skipped ''tool:xcodebuild'')"

record launchd_state =
  ls_loaded :: bool
  ls_pid :: "int option"
  ls_last_exit :: "int option"

text \<open>The labels in order: the first that is loaded and not dead. A dead one only changes the detail.\<close>

fun launchd_check :: "(string \<Rightarrow> launchd_state) \<Rightarrow> string list \<Rightarrow> check_row" where
  "launchd_check state [] = \<lparr>ck_name = ''agent_loaded'', ck_ok = Some False\<rparr>"
| "launchd_check state (l # ls) =
     (if \<not> ls_loaded (state l) then launchd_check state ls
      else if ls_last_exit (state l) \<noteq> None \<and> ls_last_exit (state l) \<noteq> Some 0 \<and> ls_pid (state l) = None
      then launchd_check state ls
      else \<lparr>ck_name = ''agent_loaded'', ck_ok = Some True\<rparr>)"

definition systemd_check :: "bool \<Rightarrow> (string \<Rightarrow> bool) \<Rightarrow> string list \<Rightarrow> check_row" where
  "systemd_check has_systemctl loaded units =
     (if \<not> has_systemctl then skipped ''agent_loaded''
      else \<lparr>ck_name = ''agent_loaded'', ck_ok = Some (list_ex loaded units)\<rparr>)"

definition disk_check :: "rat option \<Rightarrow> int \<Rightarrow> check_row" where
  "disk_check free min_gb =
     (case free of None \<Rightarrow> skipped ''disk_free'' | Some g \<Rightarrow> \<lparr>ck_name = ''disk_free'', ck_ok = Some (of_int min_gb \<le> g)\<rparr>)"

definition clock_check :: "int option \<Rightarrow> int \<Rightarrow> check_row" where
  "clock_check offset tolerance =
     (case offset of None \<Rightarrow> skipped ''clock_offset''
      | Some v \<Rightarrow> \<lparr>ck_name = ''clock_offset'', ck_ok = Some (\<bar>v\<bar> \<le> tolerance)\<rparr>)"

record check_result =
  cr_ok :: bool
  cr_failed :: nat
  cr_error :: "string option"

definition self_check_result :: "check_row list \<Rightarrow> check_result" where
  "self_check_result cs =
     (let n = count_failed cs in
      \<lparr>cr_ok = (n = 0), cr_failed = n,
       cr_error = (if 0 < n
         then Some (nat_str n @ '' check'' @ (if n = 1 then [] else ''s'') @ '' failed: '' @
           join '', '' (map ck_name (filter (\<lambda>c. ck_ok c = Some False) cs)))
         else None)\<rparr>)"

end
