(* ===== verification/Text_Pattern.thy ===== *)
theory Text_Pattern
  imports Prelude
begin

text \<open>
  Regular expressions as the code writes them, with a backtracking matcher: a spot is the character
  before and the text after, and a pattern takes a spot to the spots where it can end, in the order the
  engine tries them, so the head of the list is the match \<open>exec\<close> gives. A pattern with the flag \<open>i\<close> is
  written in lower case and matched against the lowered text. With it \<open>split(s).join(r)\<close>.
\<close>

section \<open>Patterns\<close>

datatype pat =
    Here
  | Chr "char \<Rightarrow> bool"
  | Then pat pat
  | Or pat pat
  | Many pat
  | Edge
  | Front
  | Back

type_synonym spot = "char option \<times> string"

definition word_char :: "char \<Rightarrow> bool" where
  "word_char c \<longleftrightarrow> is_alpha c \<or> is_digit c \<or> c = CHR ''_''"

definition at_edge :: "spot \<Rightarrow> bool" where
  "at_edge p =
     ((case fst p of None \<Rightarrow> False | Some c \<Rightarrow> word_char c) \<noteq> (case snd p of [] \<Rightarrow> False | c # _ \<Rightarrow> word_char c))"

function ends :: "pat \<Rightarrow> spot \<Rightarrow> spot list" where
  "ends Here p = [p]"
| "ends (Chr f) p = (case snd p of [] \<Rightarrow> [] | c # t \<Rightarrow> if f c then [(Some c, t)] else [])"
| "ends (Then a b) p = concat (map (ends b) (ends a p))"
| "ends (Or a b) p = ends a p @ ends b p"
| "ends (Many a) p =
     concat (map (\<lambda>r. if length (snd r) < length (snd p) then ends (Many a) r else []) (ends a p)) @ [p]"
| "ends Edge p = (if at_edge p then [p] else [])"
| "ends Front p = (if fst p = None then [p] else [])"
| "ends Back p = (if snd p = [] then [p] else [])"
  by pat_completeness auto
termination by (relation "measures [\<lambda>(a, p). size a, \<lambda>(a, p). length (snd p)]") auto

declare ends.simps(5) [simp del]

abbreviation Maybe :: "pat \<Rightarrow> pat" where
  "Maybe a \<equiv> Or a Here"

abbreviation Some_Of :: "pat \<Rightarrow> pat" where
  "Some_Of a \<equiv> Then a (Many a)"

fun word :: "string \<Rightarrow> pat" where
  "word [] = Here"
| "word (c # s) = Then (Chr ((=) c)) (word s)"

fun any_of :: "pat list \<Rightarrow> pat" where
  "any_of [] = Chr (\<lambda>_. False)"
| "any_of [a] = a"
| "any_of (a # as) = Or a (any_of as)"

fun in_order :: "pat list \<Rightarrow> pat" where
  "in_order [] = Here"
| "in_order [a] = a"
| "in_order (a # as) = Then a (in_order as)"

section \<open>Searching and replacing\<close>

fun found_from :: "pat \<Rightarrow> char option \<Rightarrow> string \<Rightarrow> bool" where
  "found_from a b [] = (ends a (b, []) \<noteq> [])"
| "found_from a b (c # s) = (ends a (b, c # s) \<noteq> [] \<or> found_from a (Some c) s)"

definition found :: "pat \<Rightarrow> string \<Rightarrow> bool" where
  "found a s = found_from a None s"

text \<open>\<open>s.replace(/a/g, f)\<close> for a pattern that matches no empty text.\<close>

function substitute :: "pat \<Rightarrow> (string \<Rightarrow> string) \<Rightarrow> char option \<Rightarrow> string \<Rightarrow> string" where
  "substitute a f b [] = []"
| "substitute a f b (c # s) =
     (case ends a (b, c # s) of
        [] \<Rightarrow> c # substitute a f (Some c) s
      | (b', t) # _ \<Rightarrow>
          if length t \<le> length s then f (take (length (c # s) - length t) (c # s)) @ substitute a f b' t
          else c # substitute a f (Some c) s)"
  by pat_completeness auto
termination by (relation "measure (\<lambda>(a, f, b, s). length s)") auto

definition replace_each :: "pat \<Rightarrow> string \<Rightarrow> string \<Rightarrow> string" where
  "replace_each a r s = substitute a (\<lambda>_. r) None s"

text \<open>\<open>out.split(s).join(r)\<close> for a nonempty \<open>s\<close>.\<close>

function replace_all :: "string \<Rightarrow> string \<Rightarrow> string \<Rightarrow> string" where
  "replace_all s r [] = []"
| "replace_all s r (c # t) =
     (if s \<noteq> [] \<and> starts_with s (c # t) then r @ replace_all s r (drop (length s - 1) t) else c # replace_all s r t)"
  by pat_completeness auto
termination by (relation "measure (\<lambda>(s, r, t). length t)") auto

section \<open>Laws\<close>

lemma ends_Many:
  "q \<in> set (ends (Many a) p) \<longleftrightarrow>
     q = p \<or> (\<exists>r \<in> set (ends a p). length (snd r) < length (snd p) \<and> q \<in> set (ends (Many a) r))"
  by (subst ends.simps(5)) (auto split: if_splits)

lemma ends_suffix: "q \<in> set (ends a p) \<Longrightarrow> suffix (snd q) (snd p)"
proof (induction a p arbitrary: q rule: ends.induct)
  case (2 f p)
  then show ?case by (cases "snd p") (simp_all add: suffix_ConsI split: if_splits)
next
  case (3 a b p)
  from 3(3) obtain r where r: "r \<in> set (ends a p)" "q \<in> set (ends b r)" by (simp, blast)
  show ?case by (rule suffix_order.trans[OF 3(2)[OF r] 3(1)[OF r(1)]])
next
  case (4 a b p)
  from 4(3) consider "q \<in> set (ends a p)" | "q \<in> set (ends b p)" by (simp, blast)
  then show ?case by cases (rule 4(1), assumption, rule 4(2))
next
  case (5 a p)
  show ?case
  proof (cases "q = p")
    case False
    with 5(3) obtain r where r: "r \<in> set (ends a p)" "length (snd r) < length (snd p)" "q \<in> set (ends (Many a) r)"
      unfolding ends_Many[of q a p] by blast
    show ?thesis by (rule suffix_order.trans[OF 5(2)[OF r] 5(1)[OF r(1)]])
  qed simp
qed (simp_all split: if_splits)

lemma ends_word: "ends (word w) (b, s) \<noteq> [] \<longleftrightarrow> starts_with w s"
proof (induction w arbitrary: b s)
  case (Cons c w)
  then show ?case by (cases s) (simp_all add: starts_with_def)
qed (simp add: starts_with_def)

lemma found_iff: "found_from a b s \<longleftrightarrow> (\<exists>u v. s = u @ v \<and> ends a (if u = [] then b else Some (last u), v) \<noteq> [])"
proof (induction s arbitrary: b)
  case (Cons c s)
  note IH = Cons.IH
  show ?case
  proof
    assume "found_from a b (c # s)"
    then consider "ends a (b, c # s) \<noteq> []" | "found_from a (Some c) s" by auto
    then show "\<exists>u v. c # s = u @ v \<and> ends a (if u = [] then b else Some (last u), v) \<noteq> []"
    proof cases
      case 2
      then obtain u v where "s = u @ v" "ends a (if u = [] then Some c else Some (last u), v) \<noteq> []"
        unfolding Cons.IH by blast
      then show ?thesis by (intro exI[of _ "c # u"] exI[of _ v]) (simp split: if_splits)
    qed (intro exI[of _ "[]"] exI[of _ "c # s"], simp)
  next
    assume "\<exists>u v. c # s = u @ v \<and> ends a (if u = [] then b else Some (last u), v) \<noteq> []"
    then obtain u v where u: "c # s = u @ v" "ends a (if u = [] then b else Some (last u), v) \<noteq> []" by blast
    show "found_from a b (c # s)"
    proof (cases u)
      case Nil
      then have "ends a (b, c # s) \<noteq> []" using u by simp
      then show ?thesis by simp
    next
      case (Cons c' u')
      then have "found_from a (Some c) s"
        unfolding IH using u by (intro exI[of _ u'] exI[of _ v]) (simp split: if_splits)
      then show ?thesis by simp
    qed
  qed
qed simp

lemma found_word: "found (word w) s \<longleftrightarrow> contains w s"
  unfolding found_def found_iff ends_word contains_iff_sublist
  by (auto simp: sublist_def starts_with_def prefix_def)

lemma found_Or: "found (Or a b) s \<longleftrightarrow> found a s \<or> found b s"
  by (auto simp: found_def found_iff)

end
