(* ===== verification/Shell_Gate.thy ===== *)
theory Shell_Gate
  imports Host_World Js_Value Machine_Agent Text_Pattern
begin

text \<open>
  The shell workload's trust boundary (\<open>runner-machine/src/allowlist.ts\<close>, \<open>redact.ts\<close>,
  \<open>workloads/shell.ts\<close>): the allowlist, the environment a script gets, scrubbing its output, and the
  whole job as a host program over what it fetched, ran, uploaded and posted. What the child did is an
  argument; the path of the list, the hint on ignored lines and the elapsed time are left out of the rows.
\<close>

section \<open>The allowlist\<close>

definition is_hex :: "char \<Rightarrow> bool" where
  "is_hex c \<longleftrightarrow> is_digit c \<or> (CHR ''a'' \<le> c \<and> c \<le> CHR ''f'')"

definition is_sha256 :: "string \<Rightarrow> bool" where
  "is_sha256 s \<longleftrightarrow> length s = 64 \<and> list_all is_hex s"

definition first_word :: "string \<Rightarrow> string" where
  "first_word l = takeWhile (\<lambda>c. \<not> is_space c) l"

text \<open>\<open>.replace(/#.*$/, "")\<close>: the dot does not match a carriage return.\<close>

fun strip_comment :: "string \<Rightarrow> string" where
  "strip_comment [] = []"
| "strip_comment (c # s) = (if c = CHR ''#'' \<and> CHR 0x0D \<notin> set s then [] else c # strip_comment s)"

definition list_line :: "string \<Rightarrow> string" where
  "list_line raw = trim (strip_comment raw)"

fun parse_lines :: "string list \<Rightarrow> string list \<times> string list \<Rightarrow> string list \<times> string list" where
  "parse_lines [] acc = acc"
| "parse_lines (raw # rest) (allowed, rejected) =
     (let line = list_line raw; word = first_word line; candidate = lower word in
      if line = [] then parse_lines rest (allowed, rejected)
      else if is_sha256 candidate
      then parse_lines rest (if candidate \<in> set allowed then allowed else allowed @ [candidate], rejected)
      else parse_lines rest (allowed, rejected @ [take 80 word]))"

definition parse_allowlist :: "string option \<Rightarrow> string list \<times> string list" where
  "parse_allowlist text = parse_lines (text_lines (case text of None \<Rightarrow> [] | Some t \<Rightarrow> t)) ([], [])"

definition is_allowlisted :: "js \<Rightarrow> string list \<Rightarrow> bool" where
  "is_allowlisted sha allowed =
     (case sha of JStr s \<Rightarrow> is_sha256 (lower (trim s)) \<and> lower (trim s) \<in> set allowed | _ \<Rightarrow> False)"

text \<open>The file of the list: missing or unreadable is \<open>None\<close>.\<close>

record allowlist =
  al_allowed :: "string list"
  al_rejected :: "string list"
  al_exists :: bool

definition load_allowlist :: "string option \<Rightarrow> allowlist" where
  "load_allowlist file =
     (case file of
        None \<Rightarrow> \<lparr>al_allowed = [], al_rejected = [], al_exists = False\<rparr>
      | Some t \<Rightarrow> \<lparr>al_allowed = fst (parse_allowlist (Some t)), al_rejected = snd (parse_allowlist (Some t)), al_exists = True\<rparr>)"

section \<open>Scrubbing\<close>

definition REDACTED :: string where "REDACTED = ''[redacted]''"

fun redact :: "string \<Rightarrow> string list \<Rightarrow> string" where
  "redact text [] = text"
| "redact text (s # ss) = redact (if length s < 4 then text else replace_all s REDACTED text) ss"

text \<open>
  \<open>/(^|_)(TOKEN|SECRET|PASSWORD|PASSWD|CREDENTIALS?|API_?KEY)(_|$)|_KEY$/i\<close>: one of the words between
  underscores or ends.
\<close>

definition SECRET_WORDS :: "string list" where
  "SECRET_WORDS =
     [''token'', ''secret'', ''password'', ''passwd'', ''credential'', ''credentials'', ''apikey'', ''api_key'']"

fun word_follows :: "string \<Rightarrow> bool" where
  "word_follows s =
     list_ex (\<lambda>w. starts_with w s \<and> (length s = length w \<or> s ! length w = CHR ''_'')) SECRET_WORDS"

fun word_inside :: "string \<Rightarrow> bool" where
  "word_inside [] = False"
| "word_inside (c # s) = ((c = CHR ''_'' \<and> word_follows s) \<or> word_inside s)"

definition secret_env_name :: "string \<Rightarrow> bool" where
  "secret_env_name n =
     (let l = lower n in
      word_follows l \<or> word_inside l \<or> (4 \<le> length l \<and> drop (length l - 4) l = ''_key''))"

definition secrets_from_env :: "(string \<times> string) list \<Rightarrow> string list" where
  "secrets_from_env env =
     sort_key (\<lambda>v. - int (length v))
       (map snd (filter (\<lambda>(n, v). 4 \<le> length v \<and> secret_env_name n) env))"

section \<open>The script's environment\<close>

definition env_get :: "(string \<times> string) list \<Rightarrow> string \<Rightarrow> string \<Rightarrow> string" where
  "env_get env k d = (case map_of env k of None \<Rightarrow> d | Some v \<Rightarrow> v)"

definition base_env :: "string \<Rightarrow> id \<Rightarrow> (string \<times> string) list \<Rightarrow> (string \<times> string) list" where
  "base_env dir job env =
     [(''PATH'', env_get env ''PATH'' ''/usr/bin:/bin:/usr/sbin:/sbin''), (''HOME'', dir), (''TMPDIR'', dir), (''PWD'', dir),
      (''LANG'', env_get env ''LANG'' ''en_US.UTF-8''), (''TERM'', ''dumb''), (''CI'', ''1''), (''FLEET_JOB_ID'', job)]"

definition env_name :: "string \<Rightarrow> bool" where
  "env_name k \<longleftrightarrow> k \<noteq> [] \<and> (is_alpha (hd k) \<or> hd k = CHR ''_'') \<and> list_all (\<lambda>c. is_alpha c \<or> is_digit c \<or> c = CHR ''_'') k"

text \<open>\<open>k in base\<close> also holds of the names every object inherits.\<close>

definition INHERITED :: "string list" where
  "INHERITED =
     [''constructor'', ''hasOwnProperty'', ''isPrototypeOf'', ''propertyIsEnumerable'', ''toLocaleString'', ''toString'',
      ''valueOf'', ''__proto__'', ''__defineGetter__'', ''__defineSetter__'', ''__lookupGetter__'', ''__lookupSetter__'']"

fun add_env :: "obj \<Rightarrow> (string \<times> string) list \<Rightarrow> (string \<times> string) list" where
  "add_env [] base = base"
| "add_env ((k, v) # rest) base =
     add_env rest
       (if \<not> env_name k \<or> k \<in> set (map fst base) \<or> k \<in> set INHERITED then base
        else case v of
          JStr _ \<Rightarrow> base @ [(k, js_string v)]
        | JNum _ \<Rightarrow> base @ [(k, js_string v)]
        | JBool _ \<Rightarrow> base @ [(k, js_string v)]
        | _ \<Rightarrow> base)"

definition minimal_env :: "string \<Rightarrow> id \<Rightarrow> js \<Rightarrow> (string \<times> string) list \<Rightarrow> (string \<times> string) list" where
  "minimal_env dir job params env =
     (case jget ''env'' params of JObj kvs \<Rightarrow> add_env kvs (base_env dir job env) | _ \<Rightarrow> base_env dir job env)"

section \<open>Capturing output\<close>

definition MAX_CAPTURE_BYTES :: nat where "MAX_CAPTURE_BYTES = 4194304"

record capture =
  cp_output :: string
  cp_bytes :: nat
  cp_truncated :: bool

definition TRUNCATED :: string where "TRUNCATED = CHR 0x0A # ''[output truncated]'' @ [CHR 0x0A]"

definition absorb :: "capture \<Rightarrow> string \<Rightarrow> capture" where
  "absorb k b =
     (if MAX_CAPTURE_BYTES \<le> cp_bytes k
      then if cp_truncated k then k else k\<lparr>cp_truncated := True, cp_output := cp_output k @ TRUNCATED\<rparr>
      else k\<lparr>cp_bytes := cp_bytes k + length b, cp_output := cp_output k @ b\<rparr>)"

section \<open>The job\<close>

record shell_row =
  sr_ok :: bool
  sr_error :: "string option"
  sr_exit_code :: "int option"
  sr_artifacts :: "string list"

record spawned =
  sp_cmd :: string
  sp_args :: "string list"
  sp_env :: "(string \<times> string) list"

record shell_world =
  xw_fetched :: "string list"
  xw_spawned :: "spawned list"
  xw_uploaded :: "string list"
  xw_rows :: "shell_row list"
  xw_dir :: bool

text \<open>What a child did: a stand-in for the operating system's answer.\<close>

record child_outcome =
  co_code :: "int option"
  co_output :: string
  co_timed_out :: bool
  co_cancelled :: bool
  co_spawn_error :: "string option"

record shell_job =
  sj_id :: id
  sj_params :: js
  sj_model_sha :: "string option"

record shell_host =
  sh_list :: "string option"
  sh_env :: "(string \<times> string) list"
  sh_dir :: string
  sh_child :: "spawned \<Rightarrow> child_outcome"
  sh_upload_ref :: string

definition post_row :: "bool \<Rightarrow> string option \<Rightarrow> int option \<Rightarrow> string list \<Rightarrow> (unit, shell_world) io" where
  "post_row ok err exit_code refs =
     command (\<lambda>w. w\<lparr>xw_rows := xw_rows w @ [\<lparr>sr_ok = ok, sr_error = err, sr_exit_code = exit_code, sr_artifacts = refs\<rparr>]\<rparr>)"

definition refuse_job :: "string \<Rightarrow> (unit, shell_world) io" where
  "refuse_job reason = post_row False (Some reason) None []"

definition string_param :: "js \<Rightarrow> string \<Rightarrow> string option" where
  "string_param params k = (case jget k params of JStr s \<Rightarrow> Some s | _ \<Rightarrow> None)"

definition requested_sha :: "shell_job \<Rightarrow> string option" where
  "requested_sha job = (case string_param (sj_params job) ''sha256'' of Some s \<Rightarrow> Some s | None \<Rightarrow> sj_model_sha job)"

text \<open>The command a job's script is run with: the interpreter and the arguments are the job's.\<close>

definition script_command :: "shell_host \<Rightarrow> shell_job \<Rightarrow> spawned" where
  "script_command h job =
     \<lparr>sp_cmd = (case string_param (sj_params job) ''interpreter'' of None \<Rightarrow> ''/bin/sh'' | Some i \<Rightarrow> i),
      sp_args = (sh_dir h @ ''/script'') #
         (case jget ''args'' (sj_params job) of JArr xs \<Rightarrow> List.map_filter str_of xs | _ \<Rightarrow> []),
      sp_env = minimal_env (sh_dir h) (sj_id job) (sj_params job) (sh_env h)\<rparr>"

definition last_line :: "string \<Rightarrow> string" where
  "last_line s = (let ls = filter (\<lambda>l. l \<noteq> []) (map trim (text_lines s)) in if ls = [] then [] else take 300 (last ls))"

definition outcome_row :: "spawned \<Rightarrow> child_outcome \<Rightarrow> string \<Rightarrow> string list \<Rightarrow> (unit, shell_world) io" where
  "outcome_row sp oc captured refs =
     (case co_spawn_error oc of
        Some e \<Rightarrow> post_row False (Some (''could not run '' @ sp_cmd sp @ '': '' @ e)) None refs
      | None \<Rightarrow>
          if co_timed_out oc then post_row False (Some ''script timed out'') (co_code oc) refs
          else if co_cancelled oc then post_row False (Some ''cancelled'') (co_code oc) refs
          else if co_code oc \<noteq> Some 0
          then post_row False
            (Some (''script exited '' @ (case co_code oc of Some n \<Rightarrow> int_str n | None \<Rightarrow> ''on signal'') @ '': '' @
               (if last_line captured = [] then ''no output'' else last_line captured))) (co_code oc) refs
          else post_row True None (co_code oc) refs)"

text \<open>From the temporary directory on: fetch, run, scrub, upload, report; the directory goes in the end.\<close>

definition run_listed :: "shell_host \<Rightarrow> shell_job \<Rightarrow> string \<Rightarrow> (unit, shell_world) io" where
  "run_listed h job sha =
     bind_io (command (\<lambda>w. w\<lparr>xw_dir := True\<rparr>)) (\<lambda>_.
       finally_io
         (bind_io (catch_io (bind_io (command (\<lambda>w. w\<lparr>xw_fetched := xw_fetched w @ [sha]\<rparr>)) (\<lambda>_. ret True))
              (\<lambda>e. bind_io (post_row False (Some (''fetching the script failed: '' @ e)) None []) (\<lambda>_. ret False))) (\<lambda>fetched.
          if \<not> fetched then ret ()
          else
            let sp = script_command h job; oc = sh_child h sp;
                captured = redact (co_output oc) (secrets_from_env (sh_env h)) in
            bind_io (command (\<lambda>w. w\<lparr>xw_spawned := xw_spawned w @ [sp]\<rparr>)) (\<lambda>_.
            bind_io (catch_io (bind_io (command (\<lambda>w. w\<lparr>xw_uploaded := xw_uploaded w @ [captured]\<rparr>)) (\<lambda>_. ret [sh_upload_ref h]))
                (\<lambda>_. ret [])) (\<lambda>refs.
            outcome_row sp oc captured refs))))
         (quietly (command (\<lambda>w. w\<lparr>xw_dir := False\<rparr>))))"

definition run_shell :: "shell_host \<Rightarrow> shell_job \<Rightarrow> (unit, shell_world) io" where
  "run_shell h job =
     (case requested_sha job of
        None \<Rightarrow> refuse_job ''shell needs params.sha256: the sha256 of an allowlisted script artifact''
      | Some requested \<Rightarrow>
          if requested = [] then refuse_job ''shell needs params.sha256: the sha256 of an allowlisted script artifact''
          else
            let l = load_allowlist (sh_list h) in
            if \<not> al_exists l then refuse_job ''shell is refused: this machine has no allowlist''
            else if al_allowed l = [] then refuse_job ''shell is refused: the allowlist lists no script hashes''
            else if \<not> is_allowlisted (JStr requested) (al_allowed l)
            then refuse_job (''shell is refused: '' @ take 80 requested @ '' is not in the allowlist'')
            else run_listed h job (lower (trim requested)))"

end
