(* ===== verification/Shell_Laws.thy ===== *)
theory Shell_Laws
  imports Shell_Gate
begin

text \<open>
  Laws of the shell workload: what the allowlist holds, that nothing is fetched or run outside it, what
  the script can see of the agent's environment, and that scrubbing leaves no secret.
\<close>

section \<open>The allowlist\<close>

definition listed_sha :: "string \<Rightarrow> string" where
  "listed_sha raw = lower (first_word (list_line raw))"

lemma is_sha256_nonempty: "is_sha256 s \<Longrightarrow> s \<noteq> []"
  by (auto simp: is_sha256_def)

lemma parse_lines_allowed:
  "set (fst (parse_lines ls (al, rj))) = set al \<union> {listed_sha raw |raw. raw \<in> set ls \<and> is_sha256 (listed_sha raw)}"
proof (induction ls arbitrary: al rj)
  case (Cons raw ls)
  have blank: "list_line raw = [] \<Longrightarrow> \<not> is_sha256 (listed_sha raw)"
    by (simp add: listed_sha_def first_word_def is_sha256_def lower_def)
  show ?case
    by (auto simp: Cons Let_def listed_sha_def[symmetric] dest: blank)
qed simp

lemma parse_lines_distinct: "distinct al \<Longrightarrow> distinct (fst (parse_lines ls (al, rj)))"
  by (induction ls arbitrary: al rj) (simp_all add: Let_def)

lemma allowed_iff:
  "sha \<in> set (al_allowed (load_allowlist (Some t))) \<longleftrightarrow>
     is_sha256 sha \<and> sha \<in> listed_sha ` set (text_lines t)"
  by (auto simp: load_allowlist_def parse_allowlist_def parse_lines_allowed)

section \<open>What is fetched and run\<close>

definition vouched :: "shell_host \<Rightarrow> string \<Rightarrow> bool" where
  "vouched h sha \<longleftrightarrow>
     is_sha256 sha \<and> (case sh_list h of None \<Rightarrow> False | Some t \<Rightarrow> sha \<in> listed_sha ` set (text_lines t))"

definition job_sha :: "shell_job \<Rightarrow> string" where
  "job_sha job = (case requested_sha job of None \<Rightarrow> [] | Some r \<Rightarrow> lower (trim r))"

definition shell_safe :: "shell_host \<Rightarrow> shell_job \<Rightarrow> shell_world \<Rightarrow> bool" where
  "shell_safe h job w \<longleftrightarrow>
     list_all (\<lambda>sha. sha = job_sha job \<and> vouched h sha) (xw_fetched w) \<and>
     list_all (\<lambda>sp. sp = script_command h job \<and> vouched h (job_sha job)) (xw_spawned w) \<and>
     list_all (\<lambda>u. \<exists>out. u = redact out (secrets_from_env (sh_env h))) (xw_uploaded w)"

definition untouched :: "shell_world \<Rightarrow> bool" where
  "untouched w \<longleftrightarrow> xw_fetched w = [] \<and> xw_spawned w = [] \<and> xw_uploaded w = []"

lemma untouched_safe: "untouched w \<Longrightarrow> shell_safe h job w"
  by (simp add: untouched_def shell_safe_def)

lemma safe_rows [simp]:
  "shell_safe h job (w\<lparr>xw_rows := r\<rparr>) = shell_safe h job w" "shell_safe h job (w\<lparr>xw_dir := b\<rparr>) = shell_safe h job w"
  by (simp_all add: shell_safe_def)

lemma post_row_rule: "(\<And>w r. P (w\<lparr>xw_rows := r\<rparr>) = P w) \<Longrightarrow> io_ok P (post_row ok err c refs) (\<lambda>_. P) P P"
  unfolding post_row_def by (rule io_command) simp_all

lemma outcome_row_rule:
  "io_ok (shell_safe h job) (outcome_row sp oc captured refs) (\<lambda>_. shell_safe h job) (shell_safe h job) (shell_safe h job)"
  unfolding outcome_row_def by (auto intro!: post_row_rule split: option.split)

lemma run_listed_rule:
  assumes v: "vouched h (job_sha job)"
  shows "io_ok (shell_safe h job) (run_listed h job (job_sha job)) (\<lambda>_. shell_safe h job) (shell_safe h job) (shell_safe h job)"
proof -
  let ?S = "shell_safe h job"
  have fetch: "io_ok ?S (catch_io (bind_io (command (\<lambda>w. w\<lparr>xw_fetched := xw_fetched w @ [job_sha job]\<rparr>)) (\<lambda>_. ret True))
        (\<lambda>e. bind_io (post_row False (Some (''fetching the script failed: '' @ e)) None []) (\<lambda>_. ret False)))
      (\<lambda>_. ?S) ?S ?S"
    by (rule io_catch[where R = ?S], rule io_bind[where R = "\<lambda>_. ?S"], rule io_command)
      (use v in \<open>auto intro!: io_ret io_bind[where R = "\<lambda>_. ?S"] post_row_rule simp: shell_safe_def\<close>)
  have spawn: "io_ok ?S (command (\<lambda>w. w\<lparr>xw_spawned := xw_spawned w @ [script_command h job]\<rparr>)) (\<lambda>_. ?S) ?S ?S"
    by (rule io_command) (use v in \<open>auto simp: shell_safe_def\<close>)
  have upload: "io_ok ?S (catch_io (bind_io (command (\<lambda>w. w\<lparr>xw_uploaded := xw_uploaded w @
        [redact out (secrets_from_env (sh_env h))]\<rparr>)) (\<lambda>_. ret [r])) (\<lambda>_. ret [])) (\<lambda>_. ?S) ?S ?S" for out r
    by (rule io_catch[where R = ?S], rule io_bind[where R = "\<lambda>_. ?S"], rule io_command)
      (auto intro!: io_ret simp: shell_safe_def)
  have body: "io_ok ?S
      (if \<not> fetched then ret ()
       else let sp = script_command h job; oc = sh_child h sp;
                captured = redact (co_output oc) (secrets_from_env (sh_env h)) in
            bind_io (command (\<lambda>w. w\<lparr>xw_spawned := xw_spawned w @ [sp]\<rparr>)) (\<lambda>_.
            bind_io (catch_io (bind_io (command (\<lambda>w. w\<lparr>xw_uploaded := xw_uploaded w @ [captured]\<rparr>)) (\<lambda>_. ret [sh_upload_ref h]))
                (\<lambda>_. ret [])) (\<lambda>refs.
            outcome_row sp oc captured refs))) (\<lambda>_. ?S) ?S ?S" for fetched
    unfolding Let_def
    by (cases fetched) (auto intro!: io_ret io_bind[OF spawn] io_bind[OF upload] outcome_row_rule)
  have tidy: "io_ok ?S (quietly (command (\<lambda>w. w\<lparr>xw_dir := False\<rparr>))) (\<lambda>_. ?S) ?S ?S"
    by (rule io_quietly, rule io_command) simp_all
  have dir: "io_ok ?S (command (\<lambda>w. w\<lparr>xw_dir := True\<rparr>)) (\<lambda>_. ?S) ?S ?S"
    by (rule io_command) simp_all
  show ?thesis
    unfolding run_listed_def
    by (rule io_bind[OF dir], rule io_finally[OF io_bind[OF fetch body] tidy])
qed

lemma run_shell_rule:
  "io_ok untouched (run_shell h job) (\<lambda>_. shell_safe h job) (shell_safe h job) (shell_safe h job)"
    (is "io_ok _ _ (\<lambda>_. ?S) ?S ?S")
proof -
  have refuse: "io_ok untouched (refuse_job r) (\<lambda>_. ?S) ?S ?S" for r
    unfolding refuse_job_def
    by (rule io_weaken[OF post_row_rule[of ?S]]) (simp_all add: untouched_safe)
  show ?thesis
  proof (cases "requested_sha job")
    case (Some requested)
    show ?thesis
    proof (cases "is_allowlisted (JStr requested) (al_allowed (load_allowlist (sh_list h))) \<and> requested \<noteq> [] \<and>
        al_exists (load_allowlist (sh_list h)) \<and> al_allowed (load_allowlist (sh_list h)) \<noteq> []")
      case True
      then have v: "vouched h (job_sha job)" and l: "job_sha job = lower (trim requested)"
        by (cases "sh_list h"; simp add: vouched_def job_sha_def Some is_allowlisted_def allowed_iff load_allowlist_def[of None])+
      have "run_shell h job = run_listed h job (job_sha job)"
        using True Some l by (simp add: run_shell_def Let_def)
      then show ?thesis
        using io_weaken[OF run_listed_rule[OF v]] untouched_safe by metis
    qed (auto simp: run_shell_def Some Let_def refuse)
  qed (simp add: run_shell_def refuse)
qed

section \<open>What the script can see\<close>

text \<open>The command is the same whatever else the agent's environment holds.\<close>

lemma base_env_cong:
  assumes "map_of env ''PATH'' = map_of env' ''PATH''" "map_of env ''LANG'' = map_of env' ''LANG''"
  shows "base_env dir i env = base_env dir i env'"
  using assms by (simp add: base_env_def env_get_def)

lemma script_command_cong:
  assumes "map_of (sh_env h) ''PATH'' = map_of (sh_env h') ''PATH''" "map_of (sh_env h) ''LANG'' = map_of (sh_env h') ''LANG''"
    "sh_dir h = sh_dir h'"
  shows "script_command h job = script_command h' job"
  using base_env_cong[OF assms(1,2)] assms(3) by (simp add: script_command_def minimal_env_def cong: js.case_cong)

lemma add_env_keeps: "map_of base k = Some v \<Longrightarrow> map_of (add_env kvs base) k = Some v"
proof (induction kvs arbitrary: base)
  case (Cons kv kvs)
  obtain k' x where kv: "kv = (k', x)" by force
  show ?case by (simp only: kv add_env.simps, rule Cons.IH) (auto simp: Cons.prems split: js.split)
qed simp

lemma minimal_env_base:
  "map_of (base_env dir i env) k = Some v \<Longrightarrow> map_of (minimal_env dir i params env) k = Some v"
  by (auto simp: minimal_env_def add_env_keeps split: js.split)

section \<open>Scrubbing\<close>

text \<open>A word without a character lies wholly on one side of it.\<close>

lemma prefix_before: "x \<notin> set p \<Longrightarrow> prefix p (a @ x # b) \<Longrightarrow> prefix p a"
  by (auto simp: prefix_append prefix_Cons)

lemma contains_split_at:
  "x \<notin> set p \<Longrightarrow> contains p (a @ x # b) \<longleftrightarrow> contains p a \<or> contains p b"
proof (induction a)
  case Nil
  have "prefix p (x # b) \<Longrightarrow> p = []" using Nil by (cases p) auto
  then show ?case by (cases b) (auto split: list.splits)
next
  case (Cons c a)
  have "prefix p (c # a @ x # b) \<longleftrightarrow> prefix p (c # a)"
    using prefix_before[OF Cons.prems, of "c # a" b] prefix_order.trans[of p "c # a" "c # a @ x # b"] by auto
  then show ?case using Cons by simp
qed

definition bracket_free :: "string \<Rightarrow> bool" where
  "bracket_free p \<longleftrightarrow> CHR ''['' \<notin> set p \<and> CHR '']'' \<notin> set p"

lemma contains_marker:
  assumes "bracket_free p"
  shows "contains p (u @ REDACTED @ v) \<longleftrightarrow> contains p u \<or> contains p ''redacted'' \<or> contains p v"
proof -
  have "u @ REDACTED @ v = u @ CHR ''['' # (''redacted'' @ CHR '']'' # v)" by (simp add: REDACTED_def)
  then show ?thesis
    using assms contains_split_at[of "CHR ''[''" p u] contains_split_at[of "CHR '']''" p "''redacted''" v]
    by (simp only: bracket_free_def simp_thms)
qed

definition plain_secret :: "string \<Rightarrow> bool" where
  "plain_secret p \<longleftrightarrow> p \<noteq> [] \<and> bracket_free p \<and> \<not> contains p ''redacted''"

lemma not_contains_parts: "\<not> contains p (u @ v) \<Longrightarrow> \<not> contains p u \<and> \<not> contains p v"
  using contains_appendI1 contains_appendI2 by blast

lemma replace_keeps_absent:
  assumes "plain_secret p"
  shows "\<not> contains p (u @ t) \<Longrightarrow> \<not> contains p (u @ replace_all s REDACTED t)"
proof (induction s REDACTED t arbitrary: u rule: replace_all.induct)
  case (2 s c t)
  show ?case
  proof (cases "s \<noteq> [] \<and> starts_with s (c # t)")
    case True
    have "\<not> contains p (drop (length s - 1) t)"
      using not_contains_parts[of p "u @ c # take (length s - 1) t" "drop (length s - 1) t"] "2.prems" by simp
    then have "\<not> contains p (replace_all s REDACTED (drop (length s - 1) t))"
      using "2.hyps"(1)[OF True, of "[]"] by simp
    moreover have "\<not> contains p u" using not_contains_parts "2.prems" by blast
    ultimately show ?thesis
      using True contains_marker[of p u] assms by (simp add: plain_secret_def)
  next
    case False
    then show ?thesis using "2.hyps"(2)[OF False, of "u @ [c]"] "2.prems" by auto
  qed
qed simp

lemma occurrence: "contains p s \<longleftrightarrow> (\<exists>k \<le> length s. prefix p (drop k s))"
proof (induction s)
  case (Cons c s)
  show ?case
    by (auto simp: Cons intro: exI[of _ 0] exI[of _ "Suc k" for k]) (metis Suc_le_mono drop0 drop_Suc_Cons not0_implies_Suc)
qed simp

lemma replace_removes:
  assumes "plain_secret s"
  shows "\<forall>k < length u. \<not> prefix s (drop k (u @ t)) \<Longrightarrow> \<not> contains s (u @ replace_all s REDACTED t)"
  using assms
proof (induction s REDACTED t arbitrary: u rule: replace_all.induct)
  case (1 s)
  have "\<not> prefix s (drop k u)" for k
    using 1 by (cases "k < length u") (auto simp: plain_secret_def)
  then show ?case by (simp add: occurrence)
next
  case (2 s c t)
  have s: "s \<noteq> []" using "2.prems"(2) by (simp add: plain_secret_def)
  show ?case
  proof (cases "starts_with s (c # t)")
    case True
    have "\<not> prefix s (drop k u)" for k
    proof (cases "k < length u")
      case True
      then have "\<not> prefix s (drop k u @ c # t)" using "2.prems"(1) by simp
      then show ?thesis by (auto simp: prefix_def)
    qed (use s in simp)
    then have "\<not> contains s u" by (simp add: occurrence)
    moreover have "\<not> contains s (replace_all s REDACTED (drop (length s - 1) t))"
      using "2.hyps"(1)[of "[]"] True s "2.prems"(2) by simp
    ultimately show ?thesis
      using True s contains_marker[of s u] "2.prems"(2) by (simp add: plain_secret_def)
  next
    case False
    have "\<not> prefix s (drop k ((u @ [c]) @ t))" if "k < length (u @ [c])" for k
    proof (cases "k < length u")
      case True
      then show ?thesis using "2.prems"(1) by simp
    next
      case False
      then have "k = length u" using that by simp
      then show ?thesis using \<open>\<not> starts_with s (c # t)\<close> by (simp add: starts_with_def)
    qed
    then have "\<not> contains s ((u @ [c]) @ replace_all s REDACTED t)"
      using "2.hyps"(2)[of "u @ [c]"] False "2.prems"(2) by simp
    then show ?thesis using False by simp
  qed
qed

lemma redact_keeps_absent: "plain_secret p \<Longrightarrow> \<not> contains p out \<Longrightarrow> \<not> contains p (redact out ss)"
  using replace_keeps_absent[of p "[]"] by (induction ss arbitrary: out) auto

lemma redact_removes:
  assumes "plain_secret s" "4 \<le> length s" "s \<in> set ss"
  shows "\<not> contains s (redact out ss)"
  using assms(3)
proof (induction ss arbitrary: out)
  case (Cons s' ss)
  show ?case
  proof (cases "s' = s")
    case True
    then show ?thesis
      using redact_keeps_absent[OF assms(1) replace_removes[OF assms(1), of "[]" out, simplified]] assms(2) by simp
  next
    case False
    then show ?thesis using Cons by simp
  qed
qed simp

end
