(* ===== verification/Machine_Data.thy ===== *)
theory Machine_Data
  imports "HOL-Library.Word" Shell_Gate
begin

unbundle bit_operations_syntax

text \<open>
  The machine runner's smaller codecs: the log tail (\<open>runner-machine/src/logtail.ts\<close>), the NTP clock
  (\<open>clock.ts\<close>), dataset recipes (\<open>recipes.ts\<close>), the checkout cache (\<open>git.ts\<close>), the synthetic backend
  (\<open>backends/synthetic.ts\<close>), typed parameters (\<open>protocol.ts\<close>) and status targets (\<open>github.ts\<close>).
\<close>

section \<open>Following a log\<close>

definition split_lines :: "string \<Rightarrow> string \<Rightarrow> string list \<times> string" where
  "split_lines before chunk = (let ps = text_lines (before @ chunk) in (butlast ps, last ps))"

definition MAX_LINE_CHARS :: nat where "MAX_LINE_CHARS = 300"

definition noise_char :: "char \<Rightarrow> bool" where
  "noise_char c \<longleftrightarrow> c \<in> set ''-=*_.'' \<or> is_space c"

definition clipped :: "string \<Rightarrow> string" where
  "clipped s = (if MAX_LINE_CHARS < length s then take (MAX_LINE_CHARS - 1) s @ [ELLIPSIS] else s)"

definition last_meaningful_line :: "string list \<Rightarrow> string option" where
  "last_meaningful_line ls =
     (case filter (\<lambda>s. s \<noteq> [] \<and> \<not> list_all noise_char s) (rev (map trim ls)) of [] \<Rightarrow> None | s # _ \<Rightarrow> Some (clipped s))"

record log_tail =
  lt_offset :: nat
  lt_rest :: string

text \<open>One read of what was appended since; \<open>file\<close> is the whole file now, chunks of at most 64 KiB.\<close>

function read_chunks :: "string \<Rightarrow> log_tail \<Rightarrow> string list \<Rightarrow> string list \<times> log_tail" where
  "read_chunks file t out =
     (let buf = take 65536 (drop (lt_offset t) file) in
      if buf = [] then (out, t)
      else let r = split_lines (lt_rest t) buf
           in read_chunks file (t\<lparr>lt_offset := lt_offset t + length buf, lt_rest := snd r\<rparr>) (out @ fst r))"
  by pat_completeness auto
termination by (relation "measure (\<lambda>(file, t, out). length file - lt_offset t)") (auto simp: Let_def)

definition close_tail :: "string \<Rightarrow> log_tail \<Rightarrow> string list" where
  "close_tail file t =
     (let r = read_chunks file t [] in fst r @ (if trim (lt_rest (snd r)) \<noteq> [] then [lt_rest (snd r)] else []))"

section \<open>The clock\<close>

definition NTP_EPOCH_OFFSET_S :: int where "NTP_EPOCH_OFFSET_S = 2208988800"

definition read_uint32_be :: "8 word list \<Rightarrow> nat \<Rightarrow> 32 word" where
  "read_uint32_be buf pos =
     push_bit 24 (ucast (buf ! pos)) OR push_bit 16 (ucast (buf ! (pos + 1))) OR push_bit 8 (ucast (buf ! (pos + 2))) OR
     ucast (buf ! (pos + 3))"

definition read_ntp_timestamp :: "8 word list \<Rightarrow> nat \<Rightarrow> rat option" where
  "read_ntp_timestamp buf pos =
     (if length buf < pos + 8 then None
      else
        let seconds = read_uint32_be buf pos; fraction = read_uint32_be buf (pos + 4) in
        if seconds = 0 \<and> fraction = 0 then None
        else Some (of_int ((uint seconds - NTP_EPOCH_OFFSET_S) * 1000) + of_int (uint fraction) / 2 ^ 32 * 1000))"

record ntp_sample =
  ntp_t1 :: rat
  ntp_t2 :: rat
  ntp_t3 :: rat
  ntp_t4 :: rat

definition offset_ms :: "ntp_sample \<Rightarrow> rat" where
  "offset_ms s = ((ntp_t2 s - ntp_t1 s) + (ntp_t3 s - ntp_t4 s)) / 2"

definition round_trip_ms :: "ntp_sample \<Rightarrow> rat" where
  "round_trip_ms s = (ntp_t4 s - ntp_t1 s) - (ntp_t3 s - ntp_t2 s)"

definition client_packet :: "8 word list" where
  "client_packet = (push_bit 6 0 OR push_bit 3 4 OR 3) # replicate 47 0"

text \<open>What is made of a reply: the two server times, or nothing.\<close>

definition ntp_answer :: "8 word list \<Rightarrow> rat \<Rightarrow> rat \<Rightarrow> int option" where
  "ntp_answer msg t1 t4 =
     (case (read_ntp_timestamp msg 32, read_ntp_timestamp msg 40) of
        (Some t2, Some t3) \<Rightarrow> Some \<lfloor>offset_ms \<lparr>ntp_t1 = t1, ntp_t2 = t2, ntp_t3 = t3, ntp_t4 = t4\<rparr> + 1 / 2\<rfloor>
      | _ \<Rightarrow> None)"

section \<open>Recipes\<close>

definition recipe_start :: "char \<Rightarrow> bool" where
  "recipe_start c \<longleftrightarrow> is_lower c \<or> is_digit c"

definition recipe_char :: "char \<Rightarrow> bool" where
  "recipe_char c \<longleftrightarrow> recipe_start c \<or> c = CHR ''.'' \<or> c = CHR ''_'' \<or> c = CHR ''-''"

definition is_recipe_name :: "string \<Rightarrow> bool" where
  "is_recipe_name n \<longleftrightarrow> n \<noteq> [] \<and> recipe_start (hd n) \<and> list_all recipe_char (tl n) \<and> length (tl n) \<le> 63"

definition recipe_path :: "js \<Rightarrow> string \<Rightarrow> string + string" where
  "recipe_path name dir =
     (case name of
        JStr n \<Rightarrow> if is_recipe_name n then Inr (dir @ ''/'' @ n @ ''.mjs'') else Inl ''params.recipe must be a recipe name''
      | _ \<Rightarrow> Inl ''params.recipe must be a recipe name'')"

record labelled_item =
  li_label :: js
  li_extra :: obj

record recipe =
  rp_id :: string
  rp_license :: "string option"
  rp_size :: int
  rp_preprocess :: "string option"

definition effective_license :: "recipe \<Rightarrow> js \<Rightarrow> string + string" where
  "effective_license r from_job =
     (let job = (case from_job of JStr s \<Rightarrow> trim s | _ \<Rightarrow> []) in
      case rp_license r of
        Some l \<Rightarrow>
          if trim l \<noteq> []
          then if job \<noteq> [] \<and> job \<noteq> l then Inl (''recipe '' @ rp_id r @ '' states its dataset is '' @ l) else Inr l
          else if job = [] then Inl (''recipe '' @ rp_id r @ '' is generic and states no license'') else Inr job
      | None \<Rightarrow> if job = [] then Inl (''recipe '' @ rp_id r @ '' is generic and states no license'') else Inr job)"

record manifest_item =
  mi_file :: string
  mi_label :: int
  mi_extra :: obj

record manifest =
  mf_recipe :: string
  mf_source :: string
  mf_license :: string
  mf_classes :: "int option"
  mf_preprocess :: "string option"
  mf_items :: "manifest_item list"

fun manifest_items :: "recipe \<Rightarrow> string list \<Rightarrow> labelled_item list \<Rightarrow> string + manifest_item list" where
  "manifest_items r (n # ns) (i # is) =
     (case int_of (li_label i) of
        None \<Rightarrow> Inl (''recipe '' @ rp_id r @ '' gave '' @ n @ '' a non-integer label'')
      | Some l \<Rightarrow>
          (case manifest_items r ns is of
             Inl e \<Rightarrow> Inl e
           | Inr ms \<Rightarrow> Inr (\<lparr>mi_file = n, mi_label = l, mi_extra = li_extra i\<rparr> # ms)))"
| "manifest_items r _ _ = Inr []"

definition build_manifest ::
  "recipe \<Rightarrow> string \<Rightarrow> string \<Rightarrow> string list \<Rightarrow> labelled_item list \<Rightarrow> int option \<Rightarrow> string + manifest" where
  "build_manifest r source license names items classes =
     (if length items \<noteq> length names then Inl (''recipe '' @ rp_id r @ '' labelled too few images'')
      else case manifest_items r names items of
        Inl e \<Rightarrow> Inl e
      | Inr ms \<Rightarrow> Inr \<lparr>mf_recipe = rp_id r, mf_source = source, mf_license = license, mf_classes = classes,
          mf_preprocess = (case rp_preprocess r of Some p \<Rightarrow> if p = [] then None else Some p | None \<Rightarrow> None), mf_items = ms\<rparr>)"

definition pad_start :: "nat \<Rightarrow> string \<Rightarrow> string" where
  "pad_start w s = replicate (w - length s) (CHR ''0'') @ s"

definition output_name :: "nat \<Rightarrow> nat \<Rightarrow> string" where
  "output_name index count = pad_start (max 3 (length (nat_str (count - 1)))) (nat_str index) @ ''.jpg''"

section \<open>The checkout cache\<close>

text \<open>The remote's refs, the clone (its refs as last fetched) and what is checked out.\<close>

record git_world =
  gw_remote :: "string \<rightharpoonup> string"
  gw_clone :: "(string \<rightharpoonup> string) option"
  gw_local :: "string \<rightharpoonup> string"
  gw_head :: "string option"
  gw_clean :: bool

definition git_code :: "(unit, git_world) io \<Rightarrow> (bool, git_world) io" where
  "git_code m = catch_io (bind_io m (\<lambda>_. ret True)) (\<lambda>_. ret False)"

text \<open>\<open>rev-parse\<close> of \<open>origin/ref\<close>, then of \<open>ref\<close>.\<close>

definition resolve_ref :: "string \<Rightarrow> (string option, git_world) io" where
  "resolve_ref ref =
     bind_io get_world (\<lambda>w. ret (coalesce (Option.bind (gw_clone w) (\<lambda>refs. refs ref)) (gw_local w ref)))"

definition prepare_checkout :: "string \<Rightarrow> (string, git_world) io" where
  "prepare_checkout ref =
     bind_io get_world (\<lambda>w0.
     bind_io (if gw_clone w0 = None
        then bind_io (git_code (command (\<lambda>w. w\<lparr>gw_clone := Some (gw_remote w)\<rparr>))) (\<lambda>ok.
          if \<not> ok then throw ''git clone failed'' else ret ())
        else ret ()) (\<lambda>_.
     bind_io (git_code (command (\<lambda>w. w\<lparr>gw_clone := Some (gw_remote w)\<rparr>))) (\<lambda>fetched.
     bind_io get_world (\<lambda>w1.
       if \<not> fetched \<and> gw_clone w1 = None then throw ''git fetch failed''
       else bind_io (resolve_ref ref) (\<lambda>sha.
         case sha of
           None \<Rightarrow> throw (''ref does not resolve: '' @ ref)
         | Some s \<Rightarrow>
             bind_io (git_code (command (\<lambda>w. w\<lparr>gw_head := Some s\<rparr>))) (\<lambda>checked.
               if \<not> checked then throw ''git checkout failed''
               else bind_io (git_code (command (\<lambda>w. w\<lparr>gw_clean := True\<rparr>))) (\<lambda>_. ret s)))))))"

section \<open>The synthetic backend\<close>

definition ROUNDS_PER_TOKEN :: nat where "ROUNDS_PER_TOKEN = 1000"
definition BLOCK_SIZE :: nat where "BLOCK_SIZE = 4096"

definition init_block :: "8 word list" where
  "init_block = map (\<lambda>i. word_of_nat (i * 31) AND 0xFF) [0..<BLOCK_SIZE]"

text \<open>One round: the digest is copied over the front of the block. \<open>sha256\<close> is the platform's.\<close>

definition fold_round :: "(8 word list \<Rightarrow> 8 word list) \<Rightarrow> 8 word list \<Rightarrow> 8 word list" where
  "fold_round sha256 b = (let d = sha256 b in take (length b) (d @ drop (length d) b))"

definition fold_block :: "(8 word list \<Rightarrow> 8 word list) \<Rightarrow> int \<Rightarrow> 8 word list \<Rightarrow> 8 word list" where
  "fold_block sha256 rounds b = (fold_round sha256 ^^ nat rounds) b"

definition attest_digest :: "(8 word list \<Rightarrow> 8 word list) \<Rightarrow> 8 word list" where
  "attest_digest sha256 = sha256 (fold_block sha256 (int ROUNDS_PER_TOKEN) init_block)"

record iter_rates =
  ir_prefill_tok_s :: rat
  ir_decode_tok_s :: rat
  ir_ttft_ms :: int

definition iter_result :: "int \<Rightarrow> int \<Rightarrow> int \<Rightarrow> int \<Rightarrow> int \<Rightarrow> iter_rates" where
  "iter_result prompt gen prefill_ms first_ms decode_ms =
     \<lparr>ir_prefill_tok_s = of_int (prompt * 1000) / of_int (max prefill_ms 1),
      ir_decode_tok_s = of_int (gen * 1000) / of_int (max decode_ms 1), ir_ttft_ms = prefill_ms + first_ms\<rparr>"

text \<open>The hash rounds of one iteration: prompt, first token, the other tokens.\<close>

definition iteration_rounds :: "int \<Rightarrow> int \<Rightarrow> int" where
  "iteration_rounds prompt gen =
     max 0 (prompt * int ROUNDS_PER_TOKEN) + int ROUNDS_PER_TOKEN + max (gen - 1) 0 * int ROUNDS_PER_TOKEN"

section \<open>Typed parameters\<close>

definition trunc :: "rat \<Rightarrow> int" where
  "trunc r = (if 0 \<le> r then \<lfloor>r\<rfloor> else \<lceil>r\<rceil>)"

definition int_param :: "js \<Rightarrow> string \<Rightarrow> int \<Rightarrow> int" where
  "int_param params k fallback =
     (case (case jget k params of JNum n \<Rightarrow> n | JStr s \<Rightarrow> str_number s | _ \<Rightarrow> NaN) of Fin r \<Rightarrow> trunc r | _ \<Rightarrow> fallback)"

definition compact :: "obj \<Rightarrow> obj" where
  "compact o' = filter (\<lambda>(k, v). \<not> nullish v) o'"

section \<open>Status targets\<close>

record status_target =
  tg_owner :: string
  tg_repo :: string
  tg_sha :: string

text \<open>\<open>/^([^/\s]+)\/([^@\s]+)@([0-9a-fA-F]{7,40})$/\<close>\<close>

definition parse_status_target :: "string option \<Rightarrow> status_target option" where
  "parse_status_target target =
     (case target of
        None \<Rightarrow> None
      | Some t \<Rightarrow>
          let s = trim t; owner = takeWhile (\<lambda>c. c \<noteq> CHR ''/'') s; r = drop (length owner + 1) s;
              repo = takeWhile (\<lambda>c. c \<noteq> CHR ''@'') r; sha = drop (length repo + 1) r
          in if CHR ''/'' \<in> set s \<and> CHR ''@'' \<in> set r \<and> owner \<noteq> [] \<and> repo \<noteq> [] \<and>
              list_all (\<lambda>c. \<not> is_space c) owner \<and> list_all (\<lambda>c. \<not> is_space c) repo \<and>
              7 \<le> length sha \<and> length sha \<le> 40 \<and> list_all is_hex (lower sha)
             then Some \<lparr>tg_owner = owner, tg_repo = repo, tg_sha = lower sha\<rparr> else None)"

end
