(* ===== verification/Eval_Scoring.thy ===== *)
theory Eval_Scoring
  imports Shell_Gate
begin

text \<open>
  How a completion is judged (\<open>runner-machine/src/scoring.ts\<close>) and the llm-eval workload that folds
  the judgements into a result (\<open>workloads/llmeval.ts\<close>). The platform's JSON parser and regular
  expressions are arguments (\<open>None\<close> where they throw), and so is what the judge model answers. A
  judgement's \<open>why\<close>, which never reaches a metric, is left out. An item whose id is a name every object
  inherits counts as missing here; the code finds the inherited value and fails on it in \<open>summarise\<close>, with
  another text in the same error row.
\<close>

section \<open>Rules and judgements\<close>

datatype score_rule =
    Exact string
  | Contains "string list"
  | Regex string "string option"
  | Json_Rule "string list option"
  | Judge string

record eval_item =
  ei_id :: string
  ei_prompt :: string
  ei_score :: score_rule

record judgement =
  jd_id :: string
  jd_ok :: "bool option"

definition normalise :: "string \<Rightarrow> string" where
  "normalise s = lower (trim s)"

text \<open>The text before and after the first occurrence of a word.\<close>

fun cut_at :: "string \<Rightarrow> string \<Rightarrow> (string \<times> string) option" where
  "cut_at p [] = (if p = [] then Some ([], []) else None)"
| "cut_at p (c # s) =
     (if starts_with p (c # s) then Some ([], drop (length p) (c # s))
      else case cut_at p s of None \<Rightarrow> None | Some (a, b) \<Rightarrow> Some (c # a, b))"

definition FENCE :: string where "FENCE = replicate 3 (CHR 0x60)"

text \<open>\<open>/```(?:json)?\s*([\s\S]*?)```/i\<close>\<close>

definition fenced :: "string \<Rightarrow> string option" where
  "fenced s =
     (case cut_at FENCE s of
        None \<Rightarrow> None
      | Some (_, r) \<Rightarrow>
          let r' = (if starts_with ''json'' (lower r) then drop 4 r else r)
          in map_option fst (cut_at FENCE (dropWhile is_space r')))"

text \<open>The scan for the first balanced span: depth, inside a string, after a backslash, what was seen (reversed).\<close>

fun balanced_scan :: "char \<Rightarrow> char \<Rightarrow> int \<Rightarrow> bool \<Rightarrow> bool \<Rightarrow> string \<Rightarrow> string \<Rightarrow> string option" where
  "balanced_scan opn cls depth in_str esc seen [] = None"
| "balanced_scan opn cls depth in_str esc seen (c # s) =
     (if esc then balanced_scan opn cls depth in_str False (c # seen) s
      else if c = CHR 0x5C then balanced_scan opn cls depth in_str True (c # seen) s
      else if c = CHR 0x22 then balanced_scan opn cls depth (\<not> in_str) False (c # seen) s
      else if in_str then balanced_scan opn cls depth in_str False (c # seen) s
      else if c = opn then balanced_scan opn cls (depth + 1) in_str False (c # seen) s
      else if c = cls
      then if depth - 1 = 0 then Some (rev (c # seen)) else balanced_scan opn cls (depth - 1) in_str False (c # seen) s
      else balanced_scan opn cls depth in_str False (c # seen) s)"

definition first_balanced :: "string \<Rightarrow> char \<Rightarrow> char \<Rightarrow> string option" where
  "first_balanced s opn cls = balanced_scan opn cls 0 False False [] (dropWhile (\<lambda>c. c \<noteq> opn) s)"

fun first_parsed :: "(string \<Rightarrow> js option) \<Rightarrow> string option list \<Rightarrow> js" where
  "first_parsed parse [] = JNull"
| "first_parsed parse (c # cs) =
     (case c of
        None \<Rightarrow> first_parsed parse cs
      | Some t \<Rightarrow>
          if trim t = [] then first_parsed parse cs
          else (case parse (trim t) of Some v \<Rightarrow> v | None \<Rightarrow> first_parsed parse cs))"

definition extract_json :: "(string \<Rightarrow> js option) \<Rightarrow> string \<Rightarrow> js" where
  "extract_json parse completion =
     first_parsed parse
       [fenced completion, Some completion, first_balanced completion (CHR ''{'') (CHR ''}''),
        first_balanced completion (CHR ''['') (CHR '']'')]"

text \<open>\<open>k in parsed\<close> of an object, names every object inherits included.\<close>

definition has_key :: "js \<Rightarrow> string \<Rightarrow> bool" where
  "has_key v k \<longleftrightarrow> (case v of JObj kvs \<Rightarrow> k \<in> set (map fst kvs) \<or> k \<in> set INHERITED | _ \<Rightarrow> False)"

type_synonym regex = "string \<Rightarrow> string option \<Rightarrow> string \<Rightarrow> bool option"

definition score_ok :: "(string \<Rightarrow> js option) \<Rightarrow> regex \<Rightarrow> score_rule \<Rightarrow> string \<Rightarrow> bool option" where
  "score_ok parse regex rule completion =
     (case rule of
        Exact expect \<Rightarrow> Some (normalise completion = normalise expect)
      | Contains expect \<Rightarrow> Some (list_all (\<lambda>e. contains (normalise e) (normalise completion)) expect)
      | Regex pattern flags \<Rightarrow> regex pattern flags completion
      | Json_Rule keys \<Rightarrow>
          let v = extract_json parse completion; ks = (case keys of None \<Rightarrow> [] | Some ks \<Rightarrow> ks) in
          if v = JNull then Some False
          else if ks = [] then Some True
          else if \<not> is_plain_object v then Some False
          else Some (list_all (has_key v) ks)
      | Judge _ \<Rightarrow> None)"

definition score_item :: "(string \<Rightarrow> js option) \<Rightarrow> regex \<Rightarrow> eval_item \<Rightarrow> string \<Rightarrow> judgement" where
  "score_item parse regex item completion =
     \<lparr>jd_id = ei_id item, jd_ok = score_ok parse regex (ei_score item) completion\<rparr>"

definition REFUSALS :: "string list" where
  "REFUSALS =
     [''i cannot'', ''i can't'', ''i won't'', ''i am unable'', ''i'm unable'', ''as an ai'', ''i do not have the ability'',
      ''i don't have the ability'', ''sorry, but i'', ''i apologize, but i'', ''i apologise, but i'']"

definition looks_like_refusal :: "string \<Rightarrow> bool" where
  "looks_like_refusal completion =
     (let head = take 160 (normalise completion)
      in list_ex (\<lambda>r. starts_with r head \<or> contains (''. '' @ r) head) REFUSALS)"

record score_summary =
  ss_score_pct :: "rat option"
  ss_scored_items :: nat
  ss_judged_items :: nat
  ss_refusal_pct :: rat
  ss_items :: nat

definition percent :: "nat \<Rightarrow> nat \<Rightarrow> rat" where
  "percent a b = of_nat a / of_nat b * 100"

definition summarise :: "judgement list \<Rightarrow> string list \<Rightarrow> score_summary" where
  "summarise js completions =
     (let deterministic = filter (\<lambda>j. jd_ok j \<noteq> None) js;
          passed = filter (\<lambda>j. jd_ok j = Some True) deterministic
      in \<lparr>ss_score_pct = (if deterministic = [] then None else Some (percent (length passed) (length deterministic))),
         ss_scored_items = length deterministic, ss_judged_items = length js - length deterministic,
         ss_refusal_pct = (if completions = [] then 0
           else percent (length (filter looks_like_refusal completions)) (length completions)),
         ss_items = length js\<rparr>)"

section \<open>Reading an eval set\<close>

definition all_strings :: "js \<Rightarrow> string list option" where
  "all_strings v = (case v of JArr xs \<Rightarrow> if list_all is_str xs then Some (List.map_filter str_of xs) else None | _ \<Rightarrow> None)"

definition parse_rule :: "string \<Rightarrow> js \<Rightarrow> string + score_rule" where
  "parse_rule i score =
     (case jget ''kind'' score of
        JStr kind \<Rightarrow>
          if kind = ''exact'' then
            (case jget ''expect'' score of JStr e \<Rightarrow> Inr (Exact e) | _ \<Rightarrow> Inl (''item '' @ i @ '': exact needs a string expect''))
          else if kind = ''contains'' then
            (case all_strings (jget ''expect'' score) of Some es \<Rightarrow> Inr (Contains es)
             | None \<Rightarrow> Inl (''item '' @ i @ '': contains needs an array of strings in expect''))
          else if kind = ''regex'' then
            (case jget ''pattern'' score of JStr p \<Rightarrow> Inr (Regex p (str_of (jget ''flags'' score)))
             | _ \<Rightarrow> Inl (''item '' @ i @ '': regex needs a pattern''))
          else if kind = ''json'' then
            (if jget ''require_keys'' score = JUndef then Inr (Json_Rule None)
             else case all_strings (jget ''require_keys'' score) of Some ks \<Rightarrow> Inr (Json_Rule (Some ks))
             | None \<Rightarrow> Inl (''item '' @ i @ '': json's require_keys must be an array of strings''))
          else if kind = ''judge'' then
            (case jget ''rubric'' score of
               JStr r \<Rightarrow> if r = [] then Inl (''item '' @ i @ '': judge needs a rubric'') else Inr (Judge r)
             | _ \<Rightarrow> Inl (''item '' @ i @ '': judge needs a rubric''))
          else Inl (''item '' @ i @ '': unknown score.kind '' @ kind)
      | _ \<Rightarrow> Inl (''item '' @ i @ '' has no score.kind''))"

definition parse_item :: "nat \<Rightarrow> js \<Rightarrow> string + eval_item" where
  "parse_item n entry =
     (case jget ''id'' entry of
        JStr i \<Rightarrow>
          if i = [] then Inl (''item '' @ nat_str n @ '' has no id'')
          else (case jget ''prompt'' entry of
              JStr p \<Rightarrow>
                if p = [] then Inl (''item '' @ i @ '' has no prompt'')
                else (case parse_rule i (jget ''score'' entry) of
                    Inl e \<Rightarrow> Inl e | Inr r \<Rightarrow> Inr \<lparr>ei_id = i, ei_prompt = p, ei_score = r\<rparr>)
            | _ \<Rightarrow> Inl (''item '' @ i @ '' has no prompt''))
      | _ \<Rightarrow> Inl (''item '' @ nat_str n @ '' has no id''))"

fun parse_items :: "nat \<Rightarrow> js list \<Rightarrow> string + eval_item list" where
  "parse_items n [] = Inr []"
| "parse_items n (e # es) =
     (case parse_item n e of
        Inl x \<Rightarrow> Inl x
      | Inr i \<Rightarrow> (case parse_items (Suc n) es of Inl x \<Rightarrow> Inl x | Inr is \<Rightarrow> Inr (i # is)))"

definition parse_eval_set :: "js \<Rightarrow> string + eval_item list" where
  "parse_eval_set raw =
     (case (case raw of JArr _ \<Rightarrow> raw | _ \<Rightarrow> jget ''items'' raw) of
        JArr es \<Rightarrow> parse_items 0 es
      | _ \<Rightarrow> Inl ''eval set must be an array, or an object with an items array'')"

definition upper_char :: "char \<Rightarrow> char" where
  "upper_char c = (if is_lower c then char_of (code c - 32) else c)"

definition verdict_word :: "string \<Rightarrow> string \<Rightarrow> bool" where
  "verdict_word w s \<longleftrightarrow>
     starts_with w s \<and>
     (length s = length w \<or> \<not> (is_alpha (s ! length w) \<or> is_digit (s ! length w) \<or> s ! length w = CHR ''_''))"

definition parse_verdict :: "string \<Rightarrow> bool option" where
  "parse_verdict out =
     (let first = map upper_char (trim (hd (split_on (CHR 0x0A) (trim out)))) in
      if verdict_word ''PASS'' first then Some True else if verdict_word ''FAIL'' first then Some False else None)"

section \<open>Completions\<close>

fun put_text :: "string \<Rightarrow> string \<Rightarrow> (string \<times> string) list \<Rightarrow> (string \<times> string) list" where
  "put_text k t [] = [(k, t)]"
| "put_text k t ((k', t') # out) = (if k' = k then (k, t) # out else (k', t') # put_text k t out)"

fun parse_entries :: "nat \<Rightarrow> js list \<Rightarrow> (string \<times> string) list \<Rightarrow> string + (string \<times> string) list" where
  "parse_entries n [] out = Inr out"
| "parse_entries n (e # es) out =
     (case e of
        JStr _ \<Rightarrow> Inl ''completions is an array of bare strings''
      | _ \<Rightarrow>
        let i = (if nullish (jget ''id'' e) then jget ''item_id'' e else jget ''id'' e);
            t = (if \<not> nullish (jget ''completion'' e) then jget ''completion'' e
                 else if \<not> nullish (jget ''output'' e) then jget ''output'' e else jget ''text'' e)
        in case i of
             JStr i' \<Rightarrow>
               (case t of
                  JStr t' \<Rightarrow> parse_entries (Suc n) es (put_text i' t' out)
                | _ \<Rightarrow> Inl (''completion '' @ i' @ '' has no completion text''))
           | _ \<Rightarrow> Inl (''completion '' @ nat_str n @ '' has no id''))"

definition text_of_entry :: "js \<Rightarrow> string option" where
  "text_of_entry v =
     (case v of JStr s \<Rightarrow> Some s | JObj _ \<Rightarrow> str_of (jget ''completion'' v) | _ \<Rightarrow> None)"

definition parse_completions :: "js \<Rightarrow> string + (string \<times> string) list" where
  "parse_completions raw =
     (case raw of
        JArr es \<Rightarrow> parse_entries 0 es []
      | JObj kvs \<Rightarrow>
          let o' = (if nullish (jget ''completions'' raw) then raw else jget ''completions'' raw) in
          (case o' of
             JArr es \<Rightarrow> parse_entries 0 es []
           | _ \<Rightarrow>
             let entries = (case o' of JObj kvs' \<Rightarrow> kvs' | JStr s \<Rightarrow> map (\<lambda>(i, c). (nat_str i, JStr [c])) (enumerate 0 s) | _ \<Rightarrow> []);
                 out = List.map_filter (\<lambda>(k, v). map_option (Pair k) (text_of_entry v)) entries
             in if out \<noteq> [] then Inr out
                else Inl ''completions must be an object keyed by item id, or an array of {id, completion}'')
      | _ \<Rightarrow> Inl ''completions must be an object keyed by item id, or an array of {id, completion}'')"

section \<open>The workload\<close>

record eval_result =
  er_score_pct :: "rat option"
  er_scored_items :: nat
  er_judged_items :: nat
  er_judge_score_pct :: "rat option"
  er_refusal_pct :: rat
  er_unmatched :: "string list"

text \<open>
  \<open>judge\<close> is the served model: its text for an item and a completion, \<open>None\<close> where the call fails;
  \<open>cancelled\<close> whether the job was cancelled by the time that item comes up.
\<close>

fun judge_items ::
  "(eval_item \<Rightarrow> string \<Rightarrow> string option) \<Rightarrow> (eval_item \<Rightarrow> bool) \<Rightarrow> (eval_item \<Rightarrow> string) \<Rightarrow> eval_item list \<Rightarrow>
   string + judgement list" where
  "judge_items judge cancelled answer [] = Inr []"
| "judge_items judge cancelled answer (i # is) =
     (if cancelled i then Inl ''cancelled''
      else case judge i (answer i) of
        None \<Rightarrow> Inl ''the judge endpoint failed''
      | Some t \<Rightarrow>
          (case judge_items judge cancelled answer is of
             Inl e \<Rightarrow> Inl e
           | Inr js \<Rightarrow> Inr (\<lparr>jd_id = ei_id i, jd_ok = parse_verdict t\<rparr> # js)))"

definition is_judge :: "eval_item \<Rightarrow> bool" where
  "is_judge i \<longleftrightarrow> (case ei_score i of Judge _ \<Rightarrow> True | _ \<Rightarrow> False)"

definition llm_eval ::
  "(string \<Rightarrow> js option) \<Rightarrow> regex \<Rightarrow> string option \<Rightarrow> (eval_item \<Rightarrow> string \<Rightarrow> string option) \<Rightarrow> (eval_item \<Rightarrow> bool) \<Rightarrow>
   js \<Rightarrow> js \<Rightarrow> string + eval_result" where
  "llm_eval parse regex endpoint judge cancelled raw_set raw_completions =
     (case parse_eval_set raw_set of Inl e \<Rightarrow> Inl e | Inr items \<Rightarrow>
      (case parse_completions raw_completions of Inl e \<Rightarrow> Inl e | Inr cs \<Rightarrow>
       let missing = filter (\<lambda>i. map_of cs (ei_id i) = None) items;
           answer = (\<lambda>i. case map_of cs (ei_id i) of Some t \<Rightarrow> t | None \<Rightarrow> []);
           extra = filter (\<lambda>k. k \<notin> set (map ei_id items)) (map fst cs);
           judgements = map (\<lambda>i. score_item parse regex i (answer i)) items;
           to_judge = filter is_judge items
       in if missing \<noteq> [] then Inl (nat_str (length missing) @ '' prompts have no completion'')
          else if to_judge \<noteq> [] \<and> (endpoint = None \<or> endpoint = Some []) then Inl ''items need a judge model but params.judge_endpoint is unset''
          else (case judge_items judge cancelled answer to_judge of
             Inl e \<Rightarrow> Inl e
           | Inr judged \<Rightarrow>
               let s = summarise judgements (map answer items);
                   answered = filter (\<lambda>j. jd_ok j \<noteq> None) judged;
                   passed = filter (\<lambda>j. jd_ok j = Some True) answered
               in Inr \<lparr>er_score_pct = ss_score_pct s, er_scored_items = ss_scored_items s, er_judged_items = ss_judged_items s,
                    er_judge_score_pct = (if answered = [] then None else Some (percent (length passed) (length answered))),
                    er_refusal_pct = ss_refusal_pct s, er_unmatched = extra\<rparr>)))"

end
