(* ===== verification/Machine_Laws.thy ===== *)
theory Machine_Laws
  imports Machine_Data Eval_Scoring
begin

text \<open>
  Laws of the machine runner's codecs: chunks do not show in a log, output names sort as their numbers,
  the NTP offset is right up to half the round trip, a fetched checkout is the remote's, and scores are
  percentages of what was scored.
\<close>

section \<open>Lines\<close>

lemma split_pieces_append:
  "split_on d (a @ b) = butlast (split_on d a) @ split_on d (last (split_on d a) @ b)"
proof (induction a)
  case (Cons c a)
  obtain p ps where "split_on d a = p # ps" by (meson list.exhaust split_on_nonempty)
  with Cons show ?case by (cases "ps = []") auto
qed simp

lemma split_on_pieces: "p \<in> set (split_on d s) \<Longrightarrow> d \<notin> set p"
proof (induction s arbitrary: p)
  case (Cons c s)
  obtain q qs where "split_on d s = q # qs" by (meson list.exhaust split_on_nonempty)
  with Cons show ?case by (auto split: if_splits)
qed simp

lemma split_lines_append:
  "split_lines before (a @ b) = (let (ls, r) = split_lines before a; (ls', r') = split_lines r b in (ls @ ls', r'))"
  using split_pieces_append[of "CHR 0x0A" "before @ a" b]
  by (simp add: split_lines_def text_lines_def Let_def butlast_append map_append del: map_butlast)

text \<open>Where a tail stands: it has given the whole lines of the first \<open>lt_offset\<close> bytes and holds the rest of the last.\<close>

definition tail_at :: "string \<Rightarrow> string list \<times> log_tail \<Rightarrow> bool" where
  "tail_at file st \<longleftrightarrow>
     lt_offset (snd st) \<le> length file \<and> split_lines [] (take (lt_offset (snd st)) file) = (fst st, lt_rest (snd st))"

lemma tail_starts: "tail_at file ([], \<lparr>lt_offset = 0, lt_rest = []\<rparr>)"
  by (simp add: tail_at_def split_lines_def text_lines_def)

lemma tail_grows: "tail_at file st \<Longrightarrow> prefix file file' \<Longrightarrow> tail_at file' st"
  by (auto simp: tail_at_def prefix_def)

lemma tail_chunk:
  assumes "tail_at file (out, t)"
  shows "tail_at file (out @ fst (split_lines (lt_rest t) (take n (drop (lt_offset t) file))),
     t\<lparr>lt_offset := lt_offset t + length (take n (drop (lt_offset t) file)),
       lt_rest := snd (split_lines (lt_rest t) (take n (drop (lt_offset t) file)))\<rparr>)"
proof -
  let ?c = "take n (drop (lt_offset t) file)"
  have "take (lt_offset t + length ?c) file = take (lt_offset t) file @ ?c"
    by (metis append_take_drop_id length_append length_take min.absorb2 min_def take_add take_all_iff take_take length_drop nat_le_linear)
  moreover have "lt_offset t + length ?c \<le> length file" using assms by (auto simp: tail_at_def)
  ultimately show ?thesis using assms by (simp add: tail_at_def split_lines_append split_beta)
qed

lemma read_chunks_tail:
  assumes "tail_at whole (out, t)"
  shows "read_chunks whole t out = (fst (split_lines [] whole), \<lparr>lt_offset = length whole, lt_rest = snd (split_lines [] whole)\<rparr>)"
  using assms
proof (induction whole t out rule: read_chunks.induct)
  case (1 whole t out)
  let ?c = "take 65536 (drop (lt_offset t) whole)"
  show ?case
  proof (cases "?c = []")
    case True
    then have "lt_offset t = length whole" using 1(2) by (simp add: tail_at_def)
    then show ?thesis using 1(2) by (subst read_chunks.simps) (simp add: tail_at_def)
  next
    case False
    have "read_chunks whole t out =
        read_chunks whole (t\<lparr>lt_offset := lt_offset t + length ?c, lt_rest := snd (split_lines (lt_rest t) ?c)\<rparr>)
          (out @ fst (split_lines (lt_rest t) ?c))"
      using False by (subst read_chunks.simps) (simp only: Let_def if_False)
    also have "\<dots> = (fst (split_lines [] whole), \<lparr>lt_offset = length whole, lt_rest = snd (split_lines [] whole)\<rparr>)"
      by (rule 1(1)[OF refl False refl tail_chunk[OF 1(2)]])
    finally show ?thesis .
  qed
qed

section \<open>Padded numbers\<close>

lemma digits_val_append: "digits_val (a @ b) = digits_val a * 10 ^ length b + digits_val b"
proof (induction b rule: rev_induct)
  case (snoc c b)
  then show ?case by (simp add: digits_val_def flip: append_assoc)
qed (simp add: digits_val_def)

lemma digits_val_zeros: "digits_val (replicate n (CHR ''0'')) = 0"
  by (induction n) (simp_all add: digits_val_def digit_val_def code_def)

lemma digits_val_pad: "digits_val (pad_start w s) = digits_val s"
  by (simp add: pad_start_def digits_val_append digits_val_zeros)

lemma digits_val_bound: "list_all is_digit s \<Longrightarrow> digits_val s < 10 ^ length s"
proof (induction s rule: rev_induct)
  case (snoc c s)
  then have "digit_val c < 10" by (auto simp: is_digit_def digit_val_def)
  then show ?case using snoc by (simp add: digits_val_def)
qed (simp add: digits_val_def)

lemma digits_order:
  "length xs = length ys \<Longrightarrow> list_all is_digit xs \<Longrightarrow> list_all is_digit ys \<Longrightarrow> digits_val xs < digits_val ys \<Longrightarrow>
   (xs, ys) \<in> lexord {(a, b). code a < code b}"
proof (induction xs ys rule: list_induct2)
  case (Cons x xs y ys)
  let ?n = "length xs"
  have val: "digits_val (c # s) = digit_val c * 10 ^ length s + digits_val s" for c s
    using digits_val_append[of "[c]" s] by (simp add: digits_val_def)
  have dx: "code x = 48 + digit_val x" and dy: "code y = 48 + digit_val y"
    using Cons.prems by (simp_all add: is_digit_def digit_val_def)
  have less: "digits_val xs < 10 ^ ?n" "digits_val ys < 10 ^ ?n"
    using digits_val_bound[of xs] digits_val_bound[of ys] Cons by simp_all
  consider "digit_val x < digit_val y" | "digit_val x = digit_val y" | "digit_val y < digit_val x" by linarith
  then show ?case
  proof cases
    case 1
    then show ?thesis using dx dy by simp
  next
    case 2
    then have "x = y" using dx dy by (metis code_def of_char_eq_iff)
    then show ?thesis using Cons val 2 by simp
  next
    case 3
    then have "digit_val y + 1 \<le> digit_val x" by simp
    then have "(digit_val y + 1) * 10 ^ ?n \<le> digit_val x * 10 ^ ?n" by (rule mult_right_mono) simp
    then show ?thesis using Cons.prems(3) val[of x xs] val[of y ys] less Cons.hyps by (simp add: algebra_simps)
  qed
qed simp

lemma nat_str_length_mono: "i \<le> j \<Longrightarrow> length (nat_str i) \<le> length (nat_str j)"
proof (induction j arbitrary: i rule: nat_str.induct)
  case (1 j)
  show ?case
  proof (cases "i < 10")
    case True
    then show ?thesis by (subst nat_str.simps, subst (2) nat_str.simps) auto
  next
    case False
    then have "\<not> j < 10" "i div 10 \<le> j div 10" using 1(2) by (simp_all add: div_le_mono)
    then show ?thesis using False 1(1)[of "i div 10"] nat_str.simps[of i] nat_str.simps[of j] by simp
  qed
qed

lemma pad_length: "length s \<le> w \<Longrightarrow> length (pad_start w s) = w"
  by (simp add: pad_start_def)

lemma pad_digits: "list_all is_digit (pad_start w (nat_str n))"
  using nat_str_digits[of n] by (auto simp: pad_start_def list_all_iff is_digit_def code_def)

lemma output_name_order:
  assumes "i < j" "j < count"
  shows "(output_name i count, output_name j count) \<in> lexord {(a, b). code a < code b}"
proof -
  let ?w = "max 3 (length (nat_str (count - 1)))"
  have len: "length (pad_start ?w (nat_str k)) = ?w" if "k < count" for k
    using that nat_str_length_mono[of k "count - 1"] by (intro pad_length) linarith
  have "(pad_start ?w (nat_str i), pad_start ?w (nat_str j)) \<in> lexord {(a, b). code a < code b}"
    using assms len by (intro digits_order) (simp_all add: pad_digits digits_val_pad digits_val_nat_str)
  then show ?thesis
    unfolding output_name_def using assms len by (intro lexord_sufI) simp_all
qed

section \<open>The clock\<close>

lemma ntp_offset:
  fixes skew d1 d2 p t1 :: rat
  defines "s \<equiv> \<lparr>ntp_t1 = t1, ntp_t2 = t1 + skew + d1, ntp_t3 = t1 + skew + d1 + p, ntp_t4 = t1 + d1 + p + d2\<rparr>"
  shows "offset_ms s = skew + (d1 - d2) / 2" "round_trip_ms s = d1 + d2"
  by (simp_all add: s_def offset_ms_def round_trip_ms_def field_simps)

section \<open>Checkouts\<close>

lemma checkout_current:
  assumes "gw_remote w ref = Some s"
  shows "\<exists>w'. prepare_checkout ref (w, []) = (Returned s, (w', [])) \<and> gw_head w' = Some s \<and> gw_clean w'"
  using assms
  by (cases "gw_clone w")
    (simp_all add: prepare_checkout_def bind_io_def get_world_def ret_def git_code_def catch_io_def command_def
      resolve_ref_def coalesce_def)

section \<open>The synthetic block\<close>

lemma init_block_length: "length init_block = BLOCK_SIZE"
  by (simp add: init_block_def)

lemma fold_block_length: "length (fold_block sha256 n b) = length b"
proof -
  have "length ((fold_round sha256 ^^ k) b) = length b" for k
    by (induction k) (simp_all add: fold_round_def Let_def min_def)
  then show ?thesis by (simp add: fold_block_def)
qed

lemma fold_block_more: "0 \<le> m \<Longrightarrow> 0 \<le> n \<Longrightarrow> fold_block f (m + n) b = fold_block f m (fold_block f n b)"
  by (simp add: fold_block_def nat_add_distrib funpow_add)

section \<open>Scores\<close>

lemma percent_bounds: "a \<le> b \<Longrightarrow> 0 \<le> percent a b \<and> percent a b \<le> 100"
  by (cases "b = 0") (simp_all add: percent_def divide_simps)

lemma summarise_bounds:
  "case ss_score_pct (summarise js cs) of None \<Rightarrow> ss_scored_items (summarise js cs) = 0 | Some p \<Rightarrow> 0 \<le> p \<and> p \<le> 100"
  "0 \<le> ss_refusal_pct (summarise js cs) \<and> ss_refusal_pct (summarise js cs) \<le> 100"
proof -
  have "length (filter (\<lambda>j. jd_ok j = Some True) (filter (\<lambda>j. jd_ok j \<noteq> None) js)) \<le> length (filter (\<lambda>j. jd_ok j \<noteq> None) js)"
    by (rule length_filter_le)
  from percent_bounds[OF this]
  show "case ss_score_pct (summarise js cs) of None \<Rightarrow> ss_scored_items (summarise js cs) = 0 | Some p \<Rightarrow> 0 \<le> p \<and> p \<le> 100"
    by (simp add: summarise_def Let_def del: filter_filter)
  show "0 \<le> ss_refusal_pct (summarise js cs) \<and> ss_refusal_pct (summarise js cs) \<le> 100"
    using percent_bounds[OF length_filter_le[of looks_like_refusal cs]] by (simp add: summarise_def Let_def)
qed

lemma summarise_counts: "ss_scored_items (summarise js cs) + ss_judged_items (summarise js cs) = ss_items (summarise js cs)"
  by (simp add: summarise_def Let_def)

lemma parse_items_length: "parse_items n es = Inr items \<Longrightarrow> length items = length es"
  by (induction es arbitrary: n items) (auto split: sum.splits)

text \<open>An item left to the judge has no deterministic answer: leaving it out changes no score.\<close>

lemma score_item_judge: "is_judge i \<Longrightarrow> jd_ok (score_item parse regex i t) = None"
  by (auto simp: is_judge_def score_item_def score_ok_def split: score_rule.splits)

lemma filter_map_keep: "(\<And>x. \<not> P x \<Longrightarrow> \<not> Q (f x)) \<Longrightarrow> filter Q (map f (filter P xs)) = filter Q (map f xs)"
  by (induction xs) auto

lemma summarise_skips_judge:
  "ss_score_pct (summarise (map (\<lambda>i. score_item parse regex i (answer i)) (filter (\<lambda>i. \<not> is_judge i) items)) cs) =
   ss_score_pct (summarise (map (\<lambda>i. score_item parse regex i (answer i)) items) cs')"
proof -
  have "filter (\<lambda>j. jd_ok j \<noteq> None) (map (\<lambda>i. score_item parse regex i (answer i)) (filter (\<lambda>i. \<not> is_judge i) items)) =
      filter (\<lambda>j. jd_ok j \<noteq> None) (map (\<lambda>i. score_item parse regex i (answer i)) items)"
    by (rule filter_map_keep) (simp add: score_item_judge)
  then show ?thesis by (simp add: summarise_def Let_def del: filter_filter filter_map)
qed

lemma judge_items_cong:
  "(\<And>i. i \<in> set is \<Longrightarrow> f i = g i) \<Longrightarrow> judge_items judge cancelled f is = judge_items judge cancelled g is"
  by (induction "is") (auto split: option.splits sum.splits)

lemma summarise_score_bounds: "case ss_score_pct (summarise js cs) of None \<Rightarrow> True | Some p \<Rightarrow> 0 \<le> p \<and> p \<le> 100"
  using summarise_bounds(1)[of js cs] by (auto split: option.splits)

end
