(* ===== verification/Machine_Properties.thy ===== *)
theory Machine_Properties
  imports Machine_Agent Machine_Routes Shell_Laws Machine_Laws
begin

text \<open>
  Properties of the machine runner: one job at a time whoever asked, no claim lost in silence, what is
  declared is what can be dispatched, the shell workload's boundary, scores that are not blended, and
  the codecs. Each is followed by its witness; the runs in which something goes wrong are at the end.
\<close>

section \<open>The agent\<close>

text \<open>
C25: Whatever the collectors answer and whenever, at most one claim loop has a job past the gate; the
beacons renew that job's lease at its own collector only, and tell every other collector who holds the
machine.
\<close>

theorem one_job_per_machine:
  assumes "agent_reach (\<lambda>_. True) a" "running_job (ag_loop a c) = Some j"
  shows "{c'. running_job (ag_loop a c') \<noteq> None} = {c} \<and> beacon_job a c = Some j \<and> beacon_busy a c = None \<and>
     {c'. beacon_job a c' = None \<and> beacon_busy a c' = Some (j, Some c)} = - {c}"
proof -
  have ok: "gate_ok a" by (rule reach_gate[OF assms(1)])
  then have held: "ag_held_by a = Some c" "ag_job_id a = Some j" using gate_okD assms(2) by blast+
  then have "running_job (ag_loop a c') = Some j' \<longleftrightarrow> c' = c \<and> j' = j" for c' j'
    using ok by (auto simp: gate_ok_def)
  then have "running_job (ag_loop a c') \<noteq> None \<longleftrightarrow> c' = c" for c'
    by (metis option.exhaust_sel option.distinct(1))
  then show ?thesis using held by (auto simp: beacon_job_def beacon_busy_def)
qed

definition both_granted :: "agent_event list" where
  "both_granted =
     [Enter ''x'', Enter ''y'', Ask ''x'', Ask ''y'', Granted ''x'' ''j1'', Granted ''y'' ''j2'', Arrived ''x'', Arrived ''y'']"

definition two_homed :: agent where
  "two_homed = the (agent_run both_granted (started_agent True {''x'', ''y''}))"

lemma two_homed_run: "agent_run both_granted (started_agent True {''x'', ''y''}) = Some two_homed"
proof -
  have "agent_run both_granted (started_agent True {''x'', ''y''}) \<noteq> None" by code_simp
  then show ?thesis by (simp add: two_homed_def)
qed

lemma one_job_per_machine_witness:
  "{c'. running_job (ag_loop two_homed c') \<noteq> None} = {''x''} \<and> ag_loop two_homed ''y'' = Giving_Back ''j2''"
proof -
  have "agent_reach (\<lambda>_. True) two_homed"
    by (rule agent_run_reach[OF agent_reach.begin_ _ two_homed_run]) (simp add: list_all_iff)
  moreover have "running_job (ag_loop two_homed ''x'') = Some ''j1''" by code_simp
  ultimately have "{c'. running_job (ag_loop two_homed c') \<noteq> None} = {''x''}"
    using one_job_per_machine by blast
  moreover have "ag_loop two_homed ''y'' = Giving_Back ''j2''" by code_simp
  ultimately show ?thesis by simp
qed



text \<open>Only a JSON false in the answer of a beacon is a cancellation, and nothing else sets the slot.\<close>

lemma lease_lost_only_by_false:
  "\<not> lease_renewed_in parse body \<longleftrightarrow>
     (\<exists>b kvs. body = Some b \<and> trim b \<noteq> [] \<and> parse b = Some (JObj kvs) \<and> jget ''lease_renewed'' (JObj kvs) = JBool False)"
proof (cases "\<exists>b kvs. body = Some b \<and> trim b \<noteq> [] \<and> parse b = Some (JObj kvs)")
  case True
  then obtain b kvs where b: "body = Some b" "trim b \<noteq> []" "parse b = Some (JObj kvs)" by blast
  then show ?thesis
    by (cases "jget ''lease_renewed'' (JObj kvs)") (simp_all add: lease_renewed_in_def is_plain_object_def del: jget.simps)
next
  case False
  then show ?thesis by (auto simp: lease_renewed_in_def is_plain_object_def split: option.splits js.splits)
qed

lemma silence_cancels_nothing: "agent_reach no_false a \<Longrightarrow> \<not> is_cancelled j (ag_cancelled a)"
  by (simp add: is_cancelled_def reach_uncancelled)

lemma beaconer_stops:
  "fst (beaconer_maybe now answer b s) = False \<longleftrightarrow>
     is_cancelled (be_job b) s \<or> (be_interval b \<le> now - be_last b \<and> answer = Some False)"
  by (auto simp: beaconer_maybe_def Let_def)

section \<open>Declaring and dispatching\<close>

text \<open>
C27: On any machine and for any workload name without a colon, the collector finds the agent capable of
the workload, whatever backend the job names, exactly when the agent's table has a route for it that
declares something there. So it never claims what it cannot dispatch, and never hides what it can run.
\<close>

theorem declared_iff_dispatchable:
  assumes "CHR '':'' \<notin> set w"
  shows "capability_matches (Some (capabilities_from f)) (JStr w) backend \<longleftrightarrow>
     (\<exists>r. route_for w = Some r \<and> rt_declares r f \<noteq> [])"
proof
  assume "capability_matches (Some (capabilities_from f)) (JStr w) backend"
  then consider "w \<in> set (capabilities_from f)"
    | "js_string (JStr w) @ '':'' @ js_string backend \<in> set (capabilities_from f)"
    by (auto simp: capability_matches_def split: if_splits)
  then show "\<exists>r. route_for w = Some r \<and> rt_declares r f \<noteq> []"
    by cases (use capability_base cap_base_plain[OF assms] cap_base_labelled[OF assms] in fastforce)+
next
  assume "\<exists>r. route_for w = Some r \<and> rt_declares r f \<noteq> []"
  then have "w \<in> set (capabilities_from f)"
    using declares_bare by (fastforce simp: route_for_Some capabilities_from_def)
  then show "capability_matches (Some (capabilities_from f)) (JStr w) backend"
    by (simp add: capability_matches_def)
qed

definition bare_machine :: capability_flags where
  "bare_machine = \<lparr>cf_llama_bench = False, cf_mlx = False, cf_gradle = False, cf_xcodebuild = False, cf_node = True,
     cf_converters = [], cf_shell_allowlist = False, cf_llama_server = False\<rparr>"

lemma declared_iff_dispatchable_witness:
  "capability_matches (Some (capabilities_from bare_machine)) (JStr ''build'') (JStr ''gradle'') \<and>
   \<not> capability_matches (Some (capabilities_from bare_machine)) (JStr ''shell'') JUndef"
proof -
  have colon: "CHR '':'' \<notin> set ''build''" "CHR '':'' \<notin> set ''shell''" by simp_all
  show ?thesis
    unfolding declared_iff_dispatchable[OF colon(1)] declared_iff_dispatchable[OF colon(2)]
    by (simp add: route_for_def ROUTES_def bare_machine_def build_kinds_def)
qed

text \<open>A name with a colon is matched as it stands and has no route: it is claimed and bounced.\<close>

lemma labelled_workload_bounced:
  "capability_matches (Some (capabilities_from bare_machine)) (JStr ''build:npm'') JUndef \<and> route_for ''build:npm'' = None"
  by (simp add: capability_matches_def capabilities_from_def ROUTES_def bare_machine_def build_kinds_def route_for_def)

section \<open>The shell workload\<close>

text \<open>
C28: Whatever fails or dies on the way, a shell job fetches nothing and runs nothing unless the sha it
names is a line of the owner's allowlist; what it runs is its own script's command, the same whatever
else the agent's environment holds beside PATH and LANG; and all it uploads has been scrubbed.
\<close>

theorem shell_runs_only_listed:
  assumes "run_shell h job (w, os) = (r, (w', os'))" "untouched w"
    and "map_of env ''PATH'' = map_of (sh_env h) ''PATH''" "map_of env ''LANG'' = map_of (sh_env h) ''LANG''"
  shows "list_all (\<lambda>sha. sha = job_sha job \<and> vouched h sha) (xw_fetched w') \<and>
     list_all (\<lambda>sp. vouched h (job_sha job) \<and> sp = script_command (h\<lparr>sh_env := env\<rparr>) job) (xw_spawned w') \<and>
     list_all (\<lambda>u. \<exists>out. u = redact out (secrets_from_env (sh_env h))) (xw_uploaded w')"
proof -
  have "shell_safe h job w'"
    using io_okD[OF run_shell_rule assms(2,1)] by (simp split: ending.splits)
  moreover have "script_command (h\<lparr>sh_env := env\<rparr>) job = script_command h job"
    by (rule script_command_cong) (simp_all add: assms(3,4))
  ultimately show ?thesis by (simp add: shell_safe_def list_all_iff)
qed

definition one_sha :: string where "one_sha = replicate 64 (CHR ''a'')"

definition listing_host :: shell_host where
  "listing_host = \<lparr>sh_list = Some (one_sha @ '' # nightly''), sh_env = [(''PATH'', ''/bin''), (''FLEET_DASH_TOKEN'', ''hunter22'')],
     sh_dir = ''/tmp/job'', sh_child = (\<lambda>_. \<lparr>co_code = Some 0, co_output = ''token hunter22'', co_timed_out = False,
       co_cancelled = False, co_spawn_error = None\<rparr>), sh_upload_ref = ''u''\<rparr>"

definition listed_job :: shell_job where
  "listed_job = \<lparr>sj_id = ''j'', sj_params = JObj [(''sha256'', JStr one_sha)], sj_model_sha = None\<rparr>"

definition fresh_shell :: shell_world where
  "fresh_shell = \<lparr>xw_fetched = [], xw_spawned = [], xw_uploaded = [], xw_rows = [], xw_dir = False\<rparr>"

lemma shell_runs_only_listed_witness:
  "xw_uploaded (world_after (run_shell listing_host listed_job (fresh_shell, []))) = [''token [redacted]''] \<and>
   list_all (\<lambda>sp. vouched listing_host (job_sha listed_job) \<and>
       sp = script_command (listing_host\<lparr>sh_env := [(''PATH'', ''/bin'')]\<rparr>) listed_job)
     (xw_spawned (world_after (run_shell listing_host listed_job (fresh_shell, []))))"
proof -
  let ?r = "run_shell listing_host listed_job (fresh_shell, [])"
  have "xw_uploaded (world_after ?r) = [''token [redacted]'']" by code_simp
  moreover have "?r = (fst ?r, (world_after ?r, snd (snd ?r)))" by (simp add: world_after_def)
  note shell_runs_only_listed[OF this, of "[(''PATH'', ''/bin'')]"]
  ultimately show ?thesis
    by (simp add: untouched_def fresh_shell_def listing_host_def)
qed

text \<open>
No secret of four characters or more is left in a scrubbed text, whatever the text and the other
secrets are, in any order; the secret has no bracket and is not part of the word of the marker.
\<close>

theorem redaction_complete:
  assumes "s \<in> set ss" "4 \<le> length s" "bracket_free s" "\<not> contains s ''redacted''"
  shows "\<not> contains s (redact out ss)"
proof (rule redact_removes[OF _ assms(2,1)])
  have "s \<noteq> []" using assms(2) by auto
  then show "plain_secret s" using assms(3,4) by (simp add: plain_secret_def)
qed

lemma redaction_complete_witness:
  "redact ''a hunter22hunter2 b'' [''hunter22'', ''hunter2''] = ''a [redacted][redacted] b'' \<and>
   \<not> contains ''hunter2'' (redact ''a hunter22hunter2 b'' [''hunter22'', ''hunter2''])"
proof
  show "redact ''a hunter22hunter2 b'' [''hunter22'', ''hunter2''] = ''a [redacted][redacted] b''" by code_simp
  show "\<not> contains ''hunter2'' (redact ''a hunter22hunter2 b'' [''hunter22'', ''hunter2''])"
    by (rule redaction_complete) (simp_all add: bracket_free_def)
qed

text \<open>Two secrets that overlap in the text: the second is broken up by the first, and its tail stays.\<close>

lemma overlap_leaves_tail: "redact ''abcdefgh'' [''abcdef'', ''efgh''] = ''[redacted]gh''"
  by code_simp

text \<open>
  The command a listed script is run with is the job's own choice: the interpreter and its arguments are
  taken from the spec, so a job naming a listed hash runs any program of this machine with any arguments.
\<close>

lemma interpreter_is_the_jobs:
  "sp_cmd (script_command h \<lparr>sj_id = j, sj_params = JObj [(''interpreter'', JStr cmd), (''args'', JArr (map JStr args))], sj_model_sha = m\<rparr>) = cmd \<and>
   sp_args (script_command h \<lparr>sj_id = j, sj_params = JObj [(''interpreter'', JStr cmd), (''args'', JArr (map JStr args))], sj_model_sha = m\<rparr>) =
     (sh_dir h @ ''/script'') # args"
  by (induction args) (simp_all add: script_command_def string_param_def List.map_filter_def str_of_def)

text \<open>A job-supplied variable whose name is a credential's is passed on, not dropped.\<close>

lemma credential_name_passed_on:
  "map_of (minimal_env ''/d'' ''j'' (JObj [(''env'', JObj [(''FLEET_DASH_TOKEN'', JStr ''v'')])]) []) ''FLEET_DASH_TOKEN'' = Some ''v''"
  by code_simp

section \<open>Logs and names\<close>

text \<open>One poll of the tail after the other, each on the file as it is then.\<close>

definition polls :: "string list \<Rightarrow> string list \<times> log_tail" where
  "polls files = foldl (\<lambda>(out, t) file. read_chunks file t out) ([], \<lparr>lt_offset = 0, lt_rest = []\<rparr>) files"

text \<open>
However a log grows between the polls of its tail, and wherever its 64 KiB reads cut it, the polls
together give exactly the whole lines of the text so far, each once and in order, and closing the tail
adds the unfinished last line unless it is blank.
\<close>

theorem log_followed:
  assumes "successively prefix files" "files \<noteq> []"
  shows "fst (polls files) = butlast (text_lines (last files)) \<and>
     close_tail (last files) (snd (polls files)) =
       (if trim (last (text_lines (last files))) = [] then [] else [last (text_lines (last files))])"
proof -
  have "polls files = (fst (split_lines [] (last files)), \<lparr>lt_offset = length (last files), lt_rest = snd (split_lines [] (last files))\<rparr>)"
    using assms
  proof (induction files rule: rev_induct)
    case (snoc f fs)
    have "tail_at f (polls fs)"
    proof (cases "fs = []")
      case False
      then have "tail_at (last fs) (polls fs)" "prefix (last fs) f"
        using snoc by (auto simp: successively_append_iff tail_at_def)
      then show ?thesis by (rule tail_grows)
    qed (simp add: polls_def tail_starts)
    then have "read_chunks f (snd (polls fs)) (fst (polls fs)) =
        (fst (split_lines [] f), \<lparr>lt_offset = length f, lt_rest = snd (split_lines [] f)\<rparr>)"
      by (intro read_chunks_tail) simp
    then show ?case by (simp add: polls_def split_beta)
  qed simp
  then show ?thesis by (simp add: split_lines_def Let_def close_tail_def read_chunks.simps)
qed

lemma log_followed_witness:
  "fst (polls [''one'', ''one'' @ [CHR 0x0D], ''one'' @ [CHR 0x0D, CHR 0x0A] @ ''two'']) = [''one'']"
proof -
  have "successively prefix [''one'', ''one'' @ [CHR 0x0D], ''one'' @ [CHR 0x0D, CHR 0x0A] @ ''two'']" by simp
  note log_followed[OF this]
  moreover have "text_lines (last [''one'', ''one'' @ [CHR 0x0D], ''one'' @ [CHR 0x0D, CHR 0x0A] @ ''two'']) = [''one'', ''two'']"
    by code_simp
  ultimately show ?thesis by simp
qed

text \<open>The files of a prepared dataset sort as they are numbered, and no two share a name.\<close>

lemma output_names_sort:
  "i < j \<Longrightarrow> j < count \<Longrightarrow> (output_name i count, output_name j count) \<in> lexord {(a, b). code a < code b}"
  by (rule output_name_order)

text \<open>A recipe's file is in the directory: its name has no separator and does not begin with a dot.\<close>

lemma recipe_stays_inside:
  assumes "recipe_path name dir = Inr p"
  shows "\<exists>n. p = dir @ ''/'' @ n @ ''.mjs'' \<and> CHR ''/'' \<notin> set n \<and> CHR 0x5C \<notin> set n \<and> hd n \<noteq> CHR ''.''"
proof -
  obtain n where n: "name = JStr n" "is_recipe_name n" "p = dir @ ''/'' @ n @ ''.mjs''"
    using assms by (auto simp: recipe_path_def split: js.splits if_splits)
  have ok: "recipe_char c" if "c \<in> set n" for c
    using n(2) that by (cases n) (auto simp: is_recipe_name_def recipe_char_def list_all_iff)
  have "\<not> recipe_char (CHR ''/'')" "\<not> recipe_char (CHR 0x5C)" "\<not> recipe_start (CHR ''.'')" by code_simp+
  then show ?thesis using n ok by (auto simp: is_recipe_name_def)
qed

lemma license_is_kept: "effective_license r j = Inr l \<Longrightarrow> rp_license r = Some l' \<Longrightarrow> trim l' \<noteq> [] \<Longrightarrow> l = l'"
  by (auto simp: effective_license_def Let_def split: if_splits)

section \<open>The clock\<close>

text \<open>
If the server's clock is ahead of this machine's by some skew, the offset the agent computes is wrong
by at most half the round trip it measured, whatever the delays on the way there and back and however
long the server held the packet.
\<close>

theorem ntp_error_bound:
  fixes skew d1 d2 p t1 :: rat
  assumes "0 \<le> d1" "0 \<le> d2"
  shows "\<bar>offset_ms \<lparr>ntp_t1 = t1, ntp_t2 = t1 + skew + d1, ntp_t3 = t1 + skew + d1 + p, ntp_t4 = t1 + d1 + p + d2\<rparr> - skew\<bar>
     \<le> round_trip_ms \<lparr>ntp_t1 = t1, ntp_t2 = t1 + skew + d1, ntp_t3 = t1 + skew + d1 + p, ntp_t4 = t1 + d1 + p + d2\<rparr> / 2"
  unfolding ntp_offset unfolding round_trip_ms_def using assms by (simp add: abs_le_iff field_simps)

lemma ntp_error_bound_witness:
  "\<bar>offset_ms \<lparr>ntp_t1 = 1000, ntp_t2 = 1000 + 250 + 10, ntp_t3 = 1000 + 250 + 10 + 1, ntp_t4 = 1000 + 10 + 1 + 30\<rparr> - 250\<bar> \<le> 20"
  using ntp_error_bound[of 10 30 1000 250 1] by (simp add: round_trip_ms_def)

text \<open>
  The seconds are thirty-two bits and wrap in February 2036: the first second of the new era is read as
  the year 1900.
\<close>

lemma era_wraps: "read_ntp_timestamp [0, 0, 0, 1, 0, 0, 0, 0] 0 = Some (- 2208988799000)"
  by (simp add: read_ntp_timestamp_def read_uint32_be_def NTP_EPOCH_OFFSET_S_def)

section \<open>Scores\<close>

text \<open>
An llm-eval that answers has a completion for every prompt; its score is the share of the items with
a deterministic answer that passed, its judged score the share of the judge's verdicts that are a pass,
neither touches the other's items, and all three numbers are percentages.
\<close>

theorem scores_are_not_blended:
  assumes "llm_eval parse regex endpoint judge cancelled raw_set raw_completions = Inr res"
  shows "\<exists>items cs judged. parse_eval_set raw_set = Inr items \<and> parse_completions raw_completions = Inr cs \<and>
     set (map ei_id items) \<subseteq> set (map fst cs) \<and>
     judge_items judge cancelled (\<lambda>i. the (map_of cs (ei_id i))) (filter is_judge items) = Inr judged \<and>
     er_score_pct res = ss_score_pct (summarise
       (map (\<lambda>i. score_item parse regex i (the (map_of cs (ei_id i)))) (filter (\<lambda>i. \<not> is_judge i) items)) []) \<and>
     er_judge_score_pct res = ss_score_pct (summarise judged []) \<and>
     (case er_score_pct res of None \<Rightarrow> True | Some p \<Rightarrow> 0 \<le> p \<and> p \<le> 100) \<and> 0 \<le> er_refusal_pct res \<and> er_refusal_pct res \<le> 100"
proof -
  from assms obtain items cs where io: "parse_eval_set raw_set = Inr items" "parse_completions raw_completions = Inr cs"
    by (auto simp: llm_eval_def split: sum.splits)
  define answer where "answer (i :: eval_item) = (case map_of cs (ei_id i) of Some t \<Rightarrow> t | None \<Rightarrow> [])" for i
  from assms io have covered: "\<And>i. i \<in> set items \<Longrightarrow> map_of cs (ei_id i) \<noteq> None"
    by (auto simp: llm_eval_def Let_def filter_empty_conv split: if_splits)
  from assms io covered obtain judged where j: "judge_items judge cancelled answer (filter is_judge items) = Inr judged"
    and s: "er_score_pct res = ss_score_pct (summarise (map (\<lambda>i. score_item parse regex i (answer i)) items) (map answer items))"
      "er_judge_score_pct res = ss_score_pct (summarise judged [])"
      "er_refusal_pct res = ss_refusal_pct (summarise (map (\<lambda>i. score_item parse regex i (answer i)) items) (map answer items))"
    unfolding answer_def
    by (auto simp: llm_eval_def Let_def summarise_def split: if_splits sum.splits)
  have the: "i \<in> set items \<Longrightarrow> the (map_of cs (ei_id i)) = answer i" for i
    using covered[of i] by (auto simp: answer_def)
  have "map (\<lambda>i. score_item parse regex i (the (map_of cs (ei_id i)))) (filter (\<lambda>i. \<not> is_judge i) items) =
      map (\<lambda>i. score_item parse regex i (answer i)) (filter (\<lambda>i. \<not> is_judge i) items)"
    by (simp add: the)
  then have "er_score_pct res = ss_score_pct (summarise
      (map (\<lambda>i. score_item parse regex i (the (map_of cs (ei_id i)))) (filter (\<lambda>i. \<not> is_judge i) items)) [])"
    unfolding s(1) by (simp only:) (rule summarise_skips_judge[symmetric])
  moreover have "judge_items judge cancelled (\<lambda>i. the (map_of cs (ei_id i))) (filter is_judge items) = Inr judged"
    unfolding j[symmetric] by (rule judge_items_cong) (simp add: the)
  moreover have "set (map ei_id items) \<subseteq> set (map fst cs)"
    using covered by (fastforce simp: map_of_eq_None_iff)
  moreover have "case er_score_pct res of None \<Rightarrow> True | Some p \<Rightarrow> 0 \<le> p \<and> p \<le> 100"
    unfolding s(1) by (rule summarise_score_bounds)
  moreover have "0 \<le> er_refusal_pct res \<and> er_refusal_pct res \<le> 100"
    unfolding s(3) by (rule summarise_bounds(2))
  ultimately show ?thesis using io s(2) by blast
qed

definition two_items :: js where
  "two_items = JArr
     [JObj [(''id'', JStr ''a''), (''prompt'', JStr ''2+2''), (''score'', JObj [(''kind'', JStr ''exact''), (''expect'', JStr ''4'')])],
      JObj [(''id'', JStr ''b''), (''prompt'', JStr ''why''), (''score'', JObj [(''kind'', JStr ''judge''), (''rubric'', JStr ''clear'')])]]"

definition two_answers :: js where
  "two_answers = JObj [(''a'', JStr '' 4 ''), (''b'', JStr ''because'')]"

lemma scores_are_not_blended_witness:
  "\<exists>res items. llm_eval (\<lambda>_. None) (\<lambda>_ _ _. None) (Some ''http://judge'') (\<lambda>_ _. Some ''FAIL: vague'') (\<lambda>_. False)
       two_items two_answers = Inr res \<and>
     parse_eval_set two_items = Inr items \<and> map is_judge items = [False, True] \<and>
     er_score_pct res = Some 100 \<and> er_judge_score_pct res = Some 0 \<and> er_refusal_pct res \<le> 100"
proof -
  let ?run = "llm_eval (\<lambda>_. None) (\<lambda>_ _ _. None) (Some ''http://judge'') (\<lambda>_ _. Some ''FAIL: vague'') (\<lambda>_. False)
    two_items two_answers"
  have "case ?run of Inr r \<Rightarrow> er_score_pct r = Some 100 \<and> er_judge_score_pct r = Some 0 | Inl _ \<Rightarrow> False" by code_simp
  then obtain res where res: "?run = Inr res" "er_score_pct res = Some 100" "er_judge_score_pct res = Some 0"
    by (auto split: sum.splits)
  have "case parse_eval_set two_items of Inr is \<Rightarrow> map is_judge is = [False, True] | Inl _ \<Rightarrow> False" by code_simp
  then obtain items where "parse_eval_set two_items = Inr items" "map is_judge items = [False, True]"
    by (auto split: sum.splits)
  moreover have "er_refusal_pct res \<le> 100" using scores_are_not_blended[OF res(1)] by blast
  ultimately show ?thesis using res by (intro exI[of _ res] exI[of _ items] conjI)
qed

section \<open>Runs in which something goes wrong\<close>

text \<open>
  A stop while a poll is on the wire: the collector has granted a job, the answer arrives at a stopped
  agent, and the loop ends with the claim still open. Nothing gives it back, and the lease has to expire.
\<close>

lemma stop_abandons_claim:
  "map_option (\<lambda>a. (ag_loop a ''x'', ag_claims a))
     (agent_run [Enter ''x'', Ask ''x'', Granted ''x'' ''j'', Stop_Agent, Arrived ''x'', Ask ''x''] (started_agent True {''x''})) =
   Some (Ended, {(''x'', ''j'')})"
  by code_simp

text \<open>
  A beacon sent while a job ran and answered false after the job was over and the slot cleared: the slot
  is set again, and when the same job comes back it is cancelled before its first line.
\<close>

lemma late_false_cancels_retry:
  "map_option (\<lambda>a. (ag_loop a ''x'', is_cancelled ''j'' (ag_cancelled a)))
     (agent_run [Enter ''x'', Ask ''x'', Granted ''x'' ''j'', Arrived ''x'', Checked ''x'' None, Beacon_Sent ''x'', Worked ''x'' True True,
        Beacon_Answered ''x'' (Some False), Ask ''x'', Granted ''x'' ''j'', Arrived ''x'', Checked ''x'' None] (started_agent True {''x''})) =
   Some (Working ''j'', True)"
  by code_simp

text \<open>
  A fetch that fails on a clone that is there is not noticed: the branch resolves to what the clone knew,
  and the build is of a commit the remote has left behind.
\<close>

definition moved_on :: git_world where
  "moved_on = \<lparr>gw_remote = [''main'' \<mapsto> ''new''], gw_clone = Some [''main'' \<mapsto> ''old''], gw_local = Map.empty, gw_head = None,
     gw_clean = False\<rparr>"

lemma failed_fetch_builds_stale: "fst (prepare_checkout ''main'' (moved_on, [Fails])) = Returned ''old''"
  by code_simp

text \<open>An Xcode that is found and cannot tell its version is skipped, never failed.\<close>

lemma broken_xcode_is_skipped: "ck_ok (xcodebuild_check (Some p) None) = None"
  by (simp add: xcodebuild_check_def skipped_def)

text \<open>Two items of one id are accepted, and a pattern that is no regular expression counts as judged.\<close>

lemma duplicate_ids_accepted:
  "\<exists>items. parse_eval_set (case two_items of JArr (e # _) \<Rightarrow> JArr [e, e] | v \<Rightarrow> v) = Inr items \<and> \<not> distinct (map ei_id items)"
proof -
  have "case parse_eval_set (case two_items of JArr (e # _) \<Rightarrow> JArr [e, e] | v \<Rightarrow> v) of
      Inr is \<Rightarrow> \<not> distinct (map ei_id is) | Inl _ \<Rightarrow> False" by code_simp
  then show ?thesis by (auto split: sum.splits)
qed

lemma bad_pattern_counts_as_judged:
  "ss_judged_items (summarise [score_item parse (\<lambda>_ _ _. None) \<lparr>ei_id = ''a'', ei_prompt = ''p'', ei_score = Regex ''('' None\<rparr> t] cs) = 1"
  by (simp add: summarise_def score_item_def score_ok_def Let_def)

lemma inherited_key_is_present: "has_key (JObj []) ''constructor''"
  by (simp add: has_key_def INHERITED_def)

end
