(* ===== verification/A11y_Tree.thy ===== *)
theory A11y_Tree
  imports Text_Pattern Js_Value
begin

text \<open>
  Reading an accessibility tree out of what a platform prints, and judging it
  (\<open>collector/src/a11y-tree.ts\<close>): the uiautomator dump, Maestro's hierarchy, XCUITest's description, and
  the two checks. \<open>JSON.parse\<close> is an argument (\<open>None\<close> where it throws); a frame whose numbers do not
  read is taken as absent, and a problem keeps its kind, not the line of output it quotes.
\<close>

section \<open>Nodes\<close>

record rect =
  rc_x :: rat
  rc_y :: rat
  rc_w :: rat
  rc_h :: rat

record a11y_node =
  an_cls :: string
  an_text :: string
  an_label :: string
  an_id :: string
  an_value :: string
  an_tappable :: bool
  an_enabled :: bool
  an_bounds :: "rect option"
  an_depth :: nat
  an_focused :: bool
  an_scrollable :: bool
  an_checked :: bool

datatype geometry = Points | Pixels jsnum | Unknown_Unit

text \<open>What follows the last occurrence of a character: \<open>s.split(c).pop()\<close>.\<close>

definition after_last :: "char \<Rightarrow> string \<Rightarrow> string" where
  "after_last c s = last (split_on c s)"

definition no_returns :: "string \<Rightarrow> string" where
  "no_returns s = filter (\<lambda>c. c \<noteq> CHR 0x0D) s"

section \<open>\<open>uiautomator dump\<close>\<close>

definition attr_char :: "char \<Rightarrow> bool" where
  "attr_char c \<longleftrightarrow> word_char c \<or> c = CHR '':'' \<or> c = CHR ''-''"

text \<open>\<open>/([\w:-]+)="([^"]*)"/g\<close>, every match in order.\<close>

function attrs :: "string \<Rightarrow> (string \<times> string) list" where
  "attrs s =
     (let s1 = dropWhile (\<lambda>c. \<not> attr_char c) s; n = takeWhile attr_char s1; r = dropWhile attr_char s1 in
      if n = [] then []
      else if take 2 r = ''=\"'' \<and> CHR 0x22 \<in> set (drop 2 r)
      then (n, takeWhile (\<lambda>c. c \<noteq> CHR 0x22) (drop 2 r)) # attrs (tl (dropWhile (\<lambda>c. c \<noteq> CHR 0x22) (drop 2 r)))
      else attrs r)"
  by pat_completeness auto

lemma length_dropWhile_less: "takeWhile P s \<noteq> [] \<Longrightarrow> length (dropWhile P s) < length s"
  by (metis length_append length_greater_0_conv less_add_same_cancel2 takeWhile_dropWhile_id)

lemma length_tl_dropWhile: "length (tl (dropWhile P s)) \<le> length s"
  using length_dropWhile_le[of P s] by (simp only: length_tl)

termination attrs
proof (relation "measure length", simp)
  fix s s1 n r :: string
  assume d: "s1 = dropWhile (\<lambda>c. \<not> attr_char c) s" "n = takeWhile attr_char s1" "r = dropWhile attr_char s1" "n \<noteq> []"
  then have "length r < length s1" "length s1 \<le> length s"
    using length_dropWhile_less[of attr_char s1] by (auto simp: length_dropWhile_le)
  then have r: "length r < length s" by simp
  then show "(r, s) \<in> measure length" by simp
  have "length (tl (dropWhile (\<lambda>c. c \<noteq> CHR 0x22) (drop 2 r))) \<le> length (drop 2 r)"
    by (rule length_tl_dropWhile)
  then show "(tl (dropWhile (\<lambda>c. c \<noteq> CHR 0x22) (drop 2 r)), s) \<in> measure length" using r by simp
qed

declare attrs.simps [simp del]

text \<open>A repeated name keeps its last value.\<close>

definition attr :: "(string \<times> string) list \<Rightarrow> string \<Rightarrow> string" where
  "attr kvs k = (case map_of (rev kvs) k of None \<Rightarrow> [] | Some v \<Rightarrow> v)"

definition unescape_xml :: "string \<Rightarrow> string" where
  "unescape_xml s =
     replace_all ''&amp;'' ''&'' (replace_all ''&gt;'' ''>'' (replace_all ''&lt;'' ''<''
       (replace_all ''&apos;'' [CHR 0x27] (replace_all ''&quot;'' [CHR 0x22] s))))"

text \<open>\<open>-?\d+\<close> and what follows it.\<close>

definition int_prefix :: "string \<Rightarrow> (int \<times> string) option" where
  "int_prefix s =
     (let neg = starts_with ''-'' s; r = (if neg then tl s else s); ds = takeWhile is_digit r
      in if ds = [] then None
         else Some ((if neg then - int (digits_val ds) else int (digits_val ds)), dropWhile is_digit r))"

definition pair_in_brackets :: "string \<Rightarrow> ((int \<times> int) \<times> string) option" where
  "pair_in_brackets s =
     (if \<not> starts_with ''['' s then None
      else case int_prefix (tl s) of
        None \<Rightarrow> None
      | Some (x, r) \<Rightarrow>
          if \<not> starts_with '','' r then None
          else case int_prefix (tl r) of
            None \<Rightarrow> None
          | Some (y, r') \<Rightarrow> if starts_with '']'' r' then Some ((x, y), tl r') else None)"

definition rect_at :: "string \<Rightarrow> rect option" where
  "rect_at s =
     (case pair_in_brackets s of
        None \<Rightarrow> None
      | Some ((x1, y1), r) \<Rightarrow>
          (case pair_in_brackets r of
             None \<Rightarrow> None
           | Some ((x2, y2), _) \<Rightarrow>
               Some \<lparr>rc_x = of_int x1, rc_y = of_int y1, rc_w = of_int (x2 - x1), rc_h = of_int (y2 - y1)\<rparr>))"

fun parse_bounds_rect :: "string \<Rightarrow> rect option" where
  "parse_bounds_rect [] = None"
| "parse_bounds_rect (c # s) = (case rect_at (c # s) of Some r \<Rightarrow> Some r | None \<Rightarrow> parse_bounds_rect s)"

datatype dump_tag = Opens string bool | Closes

text \<open>\<open>/<node\b([^>]*?)(\/?)>|<\/node>/g\<close>\<close>

function dump_tags :: "string \<Rightarrow> dump_tag list" where
  "dump_tags [] = []"
| "dump_tags (c # s) =
     (let r = drop 4 s; body = takeWhile (\<lambda>x. x \<noteq> CHR ''>'') r in
      if starts_with ''</node>'' (c # s) then Closes # dump_tags (drop 6 s)
      else if starts_with ''<node'' (c # s) \<and> CHR ''>'' \<in> set r \<and> \<not> word_char (hd r)
      then (if body \<noteq> [] \<and> last body = CHR ''/'' then Opens (butlast body) True else Opens body False)
        # dump_tags (tl (dropWhile (\<lambda>x. x \<noteq> CHR ''>'') r))
      else dump_tags s)"
  by pat_completeness auto
termination
proof (relation "measure length")
  fix c :: char and s r :: string
  assume r: "r = drop 4 s"
  show "(tl (dropWhile (\<lambda>x. x \<noteq> CHR ''>'') r), c # s) \<in> measure length"
    using length_tl_dropWhile[of "\<lambda>x. x \<noteq> CHR ''>''" r] unfolding r by simp
qed simp_all

definition dump_node :: "string \<Rightarrow> nat \<Rightarrow> a11y_node" where
  "dump_node tag depth =
     (let a = attr (attrs tag) in
      \<lparr>an_cls = a ''class'', an_text = unescape_xml (a ''text''), an_label = unescape_xml (a ''content-desc''),
       an_id = a ''resource-id'', an_value = [],
       an_tappable = (a ''clickable'' = ''true'' \<or> a ''checkable'' = ''true''), an_enabled = (a ''enabled'' \<noteq> ''false''),
       an_bounds = parse_bounds_rect (a ''bounds''), an_depth = depth, an_focused = (a ''focused'' = ''true''),
       an_scrollable = (a ''scrollable'' = ''true''), an_checked = (a ''checked'' = ''true'')\<rparr>)"

fun dump_nodes :: "dump_tag list \<Rightarrow> nat \<Rightarrow> a11y_node list" where
  "dump_nodes [] depth = []"
| "dump_nodes (Closes # ts) depth = dump_nodes ts (depth - 1)"
| "dump_nodes (Opens tag leaf # ts) depth = dump_node tag depth # dump_nodes ts (if leaf then depth else depth + 1)"

datatype tree_problem = Nothing_Printed | No_Tree | Not_Json | No_Elements

definition parse_uiautomator_dump :: "string \<Rightarrow> a11y_node list \<times> tree_problem option" where
  "parse_uiautomator_dump xml =
     (let t = no_returns xml in
      if trim t = [] then ([], Some Nothing_Printed)
      else if \<not> found (Then (word ''<hierarchy'') Edge) t then ([], Some No_Tree)
      else let ns = dump_nodes (dump_tags t) 0 in (ns, if ns = [] then Some No_Elements else None))"

section \<open>Maestro's hierarchy\<close>

definition TAPPABLE_IOS :: "string list" where
  "TAPPABLE_IOS =
     [''button'', ''cell'', ''link'', ''menuitem'', ''tab'', ''tabbar'', ''switch'', ''toggle'', ''slider'', ''stepper'',
      ''segmentedcontrol'', ''textfield'', ''securetextfield'', ''searchfield'', ''textview'', ''checkbox'', ''radiobutton'',
      ''popupbutton'', ''datepicker'', ''picker'', ''pickerwheel'', ''icon'', ''image'']"

definition strip_xcui :: "string \<Rightarrow> string" where
  "strip_xcui t = (if starts_with ''XCUIElementType'' t then drop 15 t else t)"

definition is_tappable_type :: "string \<Rightarrow> bool" where
  "is_tappable_type t \<longleftrightarrow> lower (strip_xcui t) \<in> set TAPPABLE_IOS"

definition attr_str :: "js \<Rightarrow> string \<Rightarrow> string" where
  "attr_str a k = (let v = jget k a in if nullish v then [] else js_string v)"

fun first_text :: "string list \<Rightarrow> string" where
  "first_text [] = []"
| "first_text (s # ss) = (if s \<noteq> [] then s else first_text ss)"

definition rect_from_numbers :: "js \<Rightarrow> rect option" where
  "rect_from_numbers a =
     (case (js_number (jget ''x'' a), js_number (jget ''y'' a), js_number (jget ''width'' a), js_number (jget ''height'' a)) of
        (Fin x, Fin y, Fin w, Fin h) \<Rightarrow> Some \<lparr>rc_x = x, rc_y = y, rc_w = w, rc_h = h\<rparr>
      | _ \<Rightarrow> None)"

definition maestro_node :: "js \<Rightarrow> nat \<Rightarrow> a11y_node" where
  "maestro_node a depth =
     (let str = attr_str a in
      \<lparr>an_cls = first_text [str ''class'', str ''elementType''], an_text = str ''text'',
       an_label = first_text [str ''accessibilityText'', str ''label'', str ''title''],
       an_id = first_text [str ''resource-id'', str ''resourceId'', str ''accessibilityIdentifier''], an_value = str ''value'',
       an_tappable = (str ''clickable'' = ''true'' \<or> str ''checkable'' = ''true'' \<or>
         is_tappable_type (first_text [str ''elementType'', str ''class''])),
       an_enabled = (str ''enabled'' \<noteq> ''false''), an_bounds = coalesce (parse_bounds_rect (str ''bounds'')) (rect_from_numbers a),
       an_depth = depth, an_focused = False, an_scrollable = False, an_checked = False\<rparr>)"

definition has_keys :: "js \<Rightarrow> bool" where
  "has_keys v \<longleftrightarrow> (case v of JObj kvs \<Rightarrow> kvs \<noteq> [] | JArr xs \<Rightarrow> xs \<noteq> [] | JStr s \<Rightarrow> s \<noteq> [] | _ \<Rightarrow> False)"

text \<open>\<open>walk\<close>; \<open>None\<close> where it throws: a null element, or children that cannot be iterated.\<close>

fun children_of :: "js \<Rightarrow> js list option" where
  "children_of v =
     (case jget ''children'' v of
        JUndef \<Rightarrow> Some [] | JNull \<Rightarrow> Some [] | JArr cs \<Rightarrow> Some cs | JStr s \<Rightarrow> Some (map (\<lambda>c. JStr [c]) s) | _ \<Rightarrow> None)"

lemma map_of_size: "map_of kvs k = Some v \<Longrightarrow> size v < Suc (size_list (size_prod (\<lambda>_. 0) size) kvs)"
  by (induction kvs) (auto split: if_splits)

lemma children_smaller: "children_of v = Some cs \<Longrightarrow> c \<in> set cs \<Longrightarrow> size c < size v \<or> (\<exists>x. c = JStr x)"
proof -
  assume cs: "children_of v = Some cs" and c: "c \<in> set cs"
  show ?thesis
  proof (cases v)
    case (JObj kvs)
    show ?thesis
    proof (cases "map_of kvs ''children''")
      case (Some w)
      then have "size w < size v" using map_of_size[OF Some] JObj by simp
      moreover have "size c < size w" if "w = JArr cs" using c that by (simp add: size_list_estimation less_Suc_eq_le size_list_estimation')
      ultimately show ?thesis using cs c JObj Some by (cases w) auto
    qed (use cs c JObj in simp)
  qed (use cs c in simp_all)
qed

fun concat_opt :: "'a list option list \<Rightarrow> 'a list option" where
  "concat_opt [] = Some []"
| "concat_opt (x # xs) = (case x of None \<Rightarrow> None | Some a \<Rightarrow> map_option ((@) a) (concat_opt xs))"

function maestro_walk :: "js \<Rightarrow> nat \<Rightarrow> a11y_node list option" where
  "maestro_walk n depth =
     (if nullish n then None
      else
        let a = jor (jget ''attributes'' n) (JObj []); own = (if has_keys a then [maestro_node a depth] else []) in
        case children_of n of
          None \<Rightarrow> None
        | Some cs \<Rightarrow> map_option ((@) own) (concat_opt (map (\<lambda>c. if is_str c then Some [] else maestro_walk c (depth + 1)) cs)))"
  by pat_completeness auto
termination
proof (relation "measure (\<lambda>(n, d). size n)", simp)
  fix n depth a own cs c
  assume c: "children_of n = Some cs" "c \<in> set cs" "\<not> is_str c"
  have "\<nexists>x. c = JStr x" using c(3) by (cases c) (simp_all add: is_str_def)
  then have "size c < size n" using children_smaller[OF c(1,2)] by blast
  then show "((c, depth + 1), n, depth) \<in> measure (\<lambda>(n, d). size n)" by simp
qed

declare maestro_walk.simps [simp del]

definition parse_maestro_hierarchy :: "(string \<Rightarrow> js option) \<Rightarrow> string \<Rightarrow> (a11y_node list \<times> tree_problem option) option" where
  "parse_maestro_hierarchy parse out =
     (let t = no_returns out in
      if CHR ''{'' \<notin> set t then Some ([], Some (if trim t = [] then Nothing_Printed else No_Tree))
      else case parse (dropWhile (\<lambda>c. c \<noteq> CHR ''{'') t) of
        None \<Rightarrow> Some ([], Some Not_Json)
      | Some js_tree \<Rightarrow> map_option (\<lambda>ns. (ns, if ns = [] then Some No_Elements else None)) (maestro_walk js_tree 0))"

section \<open>XCUITest's description\<close>

text \<open>\<open>-?[\d.]+\<close> and what follows it.\<close>

definition float_prefix :: "string \<Rightarrow> (jsnum \<times> string) option" where
  "float_prefix s =
     (let neg = starts_with ''-'' s; r = (if neg then tl s else s); ds = takeWhile (\<lambda>c. is_digit c \<or> c = CHR ''.'') r
      in if ds = [] then None
         else Some (str_number ((if neg then ''-'' else []) @ ds), dropWhile (\<lambda>c. is_digit c \<or> c = CHR ''.'') r))"

definition skip_space :: "string \<Rightarrow> string" where
  "skip_space s = dropWhile is_space s"

definition after_text :: "string \<Rightarrow> string \<Rightarrow> string option" where
  "after_text p s = (if starts_with p s then Some (drop (length p) s) else None)"

definition float_pair :: "string \<Rightarrow> ((jsnum \<times> jsnum) \<times> string) option" where
  "float_pair s =
     Option.bind (after_text ''{'' s) (\<lambda>r.
     Option.bind (float_prefix (skip_space r)) (\<lambda>(x, r).
     Option.bind (after_text '','' r) (\<lambda>r.
     Option.bind (float_prefix (skip_space r)) (\<lambda>(y, r).
     Option.bind (after_text ''}'' (skip_space r)) (\<lambda>r. Some ((x, y), r))))))"

definition frame_at :: "string \<Rightarrow> rect option" where
  "frame_at s =
     Option.bind (after_text ''{'' s) (\<lambda>r.
     Option.bind (float_pair r) (\<lambda>((x, y), r).
     Option.bind (after_text '','' r) (\<lambda>r.
     Option.bind (float_pair (skip_space r)) (\<lambda>((w, h), r).
     Option.bind (after_text ''}'' r) (\<lambda>_.
       case (x, y, w, h) of
         (Fin x', Fin y', Fin w', Fin h') \<Rightarrow> Some \<lparr>rc_x = x', rc_y = y', rc_w = w', rc_h = h'\<rparr>
       | _ \<Rightarrow> None)))))"

fun find_frame :: "string \<Rightarrow> rect option" where
  "find_frame [] = None"
| "find_frame (c # s) = (case frame_at (c # s) of Some r \<Rightarrow> Some r | None \<Rightarrow> find_frame s)"

text \<open>\<open>'((?:[^'\\]|\\.)*)'\<close>: the text up to the closing quote, \<open>None\<close> without one.\<close>

fun quoted_body :: "string \<Rightarrow> string option" where
  "quoted_body [] = None"
| "quoted_body (c # s) =
     (if c = CHR 0x27 then Some []
      else if c = CHR 0x5C then (case s of [] \<Rightarrow> None | d # t \<Rightarrow> map_option (\<lambda>r. c # d # r) (quoted_body t))
      else map_option ((#) c) (quoted_body s))"

fun quoted_from :: "string \<Rightarrow> bool \<Rightarrow> string \<Rightarrow> string" where
  "quoted_from key inside [] = []"
| "quoted_from key inside (c # s) =
     (case (if inside then None
            else Option.bind (after_text (key @ '':'') (c # s)) (\<lambda>r.
                 Option.bind (after_text [CHR 0x27] (skip_space r)) quoted_body)) of
        Some b \<Rightarrow> replace_all [CHR 0x5C, CHR 0x27] [CHR 0x27] b
      | None \<Rightarrow> quoted_from key (word_char c) s)"

definition quoted_field :: "string \<Rightarrow> string \<Rightarrow> string" where
  "quoted_field key rest = quoted_from key False rest"

text \<open>One line: the indentation, the type, what stands after the address. The arrow counts as a space.\<close>

definition hex_char :: "char \<Rightarrow> bool" where
  "hex_char c \<longleftrightarrow> is_digit c \<or> c \<in> set ''abcdef''"

definition ARROW :: char where "ARROW = CHR 0x92"

definition xcui_line :: "string \<Rightarrow> (nat \<times> string \<times> string) option" where
  "xcui_line raw =
     (let line = map (\<lambda>c. if c = ARROW then CHR '' '' else c) raw;
          r0 = skip_space line; cls = takeWhile is_alpha r0; r1 = dropWhile is_alpha r0; r2 = skip_space r1;
          r3 = (if r2 \<noteq> r1 \<and> starts_with ''('' r2 \<and> CHR '')'' \<in> set r2 then tl (dropWhile (\<lambda>c. c \<noteq> CHR '')'') r2) else r1)
      in if cls = [] \<or> \<not> is_upper (hd cls) then None
         else Option.bind (after_text '','' r3) (\<lambda>r4.
              Option.bind (after_text ''0x'' (skip_space r4)) (\<lambda>r5.
                if takeWhile hex_char r5 = [] then None
                else Option.bind (after_text '','' (dropWhile hex_char r5)) (\<lambda>r6.
                  Some (length line - length r0, cls, skip_space r6)))))"

definition suffix_flag :: "string \<Rightarrow> string \<Rightarrow> bool" where
  "suffix_flag w rest = found (in_order [word '','', Many (Chr is_space), word w, Edge]) rest"

definition xcui_node :: "string \<Rightarrow> string \<Rightarrow> nat \<Rightarrow> a11y_node" where
  "xcui_node cls rest depth =
     \<lparr>an_cls = cls, an_text = quoted_field ''value'' rest, an_label = quoted_field ''label'' rest,
      an_id = quoted_field ''identifier'' rest, an_value = quoted_field ''value'' rest, an_tappable = is_tappable_type cls,
      an_enabled = (\<not> suffix_flag ''Disabled'' rest), an_bounds = find_frame rest, an_depth = depth,
      an_focused = suffix_flag ''Focused'' rest, an_scrollable = False, an_checked = False\<rparr>"

text \<open>The open indentations, innermost first; a line closes those that are not smaller than its own.\<close>

fun xcui_nodes :: "string list \<Rightarrow> nat list \<Rightarrow> a11y_node list" where
  "xcui_nodes [] indents = []"
| "xcui_nodes (l # ls) indents =
     (case xcui_line l of
        None \<Rightarrow> xcui_nodes ls indents
      | Some (indent, cls, rest) \<Rightarrow>
          let outer = dropWhile (\<lambda>i. indent \<le> i) indents
          in xcui_node cls rest (length outer) # xcui_nodes ls (indent # outer))"

definition parse_xcui_debug_description :: "string \<Rightarrow> a11y_node list \<times> tree_problem option" where
  "parse_xcui_debug_description out =
     (let t = no_returns out in
      if trim t = [] then ([], Some Nothing_Printed)
      else let ns = xcui_nodes (split_on (CHR 0x0A) t) [] in (ns, if ns = [] then Some No_Elements else None))"

section \<open>The checks\<close>

definition announces :: "a11y_node \<Rightarrow> bool" where
  "announces n \<longleftrightarrow> trim (an_label n) \<noteq> [] \<or> trim (an_text n) \<noteq> [] \<or> trim (an_value n) \<noteq> []"

text \<open>\<open>descendantAnnounces\<close>, of a node and the nodes after it: the subtree is the run of deeper ones.\<close>

definition descendant_announces :: "a11y_node \<Rightarrow> a11y_node list \<Rightarrow> bool" where
  "descendant_announces n later = list_ex announces (takeWhile (\<lambda>c. an_depth n < an_depth c) later)"

definition rat_text :: "rat \<Rightarrow> string" where
  "rat_text r = num_str (Fin r)"

definition name_of :: "a11y_node \<Rightarrow> string" where
  "name_of n =
     (let cls = after_last (CHR ''.'') (strip_xcui (an_cls n)) in
      (if cls = [] then ''element'' else cls) @
      (if an_id n = [] then [] else '' id='' @ after_last (CHR ''/'') (an_id n)) @
      (case an_bounds n of None \<Rightarrow> []
       | Some b \<Rightarrow> '' at '' @ rat_text (rc_x b) @ '','' @ rat_text (rc_y b) @ '' ('' @ rat_text (rc_w b) @ ''x'' @ rat_text (rc_h b) @ '')''))"

record tree_finding =
  tf_error :: bool
  tf_check :: string
  tf_page :: string
  tf_detail :: string

definition to_points :: "geometry \<Rightarrow> rat \<Rightarrow> rat option" where
  "to_points g px =
     (case g of
        Points \<Rightarrow> Some px
      | Pixels (Fin d) \<Rightarrow> if d \<le> 0 then None else Some (px * 160 / d)
      | Pixels _ \<Rightarrow> None
      | Unknown_Unit \<Rightarrow> None)"

definition to_fixed0 :: "rat \<Rightarrow> string" where
  "to_fixed0 r = int_str \<lfloor>r + 1 / 2\<rfloor>"

record tree_tally =
  tt_unlabelled :: nat
  tt_tiny :: nat
  tt_sized :: nat
  tt_seen :: "string list"
  tt_found :: "tree_finding list"

definition judged_node :: "a11y_node \<Rightarrow> bool" where
  "judged_node n \<longleftrightarrow>
     an_tappable n \<and> an_enabled n \<and> (case an_bounds n of None \<Rightarrow> True | Some b \<Rightarrow> 0 < rc_w b \<and> 0 < rc_h b)"

text \<open>A finding under a key that was not seen, as long as its check has fewer than \<open>cap\<close>.\<close>

definition report :: "nat \<Rightarrow> string \<Rightarrow> tree_finding \<Rightarrow> tree_tally \<Rightarrow> tree_tally" where
  "report cap key f t =
     (if key \<notin> set (tt_seen t) \<and> length (filter (\<lambda>x. tf_check x = tf_check f) (tt_found t)) < cap
      then t\<lparr>tt_seen := key # tt_seen t, tt_found := tt_found t @ [f]\<rparr> else t)"

definition label_step :: "string \<Rightarrow> nat \<Rightarrow> a11y_node \<Rightarrow> a11y_node list \<Rightarrow> tree_tally \<Rightarrow> tree_tally" where
  "label_step page cap n later t =
     (if announces n \<or> descendant_announces n later then t
      else report cap (''unlabelled:'' @ name_of n)
        \<lparr>tf_error = True, tf_check = ''a11y-label'', tf_page = page,
         tf_detail = name_of n @ '' is tappable but announces nothing (no label, text or value)''\<rparr>
        (t\<lparr>tt_unlabelled := tt_unlabelled t + 1\<rparr>))"

definition size_step :: "geometry \<Rightarrow> string \<Rightarrow> rat \<Rightarrow> nat \<Rightarrow> a11y_node \<Rightarrow> tree_tally \<Rightarrow> tree_tally" where
  "size_step g page min_pt cap n t =
     (case an_bounds n of
        None \<Rightarrow> t
      | Some b \<Rightarrow>
          (case (to_points g (rc_w b), to_points g (rc_h b)) of
             (Some w, Some h) \<Rightarrow>
               let t' = t\<lparr>tt_sized := tt_sized t + 1\<rparr> in
               if w < min_pt \<and> h < min_pt
               then report cap (''tiny:'' @ name_of n)
                 \<lparr>tf_error = False, tf_check = ''a11y-target-size'', tf_page = page,
                  tf_detail = first_text [an_label n, an_text n, name_of n] @ '' is '' @ to_fixed0 w @ ''x'' @ to_fixed0 h @
                    ''pt, under the '' @ rat_text min_pt @ ''pt minimum''\<rparr>
                 (t'\<lparr>tt_tiny := tt_tiny t' + 1\<rparr>)
               else t'
           | _ \<Rightarrow> t))"

fun judge_nodes :: "geometry \<Rightarrow> string \<Rightarrow> rat \<Rightarrow> nat \<Rightarrow> a11y_node list \<Rightarrow> tree_tally \<Rightarrow> tree_tally" where
  "judge_nodes g page min_pt cap [] t = t"
| "judge_nodes g page min_pt cap (n # ns) t =
     judge_nodes g page min_pt cap ns
       (if judged_node n then size_step g page min_pt cap n (label_step page cap n ns t) else t)"

definition coverage :: "string \<Rightarrow> string \<Rightarrow> tree_finding" where
  "coverage page detail = \<lparr>tf_error = False, tf_check = ''a11y-coverage'', tf_page = page, tf_detail = detail\<rparr>"

definition UNKNOWN_UNIT :: string where
  "UNKNOWN_UNIT =
     ''touch-target sizes were not judged: the tree'' @ CHR 0x27 # ''s bounds are in an unknown unit '' @
     ''(an Android dump is in pixels, and converting needs the device'' @ CHR 0x27 # ''s density)''"

definition a11y_findings :: "a11y_node list \<Rightarrow> geometry \<Rightarrow> string \<Rightarrow> rat \<Rightarrow> nat \<Rightarrow> tree_finding list" where
  "a11y_findings nodes g page min_pt cap =
     (let t = judge_nodes g page min_pt cap nodes
            \<lparr>tt_unlabelled = 0, tt_tiny = 0, tt_sized = 0, tt_seen = [], tt_found = []\<rparr>
      in tt_found t @
         (if tt_sized t = 0 \<and> list_ex (\<lambda>n. an_tappable n \<and> an_bounds n \<noteq> None) nodes
          then [coverage page (if g = Unknown_Unit then UNKNOWN_UNIT
            else ''touch-target sizes were not judged: no element carried usable bounds'')] else []) @
         (if cap < tt_unlabelled t
          then [coverage page (nat_str (tt_unlabelled t) @ '' unlabelled tappables on this screen; the first '' @ nat_str cap @ '' are listed'')]
          else []) @
         (if cap < tt_tiny t
          then [coverage page (nat_str (tt_tiny t) @ '' undersized targets on this screen; the first '' @ nat_str cap @ '' are listed'')]
          else []))"

section \<open>Density\<close>

text \<open>The digits after a phrase, at its first occurrence that has some.\<close>

fun digits_after :: "string \<Rightarrow> string \<Rightarrow> string option" where
  "digits_after p [] = None"
| "digits_after p (c # s) =
     (case after_text p (c # s) of
        Some r \<Rightarrow> if takeWhile is_digit (skip_space r) \<noteq> [] then Some (takeWhile is_digit (skip_space r)) else digits_after p s
      | None \<Rightarrow> digits_after p s)"

definition bare_line :: "string \<Rightarrow> bool" where
  "bare_line l \<longleftrightarrow> list_all is_digit (trim l) \<and> 2 \<le> length (trim l) \<and> length (trim l) \<le> 4"

definition parse_android_density :: "string \<Rightarrow> nat option" where
  "parse_android_density out =
     (let t = no_returns out;
          d = coalesce (digits_after ''Override density:'' t) (coalesce (digits_after ''Physical density:'' t)
                (map_option trim (List.find bare_line (split_on (CHR 0x0A) t))))
      in case d of None \<Rightarrow> None | Some ds \<Rightarrow> if 0 < digits_val ds then Some (digits_val ds) else None)"

section \<open>Laws\<close>

text \<open>
  What the accessibility check reports: exactly the controls that announce nothing, up to the cap; sizes only
  where the unit of the tree is known.
\<close>

definition label_detail :: "a11y_node \<Rightarrow> string" where
  "label_detail n = name_of n @ '' is tappable but announces nothing (no label, text or value)''"

definition silent :: "a11y_node \<Rightarrow> a11y_node list \<Rightarrow> bool" where
  "silent n later \<longleftrightarrow> judged_node n \<and> \<not> announces n \<and> \<not> descendant_announces n later"

definition labels :: "tree_finding list \<Rightarrow> tree_finding list" where
  "labels fs = filter (\<lambda>f. tf_check f = ''a11y-label'') fs"

definition sizes :: "tree_finding list \<Rightarrow> tree_finding list" where
  "sizes fs = filter (\<lambda>f. tf_check f = ''a11y-target-size'') fs"

lemma labels_append [simp]: "labels (xs @ ys) = labels xs @ labels ys"
  and sizes_append [simp]: "sizes (xs @ ys) = sizes xs @ sizes ys"
  by (simp_all add: labels_def sizes_def)

lemma labels_one [simp]: "labels [f] = (if tf_check f = ''a11y-label'' then [f] else [])" "labels [] = []"
  and sizes_one [simp]: "sizes [f] = (if tf_check f = ''a11y-target-size'' then [f] else [])" "sizes [] = []"
  by (simp_all add: labels_def sizes_def)

lemma size_step_labels [simp]: "labels (tt_found (size_step g page m cap n t)) = labels (tt_found t)"
  by (auto simp: size_step_def report_def Let_def labels_def split: option.splits)

lemma label_step_sizes [simp]: "sizes (tt_found (label_step page cap n later t)) = sizes (tt_found t)"
  by (auto simp: label_step_def report_def Let_def sizes_def)

lemma size_step_unknown [simp]: "size_step Unknown_Unit page m cap n t = t"
  by (simp add: size_step_def to_points_def split: option.splits)

lemma judge_capped:
  "length (labels (tt_found t)) \<le> cap \<Longrightarrow> length (labels (tt_found (judge_nodes g page m cap ns t))) \<le> cap"
proof (induction g page m cap ns t rule: judge_nodes.induct)
  case (2 g page m cap n ns t)
  have "length (labels (tt_found (label_step page cap n ns t))) \<le> cap"
    using 2(2) by (auto simp: label_step_def report_def Let_def labels_def)
  with 2 show ?case by simp
qed simp

lemma judge_sizes_capped:
  "length (sizes (tt_found t)) \<le> cap \<Longrightarrow> length (sizes (tt_found (judge_nodes g page m cap ns t))) \<le> cap"
proof (induction g page m cap ns t rule: judge_nodes.induct)
  case (2 g page m cap n ns t)
  have "length (sizes (tt_found (size_step g page m cap n (label_step page cap n ns t)))) \<le> cap"
    using 2(2) label_step_sizes[of page cap n ns t]
    by (auto simp: size_step_def report_def Let_def sizes_def split: option.splits)
  with 2 show ?case by simp
qed simp

lemma judge_sound:
  "f \<in> set (labels (tt_found (judge_nodes g page m cap ns t))) \<Longrightarrow>
   f \<in> set (labels (tt_found t)) \<or> (\<exists>u n v. ns = u @ n # v \<and> silent n v \<and> tf_detail f = label_detail n)"
proof (induction g page m cap ns t rule: judge_nodes.induct)
  case (2 g page m cap n ns t)
  let ?t = "if judged_node n then size_step g page m cap n (label_step page cap n ns t) else t"
  from 2(2) have "f \<in> set (labels (tt_found ?t)) \<or> (\<exists>u n' v. ns = u @ n' # v \<and> silent n' v \<and> tf_detail f = label_detail n')"
    by (intro 2(1)) simp
  moreover have "f \<in> set (labels (tt_found t)) \<or> (silent n ns \<and> tf_detail f = label_detail n)"
    if "f \<in> set (labels (tt_found ?t))"
    using that by (auto simp: label_step_def report_def Let_def silent_def label_detail_def split: if_splits)
  ultimately consider "f \<in> set (labels (tt_found t))" | "silent n ns \<and> tf_detail f = label_detail n"
    | u n' v where "ns = u @ n' # v" "silent n' v" "tf_detail f = label_detail n'" by blast
  then show ?case
  proof cases
    case 2
    then show ?thesis by (intro disjI2 exI[of _ "[]"]) auto
  next
    case 3
    then show ?thesis by (intro disjI2 exI[of _ "n # u"]) auto
  qed simp
qed (simp add: labels_def)

text \<open>Every key that was seen stands for a finding.\<close>

definition told :: "tree_tally \<Rightarrow> bool" where
  "told t \<longleftrightarrow>
     (\<forall>n. ''unlabelled:'' @ name_of n \<in> set (tt_seen t) \<longrightarrow> (\<exists>f \<in> set (labels (tt_found t)). tf_detail f = label_detail n))"

lemma label_step_told: "told t \<Longrightarrow> told (label_step page cap n later t)"
  by (auto simp: told_def label_step_def report_def Let_def labels_def[symmetric] label_detail_def)

lemma size_step_told: "told t \<Longrightarrow> told (size_step g page m cap n t)"
  unfolding told_def size_step_labels by (auto simp: size_step_def report_def Let_def split: option.splits if_splits)

lemma label_step_tells:
  "told t \<Longrightarrow> silent n later \<Longrightarrow>
   (\<exists>f \<in> set (labels (tt_found (label_step page cap n later t))). tf_detail f = label_detail n) \<or>
   cap \<le> length (labels (tt_found (label_step page cap n later t)))"
  by (auto simp: told_def silent_def label_step_def report_def Let_def labels_def[symmetric] label_detail_def)

lemma judge_grows: "\<exists>fs. labels (tt_found (judge_nodes g page m cap ns t)) = labels (tt_found t) @ fs"
proof (induction g page m cap ns t rule: judge_nodes.induct)
  case (2 g page m cap n ns t)
  have "\<exists>fs. labels (tt_found (label_step page cap n ns t)) = labels (tt_found t) @ fs"
    by (simp add: label_step_def report_def Let_def)
  with 2 show ?case by (auto split: if_splits)
qed simp

lemma judge_complete:
  assumes "told t" "ns = u @ n # v" "silent n v"
  shows "(\<exists>f \<in> set (labels (tt_found (judge_nodes g page m cap ns t))). tf_detail f = label_detail n) \<or>
    cap \<le> length (labels (tt_found (judge_nodes g page m cap ns t)))"
  using assms
proof (induction g page m cap ns t arbitrary: u rule: judge_nodes.induct)
  case (2 g page m cap k ns t)
  let ?t = "if judged_node k then size_step g page m cap k (label_step page cap k ns t) else t"
  obtain fs where fs: "labels (tt_found (judge_nodes g page m cap ns ?t)) = labels (tt_found ?t) @ fs"
    using judge_grows by blast
  show ?case
  proof (cases u)
    case Nil
    then have "k = n" "ns = v" "judged_node k" using 2(3,4) by (simp_all add: silent_def)
    then show ?thesis using label_step_tells[OF 2(2,4), of page cap] fs by auto
  next
    case (Cons k' u')
    have told: "told ?t" using 2(2) by (simp add: label_step_told size_step_told)
    have ns: "ns = u' @ n # v" using 2(3) Cons by simp
    show ?thesis unfolding judge_nodes.simps by (rule 2(1)[OF told ns 2(4)])
  qed
qed simp

lemma judge_unknown_sized: "tt_sized (judge_nodes Unknown_Unit page m cap ns t) = tt_sized t"
  by (induction "Unknown_Unit" page m cap ns t rule: judge_nodes.induct)
    (simp_all add: label_step_def report_def Let_def)

lemma judge_unknown_sizes: "sizes (tt_found (judge_nodes Unknown_Unit page m cap ns t)) = sizes (tt_found t)"
  by (induction "Unknown_Unit" page m cap ns t rule: judge_nodes.induct) simp_all

end
