(* ===== verification/Explore_Act.thy ===== *)
theory Explore_Act
  imports A11y_Tree
begin

text \<open>
  What the explorer may do to a device: the actions (\<open>workloads/explore/types.ts\<close>), a model's tool call
  turned into them (\<open>model.ts\<close>), a tap moved onto the element it was meant for and the leash
  (\<open>leash.ts\<close>), and the replay file (\<open>replay.ts\<close>). Everything is in screenshot pixels, exact rationals
  here. \<open>regex\<close> is the platform's \<open>new RegExp(p, "i").test\<close>, \<open>None\<close> where the pattern does not compile. An
  element is named by its place in the list of nodes.
\<close>

section \<open>Actions\<close>

datatype action =
    Tap rat rat
  | Long_Press rat rat jsnum
  | Type_Text string "(rat \<times> rat) option" bool bool
  | Swipe rat rat rat rat jsnum
  | Scroll string "jsnum option"
  | Press string
  | Hide_Keyboard
  | Wait_Ms rat

datatype surface = Touch | Dpad

record actuator_caps =
  ac_surface :: surface
  ac_keys :: "string list"

section \<open>Tool calls\<close>

record tool_call =
  tc_name :: string
  tc_args :: js

datatype converted =
    Act action
  | Note
  | Plan string
  | Issue string string "string option"
  | Answer string
  | Go_Home
  | Invalid string

definition js_round :: "rat \<Rightarrow> int" where
  "js_round r = \<lfloor>r + 1 / 2\<rfloor>"

text \<open>\<open>Math.min(hi, Math.max(lo, Math.round(n)))\<close> of a number that is not NaN.\<close>

definition clamp_to :: "int \<Rightarrow> int \<Rightarrow> jsnum \<Rightarrow> int" where
  "clamp_to lo hi n = (case n of Fin r \<Rightarrow> min hi (max lo (js_round r)) | PInf \<Rightarrow> hi | _ \<Rightarrow> lo)"

definition is_num_arg :: "js \<Rightarrow> bool" where
  "is_num_arg v =
     (case v of JNum _ \<Rightarrow> True | JStr s \<Rightarrow> trim s \<noteq> [] \<and> str_number s \<noteq> NaN | _ \<Rightarrow> False)"

definition to_px :: "js \<Rightarrow> rat \<Rightarrow> rat" where
  "to_px v size_px = of_int (clamp_to 0 1000 (js_number v)) / 1000 * (size_px - 1)"

definition missing_args :: "js \<Rightarrow> string list \<Rightarrow> string list" where
  "missing_args a ks = filter (\<lambda>k. \<not> is_num_arg (jget k a)) ks"

definition num_arg :: "js \<Rightarrow> string \<Rightarrow> jsnum \<Rightarrow> jsnum" where
  "num_arg a k fallback = (if is_num_arg (jget k a) then js_number (jget k a) else fallback)"

definition wait_ms :: "js \<Rightarrow> rat" where
  "wait_ms v =
     (case js_number v of
        Fin r \<Rightarrow> (if r = 0 then 1 else min 10 (max 0 r)) * 1000 | PInf \<Rightarrow> 10000 | NInf \<Rightarrow> 0 | NaN \<Rightarrow> 1000)"

definition issue_text :: "js \<Rightarrow> string \<Rightarrow> string" where
  "issue_text v fallback = (if nullish v then fallback else js_string v)"

definition plan_text :: "js \<Rightarrow> string" where
  "plan_text goals =
     (case goals of
        JArr gs \<Rightarrow> join [CHR 0x0A] (map (\<lambda>(i, g). nat_str (i + 1) @ ''. '' @ issue_text (jget ''title'' g) [] @ '' ['' @
          issue_text (jget ''status'' g) ''todo'' @ '']'') (enumerate 0 gs))
      | _ \<Rightarrow> [])"

text \<open>\<open>convertCall\<close>, of arguments that are an object; \<open>None\<close> where it throws, which null arguments make it do.\<close>

definition point_call :: "string \<Rightarrow> js \<Rightarrow> (rat \<Rightarrow> rat \<Rightarrow> action) \<Rightarrow> rat \<Rightarrow> rat \<Rightarrow> converted" where
  "point_call name a mk w h =
     (let miss = missing_args a [''x'', ''y''] in
      if miss \<noteq> [] then Invalid (name @ '' needs '' @ join '', '' miss)
      else Act (mk (to_px (jget ''x'' a) w) (to_px (jget ''y'' a) h)))"

definition swipe_call :: "string \<Rightarrow> js \<Rightarrow> jsnum \<Rightarrow> rat \<Rightarrow> rat \<Rightarrow> converted" where
  "swipe_call name a ms w h =
     (let miss = missing_args a [''x_touch'', ''y_touch'', ''x_lift'', ''y_lift''] in
      if miss \<noteq> [] then Invalid (name @ '' needs '' @ join '', '' miss)
      else Act (Swipe (to_px (jget ''x_touch'' a) w) (to_px (jget ''y_touch'' a) h) (to_px (jget ''x_lift'' a) w)
        (to_px (jget ''y_lift'' a) h) ms))"

definition press_call :: "actuator_caps \<Rightarrow> js \<Rightarrow> converted list" where
  "press_call caps a =
     (case jget ''key'' a of
        JStr k \<Rightarrow>
          if k \<notin> set (ac_keys caps) then [Invalid (''tv_press key must be one of '' @ join '', '' (ac_keys caps))]
          else if k = ''home'' then [Go_Home]
          else replicate (nat (clamp_to 1 10 (num_arg a ''times'' (Fin 1)))) (Act (Press k))
      | _ \<Rightarrow> [Invalid (''tv_press key must be one of '' @ join '', '' (ac_keys caps))])"

definition convert_named :: "string \<Rightarrow> js \<Rightarrow> rat \<Rightarrow> rat \<Rightarrow> actuator_caps \<Rightarrow> converted list" where
  "convert_named n a w h caps =
     (if n = ''mobile_click'' then [point_call n a Tap w h]
      else if n = ''mobile_long_press'' then [point_call n a (\<lambda>x y. Long_Press x y (num_arg a ''duration'' (Fin 700))) w h]
      else if n = ''mobile_write'' then
        (case jget ''text'' a of
           JStr t \<Rightarrow> [Act (Type_Text t
             (if missing_args a [''x'', ''y''] = [] then Some (to_px (jget ''x'' a) w, to_px (jget ''y'' a) h) else None)
             (jget ''overwrite'' a = JBool True) (jget ''enter'' a \<noteq> JBool False))]
         | _ \<Rightarrow> [Invalid ''mobile_write needs text''])
      else if n = ''mobile_scroll'' then
        (case jget ''direction'' a of
           JStr d \<Rightarrow>
             if d \<in> {''up'', ''down'', ''left'', ''right''}
             then [Act (Scroll d (if is_num_arg (jget ''factor'' a) then Some (js_number (jget ''factor'' a)) else None))]
             else [Invalid ''mobile_scroll needs direction up/down/left/right'']
         | _ \<Rightarrow> [Invalid ''mobile_scroll needs direction up/down/left/right''])
      else if n = ''mobile_swipe'' then [swipe_call n a (Fin 300) w h]
      else if n = ''mobile_drag'' then [swipe_call n a (num_arg a ''duration'' (Fin 800)) w h]
      else if n = ''mobile_go_back'' then [Act (Press ''back'')]
      else if n = ''mobile_go_home'' then [Go_Home]
      else if n = ''mobile_hide_keyboard'' then [Act Hide_Keyboard]
      else if n = ''tv_press'' then press_call caps a
      else if n = ''tv_type'' then
        (case jget ''text'' a of JStr t \<Rightarrow> [Act (Type_Text t None False False)] | _ \<Rightarrow> [Invalid ''tv_type needs text''])
      else if n = ''wait'' then [Act (Wait_Ms (wait_ms (jget ''seconds'' a)))]
      else if n = ''note'' then [Note]
      else if n = ''update_plan'' then [Plan (plan_text (jget ''goals'' a))]
      else if n = ''report_issue'' then
        [Issue (issue_text (jget ''kind'' a) ''other'') (issue_text (jget ''description'' a) []) (str_of (jget ''element'' a))]
      else if n = ''answer'' then [Answer (issue_text (jget ''content'' a) [])]
      else [Invalid (''unknown tool '' @ n)])"

definition convert_call :: "tool_call \<Rightarrow> rat \<Rightarrow> rat \<Rightarrow> actuator_caps \<Rightarrow> converted list option" where
  "convert_call c w h caps = (if nullish (tc_args c) then None else Some (convert_named (tc_name c) (tc_args c) w h caps))"

section \<open>Snapping\<close>

definition inside :: "rect \<Rightarrow> rat \<Rightarrow> rat \<Rightarrow> bool" where
  "inside b x y \<longleftrightarrow> rc_x b \<le> x \<and> x \<le> rc_x b + rc_w b \<and> rc_y b \<le> y \<and> y \<le> rc_y b + rc_h b"

definition area :: "rect \<Rightarrow> rat" where
  "area b = rc_w b * rc_h b"

definition usable :: "rat \<Rightarrow> a11y_node \<Rightarrow> bool" where
  "usable screen_area n \<longleftrightarrow>
     an_tappable n \<and> an_enabled n \<and>
     (case an_bounds n of None \<Rightarrow> False | Some b \<Rightarrow> 0 < rc_w b \<and> 0 < rc_h b \<and> area b < screen_area * (6 / 10))"

text \<open>The square of the distance from a point to a rectangle.\<close>

definition dist2 :: "rect \<Rightarrow> rat \<Rightarrow> rat \<Rightarrow> rat" where
  "dist2 b x y =
     (let dx = max (max (rc_x b - x) 0) (x - (rc_x b + rc_w b)); dy = max (max (rc_y b - y) 0) (y - (rc_y b + rc_h b))
      in dx * dx + dy * dy)"

definition node_rect :: "a11y_node list \<Rightarrow> nat \<Rightarrow> rect" where
  "node_rect ns i = the (an_bounds (ns ! i))"

text \<open>The first of the smallest by a measure.\<close>

fun first_least :: "(nat \<Rightarrow> rat) \<Rightarrow> nat list \<Rightarrow> nat option" where
  "first_least f [] = None"
| "first_least f (i # is) =
     (case first_least f is of None \<Rightarrow> Some i | Some j \<Rightarrow> if f j < f i then Some j else Some i)"

text \<open>The element under the point or the nearest within \<open>radius\<close>, and whether the point is inside it.\<close>

definition element_at :: "a11y_node list \<Rightarrow> rat \<Rightarrow> rat \<Rightarrow> rat \<Rightarrow> rat \<Rightarrow> rat \<Rightarrow> (nat \<times> bool) option" where
  "element_at ns x y w h radius =
     (let us = filter (\<lambda>i. usable (w * h) (ns ! i)) [0..<length ns];
          containing = filter (\<lambda>i. inside (node_rect ns i) x y) us
      in case first_least (\<lambda>i. area (node_rect ns i)) containing of
           Some i \<Rightarrow> Some (i, True)
         | None \<Rightarrow>
             (case first_least (\<lambda>i. dist2 (node_rect ns i) x y) us of
                None \<Rightarrow> None
              | Some i \<Rightarrow> if dist2 (node_rect ns i) x y \<le> radius * radius then Some (i, False) else None))"

record snapped =
  sn_action :: action
  sn_node :: "nat option"
  sn_miss :: bool

fun aim :: "action \<Rightarrow> (rat \<times> rat) option" where
  "aim (Tap x y) = Some (x, y)"
| "aim (Long_Press x y ms) = Some (x, y)"
| "aim (Type_Text t p ov en) = p"
| "aim _ = None"

fun aimed_at :: "rat \<Rightarrow> rat \<Rightarrow> action \<Rightarrow> action" where
  "aimed_at x y (Tap _ _) = Tap x y"
| "aimed_at x y (Long_Press _ _ ms) = Long_Press x y ms"
| "aimed_at x y (Type_Text t _ ov en) = Type_Text t (Some (x, y)) ov en"
| "aimed_at x y a = a"

definition is_text_field :: "a11y_node \<Rightarrow> bool" where
  "is_text_field n \<longleftrightarrow>
     list_ex (\<lambda>w. contains w (an_cls n)) [''EditText'', ''TextField'', ''SearchField'', ''SecureTextField'']"

definition field_under :: "a11y_node list \<Rightarrow> rat \<Rightarrow> rat \<Rightarrow> nat option" where
  "field_under ns x y =
     List.find (\<lambda>i. (case an_bounds (ns ! i) of None \<Rightarrow> False | Some b \<Rightarrow> inside b x y) \<and> is_text_field (ns ! i)) [0..<length ns]"

definition snap :: "action \<Rightarrow> a11y_node list option \<Rightarrow> rat \<Rightarrow> rat \<Rightarrow> snapped" where
  "snap a nodes w h =
     (case (aim a, nodes) of
        (Some (x, y), Some ns) \<Rightarrow>
          (case element_at ns x y w h (max 24 (w * (4 / 100))) of
             None \<Rightarrow>
               let field = field_under ns x y in \<lparr>sn_action = a, sn_node = field, sn_miss = (field = None)\<rparr>
           | Some (i, True) \<Rightarrow> \<lparr>sn_action = a, sn_node = Some i, sn_miss = False\<rparr>
           | Some (i, False) \<Rightarrow>
               let b = node_rect ns i in
               \<lparr>sn_action = aimed_at (rc_x b + rc_w b / 2) (rc_y b + rc_h b / 2) a, sn_node = Some i, sn_miss = False\<rparr>)
      | _ \<Rightarrow> \<lparr>sn_action = a, sn_node = None, sn_miss = False\<rparr>)"

section \<open>The leash\<close>

abbreviation Spaces :: pat where
  "Spaces \<equiv> Some_Of (Chr is_space)"

definition words_of :: "string list \<Rightarrow> pat" where
  "words_of ws = any_of (map word ws)"

definition DANGER :: "(string \<times> pat) list" where
  "DANGER =
     [(''delete'', any_of
        [in_order [Edge, words_of [''delete'', ''remove'', ''erase'', ''close''], Spaces,
           Maybe (in_order [words_of [''my'', ''your'', ''this''], Spaces]),
           words_of [''account'', ''profile'', ''all data'', ''everything''], Edge],
         in_order [Edge, word ''delete account'', Edge], in_order [Edge, word ''deactivate'', Edge]]),
      (''purchase'', in_order [Edge, any_of
        [words_of [''buy'', ''purchase'', ''subscribe'', ''upgrade'', ''pay'', ''checkout'', ''check out''],
         in_order [word ''start '', Maybe (word ''free ''), word ''trial''], word ''go pro'',
         in_order [word ''unlock '', words_of [''pro'', ''premium'']], word ''restore purchases''], Edge]),
      (''invite'', in_order [Edge, words_of [''invite'', ''send invitation'', ''share with contacts'', ''send to contacts''], Edge]),
      (''sign_out'', in_order [Edge, words_of [''sign out'', ''log out'', ''logout'', ''sign off''], Edge])]"

definition PASSWORD :: pat where
  "PASSWORD = any_of [in_order [Edge, word ''password''], word ''passcode'', in_order [Edge, word ''pin'', Edge]]"

definition drawn_in :: "rect \<Rightarrow> rect \<Rightarrow> bool" where
  "drawn_in b t \<longleftrightarrow>
     rc_x t \<le> rc_x b \<and> rc_y t \<le> rc_y b \<and> rc_x b + rc_w b \<le> rc_x t + rc_w t \<and> rc_y b + rc_h b \<le> rc_y t + rc_h t"

text \<open>Everything written on a control: its own fields, its id, and the texts drawn inside it.\<close>

definition control_texts :: "a11y_node list \<Rightarrow> nat \<Rightarrow> string list" where
  "control_texts ns i =
     (let t = ns ! i in
      [an_label t, an_text t, an_value t, after_last (CHR ''/'') (an_id t)] @
      (case an_bounds t of
         None \<Rightarrow> []
       | Some tb \<Rightarrow>
           concat (map (\<lambda>j. case an_bounds (ns ! j) of
               Some b \<Rightarrow> if j \<noteq> i \<and> drawn_in b tb then [an_text (ns ! j), an_label (ns ! j)] else []
             | None \<Rightarrow> []) [0..<length ns])))"

definition control_words :: "a11y_node list \<Rightarrow> nat \<Rightarrow> string" where
  "control_words ns i =
     map (\<lambda>c. if c = CHR ''_'' \<or> c = CHR ''-'' then CHR '' '' else c) (join '' '' (filter (\<lambda>s. s \<noteq> []) (control_texts ns i)))"

fun pressing :: "action \<Rightarrow> bool" where
  "pressing (Tap _ _) = True"
| "pressing (Long_Press _ _ _) = True"
| "pressing (Press k) = (k = ''select'')"
| "pressing _ = False"

fun typing :: "action \<Rightarrow> bool" where
  "typing (Type_Text _ _ _ _) = True"
| "typing _ = False"

text \<open>The class a refused action is refused for.\<close>

definition leash ::
  "(string \<Rightarrow> string \<Rightarrow> bool option) \<Rightarrow> action \<Rightarrow> a11y_node list option \<Rightarrow> nat option \<Rightarrow> string list \<Rightarrow> string list \<Rightarrow> string option" where
  "leash regex a nodes target allow block =
     (case (nodes, target) of
        (Some ns, Some i) \<Rightarrow>
          let ws = control_words ns i in
          if typing a \<and> found PASSWORD (lower ws) then Some ''credentials''
          else if \<not> pressing a then None
          else if list_ex (\<lambda>p. regex p ws = Some True) block then Some ''blocked''
          else map_option fst (List.find (\<lambda>(cls, p). cls \<notin> set allow \<and> found p (lower ws)) DANGER)
      | _ \<Rightarrow> None)"

text \<open>The packages that may be in front for a moment.\<close>

definition TRANSIENT_FOREGROUND :: "string list" where
  "TRANSIENT_FOREGROUND =
     [''com.android.permissioncontroller'', ''com.google.android.permissioncontroller'', ''com.android.systemui'', ''android'',
      ''com.android.intentresolver'', ''com.google.android.gms'', ''com.android.documentsui'', ''com.google.android.documentsui'',
      ''com.apple.springboard'']"

definition left_app :: "string option \<Rightarrow> string \<Rightarrow> bool" where
  "left_app foreground app =
     (case foreground of
        None \<Rightarrow> False
      | Some f \<Rightarrow>
          f \<noteq> [] \<and> f \<noteq> app \<and>
          \<not> (f \<in> set TRANSIENT_FOREGROUND \<or> contains ''inputmethod'' (lower f) \<or> contains ''keyboard'' (lower f)))"

end
