(* ===== verification/Explore_Map.thy ===== *)
theory Explore_Map
  imports A11y_Tree "HOL-Library.List_Lexorder"
begin

text \<open>
  The screen map (\<open>workloads/explore/screenmap.ts\<close>): what identifies a screen, its name, and the map that
  grows from night to night. A picture is its 128-bit hash in hex (\<open>image.ts\<close>); \<open>digest\<close> is the first ten
  hex digits of SHA-1. Scores are exact fractions.
\<close>

section \<open>Comparing\<close>

definition hex_val :: "char \<Rightarrow> nat" where
  "hex_val c = (if is_digit c then digit_val c else if c \<in> set ''abcdef'' then code c - 87 else if c \<in> set ''ABCDEF'' then code c - 55 else 0)"

definition nibble :: "nat \<Rightarrow> bool list" where
  "nibble n = [odd (n div 8), odd (n div 4), odd (n div 2), odd n]"

definition bits_of :: "string \<Rightarrow> bool list" where
  "bits_of s = concat (map (\<lambda>c. nibble (hex_val c)) s)"

definition hamming :: "string \<Rightarrow> string \<Rightarrow> nat" where
  "hamming a b =
     (if length a \<noteq> length b then length a * 4
      else length (filter (\<lambda>(x, y). x \<noteq> y) (zip (bits_of a) (bits_of b))))"

definition jaccard :: "string list \<Rightarrow> string list \<Rightarrow> rat" where
  "jaccard a b =
     (if a = [] \<and> b = [] then 1
      else let inter = length (filter (\<lambda>t. t \<in> set b) a)
           in of_nat inter / of_nat (length a + length b - inter))"

section \<open>Identity and name\<close>

definition text_token :: "string \<Rightarrow> string list" where
  "text_token t =
     (let s = trim t in
      if length s < 2 \<or> 32 < length s \<or> list_ex is_digit s then [] else [''t:'' @ lower s])"

definition node_tokens :: "a11y_node \<Rightarrow> string list" where
  "node_tokens n =
     (let cls = strip_xcui (after_last (CHR ''.'') (an_cls n)) in
      (if an_id n = [] then [] else [''id:'' @ after_last (CHR ''/'') (an_id n)]) @
      (if an_tappable n \<and> cls \<noteq> [] then [''tap:'' @ cls] else []) @ text_token (an_text n) @ text_token (an_label n))"

definition screen_tokens :: "a11y_node list \<Rightarrow> string list" where
  "screen_tokens ns = sort (remdups (concat (map node_tokens ns)))"

definition shown_text :: "a11y_node \<Rightarrow> string" where
  "shown_text n = trim (if an_text n \<noteq> [] then an_text n else an_label n)"

definition clock_text :: "string \<Rightarrow> bool" where
  "clock_text s =
     (let r = dropWhile is_digit s in
      takeWhile is_digit s \<noteq> [] \<and> (case r of c # d # _ \<Rightarrow> (c = CHR '':'' \<or> c = CHR ''.'') \<and> is_digit d | _ \<Rightarrow> False))"

definition title_like :: "rat \<Rightarrow> a11y_node \<Rightarrow> bool" where
  "title_like height n \<longleftrightarrow>
     (case an_bounds n of None \<Rightarrow> False | Some b \<Rightarrow> rc_y b < height * (25 / 100) \<and> height * (2 / 100) < rc_y b) \<and>
     2 \<le> length (shown_text n) \<and> length (shown_text n) \<le> 40 \<and> \<not> clock_text (shown_text n)"

fun best_title :: "a11y_node list \<Rightarrow> a11y_node option" where
  "best_title [] = None"
| "best_title (n # ns) =
     (case best_title ns of
        None \<Rightarrow> Some n
      | Some m \<Rightarrow>
          let b = the (an_bounds n); c = the (an_bounds m) in
          if rc_h b < rc_h c \<or> (rc_h b = rc_h c \<and> rc_y c < rc_y b) then Some m else Some n)"

definition screen_name :: "a11y_node list option \<Rightarrow> rat \<Rightarrow> string \<Rightarrow> string" where
  "screen_name nodes height fallback =
     (case nodes of
        None \<Rightarrow> fallback
      | Some ns \<Rightarrow>
          (case best_title (filter (title_like height) ns) of
             Some n \<Rightarrow> shown_text n
           | None \<Rightarrow>
               (case List.find (\<lambda>n. 3 \<le> length (shown_text n) \<and> length (shown_text n) \<le> 40) ns of
                  Some n \<Rightarrow> shown_text n | None \<Rightarrow> fallback)))"

section \<open>The map\<close>

record screen_entry =
  se_id :: string
  se_name :: string
  se_tokens :: "string list"
  se_hash :: "string option"
  se_first :: string
  se_last :: string
  se_visits :: nat
  se_nights :: "string list"

record screen_map =
  sm_screens :: "screen_entry list"
  sm_seen :: "string list"

definition match_score :: "string list \<Rightarrow> string \<Rightarrow> screen_entry \<Rightarrow> rat" where
  "match_score tokens hash s =
     (if tokens \<noteq> [] \<and> se_tokens s \<noteq> [] then jaccard tokens (se_tokens s)
      else case se_hash s of
        None \<Rightarrow> 0
      | Some h \<Rightarrow> if h \<noteq> [] \<and> hamming hash h \<le> 10 then 99 / 100 else 0)"

text \<open>The place of the first entry with the best score above zero, and the score.\<close>

fun best_match :: "string list \<Rightarrow> string \<Rightarrow> screen_entry list \<Rightarrow> nat \<Rightarrow> (nat \<times> rat) option \<Rightarrow> (nat \<times> rat) option" where
  "best_match tokens hash [] i best = best"
| "best_match tokens hash (s # ss) i best =
     (let r = match_score tokens hash s in
      best_match tokens hash ss (i + 1) (if (case best of None \<Rightarrow> 0 | Some (_, b) \<Rightarrow> b) < r then Some (i, r) else best))"

definition last_30 :: "string list \<Rightarrow> string list" where
  "last_30 xs = drop (length xs - 30) xs"

definition visited :: "string \<Rightarrow> string \<Rightarrow> screen_entry \<Rightarrow> screen_entry" where
  "visited now night s =
     s\<lparr>se_visits := se_visits s + 1, se_last := now,
       se_nights := (if night \<in> set (se_nights s) then se_nights s else last_30 (se_nights s @ [night]))\<rparr>"

record placed =
  pl_entry :: screen_entry
  pl_new_ever :: bool
  pl_new_run :: bool

definition note_seen :: "screen_entry \<Rightarrow> bool \<Rightarrow> screen_map \<Rightarrow> placed \<times> screen_map" where
  "note_seen s new_ever m =
     (\<lparr>pl_entry = s, pl_new_ever = new_ever, pl_new_run = (se_id s \<notin> set (sm_seen m))\<rparr>,
      if se_id s \<in> set (sm_seen m) then m else m\<lparr>sm_seen := sm_seen m @ [se_id s]\<rparr>)"

definition fresh_entry ::
  "(string \<Rightarrow> string) \<Rightarrow> string \<Rightarrow> a11y_node list option \<Rightarrow> string list \<Rightarrow> string \<Rightarrow> rat \<Rightarrow> screen_entry" where
  "fresh_entry digest now nodes tokens hash height =
     (let sid = digest (if join ''|'' tokens = [] then hash else join ''|'' tokens) in
      \<lparr>se_id = sid, se_name = screen_name nodes height (''screen '' @ take 4 sid), se_tokens = tokens, se_hash = Some hash,
       se_first = now, se_last = now, se_visits = 0, se_nights = []\<rparr>)"

definition richer :: "string list \<Rightarrow> rat \<Rightarrow> screen_entry \<Rightarrow> screen_entry" where
  "richer tokens score s =
     (if length (se_tokens s) < length tokens \<and> 8 / 10 < score then s\<lparr>se_tokens := tokens\<rparr> else s)"

definition identify ::
  "(string \<Rightarrow> string) \<Rightarrow> string \<Rightarrow> a11y_node list option \<Rightarrow> string \<Rightarrow> rat \<Rightarrow> string \<Rightarrow> screen_map \<Rightarrow> placed \<times> screen_map" where
  "identify digest now nodes hash height night m =
     (let tokens = (case nodes of None \<Rightarrow> [] | Some ns \<Rightarrow> screen_tokens ns);
          best = Option.bind (best_match tokens hash (sm_screens m) 0 None)
            (\<lambda>(i, score). if score < 6 / 10 then None else Some (i, score))
      in case best of
           Some (i, score) \<Rightarrow>
             let s = visited now night (richer tokens score (sm_screens m ! i))
             in note_seen s False (m\<lparr>sm_screens := (sm_screens m)[i := s]\<rparr>)
         | None \<Rightarrow>
             let s = visited now night (fresh_entry digest now nodes tokens hash height)
             in note_seen s True (m\<lparr>sm_screens := sm_screens m @ [s]\<rparr>))"

definition unvisited :: "nat \<Rightarrow> screen_map \<Rightarrow> screen_entry list" where
  "unvisited limit m =
     take limit (sort_key (\<lambda>s. - int (se_visits s)) (filter (\<lambda>s. se_id s \<notin> set (sm_seen m)) (sm_screens m)))"

definition by_id :: "string \<Rightarrow> screen_map \<Rightarrow> screen_entry option" where
  "by_id i m = List.find (\<lambda>s. se_id s = i) (sm_screens m)"

end
