(* ===== verification/Explore_Mission.thy ===== *)
theory Explore_Mission
  imports Explore_Act Explore_Map Findings
begin

text \<open>
  One mission of the explorer (\<open>workloads/explore/loop.ts\<close>): look, place, check, ask, leash, act, until the
  budget runs out. What the device, the model and the judge answer in one turn of the loop is a \<open>look\<close>;
  the pictures are reduced to their hash and whether they are blank, the conversation to the calls it
  yields. Latencies, tokens, and the words sent back to the model are left out.
\<close>

section \<open>What a turn is given\<close>

record observation =
  ob_width :: rat
  ob_height :: rat
  ob_hash :: string
  ob_blank :: bool
  ob_spread :: string
  ob_nodes :: "a11y_node list option"
  ob_foreground :: "string option"
  ob_density :: "rat option"

record model_turn =
  mt_calls :: "tool_call list"
  mt_error :: "string option"

record visual_issue =
  vi_class :: string
  vi_where :: string
  vi_text :: string

record crash_report =
  cr_count :: nat
  cr_signatures :: "string list"

text \<open>A look: the clock, each answer, and for the \<open>k\<close>-th input of the turn whether the device took it.\<close>

record look =
  lk_late :: bool
  lk_now :: string
  lk_seen :: "observation option"
  lk_again :: "observation option"
  lk_launched :: bool
  lk_visual :: "visual_issue list"
  lk_turn :: model_turn
  lk_rewarmed :: bool
  lk_took :: "nat \<Rightarrow> bool"
  lk_crashed :: crash_report

record mission_check =
  mc_text :: "string list"
  mc_absent :: "string list"
  mc_focused :: "string option"
  mc_screen :: "string option"

record mission =
  mi_id :: string
  mi_title :: string
  mi_goal :: string
  mi_success :: "string option"
  mi_allow :: "string list"
  mi_block :: "string list"
  mi_end_check :: "mission_check option"

record loop_deps =
  ld_app :: string
  ld_caps :: actuator_caps
  ld_mission :: mission
  ld_max_steps :: nat
  ld_judge :: bool
  ld_night :: string
  ld_disabled_visual :: "string list"
  ld_disabled_checks :: "string list"
  ld_background_at :: "rat option"
  ld_can_rewarm :: bool
  ld_regex :: "string \<Rightarrow> string \<Rightarrow> bool option"
  ld_digest :: "string \<Rightarrow> string"
  ld_state_sig :: "a11y_node list option \<Rightarrow> string"

section \<open>What a mission leaves behind\<close>

datatype executed =
    Did nat action nat
  | Relaunched nat
  | Went_Home nat

datatype source = Oracle | Judged | Agent

record trajectory_step =
  ts_i :: nat
  ts_screen :: string
  ts_calls :: "tool_call list"

record candidate =
  ca_check :: string
  ca_severity :: severity
  ca_source :: source
  ca_key :: string
  ca_title :: string
  ca_detail :: string
  ca_step :: nat
  ca_screen :: screen_entry
  ca_up_to :: nat
  ca_class :: "string option"
  ca_point :: "(rat \<times> rat) option"
  ca_goal :: "(string \<times> string) option"

record pending_tap =
  pt_key :: string
  pt_hash :: string
  pt_sig :: string
  pt_point :: "rat \<times> rat"
  pt_label :: string

record mission_state =
  ms_map :: screen_map
  ms_executed :: "executed list"
  ms_candidates :: "candidate list"
  ms_steps :: "trajectory_step list"
  ms_last_step :: nat
  ms_actions :: nat
  ms_misses :: nat
  ms_refused :: "string list"
  ms_errors :: nat
  ms_left :: nat
  ms_crashes :: nat
  ms_new_ever :: nat
  ms_new_run :: nat
  ms_answer :: "string option"
  ms_ended :: string
  ms_a11y_done :: "string list"
  ms_judged :: "string list"
  ms_dead_taps :: "string \<Rightarrow> nat"
  ms_last_new :: nat
  ms_bad_turns :: nat
  ms_same_run :: nat
  ms_prev :: "(string \<times> string) option"
  ms_pending :: "pending_tap option"
  ms_last_obs :: "observation option"
  ms_last_screen :: "string option"
  ms_turn_error :: "string option"
  ms_rewarms :: nat
  ms_acted :: bool

definition unchanged :: "string \<Rightarrow> string \<Rightarrow> string \<Rightarrow> string \<Rightarrow> bool" where
  "unchanged h1 s1 h2 s2 \<longleftrightarrow> hamming h1 h2 \<le> 2 \<and> s1 = s2"

definition on_screen :: "a11y_node list \<Rightarrow> rat \<Rightarrow> rat \<Rightarrow> a11y_node list" where
  "on_screen ns w h =
     filter (\<lambda>n. case an_bounds n of
         None \<Rightarrow> True
       | Some b \<Rightarrow> 0 \<le> rc_x b \<and> 0 \<le> rc_y b \<and> rc_x b + rc_w b \<le> w - 1 \<and> rc_y b + rc_h b \<le> h - 1) ns"

definition geometry_of :: "observation \<Rightarrow> geometry" where
  "geometry_of ob =
     (case ob_density ob of None \<Rightarrow> Unknown_Unit | Some d \<Rightarrow> if d = 0 then Unknown_Unit else Pixels (Fin d))"

text \<open>An a11y finding's identity: without where the control sat and its exact size.\<close>

definition int_pat :: pat where
  "int_pat = Then (Maybe (Chr ((=) (CHR ''-'')))) (Some_Of (Chr is_digit))"

definition digits_pat :: pat where
  "digits_pat = Some_Of (Chr is_digit)"

fun cut_first :: "pat \<Rightarrow> string \<Rightarrow> char option \<Rightarrow> string \<Rightarrow> string" where
  "cut_first p r b [] = []"
| "cut_first p r b (c # s) = (case ends p (b, c # s) of [] \<Rightarrow> c # cut_first p r (Some c) s | (_, t) # _ \<Rightarrow> r @ t)"

definition a11y_key :: "string \<Rightarrow> string" where
  "a11y_key detail =
     cut_first (in_order [word '' is '', digits_pat, word ''x'', digits_pat, word ''pt,'']) '' is undersized,'' None
       (cut_first (in_order [word '' at '', int_pat, word '','', int_pat, word '' ('', digits_pat, word ''x'', digits_pat, word '')'']) []
          None detail)"

section \<open>Flagging\<close>

text \<open>\<open>flag\<close>: nothing of a switched-off check or visual class becomes a candidate.\<close>

definition switched_off_here :: "loop_deps \<Rightarrow> string \<Rightarrow> string option \<Rightarrow> bool" where
  "switched_off_here d check cls \<longleftrightarrow>
     check \<in> set (ld_disabled_checks d) \<or>
     (check = ''visual'' \<and> (case cls of None \<Rightarrow> False | Some c \<Rightarrow> c \<noteq> [] \<and> c \<in> set (ld_disabled_visual d)))"

definition flag :: "loop_deps \<Rightarrow> candidate \<Rightarrow> mission_state \<Rightarrow> mission_state" where
  "flag d c st =
     (if switched_off_here d (ca_check c) (ca_class c) then st
      else st\<lparr>ms_candidates := ms_candidates st @ [c\<lparr>ca_up_to := length (ms_executed st)\<rparr>]\<rparr>)"

definition by_oracle :: "string \<Rightarrow> severity \<Rightarrow> string \<Rightarrow> string \<Rightarrow> string \<Rightarrow> nat \<Rightarrow> screen_entry \<Rightarrow> candidate" where
  "by_oracle check sev k title detail i s =
     \<lparr>ca_check = check, ca_severity = sev, ca_source = Oracle, ca_key = k, ca_title = title, ca_detail = detail, ca_step = i,
      ca_screen = s, ca_up_to = 0, ca_class = None, ca_point = None, ca_goal = None\<rparr>"

definition quoted :: "string \<Rightarrow> string" where
  "quoted s = [CHR 0x22] @ s @ [CHR 0x22]"

section \<open>The checks that need no model\<close>

text \<open>The screen is placed in the map; the first visit of the run counts as news.\<close>

definition place :: "loop_deps \<Rightarrow> nat \<Rightarrow> look \<Rightarrow> observation \<Rightarrow> mission_state \<Rightarrow> placed \<times> mission_state" where
  "place d i lk ob st =
     (let (p, m) = identify (ld_digest d) (lk_now lk) (ob_nodes ob) (ob_hash ob) (ob_height ob) (ld_night d) (ms_map st)
      in (p, st\<lparr>ms_map := m, ms_last_obs := Some ob, ms_acted := False, ms_last_screen := Some (se_id (pl_entry p)),
           ms_new_ever := ms_new_ever st + (if pl_new_ever p then 1 else 0),
           ms_new_run := ms_new_run st + (if pl_new_run p then 1 else 0),
           ms_last_new := (if pl_new_run p then i else ms_last_new st)\<rparr>))"

definition check_dead :: "loop_deps \<Rightarrow> nat \<Rightarrow> screen_entry \<Rightarrow> string \<Rightarrow> string \<Rightarrow> mission_state \<Rightarrow> mission_state" where
  "check_dead d i s hash sig st =
     (case ms_pending st of
        None \<Rightarrow> st
      | Some pt \<Rightarrow>
          let st0 = st\<lparr>ms_pending := None\<rparr> in
          if \<not> unchanged (pt_hash pt) (pt_sig pt) hash sig then st0
          else
            let n = ms_dead_taps st (pt_key pt) + 1; st1 = st0\<lparr>ms_dead_taps := (ms_dead_taps st)(pt_key pt := n)\<rparr> in
            if n = 2
            then flag d ((by_oracle ''dead_control'' Medium (pt_key pt) (quoted (pt_label pt) @ '' does nothing when tapped'')
                     (''Tapping '' @ quoted (pt_label pt) @ '' on '' @ se_name s @ '' left the screen unchanged, twice.'') i s)
                   \<lparr>ca_point := Some (pt_point pt)\<rparr>) st1
            else st1)"

definition check_frozen :: "loop_deps \<Rightarrow> nat \<Rightarrow> screen_entry \<Rightarrow> string \<Rightarrow> string \<Rightarrow> mission_state \<Rightarrow> mission_state" where
  "check_frozen d i s hash sig st =
     (let n = (case ms_prev st of
                 None \<Rightarrow> 0 | Some (h, g) \<Rightarrow> if h \<noteq> [] \<and> unchanged h g hash sig then ms_same_run st + 1 else 0);
          st1 = st\<lparr>ms_same_run := n, ms_prev := Some (hash, sig)\<rparr>
      in if n = 4 then flag d (by_oracle ''frozen'' High (se_id s) (se_name s @ '' stops responding'')
        (''The screen stayed identical for four steps of input on '' @ se_name s @ ''.'') i s) st1 else st1)"

definition check_blank :: "loop_deps \<Rightarrow> nat \<Rightarrow> screen_entry \<Rightarrow> observation \<Rightarrow> mission_state \<Rightarrow> mission_state" where
  "check_blank d i s ob st =
     (if 1 < i \<and> ob_foreground ob = Some (ld_app d) \<and> ob_blank ob
      then flag d (by_oracle ''blank'' High (se_id s) (''Blank screen after reaching '' @ se_name s)
        (''The app is in front and the screen is one flat colour (luminance spread '' @ ob_spread ob @ '').'') i s) st else st)"

definition a11y_candidate :: "nat \<Rightarrow> screen_entry \<Rightarrow> tree_finding \<Rightarrow> candidate" where
  "a11y_candidate i s f =
     by_oracle ''a11y'' Low (a11y_key (tf_detail f))
       ((if tf_check f = ''a11y-target-size'' then ''Touch target too small on '' else ''Unlabelled control on '') @ se_name s)
       (tf_detail f) i s"

definition tree_defect :: "tree_finding \<Rightarrow> bool" where
  "tree_defect f \<longleftrightarrow> tf_check f = ''a11y-label'' \<or> tf_check f = ''a11y-target-size''"

text \<open>Accessibility, once a screen, on the second look at it in a row.\<close>

definition check_a11y :: "loop_deps \<Rightarrow> nat \<Rightarrow> screen_entry \<Rightarrow> string option \<Rightarrow> observation \<Rightarrow> mission_state \<Rightarrow> mission_state" where
  "check_a11y d i s prev_screen ob st =
     (case ob_nodes ob of
        None \<Rightarrow> st
      | Some ns \<Rightarrow>
          if prev_screen = Some (se_id s) \<and> se_id s \<notin> set (ms_a11y_done st)
          then fold (\<lambda>f. flag d (a11y_candidate i s f))
                 (filter tree_defect (a11y_findings (on_screen ns (ob_width ob) (ob_height ob)) (geometry_of ob) (se_name s) 44 5))
                 (st\<lparr>ms_a11y_done := se_id s # ms_a11y_done st\<rparr>)
          else st)"

definition visual_candidate :: "nat \<Rightarrow> screen_entry \<Rightarrow> visual_issue \<Rightarrow> candidate" where
  "visual_candidate i s v =
     \<lparr>ca_check = ''visual'', ca_severity = (if vi_class v = ''raw_error'' then High else Medium), ca_source = Judged,
      ca_key = vi_class v @ '':'' @ vi_where v, ca_title = cut_first (word ''_'') '' '' None (vi_class v) @ '' on '' @ se_name s,
      ca_detail = vi_text v @ (if vi_where v = [] then [] else '' ('' @ vi_where v @ '')''), ca_step = i, ca_screen = s, ca_up_to = 0,
      ca_class = Some (vi_class v), ca_point = None, ca_goal = None\<rparr>"

definition check_visual :: "loop_deps \<Rightarrow> nat \<Rightarrow> placed \<Rightarrow> look \<Rightarrow> mission_state \<Rightarrow> mission_state" where
  "check_visual d i p lk st =
     (let s = pl_entry p in
      if ld_judge d \<and> pl_new_run p \<and> se_id s \<notin> set (ms_judged st) \<and> ''visual'' \<notin> set (ld_disabled_checks d)
      then fold (\<lambda>v. flag d (visual_candidate i s v)) (lk_visual lk) (st\<lparr>ms_judged := se_id s # ms_judged st\<rparr>)
      else st)"

section \<open>Acting on a call\<close>

definition settle_for :: "action \<Rightarrow> surface \<Rightarrow> nat" where
  "settle_for a sf =
     (case a of
        Wait_Ms _ \<Rightarrow> 0
      | _ \<Rightarrow> if sf = Dpad then 450
             else (case a of Type_Text _ _ _ _ \<Rightarrow> 500 | Scroll _ _ \<Rightarrow> 700 | Swipe _ _ _ _ _ \<Rightarrow> 700 | _ \<Rightarrow> 900))"

definition control_label :: "a11y_node \<Rightarrow> string" where
  "control_label n = trim (first_text [an_label n, an_text n, after_last (CHR ''/'') (an_id n), an_cls n])"

definition issue_check :: "string \<Rightarrow> string \<times> string option" where
  "issue_check kind =
     (if kind = ''dead_control'' then (''dead_control'', None)
      else if kind = ''wrong_result'' then (''goal'', None)
      else if kind = ''error_message'' then (''visual'', Some ''raw_error'')
      else if kind = ''language'' then (''visual'', Some ''untranslated'')
      else (''visual'', None))"

definition issue_candidate :: "nat \<Rightarrow> screen_entry \<Rightarrow> string \<Rightarrow> string \<Rightarrow> string option \<Rightarrow> candidate" where
  "issue_candidate i s kind desc element =
     \<lparr>ca_check = fst (issue_check kind), ca_severity = Medium, ca_source = Agent,
      ca_key = kind @ '':'' @ (case element of None \<Rightarrow> desc | Some e \<Rightarrow> e), ca_title = take 80 desc, ca_detail = desc, ca_step = i,
      ca_screen = s, ca_up_to = 0, ca_class = snd (issue_check kind), ca_point = None, ca_goal = None\<rparr>"

fun remote_action :: "action \<Rightarrow> bool" where
  "remote_action (Press _) = True"
| "remote_action (Type_Text _ _ _ _) = True"
| "remote_action (Wait_Ms _) = True"
| "remote_action _ = False"

definition focused_node :: "actuator_caps \<Rightarrow> action \<Rightarrow> a11y_node list option \<Rightarrow> nat option" where
  "focused_node caps a nodes =
     (case nodes of
        None \<Rightarrow> None
      | Some ns \<Rightarrow>
          if ac_surface caps = Dpad \<and> a = Press ''select'' then List.find (\<lambda>i. an_focused (ns ! i)) [0..<length ns] else None)"

definition remember_tap :: "screen_entry \<Rightarrow> observation \<Rightarrow> string \<Rightarrow> snapped \<Rightarrow> mission_state \<Rightarrow> mission_state" where
  "remember_tap s ob sig sn st =
     (case (sn_action sn, sn_node sn, ob_nodes ob) of
        (Tap x y, Some j, Some ns) \<Rightarrow>
          if sn_miss sn then st
          else
            let l = control_label (ns ! j) in
            st\<lparr>ms_pending := Some \<lparr>pt_key = se_id s @ '':'' @ l @ '':'' @ an_id (ns ! j), pt_hash = ob_hash ob, pt_sig = sig,
              pt_point = (x, y), pt_label = l\<rparr>\<rparr>
      | _ \<Rightarrow> st)"

text \<open>
  One action of a call; \<open>k\<close> counts the inputs of the turn. A refused action and one the device did not take
  leave no entry.
\<close>

definition do_action ::
  "loop_deps \<Rightarrow> nat \<Rightarrow> look \<Rightarrow> screen_entry \<Rightarrow> observation \<Rightarrow> string \<Rightarrow> action \<Rightarrow> nat \<times> mission_state \<Rightarrow> nat \<times> mission_state" where
  "do_action d i lk s ob sig a kst =
     (let (k, st) = kst; caps = ld_caps d; m = ld_mission d in
      if ac_surface caps = Dpad \<and> \<not> remote_action a then (k, st)
      else
        let sn = snap a (ob_nodes ob) (ob_width ob) (ob_height ob);
            st1 = st\<lparr>ms_misses := ms_misses st + (if sn_miss sn then 1 else 0)\<rparr>
        in case leash (ld_regex d) (sn_action sn) (ob_nodes ob) (coalesce (sn_node sn) (focused_node caps a (ob_nodes ob)))
              (mi_allow m) (mi_block m) of
             Some danger \<Rightarrow> (k, st1\<lparr>ms_refused := ms_refused st1 @ [danger]\<rparr>)
           | None \<Rightarrow>
               if \<not> lk_took lk k then (k + 1, st1)
               else (k + 1, remember_tap s ob sig sn
                 (st1\<lparr>ms_executed := ms_executed st1 @ [Did i (sn_action sn) (settle_for (sn_action sn) (ac_surface caps))],
                    ms_actions := ms_actions st1 + 1, ms_acted := True\<rparr>)))"

text \<open>One converted call; \<open>None\<close> where bringing the app back from the background throws.\<close>

definition do_converted ::
  "loop_deps \<Rightarrow> nat \<Rightarrow> look \<Rightarrow> screen_entry \<Rightarrow> observation \<Rightarrow> string \<Rightarrow> converted \<Rightarrow> nat \<times> mission_state \<Rightarrow>
   (nat \<times> mission_state) option" where
  "do_converted d i lk s ob sig c kst =
     (let (k, st) = kst in
      case c of
        Act a \<Rightarrow> Some (do_action d i lk s ob sig a kst)
      | Answer t \<Rightarrow> Some (k, st\<lparr>ms_answer := Some t, ms_ended := ''answer''\<rparr>)
      | Issue kind desc element \<Rightarrow> Some (k, flag d (issue_candidate i s kind desc element) st)
      | Go_Home \<Rightarrow> if lk_launched lk then Some (k, st\<lparr>ms_executed := ms_executed st @ [Went_Home i]\<rparr>) else None
      | _ \<Rightarrow> Some kst)"

fun do_all ::
  "(converted \<Rightarrow> nat \<times> mission_state \<Rightarrow> (nat \<times> mission_state) option) \<Rightarrow> converted list \<Rightarrow> nat \<times> mission_state \<Rightarrow>
   (nat \<times> mission_state) option" where
  "do_all f [] kst = Some kst"
| "do_all f (c # cs) kst = Option.bind (f c kst) (do_all f cs)"

text \<open>The calls of a turn in order; \<open>None\<close> where one of them throws.\<close>

fun do_calls ::
  "loop_deps \<Rightarrow> nat \<Rightarrow> look \<Rightarrow> screen_entry \<Rightarrow> observation \<Rightarrow> string \<Rightarrow> tool_call list \<Rightarrow> nat \<times> mission_state \<Rightarrow>
   (nat \<times> mission_state) option" where
  "do_calls d i lk s ob sig [] kst = Some kst"
| "do_calls d i lk s ob sig (c # cs) kst =
     Option.bind (convert_call c (ob_width ob) (ob_height ob) (ld_caps d)) (\<lambda>vs.
     Option.bind (do_all (do_converted d i lk s ob sig) vs kst) (do_calls d i lk s ob sig cs))"

section \<open>Crashes\<close>

definition crash_candidate :: "nat \<Rightarrow> screen_entry \<Rightarrow> nat \<Rightarrow> string \<Rightarrow> candidate" where
  "crash_candidate i s n sig =
     (by_oracle (if starts_with ''ANR'' sig then ''anr'' else ''crash'') High sig
       (if starts_with ''ANR'' sig then ''App not responding after an action on '' @ se_name s else ''Crash: '' @ take 100 sig)
       (sig @ '' (after step '' @ nat_str i @ '' on '' @ se_name s @ '')'') i s)
     \<lparr>ca_up_to := n\<rparr>"

definition check_crash :: "nat \<Rightarrow> screen_entry \<Rightarrow> crash_report \<Rightarrow> mission_state \<Rightarrow> mission_state" where
  "check_crash i s cr st =
     (if cr_count cr = 0 then st
      else st\<lparr>ms_crashes := ms_crashes st + cr_count cr,
          ms_candidates := ms_candidates st @ map (crash_candidate i s (length (ms_executed st))) (cr_signatures cr),
          ms_executed := ms_executed st @ [Relaunched i], ms_pending := None\<rparr>)"

section \<open>A turn of the loop\<close>

text \<open>How a turn ends: on to the next step, this step again, the mission over, or an exception out of it, with the map as it was left.\<close>

datatype turn_end = Next mission_state | Again mission_state | Over mission_state | Thrown string screen_map

text \<open>Another app is in front: back once, then a relaunch if that did not do it.\<close>

definition bring_back :: "loop_deps \<Rightarrow> nat \<Rightarrow> look \<Rightarrow> mission_state \<Rightarrow> turn_end" where
  "bring_back d i lk st =
     (let st1 = st\<lparr>ms_left := ms_left st + 1\<rparr> in
      if (case lk_again lk of None \<Rightarrow> False | Some o2 \<Rightarrow> \<not> left_app (ob_foreground o2) (ld_app d)) then Next st1
      else if lk_launched lk then Next (st1\<lparr>ms_executed := ms_executed st1 @ [Relaunched i]\<rparr>)
      else Thrown ''the app could not be brought back'' (ms_map st1))"

definition model_gone :: "string \<Rightarrow> bool" where
  "model_gone e \<longleftrightarrow>
     (let l = lower e in
      list_ex (\<lambda>w. contains w l) [''invalid model identifier'', ''model is unloaded'', ''model_not_found'', ''notfounderror'', ''no model loaded'', ''no models loaded''] \<or>
      found (in_order [word ''model '', Many (Chr (\<lambda>c. c \<noteq> CHR 0x0A \<and> c \<noteq> CHR 0x0D)), word '' '', Maybe (word ''is ''), word ''not '',
        words_of [''found'', ''loaded'']]) l)"

definition step_taken :: "nat \<Rightarrow> screen_entry \<Rightarrow> look \<Rightarrow> trajectory_step" where
  "step_taken i s lk = \<lparr>ts_i = i, ts_screen = se_id s, ts_calls = mt_calls (lk_turn lk)\<rparr>"

definition no_calls :: "loop_deps \<Rightarrow> look \<Rightarrow> screen_entry \<Rightarrow> nat \<Rightarrow> mission_state \<Rightarrow> turn_end" where
  "no_calls d lk s i st =
     (let st1 = st\<lparr>ms_errors := ms_errors st + 1\<rparr>;
          retry = (case mt_error (lk_turn lk) of None \<Rightarrow> False | Some e \<Rightarrow> e \<noteq> [] \<and> model_gone e) \<and> ld_can_rewarm d \<and> ms_rewarms st < 2;
          st2 = (if retry then st1\<lparr>ms_rewarms := ms_rewarms st + 1\<rparr> else st1);
          st3 = st2\<lparr>ms_steps := ms_steps st2 @ [step_taken i s lk], ms_bad_turns := ms_bad_turns st2 + 1\<rparr>
      in if retry \<and> lk_rewarmed lk then Again st2
         else if 3 < ms_bad_turns st3 then Over (st3\<lparr>ms_ended := ''model''\<rparr>)
         else Next st3)"

definition background_now :: "loop_deps \<Rightarrow> nat \<Rightarrow> bool" where
  "background_now d i \<longleftrightarrow>
     (case ld_background_at d of
        None \<Rightarrow> False
      | Some share \<Rightarrow> share \<noteq> 0 \<and> int i = max 2 (js_round (of_nat (ld_max_steps d) * share)))"

text \<open>From the model's answer on.\<close>

definition act_on_turn :: "loop_deps \<Rightarrow> nat \<Rightarrow> look \<Rightarrow> screen_entry \<Rightarrow> observation \<Rightarrow> string \<Rightarrow> mission_state \<Rightarrow> turn_end" where
  "act_on_turn d i lk s ob sig st0 =
     (let st = st0\<lparr>ms_turn_error := mt_error (lk_turn lk)\<rparr> in
      if mt_calls (lk_turn lk) = [] then no_calls d lk s i st
      else case do_calls d i lk s ob sig (mt_calls (lk_turn lk)) (0, st\<lparr>ms_bad_turns := 0\<rparr>) of
        None \<Rightarrow> Thrown ''a call could not be carried out'' (ms_map st)
      | Some (_, st1) \<Rightarrow>
          let st2 = check_crash i s (lk_crashed lk) st1; st3 = st2\<lparr>ms_steps := ms_steps st2 @ [step_taken i s lk], ms_last_step := i\<rparr> in
          if ms_answer st1 \<noteq> None \<and> ms_ended st1 = ''answer'' then Over st3
          else if ms_last_new st3 + 18 \<le> i then Over (st3\<lparr>ms_ended := ''stuck''\<rparr>)
          else Next st3)"

definition screen_has_text :: "observation \<Rightarrow> bool" where
  "screen_has_text ob =
     (case ob_nodes ob of None \<Rightarrow> False
      | Some ns \<Rightarrow> 3 \<le> length (filter (\<lambda>n. trim (if an_text n \<noteq> [] then an_text n else an_label n) \<noteq> []) ns))"

definition see_and_act :: "loop_deps \<Rightarrow> nat \<Rightarrow> look \<Rightarrow> observation \<Rightarrow> mission_state \<Rightarrow> turn_end" where
  "see_and_act d i lk ob st =
     (if i = 1 \<and> ob_blank ob \<and> screen_has_text ob then Thrown ''returns blank screenshots while its UI tree has text'' (ms_map st)
      else
        let sig = ld_state_sig d (ob_nodes ob); hash = ob_hash ob; prev_screen = ms_last_screen st;
            (p, st1) = place d i lk ob st; s = pl_entry p;
            st2 = check_blank d i s ob (check_frozen d i s hash sig (check_dead d i s hash sig st1))
        in if left_app (ob_foreground ob) (ld_app d) then bring_back d i lk st2
           else
             let st3 = check_visual d i p lk (check_a11y d i s prev_screen ob st2) in
             if background_now d i
             then if lk_launched lk then act_on_turn d i lk s ob sig (st3\<lparr>ms_executed := ms_executed st3 @ [Went_Home i]\<rparr>)
                  else Thrown ''the app could not be brought back'' (ms_map st3)
             else act_on_turn d i lk s ob sig st3)"

definition mission_turn :: "loop_deps \<Rightarrow> nat \<Rightarrow> look \<Rightarrow> mission_state \<Rightarrow> turn_end" where
  "mission_turn d i lk st =
     (if lk_late lk then Over (st\<lparr>ms_ended := ''time''\<rparr>)
      else case lk_seen lk of
        None \<Rightarrow>
          let st1 = st\<lparr>ms_errors := ms_errors st + 1, ms_bad_turns := ms_bad_turns st + 1\<rparr> in
          if 3 < ms_bad_turns st1 then Over (st1\<lparr>ms_ended := ''device''\<rparr>) else Next st1
      | Some ob \<Rightarrow> see_and_act d i lk ob st)"

definition mission_starts :: "screen_map \<Rightarrow> mission_state" where
  "mission_starts m =
     \<lparr>ms_map = m, ms_executed = [], ms_candidates = [], ms_steps = [], ms_last_step = 0, ms_actions = 0, ms_misses = 0, ms_refused = [],
      ms_errors = 0, ms_left = 0, ms_crashes = 0, ms_new_ever = 0, ms_new_run = 0, ms_answer = None, ms_ended = ''budget'',
      ms_a11y_done = [], ms_judged = [], ms_dead_taps = (\<lambda>_. 0), ms_last_new = 0, ms_bad_turns = 0, ms_same_run = 0, ms_prev = None,
      ms_pending = None, ms_last_obs = None, ms_last_screen = None, ms_turn_error = None, ms_rewarms = 0, ms_acted = False\<rparr>"

end
