(* ===== verification/Explore_Confirm.thy ===== *)
theory Explore_Confirm
  imports Explore_Mission
begin

text \<open>
  A whole mission and what is believed of it: the loop and the end state (\<open>workloads/explore/loop.ts\<close>),
  the replay of a candidate on a clean install (\<open>loop.ts\<close>, \<open>replay.ts\<close>), which candidates are replayed
  and filed (\<open>index.ts\<close>), and the finding as it is posted. \<open>sha1\<close>, the judge's verdict on a goal, and what
  the device shows on a replay are given.
\<close>

section \<open>The loop\<close>

lemma flag_rewarms [simp]: "ms_rewarms (flag d c st) = ms_rewarms st"
  by (simp add: flag_def)

lemma fold_flag_rewarms [simp]: "ms_rewarms (fold (\<lambda>x. flag d (f x)) xs st) = ms_rewarms st"
  by (induction xs arbitrary: st) simp_all

lemma checks_rewarms [simp]:
  "ms_rewarms (snd (place d i lk ob st)) = ms_rewarms st"
  "ms_rewarms (check_dead d i s h g st) = ms_rewarms st"
  "ms_rewarms (check_frozen d i s h g st) = ms_rewarms st"
  "ms_rewarms (check_blank d i s ob st) = ms_rewarms st"
  "ms_rewarms (check_a11y d i s prev ob st) = ms_rewarms st"
  "ms_rewarms (check_visual d i p lk st) = ms_rewarms st"
  by (simp_all add: place_def check_dead_def check_frozen_def check_blank_def check_a11y_def check_visual_def Let_def
      split: prod.splits option.splits)

lemma act_again: "act_on_turn d i lk s ob sig st = Again st' \<Longrightarrow> ms_rewarms st < 2 \<and> ms_rewarms st' = Suc (ms_rewarms st)"
  by (auto simp: act_on_turn_def no_calls_def Let_def split: if_splits option.splits prod.splits)

lemma turn_again: "mission_turn d i lk st = Again st' \<Longrightarrow> ms_rewarms st < 2 \<and> ms_rewarms st' = Suc (ms_rewarms st)"
  by (auto simp: mission_turn_def see_and_act_def bring_back_def Let_def dest!: act_again
      split: if_splits option.splits prod.splits) (metis checks_rewarms snd_conv)+

text \<open>\<open>looks k\<close> is what the \<open>k\<close>-th turn of the loop is given; \<open>Inl\<close> an exception out of it.\<close>

function steps_from :: "loop_deps \<Rightarrow> (nat \<Rightarrow> look) \<Rightarrow> nat \<Rightarrow> nat \<Rightarrow> mission_state \<Rightarrow> (string \<times> screen_map) + mission_state" where
  "steps_from d looks k i st =
     (if ld_max_steps d < i then Inr st
      else case mission_turn d i (looks k) st of
        Next st' \<Rightarrow> steps_from d looks (k + 1) (i + 1) st'
      | Again st' \<Rightarrow> steps_from d looks (k + 1) i st'
      | Over st' \<Rightarrow> Inr st'
      | Thrown e m \<Rightarrow> Inl (e, m))"
  by pat_completeness auto
termination
  by (relation "measures [\<lambda>(d, _, _, i, _). ld_max_steps d + 1 - i, \<lambda>(_, _, _, _, st). 2 - ms_rewarms st]")
    (auto dest: turn_again)

declare steps_from.simps [simp del]

definition run_steps :: "loop_deps \<Rightarrow> (nat \<Rightarrow> look) \<Rightarrow> screen_map \<Rightarrow> (string \<times> screen_map) + mission_state" where
  "run_steps d looks m = steps_from d looks 0 1 (mission_starts m)"

section \<open>The end state\<close>

definition endpoint_failure :: "string option \<Rightarrow> bool" where
  "endpoint_failure e \<longleftrightarrow> (case e of None \<Rightarrow> False | Some x \<Rightarrow> x \<noteq> [] \<and> x \<noteq> ''the reply had no tool call'')"

definition shown_texts :: "a11y_node list option \<Rightarrow> string list" where
  "shown_texts nodes =
     (case nodes of None \<Rightarrow> []
      | Some ns \<Rightarrow> map lower (filter (\<lambda>s. s \<noteq> []) (concat (map (\<lambda>n. [an_text n, an_label n, an_value n]) ns))))"

definition focused_label :: "a11y_node list option \<Rightarrow> string" where
  "focused_label nodes =
     (case nodes of None \<Rightarrow> []
      | Some ns \<Rightarrow> (case List.find an_focused ns of None \<Rightarrow> [] | Some n \<Rightarrow> lower (first_text [an_label n, an_text n])))"

definition screen_check :: "mission_check \<Rightarrow> string \<Rightarrow> bool \<times> string" where
  "screen_check c screen =
     (case mc_screen c of
        None \<Rightarrow> (True, ''end state reached'')
      | Some s \<Rightarrow>
          if s \<noteq> [] \<and> \<not> contains (lower s) (lower screen)
          then (False, ''ended on '' @ quoted screen @ '', not '' @ quoted s) else (True, ''end state reached''))"

definition bench_check :: "mission_check \<Rightarrow> a11y_node list option \<Rightarrow> string \<Rightarrow> bool \<times> string" where
  "bench_check c nodes screen =
     (let vis = shown_texts nodes; shown = (\<lambda>t. list_ex (contains (lower t)) vis);
          missing = filter (\<lambda>t. \<not> shown t) (mc_text c); present = filter shown (mc_absent c);
          label = focused_label nodes
      in if missing \<noteq> [] then (False, ''not on the final screen: '' @ join '', '' (map quote missing))
         else if present \<noteq> [] then (False, ''still on the final screen: '' @ join '', '' (map quote present))
         else case mc_focused c of
           None \<Rightarrow> screen_check c screen
         | Some f \<Rightarrow>
             if f \<noteq> [] \<and> \<not> contains (lower f) label
             then (False, ''focus is on '' @ quote (if label = [] then ''nothing'' else label) @ '', not '' @ quote f)
             else screen_check c screen)"

record mission_result =
  mr_state :: mission_state
  mr_goal :: "(bool option \<times> string) option"
  mr_bench :: "(bool \<times> string) option"
  mr_cut_off :: "string option"

definition cut_off :: "mission_state \<Rightarrow> string option" where
  "cut_off st =
     (if ms_ended st = ''device'' then Some ''the device stopped answering''
      else if ms_ended st = ''model'' \<and> endpoint_failure (ms_turn_error st)
        then Some (''the model endpoint stopped answering: '' @ take 200 (the (ms_turn_error st)))
      else None)"

text \<open>The last look of all: \<open>None\<close> where it failed, and then the last look of the loop stands in.\<close>

record ending =
  en_now :: string
  en_seen :: "observation option"
  en_goal :: "bool option \<times> string"

definition bench_of :: "loop_deps \<Rightarrow> ending \<Rightarrow> observation \<Rightarrow> screen_entry \<Rightarrow> mission_state \<Rightarrow> mission_check \<Rightarrow> (bool \<times> string) option" where
  "bench_of d en ob fs st c =
     (let b = bench_check c (ob_nodes ob) (se_name fs);
          b' = (case ms_last_obs st of
                  Some lo \<Rightarrow>
                    if \<not> fst b \<and> en_seen en \<noteq> None \<and> \<not> ms_acted st
                    then
                      let seen = (case Option.bind (ms_last_screen st) (\<lambda>i. by_id i (ms_map st)) of
                                    Some s \<Rightarrow> if se_name s = [] then se_name fs else se_name s | None \<Rightarrow> se_name fs)
                      in if fst (bench_check c (ob_nodes lo) seen)
                         then (True, ''end state reached when the model last looked; gone by the final look ('' @ snd b @ '')'')
                         else b
                    else b
                | None \<Rightarrow> b)
      in if cut_off st \<noteq> None \<and> \<not> fst b' then None else Some b')"

definition goal_asked :: "loop_deps \<Rightarrow> mission_state \<Rightarrow> string option" where
  "goal_asked d st =
     (case mi_success (ld_mission d) of
        Some s \<Rightarrow>
          if cut_off st = None \<and> ms_ended st \<noteq> ''model'' \<and> ld_judge d \<and> s \<noteq> [] \<and> mi_end_check (ld_mission d) = None \<and>
             ''goal'' \<notin> set (ld_disabled_checks d)
          then Some s else None
      | None \<Rightarrow> None)"

definition goal_candidate :: "mission \<Rightarrow> string \<Rightarrow> string \<Rightarrow> screen_entry \<Rightarrow> mission_state \<Rightarrow> candidate" where
  "goal_candidate m success reason fs st =
     \<lparr>ca_check = ''goal'', ca_severity = Medium, ca_source = Judged, ca_key = mi_id m, ca_title = quoted (mi_title m) @ '' did not hold'',
      ca_detail = success @ [CHR '' '', CHR 0x97] @ '' but: '' @ reason, ca_step = ms_last_step st, ca_screen = fs, ca_up_to = length (ms_executed st),
      ca_class = None, ca_point = None, ca_goal = Some (mi_goal m, success)\<rparr>"

definition mission_end :: "loop_deps \<Rightarrow> ending \<Rightarrow> mission_state \<Rightarrow> mission_result" where
  "mission_end d en st =
     (case coalesce (en_seen en) (ms_last_obs st) of
        None \<Rightarrow> \<lparr>mr_state = st, mr_goal = None, mr_bench = None, mr_cut_off = cut_off st\<rparr>
      | Some ob \<Rightarrow>
          let (p, m) = identify (ld_digest d) (en_now en) (ob_nodes ob) (ob_hash ob) (ob_height ob) (ld_night d) (ms_map st);
              fs = pl_entry p; st1 = st\<lparr>ms_map := m\<rparr>;
              bench = Option.bind (mi_end_check (ld_mission d)) (bench_of d en ob fs st1)
          in case goal_asked d st of
               None \<Rightarrow> \<lparr>mr_state = st1, mr_goal = None, mr_bench = bench, mr_cut_off = cut_off st\<rparr>
             | Some success \<Rightarrow>
                 let (met, reason) = en_goal en;
                     st2 = (if met = Some False
                            then st1\<lparr>ms_candidates := ms_candidates st1 @ [goal_candidate (ld_mission d) success reason fs st1]\<rparr>
                            else st1)
                 in \<lparr>mr_state = st2, mr_goal = Some (met, reason), mr_bench = bench, mr_cut_off = cut_off st\<rparr>)"

definition run_mission :: "loop_deps \<Rightarrow> (nat \<Rightarrow> look) \<Rightarrow> ending \<Rightarrow> screen_map \<Rightarrow> (string \<times> screen_map) + mission_result" where
  "run_mission d looks en m = map_sum id (mission_end d en) (run_steps d looks m)"

section \<open>What makes two of them the same\<close>

definition hexish :: "char \<Rightarrow> bool" where
  "hexish c \<longleftrightarrow> is_digit c \<or> c \<in> set ''abcdef''"

definition quoted_text :: "char \<Rightarrow> pat" where
  "quoted_text m = in_order [Chr ((=) m), Many (Chr (\<lambda>c. c \<noteq> m)), Chr ((=) m)]"

definition normalize_message :: "string \<Rightarrow> string" where
  "normalize_message s =
     (let h = replace_each (Then (word ''0x'') (Some_Of (Chr hexish))) ''#'' (lower s);
          i = replace_each (in_order [Edge, in_order (replicate 8 (Chr hexish)), Many (Chr hexish), Edge]) ''#'' h;
          n = replace_each digits_pat ''#'' i;
          t = replace_each (any_of [quoted_text (CHR 0x27), quoted_text (CHR 0x22)]) [CHR 0x27, CHR 0x85, CHR 0x27] n
      in take 200 (trim (replace_each Spaces '' '' t)))"

definition fingerprint :: "(string \<Rightarrow> string) \<Rightarrow> string \<Rightarrow> string \<Rightarrow> string \<Rightarrow> string \<Rightarrow> string \<Rightarrow> string" where
  "fingerprint sha1 app surface screen check k =
     sha1 (join ''|'' [app, surface, if check = ''crash'' \<or> check = ''anr'' then ''*'' else screen, check, normalize_message k])"

section \<open>The replay\<close>

text \<open>What a replay sends the device for a prefix of what was executed.\<close>

datatype replay_input = Launch_App | Home_Key | Input action nat

fun replay_of :: "executed \<Rightarrow> replay_input list" where
  "replay_of (Did i a settle) = [Input a settle]"
| "replay_of (Relaunched i) = [Launch_App]"
| "replay_of (Went_Home i) = [Home_Key, Launch_App]"

definition replay_through :: "executed list \<Rightarrow> nat \<Rightarrow> replay_input list" where
  "replay_through ex up_to = concat (map replay_of (take up_to ex))"

text \<open>
  What one replay gives: whether the reset, the sign-in and the replay itself went through, and the answers
  of the check that follows; \<open>None\<close> where that call threw.
\<close>

record replayed =
  rl_reset :: bool
  rl_signed_in :: bool
  rl_played :: bool
  rl_crashes :: "crash_report option"
  rl_before :: "observation option"
  rl_tapped :: bool
  rl_after :: "observation option"
  rl_visual :: "visual_issue list"
  rl_goal :: "bool option \<times> string"

definition same_look :: "loop_deps \<Rightarrow> observation \<Rightarrow> observation \<Rightarrow> bool" where
  "same_look d o1 o2 \<longleftrightarrow> unchanged (ob_hash o1) (ld_state_sig d (ob_nodes o1)) (ob_hash o2) (ld_state_sig d (ob_nodes o2))"

text \<open>Whether the check fires again; \<open>None\<close> where it throws.\<close>

definition crash_again :: "candidate \<Rightarrow> crash_report \<Rightarrow> bool" where
  "crash_again c cr \<longleftrightarrow>
     0 < cr_count cr \<and>
     (list_ex (\<lambda>s. normalize_message s = normalize_message (ca_key c)) (cr_signatures cr) \<or> ca_check c = ''anr'')"

definition a11y_again :: "candidate \<Rightarrow> observation \<Rightarrow> bool" where
  "a11y_again c ob =
     (case ob_nodes ob of
        None \<Rightarrow> False
      | Some ns \<Rightarrow>
          list_ex (\<lambda>f. tree_defect f \<and> a11y_key (tf_detail f) = ca_key c)
            (a11y_findings (on_screen ns (ob_width ob) (ob_height ob)) (geometry_of ob) (se_name (ca_screen c)) 44 25))"

definition visual_again :: "candidate \<Rightarrow> visual_issue list \<Rightarrow> bool" where
  "visual_again c vs =
     (case ca_class c of
        Some cls \<Rightarrow> if cls = [] then vs \<noteq> [] else list_ex (\<lambda>v. vi_class v = cls) vs
      | None \<Rightarrow> vs \<noteq> [])"

definition check_again :: "loop_deps \<Rightarrow> candidate \<Rightarrow> replayed \<Rightarrow> bool option" where
  "check_again d c r =
     (if ca_check c = ''crash'' \<or> ca_check c = ''anr'' then map_option (crash_again c) (rl_crashes r)
      else if ca_check c = ''blank''
        then map_option (\<lambda>ob. ob_foreground ob = Some (ld_app d) \<and> ob_blank ob) (rl_after r)
      else if ca_check c = ''frozen''
        then Option.bind (rl_before r) (\<lambda>o1. map_option (\<lambda>o2. ob_foreground o2 = Some (ld_app d) \<and> same_look d o1 o2) (rl_after r))
      else if ca_check c = ''dead_control''
        then (case ca_point c of
                None \<Rightarrow> Some False
              | Some _ \<Rightarrow>
                  Option.bind (rl_before r) (\<lambda>o1. if rl_tapped r then map_option (same_look d o1) (rl_after r) else None))
      else if ca_check c = ''a11y'' then map_option (a11y_again c) (rl_after r)
      else if ca_check c = ''visual''
        then (if ld_judge d then map_option (\<lambda>_. visual_again c (rl_visual r)) (rl_after r) else Some False)
      else if ca_check c = ''goal''
        then (if ld_judge d \<and> ca_goal c \<noteq> None then map_option (\<lambda>_. fst (rl_goal r) = Some False) (rl_after r) else Some False)
      else Some False)"

definition attempt_hits :: "loop_deps \<Rightarrow> candidate \<Rightarrow> replayed \<Rightarrow> bool" where
  "attempt_hits d c r \<longleftrightarrow> rl_reset r \<and> rl_signed_in r \<and> rl_played r \<and> check_again d c r = Some True"

record confirmed =
  cf_candidate :: candidate
  cf_attempts :: nat
  cf_reproduced :: nat

definition confirm :: "loop_deps \<Rightarrow> candidate \<Rightarrow> replayed list \<Rightarrow> confirmed" where
  "confirm d c rs = \<lparr>cf_candidate = c, cf_attempts = length rs, cf_reproduced = length (filter (attempt_hits d c) rs)\<rparr>"

definition platform_evidence :: "string \<Rightarrow> bool" where
  "platform_evidence check \<longleftrightarrow> check = ''crash'' \<or> check = ''anr''"

definition fileable :: "confirmed \<Rightarrow> bool" where
  "fileable c \<longleftrightarrow> platform_evidence (ca_check (cf_candidate c)) \<or> 0 < cf_reproduced c"

section \<open>Which candidates are replayed\<close>

fun severity_order :: "severity \<Rightarrow> nat" where
  "severity_order High = 0"
| "severity_order Medium = 1"
| "severity_order Low = 2"

fun source_order :: "source \<Rightarrow> nat" where
  "source_order Oracle = 0"
| "source_order Judged = 1"
| "source_order Agent = 2"

definition worst_first :: "candidate list \<Rightarrow> candidate list" where
  "worst_first = sort_key (\<lambda>c. (severity_order (ca_severity c), source_order (ca_source c), ca_step c))"

text \<open>One per fingerprint; the limit is looked at after each, so a limit of zero still picks one.\<close>

fun pick :: "(candidate \<Rightarrow> string) \<Rightarrow> nat \<Rightarrow> string list \<Rightarrow> candidate list \<Rightarrow> (candidate \<times> string) list" where
  "pick fp limit seen [] = []"
| "pick fp limit seen (c # cs) =
     (if fp c \<in> set seen then pick fp limit seen cs
      else (c, fp c) # (if limit \<le> Suc (length seen) then [] else pick fp limit (fp c # seen) cs))"

definition pick_candidates ::
  "(string \<Rightarrow> string) \<Rightarrow> string \<Rightarrow> string \<Rightarrow> nat \<Rightarrow> candidate list \<Rightarrow> (candidate \<times> string) list" where
  "pick_candidates sha1 app surface limit cs =
     pick (\<lambda>c. fingerprint sha1 app surface (se_id (ca_screen c)) (ca_check c) (ca_key c)) limit [] (worst_first cs)"

text \<open>What the owner's verdicts have switched off: classes of the visual judge, and whole checks.\<close>

definition switched_off :: "(string \<times> string option) list \<Rightarrow> string list \<times> string list" where
  "switched_off rows =
     (let rs = filter (\<lambda>r. \<not> platform_evidence (fst r)) rows;
          one = (\<lambda>r. fst r = ''visual'' \<and> (case snd r of None \<Rightarrow> False | Some s \<Rightarrow> s \<noteq> []))
      in (map (the \<circ> snd) (filter one rs), map fst (filter (\<lambda>r. \<not> one r) rs)))"

section \<open>Filing\<close>

text \<open>
  One picked candidate's turn: whether the night is nearly over, its replays, and what posting it gave
  (whether it was new, or nothing where the post failed).
\<close>

record filing_turn =
  ft_late :: bool
  ft_replays :: "replayed list"
  ft_posted :: "bool option"

record filing =
  fl_posts :: "(confirmed \<times> string) list"
  fl_capped :: "candidate list"
  fl_not_reproduced :: nat
  fl_findings :: nat
  fl_new :: nat

definition file_one :: "loop_deps \<Rightarrow> rat \<Rightarrow> candidate \<times> string \<Rightarrow> filing_turn \<Rightarrow> filing \<Rightarrow> filing" where
  "file_one d cap cfp t fl =
     (let c = fst cfp; conf = confirm d c (ft_replays t) in
      if \<not> fileable conf then fl\<lparr>fl_not_reproduced := fl_not_reproduced fl + 1\<rparr>
      else if cap \<le> of_nat (fl_new fl) then fl\<lparr>fl_capped := fl_capped fl @ [c]\<rparr>
      else
        let fl1 = fl\<lparr>fl_posts := fl_posts fl @ [(conf, snd cfp)]\<rparr> in
        case ft_posted t of
          None \<Rightarrow> fl1
        | Some new \<Rightarrow> fl1\<lparr>fl_findings := fl_findings fl1 + 1, fl_new := fl_new fl1 + (if new then 1 else 0)\<rparr>)"

fun file_picked :: "loop_deps \<Rightarrow> rat \<Rightarrow> (nat \<Rightarrow> filing_turn) \<Rightarrow> nat \<Rightarrow> (candidate \<times> string) list \<Rightarrow> filing \<Rightarrow> filing" where
  "file_picked d cap turns k [] fl = fl"
| "file_picked d cap turns k (c # cs) fl =
     (if ft_late (turns k) then fl
      else file_picked d cap turns (k + 1) cs (file_one d cap c (turns k) fl))"

end
