(* ===== verification/Explore_Report.thy ===== *)
theory Explore_Report
  imports Explore_Confirm
begin

text \<open>
  What a finding carries: the replay as a Maestro flow (\<open>workloads/explore/replay.ts\<close>) or a tvloop flow
  (\<open>replay-tvloop.ts\<close>), its steps in words (\<open>report.ts\<close>), and the body posted to the collector
  (\<open>index.ts\<close>), which \<open>Findings\<close> takes in. Digests of uploaded files are given.
\<close>

section \<open>A Maestro flow\<close>

definition js_round_str :: "jsnum \<Rightarrow> string" where
  "js_round_str n = (case n of Fin r \<Rightarrow> int_str (js_round r) | _ \<Rightarrow> num_str n)"

definition MAESTRO_KEYS :: "(string \<times> string) list" where
  "MAESTRO_KEYS =
     [(''up'', ''Remote Dpad Up''), (''down'', ''Remote Dpad Down''), (''left'', ''Remote Dpad Left''),
      (''right'', ''Remote Dpad Right''), (''select'', ''Remote Dpad Center''), (''back'', ''Back''), (''home'', ''Home''),
      (''enter'', ''Enter''), (''play_pause'', ''Remote Media Play Pause''), (''rewind'', ''Remote Media Rewind''),
      (''fast_forward'', ''Remote Media Fast Forward'')]"

definition pct :: "rat \<Rightarrow> rat \<Rightarrow> string" where
  "pct v whole = int_str (min 100 (max 0 (js_round (v / max 1 whole * 100)))) @ ''%''"

record flow_ctx =
  fc_app :: string
  fc_title :: string
  fc_setup :: "string option"
  fc_args :: "string list"
  fc_w :: rat
  fc_h :: rat

definition point_lines :: "flow_ctx \<Rightarrow> string \<Rightarrow> rat \<Rightarrow> rat \<Rightarrow> string list" where
  "point_lines f cmd x y = [cmd, ''    point: '' @ quoted (pct x (fc_w f) @ '','' @ pct y (fc_h f))]"

definition scroll_share :: "jsnum option \<Rightarrow> rat" where
  "scroll_share f =
     (case f of None \<Rightarrow> 5 / 10 | Some (Fin r) \<Rightarrow> min (9 / 10) (max (1 / 10) r) | Some PInf \<Rightarrow> 9 / 10 | Some _ \<Rightarrow> 1 / 10)"

definition swipe_lines :: "string \<Rightarrow> string \<Rightarrow> string \<Rightarrow> string list" where
  "swipe_lines start finish ms =
     [''- swipe:'', ''    start: '' @ quoted start, ''    end: '' @ quoted finish, ''    duration: '' @ ms]"

definition wait_lines :: "string \<Rightarrow> string list" where
  "wait_lines ms = [''- waitForAnimationToEnd:'', ''    timeout: '' @ ms]"

definition scroll_ends :: "string \<Rightarrow> rat \<Rightarrow> (rat \<times> rat) \<times> (rat \<times> rat)" where
  "scroll_ends dir f =
     (if dir = ''down'' then ((50, 50 + f), (50, 50 - f)) else if dir = ''up'' then ((50, 50 - f), (50, 50 + f))
      else if dir = ''right'' then ((50 + f, 50), (50 - f, 50)) else ((50 - f, 50), (50 + f, 50)))"

definition whole_pct :: "rat \<times> rat \<Rightarrow> string" where
  "whole_pct p = int_str (js_round (fst p)) @ ''%,'' @ int_str (js_round (snd p)) @ ''%''"

fun action_lines :: "flow_ctx \<Rightarrow> action \<Rightarrow> string list" where
  "action_lines f (Tap x y) = point_lines f ''- tapOn:'' x y"
| "action_lines f (Long_Press x y ms) = point_lines f ''- longPressOn:'' x y"
| "action_lines f (Type_Text t p ov en) =
     (case p of None \<Rightarrow> [] | Some (x, y) \<Rightarrow> point_lines f ''- tapOn:'' x y) @
     (if ov then [''- eraseText: 80''] else []) @ (if t = [] then [] else [''- inputText: '' @ quote t]) @
     (if en then [''- pressKey: Enter''] else [])"
| "action_lines f (Swipe x1 y1 x2 y2 ms) =
     swipe_lines (pct x1 (fc_w f) @ '','' @ pct y1 (fc_h f)) (pct x2 (fc_w f) @ '','' @ pct y2 (fc_h f)) (js_round_str ms)"
| "action_lines f (Scroll dir factor) =
     (let (s, t) = scroll_ends dir (scroll_share factor * 50) in swipe_lines (whole_pct s) (whole_pct t) ''350'')"
| "action_lines f (Press k) =
     [case map_of MAESTRO_KEYS k of Some m \<Rightarrow> ''- pressKey: '' @ m | None \<Rightarrow> ''# key '' @ k @ '' has no Maestro equivalent'']"
| "action_lines f Hide_Keyboard = [''- hideKeyboard'']"
| "action_lines f (Wait_Ms ms) = wait_lines (int_str (js_round ms))"

fun is_wait :: "action \<Rightarrow> bool" where
  "is_wait (Wait_Ms _) = True"
| "is_wait _ = False"

fun step_of :: "executed \<Rightarrow> nat" where
  "step_of (Did i a settle) = i"
| "step_of (Relaunched i) = i"
| "step_of (Went_Home i) = i"

fun entry_lines :: "flow_ctx \<Rightarrow> executed \<Rightarrow> string list" where
  "entry_lines f (Did i a settle) =
     action_lines f a @ (if 0 < settle \<and> \<not> is_wait a then wait_lines (nat_str (max 500 settle)) else [])"
| "entry_lines f (Relaunched i) = [''- launchApp'']"
| "entry_lines f (Went_Home i) = [''- pressKey: Home'', ''- launchApp'']"

fun executed_lines :: "flow_ctx \<Rightarrow> nat option \<Rightarrow> executed list \<Rightarrow> string list" where
  "executed_lines f prev [] = []"
| "executed_lines f prev (e # es) =
     (if prev = Some (step_of e) then [] else [''# step '' @ nat_str (step_of e)]) @ entry_lines f e @
     executed_lines f (Some (step_of e)) es"

definition launch_arg :: "string \<Rightarrow> (string \<times> string) option" where
  "launch_arg a =
     (let k = takeWhile (\<lambda>c. word_char c \<or> c = CHR ''.'') a; r = drop (length k) a in
      case (k, r) of
        (c # _, e # v) \<Rightarrow>
          if (is_alpha c \<or> c = CHR ''_'') \<and> e = CHR ''='' \<and> CHR 0x0A \<notin> set v \<and> CHR 0x0D \<notin> set v then Some (k, v) else None
      | _ \<Rightarrow> None)"

definition launch_lines :: "string list \<Rightarrow> string list" where
  "launch_lines args =
     (let kvs = List.map_filter launch_arg args in
      [''- launchApp:'', ''    clearState: true''] @
      (if kvs = [] then [] else ''    arguments:'' # map (\<lambda>(k, v). ''      '' @ k @ '': '' @ quote v) kvs))"

definition maestro_lines :: "flow_ctx \<Rightarrow> executed list \<Rightarrow> string list" where
  "maestro_lines f es =
     (''appId: '' @ fc_app f) # (if fc_title f = [] then [] else [''name: '' @ quote (fc_title f)]) @ [''---''] @ launch_lines (fc_args f) @
     (case fc_setup f of None \<Rightarrow> [] | Some s \<Rightarrow> if s = [] then [] else [''- runFlow: '' @ quote s]) @ executed_lines f None es"

definition to_maestro :: "flow_ctx \<Rightarrow> executed list \<Rightarrow> nat \<Rightarrow> string" where
  "to_maestro f es up_to = join [CHR 0x0A] (maestro_lines f (take up_to es)) @ [CHR 0x0A]"

section \<open>A tvloop flow\<close>

definition TVLOOP_KEYS :: "string \<Rightarrow> string" where
  "TVLOOP_KEYS k =
     (if k = ''menu'' then ''options'' else if k = ''play_pause'' then ''playpause'' else if k = ''fast_forward'' then ''forward'' else k)"

datatype tv_step = Tv_Launch | Tv_Press "string list" | Tv_Type string | Tv_Wait int | Tv_No_Errors

definition settle_step :: "action list \<Rightarrow> tv_step list" where
  "settle_step rest = (case rest of Wait_Ms _ # _ \<Rightarrow> [] | _ \<Rightarrow> [Tv_Wait 800])"

text \<open>\<open>None\<close> where an action has no place on a TV.\<close>

fun tv_action :: "action \<Rightarrow> action list \<Rightarrow> tv_step list option" where
  "tv_action (Press k) rest = Some (Tv_Press [TVLOOP_KEYS k] # settle_step rest)"
| "tv_action (Type_Text t None ov en) rest =
     Some ((if ov then [Tv_Press (replicate 40 ''backspace'')] else []) @ (if t = [] then [] else [Tv_Type t]) @
       (if en then [Tv_Press [''enter'']] else []) @ settle_step rest)"
| "tv_action (Wait_Ms ms) rest = Some [Tv_Wait (max 0 (js_round ms))]"
| "tv_action _ rest = None"

fun tv_actions :: "action list \<Rightarrow> tv_step list option" where
  "tv_actions [] = Some []"
| "tv_actions (a # as) = Option.bind (tv_action a as) (\<lambda>s. map_option ((@) s) (tv_actions as))"

definition tvloop_flow :: "action list \<Rightarrow> tv_step list option" where
  "tvloop_flow as = map_option (\<lambda>s. [Tv_Launch, Tv_Wait 3000] @ s @ [Tv_No_Errors]) (tv_actions as)"

text \<open>The actions a Roku's replay file is made of.\<close>

fun action_of :: "executed \<Rightarrow> action list" where
  "action_of (Did i a settle) = [a]"
| "action_of _ = []"

definition roku_flow :: "executed list \<Rightarrow> nat \<Rightarrow> tv_step list option" where
  "roku_flow es up_to = tvloop_flow (concat (map action_of (take up_to es)))"

section \<open>The steps in words\<close>

definition place_words :: "string option \<Rightarrow> rat \<Rightarrow> rat \<Rightarrow> string" where
  "place_words element x y =
     (case element of
        Some e \<Rightarrow> if e = [] then '' at '' @ int_str (js_round x) @ '','' @ int_str (js_round y) else '' '' @ quoted e
      | None \<Rightarrow> '' at '' @ int_str (js_round x) @ '','' @ int_str (js_round y))"

fun describe_action :: "string option \<Rightarrow> action \<Rightarrow> string" where
  "describe_action el (Tap x y) = ''Tap'' @ place_words el x y"
| "describe_action el (Long_Press x y ms) = ''Long-press'' @ place_words el x y"
| "describe_action el (Type_Text t p ov en) =
     (if ov then ''Replace the text with'' else ''Type'') @ '' '' @ quote t @ (if en then '' and press Enter'' else [])"
| "describe_action el (Swipe _ _ _ _ _) = ''Swipe''"
| "describe_action el (Scroll dir f) = ''Scroll '' @ dir"
| "describe_action el (Press k) = ''Press '' @ cut_first (word ''_'') '' '' None k"
| "describe_action el Hide_Keyboard = ''Hide the keyboard''"
| "describe_action el (Wait_Ms ms) = ''Wait '' @ int_str (js_round (ms / 1000)) @ '' s''"

definition element_named :: "trajectory_step option \<Rightarrow> string option" where
  "element_named st =
     (case st of None \<Rightarrow> None
      | Some s \<Rightarrow>
          Option.bind (List.find (\<lambda>c. is_str (jget ''element'' (tc_args c))) (ts_calls s)) (\<lambda>c. str_of (jget ''element'' (tc_args c))))"

fun entry_words :: "trajectory_step option \<Rightarrow> executed \<Rightarrow> string" where
  "entry_words st (Relaunched i) = ''  (the app was restarted)''"
| "entry_words st (Went_Home i) = ''  Press Home, then reopen the app''"
| "entry_words st (Did i a settle) = ''  '' @ describe_action (element_named st) a"

fun words_from :: "trajectory_step list \<Rightarrow> (string \<Rightarrow> string) \<Rightarrow> string \<Rightarrow> executed list \<Rightarrow> string list" where
  "words_from steps names prev [] = []"
| "words_from steps names prev (e # es) =
     (let st = List.find (\<lambda>s. ts_i s = step_of e) steps in
      case st of
        Some s \<Rightarrow>
          if ts_screen s \<noteq> prev
          then (''On '' @ quoted (names (ts_screen s)) @ '':'') # entry_words st e # words_from steps names (ts_screen s) es
          else entry_words st e # words_from steps names prev es
      | None \<Rightarrow> entry_words st e # words_from steps names prev es)"

definition steps_in_words :: "trajectory_step list \<Rightarrow> executed list \<Rightarrow> nat \<Rightarrow> (string \<Rightarrow> string) \<Rightarrow> string list" where
  "steps_in_words steps es up_to names = words_from steps names [] (take up_to es)"

section \<open>The finding\<close>

definition severity_name :: "severity \<Rightarrow> string" where
  "severity_name s = (case s of High \<Rightarrow> ''high'' | Medium \<Rightarrow> ''medium'' | Low \<Rightarrow> ''low'')"

record finding_ctx =
  fx_app :: string
  fx_build :: string
  fx_platform :: string
  fx_device :: string
  fx_job :: string
  fx_mission :: string
  fx_condition :: string
  fx_previously :: "string option"
  fx_files :: "(string \<times> string option) list"

definition uploads :: "finding_ctx \<Rightarrow> obj" where
  "uploads cx = map (\<lambda>(k, v). (k, case v of Some s \<Rightarrow> JStr s | None \<Rightarrow> JUndef)) (fx_files cx)"

definition capital :: "string \<Rightarrow> string" where
  "capital s = (case s of [] \<Rightarrow> [] | c # t \<Rightarrow> (if is_lower c then char_of (code c - 32) else c) # t)"

definition finding_detail_text :: "finding_ctx \<Rightarrow> string list \<Rightarrow> confirmed \<Rightarrow> string" where
  "finding_detail_text cx notes c =
     take 4000 (ca_detail (cf_candidate c) @
       (if fx_condition cx = ''baseline'' then [] else '' Condition: '' @ fx_condition cx @ ''.'') @
       (case fx_previously cx of None \<Rightarrow> [] | Some p \<Rightarrow> if p = [] then [] else '' '' @ capital p @ ''.'') @
       '' Replays: '' @ join ''; '' notes @ ''.'')"

text \<open>\<open>replay\<close>: nothing for a crash or hang that did not come again.\<close>

definition replay_field :: "finding_ctx \<Rightarrow> string \<Rightarrow> confirmed \<Rightarrow> js" where
  "replay_field cx kind c =
     (if platform_evidence (ca_check (cf_candidate c)) \<and> cf_reproduced c = 0 then JNull
      else JObj [(''kind'', JStr kind),
        (''sha256'', case map_of (fx_files cx) ''replay'' of Some (Some s) \<Rightarrow> JStr s | _ \<Rightarrow> JNull),
        (''attempts'', JInt (int (cf_attempts c))), (''reproduced'', JInt (int (cf_reproduced c)))])"

definition finding_body :: "finding_ctx \<Rightarrow> string \<Rightarrow> string \<Rightarrow> string list \<Rightarrow> string list \<Rightarrow> confirmed \<Rightarrow> js" where
  "finding_body cx kind fp in_words notes c =
     (let k = cf_candidate c in
      JObj [(''fingerprint'', JStr fp), (''app'', JStr (fx_app cx)), (''build'', JStr (fx_build cx)), (''platform'', JStr (fx_platform cx)),
        (''device_id'', JStr (fx_device cx)), (''job_id'', JStr (fx_job cx)), (''mission_id'', JStr (fx_mission cx)),
        (''check'', JStr (ca_check k)), (''subclass'', case ca_class k of Some s \<Rightarrow> JStr s | None \<Rightarrow> JNull),
        (''severity'', JStr (severity_name (ca_severity k))), (''title'', JStr (take 200 (ca_title k))),
        (''detail'', JStr (finding_detail_text cx notes c)), (''screen'', JStr (se_id (ca_screen k))),
        (''screen_name'', JStr (se_name (ca_screen k))), (''steps'', JArr (map JStr in_words)), (''replay'', replay_field cx kind c),
        (''artifacts'', JObj (uploads cx))])"

end
