(* ===== verification/Explore_Night.thy ===== *)
theory Explore_Night
  imports Explore_Report
begin

text \<open>
  A night of the explorer: how the minutes left are shared (\<open>workloads/explore/night.ts\<close>), which mission
  cards run and in what order (\<open>missions.ts\<close>), and the loop over missions that explores, replays and files
  (\<open>index.ts\<close>). Minutes are exact rationals, times are milliseconds; \<open>offset\<close> is local time less UTC, taken
  not to change during the night.
\<close>

section \<open>The time left\<close>

definition clock_of :: "string \<Rightarrow> (nat \<times> nat) option" where
  "clock_of s =
     (let t = trim s; h = takeWhile is_digit t; r = drop (length h) t in
      case r of
        c # m \<Rightarrow>
          if c = CHR '':'' \<and> (length h = 1 \<or> length h = 2) \<and> length m = 2 \<and> list_all is_digit m \<and> digits_val h \<le> 23 \<and> digits_val m \<le> 59
          then Some (digits_val h, digits_val m) else None
      | [] \<Rightarrow> None)"

definition day_ms :: int where "day_ms = 86400000"

text \<open>The next local clock time after \<open>now\<close>.\<close>

definition next_clock :: "int \<Rightarrow> int \<Rightarrow> string \<Rightarrow> int option" where
  "next_clock offset now s =
     map_option (\<lambda>(h, m).
       let local = now + offset; t = local - local mod day_ms + int (h * 60 + m) * 60000 - offset
       in if t \<le> now then t + day_ms else t) (clock_of s)"

text \<open>Noon of the night's date.\<close>

definition night_start :: "int \<Rightarrow> int \<Rightarrow> int" where
  "night_start offset now =
     (let local = now + offset; midnight = local - local mod day_ms; noon = midnight + 43200000 in
      (if local mod day_ms < 43200000 then noon - day_ms else noon) - offset)"

record night_end =
  ne_end :: int
  ne_by :: string

definition night_ends :: "int \<Rightarrow> int \<Rightarrow> int \<Rightarrow> string \<Rightarrow> int option \<Rightarrow> night_end option" where
  "night_ends offset now started until max_minutes =
     map_option (\<lambda>stop.
       case max_minutes of
         Some m \<Rightarrow>
           if started + m * 60000 < stop
           then \<lparr>ne_end = started + m * 60000, ne_by = ''the job'' @ CHR 0x27 # ''s '' @ int_str m @ ''-minute max_minutes''\<rparr>
           else \<lparr>ne_end = stop, ne_by = ''the '' @ until @ '' stop''\<rparr>
       | None \<Rightarrow> \<lparr>ne_end = stop, ne_by = ''the '' @ until @ '' stop''\<rparr>) (next_clock offset now until)"

section \<open>Sharing it\<close>

definition fair_share :: "rat \<Rightarrow> rat list \<Rightarrow> rat list" where
  "fair_share avail want =
     (if sum_list want \<le> avail then want else map (\<lambda>m. of_int \<lfloor>avail * m / sum_list want\<rfloor>) want)"

definition useful :: "rat \<Rightarrow> rat list \<Rightarrow> rat list \<Rightarrow> bool" where
  "useful least want given \<longleftrightarrow> list_all2 (\<lambda>w m. min least w \<le> m) want given"

text \<open>The first \<open>k\<close> specs share what is left; the last is dropped until every share is of use.\<close>

fun plan_first :: "rat \<Rightarrow> rat \<Rightarrow> rat \<Rightarrow> rat list \<Rightarrow> nat \<Rightarrow> rat list option" where
  "plan_first left per_spec least asked 0 = None"
| "plan_first left per_spec least asked (Suc k) =
     (let avail = left - of_nat (Suc k) * per_spec; want = take (Suc k) asked; given = fair_share avail want in
      if (sum_list want \<le> avail \<or> sum_list want \<noteq> 0) \<and> useful least want given
      then Some (given @ map (\<lambda>_. 0) (drop (Suc k) asked))
      else plan_first left per_spec least asked k)"

definition plan_specs :: "rat list \<Rightarrow> rat \<Rightarrow> rat \<Rightarrow> rat \<Rightarrow> rat \<Rightarrow> rat list \<times> bool" where
  "plan_specs asked left safety per_spec least =
     (case plan_first (left - safety) per_spec least asked (length asked) of
        None \<Rightarrow> (map (\<lambda>_. 0) asked, asked \<noteq> [])
      | Some minutes \<Rightarrow> (minutes, list_ex (\<lambda>(m, a). m < a) (zip minutes asked)))"

definition short_night_note :: "nat \<Rightarrow> nat \<Rightarrow> rat \<Rightarrow> rat \<Rightarrow> string" where
  "short_night_note done planned minutes asked =
     ''short night: ran '' @ nat_str done @ '' of '' @ nat_str planned @ '' card'' @ (if planned = 1 then [] else ''s'') @ '': '' @
     int_str (js_round minutes) @ '' minutes left of the '' @ rat_str asked @ '' asked''"

section \<open>The newest build\<close>

record brain_build =
  bb_sha :: string
  bb_build :: "string option"
  bb_published :: "string option"
  bb_created :: "string option"

text \<open>Why tonight's build is missing; \<open>parse_date\<close> is \<open>Date.parse\<close>.\<close>

definition build_missing ::
  "(string \<Rightarrow> int option) \<Rightarrow> string \<Rightarrow> brain_build option \<Rightarrow> int \<Rightarrow> bool option \<Rightarrow> string option" where
  "build_missing parse_date app newest since fetched =
     (case newest of
        None \<Rightarrow> Some (''skipped: no '' @ app @ '' build on the brain (fleet-explore-builds has never uploaded one)'')
      | Some b \<Rightarrow>
          let seen_at = coalesce (bb_published b) (bb_created b); t = Option.bind seen_at (\<lambda>a. if a = [] then None else parse_date a);
              why = (if fetched = Some False then ''fleet-explore-builds did not run, or could not fetch develop''
                     else if fetched = Some True then ''fleet-explore-builds fetched develop but uploaded no build; see its log''
                     else ''fleet-explore-builds did not run or did not upload it'');
              which = (case bb_build b of Some v \<Rightarrow> v | None \<Rightarrow> take 12 (bb_sha b)) @
                (case seen_at of
                   Some a \<Rightarrow> if a = [] then [] else '' from '' @ cut_first (word ''T'') '' '' None (take 16 a) @ '' UTC''
                 | None \<Rightarrow> [])
          in if (case t of Some v \<Rightarrow> since \<le> v | None \<Rightarrow> False) then None
             else Some (''skipped: no '' @ app @ '' build for tonight ('' @ why @ ''; the newest is '' @ which @ '')''))"

text \<open>A warm-up refused for memory.\<close>

definition warm_refused_for_memory :: "string \<Rightarrow> bool" where
  "warm_refused_for_memory out \<longleftrightarrow>
     found (any_of [word ''memory pressure'', in_order [digits_pat, word ''% free, needs '', digits_pat, word ''%'']]) (lower out)"

section \<open>Mission cards\<close>

definition card_problem :: "js \<Rightarrow> string option" where
  "card_problem m =
     (case filter (\<lambda>k. case jget k m of JStr s \<Rightarrow> s = [] | _ \<Rightarrow> True) [''id'', ''title'', ''persona'', ''goal''] of
        k # _ \<Rightarrow> Some (''missing '' @ k)
      | [] \<Rightarrow>
          let steps = jget ''steps'' (jget ''budget'' m) in
          if steps \<noteq> JUndef \<and> (case int_of steps of None \<Rightarrow> True | Some n \<Rightarrow> n < 3 \<or> 300 < n)
          then Some ''budget.steps must be an integer from 3 to 300'' else None)"

text \<open>The cards of one file: the ones kept and the problems; a null where a card should be ends the file.\<close>

fun load_cards :: "string \<Rightarrow> string \<Rightarrow> js list \<Rightarrow> js list \<times> string list" where
  "load_cards app file_name [] = ([], [])"
| "load_cards app file_name (m # ms) =
     (if nullish m
      then ([], [app @ ''/'' @ file_name @ '': Cannot read properties of '' @ js_string m @ '' (reading '' @ [CHR 0x27] @ ''id'' @ [CHR 0x27] @ '')''])
      else
        let (cs, ps) = load_cards app file_name ms in
        case card_problem m of
          Some p \<Rightarrow> (cs, (app @ ''/'' @ file_name @ '': '' @ p) # ps)
        | None \<Rightarrow> (jset ''app'' (if nullish (jget ''app'' m) then JStr app else jget ''app'' m) m # cs, ps))"

text \<open>The files in name order, each parsed or the reason it could not be.\<close>

fun load_missions :: "string \<Rightarrow> (string \<times> (string + js)) list \<Rightarrow> js list \<times> string list" where
  "load_missions app [] = ([], [])"
| "load_missions app ((f, r) # fs) =
     (let (cs, ps) =
        (case r of Inl e \<Rightarrow> ([], [app @ ''/'' @ f @ '': '' @ e]) | Inr (JArr ms) \<Rightarrow> load_cards app f ms | Inr m \<Rightarrow> load_cards app f [m]);
          (cs', ps') = load_missions app fs
      in (cs @ cs', ps @ ps'))"

definition GENERIC_WORDS :: "string list" where
  "GENERIC_WORDS =
     [''screen'', ''view'', ''viewmodel'', ''model'', ''fragment'', ''activity'', ''test'', ''tests'', ''ui'', ''kt'', ''swift'',
      ''java'', ''src'', ''main'', ''app'', ''impl'', ''repository'', ''util'', ''utils'', ''helper'', ''component'', ''components'',
      ''the'', ''and'', ''for'', ''res'', ''values'', ''layout'', ''drawable'', ''xml'', ''json'', ''md'', ''strings'']"

definition word_gap :: "char \<Rightarrow> bool" where
  "word_gap c \<longleftrightarrow> c = CHR ''_'' \<or> c = CHR ''-'' \<or> c = CHR ''.'' \<or> is_space c"

text \<open>\<open>split\<close> before a capital followed by a small letter, and at runs of separators.\<close>

function cut_words :: "string \<Rightarrow> string \<Rightarrow> string list" where
  "cut_words cur [] = [cur]"
| "cut_words cur (c # s) =
     (if is_upper c \<and> (case s of [] \<Rightarrow> False | d # _ \<Rightarrow> is_lower d) \<and> cur \<noteq> [] then cur # cut_words [c] s
      else if \<not> (is_upper c \<and> (case s of [] \<Rightarrow> False | d # _ \<Rightarrow> is_lower d)) \<and> word_gap c then cur # cut_words [] (dropWhile word_gap s)
      else cut_words (cur @ [c]) s)"
  by pat_completeness auto
termination by (relation "measure (\<lambda>(_, s). length s)") (auto simp: le_imp_less_Suc length_dropWhile_le)

definition base_name :: "string \<Rightarrow> string" where
  "base_name f = after_last (CHR ''/'') (rev (dropWhile ((=) (CHR ''/'')) (rev f)))"

definition drop_extension :: "string \<Rightarrow> string" where
  "drop_extension s =
     (let e = takeWhile (\<lambda>c. c \<noteq> CHR ''.'') (rev s); r = drop (length e) (rev s) in
      if e \<noteq> [] \<and> r \<noteq> [] then rev (tl r) else s)"

definition changed_words :: "string list \<Rightarrow> string list" where
  "changed_words files =
     nub (filter (\<lambda>w. 3 \<le> length w \<and> w \<notin> set GENERIC_WORDS \<and> \<not> list_all is_digit w)
       (map lower (concat (map (\<lambda>f. cut_words [] (drop_extension (base_name f))) files))))"

record card =
  cd_id :: string
  cd_title :: string
  cd_goal :: string
  cd_screens :: "string list"
  cd_surfaces :: "surface list option"

record card_order =
  co_surface :: surface
  co_words :: "string list"
  co_last :: "string \<Rightarrow> string option"
  co_only :: "string list"
  co_bench :: bool

definition card_score :: "string list \<Rightarrow> card \<Rightarrow> nat" where
  "card_score ws m =
     (let hay = lower (join '' '' (cd_screens m @ [cd_title m, cd_goal m]))
      in length (filter (\<lambda>w. contains w hay) (nub (map lower ws))))"

definition card_runs :: "card_order \<Rightarrow> card \<Rightarrow> bool" where
  "card_runs ord m \<longleftrightarrow>
     (case cd_surfaces m of None \<Rightarrow> True | Some ss \<Rightarrow> co_surface ord \<in> set ss) \<and>
     (co_only ord = [] \<or> cd_id m \<in> set (co_only ord)) \<and>
     (if co_bench ord then starts_with ''bench-'' (cd_id m)
      else \<not> starts_with ''bench-'' (cd_id m) \<or> cd_id m \<in> set (co_only ord))"

text \<open>Most words first, then the least recently run (their times are ISO text), then file order.\<close>

definition order_missions :: "card_order \<Rightarrow> card list \<Rightarrow> card list" where
  "order_missions ord ms =
     sort_key (\<lambda>m. (- int (card_score (co_words ord) m), case co_last ord (cd_id m) of Some t \<Rightarrow> t | None \<Rightarrow> []))
       (filter (card_runs ord) ms)"

definition positive_to :: "rat \<Rightarrow> js \<Rightarrow> bool" where
  "positive_to hi v \<longleftrightarrow> num_lt (Fin 0) (js_number v) \<and> num_le (js_number v) (Fin hi)"

definition between_num :: "rat \<Rightarrow> rat \<Rightarrow> js \<Rightarrow> bool" where
  "between_num lo hi v \<longleftrightarrow> num_le (Fin lo) (js_number v) \<and> num_le (js_number v) (Fin hi)"

definition params_problem :: "js \<Rightarrow> string option" where
  "params_problem p =
     (if \<not> truthy p \<or> (case jget ''app_id'' p of JStr s \<Rightarrow> s = [] | _ \<Rightarrow> True)
      then Some ''params.app_id is required (the package or bundle id to explore)''
      else if jget ''minutes'' p \<noteq> JUndef \<and> \<not> positive_to 600 (jget ''minutes'' p)
        then Some ''params.minutes must be between 1 and 600''
      else if jget ''findings_per_night'' p \<noteq> JUndef \<and> \<not> between_num 0 50 (jget ''findings_per_night'' p)
        then Some ''params.findings_per_night must be 0-50''
      else if jget ''replay_attempts'' p \<noteq> JUndef \<and> \<not> between_num 1 5 (jget ''replay_attempts'' p)
        then Some ''params.replay_attempts must be 1-5''
      else None)"

section \<open>The night\<close>

text \<open>
  What one mission's turn is given: the clock, room on the host, the condition, the mission's own looks and
  ending (or what it threw, and whether that was the host not being ready), and each picked candidate's turn.
\<close>

record night_turn =
  nt_deps :: loop_deps
  nt_late :: bool
  nt_room :: bool
  nt_condition :: "string option"
  nt_reset :: "(string \<times> bool) option"
  nt_looks :: "nat \<Rightarrow> look"
  nt_ending :: ending
  nt_filing :: "nat \<Rightarrow> filing_turn"

datatype mission_entry =
    Skipped string string
  | Broke string string
  | Explored string mission_result

record night_ctx =
  nc_bench :: bool
  nc_app :: string
  nc_surface :: string
  nc_limit :: nat
  nc_cap :: rat
  nc_sha1 :: "string \<Rightarrow> string"

record night_state =
  ns_map :: screen_map
  ns_log :: "mission_entry list"
  ns_filing :: filing

definition explored :: "night_ctx \<Rightarrow> night_turn \<Rightarrow> mission_result \<Rightarrow> night_state \<Rightarrow> night_state" where
  "explored nc t r st =
     st\<lparr>ns_map := ms_map (mr_state r), ns_log := ns_log st @ [Explored (mi_id (ld_mission (nt_deps t))) r],
        ns_filing := (if nc_bench nc then ns_filing st
          else file_picked (nt_deps t) (nc_cap nc) (nt_filing t) 0
            (pick_candidates (nc_sha1 nc) (nc_app nc) (nc_surface nc) (nc_limit nc) (ms_candidates (mr_state r))) (ns_filing st))\<rparr>"

text \<open>The missions in order.\<close>

fun explore_missions :: "night_ctx \<Rightarrow> night_turn list \<Rightarrow> night_state \<Rightarrow> night_state" where
  "explore_missions nc [] st = st"
| "explore_missions nc (t # ts) st =
     (let mid = mi_id (ld_mission (nt_deps t)) in
      if nt_late t then st
      else if \<not> nt_room t then explore_missions nc ts (st\<lparr>ns_log := ns_log st @ [Skipped mid ''no room on this host'']\<rparr>)
      else case nt_condition t of
        Some e \<Rightarrow> explore_missions nc ts (st\<lparr>ns_log := ns_log st @ [Skipped mid e]\<rparr>)
      | None \<Rightarrow>
          (case nt_reset t of
             Some (e, not_ready) \<Rightarrow>
               let st1 = st\<lparr>ns_log := ns_log st @ [Broke mid (take 300 e)]\<rparr> in
               if not_ready then st1 else explore_missions nc ts st1
           | None \<Rightarrow>
               (case run_mission (nt_deps t) (nt_looks t) (nt_ending t) (ns_map st) of
                  Inl (e, m) \<Rightarrow> explore_missions nc ts (st\<lparr>ns_map := m, ns_log := ns_log st @ [Broke mid (take 300 e)]\<rparr>)
                | Inr r \<Rightarrow> explore_missions nc ts (explored nc t r st))))"

text \<open>The device's row: a device that completed no mission failed, and says why.\<close>

fun completed :: "mission_entry \<Rightarrow> bool" where
  "completed (Explored m r) = (mr_cut_off r = None)"
| "completed _ = False"

fun entry_reason :: "mission_entry \<Rightarrow> string" where
  "entry_reason (Skipped m e) = m @ '': '' @ e"
| "entry_reason (Broke m e) = m @ '': '' @ e"
| "entry_reason (Explored m r) = m @ '': '' @ (case mr_cut_off r of Some e \<Rightarrow> e | None \<Rightarrow> ''?'')"

definition device_row :: "string option \<Rightarrow> mission_entry list \<Rightarrow> bool \<times> string option" where
  "device_row short_note es =
     (if list_ex completed es then (True, short_note)
      else (False, Some ((case short_note of None \<Rightarrow> [] | Some n \<Rightarrow> n @ ''; '') @ ''no mission completed: '' @
        take 400 (join ''; '' (map entry_reason es)))))"

text \<open>The devices in order, up to the first whose turn comes after the deadline; and the job's final row over them.\<close>

definition devices_reached :: "(bool \<times> string \<times> bool \<times> string option) list \<Rightarrow> (string \<times> bool \<times> string option) list" where
  "devices_reached ds = map snd (takeWhile (\<lambda>d. \<not> fst d) ds)"

definition final_row :: "nat \<Rightarrow> (string \<times> bool \<times> string option) list \<Rightarrow> bool \<times> string option" where
  "final_row targets rows =
     (let failures = map (\<lambda>(d, _, e). d @ '': '' @ (case e of Some m \<Rightarrow> m | None \<Rightarrow> ''no mission completed'')) (filter (\<lambda>(_, ok, _). \<not> ok) rows);
          notes = nub (List.map_filter (\<lambda>(_, ok, e). if ok then e else None) rows)
      in if 0 < targets \<and> failures = [] then (True, if notes = [] then None else Some (join ''; '' notes))
         else (False, Some (if failures = [] then ''one or more devices completed no mission; see their rows''
           else take 500 (join ''; '' failures))))"

end
