(* ===== verification/Explore_Laws.thy ===== *)
theory Explore_Laws
  imports Explore_Night
begin

text \<open>
  Laws of the explorer: what every turn of a mission keeps of what it has executed and flagged, stated once
  as a locale over the two lists and used for each invariant; how many looks a mission takes; what filing
  and picking keep; the shares of a night.
\<close>

section \<open>What an executed input has passed\<close>

definition passed_leash :: "loop_deps \<Rightarrow> observation \<Rightarrow> action \<Rightarrow> bool" where
  "passed_leash d ob a \<longleftrightarrow>
     (\<exists>b. let sn = snap b (ob_nodes ob) (ob_width ob) (ob_height ob) in
        a = sn_action sn \<and>
        leash (ld_regex d) a (ob_nodes ob) (coalesce (sn_node sn) (focused_node (ld_caps d) b (ob_nodes ob)))
          (mi_allow (ld_mission d)) (mi_block (ld_mission d)) = None)"

fun harness_entry :: "executed \<Rightarrow> bool" where
  "harness_entry (Did i a settle) = False"
| "harness_entry _ = True"

section \<open>Invariants of a mission\<close>

locale mission_run =
  fixes d :: loop_deps and looks :: "nat \<Rightarrow> look" and J :: "executed list \<Rightarrow> candidate list \<Rightarrow> bool"
  assumes flags: "J ex cs \<Longrightarrow> \<not> switched_off_here d (ca_check c) (ca_class c) \<Longrightarrow> ca_up_to c = length ex \<Longrightarrow> J ex (cs @ [c])"
    and crashes: "J ex cs \<Longrightarrow> platform_evidence (ca_check c) \<Longrightarrow> ca_up_to c = length ex \<Longrightarrow> J ex (cs @ [c])"
    and acts: "J ex cs \<Longrightarrow> lk_seen (looks k) = Some ob \<Longrightarrow> passed_leash d ob a \<Longrightarrow> J (ex @ [Did i a settle]) cs"
    and brings: "J ex cs \<Longrightarrow> harness_entry e \<Longrightarrow> J (ex @ [e]) cs"
begin

abbreviation I :: "mission_state \<Rightarrow> bool" where
  "I st \<equiv> J (ms_executed st) (ms_candidates st)"

lemma flag_keeps: "I st \<Longrightarrow> I (flag d c st)"
  by (simp add: flag_def flags)

lemma fold_flag_keeps: "I st \<Longrightarrow> I (fold (\<lambda>x. flag d (f x)) xs st)"
  by (induction xs arbitrary: st) (simp_all add: flag_keeps)

lemma place_keeps: "place d i lk ob st = (p, st') \<Longrightarrow> I st \<Longrightarrow> I st'"
  by (auto simp: place_def Let_def split: prod.splits)

lemma dead_keeps: "I st \<Longrightarrow> I (check_dead d i s h g st)"
  by (auto simp: check_dead_def Let_def intro!: flag_keeps split: option.splits)

lemma frozen_keeps: "I st \<Longrightarrow> I (check_frozen d i s h g st)"
  by (auto simp: check_frozen_def Let_def intro!: flag_keeps split: option.splits)

lemma blank_keeps: "I st \<Longrightarrow> I (check_blank d i s ob st)"
  by (auto simp: check_blank_def intro!: flag_keeps)

lemma a11y_keeps: "I st \<Longrightarrow> I (check_a11y d i s prev ob st)"
  by (auto simp: check_a11y_def intro!: fold_flag_keeps split: option.splits)

lemma visual_keeps: "I st \<Longrightarrow> I (check_visual d i p lk st)"
  by (auto simp: check_visual_def Let_def intro!: fold_flag_keeps)

lemma remember_keeps: "I st \<Longrightarrow> I (remember_tap s ob sig sn st)"
  by (auto simp: remember_tap_def Let_def split: action.splits option.splits)

lemma action_keeps:
  assumes "lk_seen (looks n) = Some ob" "I (snd kst)"
  shows "I (snd (do_action d i lk s ob sig a kst))"
proof -
  let ?sn = "snap a (ob_nodes ob) (ob_width ob) (ob_height ob)"
  have "passed_leash d ob (sn_action ?sn)"
    if "leash (ld_regex d) (sn_action ?sn) (ob_nodes ob) (coalesce (sn_node ?sn) (focused_node (ld_caps d) a (ob_nodes ob)))
      (mi_allow (ld_mission d)) (mi_block (ld_mission d)) = None"
    using that by (auto simp: passed_leash_def Let_def)
  then show ?thesis
    using assms by (auto simp: do_action_def Let_def intro!: remember_keeps acts split: prod.splits option.splits)
qed

lemma converted_keeps:
  assumes "lk_seen (looks n) = Some ob" "do_converted d i lk s ob sig c kst = Some kst'" "I (snd kst)"
  shows "I (snd kst')"
  using assms action_keeps[OF assms(1), of kst]
  by (auto simp: do_converted_def intro!: flag_keeps brings split: prod.splits converted.splits if_splits)

lemma all_keeps:
  assumes "lk_seen (looks n) = Some ob" "do_all (do_converted d i lk s ob sig) cs kst = Some kst'" "I (snd kst)"
  shows "I (snd kst')"
  using assms(2,3)
  by (induction cs arbitrary: kst) (auto simp: bind_eq_Some_conv dest!: converted_keeps[OF assms(1)])

lemma calls_keeps:
  assumes "lk_seen (looks n) = Some ob" "do_calls d i lk s ob sig cs kst = Some kst'" "I (snd kst)"
  shows "I (snd kst')"
  using assms(2,3)
  by (induction cs arbitrary: kst) (auto simp: bind_eq_Some_conv dest!: all_keeps[OF assms(1)])

lemma crash_list_keeps:
  "J ex cs \<Longrightarrow> J ex (cs @ map (crash_candidate i s (length ex)) sigs)"
proof (induction sigs rule: rev_induct)
  case (snoc x sigs)
  from crashes[OF snoc.IH[OF snoc.prems], of "crash_candidate i s (length ex) x"]
  show ?case by (simp add: crash_candidate_def by_oracle_def platform_evidence_def)
qed simp

lemma check_crash_keeps: "I st \<Longrightarrow> I (check_crash i s cr st)"
  by (auto simp: check_crash_def intro!: brings crash_list_keeps)

fun good_end :: "turn_end \<Rightarrow> bool" where
  "good_end (Next st) = I st"
| "good_end (Again st) = I st"
| "good_end (Over st) = I st"
| "good_end (Thrown e m) = True"

lemma act_keeps:
  assumes "lk_seen (looks n) = Some ob" "I st"
  shows "good_end (act_on_turn d i lk s ob sig st)"
proof (cases "mt_calls (lk_turn lk) = []")
  case True
  with assms show ?thesis by (simp add: act_on_turn_def no_calls_def Let_def)
next
  case False
  let ?st = "st\<lparr>ms_turn_error := mt_error (lk_turn lk), ms_bad_turns := 0\<rparr>"
  show ?thesis
  proof (cases "do_calls d i lk s ob sig (mt_calls (lk_turn lk)) (0, ?st)")
    case None
    with False show ?thesis by (simp add: act_on_turn_def Let_def)
  next
    case (Some kst)
    have "I (snd kst)" by (rule calls_keeps[OF assms(1) Some]) (simp add: assms(2))
    then have "I (check_crash i s (lk_crashed lk) (snd kst))" by (rule check_crash_keeps)
    with False Some show ?thesis by (cases kst) (simp add: act_on_turn_def Let_def)
  qed
qed

lemma bring_back_keeps: "I st \<Longrightarrow> good_end (bring_back d i lk st)"
  by (simp add: bring_back_def Let_def brings split: option.splits)

lemma see_keeps:
  assumes "lk_seen (looks n) = Some ob" "I st"
  shows "good_end (see_and_act d i lk ob st)"
proof -
  obtain p st1 where p: "place d i lk ob st = (p, st1)" by fastforce
  let ?sig = "ld_state_sig d (ob_nodes ob)" and ?s = "pl_entry p"
  let ?st2 = "check_blank d i ?s ob (check_frozen d i ?s (ob_hash ob) ?sig (check_dead d i ?s (ob_hash ob) ?sig st1))"
  let ?st3 = "check_visual d i p lk (check_a11y d i ?s (ms_last_screen st) ob ?st2)"
  have st2: "I ?st2" by (intro blank_keeps frozen_keeps dead_keeps place_keeps[OF p assms(2)])
  then have st3: "I ?st3" by (intro visual_keeps a11y_keeps)
  then have "I (?st3\<lparr>ms_executed := ms_executed ?st3 @ [Went_Home i]\<rparr>)" by (simp add: brings)
  from act_keeps[OF assms(1) this] act_keeps[OF assms(1) st3] bring_back_keeps[OF st2]
  show ?thesis by (simp add: see_and_act_def p Let_def)
qed

lemma turn_keeps: "I st \<Longrightarrow> good_end (mission_turn d i (looks n) st)"
  by (auto simp: mission_turn_def Let_def intro: see_keeps split: option.splits)


lemma steps_keep_gen:
  "steps_from d' looks' k i st = Inr st' \<Longrightarrow> d' = d \<Longrightarrow> looks' = looks \<Longrightarrow> I st \<Longrightarrow> I st'"
proof (induction d' looks' k i st rule: steps_from.induct)
  case (1 d' looks' k i st)
  have g: "good_end (mission_turn d i (looks k) st)" by (rule turn_keeps) (rule 1(6))
  have s: "steps_from d looks k i st = Inr st'" using 1(3,4,5) by simp
  show ?case
  proof (cases "ld_max_steps d < i")
    case True
    with s 1(6) show ?thesis by (simp add: steps_from.simps[of d looks k i st])
  next
    case False
    with s g 1 show ?thesis
      by (cases "mission_turn d i (looks k) st") (simp_all add: steps_from.simps[of d looks k i st])
  qed
qed

lemmas steps_keep = steps_keep_gen[OF _ refl refl]

lemma run_keeps: "J [] [] \<Longrightarrow> run_steps d looks m = Inr st \<Longrightarrow> I st"
  by (auto simp: run_steps_def mission_starts_def dest: steps_keep)

end

section \<open>The invariants\<close>

text \<open>Every input sent to the device has passed the leash, on what the loop was looking at.\<close>

fun leashed :: "loop_deps \<Rightarrow> (nat \<Rightarrow> look) \<Rightarrow> executed \<Rightarrow> bool" where
  "leashed d looks (Did i a settle) = (\<exists>k ob. lk_seen (looks k) = Some ob \<and> passed_leash d ob a)"
| "leashed d looks _ = True"

interpretation leashing: mission_run d looks "\<lambda>ex cs. list_all (leashed d looks) ex"
  for d looks
proof unfold_locales
  fix ex :: "executed list" and cs :: "candidate list" and e
  assume "list_all (leashed d looks) ex" "harness_entry e"
  then show "list_all (leashed d looks) (ex @ [e])" by (cases e) simp_all
qed auto

text \<open>Nothing of a switched-off check is flagged, but what the platform's own log says.\<close>

definition switched_on :: "loop_deps \<Rightarrow> candidate \<Rightarrow> bool" where
  "switched_on d c \<longleftrightarrow> platform_evidence (ca_check c) \<or> \<not> switched_off_here d (ca_check c) (ca_class c)"

interpretation switching: mission_run d looks "\<lambda>ex cs. list_all (switched_on d) cs"
  for d looks
  by unfold_locales (auto simp: switched_on_def)

text \<open>A candidate's prefix lies within what was executed.\<close>

interpretation prefixes: mission_run d looks "\<lambda>ex cs. list_all (\<lambda>c. ca_up_to c \<le> length ex) cs"
  for d looks
  by unfold_locales (auto simp: list_all_iff)

section \<open>How many looks a mission takes\<close>

lemma remember_rewarms [simp]: "ms_rewarms (remember_tap s ob sig sn st) = ms_rewarms st"
  by (auto simp: remember_tap_def Let_def split: action.splits option.splits)

lemma action_rewarms [simp]: "ms_rewarms (snd (do_action d i lk s ob sig a kst)) = ms_rewarms (snd kst)"
  by (auto simp: do_action_def Let_def split: prod.splits option.splits)

lemma converted_rewarms: "do_converted d i lk s ob sig c kst = Some kst' \<Longrightarrow> ms_rewarms (snd kst') = ms_rewarms (snd kst)"
  by (auto simp: do_converted_def split: prod.splits converted.splits if_splits)

lemma all_rewarms: "do_all (do_converted d i lk s ob sig) cs kst = Some kst' \<Longrightarrow> ms_rewarms (snd kst') = ms_rewarms (snd kst)"
  by (induction cs arbitrary: kst) (auto simp: bind_eq_Some_conv dest: converted_rewarms)

lemma calls_rewarms: "do_calls d i lk s ob sig cs kst = Some kst' \<Longrightarrow> ms_rewarms (snd kst') = ms_rewarms (snd kst)"
  by (induction cs arbitrary: kst) (auto simp: bind_eq_Some_conv dest!: all_rewarms)

lemma act_next: "act_on_turn d i lk s ob sig st = Next st' \<Longrightarrow> ms_rewarms st \<le> ms_rewarms st'"
  by (auto simp: act_on_turn_def no_calls_def check_crash_def Let_def dest!: calls_rewarms split: if_splits option.splits prod.splits)

lemma place_rewarms: "place d i lk ob st = (p, st') \<Longrightarrow> ms_rewarms st' = ms_rewarms st"
  using checks_rewarms(1)[of d i lk ob st] by simp

lemma turn_next: "mission_turn d i lk st = Next st' \<Longrightarrow> ms_rewarms st \<le> ms_rewarms st'"
  by (auto simp: mission_turn_def see_and_act_def bring_back_def Let_def dest!: act_next place_rewarms
      split: if_splits option.splits prod.splits)

lemma steps_agree:
  "\<lbrakk>\<And>j. j < n \<Longrightarrow> looks j = looks' j; k + (ld_max_steps d + 1 - i) + (2 - ms_rewarms st) \<le> n\<rbrakk> \<Longrightarrow>
   steps_from d looks k i st = steps_from d looks' k i st"
proof (induction d looks k i st rule: steps_from.induct)
  case (1 d looks k i st)
  show ?case
  proof (cases "ld_max_steps d < i")
    case True
    then show ?thesis by (simp add: steps_from.simps[of d _ k i st])
  next
    case False
    then have same: "looks' k = looks k" using 1(4) by (intro 1(3)[symmetric]) simp
    show ?thesis
    proof (cases "mission_turn d i (looks k) st")
      case (Next st')
      have "steps_from d looks (k + 1) (i + 1) st' = steps_from d looks' (k + 1) (i + 1) st'"
        using turn_next[OF Next] False by (intro 1(1)[OF False Next] 1(3)) (use 1(4) in auto)
      with False Next same show ?thesis by (simp add: steps_from.simps[of d _ k i st])
    next
      case (Again st')
      have "steps_from d looks (k + 1) i st' = steps_from d looks' (k + 1) i st'"
        using turn_again[OF Again] False by (intro 1(2)[OF False Again] 1(3)) (use 1(4) in auto)
      with False Again same show ?thesis by (simp add: steps_from.simps[of d _ k i st])
    qed (use False same in \<open>simp_all add: steps_from.simps[of d _ k i st]\<close>)
  qed
qed

section \<open>The leash\<close>

definition harmless :: "string list \<Rightarrow> string \<Rightarrow> bool" where
  "harmless allow ws \<longleftrightarrow> list_all (\<lambda>(cls, p). cls \<in> set allow \<or> \<not> found p (lower ws)) DANGER"

lemma leash_pressing:
  "pressing a \<Longrightarrow> \<not> typing a \<Longrightarrow>
   leash regex a (Some ns) (Some j) allow block = None \<longleftrightarrow>
     \<not> list_ex (\<lambda>p. regex p (control_words ns j) = Some True) block \<and> harmless allow (control_words ns j)"
  by (auto simp: leash_def Let_def harmless_def find_None_iff list_all_iff)

lemma leash_typing:
  "typing a \<Longrightarrow> leash regex a (Some ns) (Some j) allow block = None \<longleftrightarrow> \<not> found PASSWORD (lower (control_words ns j))"
  by (cases a) (auto simp: leash_def Let_def)

lemma snap_kind: "pressing (sn_action (snap b nodes w h)) = pressing b" "typing (sn_action (snap b nodes w h)) = typing b"
  by (cases b; auto simp: snap_def Let_def split: option.splits prod.splits bool.splits)+

section \<open>Filing\<close>

lemma file_one_new: "fl_new (file_one d cap c t fl) \<le> fl_new fl \<or> (of_nat (fl_new fl) < cap \<and> fl_new (file_one d cap c t fl) = Suc (fl_new fl))"
  by (auto simp: file_one_def Let_def split: option.splits)

lemma file_picked_new:
  "of_nat (fl_new fl) < cap + 1 \<Longrightarrow> of_nat (fl_new (file_picked d cap turns k cs fl)) < cap + 1"
proof (induction d cap turns k cs fl rule: file_picked.induct)
  case (2 d cap turns k c cs fl)
  have "of_nat (fl_new (file_one d cap c (turns k) fl)) < cap + 1"
    using file_one_new[of d cap c "turns k" fl] 2(2) by (auto intro: le_less_trans[rotated])
  with 2 show ?case by simp
qed simp

definition posts_ok :: "filing \<Rightarrow> bool" where
  "posts_ok fl \<longleftrightarrow> list_all (\<lambda>p. fileable (fst p)) (fl_posts fl) \<and> fl_new fl \<le> fl_findings fl \<and> fl_findings fl \<le> length (fl_posts fl)"

lemma file_one_ok: "posts_ok fl \<Longrightarrow> posts_ok (file_one d cap c t fl)"
  by (auto simp: file_one_def posts_ok_def Let_def split: option.splits)

lemma file_picked_ok: "posts_ok fl \<Longrightarrow> posts_ok (file_picked d cap turns k cs fl)"
  by (induction d cap turns k cs fl rule: file_picked.induct) (simp_all add: file_one_ok)

lemma explore_new:
  "of_nat (fl_new (ns_filing st)) < nc_cap nc + 1 \<Longrightarrow> of_nat (fl_new (ns_filing (explore_missions nc ts st))) < nc_cap nc + 1"
  by (induction nc ts st rule: explore_missions.induct)
    (auto simp: explored_def Let_def file_picked_new split: option.splits sum.splits prod.splits)

lemma explore_posts: "posts_ok (ns_filing st) \<Longrightarrow> posts_ok (ns_filing (explore_missions nc ts st))"
  by (induction nc ts st rule: explore_missions.induct)
    (auto simp: explored_def Let_def file_picked_ok split: option.splits sum.splits prod.splits)

section \<open>Picking\<close>

lemma pick_fresh: "x \<in> set (pick fp limit seen cs) \<Longrightarrow> snd x = fp (fst x) \<and> snd x \<notin> set seen \<and> fst x \<in> set cs"
  by (induction fp limit seen cs rule: pick.induct) (auto split: if_splits)

lemma pick_distinct: "distinct (map snd (pick fp limit seen cs))"
  by (induction fp limit seen cs rule: pick.induct) (auto dest: pick_fresh)

lemma pick_length: "length seen < max 1 limit \<Longrightarrow> length (pick fp limit seen cs) \<le> max 1 limit - length seen"
  by (induction fp limit seen cs rule: pick.induct) (auto split: if_splits)

lemma pick_sorted: "sorted (map f cs) \<Longrightarrow> sorted (map (f \<circ> fst) (pick fp limit seen cs))"
  by (induction fp limit seen cs rule: pick.induct) (auto dest: pick_fresh)

text \<open>What is left out: its fingerprint was seen or picked before it, or the limit was reached.\<close>

lemma pick_complete:
  "c \<in> set cs \<Longrightarrow> fp c \<in> set seen \<or> fp c \<in> snd ` set (pick fp limit seen cs) \<or> max 1 limit \<le> length seen + length (pick fp limit seen cs)"
  by (induction fp limit seen cs rule: pick.induct) auto

end
