(* ===== verification/Explore_Filing_Laws.thy ===== *)
theory Explore_Filing_Laws
  imports Explore_Laws Finding_Laws
begin

text \<open>
  The finding the explorer posts against the collector's own validation (\<open>Findings.validate_finding\<close>), and
  the shares of a short night.
\<close>

section \<open>What the collector takes\<close>

definition plain_text :: "nat \<Rightarrow> string \<Rightarrow> bool" where
  "plain_text n s \<longleftrightarrow> length s \<le> n \<and> trim s \<noteq> []"

definition sound_ctx :: "finding_ctx \<Rightarrow> bool" where
  "sound_ctx cx \<longleftrightarrow>
     list_all (plain_text 200) [fx_app cx, fx_build cx, fx_platform cx, fx_device cx, fx_job cx, fx_mission cx] \<and>
     list_all (\<lambda>(k, v). k \<in> set ARTIFACT_KEYS \<and> (case v of None \<Rightarrow> True | Some s \<Rightarrow> is_sha256 s)) (fx_files cx)"

definition sound_candidate :: "candidate \<Rightarrow> bool" where
  "sound_candidate k \<longleftrightarrow>
     ca_check k \<in> set CHECK_NAMES \<and> trim (take 200 (ca_title k)) \<noteq> [] \<and> length (se_id (ca_screen k)) \<le> 300 \<and>
     length (se_name (ca_screen k)) \<le> 300 \<and>
     (case ca_class k of None \<Rightarrow> True
      | Some s \<Rightarrow> 1 \<le> length s \<and> length s \<le> 40 \<and> list_all (\<lambda>c. is_lower c \<or> c = CHR ''_'') s)"

definition short_words :: "string list \<Rightarrow> bool" where
  "short_words ws \<longleftrightarrow> length ws \<le> 100 \<and> list_all (\<lambda>w. length w \<le> 500) ws"

definition repeated :: "confirmed \<Rightarrow> bool" where
  "repeated c \<longleftrightarrow>
     cf_reproduced c \<le> cf_attempts c \<and> cf_attempts c \<le> 50 \<and> (0 < cf_reproduced c \<or> ca_check (cf_candidate c) = ''crash'')"

lemma strings_of_words [simp]: "strings_of (JArr (map JStr ws)) = ws"
  by (induction ws) (simp_all add: strings_of_def List.map_filter_simps str_of_def)

lemma steps_taken: "short_words ws \<Longrightarrow> steps_problem (JArr (map JStr ws)) = None"
  by (auto simp: steps_problem_def short_words_def is_str_def list_all_iff list_ex_iff)

lemma uploads_taken: "sound_ctx cx \<Longrightarrow> artifacts_problem (JObj (uploads cx)) = None"
  unfolding artifacts_problem_def js.case
  by (auto simp: sound_ctx_def uploads_def list_all_iff first_problem_None artifact_problem_def is_sha_value_def str_of_def split: option.splits)

lemma jget_body:
  fixes cx kind fp ws remarks c
  defines "b \<equiv> finding_body cx kind fp ws remarks c" and "k \<equiv> cf_candidate c"
  shows "jget ''fingerprint'' b = JStr fp" "jget ''app'' b = JStr (fx_app cx)" "jget ''build'' b = JStr (fx_build cx)"
    "jget ''platform'' b = JStr (fx_platform cx)" "jget ''device_id'' b = JStr (fx_device cx)" "jget ''job_id'' b = JStr (fx_job cx)"
    "jget ''mission_id'' b = JStr (fx_mission cx)" "jget ''check'' b = JStr (ca_check k)"
    "jget ''subclass'' b = (case ca_class k of Some s \<Rightarrow> JStr s | None \<Rightarrow> JNull)"
    "jget ''severity'' b = JStr (severity_name (ca_severity k))" "jget ''title'' b = JStr (take 200 (ca_title k))"
    "jget ''detail'' b = JStr (finding_detail_text cx remarks c)" "jget ''screen'' b = JStr (se_id (ca_screen k))"
    "jget ''screen_name'' b = JStr (se_name (ca_screen k))" "jget ''steps'' b = JArr (map JStr ws)"
    "jget ''replay'' b = replay_field cx kind c" "jget ''artifacts'' b = JObj (uploads cx)" "is_plain_object b"
  unfolding b_def k_def finding_body_def Let_def by (simp_all add: is_plain_object_def)

lemma severity_of_name [simp]: "severity_of (JStr (severity_name s)) = Some s"
  by (cases s) (simp_all add: severity_name_def severity_of_def)

lemma severity_of_None: "severity_of (JStr (severity_name s)) \<noteq> None"
  by simp

lemma required_taken: "jget k b = JStr s \<Longrightarrow> plain_text n s \<Longrightarrow> required_problem b (k, n) = None"
  by (simp add: required_problem_def str_of_def plain_text_def)

lemma text_taken: "jget k b = JStr s \<Longrightarrow> length s \<le> n \<Longrightarrow> text_problem b (k, n) = None"
  by (simp add: text_problem_def str_of_def)

lemma detail_short: "length (finding_detail_text cx remarks c) \<le> 4000"
  by (simp add: finding_detail_text_def)

lemma plain_text_mono: "plain_text m s \<Longrightarrow> m \<le> n \<Longrightarrow> plain_text n s"
  by (simp add: plain_text_def)

lemma body_taken:
  assumes "sound_ctx cx" "sound_candidate (cf_candidate c)" "plain_text 256 fp" "short_words ws"
  shows "body_problem (finding_body cx kind fp ws remarks c) = None"
proof -
  let ?b = "finding_body cx kind fp ws remarks c" and ?k = "cf_candidate c"
  note j = jget_body[of cx kind fp ws remarks c]
  have "required_problem ?b (''title'', 300) = None"
    using assms(2) by (intro required_taken[OF j(11)]) (simp add: sound_candidate_def plain_text_def)
  moreover have "required_problem ?b (''fingerprint'', 256) = None" by (rule required_taken[OF j(1) assms(3)])
  ultimately have "first_problem (required_problem ?b) required_fields = None"
    unfolding first_problem_None required_fields_def
    using assms(1) by (simp add: required_taken j sound_ctx_def)
  moreover have "first_problem (text_problem ?b) text_fields = None"
    unfolding first_problem_None text_fields_def
    using assms(2) detail_short[of cx remarks c] by (simp add: text_taken j sound_candidate_def)
  moreover have "subclass_ok (jget ''subclass'' ?b)"
    unfolding j subclass_ok_def using assms(2) by (simp add: sound_candidate_def nullish_def str_of_def split: option.splits)
  moreover have "is_check (jget ''check'' ?b)"
    unfolding j is_check_def using assms(2) by (simp add: sound_candidate_def)
  ultimately show ?thesis
    by (simp add: body_problem_def j steps_taken[OF assms(4)] uploads_taken[OF assms(1)])
qed

lemma count_of_nat: "n \<le> 50 \<Longrightarrow> count_of (JNum (Fin (of_nat n))) = Some n"
  using int_of_JInt[of "int n"] by (simp add: count_of_def del: int_of_JInt)

lemma sha_field:
  "sound_ctx cx \<Longrightarrow>
   (case map_of (fx_files cx) ''replay'' of Some (Some s) \<Rightarrow> is_sha_value (JStr s) | _ \<Rightarrow> True)"
  by (auto simp: sound_ctx_def list_all_iff is_sha_value_def str_of_def split: option.splits dest!: map_of_SomeD)

definition replay_record :: "finding_ctx \<Rightarrow> string \<Rightarrow> confirmed \<Rightarrow> replay" where
  "replay_record cx kind c =
     \<lparr>rp_kind = kind, rp_sha256 = (case map_of (fx_files cx) ''replay'' of Some s \<Rightarrow> s | None \<Rightarrow> None),
      rp_attempts = cf_attempts c, rp_reproduced = cf_reproduced c\<rparr>"

lemma evidence_taken:
  assumes "sound_ctx cx" "repeated c" "kind \<in> set REPLAY_KINDS"
  shows "check_evidence (finding_body cx kind fp ws remarks c) =
    Inr (if cf_reproduced c = 0 then None else Some (replay_record cx kind c))"
proof (cases "cf_reproduced c = 0")
  case True
  with assms(2) have "ca_check (cf_candidate c) = ''crash''" by (simp add: repeated_def)
  with True show ?thesis by (simp add: check_evidence_def jget_body replay_field_def platform_evidence_def)
next
  case False
  with assms sha_field[OF assms(1)] show ?thesis
    by (auto simp: check_evidence_def jget_body replay_field_def check_replay_def str_of_def count_of_nat repeated_def
        replay_record_def split: option.splits)
qed

section \<open>The shares of a short night\<close>

lemma sum_list_floor: "sum_list (map (\<lambda>m. of_int \<lfloor>a * m / s\<rfloor>) ms) \<le> a * sum_list ms / (s :: rat)"
proof (induction ms)
  case (Cons m ms)
  have "of_int \<lfloor>a * m / s\<rfloor> \<le> a * m / s" by (rule of_int_floor_le)
  moreover have "a * sum_list (m # ms) / s = a * m / s + a * sum_list ms / s" by (simp add: distrib_left add_divide_distrib)
  ultimately show ?case using Cons by (simp add: add_mono)
qed simp

lemma fair_share_sum: "sum_list want \<le> avail \<or> sum_list want \<noteq> 0 \<Longrightarrow> sum_list (fair_share avail want) \<le> avail"
  using sum_list_floor[of avail "sum_list want" want] by (auto simp: fair_share_def)

lemma fair_share_length [simp]: "length (fair_share avail want) = length want"
  by (simp add: fair_share_def)

lemma fair_share_less:
  assumes "list_all (\<lambda>m. 0 \<le> m) want"
  shows "list_all2 (\<le>) (fair_share avail want) want"
proof (cases "sum_list want \<le> avail")
  case True
  then show ?thesis by (simp add: fair_share_def list_all2_refl)
next
  case False
  have "of_int \<lfloor>avail * m / sum_list want\<rfloor> \<le> m" if "m \<in> set want" for m
  proof -
    have m: "0 \<le> m" using assms that by (simp add: list_all_iff)
    have s: "0 \<le> sum_list want" using assms by (intro sum_list_nonneg) (simp add: list_all_iff)
    have "avail * m \<le> m * sum_list want"
      unfolding mult.commute[of avail] using False m by (intro mult_left_mono) simp_all
    then have "avail * m / sum_list want \<le> m"
      using m s by (cases "sum_list want = 0") (auto simp: divide_le_eq)
    then show ?thesis using of_int_floor_le[of "avail * m / sum_list want"] by linarith
  qed
  with False show ?thesis by (auto simp: fair_share_def list_all2_map1 list_all2_same)
qed

lemma sum_list_zeros [simp]: "sum_list (map (\<lambda>_. 0) xs) = (0 :: rat)"
  by (induction xs) simp_all

definition shared :: "rat \<Rightarrow> rat \<Rightarrow> rat \<Rightarrow> rat list \<Rightarrow> nat \<Rightarrow> rat list \<Rightarrow> bool" where
  "shared left per_spec least asked n minutes \<longleftrightarrow>
     0 < n \<and> sum_list minutes + of_nat n * per_spec \<le> left \<and> list_all2 (\<le>) minutes asked \<and>
     useful least (take n asked) (take n minutes) \<and> drop n minutes = map (\<lambda>_. 0) (drop n asked)"

lemma share_fits:
  assumes "sum_list (take n asked) \<le> avail \<or> sum_list (take n asked) \<noteq> 0" "useful least (take n asked) (fair_share avail (take n asked))"
    "avail = left - of_nat n * per_spec" "0 < n" "n \<le> length asked" "list_all (\<lambda>m. 0 \<le> m) asked"
  shows "shared left per_spec least asked n (fair_share avail (take n asked) @ map (\<lambda>_. 0) (drop n asked))"
proof -
  let ?given = "fair_share avail (take n asked)"
  have "list_all (\<lambda>m. 0 \<le> m) (take n asked)" using assms(6) by (auto simp: list_all_iff dest: in_set_takeD)
  moreover have "list_all2 (\<le>) (map (\<lambda>_. 0) (drop n asked)) (drop n asked)"
    using assms(6) by (auto simp: list_all2_map1 list_all2_same list_all_iff dest: in_set_dropD)
  ultimately have "list_all2 (\<le>) (?given @ map (\<lambda>_. 0) (drop n asked)) (take n asked @ drop n asked)"
    by (intro list_all2_appendI fair_share_less)
  with fair_share_sum[OF assms(1)] assms(2-5) show ?thesis by (simp add: shared_def)
qed

lemma plan_first_fits:
  "\<lbrakk>plan_first left per_spec least asked k = Some minutes; k \<le> length asked; list_all (\<lambda>m. 0 \<le> m) asked\<rbrakk> \<Longrightarrow>
   \<exists>n. shared left per_spec least asked n minutes"
proof (induction k)
  case (Suc k)
  let ?avail = "left - of_nat (Suc k) * per_spec" and ?want = "take (Suc k) asked"
  show ?case
  proof (cases "(sum_list ?want \<le> ?avail \<or> sum_list ?want \<noteq> 0) \<and> useful least ?want (fair_share ?avail ?want)")
    case True
    with Suc.prems(1) have m: "minutes = fair_share ?avail ?want @ map (\<lambda>_. 0) (drop (Suc k) asked)"
      unfolding plan_first.simps Let_def by (metis option.inject)
    have "shared left per_spec least asked (Suc k) minutes"
      unfolding m using True Suc.prems by (intro share_fits[OF _ _ refl]) simp_all
    then show ?thesis by blast
  next
    case False
    then have "plan_first left per_spec least asked k = Some minutes"
      using Suc.prems(1) unfolding plan_first.simps Let_def by (metis (no_types, lifting))
    with Suc show ?thesis by simp
  qed
qed simp

end
