(* ===== verification/Explore_Properties.thy ===== *)
theory Explore_Properties
  imports Explore_Filing_Laws A11y_Tree
begin

text \<open>
  The explorer's properties: what it may do to a device, when a mission ends, what it flags, picks, files and
  reports, and the screen map; with them the cases where the code departs from what its comments say.
\<close>

section \<open>Acting\<close>



definition save_button :: a11y_node where
  "save_button =
     \<lparr>an_cls = ''Button'', an_text = ''Save'', an_label = [], an_id = [], an_value = [], an_tappable = True, an_enabled = True,
      an_bounds = Some \<lparr>rc_x = 0, rc_y = 0, rc_w = 40, rc_h = 40\<rparr>, an_depth = 0, an_focused = False, an_scrollable = False,
      an_checked = False\<rparr>"

definition save_screen :: observation where
  "save_screen =
     \<lparr>ob_width = 101, ob_height = 101, ob_hash = ''00'', ob_blank = False, ob_spread = ''9'', ob_nodes = Some [save_button],
      ob_foreground = Some ''app'', ob_density = None\<rparr>"

definition tap_call :: tool_call where
  "tap_call = \<lparr>tc_name = ''mobile_click'', tc_args = JObj [(''x'', JInt 200), (''y'', JInt 200)]\<rparr>"

definition tap_look :: look where
  "tap_look =
     \<lparr>lk_late = False, lk_now = ''t'', lk_seen = Some save_screen, lk_again = None, lk_launched = True, lk_visual = [],
      lk_turn = \<lparr>mt_calls = [tap_call], mt_error = None\<rparr>, lk_rewarmed = False, lk_took = (\<lambda>_. True),
      lk_crashed = \<lparr>cr_count = 0, cr_signatures = []\<rparr>\<rparr>"

definition one_step :: loop_deps where
  "one_step =
     \<lparr>ld_app = ''app'', ld_caps = \<lparr>ac_surface = Touch, ac_keys = [''back'']\<rparr>,
      ld_mission = \<lparr>mi_id = ''m'', mi_title = ''M'', mi_goal = ''g'', mi_success = None, mi_allow = [], mi_block = [], mi_end_check = None\<rparr>,
      ld_max_steps = 1, ld_judge = False, ld_night = ''n'', ld_disabled_visual = [], ld_disabled_checks = [], ld_background_at = None,
      ld_can_rewarm = False, ld_regex = (\<lambda>_ _. Some False), ld_digest = id, ld_state_sig = (\<lambda>_. ''s'')\<rparr>"

definition no_map :: screen_map where "no_map = \<lparr>sm_screens = [], sm_seen = []\<rparr>"



text \<open>
  C33: A mission always comes to an end: what it does and leaves behind is settled by the first looks it is
  given, two more than its steps at most (a step is taken again only after the model was loaded again, which
  happens twice).
\<close>

theorem mission_ends:
  assumes "map looks [0..<ld_max_steps d + 2] = map looks' [0..<ld_max_steps d + 2]"
  shows "run_mission d looks en m = run_mission d looks' en m"
proof -
  have "looks j = looks' j" if "j < ld_max_steps d + 2" for j
    using assms that by (simp del: upt_Suc)
  then have "steps_from d looks 0 1 (mission_starts m) = steps_from d looks' 0 1 (mission_starts m)"
    by (intro steps_agree[of "ld_max_steps d + 2"]) simp_all
  then show ?thesis by (simp add: run_mission_def run_steps_def)
qed

definition blind_look :: look where
  "blind_look = tap_look\<lparr>lk_seen := None\<rparr>"

definition final_look :: ending where
  "final_look = \<lparr>en_now = ''t'', en_seen = None, en_goal = (None, [])\<rparr>"

theorem mission_ends_witness:
  "run_mission one_step (\<lambda>k. if k < 3 then blind_look else tap_look) final_look no_map =
   run_mission one_step (\<lambda>_. blind_look) final_look no_map"
  by (rule mission_ends) (simp add: one_step_def)

section \<open>Flagging\<close>









section \<open>Picking and filing\<close>

definition candidate_rank :: "candidate \<Rightarrow> nat \<times> nat \<times> nat" where
  "candidate_rank c = (severity_order (ca_severity c), source_order (ca_source c), ca_step c)"

lemma worst_first_sorted: "sorted (map candidate_rank (worst_first cs))" and worst_first_set [simp]: "set (worst_first cs) = set cs"
proof -
  have "candidate_rank = (\<lambda>c. (severity_order (ca_severity c), source_order (ca_source c), ca_step c))"
    by (simp add: fun_eq_iff candidate_rank_def)
  then show "sorted (map candidate_rank (worst_first cs))" by (simp add: worst_first_def)
qed (simp add: worst_first_def)

text \<open>
  C36: The candidates that get the replay budget are the mission's own, one per fingerprint, worst first
  (severity, then oracle before judge before the model's report, then step), no more than the limit (one at
  least), and a candidate is left out only when its fingerprint was picked or the limit was reached.
\<close>

theorem picked_worst_first:
  "let ps = pick_candidates sha1 app surface limit cs in
    distinct (map snd ps) \<and> length ps \<le> max 1 limit \<and> sorted (map (candidate_rank \<circ> fst) ps) \<and> fst ` set ps \<subseteq> set cs \<and>
    list_all (\<lambda>c. fingerprint sha1 app surface (se_id (ca_screen c)) (ca_check c) (ca_key c) \<in> snd ` set ps \<or> length ps = max 1 limit) cs"
proof -
  let ?fp = "\<lambda>c. fingerprint sha1 app surface (se_id (ca_screen c)) (ca_check c) (ca_key c)"
  define ps where "ps = pick_candidates sha1 app surface limit cs"
  have ps: "ps = pick ?fp limit [] (worst_first cs)" by (simp add: ps_def pick_candidates_def)
  have len: "length ps \<le> max 1 limit" using pick_length[of "[]" limit ?fp "worst_first cs"] by (simp add: ps)
  have "?fp c \<in> snd ` set ps \<or> length ps = max 1 limit" if "c \<in> set cs" for c
    using pick_complete[of c "worst_first cs" ?fp "[]" limit] that len by (auto simp: ps)
  moreover have "fst ` set ps \<subseteq> set cs"
    unfolding ps using pick_fresh[of _ ?fp limit "[]" "worst_first cs"] by auto
  moreover have "sorted (map (candidate_rank \<circ> fst) ps)"
    unfolding ps by (rule pick_sorted[OF worst_first_sorted])
  ultimately show ?thesis
    unfolding Let_def ps_def[symmetric]
    using len pick_distinct[of ?fp limit "[]" "worst_first cs", folded ps] by (simp add: list_all_iff)
qed




section \<open>The finding and the collector\<close>

text \<open>
  C36: A finding the explorer files is one the collector takes: with its fields within their sizes, its files
  hashed, at most a hundred steps, and a replay that brought the check back (or a crash), validation on the
  other side accepts the posted body and reads back the same fingerprint, check, severity, title and replay.
\<close>

theorem posted_finding_is_taken:
  assumes "sound_ctx cx" "sound_candidate (cf_candidate c)" "plain_text 256 fp" "short_words ws" "repeated c" "kind \<in> set REPLAY_KINDS"
  shows "\<exists>x. validate_finding (finding_body cx kind fp ws remarks c) = Inr x \<and> x_fingerprint x = fp \<and>
    x_check x = ca_check (cf_candidate c) \<and> x_subclass x = ca_class (cf_candidate c) \<and> x_severity x = ca_severity (cf_candidate c) \<and>
    x_title x = take 200 (ca_title (cf_candidate c)) \<and> x_steps x = ws \<and>
    x_replay x = (if cf_reproduced c = 0 then None else Some (replay_record cx kind c))"
  using body_taken[OF assms(1-4)] evidence_taken[OF assms(1,5,6)]
  by (simp add: validate_finding_def jget_body text_of_def str_of_def split: option.splits)

definition crash_found :: confirmed where
  "crash_found =
     \<lparr>cf_candidate =
        \<lparr>ca_check = ''crash'', ca_severity = High, ca_source = Oracle, ca_key = ''Boom'', ca_title = ''Crash: Boom'', ca_detail = ''Boom'',
         ca_step = 3, ca_screen = \<lparr>se_id = ''ab'', se_name = ''Home'', se_tokens = [], se_hash = None, se_first = ''t'', se_last = ''t'',
           se_visits = 1, se_nights = []\<rparr>, ca_up_to = 2, ca_class = None, ca_point = None, ca_goal = None\<rparr>,
      cf_attempts = 2, cf_reproduced = 1\<rparr>"

definition tonight :: finding_ctx where
  "tonight =
     \<lparr>fx_app = ''notes'', fx_build = ''1.2'', fx_platform = ''android'', fx_device = ''d1'', fx_job = ''j1'', fx_mission = ''m1'',
      fx_condition = ''baseline'', fx_previously = None, fx_files = [(''log'', None)]\<rparr>"

theorem posted_finding_is_taken_witness:
  "\<exists>x. validate_finding (finding_body tonight ''maestro'' ''f00d'' [''Tap''] [''attempt 1: reproduced''] crash_found) = Inr x \<and>
     x_fingerprint x = ''f00d'' \<and> x_replay x = Some (replay_record tonight ''maestro'' crash_found)"
proof -
  have "sound_ctx tonight" "sound_candidate (cf_candidate crash_found)" "plain_text 256 ''f00d''" "short_words [''Tap'']" "repeated crash_found"
      "''maestro'' \<in> set REPLAY_KINDS" "cf_reproduced crash_found \<noteq> 0"
    by code_simp+
  from posted_finding_is_taken[OF this(1-6)] this(7) show ?thesis by fastforce
qed

text \<open>
  A hang that did not come again is filed by the explorer, which takes it for platform evidence, and refused
  by the collector, which takes a missing replay from a crash only.
\<close>

lemma unrepeated_hang_is_refused:
  assumes "sound_ctx cx" "sound_candidate (cf_candidate c)" "plain_text 256 fp" "short_words ws"
    "ca_check (cf_candidate c) = ''anr''" "cf_reproduced c = 0"
  shows "fileable c \<and> (\<exists>why. validate_finding (finding_body cx kind fp ws remarks c) = Inl (422, why))"
  using body_taken[OF assms(1-4)] assms(5,6)
  by (simp add: fileable_def platform_evidence_def validate_finding_def jget_body check_evidence_def replay_field_def)

text \<open>A finding whose way there takes more than a hundred lines in words is refused whatever it is.\<close>

lemma long_way_is_refused:
  assumes "100 < length ws"
  shows "\<exists>why. validate_finding (finding_body cx kind fp ws remarks c) = Inl (400, why)"
proof -
  have "steps_problem (JArr (map JStr ws)) \<noteq> None" using assms by (simp add: steps_problem_def is_str_def list_all_iff)
  then have "body_problem (finding_body cx kind fp ws remarks c) \<noteq> None"
    by (auto simp: body_problem_def jget_body split: option.splits)
  then show ?thesis by (auto simp: validate_finding_def jget_body)
qed

text \<open>The model's own report of a dead control or of a wrong result never comes again on a replay, so it is never filed.\<close>

lemma agent_reports_dropped:
  "kind = ''dead_control'' \<or> kind = ''wrong_result'' \<Longrightarrow> \<not> fileable (confirm d (issue_candidate i s kind desc element) rs)"
  by (auto simp: fileable_def confirm_def issue_candidate_def issue_check_def platform_evidence_def attempt_hits_def check_again_def
      filter_empty_conv)

text \<open>A Roku's replay file leaves out that the app was brought back, which the replay itself repeats.\<close>

lemma roku_flow_forgets_relaunch:
  "roku_flow (Relaunched i # es) (Suc n) = roku_flow es n \<and>
   replay_through (Relaunched i # es) (Suc n) = Launch_App # replay_through es n"
  by (simp add: roku_flow_def replay_through_def)

text \<open>Once the cap is reached, a finding known from earlier nights is not posted either, so its count stays.\<close>

lemma capped_night_forgets_repeats:
  "cap \<le> of_nat (fl_new fl) \<Longrightarrow> fl_posts (file_one d cap c t fl) = fl_posts fl"
  by (simp add: file_one_def Let_def)

text \<open>Text typed on a TV is never held back: the leash is given no field to look at.\<close>

lemma tv_typing_unchecked:
  "leash regex (Type_Text t None ov en) nodes
     (coalesce (sn_node (snap (Type_Text t None ov en) nodes w h)) (focused_node caps (Type_Text t None ov en) nodes)) allow block = None"
  by (simp add: snap_def leash_def focused_node_def coalesce_def split: option.splits)

text \<open>A tool call whose arguments are null ends the mission with an exception.\<close>

lemma null_arguments_throw:
  "tc_args c = JNull \<Longrightarrow> do_calls d i lk s ob sig (c # cs) kst = None"
  by (simp add: convert_call_def nullish_def)

text \<open>A device the deadline leaves out has no row and does not fail the night.\<close>

lemma device_left_out:
  "devices_reached [(False, d1, True, None), (True, d2, ok2, e2)] = [(d1, True, None)] \<and>
   final_row 2 (devices_reached [(False, d1, True, None), (True, d2, ok2, e2)]) = (True, None)"
  by (simp add: devices_reached_def final_row_def List.map_filter_simps)

section \<open>A short night\<close>

text \<open>
  C39: When a night is too short for what was asked, the specs it runs fit: their minutes, the overhead of
  each and the safety margin are within the time left, none gets more than it asked for, each gets enough to
  be of use, and it is the last ones that are dropped.
\<close>

theorem short_night_fits:
  assumes "plan_specs asked left safety per_spec least = (minutes, short)" "list_all (\<lambda>m. 0 \<le> m) asked" "list_ex (\<lambda>m. 0 < m) minutes"
  shows "\<exists>n. 0 < n \<and> sum_list minutes + of_nat n * per_spec + safety \<le> left \<and> list_all2 (\<le>) minutes asked \<and>
    useful least (take n asked) (take n minutes) \<and> drop n minutes = map (\<lambda>_. 0) (drop n asked)"
proof (cases "plan_first (left - safety) per_spec least asked (length asked)")
  case None
  with assms(1,3) show ?thesis by (auto simp: plan_specs_def list_ex_iff)
next
  case (Some ms)
  with assms(1) have "minutes = ms" by (simp add: plan_specs_def)
  with plan_first_fits[OF Some le_refl assms(2)] show ?thesis by (auto simp: shared_def le_diff_eq)
qed

lemma night_of_two: "plan_specs [60, 60, 60] 49 10 3 15 = ([16, 16, 0], True)"
  by code_simp

theorem short_night_fits_witness:
  "\<exists>n. 0 < n \<and> sum_list [16, 16, 0] + of_nat n * 3 + 10 \<le> (49 :: rat) \<and> useful 15 (take n [60, 60, 60]) (take n [16, 16, 0])"
  using short_night_fits[OF night_of_two] by auto

section \<open>What the accessibility check says\<close>




text \<open>Where the unit is not known no size is judged, and the report says so.\<close>

lemma unknown_unit_says_so:
  "sizes (a11y_findings ns Unknown_Unit page m cap) = [] \<and>
   (list_ex (\<lambda>n. an_tappable n \<and> an_bounds n \<noteq> None) ns \<longrightarrow>
    coverage page UNKNOWN_UNIT \<in> set (a11y_findings ns Unknown_Unit page m cap))"
  by (simp add: a11y_findings_def Let_def judge_unknown_sizes judge_unknown_sized) (simp add: coverage_def)

section \<open>The screen map\<close>

lemma best_match_range:
  "best_match tokens hash ss i b = Some (j, r) \<Longrightarrow> (i \<le> j \<and> j < i + length ss) \<or> b = Some (j, r)"
  by (induction tokens hash ss i b rule: best_match.induct) (fastforce simp: Let_def split: if_splits)+

lemma map_update_same: "f x = f (xs ! i) \<Longrightarrow> map f (xs[i := x]) = map f xs"
  by (cases "i < length xs") (auto intro!: nth_equalityI simp: nth_list_update)

text \<open>
  C?: Placing a look never renames, reorders or drops a screen the map knows: either the map keeps its
  screens and one of them is the place, or one new screen is put at the end and is the place; the place is
  among the screens seen in this run afterwards.
\<close>

theorem map_only_grows:
  assumes "identify digest now nodes hash height night m = (p, m')"
  shows "map se_id (sm_screens m') = map se_id (sm_screens m) @ (if pl_new_ever p then [se_id (pl_entry p)] else []) \<and>
    pl_entry p \<in> set (sm_screens m') \<and> se_id (pl_entry p) \<in> set (sm_seen m') \<and> set (sm_seen m) \<subseteq> set (sm_seen m')"
proof -
  define tokens where "tokens = (case nodes of None \<Rightarrow> [] | Some ns \<Rightarrow> screen_tokens ns)"
  define best where "best = Option.bind (best_match tokens hash (sm_screens m) 0 None)
    (\<lambda>(i, score). if score < 6 / 10 then None else Some (i, score))"
  have idf: "identify digest now nodes hash height night m =
      (case best of
         Some (i, score) \<Rightarrow>
           let s = visited now night (richer tokens score (sm_screens m ! i)) in note_seen s False (m\<lparr>sm_screens := (sm_screens m)[i := s]\<rparr>)
       | None \<Rightarrow>
           let s = visited now night (fresh_entry digest now nodes tokens hash height)
           in note_seen s True (m\<lparr>sm_screens := sm_screens m @ [s]\<rparr>))"
    unfolding identify_def tokens_def best_def Let_def by (rule refl)
  show ?thesis
  proof (cases best)
    case None
    with assms show ?thesis by (auto simp: idf note_seen_def Let_def split: if_splits)
  next
    case (Some b)
    obtain i score where b: "b = (i, score)" by (cases b)
    have i: "i < length (sm_screens m)"
      using Some b best_match_range[of tokens hash "sm_screens m" 0 None] by (auto simp: best_def bind_eq_Some_conv split: if_splits)
    have "se_id (visited now night (richer tokens score (sm_screens m ! i))) = se_id (sm_screens m ! i)"
      by (simp add: visited_def richer_def)
    with i show ?thesis
      using assms Some b
      by (auto simp: idf note_seen_def Let_def map_update_same intro!: set_update_memI split: if_splits)
  qed
qed

theorem map_only_grows_witness:
  "\<exists>p m'. identify id ''t'' (Some [save_button]) ''00'' 101 ''n'' no_map = (p, m') \<and>
     map se_id (sm_screens m') = [] @ (if pl_new_ever p then [se_id (pl_entry p)] else []) \<and> pl_entry p \<in> set (sm_screens m')"
proof -
  obtain p m' where e: "identify id ''t'' (Some [save_button]) ''00'' 101 ''n'' no_map = (p, m')" by fastforce
  from map_only_grows[OF e] e show ?thesis by (auto simp: no_map_def)
qed

end
