(* ===== verification/Host_Drivers.thy ===== *)
theory Host_Drivers
  imports Alerts Machine_Agent
begin

text \<open>
  The drivers of the host executor (\<open>collector/src/drivers\<close>, \<open>targets.ts\<close>, \<open>pressure.ts\<close>): what adb, simctl,
  devicectl and the Rokus of a network print, read into targets; which attached things belong to the
  fleet; and whether the host is too busy. The text a tool printed is an argument; what \<open>JSON.parse\<close>
  makes of a listing has the shape the code declares for it.
\<close>

section \<open>Searching a text\<close>

text \<open>\<open>/.../.exec(s)\<close>: the first place where \<open>f\<close>, the pattern from there on, finds something.\<close>

fun first_at :: "(string \<Rightarrow> 'a option) \<Rightarrow> string \<Rightarrow> 'a option" where
  "first_at f [] = f []"
| "first_at f (c # s) = (case f (c # s) of Some x \<Rightarrow> Some x | None \<Rightarrow> first_at f s)"

text \<open>The same for a pattern that begins with \<open>^\<close> and has the flag \<open>m\<close>: the first line start.\<close>

fun first_line_at :: "(string \<Rightarrow> 'a option) \<Rightarrow> bool \<Rightarrow> string \<Rightarrow> 'a option" where
  "first_line_at f start [] = (if start then f [] else None)"
| "first_line_at f start (c # s) =
     (case (if start then f (c # s) else None) of
        Some x \<Rightarrow> Some x
      | None \<Rightarrow> first_line_at f (c = CHR 0x0A \<or> c = CHR 0x0D) s)"

text \<open>What is left of \<open>s\<close> after \<open>p\<close>, in either case of the letters.\<close>

definition behind :: "string \<Rightarrow> string \<Rightarrow> string option" where
  "behind p s = (if starts_with p s then Some (drop (length p) s) else None)"

definition behind_i :: "string \<Rightarrow> string \<Rightarrow> string option" where
  "behind_i p s = (if starts_with (lower p) (lower s) then Some (drop (length p) s) else None)"

definition skip_spaces :: "string \<Rightarrow> string" where
  "skip_spaces s = dropWhile is_space s"

section \<open>Targets\<close>

datatype attached = Hardware | Simulated

record target =
  tg_id :: id
  tg_platform :: string
  tg_kind :: attached
  tg_driver :: string

definition kind_text :: "attached \<Rightarrow> string" where
  "kind_text k = (case k of Hardware \<Rightarrow> ''device'' | Simulated \<Rightarrow> ''simulator'')"

text \<open>\<open>dedupe\<close>: the first driver to name an id keeps it.\<close>

definition dedupe_step :: "target \<Rightarrow> id list \<times> target list \<Rightarrow> id list \<times> target list" where
  "dedupe_step t st =
     (if tg_id t \<in> set (fst st) then st else (tg_id t # fst st, snd st @ [t]))"

definition dedupe :: "target list list \<Rightarrow> target list" where
  "dedupe found_lists = snd (fold (fold dedupe_step) found_lists ([], []))"

text \<open>\<open>listAllTargets\<close>: what each driver found_lists, \<open>None\<close> for one that threw.\<close>

definition list_all_targets :: "target list option list \<Rightarrow> target list" where
  "list_all_targets answers = dedupe (map (\<lambda>a. case a of None \<Rightarrow> [] | Some ts \<Rightarrow> ts) answers)"

section \<open>adb\<close>

definition parse_adb_devices :: "string \<Rightarrow> id list" where
  "parse_adb_devices out =
     map (\<lambda>l. hd (split_on (CHR 0x09) l))
       (filter (\<lambda>l. suffix ''device'' (trim l)) (drop 1 (split_on (CHR 0x0A) out)))"

text \<open>How \<open>adb devices\<close> ended: what it printed, or the code it failed with.\<close>

datatype adb_answer = Adb_Out string | Adb_Failed "string option" "string option" "string option"

definition adb_failure_is_worth_reporting :: "string option \<Rightarrow> bool" where
  "adb_failure_is_worth_reporting c \<longleftrightarrow> c \<noteq> Some ''ENOENT''"

text \<open>\<open>adbDevices\<close> with the complaint it remembers: the ids, the new complaint and the lines logged.\<close>

definition adb_devices :: "adb_answer \<Rightarrow> string \<Rightarrow> id list \<times> string \<times> string list" where
  "adb_devices a complaint =
     (case a of
        Adb_Out out \<Rightarrow> (parse_adb_devices out, [], [])
      | Adb_Failed ec stderr message \<Rightarrow>
          if adb_failure_is_worth_reporting ec then
            let said = (case coalesce stderr message of None \<Rightarrow> ''unknown'' | Some s \<Rightarrow> s);
                why = take 160 (hd (split_on (CHR 0x0A) (trim said)))
            in if why \<noteq> complaint
               then ([], why, [''adb is present but failing, so no Android devices are visible: '' @ why])
               else ([], complaint, [])
          else ([], complaint, []))"

definition adb_target :: "id \<Rightarrow> target" where
  "adb_target i = \<lparr>tg_id = i, tg_platform = ''android'', tg_kind = Hardware, tg_driver = ''adb''\<rparr>"

text \<open>\<open>isAndroidEmulatorSerial\<close>: \<open>/^emulator-\d+$/\<close>\<close>

definition is_emulator_serial :: "string \<Rightarrow> bool" where
  "is_emulator_serial s \<longleftrightarrow>
     (case behind ''emulator-'' s of None \<Rightarrow> False | Some r \<Rightarrow> r \<noteq> [] \<and> list_all is_digit r)"

section \<open>Apple\<close>

type_synonym sim_list = "(string \<times> (id \<times> string) list) list"

text \<open>An entry of \<open>devicectl list devices\<close>, flattened as the driver does.\<close>

record apple_info =
  ai_identifier :: id
  ai_name :: "string option"
  ai_marketing :: "string option"
  ai_product :: "string option"
  ai_os :: "string option"
  ai_transport :: "string option"
  ai_tunnel :: "string option"
  ai_pairing :: "string option"
  ai_platform :: "string option"

definition apple_name :: "string \<Rightarrow> string option" where
  "apple_name p =
     (if p = ''iOS'' then Some ''ios'' else if p = ''tvOS'' then Some ''tvos''
      else if p = ''watchOS'' then Some ''watchos''
      else if p = ''xrOS'' \<or> p = ''visionOS'' then Some ''visionos'' else None)"

definition apple_platform :: "string option \<Rightarrow> string option" where
  "apple_platform p = Option.bind p apple_name"

text \<open>\<open>/SimRuntime\.([A-Za-z]+)-/\<close> and \<open>/SimRuntime\.[A-Za-z]+-([\d-]+)$/\<close>\<close>

definition runtime_family :: "string \<Rightarrow> string option" where
  "runtime_family s =
     (case behind ''SimRuntime.'' s of
        None \<Rightarrow> None
      | Some r \<Rightarrow>
          let w = takeWhile is_alpha r
          in if w \<noteq> [] \<and> starts_with ''-'' (drop (length w) r) then Some w else None)"

definition runtime_version :: "string \<Rightarrow> string option" where
  "runtime_version s =
     (case runtime_family s of
        None \<Rightarrow> None
      | Some w \<Rightarrow>
          let v = drop (length ''SimRuntime.'' + length w + 1) s
          in if v \<noteq> [] \<and> list_all (\<lambda>c. is_digit c \<or> c = CHR ''-'') v
             then Some (map (\<lambda>c. if c = CHR ''-'' then CHR ''.'' else c) v) else None)"

definition simulator_platform :: "string \<Rightarrow> string option" where
  "simulator_platform runtime = Option.bind (first_at runtime_family runtime) apple_name"

text \<open>\<open>simulatorName\<close>\<close>

definition simulator_name :: "id \<Rightarrow> sim_list option \<Rightarrow> string option" where
  "simulator_name udid sims =
     map_option snd
       (List.find (\<lambda>d. fst d = udid) (concat (map snd (case sims of None \<Rightarrow> [] | Some ss \<Rightarrow> ss))))"

text \<open>\<open>bootedFrom\<close>; a device of the listing has a \<open>udid\<close> and a \<open>state\<close>.\<close>

definition booted_from :: "(string \<times> (id \<times> string) list) list \<Rightarrow> (id \<times> string) list" where
  "booted_from listing =
     concat (map (\<lambda>(runtime, ds).
       case simulator_platform runtime of
         None \<Rightarrow> []
       | Some p \<Rightarrow> map (\<lambda>d. (fst d, p)) (filter (\<lambda>d. snd d = ''Booted'') ds)) listing)"

definition sim_target :: "id \<times> string \<Rightarrow> target" where
  "sim_target b = \<lparr>tg_id = fst b, tg_platform = snd b, tg_kind = Simulated, tg_driver = ''simctl''\<rparr>"

definition reachable_apple :: "apple_info \<Rightarrow> bool" where
  "reachable_apple d \<longleftrightarrow>
     (if apple_platform (ai_platform d) = None then False
      else if ai_transport d = None \<or> ai_transport d = Some ''sameMachine'' then False
      else if ai_pairing d \<noteq> None \<and> ai_pairing d \<noteq> Some ''paired'' then False
      else if ai_transport d = Some ''wired'' then True
      else ai_tunnel d = Some ''connected'')"

definition physical_apple :: "apple_info list \<Rightarrow> apple_info list" where
  "physical_apple ds = filter reachable_apple ds"

text \<open>\<open>targetsFrom\<close>\<close>

definition apple_target :: "apple_info \<Rightarrow> target" where
  "apple_target d =
     \<lparr>tg_id = ai_identifier d,
      tg_platform = (case apple_platform (ai_platform d) of None \<Rightarrow> ''ios'' | Some p \<Rightarrow> p),
      tg_kind = Hardware, tg_driver = ''devicectl''\<rparr>"

definition targets_from :: "apple_info list \<Rightarrow> target list" where
  "targets_from ds = map apple_target (physical_apple ds)"

definition undefined_text :: "string option \<Rightarrow> string" where
  "undefined_text x = (case x of None \<Rightarrow> ''undefined'' | Some s \<Rightarrow> s)"

definition apple_not_ready_reason :: "apple_info \<Rightarrow> string option" where
  "apple_not_ready_reason d =
     (if apple_platform (ai_platform d) = None then None
      else if ai_transport d = None \<or> ai_transport d = Some ''sameMachine'' then None
      else if physical_apple [d] \<noteq> [] then None
      else
        let nm = (case coalesce (ai_marketing d) (ai_name d) of Some n \<Rightarrow> n | None \<Rightarrow> ai_identifier d)
        in if ai_pairing d \<noteq> None \<and> ai_pairing d \<noteq> Some ''paired''
           then Some (nm @ '' is not paired with this Mac (pairingState='' @ undefined_text (ai_pairing d) @ '') -- '' @
                  ''plug it in, unlock it, and tap Trust. Pairing is per-Mac and does not move with the phone'')
           else Some (nm @ '' is paired but not reachable (transport='' @ undefined_text (ai_transport d) @ '', tunnel='' @
                  undefined_text (ai_tunnel d) @ '') -- it is not on the network, or is asleep''))"

section \<open>The fleet's own\<close>

text \<open>\<open>fleetOwned\<close>: hardware, or a virtual device whose name has the prefix.\<close>

definition fleet_owned :: "string \<Rightarrow> string option \<Rightarrow> bool" where
  "fleet_owned pre virtual = (case virtual of None \<Rightarrow> True | Some n \<Rightarrow> starts_with (lower pre) (lower n))"

section \<open>Roku\<close>

record roku_device =
  rk_ip :: string
  rk_port :: nat
  rk_serial :: "string option"
  rk_udn :: "string option"
  rk_model_name :: "string option"
  rk_model_number :: "string option"
  rk_type :: "string option"
  rk_software :: "string option"
  rk_developer :: "bool option"

definition CR_LF :: string where "CR_LF = [CHR 0x0D, CHR 0x0A]"

definition m_search_datagram :: string where
  "m_search_datagram =
     join CR_LF [''M-SEARCH * HTTP/1.1'', ''HOST: 239.255.255.250:1900'',
       ''MAN: '' @ [CHR 34] @ ''ssdp:discover'' @ [CHR 34], ''ST: roku:ecp'', ''MX: 1'', [], []]"

text \<open>\<open>/^name\s*:/i\<close>\<close>

definition header_named :: "string \<Rightarrow> string \<Rightarrow> bool" where
  "header_named n l \<longleftrightarrow>
     (case behind_i n l of None \<Rightarrow> False | Some r \<Rightarrow> starts_with '':'' (skip_spaces r))"

definition is_roku_reply :: "string \<Rightarrow> bool" where
  "is_roku_reply message \<longleftrightarrow>
     list_ex (\<lambda>l. (header_named ''st'' l \<or> header_named ''usn'' l) \<and> contains ''roku:ecp'' (lower l))
       (text_lines message)"

text \<open>\<open>\d{1,3}\<close>, then what follows\<close>

definition short_number :: "string \<Rightarrow> (string \<times> string) option" where
  "short_number s =
     (let d = takeWhile is_digit s in if d \<noteq> [] \<and> length d \<le> 3 then Some (d, dropWhile is_digit s) else None)"

fun dotted :: "nat \<Rightarrow> string \<Rightarrow> (string \<times> string) option" where
  "dotted 0 s = Some ([], s)"
| "dotted (Suc n) s =
     (case behind ''.'' s of
        None \<Rightarrow> None
      | Some r \<Rightarrow>
          (case short_number r of
             None \<Rightarrow> None
           | Some (d, r') \<Rightarrow>
               (case dotted n r' of None \<Rightarrow> None | Some (ds, r'') \<Rightarrow> Some (''.'' @ d @ ds, r''))))"

text \<open>\<open>/^https?:\/\/(\d{1,3}(?:\.\d{1,3}){3}):(\d+)/\<close>\<close>

definition location_url :: "string \<Rightarrow> (string \<times> nat) option" where
  "location_url u =
     (case coalesce (behind ''http://'' u) (behind ''https://'' u) of
        None \<Rightarrow> None
      | Some r \<Rightarrow>
          (case short_number r of
             None \<Rightarrow> None
           | Some (d, r1) \<Rightarrow>
               (case dotted 3 r1 of
                  None \<Rightarrow> None
                | Some (ds, r2) \<Rightarrow>
                    (case behind '':'' r2 of
                       None \<Rightarrow> None
                     | Some r3 \<Rightarrow>
                         let p = takeWhile is_digit r3
                         in if p = [] then None else Some (d @ ds, digits_val p)))))"

definition parse_ssdp_location :: "string \<Rightarrow> (string \<times> nat) option" where
  "parse_ssdp_location message =
     (case List.find (header_named ''location'') (text_lines message) of
        None \<Rightarrow> None
      | Some line \<Rightarrow>
          let url = trim (tl (dropWhile (\<lambda>c. c \<noteq> CHR '':'') line))
          in (case location_url url of
                None \<Rightarrow> None
              | Some (ip, port) \<Rightarrow> if port = 0 \<or> port > 65535 then None else Some (ip, port)))"

text \<open>\<open>found.set(`${ip}:${port}`, ...)\<close> for every reply of the window: the map of \<open>discoverEndpoints\<close>, in order.\<close>

definition bare_roku :: "string \<Rightarrow> nat \<Rightarrow> roku_device" where
  "bare_roku ip port =
     \<lparr>rk_ip = ip, rk_port = port, rk_serial = None, rk_udn = None, rk_model_name = None, rk_model_number = None,
      rk_type = None, rk_software = None, rk_developer = None\<rparr>"

definition endpoint_heard :: "string \<Rightarrow> roku_device list \<Rightarrow> roku_device list" where
  "endpoint_heard message found =
     (if \<not> is_roku_reply message then found
      else case parse_ssdp_location message of
        None \<Rightarrow> found
      | Some (ip, port) \<Rightarrow>
          if list_ex (\<lambda>d. rk_ip d = ip \<and> rk_port d = port) found then found else found @ [bare_roku ip port])"

definition discover_endpoints :: "string list \<Rightarrow> roku_device list" where
  "discover_endpoints replies = fold endpoint_heard replies []"

text \<open>\<open>xmlTag\<close>: the shortest text between the first opening tag and a closing one.\<close>

fun up_to_word_i :: "string \<Rightarrow> string \<Rightarrow> string option" where
  "up_to_word_i w [] = (if w = [] then Some [] else None)"
| "up_to_word_i w (c # s) =
     (if behind_i w (c # s) \<noteq> None then Some [] else map_option (Cons c) (up_to_word_i w s))"

definition xml_tag :: "string \<Rightarrow> string \<Rightarrow> string option" where
  "xml_tag xml tag =
     (case first_at (\<lambda>s. Option.bind (behind_i (''<'' @ tag @ ''>'') s) (up_to_word_i (''</'' @ tag @ ''>''))) xml of
        None \<Rightarrow> None
      | Some m \<Rightarrow> if trim m = [] then None else Some (trim m))"

definition parse_device_info :: "string \<Rightarrow> roku_device \<Rightarrow> roku_device" where
  "parse_device_info xml base =
     \<lparr>rk_ip = rk_ip base, rk_port = rk_port base,
      rk_serial = xml_tag xml ''serial-number'',
      rk_udn = coalesce (xml_tag xml ''device-id'') (xml_tag xml ''udn''),
      rk_model_name = coalesce (xml_tag xml ''model-name'') (xml_tag xml ''friendly-model-name''),
      rk_model_number = xml_tag xml ''model-number'',
      rk_type = xml_tag xml ''device-type'',
      rk_software = xml_tag xml ''software-version'',
      rk_developer = Some (map_option lower (xml_tag xml ''developer-enabled'') = Some ''true'')\<rparr>"

text \<open>\<open>fetchDeviceInfo\<close>: the body of a good answer, or nothing.\<close>

definition fetch_device_info :: "string option \<Rightarrow> roku_device \<Rightarrow> roku_device" where
  "fetch_device_info body d = (case body of None \<Rightarrow> d | Some xml \<Rightarrow> parse_device_info xml d)"

definition roku_devices :: "(roku_device \<Rightarrow> string option) \<Rightarrow> string list \<Rightarrow> roku_device list" where
  "roku_devices info replies = map (\<lambda>d. fetch_device_info (info d) d) (discover_endpoints replies)"

definition dashes_for_dots :: "string \<Rightarrow> string" where
  "dashes_for_dots s = map (\<lambda>c. if c = CHR ''.'' then CHR ''-'' else c) s"

definition roku_target_id :: "roku_device \<Rightarrow> id" where
  "roku_target_id d =
     (case rk_serial d of
        Some s \<Rightarrow> if s \<noteq> [] then ''roku-'' @ s else ''roku-ip-'' @ dashes_for_dots (rk_ip d)
      | None \<Rightarrow> ''roku-ip-'' @ dashes_for_dots (rk_ip d))"

definition roku_target :: "roku_device \<Rightarrow> target" where
  "roku_target d = \<lparr>tg_id = roku_target_id d, tg_platform = ''roku'', tg_kind = Hardware, tg_driver = ''roku''\<rparr>"

text \<open>\<open>/^roku-ip-(\d+)-(\d+)-(\d+)-(\d+)$/\<close> with its groups joined by dots\<close>

definition address_of_id :: "id \<Rightarrow> string option" where
  "address_of_id i =
     (case behind ''roku-ip-'' i of
        None \<Rightarrow> None
      | Some r \<Rightarrow>
          let ps = split_on (CHR ''-'') r
          in if length ps = 4 \<and> list_all (\<lambda>p. p \<noteq> [] \<and> list_all is_digit p) ps then Some (join ''.'' ps) else None)"

definition target_host :: "roku_device list \<Rightarrow> id \<Rightarrow> string + string" where
  "target_host found i =
     (case List.find (\<lambda>d. roku_target_id d = i) found of
        Some d \<Rightarrow> Inr (rk_ip d)
      | None \<Rightarrow>
          (case address_of_id i of
             Some a \<Rightarrow> Inr a
           | None \<Rightarrow> Inl (''cannot find '' @ i @ '' on this network any more'')))"

definition roku_presence_here :: "(string \<Rightarrow> string option) \<Rightarrow> bool" where
  "roku_presence_here getenv \<longleftrightarrow> getenv ''FLEET_ROKU'' = Some ''1''"

definition filled :: "string option \<Rightarrow> bool" where
  "filled x \<longleftrightarrow> x \<noteq> None \<and> x \<noteq> Some []"

definition describe_roku :: "roku_device \<Rightarrow> js" where
  "describe_roku d =
     JObj ([(''platform'', JStr ''roku''),
       (''model'', JStr (case coalesce (rk_model_name d) (rk_model_number d) of None \<Rightarrow> ''roku'' | Some m \<Rightarrow> m)),
       (''os'', JStr (if filled (rk_software d) then ''roku-'' @ the (rk_software d) else ''roku''))] @
      (if filled (rk_serial d) then [(''serial'', JStr (the (rk_serial d)))] else []) @
      (if filled (rk_type d) then [(''form_factor'', JStr (the (rk_type d)))] else []) @
      (case rk_developer d of None \<Rightarrow> [] | Some b \<Rightarrow> [(''developer_enabled'', JBool b)]) @
      [(''ip'', JStr (rk_ip d)), (''kind'', JStr ''device'')])"

section \<open>Pressure\<close>

definition round_js :: "jsnum \<Rightarrow> jsnum" where
  "round_js n = (case n of Fin r \<Rightarrow> Fin (of_int (round_half_up r)) | _ \<Rightarrow> n)"

text \<open>\<open>/free\s*=\s*([\d.]+)([MG])/\<close>\<close>

definition darwin_free :: "string \<Rightarrow> (string \<times> char) option" where
  "darwin_free s =
     (case Option.bind (behind ''free'' s) (\<lambda>r. behind ''='' (skip_spaces r)) of
        None \<Rightarrow> None
      | Some r \<Rightarrow>
          let n = takeWhile num_char (skip_spaces r)
          in (case drop (length n) (skip_spaces r) of
                [] \<Rightarrow> None
              | c # _ \<Rightarrow> if n \<noteq> [] \<and> (c = CHR ''M'' \<or> c = CHR ''G'') then Some (n, c) else None))"

definition times_1024 :: "jsnum \<Rightarrow> jsnum" where
  "times_1024 n = (case n of Fin r \<Rightarrow> Fin (r * 1024) | _ \<Rightarrow> n)"

definition parse_darwin_swap :: "string \<Rightarrow> jsnum option" where
  "parse_darwin_swap txt =
     map_option (\<lambda>(n, c). round_js (if c = CHR ''G'' then times_1024 (str_number n) else str_number n))
       (first_at darwin_free txt)"

text \<open>\<open>/^SwapFree:\s+(\d+)\s+kB/m\<close>\<close>

definition linux_free :: "string \<Rightarrow> nat option" where
  "linux_free s =
     (case behind ''SwapFree:'' s of
        None \<Rightarrow> None
      | Some r \<Rightarrow>
          let d = takeWhile is_digit (skip_spaces r); r' = drop (length d) (skip_spaces r)
          in if r \<noteq> skip_spaces r \<and> d \<noteq> [] \<and> r' \<noteq> skip_spaces r' \<and> starts_with ''kB'' (skip_spaces r')
             then Some (digits_val d) else None)"

definition parse_linux_swap :: "string \<Rightarrow> jsnum option" where
  "parse_linux_swap meminfo =
     map_option (\<lambda>n. round_js (Fin (of_nat n / 1024))) (first_line_at linux_free True meminfo)"

record pressure =
  pr_load1 :: rat
  pr_free_swap :: "jsnum option"

definition env_number :: "(string \<Rightarrow> string option) \<Rightarrow> string \<Rightarrow> jsnum" where
  "env_number getenv v = (case getenv v of None \<Rightarrow> NaN | Some s \<Rightarrow> str_number s)"

definition pressure_reason :: "pressure \<Rightarrow> (string \<Rightarrow> string option) \<Rightarrow> string option" where
  "pressure_reason p getenv =
     (let max_load = env_number getenv ''FLEET_MAX_LOAD''; min_swap = env_number getenv ''FLEET_MIN_FREE_SWAP_MB'';
          rs = (if is_finite max_load \<and> num_lt (Fin 0) max_load \<and> num_lt max_load (Fin (pr_load1 p))
                then [''load '' @ to_fixed 1 (pr_load1 p) @ '' is over '' @ num_str max_load] else []) @
               (case pr_free_swap p of
                  None \<Rightarrow> []
                | Some f \<Rightarrow>
                    if is_finite min_swap \<and> num_lt (Fin 0) min_swap \<and> num_lt f min_swap
                    then [num_str f @ '' MB of swap free is under '' @ num_str min_swap @ '' MB''] else [])
      in if rs = [] then None
         else Some (''this host is under pressure ('' @ join ''; '' rs @ ''), so it is taking no heavy work''))"

section \<open>Laws\<close>

lemma first_at_SomeD: "first_at f s = Some x \<Longrightarrow> \<exists>t. suffix t s \<and> f t = Some x"
  by (induction s) (auto split: option.splits intro: suffix_ConsI)

lemma dedupe_step_inv:
  assumes "set (fst st) = tg_id ` set (snd st)" "distinct (map tg_id (snd st))"
  shows "set (fst (dedupe_step t st)) = tg_id ` set (snd (dedupe_step t st)) \<and>
     distinct (map tg_id (snd (dedupe_step t st)))"
  using assms by (auto simp: dedupe_step_def)

lemma dedupe_fold_inv:
  assumes "set (fst st) = tg_id ` set (snd st)" "distinct (map tg_id (snd st))"
  shows "set (fst (fold dedupe_step ts st)) = tg_id ` set (snd (fold dedupe_step ts st)) \<and>
     distinct (map tg_id (snd (fold dedupe_step ts st)))"
  using assms
proof (induction ts arbitrary: st)
  case (Cons t ts)
  from Cons.IH [of "dedupe_step t st"] dedupe_step_inv [OF Cons.prems, of t] show ?case by simp
qed simp

lemma dedupe_concat: "fold (fold dedupe_step) found_lists st = fold dedupe_step (concat found_lists) st"
  by (induction found_lists arbitrary: st) simp_all

lemma dedupe_distinct: "distinct (map tg_id (dedupe found_lists))"
  using dedupe_fold_inv [of "([], [])" "concat found_lists"] by (simp add: dedupe_def dedupe_concat)

lemma dedupe_find:
  assumes "set (fst st) = tg_id ` set (snd st)"
  shows "List.find (\<lambda>t. tg_id t = i) (snd (fold dedupe_step ts st)) =
     List.find (\<lambda>t. tg_id t = i) (snd st @ ts)"
  using assms
proof (induction ts arbitrary: st)
  case (Cons t ts)
  have inv: "set (fst (dedupe_step t st)) = tg_id ` set (snd (dedupe_step t st))"
    using Cons.prems by (auto simp: dedupe_step_def)
  have f: "List.find P (xs @ ys) = coalesce (List.find P xs) (List.find P ys)" for P xs and ys :: "target list"
    by (induction xs) auto
  show ?case
  proof (cases "tg_id t \<in> set (fst st)")
    case True
    then have "\<exists>u \<in> set (snd st). tg_id u = tg_id t" using Cons.prems by auto
    then have "tg_id t = i \<Longrightarrow> List.find (\<lambda>t. tg_id t = i) (snd st) \<noteq> None"
      by (auto simp: find_None)
    then have "List.find (\<lambda>t. tg_id t = i) (snd st @ ts) = List.find (\<lambda>t. tg_id t = i) (snd st @ t # ts)"
      by (auto simp: f)
    then show ?thesis using Cons.IH [OF inv] True by (simp add: dedupe_step_def)
  next
    case False
    then show ?thesis using Cons.IH [OF inv] by (simp add: dedupe_step_def)
  qed
qed simp

text \<open>The copy of a target that survives is the one the earlier driver named.\<close>

lemma dedupe_first:
  "List.find (\<lambda>t. tg_id t = i) (dedupe found_lists) = List.find (\<lambda>t. tg_id t = i) (concat found_lists)"
  by (simp add: dedupe_def dedupe_concat dedupe_find)

lemma dedupe_ids: "tg_id ` set (dedupe found_lists) = tg_id ` set (concat found_lists)"
proof -
  have "i \<in> tg_id ` set xs \<longleftrightarrow> List.find (\<lambda>t. tg_id t = i) xs \<noteq> None" for i and xs :: "target list"
    by (auto simp: find_None)
  then show ?thesis by (intro set_eqI) (simp only: dedupe_first)
qed

lemma not_ready_iff:
  "apple_not_ready_reason d = None \<longleftrightarrow>
     reachable_apple d \<or> apple_platform (ai_platform d) = None \<or> ai_transport d = None \<or>
     ai_transport d = Some ''sameMachine''"
  by (simp add: apple_not_ready_reason_def physical_apple_def Let_def)

lemma endpoints_distinct:
  "distinct (map (\<lambda>d. (rk_ip d, rk_port d)) found) \<Longrightarrow>
   distinct (map (\<lambda>d. (rk_ip d, rk_port d)) (fold endpoint_heard replies found))"
proof (induction replies arbitrary: found)
  case (Cons m ms)
  have "distinct (map (\<lambda>d. (rk_ip d, rk_port d)) (endpoint_heard m found))"
    using Cons.prems by (auto simp: endpoint_heard_def bare_roku_def list_ex_iff split: option.splits)
  then show ?case using Cons.IH by simp
qed simp

text \<open>A Roku without a serial can be found again from its id alone.\<close>

lemma split_on_join:
  "ps \<noteq> [] \<Longrightarrow> list_all (list_all (\<lambda>c. c \<noteq> d)) ps \<Longrightarrow> split_on d (join [d] ps) = ps"
proof (induction ps)
  case (Cons x ps)
  have one: "list_all (\<lambda>c. c \<noteq> d) x \<Longrightarrow> split_on d x = [x]" by (induction x) auto
  have more: "list_all (\<lambda>c. c \<noteq> d) x \<Longrightarrow> split_on d (x @ d # r) = x # split_on d r" for r
    by (induction x) auto
  show ?case using Cons one more by (cases ps) simp_all
qed simp

end
