(* ===== verification/Host_Targets.thy ===== *)
theory Host_Targets
  imports Host_Drivers
begin

text \<open>
  Which attached devices a host job runs on, and what the host reports of them
  (\<open>collector/src/executor.ts\<close>): \<open>selectTargets\<close>, \<open>describeTarget\<close>, \<open>virtualNameOf\<close> and the presence sweep
  \<open>reportAttached\<close>. \<open>host_tools\<close> is what the command-line tools answer during one pass; a tool that
  fails answers \<open>None\<close>. The two listings of simulators a selection asks for are two fields.
\<close>

record host_tools =
  ht_name :: string
  ht_host :: string
  ht_prefix :: string
  ht_sims :: "sim_list option"
  ht_sims_again :: "sim_list option"
  ht_apple :: "apple_info list"
  ht_avd :: "id \<Rightarrow> string option"
  ht_prop :: "id \<Rightarrow> string \<Rightarrow> string option"
  ht_meminfo :: "id \<Rightarrow> string option"

section \<open>Names and descriptors\<close>

definition virtual_name_of :: "host_tools \<Rightarrow> sim_list option \<Rightarrow> target \<Rightarrow> string option" where
  "virtual_name_of T sims t =
     (if tg_platform t = ''ios'' then simulator_name (tg_id t) sims
      else if \<not> is_emulator_serial (tg_id t) then None
      else case ht_avd T (tg_id t) of
        None \<Rightarrow> Some (tg_id t)
      | Some out \<Rightarrow>
          (case filter (\<lambda>l. l \<noteq> [] \<and> l \<noteq> ''OK'') (map trim (split_on (CHR 0x0A) out)) of
             [] \<Rightarrow> Some (tg_id t)
           | l # _ \<Rightarrow> Some l))"

definition fleet_owned_target :: "host_tools \<Rightarrow> sim_list option \<Rightarrow> target \<Rightarrow> bool" where
  "fleet_owned_target T sims t = fleet_owned (ht_prefix T) (virtual_name_of T sims t)"

text \<open>\<open>/MemTotal:\s+(\d+)/\<close>\<close>

definition mem_total :: "string \<Rightarrow> nat option" where
  "mem_total s =
     (case behind ''MemTotal:'' s of
        None \<Rightarrow> None
      | Some r \<Rightarrow>
          let d = takeWhile is_digit (skip_spaces r)
          in if r \<noteq> skip_spaces r \<and> d \<noteq> [] then Some (digits_val d) else None)"

definition mem_kb :: "string option \<Rightarrow> nat" where
  "mem_kb out = (case Option.bind out (first_at mem_total) of None \<Rightarrow> 0 | Some n \<Rightarrow> n)"

definition getprop :: "host_tools \<Rightarrow> id \<Rightarrow> string \<Rightarrow> string" where
  "getprop T i k = (case ht_prop T i k of None \<Rightarrow> [] | Some out \<Rightarrow> trim out)"

definition attached_fields :: "host_tools \<Rightarrow> obj" where
  "attached_fields T = [(''attached_to'', JStr (ht_name T)), (''attached_host'', JStr (ht_host T))]"

definition describe_android :: "host_tools \<Rightarrow> target \<Rightarrow> js" where
  "describe_android T t =
     (let model = getprop T (tg_id t) ''ro.product.model''; rel = getprop T (tg_id t) ''ro.build.version.release'';
          kb = mem_kb (ht_meminfo T (tg_id t))
      in JObj ([(''model'', JStr (if model = [] then tg_id t else model)),
           (''os'', JStr (if rel = [] then ''android'' else ''android-'' @ rel))] @
          (if kb = 0 then [] else [(''ram_mb'', JInt (round_half_up (of_nat kb / 1024)))]) @
          [(''serial'', JStr (tg_id t))] @ attached_fields T @ [(''kind'', JStr (kind_text (tg_kind t)))]))"

definition describe_roku_target :: "host_tools \<Rightarrow> roku_device list \<Rightarrow> target \<Rightarrow> js" where
  "describe_roku_target T rokus t =
     (case (case List.find (\<lambda>r. tg_id (roku_target r) = tg_id t) rokus of
              Some d \<Rightarrow> describe_roku d
            | None \<Rightarrow> JObj [(''platform'', JStr ''roku''), (''model'', JStr ''roku''), (''os'', JStr ''roku''),
                (''kind'', JStr ''device'')]) of
        JObj fs \<Rightarrow> JObj (fs @ attached_fields T)
      | v \<Rightarrow> v)"

text \<open>The simulator with this id, with the runtime it is listed under.\<close>

fun simulator_listed :: "id \<Rightarrow> sim_list \<Rightarrow> (string \<times> string) option" where
  "simulator_listed i [] = None"
| "simulator_listed i ((runtime, ds) # rest) =
     (case List.find (\<lambda>d. fst d = i) ds of
        Some d \<Rightarrow> Some (runtime, snd d)
      | None \<Rightarrow> simulator_listed i rest)"

definition describe_simulator :: "host_tools \<Rightarrow> target \<Rightarrow> string \<Rightarrow> string \<Rightarrow> js" where
  "describe_simulator T t runtime nm =
     (let family = (case simulator_platform runtime of None \<Rightarrow> ''ios'' | Some p \<Rightarrow> p)
      in JObj ([(''model'', JStr nm),
           (''os'', JStr (case first_at runtime_version runtime of
              None \<Rightarrow> family
            | Some v \<Rightarrow> family @ ''-'' @ v)),
           (''serial'', JStr (tg_id t))] @ attached_fields T @
          [(''kind'', JStr ''simulator''), (''soc'', JStr ''simulator'')]))"

definition describe_apple :: "host_tools \<Rightarrow> target \<Rightarrow> apple_info \<Rightarrow> js" where
  "describe_apple T t d =
     (let simulated = (ai_transport d = Some ''sameMachine'')
      in JObj ([(''model'', JStr (case coalesce (ai_marketing d) (ai_name d) of
              Some m \<Rightarrow> m
            | None \<Rightarrow> if simulated then ''simulator'' else ''iphone'')),
           (''os'', JStr (if filled (ai_os d) then ''ios-'' @ the (ai_os d) else ''ios''))] @
          (if simulated then [(''soc'', JStr ''simulator'')]
           else if filled (ai_product d) then [(''soc'', JStr (the (ai_product d)))] else []) @
          [(''serial'', JStr (tg_id t))] @ attached_fields T @
          [(''kind'', JStr (if simulated then ''simulator'' else ''device''))]))"

definition describe_unknown :: "host_tools \<Rightarrow> target \<Rightarrow> js" where
  "describe_unknown T t =
     JObj ([(''model'', JStr (if tg_kind t = Simulated then ''simulator'' else ''iphone'')), (''os'', JStr ''ios''),
        (''serial'', JStr (tg_id t))] @ attached_fields T @ [(''kind'', JStr (kind_text (tg_kind t)))])"

definition describe_target ::
  "host_tools \<Rightarrow> target \<Rightarrow> sim_list option \<Rightarrow> apple_info list option \<Rightarrow> roku_device list \<Rightarrow> js" where
  "describe_target T t sims apples rokus =
     (if tg_platform t = ''roku'' then describe_roku_target T rokus t
      else if tg_platform t = ''android'' then describe_android T t
      else case simulator_listed (tg_id t) (case sims of None \<Rightarrow> [] | Some ss \<Rightarrow> ss) of
        Some (runtime, nm) \<Rightarrow> describe_simulator T t runtime nm
      | None \<Rightarrow>
          (case List.find (\<lambda>d. ai_identifier d = tg_id t) (case apples of None \<Rightarrow> [] | Some ds \<Rightarrow> ds) of
             Some d \<Rightarrow> describe_apple T t d
           | None \<Rightarrow> describe_unknown T t))"

section \<open>Choosing targets\<close>

definition targets_of :: "js \<Rightarrow> js" where
  "targets_of job = jor (jget ''targets'' job) (JObj [])"

definition pinned :: "js \<Rightarrow> target list \<Rightarrow> target list" where
  "pinned t out =
     (let out1 = (if truthy (jget ''device_id'' t) then filter (\<lambda>x. JStr (tg_id x) = jget ''device_id'' t) out else out)
      in if truthy (jget ''device_kind'' t)
         then filter (\<lambda>x. JStr (kind_text (tg_kind x)) = jget ''device_kind'' t) out1 else out1)"

definition some_ios :: "target list \<Rightarrow> bool" where
  "some_ios ts \<longleftrightarrow> list_ex (\<lambda>x. tg_platform x = ''ios'') ts"

definition owned_targets :: "host_tools \<Rightarrow> target list \<Rightarrow> target list" where
  "owned_targets T out = filter (fleet_owned_target T (if some_ios out then ht_sims T else None)) out"

text \<open>\<open>descriptorOf\<close>. The devicectl listing is fetched with the first descriptor, and only if there is an iOS
  target among those left then; \<open>apples\<close> is what came of that.\<close>

definition apples_for :: "host_tools \<Rightarrow> target list \<Rightarrow> apple_info list option" where
  "apples_for T out = (if some_ios out then Some (ht_apple T) else None)"

definition descriptor_of :: "host_tools \<Rightarrow> apple_info list option \<Rightarrow> target \<Rightarrow> js" where
  "descriptor_of T apples t = jset ''device_id'' (JStr (tg_id t)) (describe_target T t (ht_sims_again T) apples [])"

definition reserved_label :: "js \<Rightarrow> id \<Rightarrow> string option" where
  "reserved_label job i = str_of (jget i (jget ''reserved_devices'' job))"

text \<open>A device's reservation is checked against its descriptor only when the job names devices by a match.\<close>

definition wants_descriptor :: "js \<Rightarrow> target \<Rightarrow> bool" where
  "wants_descriptor job t \<longleftrightarrow>
     filled (reserved_label job (tg_id t)) \<and> \<not> truthy (jget ''device_id'' (targets_of job)) \<and>
     truthy (jget ''match'' (targets_of job))"

definition unreserved_targets :: "regex \<Rightarrow> host_tools \<Rightarrow> js \<Rightarrow> target list \<Rightarrow> target list" where
  "unreserved_targets re T job out =
     (if list_ex (\<lambda>x. filled (reserved_label job (tg_id x))) out
      then filter (\<lambda>x. reservation_allows re job (tg_id x) (reserved_label job (tg_id x))
             (if wants_descriptor job x then descriptor_of T (apples_for T out) x else JObj [])) out
      else out)"

fun keep_matching :: "(target \<Rightarrow> match_error + bool) \<Rightarrow> target list \<Rightarrow> match_error + target list" where
  "keep_matching test [] = Inr []"
| "keep_matching test (t # ts) =
     (case test t of
        Inl e \<Rightarrow> Inl e
      | Inr b \<Rightarrow>
          (case keep_matching test ts of Inl e \<Rightarrow> Inl e | Inr kept \<Rightarrow> Inr (if b then t # kept else kept)))"

text \<open>\<open>selectTargets\<close>. A match expression that cannot be evaluated is the error of the whole selection.\<close>

definition select_targets :: "regex \<Rightarrow> host_tools \<Rightarrow> js \<Rightarrow> target list \<Rightarrow> match_error + target list" where
  "select_targets re T job all_targets =
     (let t = targets_of job;
          out = owned_targets T (pinned t all_targets);
          kept = unreserved_targets re T job out;
          apples = apples_for T (if list_ex (wants_descriptor job) out then out else kept)
      in case jget ''match'' t of
           JStr m \<Rightarrow>
             if m = [] then Inr kept else keep_matching (\<lambda>x. eval_match re m (descriptor_of T apples x)) kept
         | _ \<Rightarrow> Inr kept)"

section \<open>Presence\<close>

definition VIRTUAL_PRESENCE_TTL_S :: nat where "VIRTUAL_PRESENCE_TTL_S = 900"

record attached_world =
  aw_adb :: "id list"
  aw_booted :: "(id \<times> string) list"
  aw_rokus :: "roku_device list"
  aw_env :: "string \<Rightarrow> string option"

text \<open>\<open>listTargets\<close> with a devicectl listing, as the sweep calls it\<close>

definition rokus_here :: "attached_world \<Rightarrow> roku_device list" where
  "rokus_here w = (if roku_presence_here (aw_env w) then aw_rokus w else [])"

definition list_targets :: "host_tools \<Rightarrow> attached_world \<Rightarrow> target list" where
  "list_targets T w =
     dedupe [map adb_target (aw_adb w), map sim_target (aw_booted w), targets_from (ht_apple T),
       map roku_target (rokus_here w)]"

text \<open>What a job is selected from: every driver's list, the Rokus of the network included\<close>

definition job_targets :: "host_tools \<Rightarrow> attached_world \<Rightarrow> target list" where
  "job_targets T w =
     list_all_targets [Some (map adb_target (aw_adb w)), Some (map sim_target (aw_booted w)),
       Some (targets_from (ht_apple T)), Some (map roku_target (aw_rokus w))]"

text \<open>The body posted to \<open>/devices/register\<close>\<close>

record presence_row =
  ps_device :: id
  ps_descriptor :: js
  ps_ttl :: "nat option"

definition presence_of :: "host_tools \<Rightarrow> sim_list option \<Rightarrow> roku_device list \<Rightarrow> target \<Rightarrow> presence_row" where
  "presence_of T sims rokus t =
     (let d = describe_target T t sims (Some (ht_apple T)) rokus
      in \<lparr>ps_device = tg_id t, ps_descriptor = d,
          ps_ttl = (if jget ''kind'' d = JStr ''simulator'' \<or> is_emulator_serial (tg_id t)
                    then Some VIRTUAL_PRESENCE_TTL_S else None)\<rparr>)"

fun presence_rows :: "host_tools \<Rightarrow> sim_list option \<Rightarrow> roku_device list \<Rightarrow> id list \<Rightarrow> target list \<Rightarrow> presence_row list" where
  "presence_rows T sims rokus seen [] = []"
| "presence_rows T sims rokus seen (t # ts) =
     (if tg_id t \<in> set seen then presence_rows T sims rokus seen ts
      else if \<not> fleet_owned_target T sims t then presence_rows T sims rokus (tg_id t # seen) ts
      else presence_of T sims rokus t # presence_rows T sims rokus (tg_id t # seen) ts)"

text \<open>The devices a host ignores are explained once each.\<close>

definition announce_key :: "apple_info \<Rightarrow> string" where
  "announce_key d =
     ai_identifier d @ '':'' @ undefined_text (ai_pairing d) @ '':'' @ undefined_text (ai_tunnel d)"

definition announce :: "apple_info \<Rightarrow> string list \<times> string list \<Rightarrow> string list \<times> string list" where
  "announce d st =
     (case apple_not_ready_reason d of
        None \<Rightarrow> st
      | Some reason \<Rightarrow>
          if announce_key d \<in> set (fst st) then st else (announce_key d # fst st, snd st @ [reason]))"

text \<open>\<open>reportAttached\<close>: what is registered, and the keys and lines of the announcements\<close>

definition report_attached ::
  "host_tools \<Rightarrow> attached_world \<Rightarrow> string list \<Rightarrow> presence_row list \<times> string list \<times> string list" where
  "report_attached T w announced =
     (let ts = list_targets T w;
          sims = (if some_ios ts then ht_sims T else None)
      in (presence_rows T sims (rokus_here w) [] ts, fold announce (ht_apple T) (announced, [])))"

section \<open>Laws\<close>

lemma keep_matching_Inr:
  "keep_matching test ts = Inr kept \<longleftrightarrow>
     (\<forall>t \<in> set ts. \<exists>b. test t = Inr b) \<and> kept = filter (\<lambda>t. test t = Inr True) ts"
proof (induction ts arbitrary: kept)
  case (Cons t ts)
  show ?case
  proof (cases "keep_matching test ts")
    case (Inl e)
    then have "\<not> (\<forall>t \<in> set ts. \<exists>b. test t = Inr b)" using Cons.IH by auto
    then show ?thesis using Inl by (auto split: sum.splits)
  next
    case (Inr r)
    then show ?thesis using Cons.IH [of r] by (auto split: sum.splits)
  qed
qed auto

lemma keep_matching_Inl: "keep_matching test ts = Inl e \<Longrightarrow> \<exists>t \<in> set ts. test t = Inl e"
  by (induction ts) (auto split: sum.splits)

lemma set_pinned:
  "x \<in> set (pinned t out) \<longleftrightarrow> x \<in> set out \<and>
     (truthy (jget ''device_id'' t) \<longrightarrow> jget ''device_id'' t = JStr (tg_id x)) \<and>
     (truthy (jget ''device_kind'' t) \<longrightarrow> jget ''device_kind'' t = JStr (kind_text (tg_kind x)))"
  by (auto simp: pinned_def Let_def)

lemma virtual_name_other: "tg_platform t \<noteq> ''ios'' \<Longrightarrow> virtual_name_of T sims t = virtual_name_of T sims' t"
  by (simp add: virtual_name_of_def)

text \<open>Whether a target is the fleet's does not depend on the list it is found in.\<close>

lemma owned_listed:
  assumes "t \<in> set out" "t \<in> set ts"
  shows "fleet_owned_target T (if some_ios out then ht_sims T else None) t \<longleftrightarrow>
     fleet_owned_target T (if some_ios ts then ht_sims T else None) t"
proof (cases "tg_platform t = ''ios''")
  case True
  then have "some_ios out" "some_ios ts" using assms by (auto simp: some_ios_def list_ex_iff)
  then show ?thesis by simp
next
  case False
  then show ?thesis using virtual_name_other [of t T] by (metis fleet_owned_target_def)
qed

lemma presence_rows_distinct:
  "distinct (map tg_id ts) \<Longrightarrow> set seen \<inter> tg_id ` set ts = {} \<Longrightarrow>
   presence_rows T sims rokus seen ts = map (presence_of T sims rokus) (filter (fleet_owned_target T sims) ts)"
  by (induction ts arbitrary: seen) auto

text \<open>The job and the sweep see the same targets, but for the Rokus of another host.\<close>

lemma find_append: "List.find P (xs @ ys) = coalesce (List.find P xs) (List.find P ys)"
  by (induction xs) auto

lemma find_distinct:
  "distinct (map tg_id ts) \<Longrightarrow> List.find (\<lambda>u. tg_id u = i) ts = Some t \<longleftrightarrow> t \<in> set ts \<and> tg_id t = i"
  by (induction ts) auto

lemma job_target_listed:
  assumes "t \<in> set (job_targets T w)" "tg_platform t \<noteq> ''roku''"
  shows "t \<in> set (list_targets T w)"
proof -
  let ?a = "map adb_target (aw_adb w) @ map sim_target (aw_booted w) @ targets_from (ht_apple T)"
  let ?P = "\<lambda>u. tg_id u = tg_id t"
  have job: "job_targets T w = dedupe [?a, map roku_target (aw_rokus w)]"
    and here: "list_targets T w = dedupe [?a, map roku_target (rokus_here w)]"
    by (simp_all add: job_targets_def list_all_targets_def list_targets_def dedupe_def)
  have "List.find ?P (?a @ map roku_target (aw_rokus w)) = Some t"
    using assms(1) find_distinct [OF dedupe_distinct, of "tg_id t" "[?a, map roku_target (aw_rokus w)]" t]
    by (simp add: job dedupe_first del: append_assoc)
  moreover have "List.find ?P (map roku_target (aw_rokus w)) \<noteq> Some t"
    using assms(2) by (auto dest!: find_SomeD simp: roku_target_def)
  ultimately have "List.find ?P ?a = Some t"
    by (cases "List.find ?P ?a") (simp_all add: find_append del: append_assoc)
  then have "List.find ?P (dedupe [?a, map roku_target (rokus_here w)]) = Some t"
    by (simp add: dedupe_first find_append del: append_assoc)
  then show ?thesis
    by (auto simp only: here dest!: find_SomeD)
qed

lemma list_targets_distinct: "distinct (map tg_id (list_targets T w))"
  by (simp add: list_targets_def dedupe_distinct)

lemma report_attached_rows:
  "fst (report_attached T w announced) =
     (let ts = list_targets T w; sims = (if some_ios ts then ht_sims T else None)
      in map (presence_of T sims (rokus_here w)) (filter (fleet_owned_target T sims) ts))"
  by (simp add: report_attached_def Let_def presence_rows_distinct [OF list_targets_distinct])

lemma ps_device_presence_of [simp]: "ps_device (presence_of T sims rokus t) = tg_id t"
  by (simp add: presence_of_def Let_def)

lemma set_unreserved:
  "x \<in> set (unreserved_targets re T job out) \<longleftrightarrow> x \<in> set out \<and>
     (\<not> filled (reserved_label job (tg_id x)) \<or>
      reservation_allows re job (tg_id x) (reserved_label job (tg_id x))
        (if wants_descriptor job x then descriptor_of T (apples_for T out) x else JObj []))"
  by (auto simp: unreserved_targets_def list_ex_iff reservation_allows_def filled_def split: option.splits)

lemma select_targets_subset:
  assumes "select_targets re T job ts = Inr kept"
  shows "set kept \<subseteq> set (unreserved_targets re T job (owned_targets T (pinned (targets_of job) ts)))"
  using assms by (auto simp: select_targets_def Let_def keep_matching_Inr split: js.splits if_splits)

lemma announce_once:
  "distinct (fst st) \<Longrightarrow> distinct (fst (fold announce ds st))"
proof (induction ds arbitrary: st)
  case (Cons d ds)
  have "distinct (fst (announce d st))" using Cons.prems by (auto simp: announce_def split: option.splits)
  then show ?case using Cons.IH by simp
qed simp

end
