(* ===== verification/Host_Executor.thy ===== *)
theory Host_Executor
  imports "HOL-Library.AList" Host_Targets Skip_Status Text_Pattern
begin

text \<open>
  The host executor's loop (\<open>collector/src/executor.ts\<close>), the reasons its rows carry (\<open>result-reason.ts\<close>), the
  time budget of a lease (\<open>fleet-client.ts\<close>) and how a job finds its workload (\<open>workloads/registry.ts\<close>,
  \<open>workloads/static.ts\<close>). A workload is a list of the rows it posts and how it ended.
\<close>

section \<open>Reasons\<close>

definition cut :: "nat \<Rightarrow> string \<Rightarrow> string" where
  "cut n s = (if length s > n then take (n - 3) s @ ''...'' else s)"

definition first_line :: "string \<Rightarrow> string" where
  "first_line s =
     (case filter (\<lambda>l. l \<noteq> []) (map trim (split_on (CHR 0x0A) s)) of [] \<Rightarrow> [] | l # _ \<Rightarrow> l)"

definition last_said_line :: "js \<Rightarrow> string" where
  "last_said_line v =
     (case v of
        JStr s \<Rightarrow> (case rev (filter (\<lambda>l. l \<noteq> []) (map trim (text_lines s))) of [] \<Rightarrow> [] | l # _ \<Rightarrow> l)
      | _ \<Rightarrow> [])"

text \<open>\<open>execFailureReason\<close> of what \<open>execFile\<close> rejects with\<close>

definition program_name :: "js \<Rightarrow> string" where
  "program_name cmd =
     (case cmd of
        JStr s \<Rightarrow>
          let p = last (split_on (CHR ''/'') (takeWhile (\<lambda>c. \<not> is_space c) (trim s)))
          in if p = [] then ''the command'' else p
      | _ \<Rightarrow> ''the command'')"

definition how_it_failed :: "js \<Rightarrow> string" where
  "how_it_failed e =
     (if jget ''killed'' e = JBool True \<or> is_str (jget ''signal'' e)
      then ''was killed'' @ (case jget ''signal'' e of JStr s \<Rightarrow> '' ('' @ s @ '')'' | _ \<Rightarrow> [])
      else case jget ''code'' e of
        JNum n \<Rightarrow> ''exited '' @ num_str n
      | JStr s \<Rightarrow> ''could not run ('' @ s @ '')''
      | _ \<Rightarrow> ''failed'')"

definition said_by :: "js \<Rightarrow> string" where
  "said_by e =
     (let l = (if last_said_line (jget ''stderr'' e) = [] then last_said_line (jget ''stdout'' e) else last_said_line (jget ''stderr'' e))
      in if l \<noteq> [] then l
         else case jget ''message'' e of
           JStr m \<Rightarrow> if starts_with ''Command failed'' m then [] else first_line m
         | _ \<Rightarrow> [])"

definition exec_failure_reason :: "js \<Rightarrow> string list \<Rightarrow> string" where
  "exec_failure_reason e secrets =
     (let s = fold (\<lambda>sec t. if sec = [] then t else replace_all sec ''[redacted]'' t) secrets (said_by e);
          head = program_name (jget ''cmd'' e) @ '' '' @ how_it_failed e
      in cut 300 (if s = [] then head @ '' and printed nothing'' else head @ '': '' @ s))"

text \<open>\<open>hasReason\<close> is \<open>said\<close> of \<open>Skip_Status\<close>.\<close>

abbreviation has_reason :: "js \<Rightarrow> bool" where
  "has_reason v \<equiv> said v \<noteq> None"

fun num_plus :: "jsnum \<Rightarrow> jsnum \<Rightarrow> jsnum" where
  "num_plus (Fin a) (Fin b) = Fin (a + b)"
| "num_plus NaN b = NaN"
| "num_plus a NaN = NaN"
| "num_plus PInf NInf = NaN"
| "num_plus NInf PInf = NaN"
| "num_plus PInf b = PInf"
| "num_plus NInf b = NInf"
| "num_plus a PInf = PInf"
| "num_plus a NInf = NInf"

definition device_reason :: "js \<Rightarrow> string" where
  "device_reason row =
     (case jget ''failed'' (jget ''test'' row) of
        JNum f \<Rightarrow>
          if num_lt (Fin 0) f then
            let tot = num_plus f (case jget ''passed'' (jget ''test'' row) of JNum p \<Rightarrow> p | _ \<Rightarrow> Fin 0)
            in num_str f @ '' of '' @ num_str tot @ '' test'' @ (if tot = Fin 1 then [] else ''s'') @
               '' failed; the runner reported no failing step''
          else ''failed; the workload reported no reason''
      | _ \<Rightarrow> ''failed; the workload reported no reason'')"

section \<open>The tracker around postResult\<close>

type_synonym device_outcome = "bool \<times> string option"
type_synonym seen_rows = "(id \<times> (id \<times> device_outcome) list) list"

definition with_error :: "string \<Rightarrow> js \<Rightarrow> js" where
  "with_error e row = jset ''error'' (JStr e) row"

definition silent_failure :: "js \<Rightarrow> bool" where
  "silent_failure row \<longleftrightarrow> jget ''ok'' row = JBool False \<and> \<not> has_reason (jget ''error'' row)"

definition text_field :: "string \<Rightarrow> js \<Rightarrow> string" where
  "text_field k row = (case jget k row of JStr s \<Rightarrow> s | _ \<Rightarrow> [])"

definition devices_seen :: "seen_rows \<Rightarrow> string \<Rightarrow> (id \<times> device_outcome) list" where
  "devices_seen seen job = (case map_of seen job of None \<Rightarrow> [] | Some ds \<Rightarrow> ds)"

text \<open>\<open>r.final !== true\<close>\<close>

definition post_device_row :: "seen_rows \<Rightarrow> js \<Rightarrow> seen_rows \<times> js" where
  "post_device_row seen row =
     (let out = (if silent_failure row then with_error (device_reason row) row else row);
          job = text_field ''job_id'' row; dev = text_field ''device_id'' row
      in (if job \<noteq> [] \<and> \<not> starts_with ''host:'' dev
          then AList.update job
                 (AList.update dev (jget ''ok'' out \<noteq> JBool False, said (jget ''error'' out)) (devices_seen seen job)) seen
          else seen, out))"

definition final_reason :: "(id \<times> device_outcome) list \<Rightarrow> string" where
  "final_reason ds =
     (let failing = filter (\<lambda>(_, ok, _). \<not> ok) ds;
          parts = map (\<lambda>(i, _, e). i @ '': '' @ first_line (case e of None \<Rightarrow> ''no reason given'' | Some r \<Rightarrow> r)) failing
      in if failing = [] then ''failed; the workload reported no reason''
         else if length failing = 1 \<and> length ds \<le> 1 then hd parts
         else nat_str (length failing) @ '' of '' @ nat_str (length ds) @ '' devices failed -- '' @ join ''; '' parts)"

definition post_final_row :: "seen_rows \<Rightarrow> js \<Rightarrow> seen_rows \<times> js" where
  "post_final_row seen row =
     (let job = text_field ''job_id'' row; ds = (if job = [] then [] else devices_seen seen job)
      in (if job = [] then seen else AList.delete job seen,
          if silent_failure row then with_error (cut 500 (final_reason ds)) row else row))"

text \<open>\<open>withFailureReasons\<close>: the row that is posted, and what is remembered\<close>

definition post_with_reason :: "seen_rows \<Rightarrow> js \<Rightarrow> seen_rows \<times> js" where
  "post_with_reason seen row =
     (if jget ''final'' row \<noteq> JBool True then post_device_row seen row else post_final_row seen row)"

section \<open>The budget of a lease\<close>

definition lease_budget_s :: "js \<Rightarrow> rat \<Rightarrow> rat" where
  "lease_budget_s job fallback =
     (let lease = js_number (jget ''ttl_s'' (jget ''lease'' job));
          asked = js_number (jget ''timeout_s'' (jget ''params'' job));
          budget = (case asked of
             Fin a \<Rightarrow> if a > 0 then a else (case lease of Fin l \<Rightarrow> if l > 30 then l - 30 else fallback | _ \<Rightarrow> fallback)
           | _ \<Rightarrow> (case lease of Fin l \<Rightarrow> if l > 30 then l - 30 else fallback | _ \<Rightarrow> fallback))
      in max 30 budget)"

section \<open>Workloads\<close>

definition manifest_capabilities :: "string list" where
  "manifest_capabilities = [''devices'', ''browsers'', ''network'']"

text \<open>\<open>JSON.stringify(v)\<close> in a template, \<open>undefined\<close> included\<close>

definition json_text :: "js \<Rightarrow> string" where
  "json_text v = (if v = JUndef then ''undefined'' else stringify v)"

definition some_object :: "js \<Rightarrow> bool" where
  "some_object v \<longleftrightarrow> is_object v \<and> v \<noteq> JNull"

definition manifest_problem :: "string \<Rightarrow> js \<Rightarrow> string option" where
  "manifest_problem nm m =
     (if \<not> some_object m then Some ''manifest.json is not an object''
      else if jget ''name'' m \<noteq> JStr nm
        then Some (''manifest.json says name '' @ json_text (jget ''name'' m) @ '', but the directory is '' @ quote nm)
      else if \<not> (case jget ''capability'' m of JStr c \<Rightarrow> c \<in> set manifest_capabilities | _ \<Rightarrow> False)
        then Some (''capability must be one of '' @ join '', '' manifest_capabilities @ '', not '' @
               json_text (jget ''capability'' m))
      else if \<not> (case jget ''description'' m of JStr d \<Rightarrow> d \<noteq> [] | _ \<Rightarrow> False) then Some ''description is missing''
      else if jget ''executor'' m \<noteq> JStr ''host'' \<and> jget ''executor'' m \<noteq> JStr ''device''
        then Some (''executor must be '' @ quote ''host'' @ '' or '' @ quote ''device'')
      else if \<not> some_object (jget ''params'' m) then Some ''params must be a JSON Schema object''
      else if \<not> some_object (jget ''example'' m) then Some ''example must be a spec object''
      else None)"

text \<open>An entry of the directory, with its manifest: what \<open>JSON.parse\<close> made of it, or why it could not be read.\<close>

record workload_entry =
  we_name :: string
  we_is_dir :: bool
  we_manifest :: "string + js"

definition discover_entry ::
  "workload_entry \<Rightarrow> (string \<times> js) list \<times> string list \<Rightarrow> (string \<times> js) list \<times> string list" where
  "discover_entry e st =
     (if \<not> we_is_dir e then st
      else case we_manifest e of
        Inl err \<Rightarrow>
          (fst st, snd st @ [''workload '' @ [CHR 0x22] @ we_name e @ CHR 0x22 # '' has no readable manifest.json ('' @ err @ ''); skipping it''])
      | Inr m \<Rightarrow>
          (case manifest_problem (we_name e) m of
             Some p \<Rightarrow>
               (fst st, snd st @ [''workload '' @ [CHR 0x22] @ we_name e @ CHR 0x22 # '' has an invalid manifest.json: '' @ p @ ''; skipping it''])
           | None \<Rightarrow> (AList.update (we_name e) m (fst st), snd st)))"

definition discover_workloads :: "string + workload_entry list \<Rightarrow> (string \<times> js) list \<times> string list" where
  "discover_workloads dir =
     (case dir of
        Inl err \<Rightarrow> ([], [''cannot read the workloads directory ('' @ err @ ''); no workloads are loadable''])
      | Inr es \<Rightarrow> fold discover_entry es ([], []))"

definition bundled_names :: "string list" where
  "bundled_names = [''cold-start'', ''enrol'', ''explore'', ''install'', ''size-report'', ''tvloop'', ''upgrade-test'']"

text \<open>\<open>BUNDLED[name]\<close> also finds what an object inherits. Calling those gives no module, or throws.\<close>

definition inherited_names :: "string list" where
  "inherited_names =
     [''constructor'', ''toString'', ''toLocaleString'', ''valueOf'', ''hasOwnProperty'', ''isPrototypeOf'',
      ''propertyIsEnumerable'', ''__proto__'', ''__defineGetter__'', ''__defineSetter__'', ''__lookupGetter__'',
      ''__lookupSetter__'']"

datatype found_run = No_Run | Run_Of string | Run_Throws string

text \<open>\<open>thrown\<close> is the text of the error a module, or an inherited member, throws when it is loaded;
  \<open>None\<close> for one that exports \<open>run\<close>.\<close>

definition bundled_run :: "(string \<Rightarrow> string option) \<Rightarrow> (string \<Rightarrow> string) \<Rightarrow> string \<Rightarrow> found_run" where
  "bundled_run broken inherited nm =
     (if nm \<in> set bundled_names then (case broken nm of None \<Rightarrow> Run_Of nm | Some e \<Rightarrow> Run_Throws e)
      else if nm \<in> set inherited_names then Run_Throws (inherited nm)
      else No_Run)"

text \<open>\<open>on_disk\<close> imports the module of a directory.\<close>

definition load_run ::
  "(string \<Rightarrow> string option) \<Rightarrow> (string \<Rightarrow> string) \<Rightarrow> (string \<Rightarrow> string option) \<Rightarrow> string \<Rightarrow> found_run" where
  "load_run broken inherited on_disk nm =
     (case bundled_run broken inherited nm of
        No_Run \<Rightarrow> (case on_disk nm of None \<Rightarrow> Run_Of nm | Some e \<Rightarrow> Run_Throws e)
      | r \<Rightarrow> r)"

definition resolve_run ::
  "(string \<Rightarrow> string option) \<Rightarrow> (string \<Rightarrow> string) \<Rightarrow> (string \<Rightarrow> string option) \<Rightarrow>
   string \<Rightarrow> (string \<times> js) list \<Rightarrow> found_run" where
  "resolve_run broken inherited on_disk nm loaded =
     (if map_of loaded nm \<noteq> None then load_run broken inherited on_disk nm else bundled_run broken inherited nm)"

section \<open>Dispatch\<close>

datatype handler =
    Ui_Test | App_Soak | Locale_Shots | A11y_Audit | Drain_Sample | Web_Test | Web_Shots | Web_Audit | Web_Unfurl
  | Archive_App | Digest_Batch

definition built_in :: "string \<Rightarrow> handler option" where
  "built_in w =
     (if w = ''ui-test'' then Some Ui_Test
      else if w = ''soak'' \<or> w = ''app-soak'' then Some App_Soak
      else if w = ''locale-shots'' then Some Locale_Shots
      else if w = ''a11y-audit'' then Some A11y_Audit
      else if w = ''drain'' then Some Drain_Sample
      else if w = ''web-test'' then Some Web_Test
      else if w = ''web-shots'' then Some Web_Shots
      else if w = ''web-audit'' then Some Web_Audit
      else if w = ''web-unfurl'' then Some Web_Unfurl
      else if w = ''archive'' then Some Archive_App
      else if w = ''digest'' then Some Digest_Batch
      else None)"

text \<open>How a workload ended: it returned, found no targets, or threw; an error of \<open>execFile\<close> has a \<open>cmd\<close>.\<close>

datatype run_ending = Returned | No_Targets string | Cmd_Failed js | Threw string

record workload_end =
  wl_rows :: "js list"
  wl_end :: run_ending

definition host_row :: "string \<Rightarrow> js \<Rightarrow> bool \<Rightarrow> string \<Rightarrow> js" where
  "host_row name job ok err =
     JObj [(''job_id'', jget ''job_id'' job), (''device_id'', JStr (''host:'' @ name)), (''iter'', JInt 0),
       (''final'', JBool True), (''ok'', JBool ok), (''error'', JStr err)]"

definition unsupported :: "string \<Rightarrow> js \<Rightarrow> workload_end" where
  "unsupported name job =
     \<lparr>wl_rows = [host_row name job False
        (''workload '' @ [CHR 0x27] @ text_field ''workload'' job @ [CHR 0x27] @ '' not supported by this executor yet'')],
      wl_end = Returned\<rparr>"

text \<open>\<open>dispatch\<close>: \<open>run_module\<close> and \<open>run_handler\<close> are the workloads.\<close>

definition dispatch_job ::
  "string \<Rightarrow> (string \<Rightarrow> found_run) \<Rightarrow> (string \<Rightarrow> js \<Rightarrow> workload_end) \<Rightarrow> (handler \<Rightarrow> js \<Rightarrow> workload_end) \<Rightarrow>
   js \<Rightarrow> workload_end" where
  "dispatch_job name resolve run_module run_handler job =
     (case resolve (text_field ''workload'' job) of
        Run_Of m \<Rightarrow> run_module m job
      | Run_Throws e \<Rightarrow> \<lparr>wl_rows = [], wl_end = Threw e\<rparr>
      | No_Run \<Rightarrow>
          (case built_in (text_field ''workload'' job) of
             Some h \<Rightarrow> run_handler h job
           | None \<Rightarrow> unsupported name job))"

section \<open>The poll loop\<close>

text \<open>What a poll brings, how busy the host is then, and whether the loop's own row is taken.\<close>

datatype polled = Nothing_Now | Bad_Status nat | Poll_Failed string | Claimed js

record poll_round =
  po_stopped :: bool
  po_answer :: polled
  po_pressure :: pressure
  po_post_ok :: bool

datatype loop_life = Polling | Stopped_Now | Crashed

record loop_state =
  lo_life :: loop_life
  lo_seen :: seen_rows
  lo_posted :: "js list"
  lo_log :: "string list"

definition send_row :: "js \<Rightarrow> loop_state \<Rightarrow> loop_state" where
  "send_row row st =
     (let (seen, out) = post_with_reason (lo_seen st) row in st\<lparr>lo_seen := seen, lo_posted := lo_posted st @ [out]\<rparr>)"

definition log_line :: "string \<Rightarrow> loop_state \<Rightarrow> loop_state" where
  "log_line l st = st\<lparr>lo_log := lo_log st @ [l]\<rparr>"

text \<open>A row of the loop's own that the collector does not take throws out of \<open>pollLoop\<close>: nothing catches it.\<close>

definition own_row :: "bool \<Rightarrow> js \<Rightarrow> string \<Rightarrow> loop_state \<Rightarrow> loop_state" where
  "own_row taken row line st =
     (if taken then log_line line (send_row row st) else (send_row row st)\<lparr>lo_life := Crashed\<rparr>)"

definition failure_text :: "run_ending \<Rightarrow> string" where
  "failure_text e =
     (case e of Cmd_Failed err \<Rightarrow> exec_failure_reason err [] | Threw m \<Rightarrow> take 500 m | _ \<Rightarrow> [])"

definition retry_line :: "string \<Rightarrow> string" where
  "retry_line m = ''poll error: '' @ m @ ''; retrying in 10s''"

definition finish_job :: "string \<Rightarrow> bool \<Rightarrow> js \<Rightarrow> workload_end \<Rightarrow> loop_state \<Rightarrow> loop_state" where
  "finish_job name taken job w st =
     (let st1 = fold send_row (wl_rows w) st; i = js_string (jget ''job_id'' job)
      in case wl_end w of
        Returned \<Rightarrow> st1
      | No_Targets m \<Rightarrow>
          own_row taken (host_row name job True (''skipped: '' @ take 480 m)) (''job '' @ i @ '' skipped: '' @ m) st1
      | e \<Rightarrow>
          own_row taken (host_row name job False (failure_text e)) (''job '' @ i @ '' failed: '' @ failure_text e) st1)"

definition poll_once ::
  "string \<Rightarrow> (string \<Rightarrow> string option) \<Rightarrow> (js \<Rightarrow> workload_end) \<Rightarrow> poll_round \<Rightarrow> loop_state \<Rightarrow> loop_state" where
  "poll_once name getenv dispatch r st =
     (if lo_life st \<noteq> Polling then st
      else case po_answer r of
        Nothing_Now \<Rightarrow> if po_stopped r then st\<lparr>lo_life := Stopped_Now\<rparr> else st
      | Bad_Status c \<Rightarrow>
          if po_stopped r then st\<lparr>lo_life := Stopped_Now\<rparr> else log_line (retry_line (''next-job -> '' @ nat_str c)) st
      | Poll_Failed m \<Rightarrow>
          if po_stopped r then st\<lparr>lo_life := Stopped_Now\<rparr> else log_line (retry_line m) st
      | Claimed job \<Rightarrow>
          let i = js_string (jget ''job_id'' job);
              st1 = log_line (''claimed '' @ i @ '' ('' @ js_string (jget ''workload'' job) @ '')'') st;
              st2 = (case pressure_reason (po_pressure r) getenv of
                 Some busy \<Rightarrow>
                   own_row (po_post_ok r) (host_row name job True (''skipped: '' @ busy)) (''job '' @ i @ '' skipped: '' @ busy) st1
               | None \<Rightarrow> finish_job name (po_post_ok r) job (dispatch job) st1)
          in if lo_life st2 = Polling \<and> po_stopped r then st2\<lparr>lo_life := Stopped_Now\<rparr> else st2)"

definition poll_loop ::
  "string \<Rightarrow> (string \<Rightarrow> string option) \<Rightarrow> (js \<Rightarrow> workload_end) \<Rightarrow> poll_round list \<Rightarrow> loop_state" where
  "poll_loop name getenv dispatch rs =
     fold (poll_once name getenv dispatch) rs \<lparr>lo_life = Polling, lo_seen = [], lo_posted = [], lo_log = []\<rparr>"

section \<open>Laws of the executor\<close>

text \<open>
  Laws of the host executor: the rows it posts always carry a reason when they fail, the row of its own
  that ends a job, the targets a job is given, and the workloads it finds.
\<close>

section \<open>Reasons\<close>

lemma trim_nonblank:
  assumes "c \<in> set s" "\<not> is_space c"
  shows "trim s \<noteq> []"
proof
  assume "trim s = []"
  then have "\<forall>x \<in> set (dropWhile is_space s). is_space x" by (simp add: trim_def)
  moreover have "c \<in> set (dropWhile is_space s)"
    using assms by (induction s) (auto split: if_splits)
  ultimately show False using assms(2) by blast
qed

lemma said_nonblank: "c \<in> set s \<Longrightarrow> \<not> is_space c \<Longrightarrow> said (JStr s) = Some s"
  using trim_nonblank by (simp add: said_def)

lemma letter_f: "\<not> is_space (CHR ''f'')" "\<not> is_space (CHR '':'')" "\<not> is_space (CHR ''.'')"
  by (simp_all add: is_space_def code_def)

lemma device_reason_said: "said (JStr (device_reason row)) = Some (device_reason row)"
  by (rule said_nonblank [OF _ letter_f(1)]) (simp add: device_reason_def Let_def split: js.split)

lemma set_cut: "c \<in> set s \<Longrightarrow> c \<in> set (cut n s) \<or> CHR ''.'' \<in> set (cut n s)"
  by (simp add: cut_def)

lemma hd_part: "ps \<noteq> [] \<Longrightarrow> \<forall>p \<in> set ps. CHR '':'' \<in> set p \<Longrightarrow> CHR '':'' \<in> set (hd ps)"
  by (cases ps) auto

lemma final_reason_text: "CHR ''f'' \<in> set (final_reason ds) \<or> CHR '':'' \<in> set (final_reason ds)"
  unfolding final_reason_def Let_def by (auto intro!: hd_part)

lemma final_reason_said: "said (JStr (cut 500 (final_reason ds))) = Some (cut 500 (final_reason ds))"
  using final_reason_text [of ds] set_cut letter_f said_nonblank by metis

text \<open>No row that is posted is a failure without a reason.\<close>

lemma posted_not_silent: "\<not> silent_failure (snd (post_with_reason seen row))"
  by (simp add: post_with_reason_def post_device_row_def post_final_row_def Let_def silent_failure_def
      with_error_def device_reason_said final_reason_said)

text \<open>A row that says why, or has not failed, is posted as it is.\<close>

lemma posted_unchanged: "\<not> silent_failure row \<Longrightarrow> snd (post_with_reason seen row) = row"
  by (simp add: post_with_reason_def post_device_row_def post_final_row_def Let_def)

lemma posted_field: "k \<noteq> ''error'' \<Longrightarrow> jget k (snd (post_with_reason seen row)) = jget k row"
  by (simp add: post_with_reason_def post_device_row_def post_final_row_def Let_def with_error_def)

lemma not_silent_closes:
  assumes "\<not> silent_failure row" "closing_status rows row = CFailed r"
  shows "r \<noteq> None"
proof -
  have "jget ''ok'' row = JBool False"
    using assms(2) by (auto simp: closing_status_def Let_def split: if_splits)
  then obtain s where "said (jget ''error'' row) = Some s" using assms(1) by (auto simp: silent_failure_def)
  then show ?thesis
    using assms(2) \<open>jget ''ok'' row = JBool False\<close>
    by (auto simp: closing_status_def Let_def failure_reason_def)
qed

text \<open>What the tracker remembers of a job goes with its final row.\<close>

lemma final_row_forgets:
  "jget ''final'' row = JBool True \<Longrightarrow> jget ''job_id'' row = JStr job \<Longrightarrow> job \<noteq> [] \<Longrightarrow>
     devices_seen (fst (post_with_reason seen row)) job = []"
  by (simp add: post_with_reason_def post_final_row_def Let_def text_field_def devices_seen_def delete_conv)

section \<open>The loop\<close>

lemma lo_life_send_row [simp]: "lo_life (send_row row st) = lo_life st"
  by (simp add: send_row_def split: prod.split)

lemma lo_posted_send_row: "lo_posted (send_row row st) = lo_posted st @ [snd (post_with_reason (lo_seen st) row)]"
  by (simp add: send_row_def split: prod.split)

lemma log_line_fields [simp]:
  "lo_life (log_line l st) = lo_life st" "lo_posted (log_line l st) = lo_posted st" "lo_seen (log_line l st) = lo_seen st"
  by (simp_all add: log_line_def)

definition rows_ok :: "loop_state \<Rightarrow> bool" where
  "rows_ok st \<longleftrightarrow> (\<forall>row \<in> set (lo_posted st). \<not> silent_failure row)"

lemma rows_ok_send: "rows_ok st \<Longrightarrow> rows_ok (send_row row st)"
  by (auto simp: rows_ok_def lo_posted_send_row posted_not_silent)

lemma rows_ok_sends: "rows_ok st \<Longrightarrow> rows_ok (fold send_row rows st)"
  by (induction rows arbitrary: st) (simp_all add: rows_ok_send)

lemma rows_ok_own: "rows_ok st \<Longrightarrow> rows_ok (own_row taken row l st)"
  using rows_ok_send [of st row] by (auto simp: own_row_def rows_ok_def)

lemma rows_ok_finish: "rows_ok st \<Longrightarrow> rows_ok (finish_job name taken job w st)"
  using rows_ok_sends [of st "wl_rows w"]
  by (auto simp: finish_job_def Let_def intro: rows_ok_own split: run_ending.split)

lemma rows_ok_poll:
  assumes "rows_ok st"
  shows "rows_ok (poll_once name getenv dispatch r st)"
proof -
  have log: "rows_ok (log_line l st)" for l using assms by (simp add: rows_ok_def)
  have life: "rows_ok st' \<Longrightarrow> rows_ok (st'\<lparr>lo_life := x\<rparr>)" for st' x by (simp add: rows_ok_def)
  show ?thesis
    using assms by (auto simp: poll_once_def Let_def intro!: life log rows_ok_own rows_ok_finish split: polled.split option.split)
qed

lemma rows_ok_loop: "rows_ok (poll_loop name getenv dispatch rs)"
proof -
  have "rows_ok st \<Longrightarrow> rows_ok (fold (poll_once name getenv dispatch) rs st)" for st
    by (induction rs arbitrary: st) (simp_all add: rows_ok_poll)
  note * = this
  show ?thesis unfolding poll_loop_def by (rule *) (simp add: rows_ok_def)
qed

lemma sends_append: "\<exists>rows. lo_posted (fold send_row ws st) = lo_posted st @ rows \<and> length rows = length ws"
proof (induction ws arbitrary: st)
  case (Cons w ws)
  from Cons.IH [of "send_row w st"] show ?case by (auto simp: lo_posted_send_row)
qed simp

lemma host_row_fields [simp]:
  "jget ''final'' (host_row name job ok e) = JBool True" "jget ''ok'' (host_row name job ok e) = JBool ok"
  "jget ''error'' (host_row name job ok e) = JStr e" "jget ''job_id'' (host_row name job ok e) = jget ''job_id'' job"
  "jget ''device_id'' (host_row name job ok e) = JStr (''host:'' @ name)"
  by (simp_all add: host_row_def)

text \<open>A skip of the executor's closes its job as skipped, whatever rows the job had.\<close>

lemma skip_row_closes: "\<exists>s. closing_status rows (host_row name job True (''skipped: '' @ m)) = CSkipped s"
  by (simp add: closing_status_def Let_def is_skip_error_def SKIP_PREFIX_def starts_with_def)

lemma own_row_posted:
  "lo_posted (own_row taken row l st) = lo_posted st @ [snd (post_with_reason (lo_seen st) row)]"
  by (simp add: own_row_def lo_posted_send_row)

lemma host_skip_posted:
  "snd (post_with_reason seen (host_row name job True e)) = host_row name job True e"
  by (simp add: posted_unchanged silent_failure_def)

text \<open>How the loop leaves a job it ended itself.\<close>

definition answered :: "string \<Rightarrow> js \<Rightarrow> bool \<Rightarrow> loop_state \<Rightarrow> loop_state \<Rightarrow> bool" where
  "answered name job ok st st' \<longleftrightarrow>
     (\<exists>rows row. lo_posted st' = lo_posted st @ rows @ [row] \<and> jget ''final'' row = JBool True \<and>
        jget ''job_id'' row = jget ''job_id'' job \<and> jget ''device_id'' row = JStr (''host:'' @ name) \<and>
        jget ''ok'' row = JBool ok)"

lemma answered_own:
  assumes "lo_posted st1 = lo_posted st @ rows"
  shows "answered name job ok st (own_row taken (host_row name job ok e) l st1)"
  unfolding answered_def own_row_posted using assms by (auto simp: posted_field)

lemma finish_answers:
  "case wl_end w of
     Returned \<Rightarrow> True
   | No_Targets m \<Rightarrow> answered name job True st (finish_job name taken job w st)
   | _ \<Rightarrow> answered name job False st (finish_job name taken job w st)"
proof -
  obtain rows where "lo_posted (fold send_row (wl_rows w) st) = lo_posted st @ rows"
    using sends_append by blast
  note * = answered_own [OF this]
  show ?thesis by (auto simp: finish_job_def Let_def intro: * split: run_ending.split)
qed

text \<open>A loop that crashed does nothing more.\<close>

lemma crashed_stays: "lo_life st \<noteq> Polling \<Longrightarrow> fold (poll_once name getenv dispatch) rs st = st"
  by (induction rs) (simp_all add: poll_once_def)

section \<open>Workloads\<close>

lemma discover_entry_sound:
  assumes "\<forall>nm m. map_of (fst st) nm = Some m \<longrightarrow> manifest_problem nm m = None"
  shows "\<forall>nm m. map_of (fst (discover_entry e st)) nm = Some m \<longrightarrow> manifest_problem nm m = None"
  using assms by (auto simp: discover_entry_def update_conv split: sum.split option.split if_splits)

text \<open>What is loaded from the directory has a manifest without a problem, and answers to its own name.\<close>

lemma discovered_manifest:
  "map_of (fst (discover_workloads dir)) nm = Some m \<Longrightarrow> manifest_problem nm m = None"
proof -
  have "\<forall>nm m. map_of (fst st) nm = Some m \<longrightarrow> manifest_problem nm m = None \<Longrightarrow>
    \<forall>nm m. map_of (fst (fold discover_entry es st)) nm = Some m \<longrightarrow> manifest_problem nm m = None" for es st
  proof (induction es arbitrary: st)
    case (Cons e es)
    from Cons.IH [OF discover_entry_sound [OF Cons.prems]] show ?case by simp
  qed simp
  from this [of "([], [])"] show "map_of (fst (discover_workloads dir)) nm = Some m \<Longrightarrow> manifest_problem nm m = None"
    by (auto simp: discover_workloads_def split: sum.splits)
qed

lemma manifest_ok_fields:
  "manifest_problem nm m = None \<Longrightarrow>
     jget ''name'' m = JStr nm \<and> (jget ''executor'' m = JStr ''host'' \<or> jget ''executor'' m = JStr ''device'')"
  by (auto simp: manifest_problem_def split: if_splits)

text \<open>A workload of the bundle is the same one with and without its directory.\<close>

lemma bundle_first:
  "nm \<in> set bundled_names \<Longrightarrow>
     resolve_run broken inherited on_disk nm loaded = resolve_run broken inherited on_disk' nm []"
  by (simp add: resolve_run_def load_run_def bundled_run_def split: option.split)

section \<open>Selection\<close>

text \<open>The executor never asks more of a device than the listing said, and gives no reserved device away.\<close>

lemma selected_listed:
  assumes "select_targets re T job ts = Inr kept" "t \<in> set kept"
  shows "t \<in> set ts"
    "fleet_owned_target T (if some_ios ts then ht_sims T else None) t"
    "truthy (jget ''device_id'' (targets_of job)) \<Longrightarrow> jget ''device_id'' (targets_of job) = JStr (tg_id t)"
    "truthy (jget ''device_kind'' (targets_of job)) \<Longrightarrow>
       jget ''device_kind'' (targets_of job) = JStr (kind_text (tg_kind t))"
    "filled (reserved_label job (tg_id t)) \<Longrightarrow>
       jget ''reservation'' job = JStr (the (reserved_label job (tg_id t)))"
proof -
  let ?p = "pinned (targets_of job) ts"
  let ?o = "owned_targets T ?p"
  have u: "t \<in> set (unreserved_targets re T job ?o)" using select_targets_subset [OF assms(1)] assms(2) by blast
  then have o: "t \<in> set ?o" by (simp add: set_unreserved)
  then have p: "t \<in> set ?p" by (simp add: owned_targets_def)
  then show "t \<in> set ts"
    "truthy (jget ''device_id'' (targets_of job)) \<Longrightarrow> jget ''device_id'' (targets_of job) = JStr (tg_id t)"
    "truthy (jget ''device_kind'' (targets_of job)) \<Longrightarrow>
       jget ''device_kind'' (targets_of job) = JStr (kind_text (tg_kind t))"
    by (simp_all add: set_pinned)
  have "t \<in> set ts" using p by (simp add: set_pinned)
  from owned_listed [OF p this] o
  show "fleet_owned_target T (if some_ios ts then ht_sims T else None) t" by (simp add: owned_targets_def)
  show "filled (reserved_label job (tg_id t)) \<Longrightarrow>
       jget ''reservation'' job = JStr (the (reserved_label job (tg_id t)))"
    using u by (auto simp: set_unreserved filled_def reservation_allows_def)
qed

lemma selected_matches:
  assumes "select_targets re T job ts = Inr kept" "t \<in> set kept"
    "jget ''match'' (targets_of job) = JStr m" "m \<noteq> []"
  shows "\<exists>apples. eval_match re m (descriptor_of T apples t) = Inr True"
  using assms by (auto simp: select_targets_def Let_def keep_matching_Inr)

end
