(* ===== verification/Soak_Samples.thy ===== *)
theory Soak_Samples
  imports Text_Pattern
begin

text \<open>
  What a phone says about an app that is still running (\<open>collector/src/soak-samples.ts\<close>, and \<open>parseAnrEvents\<close> of
  the explorer's Android actuator): \<open>dumpsys meminfo\<close> and \<open>gfxinfo\<close>, the crash buffer, the events buffer and
  the unified log of a simulator. A sample says why it has no number rather than giving a zero. The
  regular expressions are patterns of \<open>Text_Pattern\<close>; a captured group is read by a function of the place
  where the pattern before it ended.
\<close>

section \<open>Places and captures\<close>

fun first_some :: "'a option list \<Rightarrow> 'a option" where
  "first_some [] = None"
| "first_some (x # xs) = (case x of None \<Rightarrow> first_some xs | Some v \<Rightarrow> Some v)"

text \<open>The first place of a text at which \<open>f\<close> finds something.\<close>

fun first_spot :: "(spot \<Rightarrow> 'a option) \<Rightarrow> char option \<Rightarrow> string \<Rightarrow> 'a option" where
  "first_spot f b [] = f (b, [])"
| "first_spot f b (c # s) = (case f (b, c # s) of Some x \<Rightarrow> Some x | None \<Rightarrow> first_spot f (Some c) s)"

definition captured :: "pat \<Rightarrow> (spot \<Rightarrow> 'a option) \<Rightarrow> spot \<Rightarrow> 'a option" where
  "captured p f at0 = first_some (map f (ends p at0))"

text \<open>\<open>^\<close> and \<open>$\<close> with the flag \<open>m\<close>\<close>

definition line_start :: "spot \<Rightarrow> bool" where
  "line_start p \<longleftrightarrow> (case fst p of None \<Rightarrow> True | Some c \<Rightarrow> c = CHR 0x0A \<or> c = CHR 0x0D)"

definition line_end :: "spot \<Rightarrow> bool" where
  "line_end p \<longleftrightarrow> (case snd p of [] \<Rightarrow> True | c # _ \<Rightarrow> c = CHR 0x0A \<or> c = CHR 0x0D)"

definition on_line :: "(spot \<Rightarrow> 'a option) \<Rightarrow> spot \<Rightarrow> 'a option" where
  "on_line f p = (if line_start p then f p else None)"

definition search_text :: "(spot \<Rightarrow> 'a option) \<Rightarrow> string \<Rightarrow> 'a option" where
  "search_text f s = first_spot f None s"

abbreviation spaces :: pat where "spaces \<equiv> Many (Chr is_space)"

definition word_i :: "string \<Rightarrow> pat" where
  "word_i s = fold (\<lambda>c p. Then p (Chr (\<lambda>d. lower_char d = lower_char c))) s Here"

text \<open>\<open>(\d+)\<close>, \<open>(\d+)\b\<close>, \<open>(\d+)\s*$\<close>\<close>

definition number_here :: "spot \<Rightarrow> nat option" where
  "number_here p = (let d = takeWhile is_digit (snd p) in if d = [] then None else Some (digits_val d))"

definition number_edge :: "spot \<Rightarrow> nat option" where
  "number_edge p =
     (case dropWhile is_digit (snd p) of
        [] \<Rightarrow> number_here p
      | c # _ \<Rightarrow> if word_char c then None else number_here p)"

definition number_line_end :: "spot \<Rightarrow> nat option" where
  "number_line_end p =
     (let r = dropWhile is_digit (snd p); w = takeWhile is_space r
      in if dropWhile is_space r = [] \<or> CHR 0x0A \<in> set w then number_here p else None)"

text \<open>The text the pattern takes from here.\<close>

definition taken_here :: "pat \<Rightarrow> spot \<Rightarrow> string option" where
  "taken_here p at0 =
     (case ends p at0 of [] \<Rightarrow> None | r # _ \<Rightarrow> Some (take (length (snd at0) - length (snd r)) (snd at0)))"

definition tool_lines :: "string \<Rightarrow> string list" where
  "tool_lines out = split_on (CHR 0x0A) (filter (\<lambda>c. c \<noteq> CHR 0x0D) out)"

definition tool_text :: "string \<Rightarrow> string" where
  "tool_text out = filter (\<lambda>c. c \<noteq> CHR 0x0D) out"

definition line_has :: "pat \<Rightarrow> string \<Rightarrow> bool" where
  "line_has p s \<longleftrightarrow> search_text (on_line (captured p Some)) s \<noteq> None"

section \<open>Memory\<close>

record meminfo_sample =
  me_pss_kb :: "nat option"
  me_pid :: "nat option"
  me_problem :: "string option"

definition no_process :: pat where
  "no_process = word ''No process found for:''"

definition meminfo_pid :: "string \<Rightarrow> nat option" where
  "meminfo_pid t = search_text (on_line (captured (word ''** MEMINFO in pid '') number_here)) t"

definition total_head :: pat where
  "total_head =
     in_order [spaces, word ''TOTAL'', Maybe (word '' PSS''), Maybe (word '':''), Some_Of (Chr is_space)]"

definition pss_total :: "string \<Rightarrow> nat option" where
  "pss_total t = search_text (on_line (captured total_head number_edge)) t"

definition first_text_line :: "string \<Rightarrow> string" where
  "first_text_line t = hd (split_on (CHR 0x0A) (trim t))"

definition parse_meminfo :: "string \<Rightarrow> meminfo_sample" where
  "parse_meminfo out =
     (let t = tool_text out in
      if line_has no_process t
      then \<lparr>me_pss_kb = None, me_pid = None, me_problem = Some ''no process found (the app is not running)''\<rparr>
      else case pss_total t of
        None \<Rightarrow>
          \<lparr>me_pss_kb = None, me_pid = meminfo_pid t,
           me_problem = Some (if trim t = [] then ''dumpsys meminfo printed nothing''
             else ''dumpsys meminfo printed no PSS total ('' @ take 120 (first_text_line t) @ '')'')\<rparr>
      | Some n \<Rightarrow> \<lparr>me_pss_kb = Some n, me_pid = meminfo_pid t, me_problem = None\<rparr>)"

section \<open>Frames\<close>

record gfxinfo_sample =
  gf_total :: "nat option"
  gf_janky :: "nat option"
  gf_pct :: "rat option"
  gf_problem :: "string option"

definition total_frames :: "string \<Rightarrow> nat option" where
  "total_frames t =
     search_text (on_line (captured (in_order [spaces, word ''Total frames rendered:'', spaces]) number_line_end)) t"

definition janky_frames :: "string \<Rightarrow> nat option" where
  "janky_frames t = search_text (on_line (captured (in_order [spaces, word ''Janky frames:'', spaces]) number_edge)) t"

definition parse_gfxinfo :: "string \<Rightarrow> gfxinfo_sample" where
  "parse_gfxinfo out =
     (let t = tool_text out in
      if line_has no_process t
      then \<lparr>gf_total = None, gf_janky = None, gf_pct = None,
            gf_problem = Some ''no process found (the app is not running)''\<rparr>
      else case (total_frames t, janky_frames t) of
        (Some n, Some j) \<Rightarrow>
          if n = 0
          then \<lparr>gf_total = Some n, gf_janky = Some j, gf_pct = None,
                gf_problem = Some ''no frames rendered in this window (the app drew nothing)''\<rparr>
          else \<lparr>gf_total = Some n, gf_janky = Some j, gf_pct = Some (of_nat j / of_nat n * 100), gf_problem = None\<rparr>
      | (n, j) \<Rightarrow>
          \<lparr>gf_total = n, gf_janky = j, gf_pct = None,
           gf_problem = Some (if trim t = [] then ''dumpsys gfxinfo printed nothing''
             else ''dumpsys gfxinfo printed no frame counts (the app may not have a hardware-accelerated window)'')\<rparr>)"

section \<open>Crashes\<close>

record crash_sample =
  cs_count :: nat
  cs_signatures :: "string list"
  cs_problem :: "string option"

definition unread :: "string \<Rightarrow> crash_sample" where
  "unread why = \<lparr>cs_count = 0, cs_signatures = [], cs_problem = Some why\<rparr>"

definition crashes :: "string list \<Rightarrow> crash_sample" where
  "crashes sigs = \<lparr>cs_count = length sigs, cs_signatures = sigs, cs_problem = None\<rparr>"

definition logcat_failure :: pat where
  "logcat_failure = any_of [word ''error:'', word ''logcat: '', word ''Unable to open log device'']"

definition managed_line :: "string \<Rightarrow> pat" where
  "managed_line pkg =
     in_order [word ''Process:'', spaces, word pkg, word '','', spaces, word ''PID:'', spaces, Chr is_digit]"

definition dollar_word_char :: "char \<Rightarrow> bool" where
  "dollar_word_char c \<longleftrightarrow> word_char c \<or> c = CHR 0x24 \<or> c = CHR ''.''"

definition exception_head :: pat where
  "exception_head =
     in_order [Maybe (in_order [Some_Of (Chr dollar_word_char), word ''.'']), Many (Chr word_char),
       any_of [word ''Exception'', word ''Error''], Edge]"

text \<open>\<open>/AndroidRuntime:\s+((?:[\w$.]+\.)?\w*(?:Exception|Error)\b.*)$/\<close>: the rest of the line\<close>

definition exception_of :: "string \<Rightarrow> string option" where
  "exception_of l =
     search_text (captured (in_order [word ''AndroidRuntime:'', Some_Of (Chr is_space)])
       (\<lambda>p. if ends exception_head p = [] then None else Some (snd p))) l"

text \<open>\<open>/(signal\s+\d+\s*\([A-Z]+\)[^\n]*)/\<close>\<close>

definition signal_pat :: pat where
  "signal_pat =
     in_order [word ''signal'', Some_Of (Chr is_space), Some_Of (Chr is_digit), spaces, word ''('', Some_Of (Chr is_upper), word '')'']"

definition signal_of :: "string \<Rightarrow> string option" where
  "signal_of l = search_text (\<lambda>p. if ends signal_pat p = [] then None else Some (snd p)) l"

definition signature_in :: "(string \<Rightarrow> string option) \<Rightarrow> string \<Rightarrow> string list \<Rightarrow> string" where
  "signature_in f none ls =
     (case first_some (map f ls) of None \<Rightarrow> none | Some s \<Rightarrow> take 160 (trim s))"

fun managed_crashes :: "string \<Rightarrow> string list \<Rightarrow> string list" where
  "managed_crashes pkg [] = []"
| "managed_crashes pkg (l # ls) =
     (if found (managed_line pkg) l then [signature_in exception_of ''FATAL EXCEPTION'' (take 5 ls)] else []) @
     managed_crashes pkg ls"

fun native_crashes :: "string \<Rightarrow> string list \<Rightarrow> string list" where
  "native_crashes pkg [] = []"
| "native_crashes pkg (l # ls) =
     (if found (in_order [word ''>>>'', spaces, word pkg, spaces, word ''<<<'']) l
      then [signature_in signal_of ''native crash'' (take 8 (l # ls))] else []) @
     native_crashes pkg ls"

definition parse_crash_logcat :: "string \<Rightarrow> string \<Rightarrow> crash_sample" where
  "parse_crash_logcat out pkg =
     (let t = tool_text out; ls = tool_lines out in
      if line_has logcat_failure t then unread (''logcat could not be read: '' @ take 140 (first_text_line t))
      else crashes (managed_crashes pkg ls @ native_crashes pkg ls))"

text \<open>\<open>parseAnrEvents\<close>; the reason is what \<open>/,([^,\]]+)\]\s*$/\<close> captures.\<close>

definition anr_reason :: "string \<Rightarrow> string option" where
  "anr_reason l =
     search_text (captured (word '','')
       (\<lambda>p. let r = takeWhile (\<lambda>c. c \<noteq> CHR '','' \<and> c \<noteq> CHR '']'') (snd p); t = drop (length r) (snd p)
            in if r \<noteq> [] \<and> starts_with '']'' t \<and> list_all is_space (tl t) then Some r else None)) l"

definition anr_of :: "string \<Rightarrow> string \<Rightarrow> string option" where
  "anr_of pkg l =
     (if found (in_order [Edge, word ''am_anr'', Edge]) l \<and> contains pkg l
      then Some (take 160 (''ANR: '' @ (case anr_reason l of None \<Rightarrow> ''Application Not Responding'' | Some r \<Rightarrow> trim r)))
      else None)"

definition parse_anr_events :: "string \<Rightarrow> string \<Rightarrow> string list" where
  "parse_anr_events events pkg = List.map_filter (anr_of pkg) (tool_lines events)"

section \<open>The simulator's log\<close>

definition log_show_failed :: "string \<Rightarrow> bool" where
  "log_show_failed t \<longleftrightarrow>
     line_has (in_order [word ''log:'', Chr is_space]) t \<or>
     found (any_of [word ''Invalid predicate'', word ''error: unable to '', word ''Failed to open'', word ''Failed to access'']) t"

text \<open>\<open>/Saved crash report for ([^[]+)\[(\d+)\]/\<close>\<close>

definition saved_report :: "string \<Rightarrow> (string \<times> string) option" where
  "saved_report l =
     search_text (captured (word ''Saved crash report for '')
       (\<lambda>p. let n = takeWhile (\<lambda>c. c \<noteq> CHR ''['') (snd p); r = tl (drop (length n) (snd p)); d = takeWhile is_digit r
            in if n \<noteq> [] \<and> drop (length n) (snd p) \<noteq> [] \<and> d \<noteq> [] \<and> starts_with '']'' (drop (length d) r)
               then Some (n, d) else None)) l"

definition crash_words :: pat where
  "crash_words =
     any_of [in_order [word_i ''crashed'', Maybe (word ''.'')],
       in_order [word_i ''exited due to '', Maybe (word_i ''signal ''), word_i ''SIG'', Some_Of (Chr is_alpha)],
       in_order [word_i ''exited abnormally'', Many (Chr (\<lambda>c. c \<noteq> CHR 0x0A))]]"

definition sim_crash_of :: "string \<Rightarrow> string \<Rightarrow> string option" where
  "sim_crash_of bundle l =
     (let needle = lower bundle; leaf = last (split_on (CHR ''.'') needle); low = lower l;
          other = (if contains needle low \<or> contains ('':'' @ leaf @ ''['') low
                   then map_option (\<lambda>m. take 160 (trim m)) (search_text (taken_here crash_words) l) else None)
      in case saved_report l of
           Some (n, d) \<Rightarrow>
             if contains needle low \<or> lower (trim n) = leaf
             then Some (''crash report saved for '' @ trim n @ ''['' @ d @ '']'') else other
         | None \<Rightarrow> other)"

definition parse_sim_crash_log :: "string \<Rightarrow> string \<Rightarrow> crash_sample" where
  "parse_sim_crash_log out bundle =
     (let t = tool_text out in
      if log_show_failed t then unread (''log show could not be read: '' @ take 140 (first_text_line t))
      else crashes (List.map_filter (sim_crash_of bundle) (tool_lines out)))"

section \<open>Laws\<close>

text \<open>A sample has its number exactly when it names no problem.\<close>

lemma meminfo_measured: "me_problem (parse_meminfo out) = None \<longleftrightarrow> me_pss_kb (parse_meminfo out) \<noteq> None"
  by (simp add: parse_meminfo_def Let_def split: option.split)

lemma gfxinfo_measured: "gf_problem (parse_gfxinfo out) = None \<longleftrightarrow> gf_pct (parse_gfxinfo out) \<noteq> None"
  by (simp add: parse_gfxinfo_def Let_def split: option.split)

lemma gfxinfo_frames: "gf_pct (parse_gfxinfo out) = Some p \<Longrightarrow> \<exists>n > 0. gf_total (parse_gfxinfo out) = Some n"
  by (auto simp: parse_gfxinfo_def Let_def split: option.splits if_splits)

lemma count_signatures [simp]: "cs_count (parse_crash_logcat out pkg) = length (cs_signatures (parse_crash_logcat out pkg))"
  by (simp add: parse_crash_logcat_def Let_def unread_def crashes_def)

lemma sim_count_signatures: "cs_count (parse_sim_crash_log out b) = length (cs_signatures (parse_sim_crash_log out b))"
  by (simp add: parse_sim_crash_log_def Let_def unread_def crashes_def)

lemma problem_no_crashes: "cs_problem (parse_crash_logcat out pkg) \<noteq> None \<Longrightarrow> cs_count (parse_crash_logcat out pkg) = 0"
  by (simp add: parse_crash_logcat_def Let_def unread_def crashes_def split: if_splits)

lemma signatures_short: "s \<in> set (cs_signatures (parse_crash_logcat out pkg)) \<Longrightarrow> length s \<le> 160"
proof -
  have "length (signature_in f none ls) \<le> 160" if "length none \<le> 160" for f none ls
    using that by (simp add: signature_in_def split: option.split)
  then have "x \<in> set (managed_crashes pkg ls) \<Longrightarrow> length x \<le> 160" "x \<in> set (native_crashes pkg ls) \<Longrightarrow> length x \<le> 160"
    for x ls by (induction ls) (auto split: if_splits)
  then show "s \<in> set (cs_signatures (parse_crash_logcat out pkg)) \<Longrightarrow> length s \<le> 160"
    by (auto simp: parse_crash_logcat_def Let_def unread_def crashes_def split: if_splits)
qed

lemma managed_append: "length (managed_crashes pkg (ls @ ls')) = length (managed_crashes pkg ls) + length (managed_crashes pkg ls')"
  by (induction ls) simp_all

lemma native_append: "length (native_crashes pkg (ls @ ls')) = length (native_crashes pkg ls) + length (native_crashes pkg ls')"
  by (induction ls) simp_all

end
