(* ===== verification/Regression_Replay.thy ===== *)
theory Regression_Replay
  imports Soak_Samples Shell_Gate
begin

text \<open>
  Regression tests from fixed findings, as a \<open>ui-test\<close> job replays them
  (\<open>collector/src/workloads/regressions.ts\<close>, \<open>resolveFlow\<close> of \<open>workloads/flows.ts\<close>): which app is asked for, the
  stored flow made runnable on this host, one run judged from the crash buffers around it, and the run of
  all of them on a target. What the device and Maestro do is an argument.
\<close>

section \<open>Paths\<close>

text \<open>\<open>path.resolve(root, rel)\<close> for an absolute \<open>root\<close>: the segments, with \<open>..\<close> taking one away.\<close>

fun walk_segment :: "string \<Rightarrow> string list \<Rightarrow> string list" where
  "walk_segment seg path =
     (if seg = [] \<or> seg = ''.'' then path
      else if seg = ''..'' then (if path = [] then [] else butlast path)
      else path @ [seg])"

definition is_absolute :: "string \<Rightarrow> bool" where
  "is_absolute p = starts_with ''/'' p"

definition segments :: "string \<Rightarrow> string list" where
  "segments p = split_on (CHR ''/'') p"

definition resolve_path :: "string \<Rightarrow> string \<Rightarrow> string" where
  "resolve_path base rel =
     ''/'' @ join ''/''
       (fold walk_segment (if is_absolute rel then segments rel else segments base @ segments rel) [])"

text \<open>\<open>abs !== root && !abs.startsWith(root + path.sep)\<close>\<close>

definition escapes :: "string \<Rightarrow> string \<Rightarrow> bool" where
  "escapes base p \<longleftrightarrow> p \<noteq> base \<and> \<not> starts_with (base @ ''/'') p"

definition resolve_flow :: "string \<Rightarrow> (string \<Rightarrow> bool) \<Rightarrow> string \<Rightarrow> string + string" where
  "resolve_flow flows_dir exists nm =
     (let base = resolve_path ''/'' flows_dir; flow = resolve_path base nm in
      if escapes base flow then Inl (''the flow '' @ nm @ '' escapes the flows dir'')
      else if \<not> exists flow then Inl (''flow not found: '' @ flow)
      else Inr flow)"

section \<open>The app and its flow\<close>

definition app_char :: "char \<Rightarrow> bool" where
  "app_char c \<longleftrightarrow> word_char c \<or> c \<in> set ''.@:+-''"

text \<open>\<open>regressionApp\<close>: the app, nothing, or a refusal\<close>

definition regression_app :: "js \<Rightarrow> string + string option" where
  "regression_app job =
     (let v = jget ''regressions'' (jget ''params'' job);
          unnamed = ''params.regressions: true needs job.app.name; or name the app: params.regressions: '' @ quote ''<app>''
      in
      if v = JUndef \<or> v = JBool False \<or> v = JNull then Inr None
      else if v = JBool True then
        (case jget ''name'' (jget ''app'' job) of
           JStr n \<Rightarrow> if n = [] then Inl unnamed else Inr (Some n)
         | _ \<Rightarrow> Inl unnamed)
      else case v of
        JStr s \<Rightarrow>
          if s \<noteq> [] \<and> length s \<le> 200 \<and> list_all app_char s then Inr (Some s)
          else Inl ''params.regressions must be true or the app name its findings are filed under''
      | _ \<Rightarrow> Inl ''params.regressions must be true or the app name its findings are filed under'')"

text \<open>\<open>/^appId:\s*(\S+)/m\<close>\<close>

definition app_id_line :: "spot \<Rightarrow> (spot \<times> string) option" where
  "app_id_line p =
     captured (in_order [word ''appId:'', spaces])
       (\<lambda>r. let a = takeWhile (\<lambda>c. \<not> is_space c) (snd r) in if a = [] then None else Some (r, a)) p"

definition flow_app_id :: "string \<Rightarrow> string option" where
  "flow_app_id flow =
     (case search_text (on_line app_id_line) flow of
        None \<Rightarrow> None
      | Some (_, a) \<Rightarrow> if contains ''${'' a then None else Some a)"

text \<open>The text a string replacement stands for: \<open>$$\<close>, \<open>$&\<close>, and what is before and after the match.\<close>

fun expand :: "string \<Rightarrow> string \<Rightarrow> string \<Rightarrow> string \<Rightarrow> string" where
  "expand before m behind_m [] = []"
| "expand before m behind_m [c] = [c]"
| "expand before m behind_m (c # d # s) =
     (if c \<noteq> CHR 0x24 then c # expand before m behind_m (d # s)
      else if d = CHR 0x24 then CHR 0x24 # expand before m behind_m s
      else if d = CHR ''&'' then m @ expand before m behind_m s
      else if d = CHR 0x60 then before @ expand before m behind_m s
      else if d = CHR 0x27 then behind_m @ expand before m behind_m s
      else c # expand before m behind_m (d # s))"

fun replace_app_id :: "string \<Rightarrow> string \<Rightarrow> char option \<Rightarrow> string \<Rightarrow> string" where
  "replace_app_id app before b [] = []"
| "replace_app_id app before b (c # s) =
     (case on_line app_id_line (b, c # s) of
        None \<Rightarrow> c # replace_app_id app (before @ [c]) (Some c) s
      | Some (r, a) \<Rightarrow>
          let left = drop (length a) (snd r); m = take (length (c # s) - length left) (c # s)
          in expand before m left (''appId: '' @ app) @ left)"

text \<open>
  \<open>/^(\s*-\s*runFlow:\s*)(["']?)([^"'\n]+?)\2\s*$/gm\<close>: the path of a sub-flow and what is left, for the first
  way the expression matches here: the lead as long as it can be, a quote if there is one, the path as
  short as it can be.
\<close>

definition is_mark :: "char \<Rightarrow> bool" where
  "is_mark c \<longleftrightarrow> c = CHR 0x22 \<or> c = CHR 0x27"

definition run_flow_lead :: pat where
  "run_flow_lead = in_order [spaces, word ''-'', spaces, word ''runFlow:'', spaces]"

definition opening_marks :: "string \<Rightarrow> (string \<times> string) list" where
  "opening_marks s = (case s of c # t \<Rightarrow> (if is_mark c then [([c], t)] else []) | [] \<Rightarrow> []) @ [([], s)]"

fun short_paths :: "string \<Rightarrow> string \<Rightarrow> (string \<times> string) list" where
  "short_paths sofar [] = []"
| "short_paths sofar (c # s) =
     (if is_mark c \<or> c = CHR 0x0A then [] else (sofar @ [c], s) # short_paths (sofar @ [c]) s)"

text \<open>\<open>\2\s*$\<close>\<close>

definition line_tail :: "string \<Rightarrow> spot \<Rightarrow> spot option" where
  "line_tail mark p =
     first_some (map (\<lambda>r. if line_end r then Some r else None) (ends (in_order [word mark, spaces]) p))"

definition run_flow_match :: "spot \<Rightarrow> (string \<times> string \<times> spot) option" where
  "run_flow_match p =
     captured run_flow_lead
       (\<lambda>r. first_some (map (\<lambda>(mark, s).
          first_some (map (\<lambda>(rel, t).
            map_option (\<lambda>e. (take (length (snd p) - length (snd r)) (snd p), rel, e)) (line_tail mark (Some (last rel), t)))
          (short_paths [] s))) (opening_marks (snd r)))) p"

definition run_flow_line :: "string \<Rightarrow> string \<Rightarrow> string \<Rightarrow> string + string" where
  "run_flow_line base lead rel =
     (if is_absolute rel then Inr (lead @ quote rel)
      else if escapes base (resolve_path base rel)
        then Inl (''the flow''  @ [CHR 0x27] @ ''s runFlow '' @ rel @ '' escapes the flows dir'')
      else Inr (lead @ quote (resolve_path base rel)))"

text \<open>Every match from left to right; the fuel is the length of the text, and each match takes some of it.\<close>

fun replace_run_flows :: "nat \<Rightarrow> string \<Rightarrow> spot \<Rightarrow> string + string" where
  "replace_run_flows 0 base p = Inr (snd p)"
| "replace_run_flows (Suc n) base p =
     (case snd p of
        [] \<Rightarrow> Inr []
      | c # s \<Rightarrow>
          (case on_line run_flow_match p of
             None \<Rightarrow>
               (case replace_run_flows n base (Some c, s) of Inl e \<Rightarrow> Inl e | Inr t \<Rightarrow> Inr (c # t))
           | Some (lead, rel, r) \<Rightarrow>
               (case run_flow_line base lead rel of
                  Inl e \<Rightarrow> Inl e
                | Inr l \<Rightarrow>
                    (case replace_run_flows n base r of Inl e \<Rightarrow> Inl e | Inr t \<Rightarrow> Inr (l @ t)))))"

definition prepare_flow :: "string \<Rightarrow> string option \<Rightarrow> string \<Rightarrow> string + string" where
  "prepare_flow flow app flows_dir =
     (let base = resolve_path ''/'' flows_dir;
          out = (case app of None \<Rightarrow> flow | Some a \<Rightarrow> if a = [] then flow else replace_app_id a [] None flow)
      in replace_run_flows (length out) base (None, out))"

section \<open>One run, judged\<close>

type_synonym crash_reading = "crash_sample option"

datatype replay_outcome = Passed_Run | Reproduced_Run | Failed_Run | Skipped_Run

record replay_result =
  rp_outcome :: replay_outcome
  rp_detail :: string

definition last_two :: "'a list \<Rightarrow> 'a list" where
  "last_two xs = drop (length xs - 2) xs"

definition flow_failed :: "string option \<Rightarrow> string option" where
  "flow_failed e =
     (case e of
        None \<Rightarrow> None
      | Some t \<Rightarrow>
          if t = [] then None
          else Some (''the flow failed: '' @
            take 300 (join '' '' (last_two (filter (\<lambda>l. l \<noteq> []) (split_on (CHR 0x0A) t))))))"

definition judged :: "replay_outcome \<Rightarrow> string \<Rightarrow> replay_result" where
  "judged out detail = \<lparr>rp_outcome = out, rp_detail = detail\<rparr>"

definition has_problem :: "crash_sample \<Rightarrow> bool" where
  "has_problem c \<longleftrightarrow> cs_problem c \<noteq> None \<and> cs_problem c \<noteq> Some []"

definition reading_problem :: "crash_reading \<Rightarrow> string option" where
  "reading_problem r = Option.bind r cs_problem"

definition ended_with ::
  "string option \<Rightarrow> (string \<Rightarrow> string) \<Rightarrow> string \<Rightarrow> replay_result" where
  "ended_with failed on_failure on_success =
     (case failed of Some f \<Rightarrow> judged Failed_Run (on_failure f) | None \<Rightarrow> judged Passed_Run on_success)"

definition not_compared :: "string \<Rightarrow> string option \<Rightarrow> crash_reading \<Rightarrow> crash_reading \<Rightarrow> replay_result" where
  "not_compared platform failed before after =
     (let why = (case coalesce (reading_problem before) (reading_problem after) of
         Some w \<Rightarrow> w
       | None \<Rightarrow> ''no crash log is read on '' @ platform)
      in ended_with failed (\<lambda>f. f @ ''; crash not checked ('' @ why @ '')'')
           (''replayed without error; crash not checked ('' @ why @ '')''))"

definition compared :: "string option \<Rightarrow> crash_sample \<Rightarrow> crash_sample \<Rightarrow> replay_result" where
  "compared failed b a =
     (let fresh = cs_count a - cs_count b in
      if fresh > 0
      then judged Reproduced_Run (''the app crashed again during the flow: '' @
        (case drop (length (cs_signatures a) - fresh) (cs_signatures a) of [] \<Rightarrow> ''crash'' | s # _ \<Rightarrow> s))
      else ended_with failed (\<lambda>f. f @ '' (no crash of the app during it)'') ''no crash of the app during the flow'')"

definition judge_regression ::
  "string \<Rightarrow> string \<Rightarrow> string option \<Rightarrow> crash_reading \<Rightarrow> crash_reading \<Rightarrow> replay_result" where
  "judge_regression check platform flow_error before after =
     (let failed = flow_failed flow_error in
      if check = ''crash'' \<or> check = ''anr'' then
        (case (before, after) of
           (Some b, Some a) \<Rightarrow>
             if \<not> has_problem b \<and> \<not> has_problem a then compared failed b a else not_compared platform failed before after
         | _ \<Rightarrow> not_compared platform failed before after)
      else ended_with failed
        (\<lambda>f. f @ ''. A '' @ check @ '' finding'' @ [CHR 0x27] @
           ''s flow cannot tell the bug from a changed screen; look before reopening it'')
        (''replayed without error (a '' @ check @ '' finding'' @ [CHR 0x27] @ ''s flow cannot assert the bug'' @
           [CHR 0x27] @ ''s absence, only that the steps still run)''))"

text \<open>\<open>readCrashes\<close>: the two buffers, each \<open>Inl\<close> its error when \<open>logcat\<close> failed\<close>

definition read_crashes :: "string \<Rightarrow> string \<Rightarrow> string + string \<Rightarrow> string + string \<Rightarrow> crash_reading" where
  "read_crashes platform pkg crash_out events_out =
     (if platform \<noteq> ''android'' then None
      else case crash_out of
        Inl err \<Rightarrow> Some (unread (''logcat could not be read: '' @ take 120 err))
      | Inr out \<Rightarrow>
          let c = parse_crash_logcat out pkg;
              evs = (case events_out of Inl _ \<Rightarrow> [] | Inr t \<Rightarrow> parse_anr_events t pkg)
          in (case cs_problem c of
                Some w \<Rightarrow> Some (unread w)
              | None \<Rightarrow>
                  Some \<lparr>cs_count = cs_count c + length evs, cs_signatures = cs_signatures c @ evs, cs_problem = None\<rparr>))"

section \<open>All of them on a target\<close>

record regression_flow =
  rf_finding :: int
  rf_platform :: string
  rf_check :: string
  rf_maestro :: bool
  rf_kind :: string
  rf_flow :: string

text \<open>What happens around one flow: the buffers before and after, and what Maestro says, or an error thrown
  while it was set up.\<close>

record replay_world =
  rw_before :: crash_reading
  rw_after :: crash_reading
  rw_flow_error :: "string option"
  rw_throws :: "string option"

definition replay_one ::
  "string \<Rightarrow> string option \<Rightarrow> string list \<Rightarrow> string \<Rightarrow> replay_world \<Rightarrow> regression_flow \<Rightarrow> replay_result" where
  "replay_one platform app secrets flows_dir w f =
     (if \<not> rf_maestro f then judged Skipped_Run (''a '' @ rf_kind f @ '' flow; ui-test runs Maestro flows only'')
      else case prepare_flow (rf_flow f) app flows_dir of
        Inl e \<Rightarrow> judged Failed_Run (''could not run the flow: '' @ take 300 e)
      | Inr t \<Rightarrow>
          (case rw_throws w of
             Some e \<Rightarrow> judged Failed_Run (''could not run the flow: '' @ take 300 e)
           | None \<Rightarrow>
               let pkg = (case coalesce (flow_app_id t) app of None \<Rightarrow> [] | Some p \<Rightarrow> p);
                   err = map_option (\<lambda>e. if e \<noteq> [] \<and> secrets \<noteq> [] then redact e secrets else e) (rw_flow_error w)
               in judge_regression (rf_check f) platform err (if pkg = [] then None else rw_before w)
                    (if pkg = [] then None else rw_after w)))"

definition run_regressions ::
  "string \<Rightarrow> string option \<Rightarrow> string list \<Rightarrow> string \<Rightarrow> (int \<Rightarrow> replay_world) \<Rightarrow> regression_flow list \<Rightarrow>
   (int \<times> replay_result) list" where
  "run_regressions platform app secrets flows_dir world flows =
     map (\<lambda>f. (rf_finding f, replay_one platform app secrets flows_dir (world (rf_finding f)) f))
       (filter (\<lambda>f. rf_platform f = platform) flows)"

section \<open>Laws\<close>

lemma resolve_flow_inside:
  "resolve_flow dir exists nm = Inr p \<Longrightarrow> \<not> escapes (resolve_path ''/'' dir) p \<and> exists p"
  by (auto simp: resolve_flow_def Let_def split: if_splits)

lemma ended_outcome [simp]: "rp_outcome (ended_with failed f s) = (if failed = None then Passed_Run else Failed_Run)"
  by (simp add: ended_with_def judged_def split: option.split)

lemma not_compared_outcome [simp]:
  "rp_outcome (not_compared platform failed b a) = (if failed = None then Passed_Run else Failed_Run)"
  by (simp add: not_compared_def Let_def)

lemma compared_outcome:
  "rp_outcome (compared failed b a) =
     (if cs_count b < cs_count a then Reproduced_Run else if failed = None then Passed_Run else Failed_Run)"
  by (simp add: compared_def Let_def judged_def)

text \<open>When a run is judged to have brought the bug back, and when it counts as clean.\<close>

lemma judge_reproduced:
  "rp_outcome (judge_regression check platform err before after) = Reproduced_Run \<longleftrightarrow>
     (check = ''crash'' \<or> check = ''anr'') \<and>
     (\<exists>b a. before = Some b \<and> after = Some a \<and> \<not> has_problem b \<and> \<not> has_problem a \<and> cs_count b < cs_count a)"
  by (auto simp: judge_regression_def Let_def compared_outcome split: option.splits if_splits)

lemma judge_passed:
  "rp_outcome (judge_regression check platform err before after) = Passed_Run \<Longrightarrow> flow_failed err = None"
  by (auto simp: judge_regression_def Let_def compared_outcome split: option.splits if_splits)

lemma judge_not_skipped: "rp_outcome (judge_regression check platform err before after) \<noteq> Skipped_Run"
  by (auto simp: judge_regression_def Let_def compared_outcome split: option.splits if_splits)

lemma read_crashes_android: "read_crashes platform pkg c e \<noteq> None \<longleftrightarrow> platform = ''android''"
  by (simp add: read_crashes_def Let_def split: sum.split option.split)

lemma run_regressions_order: "map fst (run_regressions platform app secrets dir world flows) =
     map rf_finding (filter (\<lambda>f. rf_platform f = platform) flows)"
  by (simp add: run_regressions_def)

end
