(* ===== verification/Host_Properties.thy ===== *)
theory Host_Properties
  imports Host_Executor Regression_Replay
begin

text \<open>
  The properties of the host executor, and the cases where it departs from what its comments say.
\<close>

section \<open>Targets\<close>










section \<open>Rows\<close>

text \<open>
  C30: No job of the host executor closes as failed without a reason: whatever rows its workloads post and
  however they end, each row that reaches the collector, posted as the final row after any other rows, closes the
  job with a reason if it closes it as failed.
\<close>

theorem failed_host_job_says_why:
  assumes "row \<in> set (lo_posted (poll_loop name getenv dispatch rs))" "closing_status rows row = CFailed r"
  shows "r \<noteq> None"
  using not_silent_closes [OF _ assms(2)] rows_ok_loop [of name getenv dispatch rs] assms(1)
  by (auto simp: rows_ok_def)

definition demo_round :: poll_round where
  "demo_round =
     \<lparr>po_stopped = False, po_answer = Claimed (JObj [(''job_id'', JStr ''j'')]),
      po_pressure = \<lparr>pr_load1 = 0, pr_free_swap = None\<rparr>, po_post_ok = True\<rparr>"

definition demo_failing :: "js \<Rightarrow> workload_end" where
  "demo_failing job =
     \<lparr>wl_rows = [JObj [(''job_id'', JStr ''j''), (''final'', JBool True), (''ok'', JBool False)]], wl_end = run_ending.Returned\<rparr>"

lemma demo_posted:
  "lo_posted (poll_loop ''mac'' (\<lambda>_. None) demo_failing [demo_round]) =
     [JObj [(''job_id'', JStr ''j''), (''final'', JBool True), (''ok'', JBool False),
        (''error'', JStr ''failed; the workload reported no reason'')]]"
  by (simp add: poll_loop_def poll_once_def demo_round_def demo_failing_def Let_def pressure_reason_def env_number_def
      is_finite_def finish_job_def log_line_def send_row_def post_with_reason_def post_final_row_def text_field_def
      silent_failure_def said_def devices_seen_def with_error_def jset_def final_reason_def cut_def)

theorem failed_host_job_says_why_witness:
  "closing_status [] (hd (lo_posted (poll_loop ''mac'' (\<lambda>_. None) demo_failing [demo_round]))) \<noteq> CFailed None"
  using failed_host_job_says_why
    [of "hd (lo_posted (poll_loop ''mac'' (\<lambda>_. None) demo_failing [demo_round]))" "''mac''" "\<lambda>_. None" demo_failing
      "[demo_round]" "[]" None]
  by (auto simp: demo_posted)

text \<open>Every job the loop claims is answered: its workload returned, or the loop posts a final row for it.\<close>

lemma host_claim_answered:
  assumes "lo_life st = Polling" "po_answer r = Claimed job"
  shows "let st' = poll_once name getenv dispatch r st in
    case pressure_reason (po_pressure r) getenv of
      Some busy \<Rightarrow> answered name job True st st'
    | None \<Rightarrow> (case wl_end (dispatch job) of
        run_ending.Returned \<Rightarrow> True
      | run_ending.No_Targets m \<Rightarrow> answered name job True st st'
      | _ \<Rightarrow> answered name job False st st')"
proof -
  have life: "answered name job ok st (st1\<lparr>lo_life := x\<rparr>) \<longleftrightarrow> answered name job ok st st1" for ok st1 x
    by (simp add: answered_def)
  have log: "answered name job ok (log_line l st) st1 \<longleftrightarrow> answered name job ok st st1" for ok l st1
    by (simp add: answered_def)
  show ?thesis
  proof (cases "pressure_reason (po_pressure r) getenv")
    case None
    then show ?thesis
      using finish_answers [of name job "log_line l st" "po_post_ok r" "dispatch job" for l] assms
      by (auto simp: poll_once_def Let_def life log split: run_ending.splits)
  next
    case (Some busy)
    then show ?thesis
      using answered_own [of "log_line l st" st "[]" name job True for l] assms
      by (auto simp: poll_once_def Let_def life)
  qed
qed

section \<open>Departures\<close>

text \<open>Any simulator that is not an iPhone's joins the fleet, whatever it is called.\<close>

lemma other_simulators_walk_in:
  "tg_platform t \<noteq> ''ios'' \<Longrightarrow> \<not> is_emulator_serial (tg_id t) \<Longrightarrow> fleet_owned_target T sims t"
  by (simp add: fleet_owned_target_def virtual_name_of_def fleet_owned_def)

definition den_tv :: apple_info where
  "den_tv =
     \<lparr>ai_identifier = ''TV1'', ai_name = Some ''Den'', ai_marketing = Some ''Apple TV 4K'', ai_product = None,
      ai_os = Some ''18.2'', ai_transport = Some ''wired'', ai_tunnel = None, ai_pairing = Some ''paired'',
      ai_platform = Some ''tvOS''\<rparr>"

text \<open>An Apple TV is found as \<open>tvos\<close> and described as iOS; with no iPhone beside it, a job sees an iPhone.\<close>

lemma apple_tv_called_ios:
  "tg_platform (apple_target den_tv) = ''tvos''"
  "jget ''os'' (describe_target T (apple_target den_tv) None (Some [den_tv]) []) = JStr ''ios-18.2''"
  "jget ''model'' (describe_target T (apple_target den_tv) None (apples_for T [apple_target den_tv]) []) = JStr ''iphone''"
  "jget ''os'' (describe_target T (apple_target den_tv) None (apples_for T [apple_target den_tv]) []) = JStr ''ios''"
  by (simp_all add: apple_target_def den_tv_def apple_platform_def apple_name_def describe_target_def describe_apple_def
      filled_def apples_for_def some_ios_def describe_unknown_def attached_fields_def kind_text_def)

text \<open>A sweep of a host with no iPhone or iPhone simulator describes a booted Apple TV simulator as one of iOS.\<close>

lemma tv_simulator_registered_as_ios:
  assumes "tg_platform t = ''tvos''" "tg_kind t = Simulated" "\<not> list_ex (\<lambda>d. ai_identifier d = tg_id t) (ht_apple T)"
  shows "jget ''os'' (ps_descriptor (presence_of T (if some_ios [t] then ht_sims T else None) rokus t)) = JStr ''ios''"
proof -
  have "List.find (\<lambda>d. ai_identifier d = tg_id t) (ht_apple T) = None"
    using assms(3) by (auto simp: find_None list_ex_iff)
  then show ?thesis
    using assms by (simp add: presence_of_def Let_def describe_target_def some_ios_def describe_unknown_def)
qed

text \<open>A job never learns a Roku's version: a match on it that routed the job selects nothing.\<close>

lemma roku_version_unseen:
  "tg_platform t = ''roku'' \<Longrightarrow> jget ''os'' (descriptor_of T apples t) = JStr ''roku''"
  by (simp add: descriptor_of_def describe_target_def describe_roku_target_def attached_fields_def)

text \<open>A short lease is given the fallback, and a unit's own timeout is never held to the lease.\<close>

lemma budget_past_the_lease:
  "lease_budget_s (JObj [(''lease'', JObj [(''ttl_s'', JInt 20)])]) 570 = 570"
  "lease_budget_s (JObj [(''lease'', JObj [(''ttl_s'', JInt 60)]), (''params'', JObj [(''timeout_s'', JInt 600)])]) 570 = 600"
  by (simp_all add: lease_budget_s_def Let_def)

text \<open>A workload named like a member every object has is not refused as unsupported.\<close>

lemma inherited_name_dispatched:
  "dispatch_job name (\<lambda>nm. resolve_run broken inherited on_disk nm []) run_module run_handler
     (JObj [(''workload'', JStr ''constructor'')]) = \<lparr>wl_rows = [], wl_end = run_ending.Threw (inherited ''constructor'')\<rparr>"
  by (simp add: dispatch_job_def resolve_run_def bundled_run_def bundled_names_def inherited_names_def text_field_def)

text \<open>One row of its own that the collector does not take ends the loop for good.\<close>

lemma refused_row_ends_the_loop:
  assumes "lo_life st = Polling" "po_answer r = Claimed job" "\<not> po_post_ok r"
    "pressure_reason (po_pressure r) getenv = None" "wl_end (dispatch job) = run_ending.Threw m"
  shows "fold (poll_once name getenv dispatch) rs (poll_once name getenv dispatch r st) =
     poll_once name getenv dispatch r st"
  using assms by (intro crashed_stays) (simp add: poll_once_def Let_def finish_job_def own_row_def)

section \<open>Regression replays\<close>

text \<open>
  The property of the regression replays, and the cases where a replay says something else than what
  happened or than the comments promise.
\<close>






section \<open>Departures\<close>

text \<open>A stored flow may name any file of the host, as long as it names it absolutely.\<close>

lemma absolute_path_unrefused:
  "prepare_flow ''- runFlow: /etc/passwd'' None ''/flows'' =
     Inr (''- runFlow: '' @ [CHR 0x22] @ ''/etc/passwd'' @ [CHR 0x22])"
  "prepare_flow ''- runFlow: ../x'' None ''/flows'' =
     Inl (''the flow'' @ [CHR 0x27] @ ''s runFlow ../x escapes the flows dir'')"
  "resolve_flow ''/flows'' (\<lambda>_. True) ''/etc/passwd'' = Inl ''the flow /etc/passwd escapes the flows dir''"
  by code_simp+

text \<open>A new crash is reported under the signature of an old hang, which stands last in the reading.\<close>

definition reading :: "nat \<Rightarrow> string list \<Rightarrow> crash_reading" where
  "reading n sigs = Some \<lparr>cs_count = n, cs_signatures = sigs, cs_problem = None\<rparr>"

lemma crash_signed_as_old_hang:
  "judge_regression ''crash'' ''android'' None (reading 1 [''ANR: old'']) (reading 2 [''new crash'', ''ANR: old'']) =
     judged Reproduced_Run ''the app crashed again during the flow: ANR: old''"
  by code_simp

text \<open>An events buffer that can no longer be read after the flow hides a new crash.\<close>

lemma lost_events_hide_a_crash:
  assumes "parse_crash_logcat before pkg = crashes []" "parse_anr_events evs pkg = [''ANR: old'']"
    "parse_crash_logcat after pkg = crashes [sig]"
  shows "rp_outcome (judge_regression ''crash'' ''android'' None
      (read_crashes ''android'' pkg (Inr before) (Inr evs)) (read_crashes ''android'' pkg (Inr after) (Inl err))) =
    Passed_Run"
  using assms
  by (simp add: read_crashes_def crashes_def judge_regression_def Let_def has_problem_def compared_outcome flow_failed_def)

text \<open>A hang of another variant of the app counts as the app's: the package is looked for as a part of the line.\<close>

lemma other_variant_counted:
  "parse_anr_events ''I am_anr : [0,42,com.app.debug,8,Input dispatching timed out]'' ''com.app'' =
     [''ANR: Input dispatching timed out'']"
  by code_simp

text \<open>The parsers on what the tools print.\<close>

lemma meminfo_reads_pss:
  "parse_meminfo ('' TOTAL PSS:  930   TOTAL SWAP PSS:  15'') =
     \<lparr>me_pss_kb = Some 930, me_pid = None, me_problem = None\<rparr>"
  by code_simp

lemma gfxinfo_computes_share:
  "gf_pct (parse_gfxinfo (''Total frames rendered: 200'' @ [CHR 0x0D, CHR 0x0A] @ ''Janky frames: 10 (5,00%)'')) = Some 5"
  by code_simp

lemma crash_named_by_exception:
  "exception_of ''E AndroidRuntime: a.StateException: no'' = Some ''a.StateException: no''"
  "found (managed_line ''a.b'') ''E AndroidRuntime: Process: a.b, PID: 42''"
  by code_simp+

lemma simulator_crash_by_name:
  "sim_crash_of ''com.x.demo'' ''Saved crash report for Demo[42] v'' = Some ''crash report saved for Demo[42]''"
  by code_simp

end
