(* ===== verification/Visual_Baselines.thy ===== *)
theory Visual_Baselines
  imports Artifact_Laws
begin

text \<open>
  Visual baselines (\<open>collector/src/api/visual.ts\<close>): the table of accepted shots, the review grid of a suite,
  and accepting a shot, which pins its bytes. The columns \<open>accepted_at\<close> and \<open>accepted_from_job\<close>, which
  nothing but the listing reads, are left out.
\<close>

section \<open>The review grid\<close>

definition shot_of :: "js \<Rightarrow> js" where
  "shot_of p = jget ''shot'' p"

definition is_shot :: "string \<Rightarrow> js \<Rightarrow> bool" where
  "is_shot suite p \<longleftrightarrow>
     jget ''suite'' (shot_of p) = JStr suite \<and> truthy (jget ''page'' (shot_of p)) \<and> truthy (jget ''profile'' (shot_of p))"

definition iterations :: "id \<Rightarrow> store \<Rightarrow> result_row list" where
  "iterations i s = sort_key r_iter (filter (\<lambda>r. r_job_id r = i \<and> r_iter r > 0) (results s))"

definition shot_rows :: "id \<Rightarrow> string \<Rightarrow> store \<Rightarrow> js list" where
  "shot_rows i suite s = filter (is_shot suite) (map r_payload (iterations i s))"

definition shot_jobs :: "store \<Rightarrow> job list" where
  "shot_jobs s = take 100 (sort_key (\<lambda>j. - j_created_at j) (filter (\<lambda>j. j_workload j = ''web-shots'') (jobs s)))"

text \<open>\<open>/api/visual/baselines\<close> and \<open>/api/visual/suites\<close>\<close>

definition list_baselines :: "string option \<Rightarrow> store \<Rightarrow> baseline list" where
  "list_baselines suite s =
     take 1000 (case suite of
        None \<Rightarrow> sort_key (\<lambda>b. (bl_suite b, bl_page b, bl_profile b)) (baselines s)
      | Some x \<Rightarrow>
          if x = [] then sort_key (\<lambda>b. (bl_suite b, bl_page b, bl_profile b)) (baselines s)
          else sort_key (\<lambda>b. (bl_page b, bl_profile b)) (filter (\<lambda>b. bl_suite b = x) (baselines s)))"

text \<open>The first row of a run stands for it; its table order is given by the rows.\<close>

definition suite_of_run :: "store \<Rightarrow> job \<Rightarrow> string list" where
  "suite_of_run s j =
     (case filter (\<lambda>r. r_job_id r = j_id j \<and> r_iter r > 0) (results s) of
        [] \<Rightarrow> []
      | r # _ \<Rightarrow> (case jget ''suite'' (shot_of (r_payload r)) of JStr x \<Rightarrow> if x = [] then [] else [x] | _ \<Rightarrow> []))"

definition visual_suites :: "store \<Rightarrow> string list" where
  "visual_suites s = sort (nub (map bl_suite (baselines s) @ concat (map (suite_of_run s) (shot_jobs s))))"

text \<open>\<open>Math.min(Math.max(Number(q.runs ?? 10) || 10, 1), 25)\<close>\<close>

definition want_runs :: "string option \<Rightarrow> rat" where
  "want_runs raw =
     (case js_number (case raw of None \<Rightarrow> JInt 10 | Some x \<Rightarrow> JStr x) of
        Fin n \<Rightarrow> if n = 0 then 10 else min (max n 1) 25
      | NaN \<Rightarrow> 10
      | PInf \<Rightarrow> 25
      | NInf \<Rightarrow> 1)"

definition runs_of :: "string \<Rightarrow> rat \<Rightarrow> store \<Rightarrow> (job \<times> js list) list" where
  "runs_of suite want s =
     take (nat \<lceil>want\<rceil>) (filter (\<lambda>r. snd r \<noteq> []) (map (\<lambda>j. (j, shot_rows (j_id j) suite s)) (shot_jobs s)))"

definition slot_key :: "string \<Rightarrow> string \<Rightarrow> string" where
  "slot_key page profile = page @ CHR 0x7C # profile"

definition baseline_by_slot :: "string \<Rightarrow> store \<Rightarrow> string \<Rightarrow> string option" where
  "baseline_by_slot suite s =
     map_of (rev (map (\<lambda>b. (slot_key (bl_page b) (bl_profile b), bl_sha256 b))
       (filter (\<lambda>b. bl_suite b = suite) (baselines s))))"

datatype cell_status = Missing_Shot | New_Shot | Passing_Shot | Diverged_Shot

record past_cell =
  pc_job :: id
  pc_ok :: js
  pc_diff :: js

record visual_cell =
  vc_page :: js
  vc_profile :: js
  vc_status :: cell_status
  vc_ok :: js
  vc_diff :: js
  vc_note :: js
  vc_sha :: js
  vc_diff_sha :: js
  vc_baseline :: "string option"
  vc_history :: "past_cell list"

definition or_null :: "js \<Rightarrow> js" where
  "or_null v = jor v JNull"

definition diff_pct :: "js \<Rightarrow> js" where
  "diff_pct p = or_null (jget ''diff_pct'' (jget ''metrics'' p))"

definition cell_status :: "js \<Rightarrow> string option \<Rightarrow> cell_status" where
  "cell_status p base =
     (if \<not> truthy (jget ''sha256'' (shot_of p)) then Missing_Shot
      else if base = None \<or> base = Some [] then New_Shot
      else if truthy (jget ''ok'' p) then Passing_Shot else Diverged_Shot)"

definition past_of :: "js \<Rightarrow> job \<times> js list \<Rightarrow> past_cell" where
  "past_of p run =
     (case List.find (\<lambda>x. jget ''page'' (shot_of x) = jget ''page'' (shot_of p) \<and>
          jget ''profile'' (shot_of x) = jget ''profile'' (shot_of p)) (snd run) of
        Some h \<Rightarrow> \<lparr>pc_job = j_id (fst run), pc_ok = or_null (jget ''ok'' h), pc_diff = diff_pct h\<rparr>
      | None \<Rightarrow> \<lparr>pc_job = j_id (fst run), pc_ok = JNull, pc_diff = JNull\<rparr>)"

definition cell_of :: "(string \<Rightarrow> string option) \<Rightarrow> (job \<times> js list) list \<Rightarrow> js \<Rightarrow> visual_cell" where
  "cell_of base earlier p =
     (let sh = shot_of p; b = base (slot_key (js_string (jget ''page'' sh)) (js_string (jget ''profile'' sh)))
      in \<lparr>vc_page = jget ''page'' sh, vc_profile = jget ''profile'' sh, vc_status = cell_status p b,
          vc_ok = or_null (jget ''ok'' p), vc_diff = diff_pct p, vc_note = or_null (jget ''error'' p),
          vc_sha = or_null (jget ''sha256'' sh), vc_diff_sha = or_null (jget ''diff_sha256'' sh), vc_baseline = b,
          vc_history = map (past_of p) earlier\<rparr>)"

record visual_matrix =
  vm_runs :: "id list"
  vm_pages :: "js list"
  vm_profiles :: "js list"
  vm_cells :: "visual_cell list"

definition visual_matrix_of :: "string option \<Rightarrow> string option \<Rightarrow> store \<Rightarrow> refusal + visual_matrix" where
  "visual_matrix_of suite runs_asked s =
     (case suite of
        None \<Rightarrow> Inl (400, ''suite required'')
      | Some x \<Rightarrow>
          if x = [] then Inl (400, ''suite required'')
          else case runs_of x (want_runs runs_asked) s of
            [] \<Rightarrow> Inr \<lparr>vm_runs = [], vm_pages = [], vm_profiles = [], vm_cells = []\<rparr>
          | latest_run # earlier \<Rightarrow>
              Inr \<lparr>vm_runs = map (\<lambda>r. j_id (fst r)) (latest_run # earlier),
                vm_pages = nub (map (\<lambda>p. jget ''page'' (shot_of p)) (snd latest_run)),
                vm_profiles = nub (map (\<lambda>p. jget ''profile'' (shot_of p)) (snd latest_run)),
                vm_cells = map (cell_of (baseline_by_slot x s) earlier) (snd latest_run)\<rparr>)"

section \<open>Accepting a shot\<close>

definition slot_is :: "string \<Rightarrow> string \<Rightarrow> string \<Rightarrow> baseline \<Rightarrow> bool" where
  "slot_is suite page profile b \<longleftrightarrow> bl_suite b = suite \<and> bl_page b = page \<and> bl_profile b = profile"

definition put_baseline :: "baseline \<Rightarrow> baseline list \<Rightarrow> baseline list" where
  "put_baseline b bs =
     (let same = slot_is (bl_suite b) (bl_page b) (bl_profile b) in
      if list_ex same bs then map (\<lambda>x. if same x then b else x) bs else bs @ [b])"

definition missing_field :: "js \<Rightarrow> string option" where
  "missing_field body =
     List.find (\<lambda>f. \<not> truthy (jget f body) \<or> \<not> is_str (jget f body)) [''suite'', ''page'', ''profile'', ''sha256'']"

definition body_text :: "string \<Rightarrow> js \<Rightarrow> string" where
  "body_text k body = (case jget k body of JStr x \<Rightarrow> x | _ \<Rightarrow> [])"

definition baseline_reason :: "baseline \<Rightarrow> string" where
  "baseline_reason b =
     ''accepted visual baseline for '' @ bl_suite b @ ''/'' @ bl_page b @ '' ('' @ bl_profile b @ '')''"

definition accept_baseline :: "js \<Rightarrow> store \<Rightarrow> refusal + baseline \<times> store" where
  "accept_baseline body s =
     (case missing_field body of
        Some f \<Rightarrow> Inl (400, f @ '' required'')
      | None \<Rightarrow>
          let sha = body_text ''sha256'' body;
              b = \<lparr>bl_suite = body_text ''suite'' body, bl_page = body_text ''page'' body,
                   bl_profile = body_text ''profile'' body, bl_sha256 = sha\<rparr>
          in if \<not> is_sha256 sha then Inl (400, ''sha256 must be 64 hex chars'')
             else if \<not> has_row a_sha256 sha (artifacts s) then Inl (404, ''no such artifact: '' @ sha)
             else Inr (b, s\<lparr>baselines := put_baseline b (baselines s),
                            artifacts := update_row a_sha256 sha (pin_row True (Some (baseline_reason b))) (artifacts s)\<rparr>))"

section \<open>Laws\<close>

definition one_per_slot :: "baseline list \<Rightarrow> bool" where
  "one_per_slot bs \<longleftrightarrow> distinct (map (\<lambda>b. (bl_suite b, bl_page b, bl_profile b)) bs)"

lemma put_baseline_slots:
  "map (\<lambda>b. (bl_suite b, bl_page b, bl_profile b)) (put_baseline b bs) =
     map (\<lambda>b. (bl_suite b, bl_page b, bl_profile b)) bs @
       (if list_ex (slot_is (bl_suite b) (bl_page b) (bl_profile b)) bs then []
        else [(bl_suite b, bl_page b, bl_profile b)])"
  by (auto simp: put_baseline_def Let_def slot_is_def)

lemma put_baseline_one: "one_per_slot bs \<Longrightarrow> one_per_slot (put_baseline b bs)"
  unfolding one_per_slot_def put_baseline_slots by (auto simp: list_ex_iff slot_is_def)

lemma put_baseline_lookup:
  "List.find (slot_is suite page profile) (put_baseline b bs) =
     (if slot_is suite page profile b then Some b else List.find (slot_is suite page profile) bs)"
proof (cases "slot_is suite page profile b")
  case True
  have "list_ex (slot_is suite page profile) bs \<Longrightarrow>
    List.find (slot_is suite page profile) (map (\<lambda>x. if slot_is suite page profile x then b else x) bs) = Some b"
    using True by (induction bs) auto
  moreover have "\<not> list_ex (slot_is suite page profile) bs \<Longrightarrow>
    List.find (slot_is suite page profile) (bs @ [b]) = Some b"
    using True by (induction bs) auto
  ultimately show ?thesis using True by (auto simp: put_baseline_def Let_def slot_is_def)
next
  case False
  have m: "List.find (slot_is suite page profile)
      (map (\<lambda>x. if slot_is (bl_suite b) (bl_page b) (bl_profile b) x then b else x) bs) =
    List.find (slot_is suite page profile) bs"
    using False by (induction bs) (auto simp: slot_is_def)
  have "List.find (slot_is suite page profile) (bs @ [b]) = List.find (slot_is suite page profile) bs"
    using False by (induction bs) auto
  then show ?thesis using False m by (simp add: put_baseline_def Let_def)
qed

lemma accept_cases:
  assumes "accept_baseline body s = Inr (b, s')"
  shows "is_sha256 (bl_sha256 b)" "has_row a_sha256 (bl_sha256 b) (artifacts s)"
    "baselines s' = put_baseline b (baselines s)"
    "artifacts s' = update_row a_sha256 (bl_sha256 b) (pin_row True (Some (baseline_reason b))) (artifacts s)"
    "s' = s\<lparr>baselines := baselines s', artifacts := artifacts s'\<rparr>"
  using assms by (auto simp: accept_baseline_def Let_def split: option.splits if_splits)

lemma accepted_pinned:
  assumes "accept_baseline body s = Inr (b, s')" "a \<in> set (artifacts s')" "a_sha256 a = bl_sha256 b"
  shows "a_pinned a"
  using assms(2,3) unfolding accept_cases(4) [OF assms(1)] by (auto simp: update_row_def pin_row_def split: if_splits)

lemma accepted_in_pins:
  assumes "accept_baseline body s = Inr (b, s')"
  shows "bl_sha256 b \<in> set (pinned_shas s')"
proof -
  obtain a where "a \<in> set (artifacts s)" "a_sha256 a = bl_sha256 b"
    using accept_cases(2) [OF assms] by (auto simp: has_row_iff)
  then show ?thesis
    unfolding pinned_shas_def accept_cases(4) [OF assms] update_row_def
    by (auto simp: pin_row_def image_iff intro!: bexI [of _ a])
qed

lemma pinned_no_candidate: "a \<in> set (gc_candidates e days s l) \<Longrightarrow> a_sha256 a \<notin> set (pinned_shas s)"
  by (auto simp: gc_candidates_def Let_def protected_shas_def exploration_kept_def)

end
