(* ===== verification/Eval_Pivot.thy ===== *)
theory Eval_Pivot
  imports Registry "HOL-Library.AList"
begin

text \<open>
  Evals as a table (\<open>collector/src/api/evals.ts\<close>): result rows grouped into eval sets by the bytes they scored,
  each set pivoted by model and device, the rows that cannot be pivoted listed with the reason. Times are
  integer seconds; \<open>collate\<close> is \<open>localeCompare\<close>, given as "not after". The energy of a row is an argument where
  the collector integrates it from its own samples.
\<close>

section \<open>Families and metrics\<close>

datatype family = Vision | Llm | Speech | Embed

definition EVAL_WORKLOADS :: "string list" where
  "EVAL_WORKLOADS = [''batch'', ''speech-eval'', ''embed-eval'']"

definition VISION_BACKENDS :: "string list" where
  "VISION_BACKENDS = [''litert'', ''coreml'', ''tflite'', ''vision'']"

definition family_of :: "string \<Rightarrow> js \<Rightarrow> family" where
  "family_of w backend =
     (if w = ''speech-eval'' then Speech
      else if w = ''embed-eval'' then Embed
      else if js_string (jor backend (JStr [])) \<in> set VISION_BACKENDS then Vision else Llm)"

fun named_metrics :: "family \<Rightarrow> string list" where
  "named_metrics Vision = [''top1_pct'', ''top5_pct'', ''p50_ms'', ''p95_ms'', ''images_per_s'']"
| "named_metrics Llm = [''prefill_tok_s'', ''decode_tok_s'', ''ttft_ms'']"
| "named_metrics Speech = [''wer_pct'', ''rtf'', ''clips'']"
| "named_metrics Embed = [''recall_at_1'', ''recall_at_5'', ''recall_at_10'', ''docs_per_s'', ''dim'']"

fun family_text :: "family \<Rightarrow> string" where
  "family_text Vision = ''vision''"
| "family_text Llm = ''llm''"
| "family_text Speech = ''speech''"
| "family_text Embed = ''embed''"

text \<open>\<open>HEADLINE\<close>: key, label, unit, and whether more is better\<close>

fun headline :: "family \<Rightarrow> string \<times> string \<times> string \<times> bool" where
  "headline Vision = (''top1_pct'', ''Top-1'', ''%'', True)"
| "headline Llm = (''decode_tok_s'', ''Decode'', ''tok/s'', True)"
| "headline Speech = (''wer_pct'', ''WER'', ''%'', False)"
| "headline Embed = (''recall_at_1'', ''Recall@1'', [], True)"

section \<open>Work per joule\<close>

record per_joule =
  pj_value :: rat
  pj_unit :: string
  pj_basis :: string

text \<open>A count: a finite positive number.\<close>

definition count_of :: "js \<Rightarrow> rat option" where
  "count_of v = (case v of JNum (Fin r) \<Rightarrow> if r > 0 then Some r else None | _ \<Rightarrow> None)"

fun work_count :: "family \<Rightarrow> js \<Rightarrow> js \<Rightarrow> rat option \<times> string \<times> string" where
  "work_count Llm metrics params = (count_of (jget ''gen_tokens'' params), ''tok/J'', ''params.gen_tokens'')"
| "work_count Vision metrics params =
     (coalesce (count_of (jget ''images'' params))
        (coalesce (count_of (jget ''image_count'' params)) (count_of (jget ''count'' params))), ''img/J'', ''params.images'')"
| "work_count Speech metrics params = (count_of (jget ''clips'' metrics), ''clips/J'', ''metrics.clips'')"
| "work_count Embed metrics params =
     (coalesce (count_of (jget ''docs'' params)) (count_of (jget ''doc_count'' params)), ''docs/J'', ''params.docs'')"

definition per_joule_of :: "family \<Rightarrow> js \<Rightarrow> js \<Rightarrow> jsnum option \<Rightarrow> per_joule option" where
  "per_joule_of f metrics params wh =
     (case wh of
        Some (Fin e) \<Rightarrow>
          if e \<le> 0 then None
          else (case work_count f metrics params of
                  (None, _) \<Rightarrow> None
                | (Some n, u, b) \<Rightarrow> Some \<lparr>pj_value = n / (e * 3600), pj_unit = u, pj_basis = b\<rparr>)
      | _ \<Rightarrow> None)"

section \<open>Rows\<close>

record energy_view =
  en_wh :: jsnum
  en_method :: string
  en_source :: string

record eval_row =
  er_job :: id
  er_device :: id
  er_device_model :: js
  er_simulator :: bool
  er_at :: "int option"
  er_input :: "string option"
  er_workload :: string
  er_backend :: js
  er_model :: js
  er_quant :: js
  er_accel :: js
  er_metrics :: js
  er_params :: js
  er_energy :: "energy_view option"

datatype exclusion = No_Eval_Set | No_Named_Metric family

record excluded_row =
  ex_row :: eval_row
  ex_reason :: exclusion
  ex_present :: "string list"

record eval_cell =
  ec_row :: eval_row
  ec_metrics :: "(string \<times> jsnum option) list"
  ec_per_joule :: "per_joule option"

record model_row =
  mr_key :: string
  mr_model :: js
  mr_cells :: "(id \<times> eval_cell) list"

record eval_device =
  ed_id :: id
  ed_model :: js
  ed_simulator :: bool

record eval_set =
  es_input :: string
  es_family :: family
  es_workloads :: "string list"
  es_devices :: "eval_device list"
  es_models :: "model_row list"
  es_runs :: nat
  es_latest :: int
  es_excluded :: nat
  es_has_energy :: bool

section \<open>The pivot\<close>

definition present_metrics :: "js \<Rightarrow> string list" where
  "present_metrics m = (case m of JObj fs \<Rightarrow> map fst (filter (\<lambda>(k, v). v \<noteq> JNull \<and> v \<noteq> JUndef) fs) | _ \<Rightarrow> [])"

definition metric :: "js \<Rightarrow> string \<Rightarrow> jsnum option" where
  "metric m k = (case jget k m of JNum n \<Rightarrow> Some n | _ \<Rightarrow> None)"

definition row_family :: "eval_row \<Rightarrow> family" where
  "row_family r = family_of (er_workload r) (er_backend r)"

definition exclusion_of :: "eval_row \<Rightarrow> exclusion option" where
  "exclusion_of r =
     (if er_input r = None \<or> er_input r = Some [] then Some No_Eval_Set
      else if \<not> list_ex (\<lambda>k. metric (er_metrics r) k \<noteq> None) (named_metrics (row_family r))
        then Some (No_Named_Metric (row_family r))
      else None)"

definition input_of :: "eval_row \<Rightarrow> string" where
  "input_of r = (case er_input r of None \<Rightarrow> [] | Some x \<Rightarrow> x)"

definition excluded_of :: "eval_row list \<Rightarrow> excluded_row list" where
  "excluded_of rows =
     List.map_filter (\<lambda>r. map_option
       (\<lambda>e. \<lparr>ex_row = r, ex_reason = e, ex_present = present_metrics (er_metrics r)\<rparr>) (exclusion_of r)) rows"

text \<open>\<open>bySet\<close>: the sets in the order their first row comes\<close>

definition into_set :: "eval_row \<Rightarrow> (string \<times> eval_row list) list \<Rightarrow> (string \<times> eval_row list) list" where
  "into_set r sets =
     (if exclusion_of r \<noteq> None then sets
      else AList.update (input_of r) ((case map_of sets (input_of r) of None \<Rightarrow> [] | Some rs \<Rightarrow> rs) @ [r]) sets)"

definition by_set :: "eval_row list \<Rightarrow> (string \<times> eval_row list) list" where
  "by_set rows = fold into_set rows []"

definition or_text :: "js \<Rightarrow> string \<Rightarrow> string" where
  "or_text v d = js_string (jor v (JStr d))"

definition model_key :: "eval_row \<Rightarrow> string" where
  "model_key r =
     or_text (er_model r) ''?'' @ ''|'' @ or_text (er_quant r) [] @ ''|'' @ or_text (er_backend r) ''?'' @ ''|'' @
     or_text (er_accel r) []"

text \<open>\<open>t >= priorT\<close>, a row without a date being the oldest\<close>

definition not_older :: "int option \<Rightarrow> int option \<Rightarrow> bool" where
  "not_older t prior = (case prior of None \<Rightarrow> True | Some p \<Rightarrow> (case t of None \<Rightarrow> False | Some x \<Rightarrow> p \<le> x))"

definition eval_cell_of :: "family \<Rightarrow> eval_row \<Rightarrow> eval_cell" where
  "eval_cell_of f r =
     \<lparr>ec_row = r, ec_metrics = map (\<lambda>k. (k, metric (er_metrics r) k)) (named_metrics f),
      ec_per_joule = per_joule_of f (er_metrics r) (er_params r) (map_option en_wh (er_energy r))\<rparr>"

definition into_cells :: "family \<Rightarrow> eval_row \<Rightarrow> (id \<times> eval_cell) list \<Rightarrow> (id \<times> eval_cell) list" where
  "into_cells f r cells =
     (case map_of cells (er_device r) of
        None \<Rightarrow> AList.update (er_device r) (eval_cell_of f r) cells
      | Some prior \<Rightarrow>
          if not_older (er_at r) (er_at (ec_row prior))
          then AList.update (er_device r) (eval_cell_of f r) cells else cells)"

definition into_models :: "family \<Rightarrow> eval_row \<Rightarrow> (string \<times> model_row) list \<Rightarrow> (string \<times> model_row) list" where
  "into_models f r models =
     (let key = model_key r;
          row = (case map_of models key of None \<Rightarrow> \<lparr>mr_key = key, mr_model = er_model r, mr_cells = []\<rparr> | Some m \<Rightarrow> m)
      in AList.update key (row\<lparr>mr_cells := into_cells f r (mr_cells row)\<rparr>) models)"

definition into_devices :: "eval_row \<Rightarrow> (id \<times> eval_device) list \<Rightarrow> (id \<times> eval_device) list" where
  "into_devices r ds =
     AList.update (er_device r) \<lparr>ed_id = er_device r, ed_model = er_device_model r, ed_simulator = er_simulator r\<rparr> ds"

text \<open>\<open>sort\<close> with a comparison: stable, by insertion\<close>

fun insert_by :: "('a \<Rightarrow> 'a \<Rightarrow> bool) \<Rightarrow> 'a \<Rightarrow> 'a list \<Rightarrow> 'a list" where
  "insert_by le x [] = [x]"
| "insert_by le x (y # ys) = (if le x y then x # y # ys else y # insert_by le x ys)"

definition sort_by :: "('a \<Rightarrow> 'a \<Rightarrow> bool) \<Rightarrow> 'a list \<Rightarrow> 'a list" where
  "sort_by le xs = foldr (insert_by le) xs []"

text \<open>By name, then by key; \<open>collate a b\<close> and \<open>collate b a\<close> hold together where \<open>localeCompare\<close> gives zero.\<close>

definition model_not_after :: "(string \<Rightarrow> string \<Rightarrow> bool) \<Rightarrow> model_row \<Rightarrow> model_row \<Rightarrow> bool" where
  "model_not_after collate a b =
     (let x = or_text (mr_model a) []; y = or_text (mr_model b) [] in
      if \<not> collate x y then False else if \<not> collate y x then True else collate (mr_key a) (mr_key b))"

definition set_of :: "(string \<Rightarrow> string \<Rightarrow> bool) \<Rightarrow> excluded_row list \<Rightarrow> string \<times> eval_row list \<Rightarrow> eval_set" where
  "set_of collate excluded p =
     (let rows = snd p; f = row_family (hd rows) in
      \<lparr>es_input = fst p, es_family = f,
       es_workloads = sort (nub (map er_workload rows)),
       es_devices = sort_by (\<lambda>a b. collate (ed_id a) (ed_id b)) (map snd (fold into_devices rows [])),
       es_models = sort_by (model_not_after collate) (map snd (fold (into_models f) rows [])),
       es_runs = length rows,
       es_latest = Max (set (map (\<lambda>r. case er_at r of None \<Rightarrow> 0 | Some t \<Rightarrow> t) rows)),
       es_excluded = length (filter (\<lambda>e. er_input (ex_row e) = Some (fst p)) excluded),
       es_has_energy = list_ex (\<lambda>r. er_energy r \<noteq> None) rows\<rparr>)"

definition pivot_evals :: "(string \<Rightarrow> string \<Rightarrow> bool) \<Rightarrow> eval_row list \<Rightarrow> eval_set list \<times> excluded_row list" where
  "pivot_evals collate rows =
     (let excluded = excluded_of rows
      in (sort_key (\<lambda>s. - es_latest s) (map (set_of collate excluded) (by_set rows)), excluded))"

section \<open>Rows from the tables\<close>

definition own_energy :: "js \<Rightarrow> energy_view option" where
  "own_energy metrics =
     (case jget ''energy_wh'' metrics of
        JNum n \<Rightarrow>
          if is_finite n then
            Some \<lparr>en_wh = n,
              en_method = (case jget ''energy_method'' metrics of
                 JStr m \<Rightarrow> if m \<in> set [''plug'', ''plug-shared'', ''os''] then m else ''os''
               | _ \<Rightarrow> ''os''),
              en_source = ''result''\<rparr>
          else None
      | _ \<Rightarrow> None)"

definition object_of :: "js \<Rightarrow> js" where
  "object_of v = jor v (JObj [])"

definition eval_row_of :: "(id \<Rightarrow> id \<Rightarrow> energy_view option) \<Rightarrow> store \<Rightarrow> job \<Rightarrow> result_row \<Rightarrow> eval_row" where
  "eval_row_of metered s j r =
     (let params = object_of (jget ''params'' (j_spec j)); metrics = object_of (jget ''metrics'' (r_payload r));
          descriptor = (case find_row d_id (r_device_id r) (devices s) of None \<Rightarrow> JObj [] | Some d \<Rightarrow> d_descriptor d)
      in \<lparr>er_job = r_job_id r, er_device = r_device_id r, er_device_model = jor (jget ''model'' descriptor) JNull,
          er_simulator = is_simulator descriptor (r_device_id r), er_at = Some (r_created_at r),
          er_input = (case jget ''input_sha256'' params of JStr x \<Rightarrow> if x = [] then None else Some x | _ \<Rightarrow> None),
          er_workload = j_workload j, er_backend = jor (jget ''backend'' (j_spec j)) JNull,
          er_model = jor (jget ''name'' (jget ''model'' (j_spec j))) JNull,
          er_quant = jor (jget ''quant'' (jget ''model'' (j_spec j))) JNull,
          er_accel = jor (jget ''accelerator'' params) (jor (jget ''delegate'' params) JNull),
          er_metrics = metrics, er_params = params,
          er_energy = (case own_energy metrics of Some e \<Rightarrow> Some e | None \<Rightarrow> metered (r_job_id r) (r_device_id r))\<rparr>)"

definition final_eval_rows :: "store \<Rightarrow> (job \<times> result_row) list" where
  "final_eval_rows s =
     sort_key (\<lambda>(j, r). - r_created_at r)
       (concat (map (\<lambda>r. case find_row j_id (r_job_id r) (jobs s) of
          None \<Rightarrow> []
        | Some j \<Rightarrow>
            if j_workload j \<in> set EVAL_WORKLOADS \<and> jget ''final'' (r_payload r) \<in> {JBool True, JInt 1}
            then [(j, r)] else []) (results s)))"

definition eval_rows :: "(id \<Rightarrow> id \<Rightarrow> energy_view option) \<Rightarrow> string option \<Rightarrow> nat \<Rightarrow> store \<Rightarrow> eval_row list" where
  "eval_rows metered input lim0 s =
     filter (\<lambda>r. case input of None \<Rightarrow> True | Some x \<Rightarrow> x = [] \<or> er_input r = Some x)
       (map (\<lambda>(j, r). eval_row_of metered s j r) (take lim0 (final_eval_rows s)))"

text \<open>\<open>Math.min(2000, Math.max(50, Number(q.limit ?? 800) || 800))\<close>, bound to an integer column\<close>

definition eval_limit :: "string option \<Rightarrow> rat" where
  "eval_limit raw =
     (case js_number (case raw of None \<Rightarrow> JInt 800 | Some x \<Rightarrow> JStr x) of
        Fin n \<Rightarrow> if n = 0 then 800 else min 2000 (max 50 n)
      | NaN \<Rightarrow> 800
      | PInf \<Rightarrow> 2000
      | NInf \<Rightarrow> 50)"

section \<open>Laws\<close>

lemma eval_limit_bounds: "50 \<le> eval_limit raw \<and> eval_limit raw \<le> 2000"
  by (auto simp: eval_limit_def split: jsnum.splits)

lemma length_excluded: "length (excluded_of rows) = length (filter (\<lambda>r. exclusion_of r \<noteq> None) rows)"
  by (induction rows) (auto simp: excluded_of_def map_filter_simps split: option.splits)

lemma into_set_keys: "distinct (map fst sets) \<Longrightarrow> distinct (map fst (into_set r sets))"
  by (simp add: into_set_def distinct_update)

lemma by_set_lookup:
  assumes "distinct (map fst sets)"
  shows "map_of (fold into_set rows sets) x =
     (let new = filter (\<lambda>r. exclusion_of r = None \<and> input_of r = x) rows in
      case map_of sets x of
        None \<Rightarrow> if new = [] then None else Some new
      | Some rs \<Rightarrow> Some (rs @ new))"
  using assms
proof (induction rows arbitrary: sets)
  case (Cons r rows)
  have "distinct (map fst (into_set r sets))" by (rule into_set_keys [OF Cons.prems])
  from Cons.IH [OF this] show ?case
    by (auto simp: into_set_def update_conv' Let_def split: option.splits)
qed (simp split: option.split)

lemma by_set_distinct: "distinct (map fst (by_set rows))"
proof -
  have "distinct (map fst sets) \<Longrightarrow> distinct (map fst (fold into_set rows sets))" for sets
    by (induction rows arbitrary: sets) (simp_all add: into_set_keys)
  then show ?thesis by (simp add: by_set_def)
qed

text \<open>A set holds exactly the rows that scored its bytes and could be pivoted, in order.\<close>

lemma by_set_rows:
  "(x, rs) \<in> set (by_set rows) \<longleftrightarrow>
     rs = filter (\<lambda>r. exclusion_of r = None \<and> input_of r = x) rows \<and> rs \<noteq> []"
proof -
  have "(x, rs) \<in> set (by_set rows) \<longleftrightarrow> map_of (by_set rows) x = Some rs"
    using map_of_eq_Some_iff [OF by_set_distinct] by (metis (no_types))
  then show ?thesis by (auto simp: by_set_def by_set_lookup [of "[]"] Let_def)
qed

lemma set_insert_by: "set (insert_by le x xs) = insert x (set xs)"
  by (induction xs) auto

lemma set_sort_by [simp]: "set (sort_by le xs) = set xs"
  by (induction xs) (auto simp: sort_by_def set_insert_by)

lemma length_sort_by [simp]: "length (sort_by le xs) = length xs"
proof -
  have "length (insert_by le x ys) = Suc (length ys)" for x and ys :: "'a list" by (induction ys) auto
  then show ?thesis by (induction xs) (simp_all add: sort_by_def)
qed

lemma into_cells_keys: "map_of (into_cells f r cells) d \<noteq> None \<longleftrightarrow> map_of cells d \<noteq> None \<or> d = er_device r"
  by (auto simp: into_cells_def update_conv' split: option.splits)

text \<open>The cell of a device is a row of it that no other is newer than.\<close>

lemma not_older_trans: "not_older a b \<Longrightarrow> not_older b c \<Longrightarrow> not_older a c"
  by (auto simp: not_older_def split: option.splits)

lemma not_older_total: "not_older a b \<or> not_older b a"
  by (auto simp: not_older_def split: option.splits)

lemma not_older_refl [simp]: "not_older a a"
  by (auto simp: not_older_def split: option.splits)

lemma newest_cell:
  assumes "map_of (fold (into_cells f) rows cells) d = Some c"
  shows "(c = eval_cell_of f (ec_row c) \<and> ec_row c \<in> set rows \<and> er_device (ec_row c) = d \<or> map_of cells d = Some c) \<and>
    (\<forall>r \<in> set rows. er_device r = d \<longrightarrow> not_older (er_at (ec_row c)) (er_at r)) \<and>
    (\<forall>c'. map_of cells d = Some c' \<longrightarrow> not_older (er_at (ec_row c)) (er_at (ec_row c')))"
  using assms
proof (induction rows arbitrary: cells)
  case (Cons r rows)
  let ?cells = "into_cells f r cells"
  from Cons.IH [of ?cells] Cons.prems
  have IH: "c = eval_cell_of f (ec_row c) \<and> ec_row c \<in> set rows \<and> er_device (ec_row c) = d \<or> map_of ?cells d = Some c"
      "\<forall>r \<in> set rows. er_device r = d \<longrightarrow> not_older (er_at (ec_row c)) (er_at r)"
      "\<forall>c'. map_of ?cells d = Some c' \<longrightarrow> not_older (er_at (ec_row c)) (er_at (ec_row c'))"
    by auto
  have row: "ec_row (eval_cell_of f r) = r" by (simp add: eval_cell_of_def)
  show ?case
  proof (cases "er_device r = d")
    case False
    then have "map_of ?cells d = map_of cells d" by (auto simp: into_cells_def update_conv' split: option.splits)
    then show ?thesis using IH False by auto
  next
    case True
    then have at1: "not_older (er_at (ec_row c)) (er_at r)"
        "\<And>c'. map_of cells d = Some c' \<Longrightarrow> not_older (er_at (ec_row c)) (er_at (ec_row c'))"
      using IH(3) row not_older_total not_older_trans
      by (fastforce simp: into_cells_def update_conv' split: option.splits if_splits)+
    have "map_of ?cells d = Some c \<Longrightarrow> map_of cells d = Some c \<or> c = eval_cell_of f r"
      using True by (auto simp: into_cells_def update_conv' split: option.splits if_splits)
    then show ?thesis using IH at1 True row by auto
  qed
qed simp

end
