(* ===== verification/Wall_Power.thy ===== *)
theory Wall_Power
  imports Eval_Pivot Alerts
begin

text \<open>
  Energy from smart plugs (\<open>collector/src/watts.ts\<close>, \<open>power.ts\<close>): the path to the watts in a plug's answer, the
  sampler, the integration of samples over a job's window, and the energy of one job. Numbers are exact
  rationals; times are integers, milliseconds in the integration and seconds in the tables. A dash that is
  not an 8-bit character is written as two hyphens.
\<close>

section \<open>The path expression\<close>

datatype segment = Key string | Index nat

definition is_quoted :: "string \<Rightarrow> bool" where
  "is_quoted s \<longleftrightarrow> s \<noteq> [] \<and> hd s = last s \<and> (hd s = CHR 0x22 \<or> hd s = CHR 0x27)"

definition bracket_segment :: "string \<Rightarrow> segment" where
  "bracket_segment s =
     (if is_quoted s then Key (tl (butlast s))
      else if s \<noteq> [] \<and> list_all is_digit s then Index (digits_val s) else Key s)"

definition ends_segment :: "char \<Rightarrow> bool" where
  "ends_segment c \<longleftrightarrow> c = CHR ''.'' \<or> c = CHR ''[''"

lemma dropWhile_Cons_shorter: "dropWhile P s = x # r \<Longrightarrow> length r < Suc (length s)"
  using length_dropWhile_le [of P s] by simp

text \<open>\<open>None\<close> for a bracket that is not closed.\<close>

function path_segments :: "string \<Rightarrow> segment list option" where
  "path_segments [] = Some []"
| "path_segments (c # s) =
     (if c = CHR ''.'' then path_segments s
      else if c = CHR ''['' then
        (case dropWhile (\<lambda>d. d \<noteq> CHR '']'') s of
           [] \<Rightarrow> None
         | _ # r \<Rightarrow>
             map_option (Cons (bracket_segment (trim (takeWhile (\<lambda>d. d \<noteq> CHR '']'') s)))) (path_segments r))
      else
        let seg = trim (c # takeWhile (\<lambda>d. \<not> ends_segment d) s) in
        map_option (\<lambda>rest. if seg = [] then rest else Key seg # rest)
          (path_segments (dropWhile (\<lambda>d. \<not> ends_segment d) s)))"
  by pat_completeness auto
termination
  by (relation "measure length") (auto dest: dropWhile_Cons_shorter simp: le_imp_less_Suc length_dropWhile_le)

declare path_segments.simps [simp del]

definition parse_path :: "string \<Rightarrow> string + segment list" where
  "parse_path path =
     (case path_segments path of
        None \<Rightarrow> Inl (''unterminated '' @ [CHR 0x27] @ ''['' @ [CHR 0x27] @ '' in watts path: '' @ path)
      | Some [] \<Rightarrow> Inl (''empty watts path: '' @ [CHR 0x27] @ path @ [CHR 0x27])
      | Some segs \<Rightarrow> Inr segs)"

text \<open>\<open>cur[seg]\<close>; an array answers to its indices, written plainly, and to \<open>length\<close>.\<close>

definition array_member :: "string \<Rightarrow> js list \<Rightarrow> js" where
  "array_member k xs =
     (if k = ''length'' then JNum (Fin (of_nat (length xs)))
      else if k \<noteq> [] \<and> list_all is_digit k \<and> nat_str (digits_val k) = k \<and> digits_val k < length xs
        then xs ! digits_val k else JUndef)"

fun step_path :: "segment \<Rightarrow> js \<Rightarrow> js" where
  "step_path (Index n) (JArr xs) = (if n < length xs then xs ! n else JUndef)"
| "step_path (Index n) v = JUndef"
| "step_path (Key k) (JArr xs) = array_member k xs"
| "step_path (Key k) (JObj fs) = jget k (JObj fs)"
| "step_path (Key k) v = JUndef"

definition read_path :: "js \<Rightarrow> string \<Rightarrow> string + js" where
  "read_path v path =
     (case parse_path path of Inl e \<Rightarrow> Inl e | Inr segs \<Rightarrow> Inr (fold step_path segs v))"

definition extract_watts :: "js \<Rightarrow> string \<Rightarrow> jsnum \<Rightarrow> string + rat option" where
  "extract_watts body path scale =
     (case read_path body path of
        Inl e \<Rightarrow> Inl e
      | Inr raw \<Rightarrow>
          let n = (case raw of
                     JNum x \<Rightarrow> x
                   | JStr x \<Rightarrow> if trim x = [] then NaN else str_number x
                   | _ \<Rightarrow> NaN)
          in (case n of
                Fin x \<Rightarrow> Inr (Some (x * (case scale of Fin k \<Rightarrow> k | _ \<Rightarrow> 1)))
              | _ \<Rightarrow> Inr None))"

section \<open>Integration\<close>

record watt_sample =
  ws_t :: int
  ws_w :: rat

record integration =
  ig_wh :: "rat option"
  ig_raw :: "rat option"
  ig_samples :: nat
  ig_covered :: int
  ig_window :: int
  ig_gaps :: nat

record tally =
  tl_raw :: rat
  tl_net :: rat
  tl_covered :: int
  tl_gaps :: nat

definition add_pair :: "rat \<Rightarrow> int \<Rightarrow> watt_sample \<Rightarrow> watt_sample \<Rightarrow> tally \<Rightarrow> tally" where
  "add_pair base max_gap a b t =
     (let dt = ws_t b - ws_t a; mean = (ws_w a + ws_w b) / 2 in
      if dt \<le> 0 then t
      else if dt > max_gap then t\<lparr>tl_gaps := tl_gaps t + 1\<rparr>
      else t\<lparr>tl_raw := tl_raw t + mean * of_int dt, tl_net := tl_net t + (mean - base) * of_int dt,
             tl_covered := tl_covered t + dt\<rparr>)"

fun add_pairs :: "rat \<Rightarrow> int \<Rightarrow> watt_sample list \<Rightarrow> tally \<Rightarrow> tally" where
  "add_pairs base max_gap (a # b # rest) t = add_pairs base max_gap (b # rest) (add_pair base max_gap a b t)"
| "add_pairs base max_gap _ t = t"

definition in_window :: "int \<Rightarrow> int \<Rightarrow> watt_sample list \<Rightarrow> watt_sample list" where
  "in_window from_ms to_ms points = sort_key ws_t (filter (\<lambda>s. from_ms \<le> ws_t s \<and> ws_t s \<le> to_ms) points)"

definition to_wh :: "rat \<Rightarrow> rat" where "to_wh x = x / 3600000"

definition MAX_GAP_MS :: int where "MAX_GAP_MS = 5 * 60000"

definition integrate_wh :: "watt_sample list \<Rightarrow> int \<Rightarrow> int \<Rightarrow> rat \<Rightarrow> int \<Rightarrow> integration" where
  "integrate_wh points from_ms to_ms base max_gap =
     (let xs = in_window from_ms to_ms points; window = max 0 (to_ms - from_ms) in
      if length xs < 2
      then \<lparr>ig_wh = None, ig_raw = None, ig_samples = length xs, ig_covered = 0, ig_window = window, ig_gaps = 0\<rparr>
      else
        let t = add_pairs base max_gap xs \<lparr>tl_raw = 0, tl_net = 0, tl_covered = 0, tl_gaps = 0\<rparr>
        in \<lparr>ig_wh = (if tl_covered t = 0 then None else Some (to_wh (tl_net t))),
            ig_raw = (if tl_covered t = 0 then None else Some (to_wh (tl_raw t))),
            ig_samples = length xs, ig_covered = tl_covered t, ig_window = window, ig_gaps = tl_gaps t\<rparr>)"

definition median :: "rat list \<Rightarrow> rat option" where
  "median values =
     (let xs = sort values; mid = length xs div 2 in
      if xs = [] then None
      else Some (if odd (length xs) then xs ! mid else (xs ! (mid - 1) + xs ! mid) / 2))"

definition percentile :: "rat list \<Rightarrow> rat \<Rightarrow> rat option" where
  "percentile values p =
     (let xs = sort values; n = int (length xs) - 1 in
      if xs = [] then None else Some (xs ! nat (min n (max 0 (round_half_up (p * of_int n))))))"

section \<open>The sampler\<close>

definition metered_pool :: "js \<Rightarrow> bool" where
  "metered_pool p \<longleftrightarrow> truthy (jget ''read_url'' p) \<and> truthy (jget ''watts_path'' p)"

definition pools_of :: "js \<Rightarrow> obj" where
  "pools_of cfg = (case jget ''pools'' cfg of JObj ps \<Rightarrow> ps | _ \<Rightarrow> [])"

definition metered_pools :: "js \<Rightarrow> obj" where
  "metered_pools cfg = filter (\<lambda>(_, p). metered_pool p) (pools_of cfg)"

record power_sample =
  pw_pool :: string
  pw_watts :: rat
  pw_ts :: int

text \<open>One tick of one pool: the plug's answer, or the error of reading it.\<close>

definition worth_saying :: "nat \<Rightarrow> bool" where
  "worth_saying n \<longleftrightarrow> n = 1 \<or> n mod 20 = 0"

definition sample_tick ::
  "env \<Rightarrow> string \<Rightarrow> string + rat option \<Rightarrow> nat \<times> power_sample list \<times> string list \<Rightarrow>
   nat \<times> power_sample list \<times> string list" where
  "sample_tick e pool answer st =
     (case st of (failures, rows, logged) \<Rightarrow>
        (case answer of
           Inl err \<Rightarrow>
             (Suc failures, rows,
              logged @ (if worth_saying (Suc failures) then [''power read failed''] else []))
         | Inr None \<Rightarrow>
             (Suc failures, rows,
              logged @ (if worth_saying (Suc failures) then [''power read: watts_path found no number''] else []))
         | Inr (Some w) \<Rightarrow>
             (0, rows @ [\<lparr>pw_pool = pool, pw_watts = w, pw_ts = e_now e\<rparr>],
              logged @ (if failures > 0 then [''power read recovered''] else []))))"

definition power_retention :: "env \<Rightarrow> rat \<Rightarrow> bool \<Rightarrow> power_sample list \<Rightarrow> nat \<times> power_sample list" where
  "power_retention e days dry rows =
     (let old = (\<lambda>r. of_int (pw_ts r) \<le> of_int (e_now e) - days * 86400)
      in (length (filter old rows), if dry then rows else filter (\<lambda>r. \<not> old r) rows))"

section \<open>The energy of a job\<close>

datatype baseline_source = From_Config | Estimated_P10 | No_Baseline

definition baseline_watts :: "js \<Rightarrow> string \<Rightarrow> int \<Rightarrow> power_sample list \<Rightarrow> rat \<times> baseline_source" where
  "baseline_watts pc pool around rows =
     (case jget ''idle_watts'' pc of
        JNum (Fin w) \<Rightarrow> (w, From_Config)
      | _ \<Rightarrow>
          (case percentile (map pw_watts
               (filter (\<lambda>r. pw_pool r = pool \<and> around - 43200 \<le> pw_ts r \<and> pw_ts r \<le> around + 43200) rows)) (1 / 10) of
             None \<Rightarrow> (0, No_Baseline)
           | Some w \<Rightarrow> (w, Estimated_P10)))"

record job_energy =
  je_device :: id
  je_pool :: string
  je_wh :: rat
  je_method :: string
  je_window_s :: int
  je_covered_s :: int
  je_samples :: nat
  je_gaps :: nat
  je_baseline :: rat
  je_source :: baseline_source
  je_charging :: "bool option"
  je_note :: string

definition charging_in :: "id \<Rightarrow> int \<Rightarrow> int \<Rightarrow> store \<Rightarrow> bool option" where
  "charging_in dev t0 t1 s =
     (let bs = filter (\<lambda>b. b_device_id b = dev \<and> t0 \<le> b_ts b \<and> b_ts b \<le> t1) (beacon_samples s) in
      if bs = [] then None
      else Some (list_ex (\<lambda>b. jor (jget ''charging'' (jget ''beacon'' (b_sample b))) (jget ''charging'' (b_sample b))
             \<in> {JBool True, JInt 1}) bs))"

definition energy_note :: "string \<Rightarrow> string \<Rightarrow> rat \<times> baseline_source \<Rightarrow> bool option \<Rightarrow> integration \<Rightarrow> rat \<Rightarrow> string" where
  "energy_note pool how base charging out wh =
     join '' '' (
       [''Wall energy for pool '' @ [CHR 0x22] @ pool @ [CHR 0x22] @ '' over the job window, less a '' @
          to_fixed 2 (fst base) @ '' W idle baseline ('' @
          (case snd base of
             From_Config \<Rightarrow> ''measured, from power.json''
           | Estimated_P10 \<Rightarrow> ''ESTIMATED from the pool'' @ [CHR 0x27] @ ''s own samples, not measured''
           | No_Baseline \<Rightarrow> ''none available -- the charger'' @ [CHR 0x27] @ ''s own draw is still in this number'') @ '').''] @
       (if how = ''plug-shared''
        then [''This plug feeds several devices: the figure is the whole pool'' @ [CHR 0x27] @
          ''s and must not be divided per device.''] else []) @
       (case charging of
          Some True \<Rightarrow> [''The device was charging during this window, so the figure includes battery replenishment as well as the work.'']
        | Some False \<Rightarrow> []
        | None \<Rightarrow> [''No beacon covered this window, so whether the device was also charging is unknown.'']) @
       (if ig_gaps out > 0
        then [nat_str (ig_gaps out) @ '' sampling gap(s) were skipped rather than interpolated, so this is a floor.''] else []) @
       (let coverage = (if ig_window out > 0 then of_int (ig_covered out) / of_int (ig_window out) else (0 :: rat)) in
        if coverage < 9 / 10
        then [''Samples cover only '' @ int_str (round_half_up (coverage * 100)) @ ''% of the window.''] else []) @
       (if wh < 0
        then [''Negative: the idle baseline is higher than the draw observed during the job, which means the baseline is wrong.'']
        else []))"

text \<open>The device a job ran on: the caller's answer, the device of its first row, or who claimed it.\<close>

definition ran_on :: "id option \<Rightarrow> job \<Rightarrow> store \<Rightarrow> id option" where
  "ran_on asked j s =
     coalesce asked
       (coalesce (map_option r_device_id (List.find (\<lambda>r. r_job_id r = j_id j) (results s))) (j_claimed_by j))"

definition points_in :: "string \<Rightarrow> int \<Rightarrow> int \<Rightarrow> power_sample list \<Rightarrow> watt_sample list" where
  "points_in pool t0 t1 rows =
     map (\<lambda>r. \<lparr>ws_t = pw_ts r * 1000, ws_w = pw_watts r\<rparr>)
       (sort_key pw_ts (filter (\<lambda>r. pw_pool r = pool \<and> t0 \<le> pw_ts r \<and> pw_ts r \<le> t1) rows))"

definition energy_in ::
  "js \<Rightarrow> string \<Rightarrow> id \<Rightarrow> int \<Rightarrow> int \<Rightarrow> power_sample list \<Rightarrow> store \<Rightarrow> string + job_energy" where
  "energy_in pc pool dev t0 t1 rows s =
     (let how = (case jget ''energy_method'' pc of JStr m \<Rightarrow> m | _ \<Rightarrow> []);
          base = baseline_watts pc pool t0 rows;
          out = integrate_wh (points_in pool t0 t1 rows) (t0 * 1000) (t1 * 1000) (fst base) MAX_GAP_MS
      in if how \<noteq> ''plug'' \<and> how \<noteq> ''plug-shared'' then
           Inl (''pool '' @ pool @ '' does not declare energy_method -- set '' @ quote ''plug'' @
             '' (this plug feeds one device) or '' @ quote ''plug-shared'' @ '' (several devices behind it) in power.json'')
         else if t1 \<le> t0 then Inl ''job window is empty or unparseable''
         else case ig_wh out of
           None \<Rightarrow> Inl (''only '' @ nat_str (ig_samples out) @ '' power sample(s) inside the job window for pool '' @ pool)
         | Some wh \<Rightarrow>
             Inr \<lparr>je_device = dev, je_pool = pool, je_wh = wh, je_method = how,
               je_window_s = round_half_up (of_int (ig_window out) / 1000),
               je_covered_s = round_half_up (of_int (ig_covered out) / 1000),
               je_samples = ig_samples out, je_gaps = ig_gaps out, je_baseline = fst base, je_source = snd base,
               je_charging = charging_in dev t0 t1 s,
               je_note = energy_note pool how base (charging_in dev t0 t1 s) out wh\<rparr>)"

text \<open>\<open>energyForJob\<close>; \<open>where\<close> is the path of the configuration, which a refusal names.\<close>

definition energy_for_job ::
  "string \<Rightarrow> js option \<Rightarrow> power_sample list \<Rightarrow> store \<Rightarrow> id \<Rightarrow> id option \<Rightarrow> string + job_energy" where
  "energy_for_job place cfg rows s i asked =
     (case find_row j_id i (jobs s) of
        None \<Rightarrow> Inl ''no such job''
      | Some j \<Rightarrow>
          (case (j_claimed_at j, j_finished_at j) of
             (Some t0, Some t1) \<Rightarrow>
               (case ran_on asked j s of
                  None \<Rightarrow> Inl ''cannot tell which device ran this job''
                | Some dev \<Rightarrow>
                    if dev = [] then Inl ''cannot tell which device ran this job''
                    else case find_row d_id dev (devices s) of
                      None \<Rightarrow> Inl (''device '' @ dev @ '' is not registered, so its pool is unknown'')
                    | Some d \<Rightarrow>
                        (case cfg of
                           None \<Rightarrow> Inl (''no power config at '' @ place)
                         | Some c \<Rightarrow>
                             (case filter (\<lambda>p. metered_pool (jget p (jget ''pools'' c))) (effective_pools d) of
                                [] \<Rightarrow> Inl (''no metered pool for device '' @ dev)
                              | [pool] \<Rightarrow> energy_in (jget pool (jget ''pools'' c)) pool dev t0 t1 rows s
                              | ps \<Rightarrow>
                                  Inl (''device '' @ dev @ '' is in '' @ nat_str (length ps) @ '' metered pools ('' @
                                    join '', '' ps @ '') -- cannot attribute''))))
           | _ \<Rightarrow> Inl ''job has no claimed_at/finished_at window''))"

text \<open>What the eval table is given for a row that stored no energy of its own.\<close>

definition metered_energy ::
  "string \<Rightarrow> js option \<Rightarrow> power_sample list \<Rightarrow> store \<Rightarrow> id \<Rightarrow> id \<Rightarrow> energy_view option" where
  "metered_energy place cfg rows s i dev =
     (if (case cfg of None \<Rightarrow> [] | Some c \<Rightarrow> metered_pools c) = [] then None
      else case energy_for_job place cfg rows s i (Some dev) of
        Inl _ \<Rightarrow> None
      | Inr e \<Rightarrow> Some \<lparr>en_wh = Fin (je_wh e), en_method = je_method e, en_source = ''integrated''\<rparr>)"

section \<open>Laws\<close>

definition above_base :: "rat \<Rightarrow> tally \<Rightarrow> rat" where
  "above_base base t = tl_raw t - tl_net t - base * of_int (tl_covered t)"

lemma add_pair_net: "above_base base (add_pair base g a b t) = above_base base t"
  by (simp add: add_pair_def Let_def above_base_def algebra_simps)

lemma add_pairs_net: "above_base base (add_pairs base g xs t) = above_base base t"
  by (induction base g xs t rule: add_pairs.induct) (simp_all add: add_pair_net)

lemma add_pairs_covered:
  assumes "xs \<noteq> []" "sorted (map ws_t xs)"
  shows "tl_covered t \<le> tl_covered (add_pairs base g xs t) \<and>
     tl_covered (add_pairs base g xs t) \<le> tl_covered t + (ws_t (last xs) - ws_t (hd xs))"
  using assms
proof (induction base g xs t rule: add_pairs.induct)
  case (1 base g a b rest t)
  then have "tl_covered (add_pair base g a b t) \<le> tl_covered t + (ws_t b - ws_t a)"
      "tl_covered t \<le> tl_covered (add_pair base g a b t)"
    by (auto simp: add_pair_def Let_def)
  then show ?case using 1 by fastforce
qed simp_all

lemma add_pairs_bounds:
  assumes "\<forall>s \<in> set xs. lo \<le> ws_w s \<and> ws_w s \<le> hi"
  shows "lo * of_int (tl_covered (add_pairs base g xs t) - tl_covered t) \<le> tl_raw (add_pairs base g xs t) - tl_raw t \<and>
     tl_raw (add_pairs base g xs t) - tl_raw t \<le> hi * of_int (tl_covered (add_pairs base g xs t) - tl_covered t)"
  using assms
proof (induction base g xs t rule: add_pairs.induct)
  case (1 base g a b rest t)
  let ?t = "add_pair base g a b t"
  have m: "lo \<le> (ws_w a + ws_w b) / 2" "(ws_w a + ws_w b) / 2 \<le> hi" using 1 by auto
  have "lo * of_int (tl_covered ?t - tl_covered t) \<le> tl_raw ?t - tl_raw t \<and>
    tl_raw ?t - tl_raw t \<le> hi * of_int (tl_covered ?t - tl_covered t)"
    using m by (auto simp: add_pair_def Let_def intro: mult_right_mono)
  moreover have "lo * of_int (tl_covered (add_pairs base g (b # rest) ?t) - tl_covered ?t) \<le>
      tl_raw (add_pairs base g (b # rest) ?t) - tl_raw ?t \<and>
    tl_raw (add_pairs base g (b # rest) ?t) - tl_raw ?t \<le>
      hi * of_int (tl_covered (add_pairs base g (b # rest) ?t) - tl_covered ?t)"
    using 1 by auto
  ultimately show ?case by (simp add: algebra_simps)
qed simp_all

lemma in_window_sorted: "sorted (map ws_t (in_window a b points))"
  by (simp add: in_window_def)

lemma set_in_window: "set (in_window a b points) = {s \<in> set points. a \<le> ws_t s \<and> ws_t s \<le> b}"
  by (auto simp: in_window_def)

lemma integrate_covered:
  "0 \<le> ig_covered (integrate_wh points a b base g) \<and>
   ig_covered (integrate_wh points a b base g) \<le> ig_window (integrate_wh points a b base g)"
proof (cases "length (in_window a b points) < 2")
  case False
  let ?xs = "in_window a b points"
  have ne: "?xs \<noteq> []" using False by auto
  then have "ws_t (last ?xs) \<le> b" "a \<le> ws_t (hd ?xs)"
    using set_in_window [of a b points] last_in_set [OF ne] hd_in_set [OF ne] by auto
  with add_pairs_covered [OF ne in_window_sorted, of "\<lparr>tl_raw = 0, tl_net = 0, tl_covered = 0, tl_gaps = 0\<rparr>" base g]
  show ?thesis using False by (simp add: integrate_wh_def Let_def)
qed (simp add: integrate_wh_def Let_def)

lemma integrate_parts:
  assumes "ig_wh (integrate_wh points a b base g) = Some x"
  shows "\<exists>y. ig_raw (integrate_wh points a b base g) = Some y \<and>
    x = y - to_wh (base * of_int (ig_covered (integrate_wh points a b base g)))"
proof -
  let ?t = "add_pairs base g (in_window a b points) \<lparr>tl_raw = 0, tl_net = 0, tl_covered = 0, tl_gaps = 0\<rparr>"
  have n: "tl_net ?t = tl_raw ?t - base * of_int (tl_covered ?t)"
    using add_pairs_net [of base g _ "\<lparr>tl_raw = 0, tl_net = 0, tl_covered = 0, tl_gaps = 0\<rparr>"]
    by (simp add: above_base_def algebra_simps)
  have c: "\<not> length (in_window a b points) < 2" "tl_covered ?t \<noteq> 0"
    using assms by (auto simp: integrate_wh_def Let_def split: if_splits)
  then have "x = to_wh (tl_net ?t)" using assms by (simp add: integrate_wh_def Let_def)
  also have "\<dots> = to_wh (tl_raw ?t) - to_wh (base * of_int (tl_covered ?t))"
    unfolding n to_wh_def by (rule diff_divide_distrib)
  finally show ?thesis using c by (simp add: integrate_wh_def Let_def)
qed

lemma integrate_raw_bounds:
  assumes "ig_raw (integrate_wh points a b base g) = Some y"
    "\<forall>s \<in> set points. a \<le> ws_t s \<and> ws_t s \<le> b \<longrightarrow> lo \<le> ws_w s \<and> ws_w s \<le> hi"
  shows "to_wh (lo * of_int (ig_covered (integrate_wh points a b base g))) \<le> y \<and>
    y \<le> to_wh (hi * of_int (ig_covered (integrate_wh points a b base g)))"
proof -
  have "\<forall>s \<in> set (in_window a b points). lo \<le> ws_w s \<and> ws_w s \<le> hi"
    using assms(2) set_in_window by auto
  from add_pairs_bounds [OF this, of base g "\<lparr>tl_raw = 0, tl_net = 0, tl_covered = 0, tl_gaps = 0\<rparr>"]
  show ?thesis
    using assms(1) by (auto simp: integrate_wh_def Let_def to_wh_def divide_right_mono split: if_splits)
qed

text \<open>The figure of a job is the integral over its window.\<close>

lemma energy_in_fields:
  assumes "energy_in pc pool dev t0 t1 rows s = Inr e"
  shows "je_pool e = pool"
    "ig_wh (integrate_wh (points_in pool t0 t1 rows) (t0 * 1000) (t1 * 1000) (je_baseline e) MAX_GAP_MS) = Some (je_wh e)"
    "je_covered_s e = round_half_up (of_int
       (ig_covered (integrate_wh (points_in pool t0 t1 rows) (t0 * 1000) (t1 * 1000) (je_baseline e) MAX_GAP_MS)) / 1000)"
    "je_window_s e = round_half_up (of_int
       (ig_window (integrate_wh (points_in pool t0 t1 rows) (t0 * 1000) (t1 * 1000) (je_baseline e) MAX_GAP_MS)) / 1000)"
  using assms by (auto simp: energy_in_def Let_def split: option.splits if_splits)

end
