(* ===== verification/View_Properties.thy ===== *)
theory View_Properties
  imports Visual_Baselines Wall_Power Examples
begin

text \<open>
  The properties of the visual baselines, of the eval table and of the energy of a job, and what their views leave unsaid.
\<close>

section \<open>Baselines\<close>

text \<open>
  C38: An accepted shot is the truth from then on and its bytes stay. After accepting, the slot of the suite,
  page and profile holds the accepted hash and every other slot what it held; the table still has one row
  per slot; and as the artifact is pinned, garbage collection never offers it (not even as the picture of
  an old exploration) and deleting it is refused.
\<close>

theorem accepted_baseline_is_kept:
  assumes "accept_baseline body s = Inr (b, s')" "one_per_slot (baselines s)"
  shows "one_per_slot (baselines s') \<and>
    List.find (slot_is suite page profile) (baselines s') =
      (if slot_is suite page profile b then Some b else List.find (slot_is suite page profile) (baselines s)) \<and>
    bl_sha256 b \<notin> a_sha256 ` set (gc_candidates e days s' l) \<and> deletion_refusal (bl_sha256 b) s' \<noteq> None"
proof (intro conjI)
  show "one_per_slot (baselines s')" using put_baseline_one [OF assms(2)] accept_cases(3) [OF assms(1)] by simp
  show "List.find (slot_is suite page profile) (baselines s') =
      (if slot_is suite page profile b then Some b else List.find (slot_is suite page profile) (baselines s))"
    unfolding accept_cases(3) [OF assms(1)] by (rule put_baseline_lookup)
  show "bl_sha256 b \<notin> a_sha256 ` set (gc_candidates e days s' l)"
    using pinned_no_candidate accepted_in_pins [OF assms(1)] by force
  have "find_row a_sha256 (bl_sha256 b) (filter a_pinned (artifacts s')) \<noteq> None"
    using accepted_in_pins [OF assms(1)] by (simp add: find_row_None pinned_shas_def)
  then show "deletion_refusal (bl_sha256 b) s' \<noteq> None"
    by (auto simp: deletion_refusal_def split: option.splits)
qed

definition demo_shot_hash :: string where
  "demo_shot_hash = replicate 64 (CHR ''a'')"

definition demo_shot_store :: store where
  "demo_shot_store = empty_store\<lparr>artifacts :=
     [\<lparr>a_sha256 = demo_shot_hash, a_name = Some ''explore-run-1.png'', a_size = 1, a_created_at = 0, a_app = None,
       a_build = None, a_platform = None, a_media_type = None, a_published_at = None, a_publish_seq = None,
       a_channel = None, a_pinned = False, a_pin_reason = None\<rparr>]\<rparr>"

definition demo_accept_body :: js where
  "demo_accept_body =
     JObj [(''suite'', JStr ''web''), (''page'', JStr ''home''), (''profile'', JStr ''wide''), (''sha256'', JStr demo_shot_hash)]"

lemma demo_accepted:
  "\<exists>s'. accept_baseline demo_accept_body demo_shot_store =
     Inr (\<lparr>bl_suite = ''web'', bl_page = ''home'', bl_profile = ''wide'', bl_sha256 = demo_shot_hash\<rparr>, s')"
proof -
  have "missing_field demo_accept_body = None" "is_sha256 demo_shot_hash" by code_simp+
  then show ?thesis
    by (simp add: accept_baseline_def demo_accept_body_def body_text_def Let_def demo_shot_store_def has_row_iff)
qed

theorem accepted_baseline_is_kept_witness:
  "\<exists>s'. demo_shot_hash \<notin> a_sha256 ` set (gc_candidates (demo_env 9000000) None s' \<lparr>findings = [], verdict_log = [], regressions = []\<rparr>) \<and>
     List.find (slot_is ''web'' ''home'' ''wide'') (baselines s') \<noteq> None"
proof -
  obtain s' where s': "accept_baseline demo_accept_body demo_shot_store =
      Inr (\<lparr>bl_suite = ''web'', bl_page = ''home'', bl_profile = ''wide'', bl_sha256 = demo_shot_hash\<rparr>, s')"
    using demo_accepted by blast
  have "one_per_slot (baselines demo_shot_store)" by (simp add: one_per_slot_def demo_shot_store_def empty_store_def)
  from accepted_baseline_is_kept [OF s' this, where suite = "''web''" and page = "''home''" and profile = "''wide''"
      and e = "demo_env 9000000" and days = None and l = "\<lparr>findings = [], verdict_log = [], regressions = []\<rparr>"]
  show ?thesis by (intro exI [of _ s']) (simp add: slot_is_def)
qed

text \<open>The bytes of a shot that was the truth before stay pinned under its reason.\<close>

lemma superseded_stays_pinned:
  assumes "accept_baseline body s = Inr (b, s')" "a \<in> set (artifacts s)" "a_pinned a" "a_sha256 a \<noteq> bl_sha256 b"
  shows "a \<in> set (artifacts s')"
  using assms(2,4) unfolding accept_cases(4) [OF assms(1)] by (force simp: update_row_def)

text \<open>A person's reason for a pin is written over.\<close>

lemma pin_reason_overwritten:
  assumes "accept_baseline body s = Inr (b, s')" "a \<in> set (artifacts s')" "a_sha256 a = bl_sha256 b"
  shows "a_pin_reason a = Some (baseline_reason b)"
  using assms(2,3) unfolding accept_cases(4) [OF assms(1)] by (auto simp: update_row_def pin_row_def split: if_splits)

text \<open>Two slots of a suite whose names hold a bar are one to the review grid.\<close>

lemma slots_collide: "slot_key ''a|b'' ''c'' = slot_key ''a'' ''b|c''"
  by (simp add: slot_key_def)

section \<open>Evals\<close>

definition set_rows :: "(string \<times> eval_row list) list \<Rightarrow> nat" where
  "set_rows sets = sum_list (map (\<lambda>p. length (snd p)) sets)"

lemma lookup_le: "map_of sets k = Some w \<Longrightarrow> length w \<le> set_rows sets"
  using member_le_sum_list [of "length w" "map (\<lambda>p. length (snd p)) sets"] map_of_SomeD [of sets k w]
  by (force simp: set_rows_def)

lemma set_rows_Cons [simp]: "set_rows (p # sets) = length (snd p) + set_rows sets"
  by (simp add: set_rows_def)

lemma set_rows_update:
  "distinct (map fst sets) \<Longrightarrow>
     set_rows (AList.update k w sets) + (case map_of sets k of None \<Rightarrow> 0 | Some u \<Rightarrow> length u) = length w + set_rows sets"
proof (induction sets)
  case (Cons p sets)
  show ?case
  proof (cases "fst p = k")
    case True
    then have "map_of sets k = None" using Cons.prems by (auto simp: map_of_eq_None_iff)
    then show ?thesis using True by (cases p) simp
  next
    case False
    then show ?thesis using Cons by (cases p) simp
  qed
qed (simp add: set_rows_def)

lemma set_rows_into:
  assumes "distinct (map fst sets)"
  shows "set_rows (into_set r sets) = (if exclusion_of r = None then Suc (set_rows sets) else set_rows sets)"
proof -
  let ?old = "case map_of sets (input_of r) of None \<Rightarrow> [] | Some rs \<Rightarrow> rs"
  have "set_rows (AList.update (input_of r) (?old @ [r]) sets) = Suc (set_rows sets)"
    using set_rows_update [OF assms, of "input_of r" "?old @ [r]"] by (simp split: option.splits)
  then show ?thesis by (simp add: into_set_def)
qed

lemma by_set_total: "set_rows (by_set rows) = length (filter (\<lambda>r. exclusion_of r = None) rows)"
proof -
  have "distinct (map fst sets) \<Longrightarrow>
    set_rows (fold into_set rows sets) = set_rows sets + length (filter (\<lambda>r. exclusion_of r = None) rows)" for sets
    by (induction rows arbitrary: sets) (simp_all add: set_rows_into into_set_keys)
  from this [of "[]"] show ?thesis by (simp add: by_set_def set_rows_def)
qed

text \<open>
  C39: No row of an eval is lost on the way to the table: the runs of the sets and the rows listed as excluded
  add up to the rows that were read, whatever they hold.
\<close>

theorem eval_rows_accounted_for:
  "sum_list (map es_runs (fst (pivot_evals collate rows))) + length (snd (pivot_evals collate rows)) = length rows"
proof -
  have "sum_list (map es_runs (insort_key k s sets)) = es_runs s + sum_list (map es_runs sets)"
    for k :: "eval_set \<Rightarrow> int" and s sets by (induction sets) simp_all
  then have "sum_list (map es_runs (sort_key k sets)) = sum_list (map es_runs sets)"
    for k :: "eval_set \<Rightarrow> int" and sets by (induction sets) simp_all
  then have "sum_list (map es_runs (fst (pivot_evals collate rows))) = set_rows (by_set rows)"
    by (simp add: pivot_evals_def Let_def set_of_def set_rows_def o_def)
  then show ?thesis
    using sum_length_filter_compl [of "\<lambda>r. exclusion_of r = None" rows]
    by (simp add: by_set_total pivot_evals_def Let_def length_excluded)
qed

text \<open>A row of another family than its set's first is in the table, with no number in its cell and no word of it.\<close>

definition demo_eval :: "string \<Rightarrow> js \<Rightarrow> js \<Rightarrow> eval_row" where
  "demo_eval w backend metrics =
     \<lparr>er_job = w, er_device = w, er_device_model = JNull, er_simulator = False, er_at = Some 0, er_input = Some ''sha'',
      er_workload = w, er_backend = backend, er_model = JNull, er_quant = JNull, er_accel = JNull, er_metrics = metrics,
      er_params = JObj [], er_energy = None\<rparr>"

lemma mixed_set_blanks_a_row:
  fixes a b
  defines "a \<equiv> demo_eval ''speech-eval'' JNull (JObj [(''rtf'', JInt 1)])"
    and "b \<equiv> demo_eval ''batch'' (JStr ''vision'') (JObj [(''top1_pct'', JInt 90)])"
  shows "excluded_of [a, b] = []" "by_set [a, b] = [(''sha'', [a, b])]"
    "list_all (\<lambda>p. snd p = None) (ec_metrics (eval_cell_of (row_family a) b))"
  by (simp_all add: a_def b_def demo_eval_def excluded_of_def exclusion_of_def row_family_def family_of_def
      VISION_BACKENDS_def jor_def nullish_def metric_def map_filter_simps by_set_def into_set_def input_of_def
      eval_cell_of_def)

section \<open>Energy\<close>








end
