(* ===== verification/Spec2Isabelle.thy ===== *)
theory Spec2Isabelle
  imports Queue_Properties Enqueue_Properties Alert_Properties Finding_Properties
    Artifact_Properties Access_Properties Digest_Properties Supervisor_Properties
    Device_State_Properties Machine_Properties Explore_Properties Host_Properties View_Properties
begin

text \<open>
  A device fleet, modelled from \<open>collector/src\<close>, \<open>fleet/src\<close> and \<open>runner-machine/src\<close>. The collector is a server with a SQLite
  database: people and schedules put jobs on its queue, the agents that own devices and the executor on
  the host claim them by long polls, keep their claims alive with beacons, post results and artifacts,
  and report what they find. Everything below is a shallow embedding: a table is a list of records in
  row order, the database is the record \<open>store\<close>, a transaction or a handler is one function from the store
  to an answer and the new store, a refusal is the \<open>Inl\<close> of a sum with the status and the text the code
  answers, and a request body is a value of \<open>js\<close>, what \<open>JSON.parse\<close> can yield.

  \<^bold>\<open>Shared theories.\<close>
  \<^item> \<open>Prelude\<close>: the string operations of JavaScript the code uses, on lists of 8-bit characters; decimal
    printing; early exits; the collections of rules.
  \<^item> \<open>Js_Value\<close>: values, truthiness, \<open>String\<close>, \<open>JSON.stringify\<close>, property access. Numbers are
    exact rationals with NaN and the infinities; the rounding of doubles is not modelled.
  \<^item> \<open>Store\<close> (\<open>db.ts\<close>): a record per row of every table used, the store, and row updates with the locale
    \<open>row_update\<close>. Times are integer seconds (the column format of \<open>datetime('now')\<close>); the environment \<open>env\<close> of a
    request carries the clock, the offset of local time, the collector's name and \<open>e_regex\<close>.

  \<^bold>\<open>The queue.\<close>
  \<^item> \<open>Match_Expr\<close>, \<open>Match_Laws\<close> (\<open>match.ts\<close>): lexer, parser and evaluator of \<open>targets.match\<close>; acceptance does
    not depend on the device, printing and parsing are inverse on a class of conditions, the fuel of
    the parser (the number of tokens plus one) never runs out.
  \<^item> \<open>Reservation\<close> (\<open>reserved.ts\<close>): the label and the rule that a reserved device takes only work that pins it.
  \<^item> \<open>Tailnet\<close> (\<open>tailnet.ts\<close>) and \<open>Registry\<close> (\<open>api/shared.ts\<close>, \<open>registry-hygiene.ts\<close>, device routes of \<open>server.ts\<close>
    and \<open>api/mutations.ts\<close>): admission, registration, edits, forgetting, stale simulators. The locale
    \<open>registry_operation\<close> is what the queue relies on: such an operation leaves the other tables alone.
  \<^item> \<open>Cron\<close> (\<open>cron.ts\<close>): the matcher and the searches; \<open>HORIZON_MINUTES\<close> is the week the code walks, so the loop is
    a bounded recursion. \<open>Scheduler\<close>: schedules, \<open>schedulerTick\<close>, runs by hand, retries, priorities. The loop
    for a free retry id has the number of jobs plus one as fuel, enough because ids are finitely many.
  \<^item> \<open>Skip_Status\<close> (\<open>skip.ts\<close>): how a job closes, from its rows; the start-up backfill.
  \<^item> \<open>Dependencies\<close>, \<open>Settlement\<close> (\<open>api/mutations.ts\<close> 40-330): references between jobs, the cycle check, and the
    settlement of waiters when a job closes. \<open>settle\<close> has fuel, one more than the number of waiting jobs:
    each level of its recursion closes one, so the fuel is never used up (\<open>settlement_returns\<close>).
  \<^item> \<open>Queue\<close>, \<open>Queue_Laws\<close> (\<open>queue.ts\<close>): device selection, builds, \<open>enqueueJob\<close> with every refusal.
  \<^item> \<open>Claim\<close>, \<open>Claim_Laws\<close>, \<open>Lease\<close> (\<open>server.ts\<close>): eligibility, the claim transaction, preemption, the polls (\<open>LONG_POLL_S\<close>
    = 25 rounds of a second; what the others do between two rounds is an argument), leases and the
    sweep, beacons, results, release, locks and events. The choice of a job and the choice of the
    newest build are two interpretations of the locale \<open>best_choice\<close>.
  \<^item> \<open>Invariant\<close>, \<open>Lifecycle\<close>, \<open>Collector\<close>: the invariant of the job and lock tables, the locale \<open>job_table_op\<close> (an
    operation that keeps it, removes no job and reopens none) with an interpretation for every
    operation, the type \<open>request\<close> of everything the collector serves, the step relation and the stores it
    reaches, and the exclusion of claims by device.

  \<^bold>\<open>Around the queue.\<close>
  \<^item> \<open>Alerts\<close>, \<open>Alert_Laws\<close> (\<open>alerts.ts\<close>): the rules, the reconcile pass over the table, snoozes, the tick.
  \<^item> \<open>Findings\<close>, \<open>Issues\<close>, \<open>Verdicts\<close> (\<open>findings.ts\<close>, \<open>api/findings.ts\<close>): validation of what an exploration posts,
    folding of sightings by fingerprint, the issue that would be filed with its cap and fences,
    verdicts with their duplicate chains (a walk of at most \<open>MAX_HOPS\<close> = 20 steps, as the code has it),
    the life of a regression test. \<open>Finding_Laws\<close> proves the invariant for one step; \<open>Ledger_Runs\<close> is the
    ledger over time with the answers of GitHub arriving in any order.
  \<^item> \<open>Ledger_Views\<close>, \<open>Digest\<close>, \<open>Digest_Laws\<close> (\<open>findings.ts\<close> 1010-1432): the reading side of the ledger: filters
    and pages, the detail of a finding, the record of every check and which checks it stops, the morning
    digest and the tick that posts it at most once a day.
  \<^item> \<open>Artifacts\<close>, \<open>Artifact_Gc\<close>, \<open>Artifact_Laws\<close> (\<open>media-type.ts\<close>, artifact routes): uploads, the \<open>pr\<close>
    channel, ranges, what garbage collection keeps, templates, retention.
  \<^item> \<open>Access\<close> (\<open>auth.ts\<close>, \<open>api/policy.ts\<close>, \<open>api/guard.ts\<close>): tokens, the scope a route needs, the hook, and
    the checks on the job routes.

  \<^item> \<open>Visual_Baselines\<close> (\<open>api/visual.ts\<close>): the review grid of a suite and accepting a shot. \<open>Eval_Pivot\<close>
    (\<open>api/evals.ts\<close>): result rows into eval sets by model and device. \<open>Wall_Power\<close> (\<open>watts.ts\<close>, \<open>power.ts\<close>): the
    samples of a smart plug and the energy of a job, which the eval table takes.

  \<^bold>\<open>The host executor.\<close>
  \<^item> \<open>Host_Drivers\<close> (\<open>targets.ts\<close>, \<open>drivers\<close>, \<open>pressure.ts\<close>): what adb, simctl, devicectl and the Rokus of a network
    print, read into targets. \<open>Host_Targets\<close> (\<open>executor.ts\<close>): which of them a job runs on and what the presence
    sweep registers, over a record of what the tools answer.
  \<^item> \<open>Host_Executor\<close> (\<open>executor.ts\<close>, \<open>result-reason.ts\<close>, \<open>workloads/registry.ts\<close>): the reasons of failed
    rows, finding a workload, and the poll loop as a function of rounds, each a poll's answer, the pressure of
    the host and whether the loop's own row is taken.
  \<^item> \<open>Soak_Samples\<close> (\<open>soak-samples.ts\<close>): what a device prints about a running app. \<open>Regression_Replay\<close>
    (\<open>workloads/regressions.ts\<close>): the flows of fixed findings made runnable, run and judged.
  \<^item> \<open>Host_World\<close>: what the settings journal and network shaping run in. A program is a function of a world and of the
    outcomes its commands will have: each may work, be ignored, fail before or after it took effect, or be the
    last thing the process does. The logic \<open>io_ok\<close> has a postcondition for each way to end, \<open>runs\<close> is total.
  \<^item> \<open>Device_State\<close>, \<open>Device_State_Laws\<close> (\<open>device-state.ts\<close>): the settings journal: reading what adb and simctl
    print, applying and verifying a group of settings, restoring it, the sweep at start-up.
  \<^item> \<open>Network_Shape\<close> (\<open>network-shape.ts\<close>): profiles, taking a device off the network and putting it back, dummynet
    on the host, the timer of a delayed disconnection.

  \<^bold>\<open>The explorer\<close> (\<open>collector/src/workloads/explore\<close>), a model that drives an app and reports what it finds.
  \<^item> \<open>Text_Pattern\<close>: regular expressions as a datatype with the places a match ends, in the order JavaScript tries
    them. \<open>A11y_Tree\<close> (\<open>a11y-tree.ts\<close>): the trees of three platforms and the check of labels and sizes.
  \<^item> \<open>Explore_Act\<close> (\<open>leash.ts\<close>, \<open>model.ts\<close>): tool calls into actions, snapping a tap to a control, the leash.
    \<open>Explore_Map\<close> (\<open>screenmap.ts\<close>): the screens seen and how a look is placed among them.
  \<^item> \<open>Explore_Mission\<close>, \<open>Explore_Confirm\<close> (\<open>loop.ts\<close>, \<open>index.ts\<close>): the loop of a mission over what each look and
    each call of the model gives, the oracles, the end, the replays on the bench, and which findings are filed.
    \<open>run_mission\<close> terminates by the steps left and, within a step, the two reloads of the model left.
  \<^item> \<open>Explore_Report\<close>, \<open>Explore_Night\<close> (\<open>replay.ts\<close>, \<open>replay-tvloop.ts\<close>, \<open>night.ts\<close>): the flows and bodies posted to
    the ledger of \<open>Findings\<close>, and the plan of a night.
  \<^item> \<open>Explore_Laws\<close> has the locale \<open>mission_run\<close>, a property of the state that every part of a step keeps, with
    three interpretations: what was done had passed the leash, what is switched off is not flagged, and the log of
    actions only grows. \<open>Explore_Filing_Laws\<close> ties filing to what the collector's validation takes.

  \<^bold>\<open>On the machines.\<close>
  \<^item> \<open>Supervisor\<close> (\<open>fleet/src/supervisor.ts\<close>): the process that keeps the components of a
    machine running. Its step relation is over exits, failed spawns, timers and \<open>stop\<close>; the laws tie its
    restart counters to the lengths of the runs that ended.
  \<^item> \<open>Machine_Agent\<close> (\<open>runner-machine/src/agent.ts\<close>, \<open>cancellation.ts\<close>, \<open>beaconing.ts\<close>): the agent of
    a laptop, one claim loop and one beacon loop per collector and a gate between them. An event ends an
    await; \<open>agent_step\<close> runs the code from there to the next one.
  \<^item> \<open>Machine_Routes\<close> (\<open>routes.ts\<close>, \<open>buildkinds.ts\<close>, \<open>workloads/selfcheck.ts\<close>): the table that both declares and dispatches,
    build plans, the self-check.
  \<^item> \<open>Shell_Gate\<close>, \<open>Shell_Laws\<close> (\<open>allowlist.ts\<close>, \<open>redact.ts\<close>, \<open>workloads/shell.ts\<close>): the shell workload's trust boundary.
  \<^item> \<open>Eval_Scoring\<close>, \<open>Machine_Data\<close>, \<open>Machine_Laws\<close> (\<open>scoring.ts\<close>, \<open>workloads/llmeval.ts\<close>, \<open>logtail.ts\<close>, \<open>clock.ts\<close>,
    \<open>recipes.ts\<close>, \<open>git.ts\<close>, \<open>backends/synthetic.ts\<close>): judging completions, and the smaller codecs.

  \<^bold>\<open>Properties.\<close> They stand in the theories whose names end in \<open>_Properties\<close>: \<open>Queue\<close> (reachable stores, claims,
  leases, settlement), \<open>Enqueue\<close>, \<open>Finding\<close>, \<open>Alert\<close>, \<open>Artifact\<close>, \<open>Access\<close>, \<open>Digest\<close>, \<open>Supervisor\<close>,
  \<open>Device_State\<close> (with network profiles), \<open>Machine\<close>,
  \<open>Explore\<close>, \<open>Host\<close> (with the replays) and \<open>View\<close>. Each property comes after a text
  that says what it means for the code; \<open>Examples\<close> holds the concrete inputs their witnesses evaluate. The same
  theories hold, as plain lemmas, the cases in which the code departs from its comments or from what it means to
  do: the sweep strands waiters, a read token can claim, a physical Apple TV is described as iOS, a stored flow may
  name any file of the host, a superseded baseline stays pinned.

  \<^bold>\<open>Parameters.\<close> \<open>e_regex\<close> is \<open>RegExp.test\<close> (\<open>None\<close> when the pattern does not compile), and the explorer and the
  scoring take the same for patterns people write; what \<open>JSON.parse\<close> and \<open>Date.parse\<close> make of a text, SHA-1 and
  SHA-256, the random token bytes and \<open>localeCompare\<close> are arguments of the operations that use them, with
  injectivity of a hash as a named hypothesis where a property needs it. So are the answers of tailscale, of
  GitHub, of a plug, of devices and their tools, of models and judges, and of child processes. Where local
  time matters it is a fixed offset from UTC. Bounds of the code (the week of cron, the 20 hops, the 25 rounds)
  are kept as they are; fuel is used in the match parser, the settlement of waiters, the search for a free retry
  id and the replacement of sub-flows, each time with the size of what every round consumes.

  \<^bold>\<open>Not modelled.\<close> Old migrations and the transaction shim of \<open>db.ts\<close> (each transaction is one step, which is
  what SQLite gives a single process); webhooks, GitHub statuses, the live stream, the mirror, the switching of plugs
  and mDNS, which are output or device I/O without effect on the tables modelled; the read-only
  endpoints of the dashboard, which select fields of rows; of the host executor what each workload does with
  Maestro, \<open>xcodebuild\<close>, adb and Playwright, long sequences of commands with little logic of their own, with the
  web audits and the actuators of the explorer (apart from their parsers named above); the machine's build, serve
  and conversion workloads, which run tools; the fleet command line with its service files; the generated client,
  the dashboard and the runners in other languages. Of the numbers, the rounding of doubles; of strings, characters
  beyond 8 bits.
\<close>

end
